(* ===== verification/Prelude.thy ===== *)
theory Prelude
  imports Main "HOL-Library.List_Lexorder" "HOL-Library.Sublist"
begin

text \<open>
  Shared vocabulary of the development: Rust strings, instants, results, and the few SQL
  table operations the server's statements are made of, each with the lemmas the component
  theories rewrite with.

  \<^item> A Rust \<open>String\<close> is the list of its Unicode scalar values, \<open>rstr\<close>; \<open>utf8\<close> gives its
    bytes, so \<open>str::len\<close> is \<open>strlen\<close> and \<open>chars().count()\<close> is \<open>length\<close>. String literals of the
    source are written \<open>lit ''...''\<close>.
  \<^item> A \<open>chrono::DateTime<Utc>\<close> is an \<open>instant\<close>, the nanoseconds since the epoch. A timestamp
    column holds RFC 3339 text with milliseconds; it is modelled by the millisecond number
    \<open>millis t\<close>. For the years 0000 to 9999 that text has a fixed width, so SQLite's text order is
    the order of the numbers.
  \<^item> A table is the list of its rows in rowid order.
\<close>

named_theorems str_simps \<open>facts about strings of the source\<close>
named_theorems table_simps \<open>facts about table operations\<close>

section \<open>Strings\<close>

type_synonym byte = nat
type_synonym rstr = "nat list"

definition lit :: "string \<Rightarrow> rstr" where
  "lit s = map of_char s"

lemma lit_eq_iff [simp]: "lit s = lit t \<longleftrightarrow> s = t"
  by (simp add: lit_def inj_map_eq_map inj_def)

lemma lit_Nil [simp]: "lit [] = []" and lit_eq_Nil [simp]: "lit s = [] \<longleftrightarrow> s = []"
  by (simp_all add: lit_def)

lemma lit_eq_Nil' [simp]: "[] = lit s \<longleftrightarrow> s = []"
  by (auto simp: lit_def)

lemma length_lit [simp]: "length (lit s) = length s"
  by (simp add: lit_def)

lemma lit_append: "lit (s @ t) = lit s @ lit t"
  by (simp add: lit_def)

text \<open>\<open>char::is_whitespace\<close> (the Unicode property White_Space) and \<open>char::is_control\<close> (category Cc).\<close>

definition is_whitespace :: "nat \<Rightarrow> bool" where
  "is_whitespace c \<longleftrightarrow>
     9 \<le> c \<and> c \<le> 13 \<or> c = 32 \<or> c = 133 \<or> c = 160 \<or> c = 5760 \<or> 8192 \<le> c \<and> c \<le> 8202 \<or>
     c = 8232 \<or> c = 8233 \<or> c = 8239 \<or> c = 8287 \<or> c = 12288"

definition is_control :: "nat \<Rightarrow> bool" where
  "is_control c \<longleftrightarrow> c < 32 \<or> 127 \<le> c \<and> c < 160"

definition is_ascii_digit :: "nat \<Rightarrow> bool" where
  "is_ascii_digit c \<longleftrightarrow> 48 \<le> c \<and> c \<le> 57"

definition is_ascii_alphabetic :: "nat \<Rightarrow> bool" where
  "is_ascii_alphabetic c \<longleftrightarrow> 65 \<le> c \<and> c \<le> 90 \<or> 97 \<le> c \<and> c \<le> 122"

definition is_ascii_alphanumeric :: "nat \<Rightarrow> bool" where
  "is_ascii_alphanumeric c \<longleftrightarrow> is_ascii_digit c \<or> is_ascii_alphabetic c"

definition is_ascii_hexdigit :: "nat \<Rightarrow> bool" where
  "is_ascii_hexdigit c \<longleftrightarrow> is_ascii_digit c \<or> 65 \<le> c \<and> c \<le> 70 \<or> 97 \<le> c \<and> c \<le> 102"

definition is_ascii :: "nat \<Rightarrow> bool" where
  "is_ascii c \<longleftrightarrow> c < 128"

lemmas char_class_defs = is_whitespace_def is_control_def is_ascii_digit_def
  is_ascii_alphabetic_def is_ascii_alphanumeric_def is_ascii_hexdigit_def is_ascii_def

text \<open>UTF-8, the representation behind \<open>str::len\<close> and \<open>str::as_bytes\<close>.\<close>

definition utf8_char :: "nat \<Rightarrow> byte list" where
  "utf8_char c =
     (if c < 128 then [c]
      else if c < 2048 then [192 + c div 64, 128 + c mod 64]
      else if c < 65536 then [224 + c div 4096, 128 + (c div 64) mod 64, 128 + c mod 64]
      else [240 + c div 262144, 128 + (c div 4096) mod 64, 128 + (c div 64) mod 64, 128 + c mod 64])"

definition utf8 :: "rstr \<Rightarrow> byte list" where
  "utf8 s = concat (map utf8_char s)"

definition strlen :: "rstr \<Rightarrow> nat" where
  "strlen s = length (utf8 s)"

lemma utf8_simps [simp]: "utf8 [] = []" "utf8 (c # s) = utf8_char c @ utf8 s"
  "utf8 (s @ t) = utf8 s @ utf8 t"
  by (simp_all add: utf8_def)

lemma utf8_char_ascii [simp]: "c < 128 \<Longrightarrow> utf8_char c = [c]"
  by (simp add: utf8_char_def)

lemma utf8_char_nonempty [simp]: "utf8_char c \<noteq> []"
  by (simp add: utf8_char_def)

lemma utf8_ascii: "list_all is_ascii s \<Longrightarrow> utf8 s = s"
  by (induction s) (auto simp: is_ascii_def)

lemma utf8_all_ascii: "list_all is_ascii (utf8 s) \<Longrightarrow> list_all is_ascii s"
  by (induction s) (auto simp: is_ascii_def utf8_char_def split: if_splits)

lemma utf8_Nil_iff [simp]: "utf8 s = [] \<longleftrightarrow> s = []"
  by (cases s) auto

lemma utf8_ascii_eq: "list_all is_ascii (utf8 s) \<Longrightarrow> utf8 s = s"
  by (rule utf8_ascii, rule utf8_all_ascii)

lemma length_le_strlen: "length s \<le> strlen s"
proof (induction s)
  case (Cons c s)
  have "1 \<le> length (utf8_char c)" by (cases "utf8_char c") auto
  with Cons show ?case by (simp add: strlen_def)
qed (simp add: strlen_def)

text \<open>The encoding is injective: the first byte fixes the width, the bytes fix the digits.\<close>

lemma div_mod_64_inject:
  fixes c d :: nat
  shows "c div 64 = d div 64 \<Longrightarrow> c mod 64 = d mod 64 \<Longrightarrow> c = d"
  by (metis div_mult_mod_eq)

lemma div_64_chain:
  fixes c :: nat
  shows "c div 4096 = c div 64 div 64" and "c div 262144 = c div 64 div 64 div 64"
  by (simp_all flip: div_mult2_eq)

lemma utf8_char_append_inject:
  assumes "utf8_char c @ u = utf8_char d @ v"
  shows "c = d \<and> u = v"
proof -
  define w where "w c = (if c < 128 then 1 else if c < 2048 then 2 else if c < 65536 then 3 else 4 :: nat)"
    for c :: nat
  have small: "c < 2048 \<Longrightarrow> c div 64 < 32" "c < 65536 \<Longrightarrow> c div 64 div 64 < 16" for c :: nat
    by (simp_all flip: div_mult2_eq add: div_less_iff_less_mult)
  have w: "w c = w d"
    using assms small [of c] small [of d]
    by (auto simp: utf8_char_def w_def div_64_chain split: if_splits)
  show ?thesis
    using assms w
    by (auto simp: utf8_char_def w_def div_64_chain split: if_splits intro: div_mod_64_inject)
qed

lemma utf8_inject [simp]: "utf8 s = utf8 t \<longleftrightarrow> s = t"
proof
  show "utf8 s = utf8 t \<Longrightarrow> s = t"
  proof (induction s arbitrary: t)
    case (Cons c s)
    then show ?case by (cases t) (auto dest: utf8_char_append_inject)
  qed (metis utf8_Nil_iff utf8_simps(1))
qed simp

text \<open>\<open>str::trim\<close> strips Unicode whitespace; SQLite's \<open>TRIM\<close> strips spaces only.\<close>

definition strip_both :: "(nat \<Rightarrow> bool) \<Rightarrow> rstr \<Rightarrow> rstr" where
  "strip_both P s = rev (dropWhile P (rev (dropWhile P s)))"

definition trim :: "rstr \<Rightarrow> rstr" where
  "trim = strip_both is_whitespace"

definition sql_trim :: "rstr \<Rightarrow> rstr" where
  "sql_trim = strip_both (\<lambda>c. c = 32)"

lemma strip_both_Nil [simp]: "strip_both P [] = []"
  by (simp add: strip_both_def)

lemma dropWhile_hd_not: "s \<noteq> [] \<Longrightarrow> \<not> P (hd s) \<Longrightarrow> dropWhile P s = s"
  by (cases s) auto

lemma strip_both_ends:
  assumes "strip_both P s \<noteq> []"
  shows "\<not> P (hd (strip_both P s))" and "\<not> P (last (strip_both P s))"
proof -
  let ?l = "dropWhile P s" and ?r = "dropWhile P (rev (dropWhile P s))"
  from assms have r: "?r \<noteq> []" by (simp add: strip_both_def)
  then show "\<not> P (last (strip_both P s))"
    by (simp add: strip_both_def last_rev hd_dropWhile)
  from r obtain u where u: "rev ?l = u @ ?r" by (metis takeWhile_dropWhile_id)
  then have "?l = rev ?r @ rev u" by (metis rev_append rev_rev_ident)
  with r have "hd (rev ?r) = hd ?l" by (metis hd_append2 rev_is_Nil_conv)
  moreover have "?l \<noteq> []" by (metis r dropWhile.simps(1) rev.simps(1))
  then have "\<not> P (hd ?l)" by (rule hd_dropWhile)
  ultimately show "\<not> P (hd (strip_both P s))"
    unfolding strip_both_def by simp
qed

lemma strip_both_idem [simp]: "strip_both P (strip_both P s) = strip_both P s"
proof (cases "strip_both P s = []")
  case False
  let ?t = "strip_both P s"
  from False have "dropWhile P ?t = ?t"
    by (intro dropWhile_hd_not strip_both_ends(1) [OF False])
  moreover from False have "dropWhile P (rev ?t) = rev ?t"
    by (intro dropWhile_hd_not) (simp_all add: hd_rev strip_both_ends(2) [OF False])
  ultimately show ?thesis by (simp add: strip_both_def [of P ?t])
qed simp

lemma strip_both_sublist: "sublist (strip_both P s) s"
  unfolding strip_both_def
  by (metis sublist_order.order_trans sublist_rev_right suffix_dropWhile suffix_imp_sublist)

lemma trim_Nil [simp]: "trim [] = []" and trim_idem [simp]: "trim (trim s) = trim s"
  by (simp_all add: trim_def)

lemma trim_sublist: "sublist (trim s) s"
  by (simp add: trim_def strip_both_sublist)

lemma set_trim: "set (trim s) \<subseteq> set s"
  by (rule set_mono_sublist [OF trim_sublist])

lemma trim_eqI: "s = [] \<or> \<not> is_whitespace (hd s) \<and> \<not> is_whitespace (last s) \<Longrightarrow> trim s = s"
  by (cases "s = []") (auto simp: trim_def strip_both_def dropWhile_hd_not hd_rev)

lemma utf8_sublist: "sublist s t \<Longrightarrow> sublist (utf8 s) (utf8 t)"
  unfolding sublist_def by (metis utf8_simps(3))

lemma strlen_trim_le: "strlen (trim s) \<le> strlen s"
  unfolding strlen_def by (rule sublist_length_le [OF utf8_sublist [OF trim_sublist]])

text \<open>\<open>str::split(c)\<close>, \<open>[..].join(sep)\<close>, \<open>str::lines().next()\<close> and the number parser of \<open>std\<close>.\<close>

fun split_on :: "nat \<Rightarrow> rstr \<Rightarrow> rstr list" where
  "split_on c [] = [[]]"
| "split_on c (x # xs) =
     (if x = c then [] # split_on c xs
      else case split_on c xs of [] \<Rightarrow> [[x]] | p # ps \<Rightarrow> (x # p) # ps)"

fun join_with :: "rstr \<Rightarrow> rstr list \<Rightarrow> rstr" where
  "join_with sep [] = []"
| "join_with sep [s] = s"
| "join_with sep (s # t # ts) = s @ sep @ join_with sep (t # ts)"

definition first_line :: "rstr \<Rightarrow> rstr" where
  "first_line s =
     (let l = takeWhile (\<lambda>c. c \<noteq> 10) s
      in if length l < length s \<and> l \<noteq> [] \<and> last l = 13 then butlast l else l)"

definition digits_value :: "rstr \<Rightarrow> nat" where
  "digits_value s = fold (\<lambda>c n. 10 * n + (c - 48)) s 0"

definition parse_unsigned :: "nat \<Rightarrow> rstr \<Rightarrow> nat option" where
  \<comment> \<open>\<open>u8/u32::from_str\<close>: an optional plus sign, at least one digit, no overflow\<close>
  "parse_unsigned bound s =
     (let ds = (case s of c # r \<Rightarrow> if c = 43 then r else s | [] \<Rightarrow> [])
      in if ds \<noteq> [] \<and> list_all is_ascii_digit ds \<and> digits_value ds < bound
         then Some (digits_value ds) else None)"

text \<open>Joining pieces that do not contain the separator loses nothing.\<close>

lemma split_on_nonempty [simp]: "split_on c s \<noteq> []"
  by (induction s) (auto split: list.splits)

lemma split_on_no_sep: "c \<notin> set p \<Longrightarrow> split_on c p = [p]"
  by (induction p) auto

lemma split_on_append: "c \<notin> set p \<Longrightarrow> split_on c (p @ c # s) = p # split_on c s"
  by (induction p) auto

lemma split_on_join:
  "ss \<noteq> [] \<Longrightarrow> \<forall>s \<in> set ss. c \<notin> set s \<Longrightarrow> split_on c (join_with [c] ss) = ss"
  by (induction "[c]" ss rule: join_with.induct) (simp_all add: split_on_append split_on_no_sep)

lemma join_with_inject:
  assumes "ss \<noteq> []" "ts \<noteq> []" "\<forall>s \<in> set ss. c \<notin> set s" "\<forall>s \<in> set ts. c \<notin> set s"
    and "join_with [c] ss = join_with [c] ts"
  shows "ss = ts"
  by (metis assms split_on_join)

lemma join_split_on: "join_with [c] (split_on c s) = s"
proof (induction s)
  case (Cons x s)
  then show ?case
    by (cases "split_on c s" rule: list.exhaust; cases "tl (split_on c s)") auto
qed simp

text \<open>A prefix up to the first separator is determined by the text.\<close>

lemma sep_append_inject:
  assumes "c \<notin> set p" "c \<notin> set q" "p @ c # s = q @ c # t"
  shows "p = q \<and> s = t"
  using assms
proof (induction p arbitrary: q)
  case Nil
  then show ?case by (cases q) auto
next
  case (Cons x p)
  then show ?case by (cases q) auto
qed

section \<open>Time\<close>

type_synonym instant = int

definition millis :: "instant \<Rightarrow> int" where
  \<comment> \<open>what \<open>to_rfc3339_opts(Millis, true)\<close> keeps of an instant\<close>
  "millis t = t div 1000000"

definition of_millis :: "int \<Rightarrow> instant" where
  "of_millis m = m * 1000000"

definition seconds :: "int \<Rightarrow> int" where
  "seconds n = n * 1000000000"

lemma millis_of_millis [simp]: "millis (of_millis m) = m"
  by (simp add: millis_def of_millis_def)

lemma millis_mono: "s \<le> t \<Longrightarrow> millis s \<le> millis t"
  by (simp add: millis_def zdiv_mono1)

lemma of_millis_le_iff: "of_millis m \<le> t \<longleftrightarrow> m \<le> millis t"
  by (simp add: of_millis_def millis_def) linarith

lemma of_millis_inject [simp]: "of_millis m = of_millis n \<longleftrightarrow> m = n"
  by (simp add: of_millis_def)

section \<open>Results\<close>

text \<open>\<open>Result<T, E>\<close> is \<open>E + T\<close>; \<open>bind_res\<close> is the \<open>?\<close> operator.\<close>

definition bind_res :: "'e + 'a \<Rightarrow> ('a \<Rightarrow> 'e + 'b) \<Rightarrow> 'e + 'b" where
  "bind_res m f = (case m of Inl e \<Rightarrow> Inl e | Inr x \<Rightarrow> f x)"

definition map_err :: "('e \<Rightarrow> 'f) \<Rightarrow> 'e + 'a \<Rightarrow> 'f + 'a" where
  "map_err f m = (case m of Inl e \<Rightarrow> Inl (f e) | Inr x \<Rightarrow> Inr x)"

definition ok_or :: "'e \<Rightarrow> 'a option \<Rightarrow> 'e + 'a" where
  "ok_or e m = (case m of None \<Rightarrow> Inl e | Some x \<Rightarrow> Inr x)"

definition is_ok :: "'e + 'a \<Rightarrow> bool" where
  "is_ok m = (case m of Inl _ \<Rightarrow> False | Inr _ \<Rightarrow> True)"

lemma bind_res_simps [simp]: "bind_res (Inl e) f = Inl e" "bind_res (Inr x) f = f x"
  by (simp_all add: bind_res_def)

lemma bind_res_Inr_iff: "bind_res m f = Inr y \<longleftrightarrow> (\<exists>x. m = Inr x \<and> f x = Inr y)"
  by (cases m) auto

text \<open>Reading a successful run backwards: every guard was false, every step succeeded.\<close>

lemma guard_Inr_iff: "(if b then Inl e else m) = Inr y \<longleftrightarrow> \<not> b \<and> m = Inr y"
  and guard_not_Inr_iff: "(if b then m else Inl e) = Inr y \<longleftrightarrow> b \<and> m = Inr y"
  by auto

lemma bind_res_pair_Inr_iff:
  "bind_res m (\<lambda>(a, b). f a b) = Inr y \<longleftrightarrow> (\<exists>a b. m = Inr (a, b) \<and> f a b = Inr y)"
  by (cases m) auto

lemma bind_res_unit_Inr_iff:
  "bind_res m (\<lambda>_. n) = Inr y \<longleftrightarrow> (\<exists>x. m = Inr x) \<and> n = Inr y"
  by (cases m) auto

lemmas res_simps = guard_Inr_iff guard_not_Inr_iff bind_res_pair_Inr_iff bind_res_Inr_iff

lemma map_err_simps [simp]: "map_err f (Inl e) = Inl (f e)" "map_err f (Inr x) = Inr x"
  by (simp_all add: map_err_def)

lemma map_err_Inr_iff [simp]: "map_err f m = Inr x \<longleftrightarrow> m = Inr x"
  by (cases m) auto

lemma ok_or_simps [simp]: "ok_or e None = Inl e" "ok_or e (Some x) = Inr x"
  by (simp_all add: ok_or_def)

lemma ok_or_Inr_iff [simp]: "ok_or e m = Inr x \<longleftrightarrow> m = Some x"
  by (cases m) auto

definition map_ok :: "('a \<Rightarrow> 'b) \<Rightarrow> 'e + 'a \<Rightarrow> 'e + 'b" where
  "map_ok f m = bind_res m (\<lambda>x. Inr (f x))"

lemma map_ok_simps [simp]: "map_ok f (Inl e) = Inl e" "map_ok f (Inr x) = Inr (f x)"
  by (simp_all add: map_ok_def)

lemma map_ok_Inr_iff: "map_ok f m = Inr y \<longleftrightarrow> (\<exists>x. m = Inr x \<and> y = f x)"
  by (cases m) auto

fun map_res :: "('a \<Rightarrow> 'e + 'b) \<Rightarrow> 'a list \<Rightarrow> 'e + 'b list" where
  \<comment> \<open>\<open>iter().map(f).collect::<Result<Vec<_>, _>>()\<close>\<close>
  "map_res f [] = Inr []"
| "map_res f (x # xs) = bind_res (f x) (\<lambda>y. bind_res (map_res f xs) (\<lambda>ys. Inr (y # ys)))"

lemma map_res_ok: "map_res f xs = Inr ys \<longleftrightarrow> list_all2 (\<lambda>x y. f x = Inr y) xs ys"
proof (induction xs arbitrary: ys)
  case (Cons x xs)
  then show ?case
    by (cases ys) (auto simp: bind_res_Inr_iff)
qed (case_tac ys; simp)

lemma is_ok_simps [simp]: "is_ok (Inl e) = False" "is_ok (Inr x) = True"
  by (simp_all add: is_ok_def)

section \<open>Tables\<close>

definition sql_update :: "('r \<Rightarrow> bool) \<Rightarrow> ('r \<Rightarrow> 'r) \<Rightarrow> 'r list \<Rightarrow> 'r list" where
  "sql_update P f t = map (\<lambda>r. if P r then f r else r) t"

definition sql_delete :: "('r \<Rightarrow> bool) \<Rightarrow> 'r list \<Rightarrow> 'r list" where
  "sql_delete P t = filter (\<lambda>r. \<not> P r) t"

definition sql_count :: "('r \<Rightarrow> bool) \<Rightarrow> 'r list \<Rightarrow> nat" where
  "sql_count P t = length (filter P t)"

lemma sql_update_Nil [simp]: "sql_update P f [] = []"
  and sql_update_Cons [simp]: "sql_update P f (r # t) = (if P r then f r else r) # sql_update P f t"
  and sql_update_append [simp]: "sql_update P f (t @ u) = sql_update P f t @ sql_update P f u"
  by (simp_all add: sql_update_def)

lemma length_sql_update [simp]: "length (sql_update P f t) = length t"
  by (simp add: sql_update_def)

lemma set_sql_update: "set (sql_update P f t) = (\<lambda>r. if P r then f r else r) ` set t"
  by (simp add: sql_update_def)

lemma map_sql_update_frame [table_simps]:
  "(\<And>r. P r \<Longrightarrow> g (f r) = g r) \<Longrightarrow> map g (sql_update P f t) = map g t"
  by (induction t) auto

lemma filter_sql_update_frame:
  "(\<And>r. P r \<Longrightarrow> Q (f r) = Q r) \<Longrightarrow> (\<And>r. P r \<Longrightarrow> \<not> Q r) \<Longrightarrow>
   filter Q (sql_update P f t) = filter Q t"
  by (induction t) auto

lemma set_sql_delete [simp]: "set (sql_delete P t) = {r \<in> set t. \<not> P r}"
  by (simp add: sql_delete_def)

lemma distinct_map_sql_delete: "distinct (map g t) \<Longrightarrow> distinct (map g (sql_delete P t))"
  by (induction t) (auto simp: sql_delete_def)

lemma filter_sql_delete:
  "(\<And>r. r \<in> set t \<Longrightarrow> Q r \<Longrightarrow> \<not> P r) \<Longrightarrow> filter Q (sql_delete P t) = filter Q t"
  by (induction t) (auto simp: sql_delete_def)

lemma sql_update_none: "(\<And>r. r \<in> set t \<Longrightarrow> \<not> P r) \<Longrightarrow> sql_update P f t = t"
  by (induction t) auto

lemma sql_update_comp:
  "(\<And>r. P (g r) = P r) \<Longrightarrow> sql_update P f (sql_update P g t) = sql_update P (\<lambda>r. f (g r)) t"
  by (induction t) auto

lemma sql_update_unique:
  assumes "distinct (map k t)" "w \<in> set t" "k w = x" "Q w"
  shows "sql_update (\<lambda>r. k r = x \<and> Q r) f t = sql_update (\<lambda>r. k r = x) f t"
proof -
  have "k r = x \<and> Q r \<longleftrightarrow> k r = x" if "r \<in> set t" for r
    using assms that by (auto simp: distinct_map inj_on_def)
  then show ?thesis unfolding sql_update_def by (intro map_cong refl) simp
qed

lemma sql_count_pos_iff: "0 < sql_count P t \<longleftrightarrow> (\<exists>r \<in> set t. P r)"
  and sql_count_0_iff [simp]: "sql_count P t = 0 \<longleftrightarrow> (\<forall>r \<in> set t. \<not> P r)"
  unfolding sql_count_def by (induction t) auto

text \<open>Reading by primary key: \<open>List.find\<close> on a table whose keys are distinct.\<close>

lemma find_Some_iff_key:
  assumes "distinct (map k t)"
  shows "List.find (\<lambda>r. k r = x) t = Some r \<longleftrightarrow> r \<in> set t \<and> k r = x"
  using assms by (induction t) (auto simp: rev_image_eqI)

lemma find_None_iff_key: "List.find (\<lambda>r. k r = x) t = None \<longleftrightarrow> x \<notin> k ` set t"
  by (induction t) auto

lemma find_SomeD: "List.find P t = Some r \<Longrightarrow> r \<in> set t \<and> P r"
  by (induction t) (auto split: if_splits)

lemma find_sql_update_key:
  assumes "\<And>r. P r \<Longrightarrow> k (f r) = k r"
  shows "List.find (\<lambda>r. k r = x) (sql_update P f t) =
         map_option (\<lambda>r. if P r then f r else r) (List.find (\<lambda>r. k r = x) t)"
  using assms by (induction t) auto

lemma find_append: "List.find P (t @ u) = (case List.find P t of None \<Rightarrow> List.find P u | Some r \<Rightarrow> Some r)"
  by (induction t) auto

end
