(* ===== verification/Json.thy ===== *)
theory Json
  imports Prelude
begin

text \<open>
  JSON values as \<open>serde_json::Value\<close> has them, and \<open>canonical_value_json\<close> of
  nod-proto/src/value_signing.rs: compact text with recursively sorted keys, refusing floats and
  non-ASCII keys. The text of a scalar comes from \<open>serde_json::to_string\<close>, which is not part of the
  repository: it is the argument \<open>q\<close>, and what the writer relies on is \<open>leaf_text\<close>. The main
  result is that the canonical text determines the value up to the order of object members.
\<close>

section \<open>Values\<close>

datatype json =
    JNull
  | JBool bool
  | JNum int
  | JFloat nat
  | JStr rstr
  | JArr "json list"
  | JObj "(rstr \<times> json) list"

fun is_leaf :: "json \<Rightarrow> bool" where
  "is_leaf (JArr _) = False"
| "is_leaf (JObj _) = False"
| "is_leaf (JFloat _) = False"
| "is_leaf _ = True"

text \<open>
  \<open>serde_json::Map\<close> is a \<open>BTreeMap\<close> here (no \<open>preserve_order\<close> feature): a \<open>Value\<close> keeps its
  members sorted by key.
\<close>

fun jsort :: "json \<Rightarrow> json" where
  "jsort (JArr xs) = JArr (map jsort xs)"
| "jsort (JObj kvs) = JObj (sort_key fst (map (\<lambda>(k, v). (k, jsort v)) kvs))"
| "jsort v = v"

fun float_free :: "json \<Rightarrow> bool" where
  "float_free (JFloat _) = False"
| "float_free (JArr xs) = list_all float_free xs"
| "float_free (JObj kvs) = list_all (\<lambda>(k, v). float_free v) kvs"
| "float_free _ = True"

section \<open>The canonical writer\<close>

fun write_items :: "bool \<Rightarrow> (rstr + rstr) list \<Rightarrow> rstr + rstr" where
  "write_items first [] = Inr []"
| "write_items first (r # rs) =
     bind_res r (\<lambda>t. bind_res (write_items False rs) (\<lambda>rest.
       Inr ((if first then [] else [44]) @ t @ rest)))"

fun write_members :: "(json \<Rightarrow> rstr) \<Rightarrow> bool \<Rightarrow> (rstr \<times> (rstr + rstr)) list \<Rightarrow> rstr + rstr" where
  "write_members q first [] = Inr []"
| "write_members q first ((k, r) # ms) =
     (if \<not> list_all is_ascii k then Inl (lit ''non-ASCII canonical member key'')
      else bind_res r (\<lambda>t. bind_res (write_members q False ms) (\<lambda>rest.
        Inr ((if first then [] else [44]) @ q (JStr k) @ [58] @ t @ rest))))"

fun canonical_value_json :: "(json \<Rightarrow> rstr) \<Rightarrow> json \<Rightarrow> rstr + rstr" where
  "canonical_value_json q (JObj kvs) =
     bind_res
       (write_members q True (sort_key fst (map (\<lambda>(k, v). (k, canonical_value_json q v)) kvs)))
       (\<lambda>t. Inr ([123] @ t @ [125]))"
| "canonical_value_json q (JArr xs) =
     bind_res (write_items True (map (canonical_value_json q) xs)) (\<lambda>t. Inr ([91] @ t @ [93]))"
| "canonical_value_json q (JFloat n) = Inl (lit ''floating canonical number'')"
| "canonical_value_json q v = Inr (q v)"

lemma sort_key_map_snd:
  "sort_key fst (map (\<lambda>(k, v). (k, f v)) kvs) = map (\<lambda>(k, v). (k, f v)) (sort_key fst kvs)"
proof -
  have ins: "insort_key fst (k, f v) (map (\<lambda>(k, v). (k, f v)) ys) =
      map (\<lambda>(k, v). (k, f v)) (insort_key fst (k, v) ys)" for k v ys
    by (induction ys) auto
  show ?thesis
    by (induction kvs) (auto simp: ins)
qed

lemma canonical_JObj:
  "canonical_value_json q (JObj kvs) =
     bind_res (write_members q True
       (map (\<lambda>(k, v). (k, canonical_value_json q v)) (sort_key fst kvs)))
       (\<lambda>t. Inr ([123] @ t @ [125]))"
  by (simp add: sort_key_map_snd)

lemma jsort_JObj: "jsort (JObj kvs) = JObj (map (\<lambda>(k, v). (k, jsort v)) (sort_key fst kvs))"
  by (simp add: sort_key_map_snd)

section \<open>Self-delimiting scalars\<close>

text \<open>
  What JSON's grammar says of the text of null, booleans, integers and strings: it does not begin
  with a bracket, brace or comma, and when a separator or the end of the text follows, it is the
  only scalar text the input begins with.
\<close>

definition delimited :: "rstr \<Rightarrow> bool" where
  "delimited r \<longleftrightarrow> r = [] \<or> hd r \<in> {44, 58, 93, 125}"

definition leaf_text :: "(json \<Rightarrow> rstr) \<Rightarrow> bool" where
  "leaf_text q \<longleftrightarrow>
     (\<forall>v. is_leaf v \<longrightarrow> q v \<noteq> [] \<and> hd (q v) \<notin> {44, 91, 93, 123, 125}) \<and>
     (\<forall>v w r s. is_leaf v \<longrightarrow> is_leaf w \<longrightarrow> delimited r \<longrightarrow> delimited s \<longrightarrow>
        q v @ r = q w @ s \<longrightarrow> v = w \<and> r = s)"

lemma leaf_text_head: "leaf_text q \<Longrightarrow> is_leaf v \<Longrightarrow>
    \<exists>c t. q v = c # t \<and> c \<notin> {44, 91, 93, 123, 125}"
  unfolding leaf_text_def by (metis list.exhaust_sel)

lemma leaf_text_inject:
  "leaf_text q \<Longrightarrow> is_leaf v \<Longrightarrow> is_leaf w \<Longrightarrow> delimited r \<Longrightarrow> delimited s \<Longrightarrow>
   q v @ r = q w @ s \<Longrightarrow> v = w \<and> r = s"
  unfolding leaf_text_def by blast

lemma delimited_simps [simp]: "delimited []" "delimited (c # r) \<longleftrightarrow> c \<in> {44, 58, 93, 125}"
  by (simp_all add: delimited_def)

lemma canonical_leaf: "is_leaf v \<Longrightarrow> canonical_value_json q v = Inr (q v)"
  by (cases v) auto

lemma canonical_head:
  assumes "leaf_text q" and "canonical_value_json q v = Inr t"
  shows "\<exists>c r. t = c # r \<and> c \<notin> {44, 93, 125}"
proof (cases "is_leaf v")
  case True
  with assms leaf_text_head [of q v] show ?thesis by (auto simp: canonical_leaf)
next
  case False
  with assms(2) show ?thesis
    by (cases v) (auto simp: bind_res_Inr_iff)
qed

section \<open>The text determines the value\<close>

definition text_inject :: "(json \<Rightarrow> rstr) \<Rightarrow> json \<Rightarrow> bool" where
  "text_inject q v \<longleftrightarrow>
     (\<forall>w s t x y. canonical_value_json q v = Inr s \<longrightarrow> canonical_value_json q w = Inr t \<longrightarrow>
        delimited x \<longrightarrow> delimited y \<longrightarrow> s @ x = t @ y \<longrightarrow> jsort v = jsort w \<and> x = y)"

lemma text_injectD:
  "text_inject q v \<Longrightarrow> canonical_value_json q v = Inr s \<Longrightarrow> canonical_value_json q w = Inr t \<Longrightarrow>
   s @ x = t @ y \<Longrightarrow> delimited x \<Longrightarrow> delimited y \<Longrightarrow> jsort v = jsort w \<and> x = y"
  unfolding text_inject_def by blast

lemma write_items_delimited:
  "write_items False rs = Inr t \<Longrightarrow> c \<in> {93, 125} \<Longrightarrow> delimited (t @ c # x)"
  by (cases rs) (auto simp: bind_res_Inr_iff)

lemma write_members_delimited:
  "write_members q False ms = Inr t \<Longrightarrow> c \<in> {93, 125} \<Longrightarrow> delimited (t @ c # x)"
  by (cases ms) (auto simp: bind_res_Inr_iff split: if_splits)

lemma write_items_inject:
  assumes "leaf_text q" and "\<forall>v \<in> set vs. text_inject q v"
    and "write_items b (map (canonical_value_json q) vs) = Inr s"
    and "write_items b (map (canonical_value_json q) ws) = Inr t"
    and "s @ 93 # x = t @ 93 # y"
  shows "map jsort vs = map jsort ws \<and> x = y"
  using assms(2-)
proof (induction vs arbitrary: ws b s t)
  case Nil
  then show ?case
    using canonical_head [OF assms(1)] by (cases ws) (fastforce simp: bind_res_Inr_iff split: if_splits)+
next
  case (Cons v vs)
  show ?case
  proof (cases ws)
    case Nil
    with Cons.prems show ?thesis
      using canonical_head [OF assms(1), of v] by (fastforce simp: bind_res_Inr_iff split: if_splits)
  next
    case (Cons w ws')
    with Cons.prems obtain a s' c t' where
      a: "canonical_value_json q v = Inr a" "write_items False (map (canonical_value_json q) vs) = Inr s'" and
      c: "canonical_value_json q w = Inr c" "write_items False (map (canonical_value_json q) ws') = Inr t'" and
      eq: "a @ (s' @ 93 # x) = c @ (t' @ 93 # y)"
      by (auto simp: bind_res_Inr_iff split: if_splits)
    have "jsort v = jsort w \<and> s' @ 93 # x = t' @ 93 # y"
      using Cons.prems(1) a c eq
      by (intro text_injectD [of q v a w c]) (auto intro: write_items_delimited)
    with Cons.IH [OF _ a(2) c(2)] Cons.prems(1) show ?thesis
      by (simp add: \<open>ws = w # ws'\<close>)
  qed
qed

lemma write_members_inject:
  assumes "leaf_text q" and "\<forall>(k, v) \<in> set vs. text_inject q v"
    and "write_members q b (map (\<lambda>(k, v). (k, canonical_value_json q v)) vs) = Inr s"
    and "write_members q b (map (\<lambda>(k, v). (k, canonical_value_json q v)) ws) = Inr t"
    and "s @ 125 # x = t @ 125 # y"
  shows "map (\<lambda>(k, v). (k, jsort v)) vs = map (\<lambda>(k, v). (k, jsort v)) ws \<and> x = y"
  using assms(2-)
proof (induction vs arbitrary: ws b s t)
  case Nil
  show ?case
  proof (cases ws)
    case (Cons m ws')
    obtain k w where m: "m = (k, w)" by fastforce
    obtain c r where "q (JStr k) = c # r" "c \<notin> {44, 91, 93, 123, 125}"
      using leaf_text_head [OF assms(1), of "JStr k"] by auto
    with Nil.prems Cons m show ?thesis by (auto simp: bind_res_Inr_iff split: if_splits)
  qed (use Nil in simp)
next
  case (Cons m vs)
  obtain k v where m: "m = (k, v)" by fastforce
  show ?case
  proof (cases ws)
    case Nil
    obtain c r where "q (JStr k) = c # r" "c \<notin> {44, 91, 93, 123, 125}"
      using leaf_text_head [OF assms(1), of "JStr k"] by auto
    with Cons.prems Nil m show ?thesis by (auto simp: bind_res_Inr_iff split: if_splits)
  next
    case (Cons m' ws')
    obtain l w where m': "m' = (l, w)" by fastforce
    let ?f = "map (\<lambda>(k, v). (k, canonical_value_json q v))"
    from Cons.prems Cons m m' obtain a s' c t' where
      a: "canonical_value_json q v = Inr a" "write_members q False (?f vs) = Inr s'" and
      c: "canonical_value_json q w = Inr c" "write_members q False (?f ws') = Inr t'" and
      eq: "q (JStr k) @ 58 # (a @ s' @ 125 # x) = q (JStr l) @ 58 # (c @ t' @ 125 # y)"
      by (auto simp: bind_res_Inr_iff split: if_splits)
    from leaf_text_inject [OF assms(1) _ _ _ _ eq]
    have k: "k = l" and eq': "a @ (s' @ 125 # x) = c @ (t' @ 125 # y)" by auto
    have "jsort v = jsort w \<and> s' @ 125 # x = t' @ 125 # y"
      using Cons.prems(1) m a c eq'
      by (intro text_injectD [of q v a w c]) (auto intro: write_members_delimited)
    with Cons.IH [OF _ a(2) c(2)] Cons.prems(1) k show ?thesis
      by (simp add: \<open>ws = m' # ws'\<close> m m')
  qed
qed

lemma text_inject_leaf:
  assumes "leaf_text q" and "is_leaf v"
  shows "text_inject q v"
  unfolding text_inject_def
proof (intro allI impI)
  fix w s t x y
  assume "canonical_value_json q v = Inr s" and w: "canonical_value_json q w = Inr t"
    and d: "delimited x" "delimited y" and eq: "s @ x = t @ y"
  then have s: "s = q v" using assms(2) by (simp add: canonical_leaf)
  show "jsort v = jsort w \<and> x = y"
  proof (cases "is_leaf w")
    case True
    with w have "t = q w" by (simp add: canonical_leaf)
    with eq s leaf_text_inject [OF assms True d] show ?thesis by simp
  next
    case False
    obtain c r where "q v = c # r" "c \<notin> {44, 91, 93, 123, 125}"
      using leaf_text_head [OF assms] by auto
    with False w eq s show ?thesis by (cases w) (auto simp: bind_res_Inr_iff)
  qed
qed

lemma canonical_text_inject:
  assumes "leaf_text q"
  shows "text_inject q v"
proof (induction v)
  case (JArr vs)
  show ?case
    unfolding text_inject_def
  proof (intro allI impI)
    fix w s t x y
    assume v: "canonical_value_json q (JArr vs) = Inr s" and w: "canonical_value_json q w = Inr t"
      and d: "delimited x" "delimited y" and eq: "s @ x = t @ y"
    from v obtain s' where s': "write_items True (map (canonical_value_json q) vs) = Inr s'"
      and s: "s = 91 # s' @ [93]" by (auto simp: bind_res_Inr_iff)
    show "jsort (JArr vs) = jsort w \<and> x = y"
    proof (cases w)
      case (JArr ws)
      with w obtain t' where t': "write_items True (map (canonical_value_json q) ws) = Inr t'"
        and "t = 91 # t' @ [93]" by (auto simp: bind_res_Inr_iff)
      with eq s have "s' @ 93 # x = t' @ 93 # y" by simp
      from write_items_inject [OF assms _ s' t' this] JArr.IH \<open>w = JArr ws\<close> show ?thesis by simp
    qed (use w eq s leaf_text_head [OF assms, of w] in \<open>auto simp: bind_res_Inr_iff\<close>)
  qed
next
  case (JObj vs)
  show ?case
    unfolding text_inject_def
  proof (intro allI impI)
    fix w s t x y
    assume v: "canonical_value_json q (JObj vs) = Inr s" and w: "canonical_value_json q w = Inr t"
      and d: "delimited x" "delimited y" and eq: "s @ x = t @ y"
    let ?f = "map (\<lambda>(k, v). (k, canonical_value_json q v))"
    from v obtain s' where s': "write_members q True (?f (sort_key fst vs)) = Inr s'"
      and s: "s = 123 # s' @ [125]"
      unfolding canonical_JObj by (auto simp: bind_res_Inr_iff)
    have IH: "\<forall>(k, v) \<in> set (sort_key fst vs). text_inject q v"
      using JObj.IH by (force simp: snds.simps)
    show "jsort (JObj vs) = jsort w \<and> x = y"
    proof (cases w)
      case (JObj ws)
      with w obtain t' where t': "write_members q True (?f (sort_key fst ws)) = Inr t'"
        and "t = 123 # t' @ [125]"
        unfolding JObj canonical_JObj by (auto simp: bind_res_Inr_iff)
      with eq s have "s' @ 125 # x = t' @ 125 # y" by simp
      from write_members_inject [OF assms IH s' t' this] show ?thesis
        unfolding JObj jsort_JObj by simp
    qed (use w eq s leaf_text_head [OF assms, of w] in \<open>auto simp: bind_res_Inr_iff\<close>)
  qed
next
  case (JFloat n)
  then show ?case by (simp add: text_inject_def)
qed (simp_all add: text_inject_leaf [OF assms])

section \<open>When the writer succeeds\<close>

fun ascii_keys :: "json \<Rightarrow> bool" where
  "ascii_keys (JArr vs) = list_all ascii_keys vs"
| "ascii_keys (JObj ms) = list_all (\<lambda>(k, v). list_all is_ascii k \<and> ascii_keys v) ms"
| "ascii_keys _ = True"

lemma is_ok_bind: "is_ok (bind_res m f) \<longleftrightarrow> (\<exists>x. m = Inr x \<and> is_ok (f x))"
  by (cases m) auto

lemma is_ok_iff: "is_ok m \<longleftrightarrow> (\<exists>x. m = Inr x)"
  by (cases m) auto

lemma write_items_is_ok: "is_ok (write_items b rs) \<longleftrightarrow> list_all is_ok rs"
  by (induction rs arbitrary: b) (simp_all add: is_ok_bind, metis is_ok_iff)

lemma write_members_is_ok:
  "is_ok (write_members q b ms) \<longleftrightarrow> list_all (\<lambda>(k, r). list_all is_ascii k \<and> is_ok r) ms"
  by (induction q b ms rule: write_members.induct) (auto simp: is_ok_bind, (metis is_ok_iff)+)

lemma list_all_sort_key [simp]: "list_all P (sort_key f xs) \<longleftrightarrow> list_all P xs"
  by (simp add: list_all_iff)

lemma canonical_is_ok: "is_ok (canonical_value_json q v) \<longleftrightarrow> float_free v \<and> ascii_keys v"
proof (induction v)
  case (JArr vs)
  then have "list_all is_ok (map (canonical_value_json q) vs) \<longleftrightarrow> list_all (\<lambda>v. float_free v \<and> ascii_keys v) vs"
    by (auto simp: list_all_iff)
  then show ?case by (auto simp: is_ok_bind is_ok_iff [symmetric] write_items_is_ok list_all_iff)
next
  case (JObj ms)
  then have "(k, v) \<in> set ms \<Longrightarrow> is_ok (canonical_value_json q v) \<longleftrightarrow> float_free v \<and> ascii_keys v" for k v
    by (force simp: snds.simps)
  then show ?case
    by (subst canonical_JObj)
      (fastforce simp: is_ok_bind is_ok_iff [symmetric] write_members_is_ok list_all_iff)
qed auto

section \<open>Properties\<close>

text \<open>
  C39 (functional). \<open>canonical_value_json\<close> fails exactly on values that hold a float or an object
  key outside ASCII, at any depth, and on every other value returns a text.
\<close>

theorem canonical_value_json_total:
  "(\<exists>t. canonical_value_json q v = Inr t) \<longleftrightarrow> float_free v \<and> ascii_keys v"
  using canonical_is_ok [of q v] by (simp add: is_ok_iff)

text \<open>
  The canonical text determines the value up to the order of object members, given that
  the texts of scalars delimit themselves.
\<close>

theorem canonical_value_json_determines:
  assumes "leaf_text q" and "canonical_value_json q v = Inr t"
  shows "canonical_value_json q w = Inr t \<longrightarrow> jsort v = jsort w"
  using canonical_text_inject [OF assms(1), of v] assms(2) unfolding text_inject_def
  by (metis delimited_simps(1))

section \<open>Structures as JSON\<close>

definition text_member :: "string \<Rightarrow> rstr \<Rightarrow> rstr \<times> json" where
  "text_member k v = (lit k, JStr v)"

definition optional_member :: "string \<Rightarrow> rstr option \<Rightarrow> (rstr \<times> json) list" where
  \<comment> \<open>\<open>skip_serializing_if = "Option::is_none"\<close>\<close>
  "optional_member k v = (case v of None \<Rightarrow> [] | Some t \<Rightarrow> [text_member k t])"

text \<open>
  What a derived \<open>Deserialize\<close> finds for the fields of a structure: in an object, each at most once, others
  refused with \<open>deny_unknown_fields\<close> and ignored without; in an array, in order.
\<close>

definition struct_fields :: "bool \<Rightarrow> rstr list \<Rightarrow> json \<Rightarrow> json option list option" where
  "struct_fields deny names j = (case j of
      JObj ms \<Rightarrow>
        if deny \<and> \<not> list_all (\<lambda>m. fst m \<in> set names) ms \<or> \<not> distinct (filter (\<lambda>k. k \<in> set names) (map fst ms)) then None
        else Some (map (map_of ms) names)
    | JArr vs \<Rightarrow>
        if length vs \<le> length names then Some (map Some vs @ replicate (length names - length vs) None) else None
    | _ \<Rightarrow> None)"

definition json_text :: "json option \<Rightarrow> rstr option" where
  "json_text v = (case v of Some (JStr s) \<Rightarrow> Some s | _ \<Rightarrow> None)"

definition json_optional_text :: "json option \<Rightarrow> rstr option option" where
  "json_optional_text v = (case v of None \<Rightarrow> Some None | Some JNull \<Rightarrow> Some None | Some (JStr s) \<Rightarrow> Some (Some s) | _ \<Rightarrow> None)"

lemma struct_fields_zip:
  "distinct names \<Longrightarrow> length vs = length names \<Longrightarrow> struct_fields deny names (JObj (zip names vs)) = Some (map Some vs)"
  by (auto simp: struct_fields_def list_all_iff map_fst_zip dest: set_zip_leftD intro: nth_equalityI
      simp: map_of_zip_nth distinct_filter)

end
