(* ===== verification/Externals.thy ===== *)
theory Externals
  imports Json
begin

text \<open>
  The third-party crates the modelled code calls, as one record of functions that the definitions
  take as an argument: the compact JSON writer of serde_json, SHA-256 (sha2), hex, base64, the
  P-256 primitives (p256), the timestamp texts of chrono, grapheme clusters, and the URL, UUID
  and JSON parsers. Nothing is assumed of them
  here; what a property relies on is one of the named predicates below. \<open>sample_ext\<close> is a concrete
  record that satisfies them all and serves the witnesses.
\<close>

record ext =
  x_ser :: "json \<Rightarrow> rstr"
  x_sha256 :: "byte list \<Rightarrow> byte list"
  x_hex :: "byte list \<Rightarrow> rstr"
  x_b64_decode :: "rstr \<Rightarrow> byte list option"
  x_b64_encode :: "byte list \<Rightarrow> rstr"
  x_point_ok :: "byte list \<Rightarrow> bool"
  x_der_ok :: "byte list \<Rightarrow> bool"
  x_ecdsa_verify :: "byte list \<Rightarrow> byte list \<Rightarrow> byte list \<Rightarrow> bool"
  x_fmt_millis :: "instant \<Rightarrow> rstr"
  x_parse_rfc3339 :: "rstr \<Rightarrow> instant option"
  x_url_parts :: "rstr \<Rightarrow> (rstr \<times> rstr option) option"
    \<comment> \<open>scheme and host of an absolute URL\<close>
  x_fmt_serde :: "instant \<Rightarrow> rstr"
    \<comment> \<open>chrono's serde text of an instant, to the nanosecond\<close>
  x_parse_pair :: "byte list \<Rightarrow> (rstr \<times> rstr) option"
    \<comment> \<open>\<open>serde_json::from_slice\<close> at a pair of strings\<close>
  x_uuid_ok :: "rstr \<Rightarrow> bool"
  x_graphemes :: "rstr \<Rightarrow> rstr list"
    \<comment> \<open>extended grapheme clusters (unicode-segmentation)\<close>

text \<open>serde_json: distinct values have distinct texts (floats apart), and scalars delimit themselves.\<close>

definition json_text_ok :: "ext \<Rightarrow> bool" where
  "json_text_ok X \<longleftrightarrow> leaf_text (x_ser X) \<and>
     (\<forall>v w. float_free v \<longrightarrow> float_free w \<longrightarrow> x_ser X v = x_ser X w \<longrightarrow> v = w)"

text \<open>
  hex is injective, and its text has no line break. SHA-256 cannot be injective, so collision
  freedom is only ever assumed of the finitely many inputs at hand: \<open>no_collision X S\<close>.
\<close>

definition hex_ok :: "ext \<Rightarrow> bool" where
  "hex_ok X \<longleftrightarrow> inj (x_hex X) \<and> (\<forall>b. 10 \<notin> set (x_hex X b))"

definition no_collision :: "ext \<Rightarrow> byte list set \<Rightarrow> bool" where
  "no_collision X S \<longleftrightarrow> inj_on (x_sha256 X) S"

text \<open>
  chrono: the millisecond text of an instant parses back to the instant cut to milliseconds, and
  has no line break.
\<close>

definition time_text_ok :: "ext \<Rightarrow> bool" where
  "time_text_ok X \<longleftrightarrow>
     (\<forall>t. x_parse_rfc3339 X (x_fmt_millis X t) = Some (of_millis (millis t))) \<and>
     (\<forall>t. x_fmt_millis X t = x_fmt_millis X (of_millis (millis t))) \<and>
     (\<forall>t. x_fmt_millis X t \<noteq> [] \<and> 10 \<notin> set (x_fmt_millis X t))"

lemma fmt_millis_inject:
  "time_text_ok X \<Longrightarrow> x_fmt_millis X s = x_fmt_millis X t \<longleftrightarrow> millis s = millis t"
  unfolding time_text_ok_def by (metis of_millis_inject option.inject)

lemma fmt_millis_nonempty: "time_text_ok X \<Longrightarrow> x_fmt_millis X t \<noteq> [] \<and> [] \<noteq> x_fmt_millis X t"
  unfolding time_text_ok_def by metis

section \<open>A concrete instance\<close>

fun enc_int :: "int \<Rightarrow> nat" where
  "enc_int i = (if 0 \<le> i then 2 * nat i else 2 * nat (- i) - 1)"

definition dec_int :: "nat \<Rightarrow> int" where
  "dec_int n = (if even n then int (n div 2) else - int (Suc n div 2))"

lemma dec_enc_int [simp]: "dec_int (enc_int i) = i"
  by (auto simp: dec_int_def)

lemma enc_int_inject [simp]: "enc_int i = enc_int j \<longleftrightarrow> i = j"
  by (metis dec_enc_int)

declare enc_int.simps [simp del]

fun sample_ser :: "json \<Rightarrow> rstr" where
  "sample_ser JNull = [0]"
| "sample_ser (JBool b) = [1, if b then 1 else 0]"
| "sample_ser (JNum i) = [2, enc_int i]"
| "sample_ser (JFloat n) = [3, n]"
| "sample_ser (JStr s) = 4 # length s # s"
| "sample_ser (JArr vs) = 5 # length vs # concat (map sample_ser vs)"
| "sample_ser (JObj ms) = 6 # length ms # concat (map (\<lambda>(k, v). length k # k @ sample_ser v) ms)"

lemma sample_ser_prefix: "sample_ser v @ r = sample_ser w @ s \<Longrightarrow> v = w \<and> r = s"
proof (induction v arbitrary: w r s)
  case (JArr vs)
  have items: "concat (map sample_ser us) @ r = concat (map sample_ser ws) @ s \<Longrightarrow>
      length us = length ws \<Longrightarrow> set us \<subseteq> set vs \<Longrightarrow> us = ws \<and> r = s" for us ws r s
  proof (induction us arbitrary: ws)
    case (Cons u us)
    then obtain y ys where "ws = y # ys" by (cases ws) auto
    with Cons JArr.IH [of u "concat (map sample_ser us) @ r" y "concat (map sample_ser ys) @ s"]
    show ?case by auto
  qed simp
  from JArr.prems items [of vs] show ?case by (cases w) auto
next
  case (JObj ms)
  have members: "concat (map (\<lambda>(k, v). length k # k @ sample_ser v) us) @ r =
      concat (map (\<lambda>(k, v). length k # k @ sample_ser v) ws) @ s \<Longrightarrow>
      length us = length ws \<Longrightarrow> set us \<subseteq> set ms \<Longrightarrow> us = ws \<and> r = s" for us ws r s
  proof (induction us arbitrary: ws)
    case (Cons u us)
    then obtain k v l y ys where "ws = (l, y) # ys" "u = (k, v)"
      by (cases ws; cases u) auto
    with Cons JObj.IH [of "(k, v)" v "concat (map (\<lambda>(k, v). length k # k @ sample_ser v) us) @ r" y
        "concat (map (\<lambda>(k, v). length k # k @ sample_ser v) ys) @ s"]
    show ?case by (auto simp: snds.simps)
  qed simp
  from JObj.prems members [of ms] show ?case by (cases w) auto
qed (case_tac w; auto split: if_splits)+

lemma sample_ser_leaf_text: "leaf_text sample_ser"
  unfolding leaf_text_def
proof (intro conjI allI impI)
  fix v assume "is_leaf v"
  then show "sample_ser v \<noteq> []" and "hd (sample_ser v) \<notin> {44, 91, 93, 123, 125}"
    by (cases v; simp)+
qed (use sample_ser_prefix in blast)+

text \<open>Every code unit but the line break, so that the sample texts have none.\<close>

definition skip_lf :: "nat \<Rightarrow> nat" where
  "skip_lf n = (if n < 10 then n else Suc n)"

definition unskip_lf :: "nat \<Rightarrow> nat" where
  "unskip_lf n = (if n < 10 then n else n - 1)"

lemma unskip_skip [simp]: "unskip_lf (skip_lf n) = n" and skip_lf_neq [simp]: "skip_lf n \<noteq> 10"
  by (auto simp: skip_lf_def unskip_lf_def)

definition sample_hex :: "byte list \<Rightarrow> rstr" where
  "sample_hex b = map skip_lf b"

definition sample_fmt :: "instant \<Rightarrow> rstr" where
  "sample_fmt t = [skip_lf (enc_int (millis t))]"

definition sample_parse :: "rstr \<Rightarrow> instant option" where
  "sample_parse s = (case s of [c] \<Rightarrow> Some (of_millis (dec_int (unskip_lf c))) | _ \<Rightarrow> None)"

definition sample_ext :: ext where
  "sample_ext = \<lparr>
     x_ser = sample_ser,
     x_sha256 = (\<lambda>b. b),
     x_hex = sample_hex,
     x_b64_decode = Some,
     x_b64_encode = (\<lambda>b. b),
     x_point_ok = (\<lambda>_. True),
     x_der_ok = (\<lambda>_. True),
     x_ecdsa_verify = (\<lambda>key msg sig. sig = key @ msg),
     x_fmt_millis = sample_fmt,
     x_parse_rfc3339 = sample_parse,
     x_url_parts = (\<lambda>s. Some (lit ''https'', Some s)),
     x_fmt_serde = (\<lambda>t. [enc_int t]),
     x_parse_pair = (\<lambda>b. Some (b, b)),
     x_uuid_ok = (\<lambda>_. True),
     x_graphemes = map (\<lambda>c. [c])\<rparr>"

lemma sample_ext_sel [simp]:
  "x_ser sample_ext = sample_ser" "x_sha256 sample_ext = (\<lambda>b. b)" "x_hex sample_ext = sample_hex"
  "x_b64_decode sample_ext = Some" "x_b64_encode sample_ext = (\<lambda>b. b)"
  "x_point_ok sample_ext = (\<lambda>_. True)"
  "x_der_ok sample_ext = (\<lambda>_. True)"
  "x_ecdsa_verify sample_ext = (\<lambda>key msg sig. sig = key @ msg)"
  "x_fmt_millis sample_ext = sample_fmt" "x_parse_rfc3339 sample_ext = sample_parse"
  "x_url_parts sample_ext = (\<lambda>s. Some (lit ''https'', Some s))"
  "x_fmt_serde sample_ext = (\<lambda>t. [enc_int t])"
  "x_parse_pair sample_ext = (\<lambda>b. Some (b, b))" "x_uuid_ok sample_ext = (\<lambda>_. True)"
  "x_graphemes sample_ext = map (\<lambda>c. [c])"
  by (simp_all add: sample_ext_def)

lemma sample_json_text_ok: "json_text_ok sample_ext"
  unfolding json_text_ok_def using sample_ser_leaf_text sample_ser_prefix [where r = "[]" and s = "[]"]
  by auto

lemma sample_hex_ok: "hex_ok sample_ext"
  unfolding hex_ok_def sample_ext_sel sample_hex_def inj_def
proof (intro conjI allI impI)
  fix b c assume "map skip_lf b = map skip_lf c"
  then have "map unskip_lf (map skip_lf b) = map unskip_lf (map skip_lf c)" by simp
  then show "b = c" by (simp add: comp_def)
qed auto

lemma sample_no_collision: "no_collision sample_ext S"
  by (simp add: no_collision_def)

lemma sample_time_text_ok: "time_text_ok sample_ext"
  unfolding time_text_ok_def sample_ext_sel by (simp add: sample_fmt_def sample_parse_def)

lemmas sample_ext_ok = sample_json_text_ok sample_hex_ok sample_no_collision sample_time_text_ok

theorem canonical_value_json_determines_witness:
  "canonical_value_json sample_ser (JObj [([97], JNull), ([98], JNull)]) =
     canonical_value_json sample_ser (JObj [([98], JNull), ([97], JNull)]) \<and>
   jsort (JObj [([97], JNull), ([98], JNull)]) = jsort (JObj [([98], JNull), ([97], JNull)])"
proof -
  obtain t where t: "canonical_value_json sample_ser (JObj [([97], JNull), ([98], JNull)]) = Inr t"
    by (simp add: is_ascii_def)
  have "canonical_value_json sample_ser (JObj [([98], JNull), ([97], JNull)]) = Inr t"
    using t by simp
  with canonical_value_json_determines [OF sample_ser_leaf_text t] t show ?thesis by metis
qed

end
