(* ===== verification/Answer.thy ===== *)
theory Answer
  imports Externals
begin

text \<open>
  The closed single-value answer contract of nod-proto/src/answer.rs: answer fields, answer
  values, and their validation. Validators that the code writes over bytes are written over
  \<open>utf8\<close> here. The lemmas characterise the accepted decimal and calendar texts and show that an
  accepted text is the only one of its value.
\<close>

section \<open>Values and fields\<close>

datatype answer_value =
    VChoice (choice_id: rstr)
  | VNumber (decimal: rstr)
  | VDate (date: rstr)
  | VDateTime (instant: rstr)

record answer_choice =
  choice_key :: rstr
  choice_label :: rstr

datatype answer_field =
    FChoice rstr "answer_choice list" answer_value
  | FNumber rstr answer_value
  | FDate rstr answer_value
  | FDateTime rstr answer_value

fun field_label :: "answer_field \<Rightarrow> rstr" where
  "field_label (FChoice l _ _) = l"
| "field_label (FNumber l _) = l"
| "field_label (FDate l _) = l"
| "field_label (FDateTime l _) = l"

fun default_value :: "answer_field \<Rightarrow> answer_value" where
  "default_value (FChoice _ _ d) = d"
| "default_value (FNumber _ d) = d"
| "default_value (FDate _ d) = d"
| "default_value (FDateTime _ d) = d"

text \<open>The derived serde encodings: internally tagged by \<open>kind\<close>, members in field order.\<close>

fun json_answer_value :: "answer_value \<Rightarrow> json" where
  "json_answer_value (VChoice c) = JObj [(lit ''kind'', JStr (lit ''choice'')), (lit ''choice_id'', JStr c)]"
| "json_answer_value (VNumber d) = JObj [(lit ''kind'', JStr (lit ''number'')), (lit ''decimal'', JStr d)]"
| "json_answer_value (VDate d) = JObj [(lit ''kind'', JStr (lit ''date'')), (lit ''date'', JStr d)]"
| "json_answer_value (VDateTime i) = JObj [(lit ''kind'', JStr (lit ''date_time'')), (lit ''instant'', JStr i)]"

definition json_answer_choice :: "answer_choice \<Rightarrow> json" where
  "json_answer_choice c = JObj [(lit ''id'', JStr (choice_key c)), (lit ''label'', JStr (choice_label c))]"

fun json_answer_field :: "answer_field \<Rightarrow> json" where
  "json_answer_field (FChoice l cs d) = JObj [(lit ''kind'', JStr (lit ''choice'')), (lit ''label'', JStr l),
     (lit ''choices'', JArr (map json_answer_choice cs)), (lit ''default'', json_answer_value d)]"
| "json_answer_field (FNumber l d) = JObj [(lit ''kind'', JStr (lit ''number'')), (lit ''label'', JStr l),
     (lit ''default'', json_answer_value d)]"
| "json_answer_field (FDate l d) = JObj [(lit ''kind'', JStr (lit ''date'')), (lit ''label'', JStr l),
     (lit ''default'', json_answer_value d)]"
| "json_answer_field (FDateTime l d) = JObj [(lit ''kind'', JStr (lit ''date_time'')), (lit ''label'', JStr l),
     (lit ''default'', json_answer_value d)]"

section \<open>Validators\<close>

definition valid_label :: "rstr \<Rightarrow> nat \<Rightarrow> bool" where
  "valid_label value limit \<longleftrightarrow>
     value \<noteq> [] \<and> trim value = value \<and> length value \<le> limit \<and> \<not> list_ex is_control value"

definition valid_decimal :: "rstr \<Rightarrow> bool" where
  "valid_decimal value =
     (let negative = (value \<noteq> [] \<and> hd value = 45);
          unsigned = (if negative then tl value else value);
          parts = split_on 46 unsigned;
          integer = hd parts;
          fraction = (case tl parts of [] \<Rightarrow> None | f # _ \<Rightarrow> Some f)
      in if length parts > 2 \<or> integer = [] \<or> strlen integer > 12 \<or>
            \<not> list_all is_ascii_digit (utf8 integer) \<or>
            strlen integer > 1 \<and> hd integer = 48
         then False
         else if (case fraction of None \<Rightarrow> False | Some f \<Rightarrow>
                   f = [] \<or> strlen f > 6 \<or> last f = 48 \<or> \<not> list_all is_ascii_digit (utf8 f))
         then False
         else \<not> (negative \<and> integer = [48] \<and> fraction = None))"

definition is_leap :: "nat \<Rightarrow> bool" where
  "is_leap year \<longleftrightarrow> year mod 4 = 0 \<and> (year mod 100 \<noteq> 0 \<or> year mod 400 = 0)"

definition days_in_month :: "nat \<Rightarrow> nat \<Rightarrow> nat" where
  "days_in_month year month =
     (if month \<in> {1, 3, 5, 7, 8, 10, 12} then 31
      else if month \<in> {4, 6, 9, 11} then 30
      else if month = 2 \<and> is_leap year then 29
      else if month = 2 then 28
      else 0)"

definition parse_u32_or_zero :: "rstr \<Rightarrow> nat" where
  "parse_u32_or_zero s = (case parse_unsigned (2 ^ 32) s of None \<Rightarrow> 0 | Some n \<Rightarrow> n)"

text \<open>
  The slices of \<open>value\<close> are read after the byte test has shown it to be ASCII, so the byte list
  and the string agree there.
\<close>

definition valid_date :: "rstr \<Rightarrow> bool" where
  "valid_date value =
     (let b = utf8 value
      in if length b \<noteq> 10 \<or> b ! 4 \<noteq> 45 \<or> b ! 7 \<noteq> 45 \<or>
            \<not> (\<forall>i \<in> set [0..<10]. i = 4 \<or> i = 7 \<or> is_ascii_digit (b ! i))
         then False
         else
           let year = parse_u32_or_zero (take 4 b);
               month = parse_u32_or_zero (take 2 (drop 5 b));
               day = parse_u32_or_zero (drop 8 b)
           in year \<noteq> 0 \<and> day \<noteq> 0 \<and> day \<le> days_in_month year month)"

definition valid_instant :: "rstr \<Rightarrow> bool" where
  "valid_instant value =
     (let b = utf8 value
      in length b = 20 \<and> list_all is_ascii b \<and> valid_date (take 10 value) \<and>
         b ! 10 = 84 \<and> b ! 13 = 58 \<and> drop 16 b = lit '':00Z'' \<and>
         list_all is_ascii_digit (take 2 (drop 11 b) @ take 2 (drop 14 b)) \<and>
         (case parse_unsigned (2 ^ 8) (take 2 (drop 11 value)) of None \<Rightarrow> False | Some h \<Rightarrow> h < 24) \<and>
         (case parse_unsigned (2 ^ 8) (take 2 (drop 14 value)) of None \<Rightarrow> False | Some m \<Rightarrow> m < 60))"

definition value_matches :: "answer_field \<Rightarrow> answer_value \<Rightarrow> bool" where
  "value_matches field value =
     (case (field, value) of
        (FChoice _ choices _, VChoice c) \<Rightarrow> list_ex (\<lambda>k. choice_key k = c) choices
      | (FNumber _ _, VNumber d) \<Rightarrow> valid_decimal d
      | (FDate _ _, VDate d) \<Rightarrow> valid_date d
      | (FDateTime _ _, VDateTime i) \<Rightarrow> valid_instant i
      | _ \<Rightarrow> False)"

definition validate_value :: "answer_field \<Rightarrow> answer_value \<Rightarrow> rstr + unit" where
  "validate_value field value =
     (if value_matches field value then Inr ()
      else Inl (lit ''answer value does not match definition''))"

definition valid_choice :: "answer_choice list \<Rightarrow> answer_choice \<Rightarrow> bool" where
  \<comment> \<open>the test of the loop body, given the choices before it\<close>
  "valid_choice earlier choice \<longleftrightarrow>
     \<not> (choice_key choice = [] \<or> strlen (choice_key choice) > 40 \<or>
        \<not> list_all (\<lambda>c. is_ascii_alphanumeric c \<or> c = 95 \<or> c = 45) (utf8 (choice_key choice)) \<or>
        \<not> valid_label (choice_label choice) 48 \<or>
        list_ex (\<lambda>old. choice_key old = choice_key choice \<or> choice_label old = choice_label choice) earlier)"

fun validate_choices :: "answer_choice list \<Rightarrow> answer_choice list \<Rightarrow> rstr + unit" where
  "validate_choices earlier [] = Inr ()"
| "validate_choices earlier (c # cs) =
     (if \<not> valid_choice earlier c then Inl (lit ''invalid or duplicate choice'')
      else validate_choices (earlier @ [c]) cs)"

definition validate_field :: "ext \<Rightarrow> answer_field \<Rightarrow> rstr + unit" where
  "validate_field X field =
     (if \<not> valid_label (field_label field) 64 then Inl (lit ''invalid answer label'')
      else if strlen (x_ser X (json_answer_field field)) > 4096
      then Inl (lit ''answer definition exceeds 4096 bytes'')
      else bind_res
        (case field of
           FChoice _ choices _ \<Rightarrow>
             if \<not> (2 \<le> length choices \<and> length choices \<le> 12)
             then Inl (lit ''choice count must be 2'' @ [8211] @ lit ''12'')
             else validate_choices [] choices
         | _ \<Rightarrow> Inr ())
        (\<lambda>_. validate_value field (default_value field)))"

section \<open>What validation guarantees\<close>

lemma validate_value_ok [simp]: "validate_value f v = Inr () \<longleftrightarrow> value_matches f v"
  by (simp add: validate_value_def)

lemma validate_choices_ok:
  "validate_choices earlier cs = Inr () \<Longrightarrow>
   distinct (map choice_key earlier) \<Longrightarrow> distinct (map choice_label earlier) \<Longrightarrow>
   distinct (map choice_key (earlier @ cs)) \<and> distinct (map choice_label (earlier @ cs)) \<and>
   (\<forall>c \<in> set cs. valid_label (choice_label c) 48 \<and> choice_key c \<noteq> [])"
proof (induction earlier cs rule: validate_choices.induct)
  case (2 earlier c cs)
  from "2.prems"(1) have ok: "valid_choice earlier c"
    and rest: "validate_choices (earlier @ [c]) cs = Inr ()"
    by (simp_all split: if_splits)
  from ok "2.prems"(2,3) have d: "distinct (map choice_key (earlier @ [c]))"
    "distinct (map choice_label (earlier @ [c]))"
    by (auto simp: valid_choice_def list_ex_iff)
  from "2.IH" [OF _ rest d] ok have "distinct (map choice_key ((earlier @ [c]) @ cs)) \<and>
     distinct (map choice_label ((earlier @ [c]) @ cs)) \<and>
     (\<forall>c \<in> set cs. valid_label (choice_label c) 48 \<and> choice_key c \<noteq> [])"
    by simp
  moreover from ok have "valid_label (choice_label c) 48 \<and> choice_key c \<noteq> []"
    by (simp add: valid_choice_def)
  ultimately show ?case by simp
qed simp

text \<open>A field that validates accepts its own default, and its choices are pairwise distinct.\<close>

lemma validate_field_default: "validate_field X f = Inr () \<Longrightarrow> value_matches f (default_value f)"
  by (auto simp: validate_field_def bind_res_Inr_iff split: if_splits)

lemma validate_field_choices:
  "validate_field X (FChoice l cs d) = Inr () \<Longrightarrow>
   2 \<le> length cs \<and> length cs \<le> 12 \<and> distinct (map choice_key cs) \<and> distinct (map choice_label cs)"
  using validate_choices_ok [of "[]" cs]
  by (auto simp: validate_field_def bind_res_Inr_iff split: if_splits)

text \<open>Answer values of different kinds never match one field.\<close>

lemma value_matches_same_kind:
  "value_matches f v \<Longrightarrow> value_matches f w \<Longrightarrow>
   (is_VChoice v = is_VChoice w) \<and> (is_VNumber v = is_VNumber w) \<and> (is_VDate v = is_VDate w)"
  by (cases f; cases v; cases w) (auto simp: value_matches_def)

section \<open>The encodings are injective\<close>

lemma json_answer_value_inject [simp]: "json_answer_value v = json_answer_value w \<longleftrightarrow> v = w"
  by (cases v; cases w) auto

lemma json_answer_choice_inject [simp]: "json_answer_choice c = json_answer_choice d \<longleftrightarrow> c = d"
  by (cases c; cases d) (auto simp: json_answer_choice_def)

lemma inj_json_answer_choice: "inj json_answer_choice"
  by (simp add: inj_def)

lemma json_answer_field_inject [simp]: "json_answer_field f = json_answer_field g \<longleftrightarrow> f = g"
  by (cases f; cases g) (auto simp: inj_map_eq_map [OF inj_json_answer_choice])

lemma float_free_answer [simp]: "float_free (json_answer_value v)" "float_free (json_answer_field f)"
proof -
  show v: "float_free (json_answer_value v)" for v by (cases v) auto
  then show "float_free (json_answer_field f)"
    by (cases f) (auto simp: list_all_iff json_answer_choice_def)
qed

end
