(* ===== verification/Wire.thy ===== *)
theory Wire
  imports Answer
begin

text \<open>
  The wire types of nod-proto/src/request.rs, decision.rs, notification.rs, preferences.rs and
  attestation.rs, with the enum texts, the derived serde encodings that enter the digests, the
  projection for clients that cannot answer value requests, the alert preference test, and the
  notification preview policy of preview.rs. Enum text conversions come with their round trips.
\<close>

section \<open>Enums\<close>

datatype option_kind = Approve | ApproveWithText | Reject | RejectWithText | Dismiss | Open | Custom

fun option_kind_str :: "option_kind \<Rightarrow> rstr" where
  "option_kind_str Approve = lit ''approve''"
| "option_kind_str ApproveWithText = lit ''approve_with_text''"
| "option_kind_str Reject = lit ''reject''"
| "option_kind_str RejectWithText = lit ''reject_with_text''"
| "option_kind_str Dismiss = lit ''dismiss''"
| "option_kind_str Open = lit ''open''"
| "option_kind_str Custom = lit ''custom''"

definition option_kind_from :: "rstr \<Rightarrow> option_kind" where
  "option_kind_from value =
     (if value = lit ''approve'' then Approve
      else if value = lit ''approve_with_text'' then ApproveWithText
      else if value = lit ''reject'' then Reject
      else if value = lit ''reject_with_text'' then RejectWithText
      else if value = lit ''dismiss'' then Dismiss
      else if value = lit ''open'' then Open
      else Custom)"

datatype request_status = Pending | Resolved | Expired | Cancelled

definition request_status_from :: "rstr \<Rightarrow> request_status" where
  "request_status_from value =
     (if value = lit ''resolved'' then Resolved
      else if value = lit ''expired'' then Expired
      else if value = lit ''cancelled'' \<or> value = lit ''canceled'' then Cancelled
      else Pending)"

fun request_status_str :: "request_status \<Rightarrow> rstr" where
  \<comment> \<open>the serde encoding, and the texts the statements write\<close>
  "request_status_str Pending = lit ''pending''"
| "request_status_str Resolved = lit ''resolved''"
| "request_status_str Expired = lit ''expired''"
| "request_status_str Cancelled = lit ''cancelled''"

datatype decision_resolution = Shared | PerUser

fun decision_resolution_str :: "decision_resolution \<Rightarrow> rstr" where
  "decision_resolution_str Shared = lit ''shared''"
| "decision_resolution_str PerUser = lit ''per_user''"

definition decision_resolution_from :: "rstr \<Rightarrow> decision_resolution" where
  "decision_resolution_from value = (if value = lit ''per_user'' then PerUser else Shared)"

datatype attestation_status = Verified | Failed

fun attestation_status_str :: "attestation_status \<Rightarrow> rstr" where
  "attestation_status_str Verified = lit ''verified''"
| "attestation_status_str Failed = lit ''failed''"

definition attestation_status_from :: "rstr \<Rightarrow> attestation_status" where
  "attestation_status_from value = (if value = lit ''verified'' then Verified else Failed)"

lemma option_kind_roundtrip [simp]: "option_kind_from (option_kind_str k) = k"
  by (cases k) (simp_all add: option_kind_from_def)

lemma request_status_roundtrip [simp]: "request_status_from (request_status_str s) = s"
  by (cases s) (simp_all add: request_status_from_def)

lemma decision_resolution_roundtrip [simp]: "decision_resolution_from (decision_resolution_str r) = r"
  by (cases r) (simp_all add: decision_resolution_from_def)

lemma attestation_status_roundtrip [simp]: "attestation_status_from (attestation_status_str s) = s"
  by (cases s) (simp_all add: attestation_status_from_def)

lemma option_kind_str_inject [simp]: "option_kind_str k = option_kind_str l \<longleftrightarrow> k = l"
  by (metis option_kind_roundtrip)

lemma decision_resolution_str_inject [simp]:
  "decision_resolution_str k = decision_resolution_str l \<longleftrightarrow> k = l"
  by (metis decision_resolution_roundtrip)

section \<open>Cards\<close>

record card_field =
  cf_label :: rstr
  cf_value :: rstr
  cf_style :: "rstr option"

record card_link =
  cl_label :: rstr
  cl_url :: rstr

record request_option =
  o_id :: rstr
  o_label :: rstr
  o_kind :: option_kind
  o_style :: rstr
  o_requires_text :: bool
  o_text_placeholder :: "rstr option"
  o_destructive :: bool
  o_foreground :: bool

record request_notification =
  n_redact :: bool
  n_title :: "rstr option"
  n_body :: "rstr option"

definition default_notification :: request_notification where
  "default_notification = \<lparr>n_redact = False, n_title = None, n_body = None\<rparr>"

record signing_context =
  sc_version :: rstr
  sc_commitment :: rstr
  sc_digest :: rstr

section \<open>Decisions\<close>

record decision_signature =
  ds_payload_version :: "rstr option"
  ds_key_id :: rstr
  ds_algorithm :: rstr
  ds_nonce :: rstr
  ds_signed_at :: rstr
  ds_request_digest :: rstr
  ds_signature :: rstr

record signature_record =
  sr_payload_version :: "rstr option"
  sr_key_id :: rstr
  sr_algorithm :: rstr
  sr_nonce :: rstr
  sr_signed_at :: rstr
  sr_request_digest :: rstr
  sr_signing_payload :: rstr
  sr_signature :: rstr
  sr_verified :: bool
  sr_public_key :: "rstr option"

record decision =
  d_answer_value :: "answer_value option"
  d_request_id :: rstr
  d_option_id :: rstr
  d_option_kind :: option_kind
  d_option_label :: rstr
  d_text :: "rstr option"
  d_actor_user_id :: "rstr option"
  d_actor_device_id :: "rstr option"
  d_signature :: "signature_record option"
  d_resolved_at :: instant

record user_decision =
  ud_user_id :: rstr
  ud_decision :: decision

record submit_decision =
  sd_answer_value :: "answer_value option"
  sd_text :: "rstr option"
  sd_signature :: "decision_signature option"

section \<open>Requests on the wire\<close>

record request =
  q_answer_field :: "answer_field option"
  q_id :: rstr
  q_request_id :: rstr
  q_channel_id :: rstr
  q_recipients :: "rstr list"
  q_resolution :: decision_resolution
  q_title :: rstr
  q_summary :: rstr
  q_body :: rstr
  q_fields :: "card_field list"
  q_links :: "card_link list"
  q_image_url :: "rstr option"
  q_notification :: request_notification
  q_dedupe_key :: "rstr option"
  q_expires_at :: "instant option"
  q_status :: request_status
  q_created_at :: instant
  q_updated_at :: instant
  q_resolved_at :: "instant option"
  q_decision :: "decision option"
  q_decisions :: "user_decision list"
  q_callback_url :: "rstr option"
  q_options :: "request_option list"
  q_request_digest :: "rstr option"
  q_signing :: "signing_context option"

record create_request_body =
  c_answer_field :: "answer_field option"
  c_channel_id :: rstr
  c_recipients :: "rstr list option"
  c_resolution :: "decision_resolution option"
  c_title :: rstr
  c_summary :: rstr
  c_body :: rstr
  c_fields :: "card_field list"
  c_links :: "card_link list"
  c_image_url :: "rstr option"
  c_notification :: request_notification
  c_dedupe_key :: "rstr option"
  c_expires_at :: "instant option"
  c_options :: "request_option list"
  c_callback_url :: "rstr option"

text \<open>\<open>Request::legacy_value_projection\<close>, shown to clients that cannot answer value requests.\<close>

definition value_open_option :: request_option where
  "value_open_option = \<lparr>o_id = lit ''__nod_value_open'', o_label = lit ''Open in app'', o_kind = Custom,
     o_style = lit ''default'', o_requires_text = False, o_text_placeholder = None,
     o_destructive = False, o_foreground = True\<rparr>"

definition legacy_value_projection :: "request \<Rightarrow> request" where
  "legacy_value_projection q =
     (if q_answer_field q = None then q
      else let summary = lit ''Open in an updated Nod app to answer this request.'' in
        q\<lparr>q_answer_field := None, q_summary := summary, q_body := summary, q_fields := [],
          q_links := [], q_image_url := None, q_notification := default_notification,
          q_decision := None, q_decisions := [], q_callback_url := None,
          q_request_digest := None, q_options := [value_open_option]\<rparr>)"

lemma legacy_value_projection_idem:
  "legacy_value_projection (legacy_value_projection q) = legacy_value_projection q"
  by (simp add: legacy_value_projection_def Let_def)

section \<open>Encodings that enter a digest\<close>

definition json_opt :: "('a \<Rightarrow> json) \<Rightarrow> 'a option \<Rightarrow> json" where
  "json_opt f v = (case v of None \<Rightarrow> JNull | Some x \<Rightarrow> f x)"

definition json_card_field :: "card_field \<Rightarrow> json" where
  "json_card_field f = JObj [(lit ''label'', JStr (cf_label f)), (lit ''value'', JStr (cf_value f)),
     (lit ''style'', json_opt JStr (cf_style f))]"

definition json_card_link :: "card_link \<Rightarrow> json" where
  "json_card_link l = JObj [(lit ''label'', JStr (cl_label l)), (lit ''url'', JStr (cl_url l))]"

definition json_request_option :: "request_option \<Rightarrow> json" where
  "json_request_option p = JObj [(lit ''id'', JStr (o_id p)), (lit ''label'', JStr (o_label p)),
     (lit ''kind'', JStr (option_kind_str (o_kind p))), (lit ''style'', JStr (o_style p)),
     (lit ''requires_text'', JBool (o_requires_text p)),
     (lit ''text_placeholder'', json_opt JStr (o_text_placeholder p)),
     (lit ''destructive'', JBool (o_destructive p)), (lit ''foreground'', JBool (o_foreground p))]"

definition json_notification :: "request_notification \<Rightarrow> json" where
  "json_notification n = JObj [(lit ''redact'', JBool (n_redact n)),
     (lit ''title'', json_opt JStr (n_title n)), (lit ''body'', json_opt JStr (n_body n))]"

lemma json_opt_inject:
  "(\<And>x. f x \<noteq> JNull) \<Longrightarrow> (\<And>x y. f x = f y \<longleftrightarrow> x = y) \<Longrightarrow> json_opt f v = json_opt f w \<longleftrightarrow> v = w"
  by (cases v; cases w; simp add: json_opt_def; metis)

lemma json_opt_JStr_inject [simp]: "json_opt JStr v = json_opt JStr w \<longleftrightarrow> v = w"
  by (rule json_opt_inject) auto

lemma json_card_field_inject: "inj json_card_field"
  by (auto simp: inj_def json_card_field_def intro: card_field.equality)

lemma json_card_link_inject: "inj json_card_link"
  by (auto simp: inj_def json_card_link_def intro: card_link.equality)

lemma json_request_option_inject: "inj json_request_option"
  by (auto simp: inj_def json_request_option_def intro: request_option.equality)

lemma json_notification_inject: "json_notification n = json_notification m \<longleftrightarrow> n = m"
  by (auto simp: json_notification_def intro: request_notification.equality)

lemma json_opt_float_free [simp]: "float_free (json_opt JStr v)"
  by (cases v) (auto simp: json_opt_def)

lemma wire_float_free [simp]:
  "float_free (json_card_field f)" "float_free (json_card_link l)"
  "float_free (json_request_option p)" "float_free (json_notification n)"
  by (simp_all add: json_card_field_def json_card_link_def json_request_option_def json_notification_def)

section \<open>Device preferences\<close>

record device_preferences =
  dp_hide_content :: bool
  dp_muted_channels :: "rstr list"
  dp_snoozed_until :: "instant option"

definition default_preferences :: device_preferences where
  "default_preferences = \<lparr>dp_hide_content = False, dp_muted_channels = [], dp_snoozed_until = None\<rparr>"

definition allows_alert :: "device_preferences \<Rightarrow> rstr \<Rightarrow> instant \<Rightarrow> bool" where
  "allows_alert p channel now \<longleftrightarrow>
     \<not> list_ex (\<lambda>c. c = channel) (dp_muted_channels p) \<and>
     (case dp_snoozed_until p of None \<Rightarrow> True | Some until \<Rightarrow> until \<le> now)"

section \<open>Notification preview\<close>

record notification_preview =
  np_title :: rstr
  np_body :: rstr
  np_allow_image :: bool

definition open_nod_text :: rstr where
  "open_nod_text = lit ''Open Nod to review this request.''"

definition nonblank :: "rstr option \<Rightarrow> rstr option" where
  "nonblank v = (case v of Some t \<Rightarrow> if trim t \<noteq> [] then Some t else None | None \<Rightarrow> None)"

definition notification_preview_of :: "request \<Rightarrow> notification_preview" where
  "notification_preview_of q =
     (let hints = q_notification q;
          title = (case nonblank (n_title hints) of Some t \<Rightarrow> t
                   | None \<Rightarrow> if n_redact hints then lit ''Nod'' else q_title q);
          body = (case nonblank (n_body hints) of Some b \<Rightarrow> b
                  | None \<Rightarrow>
                     if n_redact hints then open_nod_text
                     else if trim (q_summary q) \<noteq> [] then q_summary q
                     else if trim (q_body q) \<noteq> [] then q_body q
                     else open_nod_text)
      in \<lparr>np_title = take 200 (trim title), np_body = take 500 (trim body),
          np_allow_image = \<not> n_redact hints\<rparr>)"

lemma nonblank_Some_iff [simp]: "nonblank v = Some t \<longleftrightarrow> v = Some t \<and> trim t \<noteq> []"
  by (auto simp: nonblank_def split: option.splits if_splits)

lemma trim_open_nod_text: "trim open_nod_text \<noteq> []"
  by (simp add: open_nod_text_def trim_eqI lit_def is_whitespace_def)

end
