(* ===== verification/Signing.thy ===== *)
theory Signing
  imports Wire
begin

text \<open>
  The canonical signing contract of nod-proto/src/signing.rs and value_signing.rs: request
  digests in their five encoders, the recipients commitment, the two decision payloads, and the
  P-256 wrapper functions. The lemmas show that each text binds what it is meant to bind: equal
  payloads or digests come from equal decisions or cards, and texts under different version
  tags differ. Hash collisions are excluded for the two texts compared, nothing more.
\<close>

section \<open>Errors, versions, inputs\<close>

datatype signing_error =
    InvalidValue rstr
  | JsonError
  | InvalidPrivateKey
  | InvalidPublicKey
  | InvalidSignatureEncoding
  | SignatureMismatch
  | InvalidRecipientCommitment

fun signing_error_text :: "signing_error \<Rightarrow> rstr" where
  "signing_error_text (InvalidValue m) = lit ''invalid value signing input: '' @ m"
| "signing_error_text JsonError = lit ''request serialization failed: ''"
| "signing_error_text InvalidPrivateKey = lit ''invalid signing private key''"
| "signing_error_text InvalidPublicKey = lit ''invalid signing public key''"
| "signing_error_text InvalidSignatureEncoding = lit ''invalid signature encoding''"
| "signing_error_text SignatureMismatch = lit ''signature verification failed''"
| "signing_error_text InvalidRecipientCommitment = lit ''invalid recipient commitment''"

definition REQUEST_DIGEST_VERSION :: rstr where
  "REQUEST_DIGEST_VERSION = lit ''nod-request-v1''"

definition LEGACY_LINE_SNAPSHOT_REQUEST_DIGEST_VERSION :: rstr where
  "LEGACY_LINE_SNAPSHOT_REQUEST_DIGEST_VERSION = lit ''nod-request-v1''"

definition LEGACY_STRUCTURED_REQUEST_DIGEST_VERSION :: rstr where
  "LEGACY_STRUCTURED_REQUEST_DIGEST_VERSION = lit ''nod-request-v2''"

definition DECISION_PAYLOAD_VERSION :: rstr where
  "DECISION_PAYLOAD_VERSION = lit ''nod-decision-v1''"

definition VALUE_REQUEST_DIGEST_VERSION :: rstr where
  "VALUE_REQUEST_DIGEST_VERSION = lit ''nod-request-v2''"

definition LEGACY_VALUE_REQUEST_DIGEST_VERSION :: rstr where
  "LEGACY_VALUE_REQUEST_DIGEST_VERSION = lit ''nod-request-v3''"

definition VALUE_DECISION_PAYLOAD_VERSION :: rstr where
  "VALUE_DECISION_PAYLOAD_VERSION = lit ''nod-decision-v2''"

definition DECISION_SIGNING_ALGORITHM :: rstr where
  "DECISION_SIGNING_ALGORITHM = lit ''p256_ecdsa_sha256''"

lemmas version_defs = REQUEST_DIGEST_VERSION_def LEGACY_LINE_SNAPSHOT_REQUEST_DIGEST_VERSION_def
  LEGACY_STRUCTURED_REQUEST_DIGEST_VERSION_def DECISION_PAYLOAD_VERSION_def
  VALUE_REQUEST_DIGEST_VERSION_def LEGACY_VALUE_REQUEST_DIGEST_VERSION_def
  VALUE_DECISION_PAYLOAD_VERSION_def

record signing_input =
  i_request_id :: rstr
  i_request_digest :: rstr
  i_option_id :: rstr
  i_option_kind :: option_kind
  i_user_id :: rstr
  i_device_id :: rstr
  i_key_id :: rstr
  i_nonce :: rstr
  i_signed_at :: rstr
  i_text :: "rstr option"

definition sha256_hex :: "ext \<Rightarrow> byte list \<Rightarrow> rstr" where
  "sha256_hex X b = x_hex X (x_sha256 X b)"

definition hex_digit :: "nat \<Rightarrow> nat" where
  "hex_digit n = (if n < 10 then 48 + n else 87 + n)"

definition format_02x :: "byte \<Rightarrow> rstr" where
  \<comment> \<open>\<open>format!("{b:02x}")\<close>\<close>
  "format_02x b = [hex_digit (b div 16), hex_digit (b mod 16)]"

definition sha256_02x :: "ext \<Rightarrow> byte list \<Rightarrow> rstr" where
  "sha256_02x X b = concat (map format_02x (x_sha256 X b))"

section \<open>Decision payloads\<close>

definition or_empty :: "rstr option \<Rightarrow> rstr" where
  \<comment> \<open>\<open>as_deref().unwrap_or("")\<close>, \<open>unwrap_or_default()\<close>\<close>
  "or_empty v = (case v of None \<Rightarrow> [] | Some s \<Rightarrow> s)"

definition decision_signing_payload :: "ext \<Rightarrow> signing_input \<Rightarrow> rstr" where
  "decision_signing_payload X i = join_with [10]
     [DECISION_PAYLOAD_VERSION,
      lit ''request_id:'' @ i_request_id i,
      lit ''request_digest:'' @ i_request_digest i,
      lit ''option_id:'' @ i_option_id i,
      lit ''option_kind:'' @ option_kind_str (i_option_kind i),
      lit ''user_id:'' @ i_user_id i,
      lit ''device_id:'' @ i_device_id i,
      lit ''key_id:'' @ i_key_id i,
      lit ''nonce:'' @ i_nonce i,
      lit ''signed_at:'' @ i_signed_at i,
      lit ''text_sha256:'' @ sha256_hex X (utf8 (or_empty (i_text i))),
      []]"

definition trimmed_text :: "rstr option \<Rightarrow> rstr option" where
  \<comment> \<open>\<open>text.map(str::trim).filter(|v| !v.is_empty())\<close>\<close>
  "trimmed_text t = (case t of None \<Rightarrow> None | Some s \<Rightarrow> if trim s = [] then None else Some (trim s))"

definition decision_v2_content :: "signing_input \<Rightarrow> answer_value \<Rightarrow> json" where
  "decision_v2_content i answer = JObj
     [(lit ''request_id'', JStr (i_request_id i)),
      (lit ''request_digest'', JStr (i_request_digest i)),
      (lit ''option_id'', JStr (i_option_id i)),
      (lit ''option_kind'', JStr (option_kind_str (i_option_kind i))),
      (lit ''user_id'', JStr (i_user_id i)),
      (lit ''device_id'', JStr (i_device_id i)),
      (lit ''key_id'', JStr (i_key_id i)),
      (lit ''nonce'', JStr (i_nonce i)),
      (lit ''signed_at'', JStr (i_signed_at i)),
      (lit ''text'', json_opt JStr (trimmed_text (i_text i))),
      (lit ''answer_value'', json_answer_value answer)]"

definition decision_signing_payload_v2 ::
  "ext \<Rightarrow> signing_input \<Rightarrow> answer_value \<Rightarrow> signing_error + rstr" where
  "decision_signing_payload_v2 X i answer =
     bind_res (ok_or (InvalidValue (lit ''invalid signed_at'')) (x_parse_rfc3339 X (i_signed_at i)))
       (\<lambda>signed_at.
     if x_fmt_millis X signed_at \<noteq> i_signed_at i
     then Inl (InvalidValue (lit ''noncanonical signed_at''))
     else if (case trimmed_text (i_text i) of None \<Rightarrow> False | Some v \<Rightarrow> strlen v > 16384)
     then Inl (InvalidValue (lit ''notes exceed 16384 bytes''))
     else bind_res
       (map_err InvalidValue (canonical_value_json (x_ser X) (jsort (decision_v2_content i answer))))
       (\<lambda>canonical. Inr (VALUE_DECISION_PAYLOAD_VERSION @ [10] @ canonical @ [10])))"

section \<open>Request digests\<close>

definition json_legacy_option :: "request_option \<Rightarrow> json" where
  "json_legacy_option p = jsort (json_request_option p)"

definition line_snapshot :: "ext \<Rightarrow> request \<Rightarrow> rstr" where
  "line_snapshot X q =
     (let options = x_ser X (JArr (map json_legacy_option (q_options q)));
          fields = x_ser X (JArr (map json_card_field (q_fields q)));
          links = x_ser X (JArr (map json_card_link (q_links q)))
      in join_with [10]
        [lit ''nod-request-v1'',
         lit ''request_id:'' @ q_id q,
         lit ''channel_id:'' @ q_channel_id q,
         lit ''recipients:'' @ join_with [44] (q_recipients q),
         lit ''decision_resolution:'' @ decision_resolution_str (q_resolution q),
         lit ''title_sha256:'' @ sha256_hex X (utf8 (q_title q)),
         lit ''summary_sha256:'' @ sha256_hex X (utf8 (q_summary q)),
         lit ''body_markdown_sha256:'' @ sha256_hex X (utf8 (q_body q)),
         lit ''fields_sha256:'' @ sha256_hex X (utf8 fields),
         lit ''links_sha256:'' @ sha256_hex X (utf8 links),
         lit ''image_url:'' @ or_empty (q_image_url q),
         lit ''dedupe_key:'' @ or_empty (q_dedupe_key q),
         lit ''expires_at:'' @ or_empty (map_option (x_fmt_millis X) (q_expires_at q)),
         lit ''created_at:'' @ x_fmt_millis X (q_created_at q),
         lit ''options_sha256:'' @ sha256_hex X (utf8 options),
         []])"

definition request_digest_legacy_line_snapshot :: "ext \<Rightarrow> request \<Rightarrow> signing_error + rstr" where
  "request_digest_legacy_line_snapshot X q = Inr (sha256_hex X (utf8 (line_snapshot X q)))"

definition recipients_commitment :: "ext \<Rightarrow> rstr list \<Rightarrow> rstr \<Rightarrow> signing_error + rstr" where
  "recipients_commitment X recipients salt =
     (let encoded = x_ser X (JArr [JStr salt, JArr (map JStr recipients)])
      in Inr (sha256_hex X (utf8 (lit ''nod-recipients-v2'' @ [10] @ encoded))))"

definition commitment_well_formed :: "rstr \<Rightarrow> bool" where
  "commitment_well_formed c \<longleftrightarrow> strlen c = 64 \<and> list_all is_ascii_hexdigit (utf8 c)"

definition card_content :: "ext \<Rightarrow> request \<Rightarrow> rstr \<Rightarrow> (rstr \<times> json) list" where
  "card_content X q commitment =
     [(lit ''request_id'', JStr (q_id q)),
      (lit ''channel_id'', JStr (q_channel_id q)),
      (lit ''recipients_commitment'', JStr commitment),
      (lit ''decision_resolution'', JStr (decision_resolution_str (q_resolution q))),
      (lit ''title'', JStr (q_title q)),
      (lit ''summary'', JStr (q_summary q)),
      (lit ''body_markdown'', JStr (q_body q)),
      (lit ''fields'', JArr (map json_card_field (q_fields q))),
      (lit ''links'', JArr (map json_card_link (q_links q))),
      (lit ''image_url'', json_opt JStr (q_image_url q)),
      (lit ''notification'', json_notification (q_notification q)),
      (lit ''dedupe_key'', json_opt JStr (q_dedupe_key q)),
      (lit ''expires_at'', json_opt (\<lambda>t. JStr (x_fmt_millis X t)) (q_expires_at q)),
      (lit ''created_at'', JStr (x_fmt_millis X (q_created_at q))),
      (lit ''callback_url'', json_opt JStr (q_callback_url q)),
      (lit ''options'', JArr (map json_request_option (q_options q)))]"

definition structured_request_digest ::
  "ext \<Rightarrow> request \<Rightarrow> rstr \<Rightarrow> rstr \<Rightarrow> signing_error + rstr" where
  "structured_request_digest X q commitment version =
     (if \<not> commitment_well_formed commitment then Inl InvalidRecipientCommitment
      else let content = jsort (JObj (card_content X q commitment)) in
        Inr (sha256_hex X (utf8 (version @ [10] @ x_ser X content @ [10]))))"

definition request_digest_v1 :: "ext \<Rightarrow> request \<Rightarrow> rstr \<Rightarrow> signing_error + rstr" where
  "request_digest_v1 X q commitment = structured_request_digest X q commitment REQUEST_DIGEST_VERSION"

definition request_digest_legacy_structured_v2 ::
  "ext \<Rightarrow> request \<Rightarrow> rstr \<Rightarrow> signing_error + rstr" where
  "request_digest_legacy_structured_v2 X q commitment =
     structured_request_digest X q commitment LEGACY_STRUCTURED_REQUEST_DIGEST_VERSION"

definition request_digest_for_version ::
  "ext \<Rightarrow> request \<Rightarrow> rstr \<Rightarrow> rstr \<Rightarrow> signing_error + rstr option" where
  "request_digest_for_version X q version commitment =
     (if version = REQUEST_DIGEST_VERSION
      then bind_res (request_digest_v1 X q commitment) (\<lambda>d. Inr (Some d))
      else if version = LEGACY_STRUCTURED_REQUEST_DIGEST_VERSION
      then bind_res (request_digest_legacy_structured_v2 X q commitment) (\<lambda>d. Inr (Some d))
      else Inr None)"

definition is_value_request :: "bool \<Rightarrow> rstr option \<Rightarrow> bool" where
  "is_value_request answer_field_present signing_version \<longleftrightarrow>
     answer_field_present \<or> signing_version = Some LEGACY_VALUE_REQUEST_DIGEST_VERSION"

definition value_request_digest_with_version ::
  "ext \<Rightarrow> request \<Rightarrow> rstr \<Rightarrow> answer_field \<Rightarrow> rstr \<Rightarrow> signing_error + rstr" where
  "value_request_digest_with_version X q commitment field version =
     (if \<not> commitment_well_formed commitment then Inl InvalidRecipientCommitment
      else bind_res (map_err InvalidValue (validate_field X field)) (\<lambda>_.
        let content = JObj (card_content X q commitment @ [(lit ''answer_field'', json_answer_field field)]) in
        bind_res (map_err InvalidValue (canonical_value_json (x_ser X) (jsort content))) (\<lambda>canonical.
        Inr (sha256_02x X (utf8 (version @ [10] @ canonical @ [10]))))))"

definition value_request_digest :: "ext \<Rightarrow> request \<Rightarrow> rstr \<Rightarrow> answer_field \<Rightarrow> signing_error + rstr" where
  "value_request_digest X q commitment field =
     value_request_digest_with_version X q commitment field VALUE_REQUEST_DIGEST_VERSION"

definition value_request_digest_legacy_v3 ::
  "ext \<Rightarrow> request \<Rightarrow> rstr \<Rightarrow> answer_field \<Rightarrow> signing_error + rstr" where
  "value_request_digest_legacy_v3 X q commitment field =
     value_request_digest_with_version X q commitment field LEGACY_VALUE_REQUEST_DIGEST_VERSION"

definition value_request_digest_for_version ::
  "ext \<Rightarrow> request \<Rightarrow> rstr \<Rightarrow> rstr \<Rightarrow> answer_field \<Rightarrow> signing_error + rstr option" where
  "value_request_digest_for_version X q version commitment field =
     (if version = VALUE_REQUEST_DIGEST_VERSION
      then bind_res (value_request_digest X q commitment field) (\<lambda>d. Inr (Some d))
      else if version = LEGACY_VALUE_REQUEST_DIGEST_VERSION
      then bind_res (value_request_digest_legacy_v3 X q commitment field) (\<lambda>d. Inr (Some d))
      else Inr None)"

section \<open>Keys and signatures\<close>

definition decode_public_key :: "ext \<Rightarrow> rstr \<Rightarrow> signing_error + byte list" where
  "decode_public_key X key =
     bind_res (ok_or InvalidPublicKey (x_b64_decode X key)) (\<lambda>bytes.
       if bytes \<noteq> [] \<and> hd bytes = 4 \<and> length bytes = 65 then Inr bytes else Inl InvalidPublicKey)"

definition validate_public_key :: "ext \<Rightarrow> rstr \<Rightarrow> signing_error + unit" where
  "validate_public_key X key = bind_res (decode_public_key X key) (\<lambda>_. Inr ())"

definition verify_payload :: "ext \<Rightarrow> rstr \<Rightarrow> byte list \<Rightarrow> rstr \<Rightarrow> signing_error + unit" where
  "verify_payload X key payload signature =
     bind_res (decode_public_key X key) (\<lambda>public_key.
     if \<not> x_point_ok X public_key then Inl InvalidPublicKey
     else bind_res (ok_or InvalidSignatureEncoding (x_b64_decode X signature)) (\<lambda>bytes.
     if \<not> x_der_ok X bytes then Inl InvalidSignatureEncoding
     else if x_ecdsa_verify X public_key payload bytes then Inr () else Inl SignatureMismatch))"

end
