(* ===== verification/Signing_Facts.thy ===== *)
theory Signing_Facts
  imports Signing
begin

text \<open>
  What the canonical texts bind. \<open>same_card\<close> says that two wire requests agree on everything the
  structured digest covers. The preimage definitions name the texts that are hashed, so that a
  property can exclude a collision between exactly two of them.
\<close>

section \<open>Members of sorted objects\<close>

lemma map_of_insort: "map_of (insort_key fst (k, v) xs) x = (if x = k then Some v else map_of xs x)"
  by (induction xs) auto

lemma map_of_sort_key [simp]: "map_of (sort_key fst kvs) k = map_of kvs k"
proof (induction kvs)
  case (Cons m kvs)
  then show ?case by (cases m) (simp add: map_of_insort)
qed simp

lemma jsort_member:
  assumes "jsort (JObj ms) = jsort (JObj ns)"
  shows "map_option jsort (map_of ms k) = map_option jsort (map_of ns k)"
proof -
  have "map_of (map (\<lambda>(k, v). (k, jsort v)) (sort_key fst ms)) k =
      map_of (map (\<lambda>(k, v). (k, jsort v)) (sort_key fst ns)) k"
    using assms unfolding jsort_JObj by simp
  then show ?thesis by (simp add: map_of_map)
qed

lemma jsort_idem [simp]: "jsort (jsort v) = jsort v"
proof (induction v)
  case (JObj ms)
  then have "(k, v) \<in> set ms \<Longrightarrow> jsort (jsort v) = jsort v" for k v
    by (force simp: snds.simps)
  then show ?case
    by (simp only: jsort_JObj) (auto simp: sort_key_id_if_sorted comp_def case_prod_beta)
qed (auto simp: comp_def)

lemma float_free_jsort [simp]: "float_free (jsort v) \<longleftrightarrow> float_free v"
proof (induction v)
  case (JObj ms)
  then have "(k, v) \<in> set ms \<Longrightarrow> float_free (jsort v) \<longleftrightarrow> float_free v" for k v
    by (force simp: snds.simps)
  then show ?case
    by (fastforce simp: list_all_iff)
qed (auto simp: list_all_iff)

lemma jsort_JArr_inject:
  assumes "\<And>x y. jsort (f x) = jsort (f y) \<Longrightarrow> x = y" and "jsort (JArr (map f xs)) = jsort (JArr (map f ys))"
  shows "xs = ys"
proof -
  have "inj (\<lambda>x. jsort (f x))" using assms(1) by (auto simp: inj_def)
  with assms(2) show ?thesis by (auto simp: comp_def inj_map_eq_map)
qed

lemma jsort_json_opt [simp]: "jsort (json_opt JStr v) = json_opt JStr v"
  by (cases v) (auto simp: json_opt_def)

lemma jsort_answer_value_inject:
  assumes "jsort (json_answer_value v) = jsort (json_answer_value w)"
  shows "v = w"
proof (cases v; cases w)
qed (use assms jsort_member [where k = "lit ''kind''"] jsort_member [where k = "lit ''choice_id''"]
      jsort_member [where k = "lit ''decimal''"] jsort_member [where k = "lit ''date''"]
      jsort_member [where k = "lit ''instant''"] in \<open>fastforce simp del: jsort.simps(2)\<close>)+

lemma jsort_card_field_inject:
  assumes "jsort (json_card_field f) = jsort (json_card_field g)"
  shows "f = g"
proof (rule card_field.equality)
  note m = jsort_member [OF assms [unfolded json_card_field_def]]
  show "cf_label f = cf_label g" using m [of "lit ''label''"] by simp
  show "cf_value f = cf_value g" using m [of "lit ''value''"] by simp
  show "cf_style f = cf_style g" using m [of "lit ''style''"] by simp
qed simp

lemma jsort_card_link_inject:
  assumes "jsort (json_card_link f) = jsort (json_card_link g)"
  shows "f = g"
proof (rule card_link.equality)
  note m = jsort_member [OF assms [unfolded json_card_link_def]]
  show "cl_label f = cl_label g" using m [of "lit ''label''"] by simp
  show "cl_url f = cl_url g" using m [of "lit ''url''"] by simp
qed simp

lemma jsort_request_option_inject:
  assumes "jsort (json_request_option p) = jsort (json_request_option q)"
  shows "p = q"
proof (rule request_option.equality)
  note m = jsort_member [OF assms [unfolded json_request_option_def]]
  show "o_id p = o_id q" using m [of "lit ''id''"] by simp
  show "o_label p = o_label q" using m [of "lit ''label''"] by simp
  show "o_kind p = o_kind q" using m [of "lit ''kind''"] by simp
  show "o_style p = o_style q" using m [of "lit ''style''"] by simp
  show "o_requires_text p = o_requires_text q" using m [of "lit ''requires_text''"] by simp
  show "o_text_placeholder p = o_text_placeholder q" using m [of "lit ''text_placeholder''"] by simp
  show "o_destructive p = o_destructive q" using m [of "lit ''destructive''"] by simp
  show "o_foreground p = o_foreground q" using m [of "lit ''foreground''"] by simp
qed simp

lemma jsort_notification_inject:
  assumes "jsort (json_notification p) = jsort (json_notification q)"
  shows "p = q"
proof (rule request_notification.equality)
  note m = jsort_member [OF assms [unfolded json_notification_def]]
  show "n_redact p = n_redact q" using m [of "lit ''redact''"] by simp
  show "n_title p = n_title q" using m [of "lit ''title''"] by simp
  show "n_body p = n_body q" using m [of "lit ''body''"] by simp
qed simp

section \<open>The card a structured digest covers\<close>

definition same_card :: "request \<Rightarrow> request \<Rightarrow> bool" where
  "same_card p q \<longleftrightarrow>
     q_id p = q_id q \<and> q_channel_id p = q_channel_id q \<and> q_resolution p = q_resolution q \<and>
     q_title p = q_title q \<and> q_summary p = q_summary q \<and> q_body p = q_body q \<and>
     q_fields p = q_fields q \<and> q_links p = q_links q \<and> q_image_url p = q_image_url q \<and>
     q_notification p = q_notification q \<and> q_dedupe_key p = q_dedupe_key q \<and>
     map_option millis (q_expires_at p) = map_option millis (q_expires_at q) \<and>
     millis (q_created_at p) = millis (q_created_at q) \<and>
     q_callback_url p = q_callback_url q \<and> q_options p = q_options q"

lemma card_content_inject:
  assumes X: "time_text_ok X"
    and eq: "jsort (JObj (card_content X p c @ ms)) = jsort (JObj (card_content X q d @ ns))"
  shows "same_card p q \<and> c = d"
proof -
  note m = jsort_member [OF eq [unfolded card_content_def]]
  have "map_option millis (q_expires_at p) = map_option millis (q_expires_at q)"
    using m [of "lit ''expires_at''"] fmt_millis_inject [OF X]
    by (cases "q_expires_at p"; cases "q_expires_at q") (auto simp: json_opt_def)
  moreover have "q_fields p = q_fields q"
    using m [of "lit ''fields''"] by (auto intro: jsort_JArr_inject jsort_card_field_inject)
  moreover have "q_links p = q_links q"
    using m [of "lit ''links''"] by (auto intro: jsort_JArr_inject jsort_card_link_inject)
  moreover have "q_options p = q_options q"
    using m [of "lit ''options''"] by (auto intro: jsort_JArr_inject jsort_request_option_inject)
  moreover have "q_notification p = q_notification q"
    using m [of "lit ''notification''"] by (auto intro: jsort_notification_inject)
  ultimately show ?thesis
    unfolding same_card_def
    using m [of "lit ''request_id''"] m [of "lit ''channel_id''"] m [of "lit ''decision_resolution''"]
      m [of "lit ''title''"] m [of "lit ''summary''"] m [of "lit ''body_markdown''"]
      m [of "lit ''image_url''"] m [of "lit ''dedupe_key''"] m [of "lit ''callback_url''"]
      m [of "lit ''recipients_commitment''"] m [of "lit ''created_at''"] fmt_millis_inject [OF X]
    by simp
qed

lemma card_content_float_free [simp]: "list_all (\<lambda>(k, v). float_free v) (card_content X q c)"
  by (auto simp: card_content_def list_all_iff json_opt_def split: option.splits)

definition structured_preimage :: "ext \<Rightarrow> request \<Rightarrow> rstr \<Rightarrow> rstr \<Rightarrow> byte list" where
  "structured_preimage X q commitment version =
     utf8 (version @ [10] @ x_ser X (jsort (JObj (card_content X q commitment))) @ [10])"

lemma sha256_hex_inject:
  "hex_ok X \<Longrightarrow> no_collision X {a, b} \<Longrightarrow> sha256_hex X a = sha256_hex X b \<longleftrightarrow> a = b"
  unfolding sha256_hex_def hex_ok_def no_collision_def by (auto dest: injD inj_onD)

lemma format_02x_inject: "format_02x a = format_02x b \<longleftrightarrow> a = b"
proof
  have digit: "hex_digit m = hex_digit n \<Longrightarrow> m = n" for m n
    by (auto simp: hex_digit_def split: if_splits)
  assume "format_02x a = format_02x b"
  then have "a div 16 = b div 16" "a mod 16 = b mod 16" by (auto simp: format_02x_def dest: digit)
  then show "a = b" by (metis div_mult_mod_eq)
qed simp

lemma concat_format_02x_inject:
  "concat (map format_02x a) = concat (map format_02x b) \<Longrightarrow> a = b"
proof (induction a arbitrary: b)
  case Nil
  then show ?case by (cases b) (auto simp: format_02x_def)
next
  case (Cons x a)
  from Cons.prems obtain y b' where b: "b = y # b'" by (cases b) (auto simp: format_02x_def)
  have "length (format_02x x) = length (format_02x y)" by (simp add: format_02x_def)
  with Cons.prems b have "format_02x x = format_02x y" "concat (map format_02x a) = concat (map format_02x b')"
    by (simp_all add: append_eq_append_conv)
  with Cons.IH b show ?case by (simp add: format_02x_inject)
qed

lemma sha256_02x_inject:
  "no_collision X {a, b} \<Longrightarrow> sha256_02x X a = sha256_02x X b \<longleftrightarrow> a = b"
  unfolding sha256_02x_def no_collision_def by (auto dest: concat_format_02x_inject inj_onD)

section \<open>Decision payloads\<close>

definition newline_free :: "rstr \<Rightarrow> bool" where
  "newline_free s \<longleftrightarrow> 10 \<notin> set s"

definition input_lines_ok :: "signing_input \<Rightarrow> bool" where
  \<comment> \<open>every field but the nonce is a single line\<close>
  "input_lines_ok i \<longleftrightarrow> list_all newline_free
     [i_request_id i, i_request_digest i, i_option_id i, i_user_id i, i_device_id i, i_key_id i,
      i_signed_at i]"

abbreviation text_bytes :: "signing_input \<Rightarrow> byte list" where
  "text_bytes i \<equiv> utf8 (or_empty (i_text i))"

lemma option_kind_str_newline_free: "10 \<notin> set (option_kind_str k)"
  by (cases k) (simp_all add: lit_def)

text \<open>
  The lines before the nonce are separated from the left, the two after it from the right, so that a
  line break inside the nonce moves no boundary.
\<close>

lemma sep_append_iff:
  "c \<notin> set p \<Longrightarrow> c \<notin> set q \<Longrightarrow> p @ c # s = q @ c # t \<longleftrightarrow> p = q \<and> s = t"
  by (metis sep_append_inject)

lemma sep_append_iff_right:
  assumes "c \<notin> set s" "c \<notin> set t"
  shows "p @ c # s = q @ c # t \<longleftrightarrow> p = q \<and> s = t"
proof
  assume "p @ c # s = q @ c # t"
  then have "rev (p @ c # s) = rev (q @ c # t)" by (rule arg_cong)
  then have "rev s @ c # rev p = rev t @ c # rev q"
    by (simp only: rev_append rev.simps append.assoc append_Cons append_Nil)
  with assms show "p = q \<and> s = t" by (simp add: sep_append_iff)
qed simp

lemma last_two_lines:
  assumes "c \<notin> set (l @ a)" "c \<notin> set (l @ b)" "c \<notin> set (m @ h)" "c \<notin> set (m @ k)"
  shows "p @ c # l @ a @ c # m @ h = q @ c # l @ b @ c # m @ k \<longleftrightarrow> p = q \<and> a = b \<and> h = k"
proof -
  have "p @ c # l @ a @ c # m @ h = q @ c # l @ b @ c # m @ k \<longleftrightarrow>
      (p @ c # (l @ a)) @ c # (m @ h) = (q @ c # (l @ b)) @ c # (m @ k)"
    by simp
  also have "\<dots> \<longleftrightarrow> p = q \<and> a = b \<and> h = k"
    by (simp only: sep_append_iff_right [OF assms(3,4)] sep_append_iff_right [OF assms(1,2)]) auto
  finally show ?thesis .
qed

lemma decision_payload_inject:
  assumes hex: "hex_ok X" and lines: "input_lines_ok i" "input_lines_ok j"
    and eq: "decision_signing_payload X i = decision_signing_payload X j"
  shows "i_request_id i = i_request_id j \<and> i_request_digest i = i_request_digest j \<and>
    i_option_id i = i_option_id j \<and> i_option_kind i = i_option_kind j \<and> i_user_id i = i_user_id j \<and>
    i_device_id i = i_device_id j \<and> i_key_id i = i_key_id j \<and> i_nonce i = i_nonce j \<and>
    i_signed_at i = i_signed_at j \<and>
    sha256_hex X (text_bytes i) = sha256_hex X (text_bytes j)"
proof -
  have hex_nl: "10 \<notin> set (sha256_hex X b)" for b
    using hex by (simp add: sha256_hex_def hex_ok_def)
  have lit_nl: "10 \<notin> set (lit ''signed_at:'')" "10 \<notin> set (lit ''text_sha256:'')"
    by (simp_all add: lit_def)
  show ?thesis
    using eq lines unfolding decision_signing_payload_def input_lines_ok_def newline_free_def
    by (simp add: sep_append_iff last_two_lines hex_nl lit_nl option_kind_str_newline_free)
qed

lemma decision_v2_content_float_free [simp]: "float_free (decision_v2_content i v)"
  by (simp add: decision_v2_content_def)

lemma decision_v2_content_inject:
  assumes "jsort (decision_v2_content i v) = jsort (decision_v2_content j w)"
  shows "i_request_id i = i_request_id j \<and> i_request_digest i = i_request_digest j \<and>
    i_option_id i = i_option_id j \<and> i_option_kind i = i_option_kind j \<and> i_user_id i = i_user_id j \<and>
    i_device_id i = i_device_id j \<and> i_key_id i = i_key_id j \<and> i_nonce i = i_nonce j \<and>
    i_signed_at i = i_signed_at j \<and> trimmed_text (i_text i) = trimmed_text (i_text j) \<and> v = w"
proof -
  note m = jsort_member [OF assms [unfolded decision_v2_content_def]]
  show ?thesis
    using m [of "lit ''request_id''"] m [of "lit ''request_digest''"] m [of "lit ''option_id''"]
      m [of "lit ''option_kind''"] m [of "lit ''user_id''"] m [of "lit ''device_id''"]
      m [of "lit ''key_id''"] m [of "lit ''nonce''"] m [of "lit ''signed_at''"] m [of "lit ''text''"]
      m [of "lit ''answer_value''"] jsort_answer_value_inject [of v w]
    by simp
qed

lemma decision_v2_text:
  "decision_signing_payload_v2 X i v = Inr p \<longleftrightarrow>
     (\<exists>t c. x_parse_rfc3339 X (i_signed_at i) = Some t \<and> x_fmt_millis X t = i_signed_at i \<and>
        (case trimmed_text (i_text i) of None \<Rightarrow> True | Some s \<Rightarrow> strlen s \<le> 16384) \<and>
        canonical_value_json (x_ser X) (jsort (decision_v2_content i v)) = Inr c \<and>
        p = VALUE_DECISION_PAYLOAD_VERSION @ [10] @ c @ [10])"
  by (auto simp: decision_signing_payload_v2_def bind_res_Inr_iff split: if_splits option.splits)

lemma canonical_inject:
  assumes "leaf_text q" "canonical_value_json q v = Inr s" "canonical_value_json q w = Inr s"
  shows "jsort v = jsort w"
  using canonical_text_inject [OF assms(1), of v] assms(2,3) unfolding text_inject_def
  by (metis delimited_simps(1))

section \<open>Digests\<close>

definition value_preimage :: "ext \<Rightarrow> request \<Rightarrow> rstr \<Rightarrow> answer_field \<Rightarrow> rstr \<Rightarrow> byte list" where
  "value_preimage X q commitment field version =
     (case canonical_value_json (x_ser X)
        (jsort (JObj (card_content X q commitment @ [(lit ''answer_field'', json_answer_field field)]))) of
        Inl _ \<Rightarrow> [] | Inr t \<Rightarrow> utf8 (version @ [10] @ t @ [10]))"

definition commitment_preimage :: "ext \<Rightarrow> rstr list \<Rightarrow> rstr \<Rightarrow> byte list" where
  "commitment_preimage X recipients salt =
     utf8 (lit ''nod-recipients-v2'' @ [10] @ x_ser X (JArr [JStr salt, JArr (map JStr recipients)]))"

definition snapshot_hashed :: "ext \<Rightarrow> request \<Rightarrow> byte list set" where
  \<comment> \<open>everything the line snapshot hashes on the way, and the snapshot itself\<close>
  "snapshot_hashed X q =
     {utf8 (q_title q), utf8 (q_summary q), utf8 (q_body q),
      utf8 (x_ser X (JArr (map json_card_field (q_fields q)))),
      utf8 (x_ser X (JArr (map json_card_link (q_links q)))),
      utf8 (x_ser X (JArr (map json_legacy_option (q_options q)))),
      utf8 (line_snapshot X q)}"

definition snapshot_lines_ok :: "request \<Rightarrow> bool" where
  \<comment> \<open>what request validation ensures: identifiers and raw lines without line breaks, recipient
     identifiers without commas, and at least one recipient\<close>
  "snapshot_lines_ok q \<longleftrightarrow>
     newline_free (q_id q) \<and> newline_free (q_channel_id q) \<and>
     q_recipients q \<noteq> [] \<and> (\<forall>r \<in> set (q_recipients q). newline_free r \<and> 44 \<notin> set r) \<and>
     newline_free (or_empty (q_image_url q)) \<and> newline_free (or_empty (q_dedupe_key q))"

definition same_line_card :: "request \<Rightarrow> request \<Rightarrow> bool" where
  "same_line_card p q \<longleftrightarrow>
     q_id p = q_id q \<and> q_channel_id p = q_channel_id q \<and> q_recipients p = q_recipients q \<and>
     q_resolution p = q_resolution q \<and> q_title p = q_title q \<and> q_summary p = q_summary q \<and>
     q_body p = q_body q \<and> q_fields p = q_fields q \<and> q_links p = q_links q \<and>
     or_empty (q_image_url p) = or_empty (q_image_url q) \<and>
     or_empty (q_dedupe_key p) = or_empty (q_dedupe_key q) \<and>
     map_option millis (q_expires_at p) = map_option millis (q_expires_at q) \<and>
     millis (q_created_at p) = millis (q_created_at q) \<and> q_options p = q_options q"

lemma json_text_inject:
  "json_text_ok X \<Longrightarrow> float_free v \<Longrightarrow> float_free w \<Longrightarrow> x_ser X v = x_ser X w \<Longrightarrow> v = w"
  unfolding json_text_ok_def by blast

lemma json_legacy_option_float_free [simp]: "float_free (json_legacy_option p)"
  by (simp add: json_legacy_option_def)

lemma json_array_text_inject:
  assumes "json_text_ok X" and "inj f" and "\<And>x. float_free (f x)"
    and "x_ser X (JArr (map f xs)) = x_ser X (JArr (map f ys))"
  shows "xs = ys"
  using json_text_inject [OF assms(1) _ _ assms(4)] assms(2,3)
  by (auto simp: list_all_iff inj_map_eq_map)

lemma inj_json_legacy_option: "inj json_legacy_option"
  unfolding inj_def json_legacy_option_def using jsort_request_option_inject by blast

lemma join_with_newline_free:
  "newline_free s \<Longrightarrow> \<forall>t \<in> set ts. newline_free t \<Longrightarrow> newline_free (join_with s ts)"
  by (induction s ts rule: join_with.induct) (auto simp: newline_free_def)

lemma resolution_str_newline_free: "10 \<notin> set (decision_resolution_str r)"
  by (cases r) (simp_all add: lit_def)

lemma line_snapshot_inject:
  assumes X: "json_text_ok X" "hex_ok X" "time_text_ok X"
    and lines: "snapshot_lines_ok p" "snapshot_lines_ok q"
    and coll: "no_collision X (snapshot_hashed X p \<union> snapshot_hashed X q)"
    and eq: "line_snapshot X p = line_snapshot X q"
  shows "same_line_card p q"
proof -
  have hex_nl: "10 \<notin> set (sha256_hex X b)" for b
    using X by (simp add: sha256_hex_def hex_ok_def)
  have time_nl: "10 \<notin> set (x_fmt_millis X t)" for t
    using X by (simp add: time_text_ok_def)
  have sha: "sha256_hex X a = sha256_hex X b \<Longrightarrow> a = b"
    if "a \<in> snapshot_hashed X p" "b \<in> snapshot_hashed X q" for a b
    using sha256_hex_inject [OF X(2)] coll that unfolding no_collision_def
    by (meson UnI1 UnI2 empty_subsetI inj_on_subset insert_subset)
  have rec: "10 \<notin> set (join_with [44] (q_recipients r))" if "snapshot_lines_ok r" for r
    using join_with_newline_free [of "[44]" "q_recipients r"] that
    by (simp add: snapshot_lines_ok_def newline_free_def)
  have opt_nl: "10 \<notin> set (or_empty (map_option (x_fmt_millis X) v))" for v
    using time_nl by (cases v) (simp_all add: or_empty_def)
  from eq lines rec [OF lines(1)] rec [OF lines(2)]
  have parts: "q_id p = q_id q \<and> q_channel_id p = q_channel_id q \<and>
     join_with [44] (q_recipients p) = join_with [44] (q_recipients q) \<and>
     q_resolution p = q_resolution q \<and>
     sha256_hex X (utf8 (q_title p)) = sha256_hex X (utf8 (q_title q)) \<and>
     sha256_hex X (utf8 (q_summary p)) = sha256_hex X (utf8 (q_summary q)) \<and>
     sha256_hex X (utf8 (q_body p)) = sha256_hex X (utf8 (q_body q)) \<and>
     sha256_hex X (utf8 (x_ser X (JArr (map json_card_field (q_fields p))))) =
       sha256_hex X (utf8 (x_ser X (JArr (map json_card_field (q_fields q))))) \<and>
     sha256_hex X (utf8 (x_ser X (JArr (map json_card_link (q_links p))))) =
       sha256_hex X (utf8 (x_ser X (JArr (map json_card_link (q_links q))))) \<and>
     or_empty (q_image_url p) = or_empty (q_image_url q) \<and>
     or_empty (q_dedupe_key p) = or_empty (q_dedupe_key q) \<and>
     or_empty (map_option (x_fmt_millis X) (q_expires_at p)) =
       or_empty (map_option (x_fmt_millis X) (q_expires_at q)) \<and>
     x_fmt_millis X (q_created_at p) = x_fmt_millis X (q_created_at q) \<and>
     sha256_hex X (utf8 (x_ser X (JArr (map json_legacy_option (q_options p))))) =
       sha256_hex X (utf8 (x_ser X (JArr (map json_legacy_option (q_options q)))))"
    unfolding line_snapshot_def Let_def snapshot_lines_ok_def newline_free_def
    by (simp add: sep_append_iff hex_nl time_nl opt_nl resolution_str_newline_free)
  have recipients: "q_recipients p = q_recipients q"
    using parts lines by (intro join_with_inject [of _ _ 44]) (auto simp: snapshot_lines_ok_def)
  have times: "or_empty (map_option (x_fmt_millis X) (q_expires_at p)) =
       or_empty (map_option (x_fmt_millis X) (q_expires_at q)) \<Longrightarrow>
     map_option millis (q_expires_at p) = map_option millis (q_expires_at q)"
    using fmt_millis_inject [OF X(3)] fmt_millis_nonempty [OF X(3)]
    by (cases "q_expires_at p"; cases "q_expires_at q") (simp_all add: or_empty_def)
  note arrays = json_array_text_inject [OF X(1) json_card_field_inject wire_float_free(1)]
    json_array_text_inject [OF X(1) json_card_link_inject wire_float_free(2)]
    json_array_text_inject [OF X(1) inj_json_legacy_option json_legacy_option_float_free]
  have fields: "q_fields p = q_fields q"
    by (rule arrays(1), rule iffD1 [OF utf8_inject], rule sha) (use parts in \<open>simp_all add: snapshot_hashed_def\<close>)
  have links: "q_links p = q_links q"
    by (rule arrays(2), rule iffD1 [OF utf8_inject], rule sha) (use parts in \<open>simp_all add: snapshot_hashed_def\<close>)
  have options: "q_options p = q_options q"
    by (rule arrays(3), rule iffD1 [OF utf8_inject], rule sha) (use parts in \<open>simp_all add: snapshot_hashed_def\<close>)
  have title: "q_title p = q_title q"
    by (rule iffD1 [OF utf8_inject], rule sha) (use parts in \<open>simp_all add: snapshot_hashed_def\<close>)
  have summary: "q_summary p = q_summary q"
    by (rule iffD1 [OF utf8_inject], rule sha) (use parts in \<open>simp_all add: snapshot_hashed_def\<close>)
  have body: "q_body p = q_body q"
    by (rule iffD1 [OF utf8_inject], rule sha) (use parts in \<open>simp_all add: snapshot_hashed_def\<close>)
  show ?thesis
    unfolding same_line_card_def
    using parts recipients times fields links options title summary body
    by (simp add: fmt_millis_inject [OF X(3)])
qed

lemma commitment_text_inject:
  assumes "json_text_ok X" and "commitment_preimage X rs salt = commitment_preimage X ss salt'"
  shows "rs = ss \<and> salt = salt'"
proof -
  have "x_ser X (JArr [JStr salt, JArr (map JStr rs)]) = x_ser X (JArr [JStr salt', JArr (map JStr ss)])"
    using assms(2) by (simp add: commitment_preimage_def del: utf8_simps)
  then have "JArr [JStr salt, JArr (map JStr rs)] = JArr [JStr salt', JArr (map JStr ss)]"
    by (intro json_text_inject [OF assms(1)]) (auto simp: list_all_iff)
  then show ?thesis by (auto simp: inj_map_eq_map inj_def)
qed

lemma structured_preimage_inject:
  assumes "json_text_ok X" "time_text_ok X" "newline_free v" "newline_free w"
    and "structured_preimage X p c v = structured_preimage X q d w"
  shows "same_card p q \<and> c = d \<and> v = w"
proof -
  have "v @ 10 # x_ser X (jsort (JObj (card_content X p c))) =
      w @ 10 # x_ser X (jsort (JObj (card_content X q d)))"
    using assms(5) by (simp add: structured_preimage_def del: utf8_simps)
  with assms(3,4) have vw: "v = w"
    and "x_ser X (jsort (JObj (card_content X p c))) = x_ser X (jsort (JObj (card_content X q d)))"
    by (auto simp: newline_free_def sep_append_iff)
  then have "jsort (JObj (card_content X p c)) = jsort (JObj (card_content X q d))"
    by (intro json_text_inject [OF assms(1)]) (simp_all del: jsort.simps)
  with card_content_inject [OF assms(2), of p c "[]" q d "[]"] vw show ?thesis by simp
qed

lemma structured_request_digest_eq:
  "structured_request_digest X q c v = Inr h \<longleftrightarrow>
     commitment_well_formed c \<and> h = sha256_hex X (structured_preimage X q c v)"
  by (auto simp: structured_request_digest_def structured_preimage_def Let_def)

lemma value_request_digest_with_version_eq:
  "value_request_digest_with_version X q c f v = Inr h \<Longrightarrow>
     commitment_well_formed c \<and> validate_field X f = Inr () \<and>
     (\<exists>t. canonical_value_json (x_ser X)
        (jsort (JObj (card_content X q c @ [(lit ''answer_field'', json_answer_field f)]))) = Inr t \<and>
        value_preimage X q c f v = utf8 (v @ [10] @ t @ [10])) \<and>
     h = sha256_02x X (value_preimage X q c f v)"
  by (auto simp: value_request_digest_with_version_def value_preimage_def Let_def bind_res_Inr_iff
      split: if_splits simp del: jsort.simps)

lemma jsort_answer_choice_inject:
  assumes "jsort (json_answer_choice c) = jsort (json_answer_choice d)"
  shows "c = d"
proof (rule answer_choice.equality)
  note m = jsort_member [OF assms [unfolded json_answer_choice_def]]
  show "choice_key c = choice_key d" using m [of "lit ''id''"] by simp
  show "choice_label c = choice_label d" using m [of "lit ''label''"] by simp
qed simp

lemma jsort_answer_field_inject:
  assumes "jsort (json_answer_field f) = jsort (json_answer_field g)"
  shows "f = g"
proof -
  have kinds: "\<exists>ms. json_answer_field h = JObj ms" for h by (cases h) auto
  then obtain ms ns where ms: "json_answer_field f = JObj ms" and ns: "json_answer_field g = JObj ns"
    by metis
  note m = jsort_member [OF assms [unfolded ms ns]]
  have choices: "cs = ds" if "jsort (JArr (map json_answer_choice cs)) = jsort (JArr (map json_answer_choice ds))" for cs ds
    using that by (rule jsort_JArr_inject [rotated]) (rule jsort_answer_choice_inject)
  show ?thesis
    using ms ns m [of "lit ''kind''"] m [of "lit ''label''"] m [of "lit ''default''"]
      m [of "lit ''choices''"]
    by (cases f; cases g) (auto dest: jsort_answer_value_inject intro: choices)
qed

text \<open>The sample inputs of the witnesses.\<close>

definition sample_card :: request where
  "sample_card = \<lparr>q_answer_field = None, q_id = lit ''r1'', q_request_id = lit ''r1'',
     q_channel_id = lit ''ops'', q_recipients = [lit ''owner''], q_resolution = Shared,
     q_title = lit ''Deploy'', q_summary = [], q_body = [], q_fields = [], q_links = [],
     q_image_url = None, q_notification = default_notification, q_dedupe_key = None,
     q_expires_at = None, q_status = Pending, q_created_at = 0, q_updated_at = 0,
     q_resolved_at = None, q_decision = None, q_decisions = [], q_callback_url = None,
     q_options = [], q_request_digest = None, q_signing = None\<rparr>"

definition sample_commitment :: rstr where
  "sample_commitment = replicate 64 97"

definition sample_field :: answer_field where
  "sample_field = FNumber (lit ''Count'') (VNumber (lit ''4''))"

definition sample_input :: signing_input where
  "sample_input = \<lparr>i_request_id = lit ''r1'', i_request_digest = lit ''d'', i_option_id = lit ''approve'',
     i_option_kind = Approve, i_user_id = lit ''owner'', i_device_id = lit ''dev'', i_key_id = lit ''k'',
     i_nonce = [10], i_signed_at = sample_fmt 0, i_text = None\<rparr>"

lemma sample_commitment_ok: "commitment_well_formed sample_commitment"
  by (simp add: commitment_well_formed_def sample_commitment_def strlen_def utf8_ascii list_all_iff
      char_class_defs)

lemma sample_input_lines_ok: "input_lines_ok sample_input"
  by (simp add: input_lines_ok_def sample_input_def newline_free_def lit_def sample_fmt_def skip_lf_neq [symmetric])

lemma payload_versions_differ:
  "decision_signing_payload_v2 X i v = Inr p \<Longrightarrow> decision_signing_payload X j \<noteq> p"
  by (auto simp: decision_v2_text decision_signing_payload_def version_defs lit_def)

lemma decision_payload_v2_inject:
  assumes "json_text_ok X" and p: "decision_signing_payload_v2 X i v = Inr p"
    and q: "decision_signing_payload_v2 X j w = Inr p"
  shows "i_request_id i = i_request_id j \<and> i_request_digest i = i_request_digest j \<and>
     i_option_id i = i_option_id j \<and> i_option_kind i = i_option_kind j \<and> i_user_id i = i_user_id j \<and>
     i_device_id i = i_device_id j \<and> i_key_id i = i_key_id j \<and> i_nonce i = i_nonce j \<and>
     i_signed_at i = i_signed_at j \<and> trimmed_text (i_text i) = trimmed_text (i_text j) \<and> v = w"
proof -
  have leaf: "leaf_text (x_ser X)" using assms(1) by (simp add: json_text_ok_def)
  from p obtain c where c: "canonical_value_json (x_ser X) (jsort (decision_v2_content i v)) = Inr c"
    and pc: "p = VALUE_DECISION_PAYLOAD_VERSION @ [10] @ c @ [10]" by (auto simp: decision_v2_text)
  from q have "canonical_value_json (x_ser X) (jsort (decision_v2_content j w)) = Inr c"
    by (auto simp: decision_v2_text pc)
  from canonical_inject [OF leaf c this]
  have "jsort (decision_v2_content i v) = jsort (decision_v2_content j w)" by simp
  from decision_v2_content_inject [OF this] show ?thesis by simp
qed

section \<open>Properties\<close>

text \<open>
  C32 (type). The text a device signs for an ordinary card, nod-decision-v1, determines every field of
  the decision: two inputs with the same payload agree on request, digest, option, kind, user,
  device, key, nonce and time, and, unless SHA-256 collides on the two notes, on the text. Only
  the nonce may contain line breaks; the other fields are single lines (identifiers, digests,
  timestamps).
\<close>

theorem decision_payload_binds:
  assumes "hex_ok X" and "input_lines_ok i" and "input_lines_ok j"
    and "no_collision X {text_bytes i, text_bytes j}"
    and "decision_signing_payload X i = decision_signing_payload X j"
  shows "i_request_id i = i_request_id j \<and> i_request_digest i = i_request_digest j \<and>
    i_option_id i = i_option_id j \<and> i_option_kind i = i_option_kind j \<and> i_user_id i = i_user_id j \<and>
    i_device_id i = i_device_id j \<and> i_key_id i = i_key_id j \<and> i_nonce i = i_nonce j \<and>
    i_signed_at i = i_signed_at j \<and>
    or_empty (i_text i) = or_empty (i_text j)"
  using decision_payload_inject [OF assms(1,2,3,5)] sha256_hex_inject [OF assms(1,4)] by simp

text \<open>
  The value payload, nod-decision-v2, determines the decision including the answer value
  and the trimmed notes, with no assumption on the fields: the canonical JSON text cannot be cut
  in two ways. Nor can a text be both an ordinary and a value payload, so a signature for
  one kind is never valid for the other.
\<close>

theorem decision_payload_v2_binds:
  assumes "json_text_ok X"
    and "decision_signing_payload_v2 X i v = Inr p"
  shows "(decision_signing_payload_v2 X j w = Inr p \<longrightarrow>
     i_request_id i = i_request_id j \<and> i_request_digest i = i_request_digest j \<and>
     i_option_id i = i_option_id j \<and> i_option_kind i = i_option_kind j \<and> i_user_id i = i_user_id j \<and>
     i_device_id i = i_device_id j \<and> i_key_id i = i_key_id j \<and> i_nonce i = i_nonce j \<and>
     i_signed_at i = i_signed_at j \<and> trimmed_text (i_text i) = trimmed_text (i_text j) \<and> v = w) \<and>
    decision_signing_payload X j \<noteq> p"
  using decision_payload_v2_inject [OF assms] payload_versions_differ [OF assms(2)] by blast

lemma structured_digest_inject:
  assumes "json_text_ok X" and "hex_ok X" and "time_text_ok X"
    and "newline_free v" and "newline_free w"
    and "no_collision X {structured_preimage X p c v, structured_preimage X q d w}"
    and "structured_request_digest X p c v = Inr h" and "structured_request_digest X q d w = Inr h"
  shows "same_card p q \<and> c = d \<and> v = w"
proof -
  from assms(7,8) have "sha256_hex X (structured_preimage X p c v) = sha256_hex X (structured_preimage X q d w)"
    by (simp add: structured_request_digest_eq)
  with sha256_hex_inject [OF assms(2,6)] have "structured_preimage X p c v = structured_preimage X q d w"
    by simp
  with assms show ?thesis by (intro structured_preimage_inject)
qed

text \<open>
  A structured request digest binds the whole card: if two cards have the same digest,
  under whichever version tags, then they agree on every covered field and on the recipients
  commitment, and the tags are the same, unless SHA-256 collides on the two texts hashed.
\<close>

theorem structured_digest_binds:
  assumes "json_text_ok X" and "hex_ok X" and "time_text_ok X"
    and "newline_free v" and "newline_free w"
    and "no_collision X {structured_preimage X p c v, structured_preimage X q d w}"
    and "structured_request_digest X p c v = Inr h" and "structured_request_digest X q d w = Inr h"
  shows "same_card p q \<and> c = d \<and> v = w"
  by (rule structured_digest_inject [OF assms])

lemma value_digest_inject:
  assumes "json_text_ok X" and "time_text_ok X" and "newline_free v" and "newline_free w"
    and "no_collision X {value_preimage X p c f v, value_preimage X q d g w}"
    and "value_request_digest_with_version X p c f v = Inr h"
    and "value_request_digest_with_version X q d g w = Inr h"
  shows "same_card p q \<and> c = d \<and> f = g \<and> v = w"
proof -
  let ?o = "\<lambda>p c f. jsort (JObj (card_content X p c @ [(lit ''answer_field'', json_answer_field f)]))"
  obtain s where s: "canonical_value_json (x_ser X) (?o p c f) = Inr s"
    "value_preimage X p c f v = utf8 (v @ [10] @ s @ [10])" "h = sha256_02x X (value_preimage X p c f v)"
    using value_request_digest_with_version_eq [OF assms(6)] by blast
  obtain t where t: "canonical_value_json (x_ser X) (?o q d g) = Inr t"
    "value_preimage X q d g w = utf8 (w @ [10] @ t @ [10])" "h = sha256_02x X (value_preimage X q d g w)"
    using value_request_digest_with_version_eq [OF assms(7)] by blast
  have "utf8 (v @ [10] @ s @ [10]) = utf8 (w @ [10] @ t @ [10])"
    using sha256_02x_inject [OF assms(5)] s t by (simp del: utf8_simps)
  then have "v @ 10 # s = w @ 10 # t" by (simp del: utf8_simps)
  with assms(3,4) have vw: "v = w" and "s = t" by (auto simp: newline_free_def sep_append_iff)
  have "jsort (?o p c f) = jsort (?o q d g)"
    using canonical_inject [of "x_ser X" "?o p c f" t "?o q d g"] s(1) t(1) \<open>s = t\<close> assms(1)
    unfolding json_text_ok_def by blast
  then have eq: "?o p c f = ?o q d g" unfolding jsort_idem .
  have miss: "map_of (card_content X r e) (lit ''answer_field'') = None" for r e
    by (simp add: card_content_def)
  from jsort_member [OF eq, of "lit ''answer_field''"] have "f = g"
    by (auto simp: miss map_add_def intro: jsort_answer_field_inject)
  with card_content_inject [OF assms(2) eq] vw show ?thesis by simp
qed

text \<open>
  A value request digest binds the card and its answer field: the recomputed digest of
  a value card changes whenever the label, the kind, a choice or the default changes.
\<close>

theorem value_digest_binds:
  assumes "json_text_ok X" and "time_text_ok X" and "newline_free v" and "newline_free w"
    and "no_collision X {value_preimage X p c f v, value_preimage X q d g w}"
    and "value_request_digest_with_version X p c f v = Inr h"
    and "value_request_digest_with_version X q d g w = Inr h"
  shows "same_card p q \<and> c = d \<and> f = g \<and> v = w"
  by (rule value_digest_inject [OF assms])

text \<open>
  The historical line snapshot, whose fields stand on raw lines, still binds the card
  when the request passed validation (no control characters in the raw fields, identifiers of
  the allowed alphabet): equal digests mean equal recipients, options, fields, links, texts and
  times. It covers neither the notification hints nor the callback URL.
\<close>

theorem line_snapshot_binds:
  assumes "json_text_ok X" and "hex_ok X" and "time_text_ok X"
    and "snapshot_lines_ok p" and "snapshot_lines_ok q"
    and "no_collision X (snapshot_hashed X p \<union> snapshot_hashed X q)"
    and "request_digest_legacy_line_snapshot X p = request_digest_legacy_line_snapshot X q"
  shows "same_line_card p q"
proof (rule line_snapshot_inject [OF assms(1-6)])
  have "no_collision X {utf8 (line_snapshot X p), utf8 (line_snapshot X q)}"
    using assms(6) unfolding no_collision_def by (rule inj_on_subset) (simp add: snapshot_hashed_def)
  from sha256_hex_inject [OF assms(2) this] assms(7)
  show "line_snapshot X p = line_snapshot X q"
    by (simp add: request_digest_legacy_line_snapshot_def)
qed

text \<open>
  The recipients commitment binds the ordered recipient list and the salt.
\<close>

theorem recipients_commitment_binds:
  assumes "json_text_ok X" and "hex_ok X"
    and "no_collision X {commitment_preimage X rs salt, commitment_preimage X ss salt'}"
    and "recipients_commitment X rs salt = recipients_commitment X ss salt'"
  shows "rs = ss \<and> salt = salt'"
proof (rule commitment_text_inject [OF assms(1)])
  show "commitment_preimage X rs salt = commitment_preimage X ss salt'"
    using assms(4) sha256_hex_inject [OF assms(2,3)]
    by (simp add: recipients_commitment_def commitment_preimage_def Let_def del: utf8_simps)
qed

section \<open>Witnesses\<close>

theorem decision_payload_binds_witness:
  "input_lines_ok sample_input \<and> or_empty (i_text sample_input) = or_empty (Some []) \<and>
   decision_signing_payload sample_ext sample_input =
     decision_signing_payload sample_ext (sample_input\<lparr>i_text := Some []\<rparr>)"
proof -
  have lines: "input_lines_ok (sample_input\<lparr>i_text := Some []\<rparr>)"
    using sample_input_lines_ok by (simp add: input_lines_ok_def)
  have eq: "decision_signing_payload sample_ext sample_input =
      decision_signing_payload sample_ext (sample_input\<lparr>i_text := Some []\<rparr>)"
    by (simp add: decision_signing_payload_def sample_input_def or_empty_def)
  from decision_payload_binds [OF sample_hex_ok sample_input_lines_ok lines sample_no_collision eq]
  show ?thesis using sample_input_lines_ok eq by simp
qed

lemma sample_payload_v2:
  "\<exists>p. decision_signing_payload_v2 sample_ext sample_input (VNumber (lit ''4'')) = Inr p"
  by (simp add: decision_v2_text sample_input_def trimmed_text_def decision_v2_content_def
      lit_def json_opt_def option_kind_str.simps is_ascii_def sample_parse_def sample_fmt_def)

theorem decision_payload_v2_binds_witness:
  "\<exists>p. decision_signing_payload_v2 sample_ext sample_input (VNumber (lit ''4'')) = Inr p \<and>
     decision_signing_payload sample_ext sample_input \<noteq> p"
proof -
  from sample_payload_v2 obtain p
    where p: "decision_signing_payload_v2 sample_ext sample_input (VNumber (lit ''4'')) = Inr p" ..
  with decision_payload_v2_binds [OF sample_json_text_ok p, of sample_input] show ?thesis by blast
qed

lemma sample_structured_digest:
  "structured_request_digest sample_ext q sample_commitment REQUEST_DIGEST_VERSION =
     Inr (sha256_hex sample_ext (structured_preimage sample_ext q sample_commitment REQUEST_DIGEST_VERSION))"
  by (simp add: structured_request_digest_eq sample_commitment_ok)

lemma request_version_newline_free: "newline_free REQUEST_DIGEST_VERSION"
  "newline_free VALUE_REQUEST_DIGEST_VERSION" "newline_free LEGACY_VALUE_REQUEST_DIGEST_VERSION"
  "newline_free LEGACY_STRUCTURED_REQUEST_DIGEST_VERSION"
  by (simp_all add: newline_free_def version_defs lit_def)

theorem structured_digest_binds_witness:
  "same_card sample_card (sample_card\<lparr>q_status := Resolved\<rparr>)"
proof -
  have same: "structured_preimage sample_ext (sample_card\<lparr>q_status := Resolved\<rparr>) c v =
      structured_preimage sample_ext sample_card c v" for c v
    by (simp add: structured_preimage_def card_content_def)
  have "structured_request_digest sample_ext (sample_card\<lparr>q_status := Resolved\<rparr>) sample_commitment
      REQUEST_DIGEST_VERSION = Inr (sha256_hex sample_ext
        (structured_preimage sample_ext sample_card sample_commitment REQUEST_DIGEST_VERSION))"
    by (simp add: sample_structured_digest same)
  from structured_digest_binds [OF sample_json_text_ok sample_hex_ok sample_time_text_ok
      request_version_newline_free(1) request_version_newline_free(1) sample_no_collision
      sample_structured_digest this]
  show ?thesis by simp
qed

theorem line_snapshot_binds_witness:
  "same_line_card sample_card (sample_card\<lparr>q_callback_url := Some (lit ''https://a'')\<rparr>)"
proof -
  have ok: "snapshot_lines_ok (sample_card\<lparr>q_callback_url := u\<rparr>)" for u
    by (simp add: snapshot_lines_ok_def sample_card_def newline_free_def or_empty_def lit_def)
  have "snapshot_lines_ok sample_card"
    by (simp add: snapshot_lines_ok_def sample_card_def newline_free_def or_empty_def lit_def)
  moreover have "request_digest_legacy_line_snapshot sample_ext sample_card =
      request_digest_legacy_line_snapshot sample_ext (sample_card\<lparr>q_callback_url := u\<rparr>)" for u
    by (simp add: request_digest_legacy_line_snapshot_def line_snapshot_def)
  ultimately show ?thesis
    using line_snapshot_binds [OF sample_json_text_ok sample_hex_ok sample_time_text_ok _ ok
        sample_no_collision] by blast
qed

theorem recipients_commitment_binds_witness:
  "recipients_commitment sample_ext [lit ''a''] (lit ''s'') \<noteq>
   recipients_commitment sample_ext [lit ''b''] (lit ''s'')"
  using recipients_commitment_binds [OF sample_json_text_ok sample_hex_ok sample_no_collision,
      of "[lit ''a'']" "lit ''s''" "[lit ''b'']" "lit ''s''"] by auto

lemma card_content_ascii_keys:
  "list_all (\<lambda>(k, v). list_all is_ascii k \<and> ascii_keys v) (card_content X q c)"
  by (auto simp: card_content_def list_all_iff lit_def is_ascii_def json_opt_def json_card_field_def
      json_card_link_def json_request_option_def json_notification_def split: option.splits)

lemma ascii_keys_jsort [simp]: "ascii_keys (jsort v) \<longleftrightarrow> ascii_keys v"
proof (induction v)
  case (JObj ms)
  then have "(k, v) \<in> set ms \<Longrightarrow> ascii_keys (jsort v) \<longleftrightarrow> ascii_keys v" for k v
    by (force simp: snds.simps)
  then show ?case by (fastforce simp: list_all_iff)
qed (auto simp: list_all_iff)

lemma ascii_keys_answer: "ascii_keys (json_answer_field f)"
proof -
  have v: "ascii_keys (json_answer_value v)" for v by (cases v) (auto simp: lit_def is_ascii_def)
  then show ?thesis
    by (cases f) (auto simp: list_all_iff json_answer_choice_def lit_def is_ascii_def)
qed

text \<open>A validated field always has a value digest.\<close>

lemma value_request_digest_total:
  assumes "commitment_well_formed c" and "validate_field X f = Inr ()"
  shows "value_request_digest_with_version X q c f v = Inr (sha256_02x X (value_preimage X q c f v))"
proof -
  let ?o = "jsort (JObj (card_content X q c @ [(lit ''answer_field'', json_answer_field f)]))"
  have "float_free ?o \<and> ascii_keys ?o"
    using card_content_ascii_keys [of X q c] ascii_keys_answer [of f]
    unfolding float_free_jsort ascii_keys_jsort
    by (simp add: lit_def is_ascii_def)
  then obtain t where "canonical_value_json (x_ser X) ?o = Inr t"
    using canonical_is_ok [of "x_ser X" ?o] by (auto simp: is_ok_iff)
  with assms show ?thesis
    by (simp add: value_request_digest_with_version_def value_preimage_def Let_def del: jsort.simps utf8_simps)
qed

lemma sample_field_ok: "validate_field sample_ext sample_field = Inr ()"
  by (simp add: validate_field_def sample_field_def valid_label_def trim_eqI lit_def char_class_defs
      value_matches_def valid_decimal_def strlen_def utf8_char_def)

theorem value_digest_binds_witness:
  "same_card sample_card (sample_card\<lparr>q_updated_at := 1\<rparr>)"
proof -
  have same: "value_preimage sample_ext (sample_card\<lparr>q_updated_at := 1\<rparr>) c f v =
      value_preimage sample_ext sample_card c f v" for c f v
    by (simp add: value_preimage_def card_content_def)
  note d = value_request_digest_total [OF sample_commitment_ok sample_field_ok,
      where v = VALUE_REQUEST_DIGEST_VERSION]
  from value_digest_binds [OF sample_json_text_ok sample_time_text_ok request_version_newline_free(2)
      request_version_newline_free(2) sample_no_collision d d [of "sample_card\<lparr>q_updated_at := 1\<rparr>",
      unfolded same]]
  show ?thesis by simp
qed

end
