(* ===== verification/Receipt.thy ===== *)
theory Receipt
  imports Signing_Facts
begin

text \<open>
  Offline verification of a decision receipt, nod-proto/src/receipt.rs: the digest is recomputed
  from the card the issuer created, the key comes from the caller's pinned set, and the signed
  text is rebuilt from the recorded decision. The order of the checks is the code's.
  \<open>VerifiedReceipt.warnings\<close> holds formatted messages; the model keeps the values they print.
\<close>

section \<open>Inputs, results, errors\<close>

record pinned_key =
  pk_user_id :: rstr
  pk_device_id :: "rstr option"
  pk_key_id :: rstr
  pk_public_key :: rstr

record receipt_input =
  ri_request :: request
  ri_decision :: decision
  ri_pinned_keys :: "pinned_key list"
  ri_now :: instant
  ri_max_clock_skew :: "int option"
  ri_strict_time :: bool

definition DEFAULT_MAX_CLOCK_SKEW :: int where
  "DEFAULT_MAX_CLOCK_SKEW = seconds (10 * 60)"

datatype digest_encoder = Structured | Value | LegacyLineSnapshot | LegacyStructured | LegacyValue

fun digest_encoder_str :: "digest_encoder \<Rightarrow> rstr" where
  "digest_encoder_str Structured = lit ''structured''"
| "digest_encoder_str Value = lit ''value''"
| "digest_encoder_str LegacyLineSnapshot = lit ''legacy-line-snapshot''"
| "digest_encoder_str LegacyStructured = lit ''legacy-structured''"
| "digest_encoder_str LegacyValue = lit ''legacy-value''"

fun digest_encoder_version :: "digest_encoder \<Rightarrow> rstr" where
  "digest_encoder_version Structured = REQUEST_DIGEST_VERSION"
| "digest_encoder_version Value = VALUE_REQUEST_DIGEST_VERSION"
| "digest_encoder_version LegacyLineSnapshot = LEGACY_LINE_SNAPSHOT_REQUEST_DIGEST_VERSION"
| "digest_encoder_version LegacyStructured = LEGACY_STRUCTURED_REQUEST_DIGEST_VERSION"
| "digest_encoder_version LegacyValue = LEGACY_VALUE_REQUEST_DIGEST_VERSION"

definition digest_encoder_is_current :: "digest_encoder \<Rightarrow> bool" where
  "digest_encoder_is_current e \<longleftrightarrow> e = Structured \<or> e = Value"

datatype receipt_warning =
    SkewWarning instant instant int int
  | ResolvedAtWarning instant int instant

record verified_receipt =
  vr_request_id :: rstr
  vr_user_id :: rstr
  vr_device_id :: rstr
  vr_key_id :: rstr
  vr_option_id :: rstr
  vr_option_kind :: option_kind
  vr_request_digest :: rstr
  vr_digest_encoder :: digest_encoder
  vr_signed_at :: instant
  vr_warnings :: "receipt_warning list"

datatype receipt_error =
    MissingSignature
  | UnsupportedAlgorithm rstr
  | UnsupportedPayloadVersion rstr
  | UnsupportedDigestVersion rstr
  | MissingSigningContext
  | RequestIdMismatch rstr rstr
  | RequestDigestMismatch "rstr list" rstr
  | MissingActor
  | UnknownKey rstr rstr
  | DeviceMismatch rstr rstr rstr
  | MissingAnswerValue
  | UnexpectedAnswerValue
  | SigningPayloadMismatch
  | SignatureInvalid signing_error
  | UnknownOption rstr
  | OptionKindMismatch rstr option_kind option_kind
  | InvalidSignedAt rstr
  | ClockSkew instant instant int int
  | DigestError signing_error
  | PayloadError signing_error

section \<open>The request digest\<close>

definition known_versions :: "rstr list" where
  "known_versions = [REQUEST_DIGEST_VERSION, VALUE_REQUEST_DIGEST_VERSION,
     LEGACY_LINE_SNAPSHOT_REQUEST_DIGEST_VERSION, LEGACY_STRUCTURED_REQUEST_DIGEST_VERSION,
     LEGACY_VALUE_REQUEST_DIGEST_VERSION]"

definition digest_candidates ::
  "ext \<Rightarrow> request \<Rightarrow> receipt_error + (rstr \<times> digest_encoder) list" where
  "digest_candidates X q =
     (let commitment = map_option sc_commitment (q_signing q) in
      case q_answer_field q of
        Some field \<Rightarrow>
          bind_res (ok_or MissingSigningContext commitment) (\<lambda>c.
          bind_res (map_err DigestError (value_request_digest X q c field)) (\<lambda>d1.
          bind_res (map_err DigestError (value_request_digest_legacy_v3 X q c field)) (\<lambda>d2.
          Inr [(d1, Value), (d2, LegacyValue)])))
      | None \<Rightarrow>
          bind_res
            (case commitment of
               Some c \<Rightarrow>
                 bind_res (map_err DigestError (request_digest_v1 X q c)) (\<lambda>d1.
                 bind_res (map_err DigestError (request_digest_legacy_structured_v2 X q c)) (\<lambda>d2.
                 Inr [(d1, Structured), (d2, LegacyStructured)]))
             | None \<Rightarrow> Inr [])
            (\<lambda>candidates.
          bind_res (map_err DigestError (request_digest_legacy_line_snapshot X q)) (\<lambda>d.
          Inr (candidates @ [(d, LegacyLineSnapshot)]))))"

definition match_request_digest ::
  "ext \<Rightarrow> request \<Rightarrow> rstr \<Rightarrow> receipt_error + (rstr \<times> digest_encoder)" where
  "match_request_digest X q found =
     bind_res
       (case q_signing q of
          Some s \<Rightarrow> if sc_version s \<notin> set known_versions
                    then Inl (UnsupportedDigestVersion (sc_version s)) else Inr ()
        | None \<Rightarrow> Inr ())
       (\<lambda>_.
     bind_res (digest_candidates X q) (\<lambda>candidates.
     ok_or (RequestDigestMismatch (map fst candidates) found)
       (List.find (\<lambda>(d, _). d = found) candidates)))"

definition dismiss_option :: request_option where
  "dismiss_option = \<lparr>o_id = lit ''dismiss'', o_label = lit ''Dismiss'', o_kind = Dismiss,
     o_style = lit ''default'', o_requires_text = False, o_text_placeholder = None,
     o_destructive = False, o_foreground = False\<rparr>"

definition resolve_option :: "request \<Rightarrow> rstr \<Rightarrow> receipt_error + request_option" where
  "resolve_option q option_id =
     (case List.find (\<lambda>p. o_id p = option_id) (q_options q) of
        Some p \<Rightarrow> Inr p
      | None \<Rightarrow>
          if q_options q = [] \<and> q_answer_field q = None \<and> option_id = lit ''dismiss''
          then Inr dismiss_option
          else Inl (UnknownOption option_id))"

section \<open>Verification\<close>

definition receipt_payload_input ::
  "ext \<Rightarrow> decision \<Rightarrow> signature_record \<Rightarrow> rstr \<Rightarrow> rstr \<Rightarrow> rstr \<Rightarrow> instant \<Rightarrow> signing_input" where
  "receipt_payload_input X d sig digest user device signed_at =
     \<lparr>i_request_id = d_request_id d, i_request_digest = digest, i_option_id = d_option_id d,
      i_option_kind = d_option_kind d, i_user_id = user, i_device_id = device,
      i_key_id = sr_key_id sig, i_nonce = sr_nonce sig, i_signed_at = x_fmt_millis X signed_at,
      i_text = d_text d\<rparr>"

definition rebuilt_payload ::
  "ext \<Rightarrow> request \<Rightarrow> decision \<Rightarrow> signature_record \<Rightarrow> signing_input \<Rightarrow> receipt_error + rstr" where
  "rebuilt_payload X q d sig i =
     (case sr_payload_version sig of
        None \<Rightarrow>
          if d_answer_value d \<noteq> None \<or> q_answer_field q \<noteq> None then Inl UnexpectedAnswerValue
          else Inr (decision_signing_payload X i)
      | Some v \<Rightarrow>
          if v = VALUE_DECISION_PAYLOAD_VERSION then
            bind_res (ok_or MissingAnswerValue (d_answer_value d)) (\<lambda>answer.
              map_err PayloadError (decision_signing_payload_v2 X i answer))
          else Inl (UnsupportedPayloadVersion v))"

definition find_pinned_key :: "pinned_key list \<Rightarrow> rstr \<Rightarrow> rstr \<Rightarrow> rstr \<Rightarrow> receipt_error + pinned_key" where
  "find_pinned_key keys user device key_id =
     bind_res (ok_or (UnknownKey user key_id)
        (List.find (\<lambda>k. pk_user_id k = user \<and> pk_key_id k = key_id) keys)) (\<lambda>pinned.
     case pk_device_id pinned of
       Some pd \<Rightarrow> if pd \<noteq> device then Inl (DeviceMismatch key_id pd device) else Inr pinned
     | None \<Rightarrow> Inr pinned)"

definition time_check ::
  "receipt_input \<Rightarrow> instant \<Rightarrow> receipt_error + receipt_warning list" where
  "time_check ri signed_at =
     (let tolerance = (case ri_max_clock_skew ri of None \<Rightarrow> DEFAULT_MAX_CLOCK_SKEW | Some t \<Rightarrow> t);
          skew = \<bar>ri_now ri - signed_at\<bar>;
          resolved = d_resolved_at (ri_decision ri);
          resolved_warning = (if \<bar>resolved - signed_at\<bar> > tolerance
            then [ResolvedAtWarning resolved \<bar>resolved - signed_at\<bar> signed_at] else [])
      in if skew > tolerance then
           if ri_strict_time ri then Inl (ClockSkew signed_at (ri_now ri) skew tolerance)
           else Inr (SkewWarning signed_at (ri_now ri) skew tolerance # resolved_warning)
         else Inr resolved_warning)"

definition verify_decision_receipt :: "ext \<Rightarrow> receipt_input \<Rightarrow> receipt_error + verified_receipt" where
  "verify_decision_receipt X ri =
     (let q = ri_request ri; d = ri_decision ri in
      bind_res (ok_or MissingSignature (d_signature d)) (\<lambda>sig.
      if sr_algorithm sig \<noteq> DECISION_SIGNING_ALGORITHM
      then Inl (UnsupportedAlgorithm (sr_algorithm sig))
      else if d_request_id d \<noteq> q_id q \<or> (q_request_id q \<noteq> [] \<and> q_request_id q \<noteq> q_id q)
      then Inl (RequestIdMismatch (q_id q) (d_request_id d))
      else bind_res (match_request_digest X q (sr_request_digest sig)) (\<lambda>(digest, encoder).
      bind_res (resolve_option q (d_option_id d)) (\<lambda>opt.
      if o_kind opt \<noteq> d_option_kind d
      then Inl (OptionKindMismatch (d_option_id d) (o_kind opt) (d_option_kind d))
      else bind_res
        (case (d_actor_user_id d, d_actor_device_id d) of
           (Some u, Some v) \<Rightarrow> Inr (u, v) | _ \<Rightarrow> Inl MissingActor) (\<lambda>(user, device).
      bind_res (find_pinned_key (ri_pinned_keys ri) user device (sr_key_id sig)) (\<lambda>pinned.
      bind_res (ok_or (InvalidSignedAt (sr_signed_at sig)) (x_parse_rfc3339 X (sr_signed_at sig))) (\<lambda>signed_at.
      let input = receipt_payload_input X d sig digest user device signed_at in
      bind_res (rebuilt_payload X q d sig input) (\<lambda>rebuilt.
      if rebuilt \<noteq> sr_signing_payload sig then Inl SigningPayloadMismatch
      else bind_res
        (map_err SignatureInvalid
           (verify_payload X (pk_public_key pinned) (utf8 rebuilt) (sr_signature sig))) (\<lambda>_.
      bind_res (time_check ri signed_at) (\<lambda>warnings.
      Inr \<lparr>vr_request_id = d_request_id d, vr_user_id = user, vr_device_id = device,
           vr_key_id = sr_key_id sig, vr_option_id = d_option_id d,
           vr_option_kind = d_option_kind d, vr_request_digest = digest,
           vr_digest_encoder = encoder, vr_signed_at = signed_at,
           vr_warnings = warnings\<rparr>))))))))))"

section \<open>What a passing verification establishes\<close>

lemma find_pinned_key_ok:
  "find_pinned_key keys user device key_id = Inr k \<longleftrightarrow>
     List.find (\<lambda>k. pk_user_id k = user \<and> pk_key_id k = key_id) keys = Some k \<and>
     (pk_device_id k = None \<or> pk_device_id k = Some device)"
  by (cases "List.find (\<lambda>k. pk_user_id k = user \<and> pk_key_id k = key_id) keys")
    (auto simp: find_pinned_key_def split: option.splits if_splits)

lemma match_request_digest_ok:
  "match_request_digest X q found = Inr (h, e) \<Longrightarrow>
     h = found \<and> (\<exists>cs. digest_candidates X q = Inr cs \<and> (h, e) \<in> set cs) \<and>
     (\<forall>s. q_signing q = Some s \<longrightarrow> sc_version s \<in> set known_versions)"
  by (auto simp: match_request_digest_def bind_res_Inr_iff dest!: find_SomeD
      split: option.splits if_splits)

text \<open>A verification passes exactly when every check does.\<close>

definition receipt_facts ::
  "ext \<Rightarrow> receipt_input \<Rightarrow> signature_record \<Rightarrow> pinned_key \<Rightarrow> verified_receipt \<Rightarrow> bool" where
  "receipt_facts X ri sig key v \<longleftrightarrow>
     (let q = ri_request ri; d = ri_decision ri;
          i = receipt_payload_input X d sig (vr_request_digest v) (vr_user_id v) (vr_device_id v) (vr_signed_at v) in
      d_signature d = Some sig \<and> sr_algorithm sig = DECISION_SIGNING_ALGORITHM \<and>
      d_request_id d = q_id q \<and> (q_request_id q = [] \<or> q_request_id q = q_id q) \<and>
      match_request_digest X q (sr_request_digest sig) = Inr (vr_request_digest v, vr_digest_encoder v) \<and>
      (\<exists>opt. resolve_option q (d_option_id d) = Inr opt \<and> o_kind opt = d_option_kind d) \<and>
      d_actor_user_id d = Some (vr_user_id v) \<and> d_actor_device_id d = Some (vr_device_id v) \<and>
      find_pinned_key (ri_pinned_keys ri) (vr_user_id v) (vr_device_id v) (sr_key_id sig) = Inr key \<and>
      x_parse_rfc3339 X (sr_signed_at sig) = Some (vr_signed_at v) \<and>
      rebuilt_payload X q d sig i = Inr (sr_signing_payload sig) \<and>
      verify_payload X (pk_public_key key) (utf8 (sr_signing_payload sig)) (sr_signature sig) = Inr () \<and>
      time_check ri (vr_signed_at v) = Inr (vr_warnings v) \<and>
      vr_request_id v = d_request_id d \<and> vr_key_id v = sr_key_id sig \<and>
      vr_option_id v = d_option_id d \<and> vr_option_kind v = d_option_kind d)"

lemma actor_pair_Inr_iff:
  "(case u of None \<Rightarrow> Inl e | Some a \<Rightarrow> case v of None \<Rightarrow> Inl e | Some b \<Rightarrow> Inr (a, b)) = Inr (x, y) \<longleftrightarrow>
     u = Some x \<and> v = Some y"
  by (auto split: option.splits)

lemma verify_decision_receipt_iff:
  "verify_decision_receipt X ri = Inr v \<longleftrightarrow> (\<exists>sig key. receipt_facts X ri sig key v)"
  apply (simp only: verify_decision_receipt_def receipt_facts_def Let_def res_simps ok_or_Inr_iff
    map_err_Inr_iff split_paired_Ex prod.case)
  apply (cases v)
  apply (auto simp: actor_pair_Inr_iff)
  done

end
