(* ===== verification/Receipt_Facts.thy ===== *)
theory Receipt_Facts
  imports Receipt
begin

text \<open>
  What offline verification guarantees to an issuer that trusts its own card and its pinned keys
  only: the device signed this very decision, the fields the server attaches do not matter, a
  changed card is detected, and the clock policy.
\<close>

section \<open>What the device signed\<close>

type_synonym intent = "signing_input \<times> answer_value option"

definition intent_payload :: "ext \<Rightarrow> intent \<Rightarrow> signing_error + rstr" where
  "intent_payload X ia = (case snd ia of None \<Rightarrow> Inr (decision_signing_payload X (fst ia))
     | Some a \<Rightarrow> decision_signing_payload_v2 X (fst ia) a)"

text \<open>
  The signature of this receipt verifies, under a pinned key, only for messages the holder of
  that key signed: \<open>S k\<close> are the decisions signed under \<open>k\<close>. This is what unforgeability of ECDSA
  gives for the signature at hand.
\<close>

definition authentic :: "ext \<Rightarrow> receipt_input \<Rightarrow> (pinned_key \<Rightarrow> intent set) \<Rightarrow> bool" where
  "authentic X ri S \<longleftrightarrow>
     (\<forall>sig bytes k key m. d_signature (ri_decision ri) = Some sig \<longrightarrow>
        x_b64_decode X (sr_signature sig) = Some bytes \<longrightarrow> k \<in> set (ri_pinned_keys ri) \<longrightarrow>
        decode_public_key X (pk_public_key k) = Inr key \<longrightarrow> x_ecdsa_verify X key m bytes \<longrightarrow>
        (\<exists>ia \<in> S k. \<exists>p. intent_payload X ia = Inr p \<and> m = utf8 p))"

text \<open>
  The issuer's own data, and the decisions devices sign, hold single-line identifiers. Nothing is
  asked of the server's decision record.
\<close>

definition issuer_lines_ok :: "receipt_input \<Rightarrow> bool" where
  "issuer_lines_ok ri \<longleftrightarrow>
     newline_free (q_id (ri_request ri)) \<and>
     (\<forall>p \<in> set (q_options (ri_request ri)). newline_free (o_id p)) \<and>
     (\<forall>k \<in> set (ri_pinned_keys ri). newline_free (pk_user_id k) \<and> newline_free (pk_key_id k) \<and>
        (\<exists>d. pk_device_id k = Some d \<and> newline_free d))"

definition intents_lines_ok :: "receipt_input \<Rightarrow> (pinned_key \<Rightarrow> intent set) \<Rightarrow> bool" where
  "intents_lines_ok ri S \<longleftrightarrow>
     (\<forall>k \<in> set (ri_pinned_keys ri). \<forall>ia \<in> S k. snd ia = None \<longrightarrow> input_lines_ok (fst ia))"

definition receipt_texts :: "receipt_input \<Rightarrow> (pinned_key \<Rightarrow> intent set) \<Rightarrow> byte list set" where
  "receipt_texts ri S = insert (utf8 (or_empty (d_text (ri_decision ri))))
     {text_bytes i | i a k. k \<in> set (ri_pinned_keys ri) \<and> (i, a) \<in> S k}"

text \<open>The intent behind a receipt.\<close>

definition same_intent :: "ext \<Rightarrow> receipt_input \<Rightarrow> verified_receipt \<Rightarrow> intent \<Rightarrow> bool" where
  "same_intent X ri v ia \<longleftrightarrow>
     (let i = fst ia; d = ri_decision ri in
      i_request_id i = q_id (ri_request ri) \<and> i_request_digest i = vr_request_digest v \<and>
      i_option_id i = d_option_id d \<and> i_option_kind i = d_option_kind d \<and>
      i_user_id i = vr_user_id v \<and> i_device_id i = vr_device_id v \<and> i_key_id i = vr_key_id v \<and>
      i_signed_at i = x_fmt_millis X (vr_signed_at v) \<and>
      (\<exists>sig. d_signature d = Some sig \<and> i_nonce i = sr_nonce sig) \<and>
      (case snd ia of
         None \<Rightarrow> d_answer_value d = None \<and> q_answer_field (ri_request ri) = None \<and>
           or_empty (i_text i) = or_empty (d_text d)
       | Some a \<Rightarrow> d_answer_value d = Some a \<and> trimmed_text (i_text i) = trimmed_text (d_text d)))"

lemma verify_payload_ok:
  "verify_payload X key payload signature = Inr () \<longleftrightarrow>
     (\<exists>k s. decode_public_key X key = Inr k \<and> x_point_ok X k \<and> x_b64_decode X signature = Some s \<and>
        x_der_ok X s \<and> x_ecdsa_verify X k payload s)"
  by (auto simp: verify_payload_def bind_res_Inr_iff split: if_splits)

lemma rebuilt_payload_ok:
  "rebuilt_payload X q d sig i = Inr p \<longleftrightarrow>
     sr_payload_version sig = None \<and> d_answer_value d = None \<and> q_answer_field q = None \<and>
       p = decision_signing_payload X i \<or>
     sr_payload_version sig = Some VALUE_DECISION_PAYLOAD_VERSION \<and>
       (\<exists>a. d_answer_value d = Some a \<and> decision_signing_payload_v2 X i a = Inr p)"
  by (auto simp: rebuilt_payload_def bind_res_Inr_iff split: option.splits if_splits)

lemma resolve_option_id:
  "resolve_option q oid = Inr p \<Longrightarrow> oid = o_id p \<and> (p \<in> set (q_options q) \<or> oid = lit ''dismiss'')"
  by (auto simp: resolve_option_def dismiss_option_def dest!: find_SomeD split: option.splits if_splits)

lemma ordinary_candidates_hex:
  assumes "digest_candidates X q = Inr cs" and "(h, e) \<in> set cs" and "q_answer_field q = None"
  shows "\<exists>b. h = sha256_hex X b"
  using assms
  by (auto simp: digest_candidates_def bind_res_Inr_iff request_digest_v1_def structured_request_digest_eq
      request_digest_legacy_structured_v2_def request_digest_legacy_line_snapshot_def
      split: option.splits)

lemma receipt_input_lines_ok:
  assumes X: "hex_ok X" "time_text_ok X" and lines: "issuer_lines_ok ri"
    and facts: "receipt_facts X ri sig key v" and ordinary: "q_answer_field (ri_request ri) = None"
  shows "input_lines_ok (receipt_payload_input X (ri_decision ri) sig (vr_request_digest v)
     (vr_user_id v) (vr_device_id v) (vr_signed_at v))"
proof -
  from facts have f: "d_request_id (ri_decision ri) = q_id (ri_request ri)"
    "match_request_digest X (ri_request ri) (sr_request_digest sig) = Inr (vr_request_digest v, vr_digest_encoder v)"
    "find_pinned_key (ri_pinned_keys ri) (vr_user_id v) (vr_device_id v) (sr_key_id sig) = Inr key"
    and opt: "\<exists>opt. resolve_option (ri_request ri) (d_option_id (ri_decision ri)) = Inr opt"
    by (auto simp: receipt_facts_def Let_def)
  from f(3) have k: "key \<in> set (ri_pinned_keys ri)" "pk_user_id key = vr_user_id v"
    "pk_key_id key = sr_key_id sig" "pk_device_id key = None \<or> pk_device_id key = Some (vr_device_id v)"
    by (auto simp: find_pinned_key_ok dest!: find_SomeD)
  with lines have "newline_free (vr_user_id v)" "newline_free (sr_key_id sig)" "newline_free (vr_device_id v)"
    by (auto simp: issuer_lines_ok_def)
  moreover have "newline_free (lit ''dismiss'')" by (simp add: newline_free_def lit_def)
  with opt lines have "newline_free (d_option_id (ri_decision ri))"
    by (metis issuer_lines_ok_def resolve_option_id)
  moreover from match_request_digest_ok [OF f(2)] obtain b where "vr_request_digest v = sha256_hex X b"
    using ordinary_candidates_hex [OF _ _ ordinary] by blast
  with X(1) have "newline_free (vr_request_digest v)"
    by (simp add: newline_free_def sha256_hex_def hex_ok_def)
  moreover from X(2) have "newline_free (x_fmt_millis X (vr_signed_at v))"
    by (simp add: newline_free_def time_text_ok_def)
  ultimately show ?thesis
    using f(1) lines by (simp add: input_lines_ok_def receipt_payload_input_def issuer_lines_ok_def)
qed


text \<open>The fields of a card that change after its creation are not hashed.\<close>

lemma mutable_fields_not_hashed:
  "digest_candidates X (q\<lparr>q_status := st, q_decision := ud, q_decisions := us,
      q_request_digest := h, q_updated_at := t, q_resolved_at := rt\<rparr>) = digest_candidates X q"
proof -
  let ?q = "q\<lparr>q_status := st, q_decision := ud, q_decisions := us,
      q_request_digest := h, q_updated_at := t, q_resolved_at := rt\<rparr>"
  have card: "card_content X ?q c = card_content X q c" for c
    by (simp add: card_content_def)
  have line: "line_snapshot X ?q = line_snapshot X q"
    by (simp add: line_snapshot_def Let_def)
  have sel: "q_answer_field ?q = q_answer_field q" "q_signing ?q = q_signing q"
    by simp_all
  show ?thesis
    unfolding digest_candidates_def request_digest_v1_def request_digest_legacy_structured_v2_def
      structured_request_digest_def request_digest_legacy_line_snapshot_def value_request_digest_def
      value_request_digest_legacy_v3_def value_request_digest_with_version_def card line sel ..
qed

section \<open>Properties\<close>

lemma signed_intent:
  assumes "json_text_ok X" "hex_ok X" "time_text_ok X" and "issuer_lines_ok ri" and facts: "receipt_facts X ri sig key v"
    and ia: "intent_payload X (i, a) = Inr (sr_signing_payload sig)" and lines: "a = None \<Longrightarrow> input_lines_ok i"
    and texts: "no_collision X {text_bytes i, utf8 (or_empty (d_text (ri_decision ri)))}"
  shows "same_intent X ri v (i, a)"
proof -
  let ?d = "ri_decision ri"
  let ?i = "receipt_payload_input X ?d sig (vr_request_digest v) (vr_user_id v) (vr_device_id v) (vr_signed_at v)"
  from facts have f: "d_signature ?d = Some sig" "d_request_id ?d = q_id (ri_request ri)"
    "rebuilt_payload X (ri_request ri) ?d sig ?i = Inr (sr_signing_payload sig)"
    "vr_key_id v = sr_key_id sig"
    by (auto simp: receipt_facts_def Let_def)
  show ?thesis
  proof (cases a)
    case None
    with ia have p: "decision_signing_payload X i = sr_signing_payload sig"
      by (simp add: intent_payload_def)
    from f(3) payload_versions_differ [of X ?i _ "sr_signing_payload sig" i] p
    have o: "d_answer_value ?d = None" "q_answer_field (ri_request ri) = None"
      "decision_signing_payload X i = decision_signing_payload X ?i"
      by (auto simp: rebuilt_payload_ok)
    from decision_payload_inject [OF assms(2) lines [OF None] receipt_input_lines_ok [OF assms(2-4) facts o(2)] o(3)]
      sha256_hex_inject [OF assms(2) texts] o f None
    show ?thesis by (simp add: same_intent_def Let_def receipt_payload_input_def)
  next
    case (Some w)
    with ia have p: "decision_signing_payload_v2 X i w = Inr (sr_signing_payload sig)"
      by (simp add: intent_payload_def)
    with f(3) payload_versions_differ [OF p, of ?i] obtain u where u: "d_answer_value ?d = Some u"
      "decision_signing_payload_v2 X ?i u = Inr (sr_signing_payload sig)"
      by (auto simp: rebuilt_payload_ok)
    from decision_payload_v2_inject [OF assms(1) p u(2)] u(1) f Some
    show ?thesis by (simp add: same_intent_def Let_def receipt_payload_input_def)
  qed
qed

lemma receipt_unforgeable_aux:
  assumes "json_text_ok X" and "hex_ok X" and "time_text_ok X"
    and "no_collision X (receipt_texts ri S)"
    and "issuer_lines_ok ri" and "intents_lines_ok ri S" and "authentic X ri S"
    and "verify_decision_receipt X ri = Inr v"
  shows "\<exists>k \<in> set (ri_pinned_keys ri). \<exists>ia \<in> S k. same_intent X ri v ia \<and>
    pk_user_id k = vr_user_id v \<and> pk_key_id k = vr_key_id v \<and> pk_device_id k = Some (vr_device_id v)"
proof -
  from assms(8) obtain sig key where facts: "receipt_facts X ri sig key v"
    by (auto simp: verify_decision_receipt_iff)
  from facts have f: "d_signature (ri_decision ri) = Some sig" "vr_key_id v = sr_key_id sig"
    and key: "find_pinned_key (ri_pinned_keys ri) (vr_user_id v) (vr_device_id v) (sr_key_id sig) = Inr key"
    and ver: "verify_payload X (pk_public_key key) (utf8 (sr_signing_payload sig)) (sr_signature sig) = Inr ()"
    by (auto simp: receipt_facts_def Let_def)
  from key have k: "key \<in> set (ri_pinned_keys ri)" "pk_user_id key = vr_user_id v"
    "pk_key_id key = sr_key_id sig" "pk_device_id key = None \<or> pk_device_id key = Some (vr_device_id v)"
    by (auto simp: find_pinned_key_ok dest!: find_SomeD)
  with assms(5) have dev: "pk_device_id key = Some (vr_device_id v)" by (auto simp: issuer_lines_ok_def)
  from ver f(1) k(1) assms(7) obtain i a where ia: "(i, a) \<in> S key"
    "intent_payload X (i, a) = Inr (sr_signing_payload sig)"
    unfolding authentic_def verify_payload_ok by (metis surj_pair utf8_inject)
  have lines: "input_lines_ok i" if "a = None" using assms(6) ia(1) k(1) that by (force simp: intents_lines_ok_def)
  have "no_collision X {text_bytes i, utf8 (or_empty (d_text (ri_decision ri)))}"
    using assms(4) unfolding no_collision_def
  proof (rule inj_on_subset)
    show "{text_bytes i, utf8 (or_empty (d_text (ri_decision ri)))} \<subseteq> receipt_texts ri S"
      using ia(1) k(1) unfolding receipt_texts_def by blast
  qed
  from signed_intent [OF assms(1-3,5) facts ia(2) lines this] k dev f(2) ia(1) show ?thesis by auto
qed


text \<open>
  What the server attaches beside the signed text plays no part in the verdict: the
  public key and the verified flag of the record, the option label, and the mutable fields of
  the card copy (status, decisions, digests it displays).
\<close>

theorem receipt_ignores_server_claims:
  assumes "d_signature d = Some sig"
  shows "verify_decision_receipt X (ri\<lparr>ri_request := q\<lparr>q_status := st, q_decision := ud, q_decisions := us,
      q_request_digest := h, q_updated_at := t, q_resolved_at := rt\<rparr>,
      ri_decision := d\<lparr>d_option_label := l, d_signature := Some (sig\<lparr>sr_public_key := k, sr_verified := b\<rparr>)\<rparr>\<rparr>) =
    verify_decision_receipt X (ri\<lparr>ri_request := q, ri_decision := d\<rparr>)"
  using assms
  by (simp add: verify_decision_receipt_def match_request_digest_def mutable_fields_not_hashed
      resolve_option_def receipt_payload_input_def rebuilt_payload_def time_check_def Let_def
      cong: option.case_cong prod.case_cong if_cong)

text \<open>
  The strict clock policy is the lenient one plus a bound: a strict verification
  passes exactly when the lenient one does and the signing time is within the tolerance, with
  the same facts reported.
\<close>

theorem receipt_strict_time:
  "verify_decision_receipt X (ri\<lparr>ri_strict_time := True\<rparr>) = Inr v \<longleftrightarrow>
     verify_decision_receipt X (ri\<lparr>ri_strict_time := False\<rparr>) = Inr v \<and>
     \<bar>ri_now ri - vr_signed_at v\<bar> \<le> (case ri_max_clock_skew ri of None \<Rightarrow> DEFAULT_MAX_CLOCK_SKEW | Some t \<Rightarrow> t)"
  by (auto simp: verify_decision_receipt_iff receipt_facts_def time_check_def Let_def)

section \<open>Witnesses\<close>

definition sample_pin :: pinned_key where
  "sample_pin = \<lparr>pk_user_id = lit ''owner'', pk_device_id = Some (lit ''dev''), pk_key_id = lit ''k'',
     pk_public_key = 4 # replicate 64 0\<rparr>"

definition sample_digest :: rstr where
  "sample_digest = sha256_hex sample_ext (utf8 (line_snapshot sample_ext sample_card))"

definition signed_input :: signing_input where
  "signed_input = \<lparr>i_request_id = lit ''r1'', i_request_digest = sample_digest, i_option_id = lit ''dismiss'',
     i_option_kind = Dismiss, i_user_id = lit ''owner'', i_device_id = lit ''dev'', i_key_id = lit ''k'',
     i_nonce = lit ''n'', i_signed_at = sample_fmt 0, i_text = None\<rparr>"

definition sample_record :: signature_record where
  "sample_record = \<lparr>sr_payload_version = None, sr_key_id = lit ''k'', sr_algorithm = DECISION_SIGNING_ALGORITHM,
     sr_nonce = lit ''n'', sr_signed_at = sample_fmt 0, sr_request_digest = sample_digest,
     sr_signing_payload = decision_signing_payload sample_ext signed_input,
     sr_signature = (4 # replicate 64 0) @ utf8 (decision_signing_payload sample_ext signed_input),
     sr_verified = False, sr_public_key = None\<rparr>"

definition sample_receipt :: receipt_input where
  "sample_receipt = \<lparr>ri_request = sample_card,
     ri_decision = \<lparr>d_answer_value = None, d_request_id = lit ''r1'', d_option_id = lit ''dismiss'',
       d_option_kind = Dismiss, d_option_label = lit ''Dismiss'', d_text = None,
       d_actor_user_id = Some (lit ''owner''), d_actor_device_id = Some (lit ''dev''),
       d_signature = Some sample_record, d_resolved_at = 0\<rparr>,
     ri_pinned_keys = [sample_pin], ri_now = 0, ri_max_clock_skew = None, ri_strict_time = True\<rparr>"

definition sample_verdict :: verified_receipt where
  "sample_verdict = \<lparr>vr_request_id = lit ''r1'', vr_user_id = lit ''owner'', vr_device_id = lit ''dev'',
     vr_key_id = lit ''k'', vr_option_id = lit ''dismiss'', vr_option_kind = Dismiss,
     vr_request_digest = sample_digest, vr_digest_encoder = LegacyLineSnapshot, vr_signed_at = 0,
     vr_warnings = []\<rparr>"

lemma sample_match: "match_request_digest sample_ext sample_card sample_digest = Inr (sample_digest, LegacyLineSnapshot)"
proof -
  have sel: "q_signing sample_card = None" "q_answer_field sample_card = None"
    by (simp_all add: sample_card_def)
  show ?thesis
    by (simp add: match_request_digest_def digest_candidates_def sel
        request_digest_legacy_line_snapshot_def sample_digest_def)
qed

lemma sample_pin_decode: "decode_public_key sample_ext (pk_public_key sample_pin) = Inr (4 # replicate 64 0)"
  by (simp add: decode_public_key_def sample_pin_def)

lemma sample_receipt_input:
  "receipt_payload_input sample_ext (ri_decision sample_receipt) sample_record sample_digest (lit ''owner'')
     (lit ''dev'') 0 = signed_input"
  by (simp add: receipt_payload_input_def sample_receipt_def sample_record_def signed_input_def)

lemma sample_receipt_facts: "receipt_facts sample_ext sample_receipt sample_record sample_pin sample_verdict"
proof -
  have sel: "ri_request sample_receipt = sample_card" "ri_pinned_keys sample_receipt = [sample_pin]"
    "sr_request_digest sample_record = sample_digest" "sr_key_id sample_record = lit ''k''"
    by (simp_all add: sample_receipt_def sample_record_def)
  have v: "vr_user_id sample_verdict = lit ''owner''" "vr_device_id sample_verdict = lit ''dev''"
    "vr_signed_at sample_verdict = 0" "vr_request_digest sample_verdict = sample_digest"
    "vr_digest_encoder sample_verdict = LegacyLineSnapshot"
    by (simp_all add: sample_verdict_def)
  have pin: "find_pinned_key [sample_pin] (lit ''owner'') (lit ''dev'') (lit ''k'') = Inr sample_pin"
    by (simp add: find_pinned_key_ok) (simp add: sample_pin_def)
  have sig: "verify_payload sample_ext (pk_public_key sample_pin) (utf8 (sr_signing_payload sample_record))
      (sr_signature sample_record) = Inr ()"
    using sample_pin_decode by (simp add: verify_payload_ok sample_record_def)
  have time: "time_check sample_receipt 0 = Inr (vr_warnings sample_verdict)"
    by (simp add: time_check_def sample_receipt_def sample_verdict_def DEFAULT_MAX_CLOCK_SKEW_def seconds_def)
  have payload: "rebuilt_payload sample_ext sample_card (ri_decision sample_receipt) sample_record signed_input =
      Inr (sr_signing_payload sample_record)"
    by (simp add: rebuilt_payload_ok sample_record_def sample_receipt_def sample_card_def)
  have rest: "d_signature (ri_decision sample_receipt) = Some sample_record"
    "sr_algorithm sample_record = DECISION_SIGNING_ALGORITHM"
    "d_request_id (ri_decision sample_receipt) = q_id sample_card"
    "q_request_id sample_card = q_id sample_card"
    "resolve_option sample_card (d_option_id (ri_decision sample_receipt)) = Inr dismiss_option"
    "o_kind dismiss_option = d_option_kind (ri_decision sample_receipt)"
    "d_actor_user_id (ri_decision sample_receipt) = Some (lit ''owner'')"
    "d_actor_device_id (ri_decision sample_receipt) = Some (lit ''dev'')"
    "x_parse_rfc3339 sample_ext (sr_signed_at sample_record) = Some 0"
    "vr_request_id sample_verdict = d_request_id (ri_decision sample_receipt)"
    "vr_key_id sample_verdict = sr_key_id sample_record"
    "vr_option_id sample_verdict = d_option_id (ri_decision sample_receipt)"
    "vr_option_kind sample_verdict = d_option_kind (ri_decision sample_receipt)"
    by (simp_all add: sample_receipt_def sample_record_def sample_card_def sample_verdict_def
        resolve_option_def dismiss_option_def sample_fmt_def sample_parse_def millis_def of_millis_def)
  show ?thesis
    unfolding receipt_facts_def Let_def sel v pin sig time sample_match sample_receipt_input payload
    using rest sel(4) by simp
qed

lemma sample_lines_ok:
  "issuer_lines_ok sample_receipt" "intents_lines_ok sample_receipt (\<lambda>_. {(signed_input, None)})"
proof -
  have dig: "newline_free sample_digest"
    using sample_hex_ok by (simp add: sample_digest_def newline_free_def sha256_hex_def hex_ok_def)
  show "issuer_lines_ok sample_receipt"
    by (simp add: issuer_lines_ok_def sample_receipt_def sample_card_def sample_pin_def newline_free_def lit_def)
  show "intents_lines_ok sample_receipt (\<lambda>_. {(signed_input, None)})"
    using dig by (simp add: intents_lines_ok_def input_lines_ok_def signed_input_def newline_free_def
        lit_def sample_fmt_def skip_lf_neq [symmetric])
qed

lemma sample_authentic: "authentic sample_ext sample_receipt (\<lambda>_. {(signed_input, None)})"
  using sample_pin_decode
  by (auto simp: authentic_def sample_receipt_def sample_record_def intent_payload_def)


theorem receipt_ignores_server_claims_witness:
  "verify_decision_receipt sample_ext (sample_receipt\<lparr>ri_request := sample_card\<lparr>q_status := Resolved,
      q_decision := None, q_decisions := [], q_request_digest := None, q_updated_at := 1, q_resolved_at := Some 1\<rparr>,
      ri_decision := (ri_decision sample_receipt)\<lparr>d_option_label := lit ''Approve'',
        d_signature := Some (sample_record\<lparr>sr_public_key := Some [4], sr_verified := True\<rparr>)\<rparr>\<rparr>) =
   Inr sample_verdict"
proof -
  have "d_signature (ri_decision sample_receipt) = Some sample_record"
    by (simp add: sample_receipt_def)
  note receipt_ignores_server_claims [OF this, where X = sample_ext and ri = sample_receipt
      and q = sample_card and st = Resolved and ud = None and us = "[]" and h = None and t = 1
      and rt = "Some 1" and l = "lit ''Approve''" and k = "Some [4]" and b = True]
  moreover have "sample_receipt\<lparr>ri_request := sample_card, ri_decision := ri_decision sample_receipt\<rparr> = sample_receipt"
    by (simp add: sample_receipt_def)
  moreover have "verify_decision_receipt sample_ext sample_receipt = Inr sample_verdict"
    using sample_receipt_facts by (auto simp: verify_decision_receipt_iff)
  ultimately show ?thesis by simp
qed

end
