(* ===== verification/Decimal_Text.thy ===== *)
theory Decimal_Text
  imports Prelude
begin

text \<open>
  Small text functions of the Rust standard library used by the servers and clients: \<open>Display\<close> and
  \<open>FromStr\<close> of integers, \<open>strip_prefix\<close>, \<open>split_once\<close>, and their round trips.
\<close>

section \<open>Pieces of a text\<close>

definition strip_prefix :: "rstr \<Rightarrow> rstr \<Rightarrow> rstr option" where
  "strip_prefix p s = (if take (length p) s = p then Some (drop (length p) s) else None)"

fun split_once :: "nat \<Rightarrow> rstr \<Rightarrow> (rstr \<times> rstr) option" where
  \<comment> \<open>\<open>s.split_once(c)\<close>: around the first \<open>c\<close>\<close>
  "split_once c [] = None"
| "split_once c (x # s) = (if x = c then Some ([], s) else map_option (\<lambda>(a, b). (x # a, b)) (split_once c s))"

lemma strip_prefix_append [simp]: "strip_prefix p (p @ s) = Some s"
  by (simp add: strip_prefix_def)

lemma strip_prefix_Some: "strip_prefix p s = Some r \<longleftrightarrow> s = p @ r"
  by (auto simp: strip_prefix_def) (metis append_take_drop_id)

lemma split_once_append [simp]: "c \<notin> set a \<Longrightarrow> split_once c (a @ c # b) = Some (a, b)"
  by (induction a) auto

lemma split_once_Some: "split_once c s = Some (a, b) \<longleftrightarrow> s = a @ c # b \<and> c \<notin> set a"
proof
  show "split_once c s = Some (a, b) \<Longrightarrow> s = a @ c # b \<and> c \<notin> set a"
    by (induction s arbitrary: a) (auto split: if_splits)
qed auto

lemma split_on_absent: "c \<notin> set s \<Longrightarrow> split_on c s = [s]"
  by (induction s) auto

section \<open>Integers\<close>

fun show_nat :: "nat \<Rightarrow> rstr" where
  "show_nat n = (if n < 10 then [48 + n] else show_nat (n div 10) @ [48 + n mod 10])"

declare show_nat.simps [simp del]

definition show_int :: "int \<Rightarrow> rstr" where
  "show_int i = (if i < 0 then 45 # show_nat (nat (- i)) else show_nat (nat i))"

definition parse_i64 :: "rstr \<Rightarrow> int option" where
  \<comment> \<open>\<open>i64::from_str\<close>: an optional sign, at least one digit, in range\<close>
  "parse_i64 s =
     (let (neg, ds) = (case s of c # r \<Rightarrow> if c = 45 then (True, r) else if c = 43 then (False, r) else (False, s)
                       | [] \<Rightarrow> (False, []));
          v = (if neg then - int (digits_value ds) else int (digits_value ds))
      in if ds \<noteq> [] \<and> list_all is_ascii_digit ds \<and> - (2 ^ 63) \<le> v \<and> v < 2 ^ 63 then Some v else None)"

definition parse_u64 :: "rstr \<Rightarrow> nat option" where
  "parse_u64 = parse_unsigned (2 ^ 64)"

lemma show_nat_digits: "list_all is_ascii_digit (show_nat n)"
proof (induction n rule: show_nat.induct)
  case (1 n)
  then show ?case
    by (cases "n < 10") (simp_all add: show_nat.simps [of n] is_ascii_digit_def [of "48 + _"])
qed

lemma show_nat_nonempty [simp]: "show_nat n \<noteq> []"
  by (subst show_nat.simps) simp

lemma digits_value_snoc: "digits_value (s @ [c]) = 10 * digits_value s + (c - 48)"
  by (simp add: digits_value_def)

lemma digits_value_show [simp]: "digits_value (show_nat n) = n"
proof (induction n rule: show_nat.induct)
  case (1 n)
  show ?case
  proof (cases "n < 10")
    case True
    then show ?thesis by (subst show_nat.simps) (simp add: digits_value_def)
  next
    case False
    then show ?thesis using 1 by (subst show_nat.simps) (simp add: digits_value_snoc)
  qed
qed

lemma show_nat_first: "\<exists>d ds. show_nat n = d # ds \<and> is_ascii_digit d"
  using show_nat_digits [of n] by (cases "show_nat n") auto

lemma parse_show_int:
  assumes "- (2 ^ 63) \<le> i" "i < 2 ^ 63"
  shows "parse_i64 (show_int i) = Some i"
proof (cases "i < 0")
  case True
  with assms show ?thesis
    by (simp add: show_int_def parse_i64_def show_nat_digits)
next
  case False
  moreover obtain d ds where d: "show_nat (nat i) = d # ds" "is_ascii_digit d" using show_nat_first by blast
  moreover from d(2) have "d \<noteq> 45" "d \<noteq> 43" by (auto simp: is_ascii_digit_def)
  moreover have "digits_value (d # ds) = nat i" "list_all is_ascii_digit (d # ds)"
    using digits_value_show [of "nat i"] show_nat_digits [of "nat i"] unfolding d(1) .
  ultimately show ?thesis using assms
    by (simp add: show_int_def parse_i64_def Let_def)
qed

lemma show_int_chars: "c \<in> set (show_int i) \<Longrightarrow> c = 45 \<or> is_ascii_digit c"
  using show_nat_digits [of "nat i"] show_nat_digits [of "nat (- i)"]
  by (auto simp: show_int_def list_all_iff split: if_splits)

lemma show_int_inj:
  assumes "show_int i = show_int j"
  shows "i = j"
proof -
  have first: "show_nat n \<noteq> 45 # s" for n s
    using show_nat_first [of n] by (auto simp: is_ascii_digit_def)
  have nat_inj: "show_nat m = show_nat n \<Longrightarrow> m = n" for m n
    by (metis digits_value_show)
  show ?thesis
    using assms first first [symmetric] by (auto simp: show_int_def dest!: nat_inj split: if_splits)
qed

end
