(* ===== verification/Verify.thy ===== *)
theory Verify
  imports Receipt_Facts Decimal_Text
begin

text \<open>
  \<open>nod-verify\<close> (src/tools/nod-verify/src/main.rs): the command line around the offline verification of a receipt, and
  the texts of receipt errors and warnings (nod-proto receipt.rs). The run is a function of the arguments, the files
  and the clock, and gives the exit code with the JSON line printed. serde_json with the derived readers of the wire
  types, the texts of its errors and of the standard library's, and Rust's \<open>Debug\<close> text of a string are the fields of
  \<open>verify_ext\<close>.
\<close>

record verify_ext =
  vy_ext :: ext
  vy_read :: "rstr \<Rightarrow> rstr + rstr"
    \<comment> \<open>the error's text, or the file\<close>
  vy_json :: "rstr \<Rightarrow> rstr + json"
  vy_request :: "json \<Rightarrow> rstr + request"
  vy_decision :: "json \<Rightarrow> rstr + decision"
  vy_user_decisions :: "json \<Rightarrow> rstr + user_decision list"
  vy_shape :: "json \<Rightarrow> rstr"
    \<comment> \<open>why a value is no keys file\<close>
  vy_int_error :: "rstr \<Rightarrow> rstr"
  vy_time_error :: "rstr \<Rightarrow> rstr"
  vy_debug :: "rstr \<Rightarrow> rstr"
  vy_duration :: "int \<Rightarrow> rstr"
  vy_time :: "instant \<Rightarrow> rstr"
  vy_clock :: instant

section \<open>Texts\<close>

fun option_kind_debug :: "option_kind \<Rightarrow> rstr" where
  "option_kind_debug Approve = lit ''Approve''"
| "option_kind_debug Reject = lit ''Reject''"
| "option_kind_debug ApproveWithText = lit ''ApproveWithText''"
| "option_kind_debug RejectWithText = lit ''RejectWithText''"
| "option_kind_debug Open = lit ''Open''"
| "option_kind_debug Dismiss = lit ''Dismiss''"
| "option_kind_debug Custom = lit ''Custom''"

definition debug_list :: "verify_ext \<Rightarrow> rstr list \<Rightarrow> rstr" where
  "debug_list V ss = lit ''['' @ join_with (lit '', '') (map (vy_debug V) ss) @ lit '']''"

definition clock_skew_text :: "verify_ext \<Rightarrow> instant \<Rightarrow> instant \<Rightarrow> int \<Rightarrow> int \<Rightarrow> rstr" where
  "clock_skew_text V signed_at now skew tolerance = lit ''signed_at '' @ vy_time V signed_at @ lit '' is '' @ vy_duration V skew @
     lit '' from now ('' @ vy_time V now @ lit ''); tolerance is '' @ vy_duration V tolerance"

fun receipt_error_text :: "verify_ext \<Rightarrow> receipt_error \<Rightarrow> rstr" where
  "receipt_error_text V MissingSignature = lit ''decision carries no signature''"
| "receipt_error_text V (UnsupportedAlgorithm a) = lit ''unsupported signature algorithm '' @ vy_debug V a"
| "receipt_error_text V (UnsupportedPayloadVersion v) = lit ''unsupported signature payload_version '' @ vy_debug V v"
| "receipt_error_text V (UnsupportedDigestVersion v) = lit ''unsupported request signing version '' @ vy_debug V v"
| "receipt_error_text V MissingSigningContext =
     lit ''value request carries no signing context to recompute its digest from''"
| "receipt_error_text V (RequestIdMismatch request decision) = lit ''decision is for request '' @ vy_debug V decision @
     lit '' but the created request is '' @ vy_debug V request"
| "receipt_error_text V (RequestDigestMismatch expected found) = lit ''signature request_digest '' @ vy_debug V found @
     lit '' matches none of the digests recomputed from the created request '' @ debug_list V expected"
| "receipt_error_text V MissingActor = lit ''decision has no actor_user_id or actor_device_id''"
| "receipt_error_text V (UnknownKey user key) = lit ''no pinned key for user '' @ vy_debug V user @ lit '' with key_id '' @
     vy_debug V key"
| "receipt_error_text V (DeviceMismatch key pinned found) = lit ''pinned key for '' @ vy_debug V key @ lit '' belongs to device '' @
     vy_debug V pinned @ lit '', receipt names '' @ vy_debug V found"
| "receipt_error_text V MissingAnswerValue = lit ''value request receipt has no answer_value''"
| "receipt_error_text V UnexpectedAnswerValue = lit ''ordinary request receipt carries an answer_value''"
| "receipt_error_text V SigningPayloadMismatch =
     lit ''recorded signing_payload differs from the payload rebuilt from the decision''"
| "receipt_error_text V (SignatureInvalid e) = lit ''signature does not verify under the pinned key: '' @ signing_error_text e"
| "receipt_error_text V (UnknownOption p) = lit ''option '' @ vy_debug V p @ lit '' is not one of the created request'' @ [39] @
     lit ''s options''"
| "receipt_error_text V (OptionKindMismatch p expected found) = lit ''option '' @ vy_debug V p @ lit '' is kind '' @
     option_kind_debug expected @ lit '' in the created request, receipt says '' @ option_kind_debug found"
| "receipt_error_text V (InvalidSignedAt t) = lit ''signed_at '' @ vy_debug V t @ lit '' is not an RFC 3339 timestamp''"
| "receipt_error_text V (ClockSkew signed_at now skew tolerance) = clock_skew_text V signed_at now skew tolerance"
| "receipt_error_text V (DigestError e) = lit ''could not recompute request digest: '' @ signing_error_text e"
| "receipt_error_text V (PayloadError e) = lit ''could not rebuild signing payload: '' @ signing_error_text e"

fun receipt_warning_text :: "verify_ext \<Rightarrow> receipt_warning \<Rightarrow> rstr" where
  "receipt_warning_text V (SkewWarning signed_at now skew tolerance) = clock_skew_text V signed_at now skew tolerance"
| "receipt_warning_text V (ResolvedAtWarning resolved gap signed_at) = lit ''server resolved_at '' @ vy_time V resolved @ lit '' is '' @
     vy_duration V gap @ lit '' from signed_at '' @ vy_time V signed_at"

section \<open>Arguments\<close>

record verify_args =
  va_request :: "rstr option"
  va_decision :: "rstr option"
  va_keys :: "rstr option"
  va_expect_user :: "rstr option"
  va_expect_option :: "rstr option"
  va_strict_time :: bool
  va_max_clock_skew :: "int option"
  va_now :: "instant option"

definition default_args :: verify_args where
  "default_args = \<lparr>va_request = None, va_decision = None, va_keys = None, va_expect_user = None, va_expect_option = None,
     va_strict_time = False, va_max_clock_skew = None, va_now = None\<rparr>"

text \<open>\<open>with_context\<close>, printed with \<open>{:#}\<close>.\<close>

definition in_context :: "rstr \<Rightarrow> rstr \<Rightarrow> rstr" where
  "in_context context cause = context @ lit '': '' @ cause"

definition value_flags :: "rstr list" where
  "value_flags = map lit [''--request'', ''--decision'', ''--keys'', ''--expect-user'', ''--expect-option'', ''--max-clock-skew'', ''--now'']"

definition set_flag :: "verify_ext \<Rightarrow> rstr \<Rightarrow> rstr \<Rightarrow> verify_args \<Rightarrow> rstr + verify_args" where
  "set_flag V flag v a =
     (if flag = lit ''--request'' then Inr (a\<lparr>va_request := Some v\<rparr>)
      else if flag = lit ''--decision'' then Inr (a\<lparr>va_decision := Some v\<rparr>)
      else if flag = lit ''--keys'' then Inr (a\<lparr>va_keys := Some v\<rparr>)
      else if flag = lit ''--expect-user'' then Inr (a\<lparr>va_expect_user := Some v\<rparr>)
      else if flag = lit ''--expect-option'' then Inr (a\<lparr>va_expect_option := Some v\<rparr>)
      else if flag = lit ''--max-clock-skew'' then
        (case parse_i64 v of
           None \<Rightarrow> Inl (in_context (lit ''--max-clock-skew '' @ vy_debug V v @ lit '' is not a whole number of seconds'') (vy_int_error V v))
         | Some n \<Rightarrow> if n < 0 then Inl (lit ''--max-clock-skew must not be negative'') else Inr (a\<lparr>va_max_clock_skew := Some n\<rparr>))
      else (case x_parse_rfc3339 (vy_ext V) v of
           None \<Rightarrow> Inl (in_context (lit ''--now '' @ vy_debug V v @ lit '' is not RFC 3339'') (vy_time_error V v))
         | Some t \<Rightarrow> Inr (a\<lparr>va_now := Some t\<rparr>)))"

fun parse_flags :: "verify_ext \<Rightarrow> rstr list \<Rightarrow> verify_args \<Rightarrow> rstr + verify_args" where
  "parse_flags V [] a = Inr a"
| "parse_flags V (flag # rest) a =
     (if flag = lit ''--strict-time'' then parse_flags V rest (a\<lparr>va_strict_time := True\<rparr>)
      else if flag \<in> set value_flags then
        (case rest of
           [] \<Rightarrow> Inl (flag @ lit '' requires a value'')
         | v # after \<Rightarrow> bind_res (set_flag V flag v a) (parse_flags V after))
      else if flag = lit ''-h'' \<or> flag = lit ''--help'' then Inl (lit ''help requested'')
      else Inl (lit ''unknown argument '' @ vy_debug V flag))"

definition parse_args :: "verify_ext \<Rightarrow> rstr list \<Rightarrow> rstr + verify_args" where
  "parse_args V raw = bind_res (parse_flags V raw default_args) (\<lambda>a.
     if va_request a = None \<or> va_decision a = None \<or> va_keys a = None
     then Inl (lit ''--request, --decision and --keys are all required'') else Inr a)"

section \<open>Files\<close>

definition read_json :: "verify_ext \<Rightarrow> rstr \<Rightarrow> rstr + json" where
  "read_json V path =
     bind_res (map_err (in_context (lit ''reading '' @ path)) (vy_read V path)) (\<lambda>text.
     map_err (in_context (lit ''parsing '' @ path @ lit '' as JSON'')) (vy_json V text))"

definition json_get :: "string \<Rightarrow> json \<Rightarrow> json option" where
  "json_get k j = (case j of JObj ms \<Rightarrow> map_of (rev ms) (lit k) | _ \<Rightarrow> None)"

fun is_object :: "json \<Rightarrow> bool" where
  "is_object (JObj ms) = True"
| "is_object (JArr vs) = False"
| "is_object JNull = False"
| "is_object (JBool b) = False"
| "is_object (JNum n) = False"
| "is_object (JFloat n) = False"
| "is_object (JStr s) = False"

definition DEDUPED_WARNING :: rstr where
  "DEDUPED_WARNING = lit ''create response was deduped: confirm the returned request content is what you submitted''"

definition load_request :: "verify_ext \<Rightarrow> rstr \<Rightarrow> rstr + request \<times> rstr list" where
  "load_request V path =
     bind_res (read_json V path) (\<lambda>value.
     let (inner, warnings) = (case json_get ''request'' value of
           Some (JObj ms) \<Rightarrow> (JObj ms, if json_get ''deduped'' value = Some (JBool True) then [DEDUPED_WARNING] else [])
         | _ \<Rightarrow> (value, [])) in
     bind_res (map_err (in_context (path @ lit '' is not a Nod request or create response'')) (vy_request V inner)) (\<lambda>q.
     if q_id q = [] then Inl (path @ lit '' has an empty request id'') else Inr (q, warnings)))"

text \<open>A decision, or why there is none.\<close>

datatype decision_source = FoundDecision decision | NotRecorded rstr

definition load_decision :: "verify_ext \<Rightarrow> rstr \<Rightarrow> rstr option \<Rightarrow> rstr + decision_source" where
  "load_decision V path expect_user =
     bind_res (read_json V path) (\<lambda>value.
     if \<not> is_object value then Inl (path @ lit '' is not a JSON object'')
     else if json_get ''option_id'' value \<noteq> None \<and> json_get ''signature'' value \<noteq> None then
       map_ok FoundDecision (map_err (in_context (path @ lit '' is not a Nod decision record'')) (vy_decision V value))
     else if json_get ''decision'' value = None \<and> json_get ''decisions'' value = None then
       Inl (path @ lit '' is neither a decision view (decision/decisions) nor a bare decision record'')
     else (case json_get ''decision'' value of
         Some (JObj ms) \<Rightarrow>
           map_ok FoundDecision (map_err (in_context (path @ lit '' has a malformed decision'')) (vy_decision V (JObj ms)))
       | _ \<Rightarrow>
           bind_res (case json_get ''decisions'' value of
               Some (JArr vs) \<Rightarrow> map_err (in_context (path @ lit '' has malformed decisions'')) (vy_user_decisions V (JArr vs))
             | _ \<Rightarrow> Inr []) (\<lambda>per_user.
           if per_user = [] then
             let status = (case json_get ''status'' value of Some (JStr s) \<Rightarrow> s | _ \<Rightarrow> lit ''unknown'');
                 timed_out = (json_get ''timed_out'' value = Some (JBool True)) in
             Inr (NotRecorded (lit ''no decision recorded (status '' @ vy_debug V status @
               (if timed_out then lit '', wait timed out'' else []) @ lit '')''))
           else (case expect_user of
               Some user \<Rightarrow> (case find (\<lambda>e. ud_user_id e = user) per_user of
                   Some e \<Rightarrow> Inr (FoundDecision (ud_decision e))
                 | None \<Rightarrow> Inr (NotRecorded (lit ''no decision recorded for user '' @ vy_debug V user)))
             | None \<Rightarrow> (case per_user of
                   [e] \<Rightarrow> Inr (FoundDecision (ud_decision e))
                 | _ \<Rightarrow> Inl (path @ lit '' holds per-user decisions for '' @ debug_list V (map ud_user_id per_user) @
                     lit ''; pass --expect-user to pick one''))))))"

section \<open>Pinned keys\<close>

definition key_entry_fields :: "rstr list" where
  "key_entry_fields = map lit [''user_id'', ''device_id'', ''key_id'', ''public_key'']"

definition key_entry_of_json :: "json \<Rightarrow> pinned_key option" where
  "key_entry_of_json j = (case struct_fields True key_entry_fields j of
      Some [u, d, k, p] \<Rightarrow> (case (json_text u, json_optional_text d, json_text k, json_text p) of
          (Some u, Some d, Some k, Some p) \<Rightarrow> Some \<lparr>pk_user_id = u, pk_device_id = d, pk_key_id = k, pk_public_key = p\<rparr>
        | _ \<Rightarrow> None)
    | _ \<Rightarrow> None)"

definition keys_file_of_json :: "json \<Rightarrow> pinned_key list option" where
  "keys_file_of_json j = (case struct_fields False [lit ''keys''] j of
      Some [Some (JArr vs)] \<Rightarrow> those (map key_entry_of_json vs) | _ \<Rightarrow> None)"

definition checked_key :: "verify_ext \<Rightarrow> pinned_key \<Rightarrow> rstr + pinned_key" where
  "checked_key V k =
     bind_res (map_err (\<lambda>_. lit ''pinned key '' @ vy_debug V (pk_key_id k) @ lit '' for user '' @ vy_debug V (pk_user_id k) @
         lit '' is not a base64url uncompressed P-256 public key'') (validate_public_key (vy_ext V) (pk_public_key k))) (\<lambda>_.
     if trim (pk_user_id k) = [] \<or> trim (pk_key_id k) = [] then Inl (lit ''pinned keys need a user_id and a key_id'') else Inr k)"

definition load_keys :: "verify_ext \<Rightarrow> rstr \<Rightarrow> rstr + pinned_key list" where
  "load_keys V path =
     bind_res (read_json V path) (\<lambda>value.
     bind_res (ok_or (in_context (path @ lit '' is not a keys file ({\"keys\":[...]})'') (vy_shape V value)) (keys_file_of_json value)) (\<lambda>keys.
     if keys = [] then Inl (path @ lit '' pins no keys'') else map_res (checked_key V) keys))"

section \<open>The run\<close>

datatype verify_outcome = Passed verified_receipt "rstr list" | Failed rstr "rstr list" | Panicked

text \<open>\<open>Duration::seconds\<close> panics outside of the seconds whose milliseconds an \<open>i64\<close> holds.\<close>

definition MAX_DURATION_SECONDS :: int where "MAX_DURATION_SECONDS = (2 ^ 63 - 1) div 1000"

definition receipt_input_of :: "verify_ext \<Rightarrow> verify_args \<Rightarrow> request \<Rightarrow> decision \<Rightarrow> pinned_key list \<Rightarrow> receipt_input" where
  "receipt_input_of V a q d keys = \<lparr>ri_request = q, ri_decision = d, ri_pinned_keys = keys,
     ri_now = (case va_now a of Some t \<Rightarrow> t | None \<Rightarrow> vy_clock V), ri_max_clock_skew = map_option seconds (va_max_clock_skew a),
     ri_strict_time = va_strict_time a\<rparr>"

definition unexpected :: "verify_ext \<Rightarrow> string \<Rightarrow> rstr option \<Rightarrow> rstr \<Rightarrow> rstr option" where
  "unexpected V what expected found = (case expected of
      Some e \<Rightarrow>
        if found \<noteq> e then Some (lit ''verified '' @ lit what @ lit '' is '' @ vy_debug V found @ lit '', expected '' @ vy_debug V e)
        else None
    | None \<Rightarrow> None)"

definition judge :: "verify_ext \<Rightarrow> verify_args \<Rightarrow> receipt_input \<Rightarrow> rstr list \<Rightarrow> verify_outcome" where
  "judge V a ri warnings =
     (case verify_decision_receipt (vy_ext V) ri of
        Inl e \<Rightarrow> Failed (receipt_error_text V e) warnings
      | Inr v \<Rightarrow> (case unexpected V ''actor'' (va_expect_user a) (vr_user_id v) of
            Some e \<Rightarrow> Failed e warnings
          | None \<Rightarrow> (case unexpected V ''option'' (va_expect_option a) (vr_option_id v) of
                Some e \<Rightarrow> Failed e warnings
              | None \<Rightarrow> Passed v (warnings @ map (receipt_warning_text V) (vr_warnings v)))))"

definition verify_run :: "verify_ext \<Rightarrow> verify_args \<Rightarrow> rstr + verify_outcome" where
  "verify_run V a =
     bind_res (load_request V (or_empty (va_request a))) (\<lambda>(q, warnings).
     bind_res (load_keys V (or_empty (va_keys a))) (\<lambda>keys.
     bind_res (load_decision V (or_empty (va_decision a)) (va_expect_user a)) (\<lambda>source.
     Inr (case source of
         NotRecorded reason \<Rightarrow> Failed reason warnings
       | FoundDecision d \<Rightarrow>
           if (case va_max_clock_skew a of Some n \<Rightarrow> MAX_DURATION_SECONDS < n | None \<Rightarrow> False) then Panicked
           else judge V a (receipt_input_of V a q d keys) warnings))))"

section \<open>Exit code and report\<close>

definition pass_report :: "verify_ext \<Rightarrow> verified_receipt \<Rightarrow> rstr list \<Rightarrow> json" where
  "pass_report V v warnings = JObj [(lit ''ok'', JBool True), text_member ''request_id'' (vr_request_id v),
     text_member ''user_id'' (vr_user_id v), text_member ''device_id'' (vr_device_id v), text_member ''key_id'' (vr_key_id v),
     text_member ''option_id'' (vr_option_id v), text_member ''option_kind'' (option_kind_str (vr_option_kind v)),
     text_member ''request_digest'' (vr_request_digest v), text_member ''digest_encoder'' (digest_encoder_str (vr_digest_encoder v)),
     text_member ''digest_version'' (digest_encoder_version (vr_digest_encoder v)),
     text_member ''signed_at'' (x_fmt_millis (vy_ext V) (vr_signed_at v)), (lit ''warnings'', JArr (map JStr warnings))]"

definition fail_report :: "string \<Rightarrow> rstr \<Rightarrow> rstr list \<Rightarrow> json" where
  "fail_report stage e warnings = JObj ([(lit ''ok'', JBool False), text_member ''stage'' (lit stage), text_member ''error'' e] @
     (if warnings = [] then [] else [(lit ''warnings'', JArr (map JStr warnings))]))"

text \<open>The exit code and the line on the standard output; a panic prints none.\<close>

definition EXIT_PASS :: nat where "EXIT_PASS = 0"
definition EXIT_FAIL :: nat where "EXIT_FAIL = 1"
definition EXIT_INPUT :: nat where "EXIT_INPUT = 2"
definition EXIT_PANIC :: nat where "EXIT_PANIC = 101"

definition input_error :: "rstr \<Rightarrow> nat \<times> json option" where
  "input_error e = (EXIT_INPUT, Some (fail_report ''input'' e []))"

definition verify_main :: "verify_ext \<Rightarrow> rstr list \<Rightarrow> nat \<times> json option" where
  "verify_main V raw = (case parse_args V raw of
      Inl e \<Rightarrow> input_error e
    | Inr a \<Rightarrow> (case verify_run V a of
          Inl e \<Rightarrow> input_error e
        | Inr (Failed e warnings) \<Rightarrow> (EXIT_FAIL, Some (fail_report ''verification'' e warnings))
        | Inr (Passed v warnings) \<Rightarrow> (EXIT_PASS, Some (pass_report V v warnings))
        | Inr Panicked \<Rightarrow> (EXIT_PANIC, None)))"

section \<open>What a pass means\<close>

text \<open>A run that reached a verdict: the files its arguments name were read as these.\<close>

definition inputs_read :: "verify_ext \<Rightarrow> rstr list \<Rightarrow> verify_args \<Rightarrow> request \<Rightarrow> rstr list \<Rightarrow> pinned_key list \<Rightarrow> decision \<Rightarrow> bool" where
  "inputs_read V raw a q warnings keys d \<longleftrightarrow> parse_args V raw = Inr a \<and>
     load_request V (or_empty (va_request a)) = Inr (q, warnings) \<and> load_keys V (or_empty (va_keys a)) = Inr keys \<and>
     load_decision V (or_empty (va_decision a)) (va_expect_user a) = Inr (FoundDecision d)"

lemma judge_Passed: "judge V a ri ws = Passed v out \<longleftrightarrow> verify_decision_receipt (vy_ext V) ri = Inr v \<and>
    (\<forall>u. va_expect_user a = Some u \<longrightarrow> vr_user_id v = u) \<and> (\<forall>p. va_expect_option a = Some p \<longrightarrow> vr_option_id v = p) \<and>
    out = ws @ map (receipt_warning_text V) (vr_warnings v)"
  by (auto simp: judge_def unexpected_def split: sum.splits option.splits if_splits)

lemma verify_run_verdict:
  assumes "inputs_read V raw a q ws keys d"
  shows "verify_run V a = Inr (if (case va_max_clock_skew a of Some n \<Rightarrow> MAX_DURATION_SECONDS < n | None \<Rightarrow> False) then Panicked
    else judge V a (receipt_input_of V a q d keys) ws)"
  using assms by (simp add: inputs_read_def verify_run_def)

lemma passed_inputs:
  assumes "parse_args V raw = Inr a" and "verify_run V a = Inr (Passed v out)"
  shows "\<exists>q ws keys d. inputs_read V raw a q ws keys d"
proof -
  from assms(2) obtain q ws keys src where r: "load_request V (or_empty (va_request a)) = Inr (q, ws)"
    "load_keys V (or_empty (va_keys a)) = Inr keys" "load_decision V (or_empty (va_decision a)) (va_expect_user a) = Inr src"
    and p: "(case src of NotRecorded reason \<Rightarrow> Failed reason ws
       | FoundDecision d \<Rightarrow>
           if (case va_max_clock_skew a of Some n \<Rightarrow> MAX_DURATION_SECONDS < n | None \<Rightarrow> False) then Panicked
           else judge V a (receipt_input_of V a q d keys) ws) = Passed v out"
    by (auto simp: verify_run_def bind_res_Inr_iff)
  from p obtain d where "src = FoundDecision d" by (cases src) simp_all
  with r assms(1) show ?thesis by (auto simp: inputs_read_def)
qed

lemma verify_run_Passed:
  "parse_args V raw = Inr a \<and> verify_run V a = Inr (Passed v out) \<longleftrightarrow>
   (\<exists>q ws keys d. inputs_read V raw a q ws keys d \<and> (\<forall>n. va_max_clock_skew a = Some n \<longrightarrow> n \<le> MAX_DURATION_SECONDS) \<and>
     judge V a (receipt_input_of V a q d keys) ws = Passed v out)"
  (is "?l \<longleftrightarrow> ?r")
proof
  assume l: ?l
  with passed_inputs obtain q ws keys d where i: "inputs_read V raw a q ws keys d" by blast
  with l verify_run_verdict [OF i] show ?r
    by (intro exI [of _ q] exI [of _ ws] exI [of _ keys] exI [of _ d]) (auto split: if_splits option.splits)
next
  assume ?r
  then obtain q ws keys d where i: "inputs_read V raw a q ws keys d"
    and n: "\<forall>n. va_max_clock_skew a = Some n \<longrightarrow> n \<le> MAX_DURATION_SECONDS"
    and j: "judge V a (receipt_input_of V a q d keys) ws = Passed v out" by blast
  from n have "\<not> (case va_max_clock_skew a of Some n \<Rightarrow> MAX_DURATION_SECONDS < n | None \<Rightarrow> False)" by (auto split: option.split)
  with verify_run_verdict [OF i] j i show ?l by (simp add: inputs_read_def)
qed

lemma exit_zero: "fst (verify_main V raw) = 0 \<longleftrightarrow>
    (\<exists>a v out. parse_args V raw = Inr a \<and> verify_run V a = Inr (Passed v out) \<and> snd (verify_main V raw) = Some (pass_report V v out))"
  by (auto simp: verify_main_def input_error_def EXIT_INPUT_def EXIT_PASS_def EXIT_FAIL_def EXIT_PANIC_def
      split: sum.split verify_outcome.split)

text \<open>
  Exit 0 is a verified receipt. The program exits with 0 exactly when its arguments are complete, its three files
  are read as a request, pinned keys and a decision, the library verifies the receipt for them, and the
  verified user and option are the expected ones, where any are; the report names what was verified.
\<close>

lemma exit_zero_iff_verified:
  "fst (verify_main V raw) = 0 \<longleftrightarrow> (\<exists>a q ws keys d v. inputs_read V raw a q ws keys d \<and>
     (\<forall>n. va_max_clock_skew a = Some n \<longrightarrow> n \<le> MAX_DURATION_SECONDS) \<and>
     verify_decision_receipt (vy_ext V) (receipt_input_of V a q d keys) = Inr v \<and>
     (\<forall>u. va_expect_user a = Some u \<longrightarrow> vr_user_id v = u) \<and> (\<forall>p. va_expect_option a = Some p \<longrightarrow> vr_option_id v = p) \<and>
     snd (verify_main V raw) = Some (pass_report V v (ws @ map (receipt_warning_text V) (vr_warnings v))))"
  (is "_ \<longleftrightarrow> ?r")
proof
  assume "fst (verify_main V raw) = 0"
  then obtain a v out where "parse_args V raw = Inr a \<and> verify_run V a = Inr (Passed v out)"
    "snd (verify_main V raw) = Some (pass_report V v out)" by (auto simp: exit_zero)
  then show ?r unfolding verify_run_Passed judge_Passed by blast
next
  assume ?r
  then obtain a v out where "parse_args V raw = Inr a \<and> verify_run V a = Inr (Passed v out)"
    "snd (verify_main V raw) = Some (pass_report V v out)"
    unfolding verify_run_Passed judge_Passed by blast
  then show "fst (verify_main V raw) = 0" by (auto simp: exit_zero)
qed


text \<open>Concrete files: each is the name it is read under.\<close>

definition verify_demo :: verify_ext where
  "verify_demo = \<lparr>vy_ext = sample_ext, vy_read = Inr,
     vy_json = (\<lambda>t. if t = [107] then Inr (JObj [(lit ''keys'', JArr [JObj [text_member ''user_id'' (lit ''owner''),
         text_member ''device_id'' (lit ''dev''), text_member ''key_id'' (lit ''k''),
         text_member ''public_key'' (4 # replicate 64 0)]])])
       else if t = [100] then Inr (JObj [text_member ''option_id'' [], text_member ''signature'' []])
       else Inr (JObj [])),
     vy_request = (\<lambda>_. Inr sample_card), vy_decision = (\<lambda>_. Inr (ri_decision sample_receipt)),
     vy_user_decisions = (\<lambda>_. Inr []), vy_shape = (\<lambda>_. []), vy_int_error = (\<lambda>_. []), vy_time_error = (\<lambda>_. []),
     vy_debug = (\<lambda>s. s), vy_duration = (\<lambda>_. []), vy_time = (\<lambda>_. []), vy_clock = 0\<rparr>"

definition verify_demo_args :: "rstr list" where
  "verify_demo_args = [lit ''--request'', [114], lit ''--decision'', [100], lit ''--keys'', [107], lit ''--strict-time'',
     lit ''--expect-option'', lit ''dismiss'']"

lemma verify_demo_read:
  "\<exists>a. inputs_read verify_demo verify_demo_args a sample_card [] [sample_pin] (ri_decision sample_receipt) \<and>
     receipt_input_of verify_demo a sample_card (ri_decision sample_receipt) [sample_pin] = sample_receipt \<and>
     va_expect_user a = None \<and> va_expect_option a = Some (lit ''dismiss'') \<and> va_max_clock_skew a = None"
proof -
  let ?a = "default_args\<lparr>va_request := Some [114], va_decision := Some [100], va_keys := Some [107], va_strict_time := True,
     va_expect_option := Some (lit ''dismiss'')\<rparr>"
  have args: "parse_args verify_demo verify_demo_args = Inr ?a"
    by (simp add: parse_args_def verify_demo_args_def value_flags_def set_flag_def default_args_def lit_eq_iff)
  have pin: "key_entry_of_json (JObj [text_member ''user_id'' (lit ''owner''), text_member ''device_id'' (lit ''dev''),
      text_member ''key_id'' (lit ''k''), text_member ''public_key'' (4 # replicate 64 0)]) = Some sample_pin"
    by (simp add: key_entry_of_json_def struct_fields_def key_entry_fields_def text_member_def json_text_def json_optional_text_def
        sample_pin_def lit_eq_iff)
  have "checked_key verify_demo sample_pin = Inr sample_pin"
    using sample_pin_decode
    by (simp add: checked_key_def validate_public_key_def verify_demo_def sample_pin_def trim_eqI lit_def is_whitespace_def)
  then have keys: "load_keys verify_demo [107] = Inr [sample_pin]"
    using pin by (simp add: load_keys_def read_json_def keys_file_of_json_def struct_fields_def verify_demo_def lit_eq_iff)
  have q: "load_request verify_demo [114] = Inr (sample_card, [])"
    by (simp add: load_request_def read_json_def json_get_def verify_demo_def sample_card_def)
  have d: "load_decision verify_demo [100] None = Inr (FoundDecision (ri_decision sample_receipt))"
    by (simp add: load_decision_def read_json_def json_get_def verify_demo_def text_member_def lit_eq_iff)
  show ?thesis
    using args keys q d
    by (intro exI [of _ ?a]) (simp add: inputs_read_def default_args_def receipt_input_of_def sample_receipt_def verify_demo_def or_empty_def)
qed


end
