(* ===== verification/Validation.thy ===== *)
theory Validation
  imports Signing
begin

text \<open>The errors of the server and the normalisation and validation of its inputs.\<close>

section \<open>Errors\<close>

text \<open>
  \<open>ApiError\<close> of the server (nod-server/src/error.rs), the HTTP status and the error code each
  variant is answered with, and the conversions from the two library errors.
\<close>

datatype api_error =
    ClientUpdateRequired
  | BadRequest rstr
  | Unauthorized
  | Forbidden
  | NotFound
  | Conflict rstr
  | Internal rstr

type_synonym 'a api_result = "api_error + 'a"

fun api_error_status :: "api_error \<Rightarrow> nat" where
  "api_error_status (BadRequest _) = 400"
| "api_error_status Unauthorized = 401"
| "api_error_status Forbidden = 403"
| "api_error_status NotFound = 404"
| "api_error_status (Conflict _) = 409"
| "api_error_status ClientUpdateRequired = 409"
| "api_error_status (Internal _) = 500"

fun api_error_code :: "api_error \<Rightarrow> rstr" where
  "api_error_code (BadRequest _) = lit ''bad_request''"
| "api_error_code Unauthorized = lit ''unauthorized''"
| "api_error_code Forbidden = lit ''forbidden''"
| "api_error_code NotFound = lit ''not_found''"
| "api_error_code (Conflict _) = lit ''conflict''"
| "api_error_code ClientUpdateRequired = lit ''client_update_required''"
| "api_error_code (Internal _) = lit ''internal''"

text \<open>\<open>From<sqlx::Error>\<close>: a failed statement (a violated constraint, a missing row).\<close>

definition database_error :: api_error where
  "database_error = Internal (lit ''database error'')"

text \<open>\<open>BadRequest\<close> with a fixed message, the commonest refusal.\<close>

abbreviation bad_request :: "string \<Rightarrow> api_error" where
  "bad_request m \<equiv> BadRequest (lit m)"

abbreviation conflict :: "string \<Rightarrow> api_error" where
  "conflict m \<equiv> Conflict (lit m)"

lemma api_error_status_range: "400 \<le> api_error_status e \<and> api_error_status e < 600"
  by (cases e) auto

lemma api_error_code_determines_status:
  "api_error_code e = api_error_code f \<Longrightarrow> api_error_status e = api_error_status f"
  by (cases e; cases f) auto

section \<open>Normalisation and validation\<close>

text \<open>
  Request validation of the server (nod-server db/validation.rs, and \<open>validate_options\<close> and the
  normalisation helpers of db/requests/create.rs): what an issuer may put on a card. The lemmas say
  what an accepted request satisfies, and that it meets the line conditions under which the line
  snapshot digest binds it.
\<close>

section \<open>Field checks\<close>

definition is_slug_char :: "nat \<Rightarrow> bool" where
  "is_slug_char ch \<longleftrightarrow> is_ascii_alphanumeric ch \<or> ch = 45 \<or> ch = 95 \<or> ch = 46"

definition validate_id :: "rstr \<Rightarrow> string \<Rightarrow> unit api_result" where
  "validate_id value label =
     (if value = [] \<or> strlen value > 80 \<or> \<not> list_all is_slug_char value
      then Inl (BadRequest (lit (label @ '' must be 1-80 ASCII slug characters'')))
      else Inr ())"

definition reject_control_characters :: "rstr \<Rightarrow> string \<Rightarrow> unit api_result" where
  "reject_control_characters value label =
     (if list_ex is_control value
      then Inl (BadRequest (lit (label @ '' must not contain control characters'')))
      else Inr ())"

definition validate_http_url :: "ext \<Rightarrow> rstr \<Rightarrow> string \<Rightarrow> unit api_result" where
  "validate_http_url X value label =
     bind_res (ok_or (BadRequest (lit (label @ '' must be an absolute URL''))) (x_url_parts X value))
       (\<lambda>(scheme, host).
     if \<not> (scheme = lit ''http'' \<or> scheme = lit ''https'') \<or> host = None
     then Inl (BadRequest (lit (label @ '' must use http or https'')))
     else Inr ())"

definition validate_notification_text :: "rstr option \<Rightarrow> string \<Rightarrow> nat \<Rightarrow> unit api_result" where
  "validate_notification_text value label max_chars =
     (if (case value of None \<Rightarrow> False | Some v \<Rightarrow> length (trim v) > max_chars)
      then Inl (BadRequest (lit (label @ '' is too long'')))
      else Inr ())"

definition to_ascii_lowercase :: "rstr \<Rightarrow> rstr" where
  \<comment> \<open>also SQLite's \<open>lower\<close>\<close>
  "to_ascii_lowercase s = map (\<lambda>c. if 65 \<le> c \<and> c \<le> 90 then c + 32 else c) s"

definition ends_with :: "rstr \<Rightarrow> rstr \<Rightarrow> bool" where
  "ends_with s t \<longleftrightarrow> length t \<le> length s \<and> drop (length s - length t) s = t"

definition starts_with :: "rstr \<Rightarrow> rstr \<Rightarrow> bool" where
  "starts_with s t \<longleftrightarrow> take (length t) s = t"

definition normalize_notification_sound :: "rstr \<Rightarrow> rstr api_result" where
  "normalize_notification_sound sound0 =
     (let sound = trim sound0 in
      if sound = [] then Inr (lit ''default'')
      else if sound = lit ''default'' \<or> sound = lit ''none'' \<or> sound = lit ''silent'' then Inr sound
      else if strlen sound > 80 \<or> \<not> list_all is_slug_char sound
      then Inl (bad_request ''notification_sound must be default, none, silent, or a bundled .caf/.aiff/.wav filename'')
      else
        let lowercase = to_ascii_lowercase sound in
        if \<not> (ends_with lowercase (lit ''.caf'') \<or> ends_with lowercase (lit ''.aiff'') \<or>
              ends_with lowercase (lit ''.wav''))
        then Inl (bad_request ''custom notification sound files must use .caf, .aiff, or .wav'')
        else Inr sound)"

section \<open>Options\<close>

definition one_tap :: "request_option \<Rightarrow> bool" where
  "one_tap p \<longleftrightarrow> \<not> o_destructive p \<and> \<not> o_requires_text p \<and>
     o_kind p \<notin> {ApproveWithText, RejectWithText, Open}"

definition normalize_option :: "request_option \<Rightarrow> request_option" where
  "normalize_option p =
     (if o_kind p \<in> {ApproveWithText, RejectWithText} then p\<lparr>o_requires_text := True\<rparr> else p)"

definition normalize_options :: "request_option list \<Rightarrow> request_option list" where
  "normalize_options options = map normalize_option options"

fun validate_options_from :: "rstr list \<Rightarrow> request_option list \<Rightarrow> unit api_result" where
  "validate_options_from ids [] = Inr ()"
| "validate_options_from ids (p # ps) =
     bind_res (validate_id (o_id p) ''option id'') (\<lambda>_.
     if trim (o_label p) = [] then Inl (bad_request ''option label is required'')
     else if o_id p \<in> set ids then Inl (bad_request ''option IDs must be unique'')
     else validate_options_from (o_id p # ids) ps)"

definition validate_options :: "request_option list \<Rightarrow> unit api_result" where
  "validate_options options = validate_options_from [] options"

section \<open>Requests\<close>

definition check_opt :: "('a \<Rightarrow> unit api_result) \<Rightarrow> 'a option \<Rightarrow> unit api_result" where
  "check_opt f v = (case v of None \<Rightarrow> Inr () | Some x \<Rightarrow> f x)"

fun check_all :: "('a \<Rightarrow> unit api_result) \<Rightarrow> 'a list \<Rightarrow> unit api_result" where
  "check_all f [] = Inr ()"
| "check_all f (x # xs) = bind_res (f x) (\<lambda>_. check_all f xs)"

definition validate_request :: "ext \<Rightarrow> create_request_body \<Rightarrow> unit api_result" where
  "validate_request X req =
     bind_res
       (case c_answer_field req of
          None \<Rightarrow> Inr ()
        | Some field \<Rightarrow>
            bind_res (map_err BadRequest (validate_field X field)) (\<lambda>_.
            if list_ex (\<lambda>p. o_id p = lit ''__nod_value_open'' \<or> o_kind p = Open) (c_options req) \<or>
               \<not> list_ex one_tap (c_options req)
            then Inl (bad_request ''value requests require an ordinary one-tap outcome and no Open outcome'')
            else Inr ()))
       (\<lambda>_.
     if trim (c_title req) = [] then Inl (bad_request ''request title is required'')
     else if length (c_title req) > 200 then Inl (bad_request ''request title is too long'')
     else bind_res (validate_notification_text (n_title (c_notification req)) ''notification title'' 200) (\<lambda>_.
     bind_res (validate_notification_text (n_body (c_notification req)) ''notification body'' 500) (\<lambda>_.
     bind_res (check_opt (\<lambda>u. validate_http_url X u ''callback_url'') (c_callback_url req)) (\<lambda>_.
     bind_res (check_opt (\<lambda>u. bind_res (reject_control_characters u ''image_url'')
         (\<lambda>_. validate_http_url X u ''image_url'')) (c_image_url req)) (\<lambda>_.
     bind_res (check_opt (\<lambda>k. reject_control_characters k ''dedupe_key'') (c_dedupe_key req)) (\<lambda>_.
     bind_res (check_all (\<lambda>l. validate_http_url X (cl_url l) ''links[].url'') (c_links req)) (\<lambda>_.
     validate_id (c_channel_id req) ''channel id'')))))))"

definition normalized_optional_text :: "rstr option \<Rightarrow> rstr option" where
  "normalized_optional_text value =
     (case value of None \<Rightarrow> None | Some v \<Rightarrow> if trim v = [] then None else Some (trim v))"

definition normalized_notification :: "request_notification \<Rightarrow> request_notification" where
  "normalized_notification n =
     n\<lparr>n_title := normalized_optional_text (n_title n), n_body := normalized_optional_text (n_body n)\<rparr>"

definition summary_of :: "create_request_body \<Rightarrow> rstr" where
  \<comment> \<open>a blank summary is the first line of the body, at most 160 characters\<close>
  "summary_of req =
     (if trim (c_summary req) = [] then take 160 (first_line (c_body req)) else c_summary req)"

definition request_resolution :: "create_request_body \<Rightarrow> decision_resolution" where
  "request_resolution req = (case c_resolution req of None \<Rightarrow> Shared | Some r \<Rightarrow> r)"

section \<open>What acceptance means\<close>

named_theorems validation_simps \<open>when a validator accepts\<close>

lemma validate_id_ok [validation_simps]:
  "validate_id v l = Inr () \<longleftrightarrow> v \<noteq> [] \<and> strlen v \<le> 80 \<and> list_all is_slug_char v"
  by (auto simp: validate_id_def)

lemma reject_control_ok [validation_simps]:
  "reject_control_characters v l = Inr () \<longleftrightarrow> list_all (\<lambda>c. \<not> is_control c) v"
  by (auto simp: reject_control_characters_def list_ex_iff list_all_iff)

lemma validate_http_url_ok [validation_simps]:
  "validate_http_url X v l = Inr () \<longleftrightarrow>
     (\<exists>s h. x_url_parts X v = Some (s, Some h) \<and> s \<in> {lit ''http'', lit ''https''})"
  by (auto simp: validate_http_url_def res_simps)

lemma validate_notification_text_ok [validation_simps]:
  "validate_notification_text v l m = Inr () \<longleftrightarrow> (\<forall>t. v = Some t \<longrightarrow> length (trim t) \<le> m)"
  by (auto simp: validate_notification_text_def split: option.splits)

lemma check_opt_ok [validation_simps]: "check_opt f v = Inr () \<longleftrightarrow> (\<forall>x. v = Some x \<longrightarrow> f x = Inr ())"
  by (cases v) (auto simp: check_opt_def)

lemma check_all_ok [validation_simps]: "check_all f xs = Inr () \<longleftrightarrow> (\<forall>x \<in> set xs. f x = Inr ())"
  by (induction xs) (auto simp: bind_res_Inr_iff)

lemma validate_options_from_ok:
  "validate_options_from ids ps = Inr () \<longleftrightarrow>
     (\<forall>p \<in> set ps. validate_id (o_id p) ''option id'' = Inr () \<and> trim (o_label p) \<noteq> []) \<and>
     distinct (map o_id ps) \<and> set ids \<inter> o_id ` set ps = {}"
  by (induction ids ps rule: validate_options_from.induct) (auto simp: res_simps)

lemma validate_options_ok [validation_simps]:
  "validate_options ps = Inr () \<longleftrightarrow>
     (\<forall>p \<in> set ps. validate_id (o_id p) ''option id'' = Inr () \<and> trim (o_label p) \<noteq> []) \<and>
     distinct (map o_id ps)"
  by (simp add: validate_options_def validate_options_from_ok)

lemma slug_newline_free: "list_all is_slug_char v \<Longrightarrow> 10 \<notin> set v"
  by (auto simp: list_all_iff is_slug_char_def char_class_defs)

lemma control_newline_free: "list_all (\<lambda>c. \<not> is_control c) v \<Longrightarrow> 10 \<notin> set v"
  by (auto simp: list_all_iff char_class_defs)

lemma slug_trim: "list_all is_slug_char v \<Longrightarrow> trim v = v"
proof -
  assume v: "list_all is_slug_char v"
  have "is_slug_char c \<Longrightarrow> \<not> is_whitespace c" for c
    by (auto simp: is_slug_char_def char_class_defs)
  with v show ?thesis
    by (intro trim_eqI) (auto simp: list_all_iff)
qed

lemma map_o_id_normalize_options [simp]: "map o_id (normalize_options ps) = map o_id ps"
  by (simp add: normalize_options_def normalize_option_def comp_def)

lemma normalize_options_idem [simp]: "normalize_options (normalize_options ps) = normalize_options ps"
  by (simp add: normalize_options_def normalize_option_def)

lemma normalized_notification_idem [simp]:
  "normalized_notification (normalized_notification n) = normalized_notification n"
proof -
  have "normalized_optional_text (normalized_optional_text v) = normalized_optional_text v" for v
    by (cases v) (auto simp: normalized_optional_text_def)
  then show ?thesis by (simp add: normalized_notification_def)
qed

text \<open>A request that passes validation.\<close>

lemma validate_request_ok:
  "validate_request X req = Inr () \<longleftrightarrow>
     (\<forall>f. c_answer_field req = Some f \<longrightarrow> validate_field X f = Inr () \<and>
        (\<forall>p \<in> set (c_options req). o_id p \<noteq> lit ''__nod_value_open'' \<and> o_kind p \<noteq> Open) \<and>
        (\<exists>p \<in> set (c_options req). one_tap p)) \<and>
     trim (c_title req) \<noteq> [] \<and> length (c_title req) \<le> 200 \<and>
     validate_notification_text (n_title (c_notification req)) ''notification title'' 200 = Inr () \<and>
     validate_notification_text (n_body (c_notification req)) ''notification body'' 500 = Inr () \<and>
     (\<forall>u. c_callback_url req = Some u \<longrightarrow> validate_http_url X u ''callback_url'' = Inr ()) \<and>
     (\<forall>u. c_image_url req = Some u \<longrightarrow> list_all (\<lambda>c. \<not> is_control c) u \<and>
        validate_http_url X u ''image_url'' = Inr ()) \<and>
     (\<forall>k. c_dedupe_key req = Some k \<longrightarrow> list_all (\<lambda>c. \<not> is_control c) k) \<and>
     (\<forall>l \<in> set (c_links req). validate_http_url X (cl_url l) ''links[].url'' = Inr ()) \<and>
     validate_id (c_channel_id req) ''channel id'' = Inr ()"
  by (auto simp: validate_request_def res_simps check_opt_ok check_all_ok reject_control_ok list_ex_iff
      split: option.splits)

text \<open>A normalised sound is a slug, never empty, and normalising it again changes nothing.\<close>

lemma normalize_notification_sound_result:
  "normalize_notification_sound s = Inr t \<Longrightarrow>
     t = trim s \<and> t \<noteq> [] \<and> (t \<in> {lit ''default'', lit ''none'', lit ''silent''} \<or> strlen t \<le> 80) \<or>
     t = lit ''default''"
  unfolding normalize_notification_sound_def Let_def by (simp split: if_splits; blast)

lemma normalize_notification_sound_idem:
  assumes "normalize_notification_sound s = Inr t"
  shows "t \<noteq> [] \<and> strlen t \<le> 80 \<and> normalize_notification_sound t = Inr t"
proof -
  have small: "strlen (lit ''default'') \<le> 80" "strlen (lit ''none'') \<le> 80" "strlen (lit ''silent'') \<le> 80"
    by (simp_all add: strlen_def utf8_ascii lit_def is_ascii_def)
  have default: "normalize_notification_sound (lit ''default'') = Inr (lit ''default'')"
  proof -
    have "trim (lit ''default'') = lit ''default''"
      by (rule trim_eqI) (simp add: lit_def char_class_defs)
    then show ?thesis by (simp add: normalize_notification_sound_def)
  qed
  have "normalize_notification_sound (trim s) = normalize_notification_sound s"
    by (simp add: normalize_notification_sound_def)
  with normalize_notification_sound_result [OF assms] small default assms show ?thesis by auto
qed

end
