(* ===== verification/Store.thy ===== *)
theory Store
  imports Validation
begin

text \<open>
  The database of the server: one record per table of nod-server db/schema.sql (with the columns
  db/connection.rs adds), the internal request model of models/request.rs with its projection to the wire, and the read path
  of db/requests/rows.rs and read.rs. JSON columns hold the value their text decodes to; timestamp
  columns hold milliseconds. \<open>lifecycle_events\<close> and \<open>callback_deliveries\<close> carry the queue state.
\<close>

section \<open>Rows\<close>

record channel_row =
  ch_id :: rstr
  ch_name :: rstr
  ch_emoji :: rstr
  ch_created_at :: int

record user_row =
  us_id :: rstr
  us_name :: rstr
  us_created_at :: int
  us_updated_at :: int
  us_deleted_at :: "int option"

datatype device_platform = Ios | Macos | Watchos | Windows | Linux | Unknown

fun device_platform_str :: "device_platform \<Rightarrow> rstr" where
  "device_platform_str Ios = lit ''ios''"
| "device_platform_str Macos = lit ''macos''"
| "device_platform_str Watchos = lit ''watchos''"
| "device_platform_str Windows = lit ''windows''"
| "device_platform_str Linux = lit ''linux''"
| "device_platform_str Unknown = lit ''unknown''"

definition device_platform_from :: "rstr \<Rightarrow> device_platform" where
  "device_platform_from value =
     (if value = lit ''ios'' then Ios
      else if value = lit ''macos'' then Macos
      else if value = lit ''watchos'' then Watchos
      else if value = lit ''windows'' then Windows
      else if value = lit ''linux'' then Linux
      else Unknown)"

lemma device_platform_roundtrip [simp]: "device_platform_from (device_platform_str p) = p"
  by (cases p) (simp_all add: device_platform_from_def)

record device_row =
  dv_id :: rstr
  dv_user_id :: rstr
  dv_name :: rstr
  dv_platform :: device_platform
  dv_native_app_id :: "rstr option"
  dv_token_hash :: rstr
  dv_push_provider :: "rstr option"
  dv_push_token :: "rstr option"
  dv_signing_key_id :: "rstr option"
  dv_signing_key_algorithm :: "rstr option"
  dv_signing_public_key :: "rstr option"
  dv_revoked_at :: "int option"
  dv_notification_sound :: rstr
  dv_preferences :: device_preferences
  dv_last_seen_at :: int
  dv_created_at :: int

record attestation_row =
  at_device_id :: rstr
  at_provider :: rstr
  at_status :: attestation_status
  at_key_id :: "rstr option"
  at_team_id :: "rstr option"
  at_bundle_id :: "rstr option"
  at_environment :: "rstr option"
  at_public_key :: "rstr option"
  at_counter :: "int option"
  at_receipt_hash :: "rstr option"
  at_verified_at :: "int option"
  at_failure_reason :: "rstr option"
  at_created_at :: int
  at_updated_at :: int

record issuer_row =
  it_id :: rstr
  it_name :: rstr
  it_token_hash :: rstr
  it_scopes :: "rstr list"
  it_created_at :: int
  it_revoked_at :: "int option"

record code_row =
  ec_code_hash :: rstr
  ec_user_id :: rstr
  ec_expires_at :: int
  ec_consumed_at :: "int option"
  ec_created_at :: int

record subscription_row =
  sb_user_id :: rstr
  sb_channel_id :: rstr
  sb_subscribed :: bool
  sb_updated_at :: int

record clear_row =
  uc_user_id :: rstr
  uc_channel_id :: rstr
  uc_cleared_at :: int

record request_row =
  rq_id :: rstr
  rq_channel_id :: rstr
  rq_title :: rstr
  rq_summary :: rstr
  rq_body :: rstr
  rq_fields :: "card_field list"
  rq_links :: "card_link list"
  rq_image_url :: "rstr option"
  rq_notification :: request_notification
  rq_dedupe_key :: "rstr option"
  rq_expires_at :: "int option"
  rq_status :: request_status
  rq_created_at :: int
  rq_updated_at :: int
  rq_resolved_at :: "int option"
  rq_decision :: "decision option"
  rq_callback_url :: "rstr option"
  rq_resolution :: decision_resolution
  rq_recipient_salt :: rstr
  rq_explicit_recipients :: bool
  rq_revision :: int
  rq_created_by :: "rstr option"
  rq_answer_field :: "answer_field option"

record option_row =
  ro_request_id :: rstr
  ro_option :: request_option

record recipient_row =
  rr_request_id :: rstr
  rr_user_id :: rstr

record user_decision_row =
  rd_request_id :: rstr
  rd_user_id :: rstr
  rd_decision :: decision
  rd_resolved_at :: int

record nonce_row =
  dn_device_id :: rstr
  dn_key_id :: rstr
  dn_nonce :: rstr

record push_row =
  pd_request_id :: rstr
  pd_device_id :: rstr
  pd_status :: rstr
  pd_attempts :: int
  pd_lease_until :: "int option"
  pd_claim_generation :: int
  pd_updated_at :: int
  pd_error :: "rstr option"

record idempotency_row =
  ik_scope :: rstr
  ik_channel_id :: rstr
  ik_key :: rstr
  ik_fingerprint :: rstr
  ik_request_id :: rstr

record origin =
  og_session :: rstr
  og_directory :: rstr
  og_reference :: "rstr option"

record origin_row =
  or_request_id :: rstr
  or_origin :: origin

text \<open>The private detail of a journal entry, the values of the JSON object the code stores.\<close>

record event_detail =
  ed_envelope :: json
  ed_channel_id :: rstr
  ed_created_by :: "rstr option"
  ed_origin :: "origin option"
  ed_decision :: "decision option"

record event_row =
  ev_seq :: int
  ev_event_id :: rstr
  ev_request_id :: rstr
  ev_channel_id :: rstr
  ev_revision :: int
  ev_kind :: rstr
  ev_occurred_at :: int
  ev_subject :: rstr
  ev_envelope :: json
  ev_detail :: event_detail
  ev_published_at :: "int option"
  ev_stream_seq :: "int option"
  ev_attempts :: int
  ev_next_attempt_at :: int
  ev_lease_token :: "rstr option"
  ev_lease_until :: "int option"
  ev_last_error :: "rstr option"

record callback_payload =
  cp_request_id :: rstr
  cp_channel_id :: rstr
  cp_status :: request_status
  cp_decision :: "decision option"
  cp_decisions :: "user_decision list"
  cp_resolution :: decision_resolution

record callback_row =
  cb_delivery_id :: rstr
  cb_event_id :: rstr
  cb_request_id :: rstr
  cb_request_revision :: int
  cb_url :: rstr
  cb_payload :: callback_payload
  cb_state :: rstr
  cb_attempts :: int
  cb_next_attempt_at :: int
  cb_lease_token :: "rstr option"
  cb_lease_until :: "int option"
  cb_delivered_at :: "int option"
  cb_last_status :: "int option"
  cb_last_error :: "rstr option"
  cb_updated_at :: int

record db =
  t_node_id :: "rstr option" \<comment> \<open>integration_meta, key node_id\<close>
  t_channels :: "channel_row list"
  t_users :: "user_row list"
  t_devices :: "device_row list"
  t_attestations :: "attestation_row list"
  t_issuers :: "issuer_row list"
  t_codes :: "code_row list"
  t_subscriptions :: "subscription_row list"
  t_clears :: "clear_row list"
  t_requests :: "request_row list"
  t_options :: "option_row list"
  t_recipients :: "recipient_row list"
  t_decisions :: "user_decision_row list"
  t_nonces :: "nonce_row list"
  t_push :: "push_row list"
  t_idempotency :: "idempotency_row list"
  t_origins :: "origin_row list"
  t_events :: "event_row list"
  t_callbacks :: "callback_row list"
  t_event_seq :: int \<comment> \<open>sqlite_sequence of the AUTOINCREMENT column\<close>

text \<open>
  What one operation reads from outside the database: the clock, in the order of its readings,
  the identifiers \<open>new_id\<close> returns, the random salt, the random part of a generated token, and the
  symbols \<open>gen_range\<close> picks for an enrollment code.
\<close>

record env =
  e_now :: "nat \<Rightarrow> instant"
  e_id :: "nat \<Rightarrow> rstr"
  e_salt :: rstr
  e_token :: rstr
  e_pick :: "nat \<Rightarrow> nat"

definition now_string :: "instant \<Rightarrow> int" where
  "now_string t = millis t"

section \<open>The internal request model\<close>

record decision_request =
  r_answer_field :: "answer_field option"
  r_id :: rstr
  r_channel_id :: rstr
  r_recipients :: "rstr list"
  r_resolution :: decision_resolution
  r_title :: rstr
  r_summary :: rstr
  r_body :: rstr
  r_fields :: "card_field list"
  r_links :: "card_link list"
  r_image_url :: "rstr option"
  r_notification :: request_notification
  r_dedupe_key :: "rstr option"
  r_expires_at :: "instant option"
  r_status :: request_status
  r_created_at :: instant
  r_updated_at :: instant
  r_resolved_at :: "instant option"
  r_decision :: "decision option"
  r_user_decisions :: "user_decision list"
  r_callback_url :: "rstr option"
  r_options :: "request_option list"
  r_private_recipients :: bool
  r_signing :: "signing_context option"

definition wire_of :: "decision_request \<Rightarrow> request" where
  "wire_of r = \<lparr>q_answer_field = r_answer_field r, q_id = r_id r, q_request_id = r_id r,
     q_channel_id = r_channel_id r, q_recipients = r_recipients r, q_resolution = r_resolution r,
     q_title = r_title r, q_summary = r_summary r, q_body = r_body r, q_fields = r_fields r,
     q_links = r_links r, q_image_url = r_image_url r, q_notification = r_notification r,
     q_dedupe_key = r_dedupe_key r, q_expires_at = r_expires_at r, q_status = r_status r,
     q_created_at = r_created_at r, q_updated_at = r_updated_at r, q_resolved_at = r_resolved_at r,
     q_decision = r_decision r, q_decisions = r_user_decisions r, q_callback_url = r_callback_url r,
     q_options = r_options r, q_request_digest = None, q_signing = r_signing r\<rparr>"

definition res_ok :: "'e + 'a \<Rightarrow> 'a option" where
  "res_ok m = (case m of Inl _ \<Rightarrow> None | Inr x \<Rightarrow> Some x)"

definition to_wire :: "ext \<Rightarrow> decision_request \<Rightarrow> request" where
  "to_wire X r =
     (let wire = wire_of r in
      if \<not> r_private_recipients r \<and> r_answer_field r = None
      then wire\<lparr>q_request_digest := res_ok (request_digest_legacy_line_snapshot X wire)\<rparr>
      else wire)"

section \<open>Reading a request\<close>

record related_rows =
  rl_recipients :: "rstr list"
  rl_decisions :: "user_decision list"
  rl_options :: "request_option list"

definition recipients_of :: "db \<Rightarrow> rstr \<Rightarrow> rstr list" where
  "recipients_of s rid = map rr_user_id (filter (\<lambda>w. rr_request_id w = rid) (t_recipients s))"

definition decisions_of :: "db \<Rightarrow> rstr \<Rightarrow> user_decision list" where
  \<comment> \<open>\<open>ORDER BY resolved_at,user_id\<close>; byte order of UTF-8 is code point order\<close>
  "decisions_of s rid =
     map (\<lambda>d. \<lparr>ud_user_id = rd_user_id d, ud_decision = rd_decision d\<rparr>)
       (sort_key rd_resolved_at (sort_key rd_user_id
         (filter (\<lambda>d. rd_request_id d = rid) (t_decisions s))))"

definition options_of :: "db \<Rightarrow> rstr \<Rightarrow> request_option list" where
  "options_of s rid = map ro_option (filter (\<lambda>w. ro_request_id w = rid) (t_options s))"

definition related :: "db \<Rightarrow> rstr \<Rightarrow> related_rows" where
  "related s rid = \<lparr>rl_recipients = recipients_of s rid, rl_decisions = decisions_of s rid,
     rl_options = options_of s rid\<rparr>"

definition unsigned_request :: "request_row \<Rightarrow> related_rows \<Rightarrow> decision_request" where
  "unsigned_request w rl = \<lparr>r_answer_field = rq_answer_field w, r_id = rq_id w,
     r_channel_id = rq_channel_id w, r_recipients = rl_recipients rl, r_resolution = rq_resolution w,
     r_title = rq_title w, r_summary = rq_summary w, r_body = rq_body w, r_fields = rq_fields w,
     r_links = rq_links w, r_image_url = rq_image_url w, r_notification = rq_notification w,
     r_dedupe_key = rq_dedupe_key w, r_expires_at = map_option of_millis (rq_expires_at w),
     r_status = rq_status w, r_created_at = of_millis (rq_created_at w),
     r_updated_at = of_millis (rq_updated_at w),
     r_resolved_at = map_option of_millis (rq_resolved_at w), r_decision = rq_decision w,
     r_user_decisions = rl_decisions rl, r_callback_url = rq_callback_url w,
     r_options = rl_options rl, r_private_recipients = False, r_signing = None\<rparr>"

definition request_from_rows ::
  "ext \<Rightarrow> request_row \<Rightarrow> related_rows \<Rightarrow> decision_request api_result" where
  "request_from_rows X w rl =
     bind_res (map_err (\<lambda>e. Internal (signing_error_text e))
       (recipients_commitment X (rl_recipients rl) (rq_recipient_salt w))) (\<lambda>commitment.
     let request = unsigned_request w rl;
         (version, digest) = (case r_answer_field request of
            Some field \<Rightarrow> (VALUE_REQUEST_DIGEST_VERSION,
              value_request_digest X (to_wire X request) commitment field)
          | None \<Rightarrow> (REQUEST_DIGEST_VERSION, request_digest_v1 X (to_wire X request) commitment))
     in bind_res (map_err (\<lambda>e. Internal (signing_error_text e)) digest) (\<lambda>d.
     Inr (request\<lparr>r_signing := Some \<lparr>sc_version = version, sc_commitment = commitment,
       sc_digest = d\<rparr>\<rparr>)))"

definition rows_to_requests :: "ext \<Rightarrow> db \<Rightarrow> request_row list \<Rightarrow> decision_request list api_result" where
  "rows_to_requests X s rows = map_res (\<lambda>w. request_from_rows X w (related s (rq_id w))) rows"

definition row_to_request :: "ext \<Rightarrow> db \<Rightarrow> request_row \<Rightarrow> decision_request api_result" where
  "row_to_request X s w =
     bind_res (rows_to_requests X s [w]) (\<lambda>rs. case rs of [] \<Rightarrow> Inl NotFound | r # _ \<Rightarrow> Inr r)"

definition find_request :: "db \<Rightarrow> rstr \<Rightarrow> request_row option" where
  "find_request s rid = List.find (\<lambda>w. rq_id w = rid) (t_requests s)"

definition get_request_on :: "ext \<Rightarrow> db \<Rightarrow> rstr \<Rightarrow> decision_request api_result" where
  "get_request_on X s rid = bind_res (ok_or NotFound (find_request s rid)) (row_to_request X s)"


section \<open>Lookups shared by the operations\<close>

definition get_user :: "db \<Rightarrow> rstr \<Rightarrow> user_row api_result" where
  "get_user s uid =
     ok_or NotFound (List.find (\<lambda>u. us_id u = uid \<and> us_deleted_at u = None) (t_users s))"

definition get_channel :: "db \<Rightarrow> rstr \<Rightarrow> channel_row api_result" where
  "get_channel s cid = ok_or NotFound (List.find (\<lambda>c. ch_id c = cid) (t_channels s))"

definition get_device :: "db \<Rightarrow> rstr \<Rightarrow> device_row api_result" where
  "get_device s did =
     ok_or NotFound (List.find (\<lambda>d. dv_id d = did \<and> dv_revoked_at d = None) (t_devices s))"

lemma get_user_ok: "get_user s uid = Inr u \<Longrightarrow> u \<in> set (t_users s) \<and> us_id u = uid \<and> us_deleted_at u = None"
  by (auto simp: get_user_def dest: find_SomeD)

lemma get_device_ok:
  "get_device s did = Inr d \<Longrightarrow> d \<in> set (t_devices s) \<and> dv_id d = did \<and> dv_revoked_at d = None"
  by (auto simp: get_device_def dest: find_SomeD)

section \<open>Facts about the read path\<close>

lemma get_request_on_eq:
  "get_request_on X s rid = bind_res (ok_or NotFound (find_request s rid))
     (\<lambda>w. request_from_rows X w (related s (rq_id w)))"
proof -
  have "row_to_request X s w = request_from_rows X w (related s (rq_id w))" for w
    by (cases "request_from_rows X w (related s (rq_id w))")
      (simp_all add: row_to_request_def rows_to_requests_def)
  then have "row_to_request X s = (\<lambda>w. request_from_rows X w (related s (rq_id w)))" by (rule ext)
  then show ?thesis by (simp add: get_request_on_def)
qed

lemma request_from_rows_ok:
  "request_from_rows X w rl = Inr r \<Longrightarrow>
     \<exists>sig. r = (unsigned_request w rl)\<lparr>r_signing := Some sig\<rparr> \<and>
       recipients_commitment X (rl_recipients rl) (rq_recipient_salt w) = Inr (sc_commitment sig)"
  by (cases "r_answer_field (unsigned_request w rl)")
    (auto simp: request_from_rows_def bind_res_Inr_iff Let_def)

lemma find_request_id: "find_request s rid = Some w \<Longrightarrow> w \<in> set (t_requests s) \<and> rq_id w = rid"
  unfolding find_request_def by (auto dest: find_SomeD)

text \<open>What a successful read returns.\<close>

lemma get_request_on_ok:
  assumes "get_request_on X s rid = Inr r"
  shows "\<exists>w sig. find_request s rid = Some w \<and>
    r = (unsigned_request w (related s rid))\<lparr>r_signing := Some sig\<rparr> \<and>
    recipients_commitment X (recipients_of s rid) (rq_recipient_salt w) = Inr (sc_commitment sig)"
proof -
  from assms obtain w where w: "find_request s rid = Some w"
    "request_from_rows X w (related s (rq_id w)) = Inr r"
    by (auto simp: get_request_on_eq bind_res_Inr_iff)
  with find_request_id [OF w(1)] request_from_rows_ok [OF w(2)] show ?thesis
    by (auto simp: related_def)
qed

text \<open>The columns of the row behind a request that was read.\<close>

lemma get_request_on_columns:
  assumes "get_request_on X s rid = Inr r"
  shows "\<exists>w. find_request s rid = Some w \<and> r_id r = rid \<and> r_status r = rq_status w \<and>
    r_resolution r = rq_resolution w \<and> r_channel_id r = rq_channel_id w \<and>
    r_expires_at r = map_option of_millis (rq_expires_at w) \<and> r_callback_url r = rq_callback_url w \<and>
    r_decision r = rq_decision w \<and> r_answer_field r = rq_answer_field w \<and>
    r_recipients r = recipients_of s rid \<and> r_user_decisions r = decisions_of s rid \<and>
    r_options r = options_of s rid \<and> \<not> r_private_recipients r"
  using get_request_on_ok [OF assms] find_request_id
  by (fastforce simp: unsigned_request_def related_def)

end
