(* ===== verification/Lease_Queue.thy ===== *)
theory Lease_Queue
  imports Prelude
begin

text \<open>
  The contract shared by the three delivery queues of the server (lifecycle publisher, issuer
  callbacks, push notifications): a worker claims a job and receives a token and a lease; it may
  settle the job (complete it, or give it back for a retry) only with that token and before the
  lease ends. The locale states what a queue must provide and derives the fencing facts once.
\<close>

locale lease_queue =
  fixes wf :: "'s \<Rightarrow> bool"
    and holder :: "'s \<Rightarrow> 'k \<Rightarrow> ('t \<times> int) option"
    and closed :: "'s \<Rightarrow> 'k \<Rightarrow> bool"
    and claims :: "'s \<Rightarrow> int \<Rightarrow> 's \<Rightarrow> 'k \<Rightarrow> 't \<Rightarrow> bool"
    and settle :: "'s \<Rightarrow> 'k \<Rightarrow> 't \<Rightarrow> int \<Rightarrow> 's \<Rightarrow> bool"
  assumes wf_claim: "wf s \<Longrightarrow> claims s now s' k t \<Longrightarrow> wf s'"
    and wf_settle: "wf s \<Longrightarrow> settle s k t now s' \<Longrightarrow> wf s'"
    and claim_free: "wf s \<Longrightarrow> claims s now s' k t \<Longrightarrow>
      (\<forall>t' u. holder s k = Some (t', u) \<longrightarrow> u \<le> now) \<and> \<not> closed s k"
    and claim_holds: "wf s \<Longrightarrow> claims s now s' k t \<Longrightarrow> \<exists>u. holder s' k = Some (t, u)"
    and settle_owner: "wf s \<Longrightarrow> settle s k t now s' \<Longrightarrow>
      \<exists>u. holder s k = Some (t, u) \<and> now < u \<and> \<not> closed s k"
    and settle_releases: "wf s \<Longrightarrow> settle s k t now s' \<Longrightarrow> holder s' k = None"
    and settle_frame: "wf s \<Longrightarrow> settle s k t now s' \<Longrightarrow> k' \<noteq> k \<Longrightarrow>
      holder s' k' = holder s k' \<and> closed s' k' = closed s k'"
begin

text \<open>A worker whose job was claimed again under another token cannot settle it any more.\<close>

lemma fenced: "wf s \<Longrightarrow> claims s now s' k t \<Longrightarrow> t' \<noteq> t \<Longrightarrow> \<not> settle s' k t' later s''"
  using claim_holds [of s now s' k t] settle_owner [of s' k t' later s''] wf_claim by fastforce

text \<open>While a lease runs, the job is not handed out again.\<close>

lemma exclusive:
  "wf s \<Longrightarrow> holder s k = Some (t, u) \<Longrightarrow> now < u \<Longrightarrow> \<not> claims s now s' k t'"
  using claim_free [of s now s' k t'] by force

text \<open>A settled job is not settled twice.\<close>

lemma settle_once: "wf s \<Longrightarrow> settle s k t now s' \<Longrightarrow> \<not> settle s' k t' later s''"
  using settle_releases [of s k t now s'] settle_owner [of s' k t' later s''] wf_settle by fastforce

text \<open>An expired lease cannot be used.\<close>

lemma expired_lease: "wf s \<Longrightarrow> holder s k = Some (t, u) \<Longrightarrow> u \<le> now \<Longrightarrow> \<not> settle s k t now s'"
  using settle_owner [of s k t now s'] by force

end

text \<open>A queue whose settlement is final: the job is closed and never handed out again.\<close>

locale closing_queue = lease_queue wf holder closed claims settle
  for wf :: "'s \<Rightarrow> bool" and holder :: "'s \<Rightarrow> 'k \<Rightarrow> ('t \<times> int) option"
    and closed and claims and settle +
  assumes settle_closes: "wf s \<Longrightarrow> settle s k t now s' \<Longrightarrow> closed s' k"
begin

lemma closed_for_good: "wf s \<Longrightarrow> settle s k t now s' \<Longrightarrow> \<not> claims s' later s'' k t'"
  using settle_closes [of s k t now s'] claim_free [of s' later s'' k t'] wf_settle by blast

end

end
