(* ===== verification/Lifecycle.thy ===== *)
theory Lifecycle
  imports Store Lease_Queue
begin

text \<open>
  The transactional journal of nod-server db/lifecycle.rs with the views it stores (views.rs):
  every change of a request appends one event with the next revision of that request, and an
  accepted answer also queues the issuer's callback. The publisher side claims due events under a
  lease; it provides the lease queue interface.
\<close>

section \<open>Views\<close>

definition pending_recipients :: "decision_request \<Rightarrow> rstr list" where
  "pending_recipients r =
     (if r_resolution r \<noteq> PerUser \<or> r_status r \<noteq> Pending then []
      else filter (\<lambda>u. \<not> list_ex (\<lambda>d. ud_user_id d = u) (r_user_decisions r)) (r_recipients r))"

record request_decision_view =
  vw_request_id :: rstr
  vw_status :: request_status
  vw_decision :: "decision option"
  vw_decisions :: "user_decision list"
  vw_resolution :: decision_resolution
  vw_recipients :: "rstr list"
  vw_pending_recipients :: "rstr list"
  vw_request_digest :: "rstr option"
  vw_timed_out :: "bool option"

definition request_decision_view_of :: "ext \<Rightarrow> decision_request \<Rightarrow> request_decision_view" where
  "request_decision_view_of X r = \<lparr>vw_request_id = r_id r, vw_status = r_status r,
     vw_decision = r_decision r, vw_decisions = r_user_decisions r, vw_resolution = r_resolution r,
     vw_recipients = r_recipients r, vw_pending_recipients = pending_recipients r,
     vw_request_digest = q_request_digest (to_wire X r), vw_timed_out = None\<rparr>"

definition mark_timed_out :: "request_decision_view \<Rightarrow> request_decision_view" where
  "mark_timed_out v = v\<lparr>vw_timed_out := Some True\<rparr>"

definition callback_payload_of :: "ext \<Rightarrow> decision_request \<Rightarrow> callback_payload" where
  "callback_payload_of X r =
     (let v = request_decision_view_of X r in
      \<lparr>cp_request_id = vw_request_id v, cp_channel_id = r_channel_id r, cp_status = vw_status v,
       cp_decision = vw_decision v, cp_decisions = vw_decisions v, cp_resolution = vw_resolution v\<rparr>)"

section \<open>Origins\<close>

definition origin_text_ok :: "rstr \<Rightarrow> nat \<Rightarrow> bool" where
  "origin_text_ok s limit \<longleftrightarrow> s \<noteq> [] \<and> strlen s \<le> limit \<and> \<not> list_ex is_control s"

definition origin_validate :: "origin \<Rightarrow> unit api_result" where
  "origin_validate g =
     (if \<not> origin_text_ok (og_session g) 256 \<or> \<not> starts_with (og_session g) (lit ''ses_'') \<or>
         strlen (og_session g) \<le> 4 \<or> \<not> origin_text_ok (og_directory g) 4096 \<or>
         \<not> starts_with (og_directory g) (lit ''/'') \<or>
         (case og_reference g of None \<Rightarrow> False | Some r \<Rightarrow> \<not> origin_text_ok r 512)
      then Inl (bad_request ''invalid integration origin'')
      else Inr ())"

definition origin_on :: "db \<Rightarrow> rstr \<Rightarrow> origin option" where
  "origin_on s rid = map_option or_origin (List.find (\<lambda>w. or_request_id w = rid) (t_origins s))"

section \<open>Appending\<close>

definition KIND_CREATED :: rstr where "KIND_CREATED = lit ''nod.request.created''"
definition KIND_ANSWER :: rstr where "KIND_ANSWER = lit ''nod.answer.recorded''"
definition KIND_CANCELLED :: rstr where "KIND_CANCELLED = lit ''nod.request.cancelled''"
definition KIND_EXPIRED :: rstr where "KIND_EXPIRED = lit ''nod.request.expired''"

lemmas kind_defs = KIND_CREATED_def KIND_ANSWER_def KIND_CANCELLED_def KIND_EXPIRED_def

definition insert_event :: "db \<Rightarrow> event_row \<Rightarrow> db api_result" where
  \<comment> \<open>\<open>event_id\<close> is unique, \<open>(request_id,revision)\<close> is unique, and revisions are positive\<close>
  "insert_event s e =
     (if list_ex (\<lambda>w. ev_event_id w = ev_event_id e \<or>
           ev_request_id w = ev_request_id e \<and> ev_revision w = ev_revision e) (t_events s) \<or>
         ev_revision e \<le> 0
      then Inl database_error
      else Inr (s\<lparr>t_events := t_events s @ [e\<lparr>ev_seq := t_event_seq s + 1\<rparr>],
                  t_event_seq := t_event_seq s + 1\<rparr>))"

definition insert_callback :: "db \<Rightarrow> callback_row \<Rightarrow> db api_result" where
  "insert_callback s c =
     (if list_ex (\<lambda>w. cb_delivery_id w = cb_delivery_id c \<or> cb_event_id w = cb_event_id c) (t_callbacks s)
      then Inl database_error
      else Inr (s\<lparr>t_callbacks := t_callbacks s @ [c]\<rparr>))"

definition bump_revision :: "db \<Rightarrow> rstr \<Rightarrow> db" where
  "bump_revision s rid = s\<lparr>t_requests := sql_update (\<lambda>w. rq_id w = rid)
     (\<lambda>w. w\<lparr>rq_revision := rq_revision w + 1\<rparr>) (t_requests s)\<rparr>"

definition event_envelope ::
  "ext \<Rightarrow> rstr \<Rightarrow> decision_request \<Rightarrow> rstr \<Rightarrow> int \<Rightarrow> bool \<Rightarrow> rstr \<Rightarrow> instant \<Rightarrow> json" where
  "event_envelope X node r kind revision answered event_id now =
     (let data = [(lit ''schema_version'', JNum 1), (lit ''request_id'', JStr (r_id r)),
            (lit ''revision'', JNum revision),
            (lit ''aggregate_status'', JStr (request_status_str (r_status r))),
            (lit ''decision_resolution'', JStr (decision_resolution_str (r_resolution r)))] @
          (if answered then [(lit ''decision_id'', JStr event_id)] else [])
      in jsort (JObj [(lit ''specversion'', JStr (lit ''1.0'')), (lit ''id'', JStr event_id),
        (lit ''source'', JStr (lit ''nod/'' @ node)), (lit ''type'', JStr kind),
        (lit ''subject'', JStr (r_id r)), (lit ''time'', JStr (x_fmt_millis X now)),
        (lit ''datacontenttype'', JStr (lit ''application/json'')), (lit ''data'', JObj data)]))"

definition new_event ::
  "ext \<Rightarrow> db \<Rightarrow> rstr \<Rightarrow> decision_request \<Rightarrow> request_row \<Rightarrow> rstr \<Rightarrow> decision option \<Rightarrow> rstr \<Rightarrow> instant \<Rightarrow> event_row" where
  "new_event X s node r w kind decision event_id now =
     (let envelope = event_envelope X node r kind (rq_revision w + 1) (decision \<noteq> None) event_id now in
      \<lparr>ev_seq = 0, ev_event_id = event_id, ev_request_id = r_id r, ev_channel_id = r_channel_id r,
       ev_revision = rq_revision w + 1, ev_kind = kind, ev_occurred_at = now_string now,
       ev_subject = lit ''ev.'' @ kind, ev_envelope = envelope,
       ev_detail = \<lparr>ed_envelope = envelope, ed_channel_id = r_channel_id r,
         ed_created_by = rq_created_by w, ed_origin = origin_on s (r_id r), ed_decision = decision\<rparr>,
       ev_published_at = None, ev_stream_seq = None, ev_attempts = 0,
       ev_next_attempt_at = now_string now, ev_lease_token = None, ev_lease_until = None,
       ev_last_error = None\<rparr>)"

definition new_callback ::
  "ext \<Rightarrow> decision_request \<Rightarrow> int \<Rightarrow> rstr \<Rightarrow> rstr \<Rightarrow> instant \<Rightarrow> callback_row" where
  "new_callback X r revision url event_id now =
     \<lparr>cb_delivery_id = event_id @ lit '':callback'', cb_event_id = event_id, cb_request_id = r_id r,
      cb_request_revision = revision, cb_url = url, cb_payload = callback_payload_of X r,
      cb_state = lit ''queued'', cb_attempts = 0, cb_next_attempt_at = now_string now,
      cb_lease_token = None, cb_lease_until = None, cb_delivered_at = None, cb_last_status = None,
      cb_last_error = None, cb_updated_at = now_string now\<rparr>"

definition append_lifecycle_on ::
  "ext \<Rightarrow> db \<Rightarrow> decision_request \<Rightarrow> rstr \<Rightarrow> decision option \<Rightarrow> rstr \<Rightarrow> instant \<Rightarrow> db api_result" where
  "append_lifecycle_on X s r kind decision event_id now =
     bind_res (ok_or database_error (find_request s (r_id r))) (\<lambda>w.
     bind_res (ok_or database_error (t_node_id s)) (\<lambda>node.
     bind_res (insert_event (bump_revision s (r_id r)) (new_event X s node r w kind decision event_id now)) (\<lambda>s'.
     case (decision, r_callback_url r) of
       (Some _, Some url) \<Rightarrow> insert_callback s' (new_callback X r (rq_revision w + 1) url event_id now)
     | _ \<Rightarrow> Inr s')))"

section \<open>Reading the journal\<close>

definition high_water :: "db \<Rightarrow> int" where
  \<comment> \<open>\<open>COALESCE(MAX(seq),0)\<close>\<close>
  "high_water s = (case map ev_seq (t_events s) of [] \<Rightarrow> 0 | q # qs \<Rightarrow> foldl max q qs)"

definition scan :: "db \<Rightarrow> int \<Rightarrow> int \<Rightarrow> nat \<Rightarrow> ((int \<times> json) \<times> rstr) list" where
  "scan s after through limit =
     map (\<lambda>e. ((ev_seq e, ev_envelope e), ev_channel_id e))
       (take limit (sort_key ev_seq (filter (\<lambda>e. after < ev_seq e \<and> ev_seq e \<le> through) (t_events s))))"

definition event_detail_of :: "db \<Rightarrow> rstr \<Rightarrow> (rstr \<times> event_detail) api_result" where
  "event_detail_of s eid =
     bind_res (ok_or NotFound (List.find (\<lambda>e. ev_event_id e = eid) (t_events s))) (\<lambda>e.
       Inr (ev_channel_id e, ev_detail e))"

section \<open>Publishing\<close>

record publish_claim =
  pc_event_id :: rstr
  pc_subject :: rstr
  pc_envelope :: json
  pc_lease_token :: rstr
  pc_attempts :: int

definition lease_free :: "int option \<Rightarrow> int \<Rightarrow> bool" where
  "lease_free until now \<longleftrightarrow> (case until of None \<Rightarrow> True | Some u \<Rightarrow> u \<le> now)"

definition publish_due :: "int \<Rightarrow> event_row \<Rightarrow> bool" where
  "publish_due now e \<longleftrightarrow> ev_published_at e = None \<and> ev_next_attempt_at e \<le> now \<and>
     lease_free (ev_lease_until e) now"

definition claim_event :: "db \<Rightarrow> env \<Rightarrow> (publish_claim option \<times> db)" where
  "claim_event s E =
     (let now = now_string (e_now E 0);
          until = millis (e_now E 1 + seconds 60);
          token = e_id E 0
      in case List.find (publish_due now) (sort_key ev_seq (t_events s)) of
           None \<Rightarrow> (None, s)
         | Some e \<Rightarrow>
             (Some \<lparr>pc_event_id = ev_event_id e, pc_subject = ev_subject e, pc_envelope = ev_envelope e,
                pc_lease_token = token, pc_attempts = ev_attempts e + 1\<rparr>,
              s\<lparr>t_events := sql_update (\<lambda>w. ev_seq w = ev_seq e)
                 (\<lambda>w. w\<lparr>ev_lease_token := Some token, ev_lease_until := Some until,
                    ev_attempts := ev_attempts w + 1\<rparr>) (t_events s)\<rparr>))"

definition holds_event_lease :: "publish_claim \<Rightarrow> int \<Rightarrow> event_row \<Rightarrow> bool" where
  \<comment> \<open>\<open>event_id=? AND lease_token=? AND lease_until>? AND published_at IS NULL\<close>\<close>
  "holds_event_lease c now e \<longleftrightarrow> ev_event_id e = pc_event_id c \<and>
     ev_lease_token e = Some (pc_lease_token c) \<and>
     (case ev_lease_until e of None \<Rightarrow> False | Some u \<Rightarrow> now < u) \<and> ev_published_at e = None"

definition published :: "db \<Rightarrow> publish_claim \<Rightarrow> int \<Rightarrow> instant \<Rightarrow> bool \<times> db" where
  "published s c stream_seq t =
     (let now = now_string t; P = holds_event_lease c now in
      (sql_count P (t_events s) = 1,
       s\<lparr>t_events := sql_update P (\<lambda>e. e\<lparr>ev_published_at := Some now,
          ev_stream_seq := Some stream_seq, ev_lease_token := None, ev_lease_until := None,
          ev_last_error := None\<rparr>) (t_events s)\<rparr>))"

definition publish_delay :: "int \<Rightarrow> int" where
  \<comment> \<open>seconds: \<open>(1 << attempts.clamp(0, 8)).min(300)\<close>\<close>
  "publish_delay attempts = min (2 ^ nat (max 0 (min attempts 8))) 300"

definition publish_retry :: "db \<Rightarrow> publish_claim \<Rightarrow> env \<Rightarrow> bool \<times> db" where
  "publish_retry s c E =
     (let now = now_string (e_now E 0);
          next = millis (e_now E 1 + seconds (publish_delay (pc_attempts c)));
          P = holds_event_lease c now
      in (sql_count P (t_events s) = 1,
          s\<lparr>t_events := sql_update P (\<lambda>e. e\<lparr>ev_next_attempt_at := next,
             ev_last_error := Some (lit ''publish_failed''), ev_lease_token := None,
             ev_lease_until := None\<rparr>) (t_events s)\<rparr>))"

section \<open>The publisher is a lease queue\<close>

definition event_lease :: "event_row \<Rightarrow> (rstr \<times> int) option" where
  "event_lease e = (case (ev_lease_token e, ev_lease_until e) of
     (Some t, Some u) \<Rightarrow> Some (t, u) | _ \<Rightarrow> None)"

definition find_event :: "db \<Rightarrow> rstr \<Rightarrow> event_row option" where
  "find_event s eid = List.find (\<lambda>e. ev_event_id e = eid) (t_events s)"

definition journal_wf :: "db \<Rightarrow> bool" where
  "journal_wf s \<longleftrightarrow> distinct (map ev_event_id (t_events s)) \<and> distinct (map ev_seq (t_events s)) \<and>
     (\<forall>e \<in> set (t_events s). ev_lease_until e \<noteq> None \<longrightarrow> ev_lease_token e \<noteq> None)"

definition event_holder :: "db \<Rightarrow> rstr \<Rightarrow> (rstr \<times> int) option" where
  "event_holder s eid = Option.bind (find_event s eid) event_lease"

definition event_closed :: "db \<Rightarrow> rstr \<Rightarrow> bool" where
  "event_closed s eid \<longleftrightarrow> (case find_event s eid of None \<Rightarrow> False | Some e \<Rightarrow> ev_published_at e \<noteq> None)"

definition event_claims :: "db \<Rightarrow> int \<Rightarrow> db \<Rightarrow> rstr \<Rightarrow> rstr \<Rightarrow> bool" where
  "event_claims s now s' eid token \<longleftrightarrow> (\<exists>E c. claim_event s E = (Some c, s') \<and>
     now = now_string (e_now E 0) \<and> pc_event_id c = eid \<and> pc_lease_token c = token)"

definition event_published :: "db \<Rightarrow> rstr \<Rightarrow> rstr \<Rightarrow> int \<Rightarrow> db \<Rightarrow> bool" where
  "event_published s eid token now s' \<longleftrightarrow> (\<exists>c n t. published s c n t = (True, s') \<and>
     now = now_string t \<and> pc_event_id c = eid \<and> pc_lease_token c = token)"

definition event_retried :: "db \<Rightarrow> rstr \<Rightarrow> rstr \<Rightarrow> int \<Rightarrow> db \<Rightarrow> bool" where
  "event_retried s eid token now s' \<longleftrightarrow> (\<exists>c E. publish_retry s c E = (True, s') \<and>
     now = now_string (e_now E 0) \<and> pc_event_id c = eid \<and> pc_lease_token c = token)"

lemma find_event_iff: "journal_wf s \<Longrightarrow> find_event s eid = Some e \<longleftrightarrow> e \<in> set (t_events s) \<and> ev_event_id e = eid"
  unfolding find_event_def journal_wf_def by (simp add: find_Some_iff_key)

lemma claim_event_Some:
  "claim_event s E = (Some c, s') \<Longrightarrow> \<exists>e \<in> set (t_events s). publish_due (now_string (e_now E 0)) e \<and>
     pc_event_id c = ev_event_id e \<and> pc_lease_token c = e_id E 0 \<and>
     s' = s\<lparr>t_events := sql_update (\<lambda>w. ev_seq w = ev_seq e)
       (\<lambda>w. w\<lparr>ev_lease_token := Some (e_id E 0), ev_lease_until := Some (millis (e_now E 1 + seconds 60)),
          ev_attempts := ev_attempts w + 1\<rparr>) (t_events s)\<rparr>"
  by (auto simp: claim_event_def Let_def dest!: find_SomeD split: option.splits)

text \<open>An update of one event's lease columns keeps the journal well formed.\<close>

lemma journal_wf_update:
  assumes "journal_wf s" and "\<And>e. P e \<Longrightarrow> ev_event_id (f e) = ev_event_id e \<and> ev_seq (f e) = ev_seq e \<and>
     (ev_lease_until (f e) \<noteq> None \<longrightarrow> ev_lease_token (f e) \<noteq> None)"
  shows "journal_wf (s\<lparr>t_events := sql_update P f (t_events s)\<rparr>)"
  using assms by (auto simp: journal_wf_def map_sql_update_frame set_sql_update)

lemma find_event_update:
  "(\<And>e. P e \<Longrightarrow> ev_event_id (f e) = ev_event_id e) \<Longrightarrow>
   find_event (s\<lparr>t_events := sql_update P f (t_events s)\<rparr>) eid =
     map_option (\<lambda>e. if P e then f e else e) (find_event s eid)"
  unfolding find_event_def by (simp add: find_sql_update_key)

lemma holder_of_owned:
  assumes "journal_wf s" "sql_count (holds_event_lease c now) (t_events s) = 1"
  shows "\<exists>e u. find_event s (pc_event_id c) = Some e \<and> holds_event_lease c now e \<and>
     event_lease e = Some (pc_lease_token c, u) \<and> now < u \<and> ev_published_at e = None"
proof -
  from assms(2) obtain e where "e \<in> set (t_events s)" "holds_event_lease c now e"
    unfolding sql_count_def by (metis One_nat_def filter_empty_conv length_0_conv zero_neq_one)
  with find_event_iff [OF assms(1)] show ?thesis
    by (auto simp: holds_event_lease_def event_lease_def split: option.splits)
qed

lemmas event_queue_defs = event_claims_def event_published_def event_retried_def event_holder_def
  event_closed_def published_def publish_retry_def Let_def

lemma event_claims_facts:
  assumes "journal_wf s" "event_claims s now s' eid token"
  shows "journal_wf s'"
    and "(\<forall>t u. event_holder s eid = Some (t, u) \<longrightarrow> u \<le> now) \<and> \<not> event_closed s eid"
    and "\<exists>u. event_holder s' eid = Some (token, u)"
proof -
  from assms(2) obtain E c where c: "claim_event s E = (Some c, s')" "now = now_string (e_now E 0)"
    "pc_event_id c = eid" "pc_lease_token c = token"
    by (auto simp: event_claims_def)
  from claim_event_Some [OF c(1)] c obtain e where e: "e \<in> set (t_events s)" "publish_due now e"
    "eid = ev_event_id e" "token = e_id E 0"
    "s' = s\<lparr>t_events := sql_update (\<lambda>w. ev_seq w = ev_seq e)
       (\<lambda>w. w\<lparr>ev_lease_token := Some token, ev_lease_until := Some (millis (e_now E 1 + seconds 60)),
          ev_attempts := ev_attempts w + 1\<rparr>) (t_events s)\<rparr>"
    by auto
  have f: "find_event s eid = Some e" using e by (simp add: find_event_iff [OF assms(1)])
  show "journal_wf s'" unfolding e(5) by (rule journal_wf_update [OF assms(1)]) simp
  show "(\<forall>t u. event_holder s eid = Some (t, u) \<longrightarrow> u \<le> now) \<and> \<not> event_closed s eid"
    using e(2) f by (auto simp: event_holder_def event_closed_def event_lease_def publish_due_def
        lease_free_def split: option.splits)
  show "\<exists>u. event_holder s' eid = Some (token, u)"
    unfolding e(5) using f by (simp add: event_holder_def find_event_update event_lease_def)
qed

lemma event_settle_facts:
  assumes "journal_wf s" and "sql_count (holds_event_lease c now) (t_events s) = 1"
    and s': "s' = s\<lparr>t_events := sql_update (holds_event_lease c now) f (t_events s)\<rparr>"
    and f: "\<And>e. ev_event_id (f e) = ev_event_id e" "\<And>e. ev_seq (f e) = ev_seq e"
      "\<And>e. ev_lease_until (f e) = None" "\<And>e. ev_lease_token (f e) = None"
  shows "journal_wf s'"
    and "\<exists>u. event_holder s (pc_event_id c) = Some (pc_lease_token c, u) \<and> now < u \<and> \<not> event_closed s (pc_event_id c)"
    and "event_holder s' (pc_event_id c) = None"
    and "k \<noteq> pc_event_id c \<Longrightarrow> event_holder s' k = event_holder s k \<and> event_closed s' k = event_closed s k"
    and "\<exists>e. find_event s' (pc_event_id c) = Some (f e)"
proof -
  from holder_of_owned [OF assms(1,2)] obtain e u where e: "find_event s (pc_event_id c) = Some e"
    "holds_event_lease c now e" "event_lease e = Some (pc_lease_token c, u)" "now < u" "ev_published_at e = None"
    by blast
  have upd: "find_event s' k = map_option (\<lambda>e. if holds_event_lease c now e then f e else e) (find_event s k)" for k
    unfolding s' by (rule find_event_update) (simp add: f)
  show "journal_wf s'" unfolding s' by (rule journal_wf_update [OF assms(1)]) (simp add: f)
  show "\<exists>u. event_holder s (pc_event_id c) = Some (pc_lease_token c, u) \<and> now < u \<and> \<not> event_closed s (pc_event_id c)"
    using e by (simp add: event_holder_def event_closed_def)
  show "event_holder s' (pc_event_id c) = None"
    using e(1,2) f by (simp add: event_holder_def upd event_lease_def split: option.split)
  show "\<exists>e. find_event s' (pc_event_id c) = Some (f e)"
    using e(1,2) by (simp add: upd) blast
  show "event_holder s' k = event_holder s k \<and> event_closed s' k = event_closed s k" if "k \<noteq> pc_event_id c"
  proof (cases "find_event s k")
    case (Some w)
    with find_event_iff [OF assms(1)] that have "\<not> holds_event_lease c now w"
      by (auto simp: holds_event_lease_def)
    with Some show ?thesis by (simp add: event_holder_def event_closed_def upd)
  qed (simp add: event_holder_def event_closed_def upd)
qed

lemma event_published_facts:
  assumes "journal_wf s" "event_published s eid token now s'"
  shows "journal_wf s'" "\<exists>u. event_holder s eid = Some (token, u) \<and> now < u \<and> \<not> event_closed s eid"
    "event_holder s' eid = None"
    "k \<noteq> eid \<Longrightarrow> event_holder s' k = event_holder s k \<and> event_closed s' k = event_closed s k"
    "event_closed s' eid"
proof -
  from assms(2) obtain c n t where c: "published s c n t = (True, s')" "now = now_string t"
    "pc_event_id c = eid" "pc_lease_token c = token"
    by (auto simp: event_published_def)
  note c' = c(1) [unfolded published_def Let_def prod.inject]
  note facts = event_settle_facts [OF assms(1), of c now s',
      OF _ conjunct2 [OF c', symmetric, folded c(2)], folded c(2), unfolded c(3,4)]
  from c' c(2) have one: "sql_count (holds_event_lease c now) (t_events s) = 1" by simp
  show "journal_wf s'" "\<exists>u. event_holder s eid = Some (token, u) \<and> now < u \<and> \<not> event_closed s eid"
    "event_holder s' eid = None"
    "k \<noteq> eid \<Longrightarrow> event_holder s' k = event_holder s k \<and> event_closed s' k = event_closed s k"
    by (rule facts; simp add: one)+
  have "\<exists>e. find_event s' eid = Some (e\<lparr>ev_published_at := Some now, ev_stream_seq := Some n,
      ev_lease_token := None, ev_lease_until := None, ev_last_error := None\<rparr>)"
    by (rule facts(5); simp add: one)
  then show "event_closed s' eid" by (auto simp: event_closed_def)
qed

lemma event_retried_facts:
  assumes "journal_wf s" "event_retried s eid token now s'"
  shows "journal_wf s'" "\<exists>u. event_holder s eid = Some (token, u) \<and> now < u \<and> \<not> event_closed s eid"
    "event_holder s' eid = None"
    "k \<noteq> eid \<Longrightarrow> event_holder s' k = event_holder s k \<and> event_closed s' k = event_closed s k"
proof -
  from assms(2) obtain c E where c: "publish_retry s c E = (True, s')" "now = now_string (e_now E 0)"
    "pc_event_id c = eid" "pc_lease_token c = token"
    by (auto simp: event_retried_def)
  note c' = c(1) [unfolded publish_retry_def Let_def prod.inject]
  note facts = event_settle_facts [OF assms(1), of c now s',
      OF _ conjunct2 [OF c', symmetric, folded c(2)], folded c(2), unfolded c(3,4)]
  from c' c(2) have one: "sql_count (holds_event_lease c now) (t_events s) = 1" by simp
  show "journal_wf s'" "\<exists>u. event_holder s eid = Some (token, u) \<and> now < u \<and> \<not> event_closed s eid"
    "event_holder s' eid = None"
    "k \<noteq> eid \<Longrightarrow> event_holder s' k = event_holder s k \<and> event_closed s' k = event_closed s k"
    by (rule facts; simp add: one)+
qed

interpretation pub: closing_queue journal_wf event_holder event_closed event_claims event_published
  by (unfold_locales; rule event_claims_facts event_published_facts; assumption)

interpretation pub_retry: lease_queue journal_wf event_holder event_closed event_claims event_retried
  by (unfold_locales; rule event_claims_facts event_retried_facts; assumption)

end
