(* ===== verification/Decide.thy ===== *)
theory Decide
  imports Lifecycle
begin

text \<open>The decisions of the server: which signatures it accepts, and what it records.\<close>

section \<open>Signatures\<close>

text \<open>
  The server's acceptance policy for a submitted decision signature (nod-server signing.rs): algorithm,
  key id, nonce, digest membership, canonical time, payload reconstruction, and P-256 verification under the
  device's registered key. A device is its row; revoked rows never get here.
\<close>

definition api_of_signing :: "signing_error + 'a \<Rightarrow> 'a api_result" where
  "api_of_signing m = map_err (\<lambda>e. BadRequest (signing_error_text e)) m"

definition submitted_candidates :: "ext \<Rightarrow> decision_request \<Rightarrow> rstr list api_result" where
  "submitted_candidates X r =
     (let wire = to_wire X r in
      case r_answer_field r of
        Some field \<Rightarrow>
          bind_res (ok_or (bad_request ''value request is missing its signing context'')
            (map_option sc_commitment (q_signing wire))) (\<lambda>commitment.
          bind_res (api_of_signing (value_request_digest X wire commitment field)) (\<lambda>d1.
          bind_res (api_of_signing (value_request_digest_legacy_v3 X wire commitment field)) (\<lambda>d2.
          Inr [d1, d2])))
      | None \<Rightarrow>
          bind_res
            (case q_request_digest wire of
               Some stamped \<Rightarrow> Inr stamped
             | None \<Rightarrow> api_of_signing (request_digest_legacy_line_snapshot X wire)) (\<lambda>legacy.
          case q_signing wire of
            None \<Rightarrow> Inr [legacy]
          | Some context \<Rightarrow>
              bind_res (api_of_signing (request_digest_v1 X wire (sc_commitment context))) (\<lambda>d1.
              bind_res (api_of_signing (request_digest_legacy_structured_v2 X wire (sc_commitment context))) (\<lambda>d2.
              Inr [legacy, d1, d2]))))"

definition decision_input ::
  "ext \<Rightarrow> decision_request \<Rightarrow> request_option \<Rightarrow> device_row \<Rightarrow> rstr option \<Rightarrow> decision_signature \<Rightarrow> instant \<Rightarrow> signing_input" where
  "decision_input X r opt actor txt provided signed_at =
     \<lparr>i_request_id = r_id r, i_request_digest = ds_request_digest provided, i_option_id = o_id opt,
      i_option_kind = o_kind opt, i_user_id = dv_user_id actor, i_device_id = dv_id actor,
      i_key_id = ds_key_id provided, i_nonce = ds_nonce provided,
      i_signed_at = x_fmt_millis X signed_at, i_text = txt\<rparr>"

definition submitted_payload ::
  "ext \<Rightarrow> decision_request \<Rightarrow> signing_input \<Rightarrow> decision_signature \<Rightarrow> answer_value option \<Rightarrow> rstr api_result" where
  "submitted_payload X r i provided answer =
     (case r_answer_field r of
        Some field \<Rightarrow>
          if ds_payload_version provided \<noteq> Some VALUE_DECISION_PAYLOAD_VERSION \<or>
             ds_signed_at provided \<noteq> i_signed_at i
          then Inl (bad_request ''invalid value signature context'')
          else bind_res (ok_or (bad_request ''explicit answer_value required'') answer) (\<lambda>a.
            bind_res (map_err BadRequest (validate_value field a)) (\<lambda>_.
            api_of_signing (decision_signing_payload_v2 X i a)))
      | None \<Rightarrow>
          if answer \<noteq> None \<or> ds_payload_version provided \<noteq> None
          then Inl (bad_request ''ordinary request does not accept value payload'')
          else Inr (decision_signing_payload X i))"

definition verify_value_decision_signature ::
  "ext \<Rightarrow> decision_request \<Rightarrow> request_option \<Rightarrow> device_row \<Rightarrow> rstr option \<Rightarrow> decision_signature \<Rightarrow>
   answer_value option \<Rightarrow> (rstr \<times> rstr) api_result" where
  "verify_value_decision_signature X r opt actor txt provided answer =
     bind_res (ok_or (bad_request ''device does not have a registered signing key'') (dv_signing_key_id actor)) (\<lambda>device_key_id.
     bind_res (ok_or (bad_request ''device does not have a registered signing key'') (dv_signing_public_key actor)) (\<lambda>public_key.
     let algorithm = (case dv_signing_key_algorithm actor of None \<Rightarrow> DECISION_SIGNING_ALGORITHM | Some a \<Rightarrow> a) in
     if algorithm \<noteq> DECISION_SIGNING_ALGORITHM \<or> ds_algorithm provided \<noteq> DECISION_SIGNING_ALGORITHM
     then Inl (bad_request ''unsupported decision signature algorithm'')
     else if ds_key_id provided \<noteq> device_key_id
     then Inl (bad_request ''decision signature key_id does not match this device'')
     else if trim (ds_nonce provided) = [] \<or> strlen (ds_nonce provided) > 160
     then Inl (bad_request ''decision signature nonce is required'')
     else bind_res (submitted_candidates X r) (\<lambda>candidates.
     if ds_request_digest provided \<notin> set candidates
     then Inl (bad_request ''decision signature request_digest does not match the request snapshot'')
     else bind_res (ok_or (bad_request ''decision signature signed_at is invalid'')
       (x_parse_rfc3339 X (ds_signed_at provided))) (\<lambda>signed_at.
     bind_res (submitted_payload X r (decision_input X r opt actor txt provided signed_at) provided answer) (\<lambda>payload.
     bind_res (map_err (\<lambda>_. Forbidden) (verify_payload X public_key (utf8 payload) (ds_signature provided))) (\<lambda>_.
     Inr (ds_request_digest provided, payload)))))))"

definition validate_device_public_key :: "ext \<Rightarrow> rstr \<Rightarrow> unit api_result" where
  "validate_device_public_key X key =
     map_err (\<lambda>_. bad_request ''registered signing public key is invalid'') (validate_public_key X key)"

lemma api_of_signing_ok [simp]: "api_of_signing m = Inr x \<longleftrightarrow> m = Inr x"
  by (simp add: api_of_signing_def)

text \<open>An accepted signature, check by check.\<close>

lemma verify_value_decision_signature_ok:
  "verify_value_decision_signature X r opt actor txt provided answer = Inr (digest, payload) \<longleftrightarrow>
     digest = ds_request_digest provided \<and>
     (\<exists>public_key candidates signed_at. dv_signing_key_id actor = Some (ds_key_id provided) \<and>
        dv_signing_public_key actor = Some public_key \<and>
        (dv_signing_key_algorithm actor = None \<or> dv_signing_key_algorithm actor = Some DECISION_SIGNING_ALGORITHM) \<and>
        ds_algorithm provided = DECISION_SIGNING_ALGORITHM \<and>
        trim (ds_nonce provided) \<noteq> [] \<and> strlen (ds_nonce provided) \<le> 160 \<and>
        submitted_candidates X r = Inr candidates \<and> ds_request_digest provided \<in> set candidates \<and>
        x_parse_rfc3339 X (ds_signed_at provided) = Some signed_at \<and>
        submitted_payload X r (decision_input X r opt actor txt provided signed_at) provided answer = Inr payload \<and>
        verify_payload X public_key (utf8 payload) (ds_signature provided) = Inr ())"
proof -
  have alg: "(case a of None \<Rightarrow> DECISION_SIGNING_ALGORITHM | Some a \<Rightarrow> a) \<noteq> DECISION_SIGNING_ALGORITHM \<longleftrightarrow>
      \<not> (a = None \<or> a = Some DECISION_SIGNING_ALGORITHM)" for a
    by (cases a) auto
  show ?thesis
    unfolding verify_value_decision_signature_def Let_def res_simps ok_or_Inr_iff map_err_Inr_iff alg
    by auto
qed

section \<open>Decisions\<close>

text \<open>
  Recording a decision (nod-server db/requests/decisions.rs). The checks come in the order of the
  code; the nonce is recorded after the signature verified; a shared request closes with the
  first decision, a per-user request with the last recipient's. The whole is one transaction.
\<close>

section \<open>Inputs\<close>

record decision_submission =
  sub_request_id :: rstr
  sub_option_id :: rstr
  sub_device :: "device_row option"
  sub_user_id :: "rstr option"
  sub_decision :: submit_decision

definition implicit_dismiss_option :: "decision_request \<Rightarrow> rstr \<Rightarrow> request_option option" where
  "implicit_dismiss_option r option_id =
     (if r_answer_field r \<noteq> None \<or> option_id \<noteq> lit ''dismiss'' \<or> r_options r \<noteq> [] then None
      else Some \<lparr>o_id = lit ''dismiss'', o_label = lit ''Dismiss'', o_kind = Dismiss,
        o_style = lit ''default'', o_requires_text = False, o_text_placeholder = None,
        o_destructive = False, o_foreground = False\<rparr>)"

definition find_option :: "decision_request \<Rightarrow> rstr \<Rightarrow> request_option option" where
  "find_option r option_id =
     (case List.find (\<lambda>p. o_id p = option_id) (r_options r) of
        Some p \<Rightarrow> Some p
      | None \<Rightarrow> implicit_dismiss_option r option_id)"

section \<open>The submission's shape\<close>

definition signature_version :: "submit_decision \<Rightarrow> rstr option" where
  "signature_version d = Option.bind (sd_signature d) ds_payload_version"

definition check_value_submission :: "ext \<Rightarrow> decision_request \<Rightarrow> decision_submission \<Rightarrow> unit api_result" where
  "check_value_submission X r sub =
     (let d = sub_decision sub in
      case r_answer_field r of
        Some field \<Rightarrow>
          if sub_option_id sub = lit ''__nod_value_open'' \<or> sub_device sub = None \<or>
             sub_user_id sub \<noteq> map_option dv_user_id (sub_device sub)
          then Inl (bad_request ''value decisions require an authenticated keyed device and real outcome'')
          else bind_res (map_err BadRequest (validate_field X field)) (\<lambda>_.
          bind_res (ok_or (bad_request ''explicit answer_value required'') (sd_answer_value d)) (\<lambda>a.
          bind_res (map_err BadRequest (validate_value field a)) (\<lambda>_.
          if (case sd_text d of None \<Rightarrow> False | Some t \<Rightarrow> strlen (trim t) > 16384)
          then Inl (bad_request ''notes exceed 16384 bytes'')
          else if signature_version d \<noteq> Some VALUE_DECISION_PAYLOAD_VERSION
          then Inl (bad_request ''nod-decision-v2 signature required'')
          else Inr ())))
      | None \<Rightarrow>
          if sd_answer_value d \<noteq> None \<or> signature_version d \<noteq> None
          then Inl (bad_request ''ordinary request does not accept value payload'')
          else Inr ())"

section \<open>Signature and nonce\<close>

definition insert_decision_nonce :: "db \<Rightarrow> rstr \<Rightarrow> rstr \<Rightarrow> rstr \<Rightarrow> db api_result" where
  \<comment> \<open>\<open>INSERT OR IGNORE\<close>; a duplicate key inserts nothing, a missing device is a failed statement\<close>
  "insert_decision_nonce s device key nonce =
     (if list_ex (\<lambda>w. dn_device_id w = device \<and> dn_key_id w = key \<and> dn_nonce w = nonce) (t_nonces s)
      then Inl (conflict ''decision signature nonce has already been used'')
      else if \<not> list_ex (\<lambda>d. dv_id d = device) (t_devices s) then Inl database_error
      else Inr (s\<lparr>t_nonces := t_nonces s @ [\<lparr>dn_device_id = device, dn_key_id = key, dn_nonce = nonce\<rparr>]\<rparr>))"

definition nonblank_text :: "rstr option \<Rightarrow> bool" where
  "nonblank_text v \<longleftrightarrow> (case v of None \<Rightarrow> False | Some t \<Rightarrow> trim t \<noteq> [])"

definition verified_decision_signature ::
  "ext \<Rightarrow> db \<Rightarrow> decision_request \<Rightarrow> request_option \<Rightarrow> device_row option \<Rightarrow> rstr option \<Rightarrow>
   decision_signature option \<Rightarrow> answer_value option \<Rightarrow> (signature_record option \<times> db) api_result" where
  "verified_decision_signature X s r opt actor txt provided answer =
     (case actor of
        None \<Rightarrow>
          if provided \<noteq> None then Inl (bad_request ''decision signatures require a device actor'')
          else Inr (None, s)
      | Some device \<Rightarrow>
          if \<not> (nonblank_text (dv_signing_public_key device) \<and> nonblank_text (dv_signing_key_id device))
          then Inl (bad_request ''device does not have a registered signing key'')
          else bind_res (ok_or (bad_request ''signed decision payload is required'') provided) (\<lambda>p.
          bind_res (verify_value_decision_signature X r opt device txt p answer) (\<lambda>(digest, payload).
          bind_res (insert_decision_nonce s (dv_id device) (ds_key_id p) (ds_nonce p)) (\<lambda>s'.
          Inr (Some \<lparr>sr_payload_version = ds_payload_version p, sr_key_id = ds_key_id p,
             sr_algorithm = ds_algorithm p, sr_nonce = ds_nonce p, sr_signed_at = ds_signed_at p,
             sr_request_digest = digest, sr_signing_payload = payload, sr_signature = ds_signature p,
             sr_verified = True, sr_public_key = dv_signing_public_key device\<rparr>, s')))))"

section \<open>Writing the decision\<close>

definition set_request :: "db \<Rightarrow> (request_row \<Rightarrow> bool) \<Rightarrow> (request_row \<Rightarrow> request_row) \<Rightarrow> db" where
  "set_request s P f = s\<lparr>t_requests := sql_update P f (t_requests s)\<rparr>"

definition pending_row :: "rstr \<Rightarrow> request_row \<Rightarrow> bool" where
  "pending_row rid w \<longleftrightarrow> rq_id w = rid \<and> rq_status w = Pending"

definition record_user_decision ::
  "db \<Rightarrow> rstr \<Rightarrow> rstr \<Rightarrow> decision \<Rightarrow> int \<Rightarrow> db api_result" where
  "record_user_decision s rid user d resolved_at =
     (if list_ex (\<lambda>w. rd_request_id w = rid \<and> rd_user_id w = user) (t_decisions s)
      then Inl (conflict ''request was already handled by this user'')
      else
        let s1 = s\<lparr>t_decisions := t_decisions s @ [\<lparr>rd_request_id = rid, rd_user_id = user,
                rd_decision = d, rd_resolved_at = resolved_at\<rparr>]\<rparr>;
            recipient_count = sql_count (\<lambda>w. rr_request_id w = rid) (t_recipients s1);
            decision_count = sql_count (\<lambda>w. rd_request_id w = rid) (t_decisions s1)
        in Inr (if recipient_count > 0 \<and> decision_count \<ge> recipient_count
                then set_request s1 (pending_row rid) (\<lambda>w. w\<lparr>rq_status := Resolved,
                  rq_resolved_at := Some resolved_at, rq_updated_at := resolved_at\<rparr>)
                else set_request s1 (\<lambda>w. rq_id w = rid) (\<lambda>w. w\<lparr>rq_updated_at := resolved_at\<rparr>)))"

definition record_shared_decision :: "db \<Rightarrow> rstr \<Rightarrow> decision \<Rightarrow> int \<Rightarrow> db api_result" where
  "record_shared_decision s rid d resolved_at =
     (if sql_count (pending_row rid) (t_requests s) = 0
      then Inl (conflict ''request was already handled'')
      else Inr (set_request s (pending_row rid) (\<lambda>w. w\<lparr>rq_status := Resolved, rq_decision := Some d,
        rq_resolved_at := Some resolved_at, rq_updated_at := resolved_at\<rparr>)))"

definition check_actor :: "db \<Rightarrow> decision_request \<Rightarrow> decision_submission \<Rightarrow> unit api_result" where
  "check_actor s r sub =
     (if (case sub_device sub of None \<Rightarrow> False | Some d \<Rightarrow>
            \<not> list_ex (\<lambda>w. dv_id w = dv_id d \<and> dv_revoked_at w = None) (t_devices s))
      then Inl Unauthorized
      else if (case sub_user_id sub of None \<Rightarrow> False | Some u \<Rightarrow> u \<notin> set (r_recipients r))
      then Inl Forbidden
      else Inr ())"

definition new_decision ::
  "decision_submission \<Rightarrow> request_option \<Rightarrow> signature_record option \<Rightarrow> instant \<Rightarrow> decision" where
  "new_decision sub opt signature resolved_at =
     \<lparr>d_answer_value = sd_answer_value (sub_decision sub), d_request_id = sub_request_id sub,
      d_option_id = o_id opt, d_option_kind = o_kind opt, d_option_label = o_label opt,
      d_text = trimmed_text (sd_text (sub_decision sub)), d_actor_user_id = sub_user_id sub,
      d_actor_device_id = map_option dv_id (sub_device sub), d_signature = signature,
      d_resolved_at = resolved_at\<rparr>"

text \<open>
  \<open>record_decision\<close>: the clock is read for the expiry check, for \<open>resolved_at\<close>, and by the
  journal entry, in this order.
\<close>

definition record_decision ::
  "ext \<Rightarrow> db \<Rightarrow> decision_submission \<Rightarrow> env \<Rightarrow> (decision_request \<times> db) api_result" where
  "record_decision X s sub E =
     (let rid = sub_request_id sub in
      bind_res (get_request_on X s rid) (\<lambda>r.
      bind_res (check_value_submission X r sub) (\<lambda>_.
      bind_res (check_actor s r sub) (\<lambda>_.
      if (case r_expires_at r of None \<Rightarrow> False | Some t \<Rightarrow> t \<le> e_now E 0)
      then Inl (conflict ''request has expired'')
      else bind_res (ok_or NotFound (find_option r (sub_option_id sub))) (\<lambda>opt.
      if r_status r \<noteq> Pending then Inl (conflict ''request is no longer pending'')
      else
        let resolved_at = e_now E 1; txt = trimmed_text (sd_text (sub_decision sub)) in
        bind_res (verified_decision_signature X s r opt (sub_device sub) txt
          (sd_signature (sub_decision sub)) (sd_answer_value (sub_decision sub))) (\<lambda>(signature, s1).
        let d = new_decision sub opt signature resolved_at in
        bind_res
          (if r_resolution r = PerUser then
             bind_res (ok_or (bad_request ''per-user options require a user actor'') (sub_user_id sub)) (\<lambda>user.
             record_user_decision s1 rid user d (millis resolved_at))
           else record_shared_decision s1 rid d (millis resolved_at)) (\<lambda>s2.
        bind_res (get_request_on X s2 rid) (\<lambda>resolved.
        bind_res (append_lifecycle_on X s2 resolved KIND_ANSWER (Some d) (e_id E 0) (e_now E 2)) (\<lambda>s3.
        Inr (resolved, s3))))))))))"

end
