(* ===== verification/Read.thy ===== *)
theory Read
  imports Store
begin

text \<open>
  Reading requests for a user or a device (nod-server db/requests/read.rs): the projection that hides
  the other recipients, the inbox query with its history pages, and the small lookups.
\<close>

section \<open>The user's projection\<close>

definition project_request_for_user :: "decision_request \<Rightarrow> rstr \<Rightarrow> decision_request" where
  "project_request_for_user r0 user =
     (let r1 = r0\<lparr>r_private_recipients := length (r_recipients r0) > 1\<rparr>;
          r2 = (if r_resolution r1 = PerUser then
                  case List.find (\<lambda>d. ud_user_id d = user) (r_user_decisions r1) of
                    Some d \<Rightarrow> r1\<lparr>r_status := Resolved, r_resolved_at := Some (d_resolved_at (ud_decision d)),
                      r_decision := Some (ud_decision d)\<rparr>
                  | None \<Rightarrow>
                      if r_status r1 = Resolved
                      then r1\<lparr>r_status := Pending, r_resolved_at := None, r_decision := None\<rparr>
                      else r1
                else r1)
      in r2\<lparr>r_recipients := filter (\<lambda>u. u = user) (r_recipients r2),
            r_user_decisions := filter (\<lambda>d. ud_user_id d = user) (r_user_decisions r2)\<rparr>)"

definition request_for_user :: "ext \<Rightarrow> db \<Rightarrow> rstr \<Rightarrow> rstr \<Rightarrow> decision_request api_result" where
  "request_for_user X s rid user =
     bind_res (get_request_on X s rid) (\<lambda>r. Inr (project_request_for_user r user))"

definition request_visible_to_user :: "db \<Rightarrow> rstr \<Rightarrow> rstr \<Rightarrow> bool" where
  "request_visible_to_user s rid user \<longleftrightarrow>
     sql_count (\<lambda>w. rr_request_id w = rid \<and> rr_user_id w = user) (t_recipients s) > 0"

definition request_created_by_issuer_token_id :: "db \<Rightarrow> rstr \<Rightarrow> rstr option api_result" where
  "request_created_by_issuer_token_id s rid =
     bind_res (ok_or NotFound (find_request s rid)) (\<lambda>w. Inr (rq_created_by w))"

definition subscribed_to :: "db \<Rightarrow> rstr \<Rightarrow> rstr \<Rightarrow> bool" where
  "subscribed_to s user channel \<longleftrightarrow>
     list_ex (\<lambda>b. sb_user_id b = user \<and> sb_channel_id b = channel \<and> sb_subscribed b) (t_subscriptions s)"

definition request_delivery_eligible :: "db \<Rightarrow> rstr \<Rightarrow> rstr \<Rightarrow> bool" where
  "request_delivery_eligible s rid user \<longleftrightarrow>
     list_ex (\<lambda>w. rq_id w = rid \<and> request_visible_to_user s rid user \<and>
       (rq_explicit_recipients w \<or> subscribed_to s user (rq_channel_id w))) (t_requests s)"

section \<open>The inbox\<close>

record inbox_query =
  iq_channel_id :: "rstr option"
  iq_include_cleared :: bool
  iq_handled_limit :: int
  iq_retention_days :: int
  iq_search :: "rstr option"
  iq_before :: "rstr option"

record request_page =
  pg_requests :: "decision_request list"
  pg_next_cursor :: "rstr option"

definition days :: "int \<Rightarrow> int" where
  "days n = seconds (86400 * n)"

definition retention_cutoff :: "instant \<Rightarrow> int \<Rightarrow> int" where
  "retention_cutoff now retention_days = millis (now - days (max retention_days 1))"

definition user_decision_on :: "db \<Rightarrow> rstr \<Rightarrow> rstr \<Rightarrow> user_decision_row option" where
  "user_decision_on s rid user =
     List.find (\<lambda>d. rd_request_id d = rid \<and> rd_user_id d = user) (t_decisions s)"

definition is_pending_for :: "db \<Rightarrow> rstr \<Rightarrow> request_row \<Rightarrow> bool" where
  "is_pending_for s user w \<longleftrightarrow> rq_status w = Pending \<and>
     (rq_resolution w = Shared \<or> user_decision_on s (rq_id w) user = None)"

definition handled_at :: "request_row \<Rightarrow> int" where
  \<comment> \<open>\<open>COALESCE(resolved_at, updated_at)\<close>\<close>
  "handled_at w = (case rq_resolved_at w of None \<Rightarrow> rq_updated_at w | Some t \<Rightarrow> t)"

definition contains :: "rstr \<Rightarrow> rstr \<Rightarrow> bool" where
  \<comment> \<open>\<open>instr(haystack, needle) > 0\<close>; the empty needle is found\<close>
  "contains haystack needle \<longleftrightarrow> sublist needle haystack"

definition search_text :: "request_row \<Rightarrow> rstr" where
  "search_text w = rq_title w @ [32] @ rq_summary w @ [32] @ rq_body w"

definition visible_row :: "db \<Rightarrow> rstr \<Rightarrow> inbox_query \<Rightarrow> int \<Rightarrow> request_row \<Rightarrow> bool" where
  "visible_row s user q cutoff w \<longleftrightarrow>
     (let cleared = map_option uc_cleared_at
            (List.find (\<lambda>c. uc_user_id c = user \<and> uc_channel_id c = rq_channel_id w) (t_clears s));
          mine = user_decision_on s (rq_id w) user;
          handled = (case mine of Some d \<Rightarrow> rd_resolved_at d | None \<Rightarrow> handled_at w)
      in request_visible_to_user s (rq_id w) user \<and>
         (iq_channel_id q = None \<or> iq_channel_id q = Some (rq_channel_id w)) \<and>
         (rq_explicit_recipients w \<or> subscribed_to s user (rq_channel_id w)) \<and>
         (iq_include_cleared q \<or> cleared = None \<or> rq_status w = Pending \<and> mine = None \<or>
            (case cleared of None \<Rightarrow> False | Some c \<Rightarrow> handled > c)) \<and>
         contains (to_ascii_lowercase (search_text w))
           (to_ascii_lowercase (trim (case iq_search q of None \<Rightarrow> [] | Some t \<Rightarrow> t))) \<and>
         (rq_status w = Pending \<or> handled_at w \<ge> cutoff))"

text \<open>A cursor is the creation time text and the id of the last row of a page.\<close>

definition encode_cursor :: "ext \<Rightarrow> int \<Rightarrow> rstr \<Rightarrow> rstr" where
  "encode_cursor X created_at rid =
     x_b64_encode X (utf8 (x_ser X (JArr [JStr (x_fmt_millis X (of_millis created_at)), JStr rid])))"

definition decode_cursor :: "ext \<Rightarrow> rstr \<Rightarrow> (rstr \<times> rstr) api_result" where
  "decode_cursor X value =
     (let invalid = bad_request ''invalid history cursor'' in
      if strlen value > 512 then Inl invalid
      else bind_res (ok_or invalid (x_b64_decode X value)) (\<lambda>decoded.
      bind_res (ok_or invalid (x_parse_pair X decoded)) (\<lambda>(created_at, rid).
      if x_parse_rfc3339 X created_at = None then Inl invalid
      else if \<not> x_uuid_ok X rid then Inl invalid
      else Inr (created_at, rid))))"

text \<open>
  \<open>(created_at, id) < (?5, ?6)\<close> compares the stored text with the cursor's text.
\<close>

definition before_cursor :: "ext \<Rightarrow> (rstr \<times> rstr) option \<Rightarrow> request_row \<Rightarrow> bool" where
  "before_cursor X cursor w =
     (case cursor of None \<Rightarrow> True
      | Some (c, i) \<Rightarrow>
          let t = x_fmt_millis X (of_millis (rq_created_at w)) in t < c \<or> t = c \<and> rq_id w < i)"

definition newest_first :: "request_row list \<Rightarrow> request_row list" where
  "newest_first rows = rev (sort_key rq_created_at (sort_key rq_id rows))"

definition inbox_rows ::
  "ext \<Rightarrow> db \<Rightarrow> rstr \<Rightarrow> inbox_query \<Rightarrow> (rstr \<times> rstr) option \<Rightarrow> int \<Rightarrow> request_row list \<times> request_row list" where
  \<comment> \<open>the pending rows and the ranked history rows, before the page is cut\<close>
  "inbox_rows X s user q cursor cutoff =
     (let visible = filter (visible_row s user q cutoff) (t_requests s);
          limit = max 0 (min (iq_handled_limit q) 500);
          pending = (if cursor = None then filter (is_pending_for s user) visible else []);
          history = filter (\<lambda>w. \<not> is_pending_for s user w \<and> before_cursor X cursor w) visible
      in (newest_first pending,
          take (if limit > 0 then nat limit + 1 else 0) (newest_first history)))"

definition list_requests_for_device ::
  "ext \<Rightarrow> db \<Rightarrow> rstr \<Rightarrow> inbox_query \<Rightarrow> instant \<Rightarrow> request_page api_result" where
  "list_requests_for_device X s device_id q now =
     bind_res (get_device s device_id) (\<lambda>device.
     let cutoff = retention_cutoff now (iq_retention_days q) in
      bind_res (case iq_before q of None \<Rightarrow> Inr None
                | Some v \<Rightarrow> bind_res (decode_cursor X v) (\<lambda>c. Inr (Some c))) (\<lambda>cursor.
      let (pending, history) = inbox_rows X s (dv_user_id device) q cursor cutoff;
          limit = nat (max 0 (min (iq_handled_limit q) 500));
          more = length history > limit;
          rows = (if more then butlast (pending @ history) else pending @ history);
          next = (if more \<and> rows \<noteq> [] then Some (encode_cursor X (rq_created_at (last rows)) (rq_id (last rows)))
                  else None)
      in bind_res (rows_to_requests X s rows) (\<lambda>requests.
         Inr \<lparr>pg_requests = map (\<lambda>r. project_request_for_user r (dv_user_id device)) requests,
              pg_next_cursor = next\<rparr>)))"

definition recent_requests :: "ext \<Rightarrow> db \<Rightarrow> decision_request list api_result" where
  "recent_requests X s = rows_to_requests X s (take 50 (newest_first (t_requests s)))"

section \<open>The projection shows the user's own state only\<close>

lemma project_recipients: "set (r_recipients (project_request_for_user r u)) \<subseteq> {u}"
  by (auto simp: project_request_for_user_def Let_def split: option.splits)

lemma project_user_decisions: "ud \<in> set (r_user_decisions (project_request_for_user r u)) \<Longrightarrow>
    ud \<in> set (r_user_decisions r) \<and> ud_user_id ud = u"
  by (auto simp: project_request_for_user_def Let_def split: option.splits if_splits)

end
