(* ===== verification/Maintain.thy ===== *)
theory Maintain
  imports Decide Read
begin

text \<open>
  The transitions no device asks for (nod-server db/requests/maintenance.rs): cancellation by the
  issuer, the expiry sweep, and the retention sweep with the cascade of its foreign keys.
\<close>

definition cancel_request :: "ext \<Rightarrow> db \<Rightarrow> rstr \<Rightarrow> env \<Rightarrow> (decision_request \<times> db) api_result" where
  "cancel_request X s rid E =
     bind_res (get_request_on X s rid) (\<lambda>r.
     if r_status r \<noteq> Pending then Inl (conflict ''request is no longer pending'')
     else if sql_count (pending_row rid) (t_requests s) = 0
     then Inl (conflict ''request is no longer pending'')
     else
       let s1 = set_request s (pending_row rid)
             (\<lambda>w. w\<lparr>rq_status := Cancelled, rq_updated_at := now_string (e_now E 0)\<rparr>) in
       bind_res (get_request_on X s1 rid) (\<lambda>request.
       bind_res (append_lifecycle_on X s1 request KIND_CANCELLED None (e_id E 0) (e_now E 1)) (\<lambda>s2.
       Inr (request, s2))))"

definition expiry_due :: "int \<Rightarrow> request_row \<Rightarrow> bool" where
  "expiry_due now w \<longleftrightarrow> rq_status w = Pending \<and>
     (case rq_expires_at w of None \<Rightarrow> False | Some t \<Rightarrow> t \<le> now)"

text \<open>The journal entries of the sweep, one per expired id; \<open>n\<close> counts the entries written.\<close>

fun append_expired ::
  "ext \<Rightarrow> db \<Rightarrow> rstr list \<Rightarrow> env \<Rightarrow> nat \<Rightarrow> (decision_request list \<times> db) api_result" where
  "append_expired X s [] E n = Inr ([], s)"
| "append_expired X s (rid # rids) E n =
     bind_res (get_request_on X s rid) (\<lambda>r.
     bind_res (append_lifecycle_on X s r KIND_EXPIRED None (e_id E n) (e_now E (Suc n))) (\<lambda>s1.
     bind_res (append_expired X s1 rids E (Suc n)) (\<lambda>(rs, s2).
     Inr (r # rs, s2))))"

definition expire_due_requests :: "ext \<Rightarrow> db \<Rightarrow> env \<Rightarrow> (decision_request list \<times> db) api_result" where
  "expire_due_requests X s E =
     (let now = now_string (e_now E 0);
          ids = map rq_id (filter (expiry_due now) (t_requests s));
          s1 = set_request s (expiry_due now) (\<lambda>w. w\<lparr>rq_status := Expired, rq_updated_at := now\<rparr>)
      in append_expired X s1 ids E 0)"

text \<open>Deleting requests takes the rows that reference them along; the journal stays.\<close>

definition delete_requests :: "db \<Rightarrow> (request_row \<Rightarrow> bool) \<Rightarrow> db" where
  "delete_requests s P =
     (let gone = (\<lambda>rid. list_ex (\<lambda>w. P w \<and> rq_id w = rid) (t_requests s)) in
      s\<lparr>t_requests := sql_delete P (t_requests s),
        t_options := sql_delete (\<lambda>w. gone (ro_request_id w)) (t_options s),
        t_recipients := sql_delete (\<lambda>w. gone (rr_request_id w)) (t_recipients s),
        t_decisions := sql_delete (\<lambda>w. gone (rd_request_id w)) (t_decisions s),
        t_push := sql_delete (\<lambda>w. gone (pd_request_id w)) (t_push s),
        t_idempotency := sql_delete (\<lambda>w. gone (ik_request_id w)) (t_idempotency s),
        t_origins := sql_delete (\<lambda>w. gone (or_request_id w)) (t_origins s)\<rparr>)"

definition retention_due :: "int \<Rightarrow> request_row \<Rightarrow> bool" where
  "retention_due cutoff w \<longleftrightarrow> rq_status w \<noteq> Pending \<and> handled_at w < cutoff"

definition prune_retention :: "db \<Rightarrow> int \<Rightarrow> instant \<Rightarrow> nat \<times> db" where
  "prune_retention s retention_days now =
     (let P = retention_due (retention_cutoff now retention_days) in
      (sql_count P (t_requests s), delete_requests s P))"

end
