(* ===== verification/Accounts.thy ===== *)
theory Accounts
  imports Maintain
begin

text \<open>
  Users, channels, subscriptions and issuer tokens (nod-server db/users.rs, channels.rs,
  issuer_tokens.rs, the first half of subscriptions.rs, db.rs, and the seed rows of connection.rs).
  A statement runs in its own transaction unless the code opens one; an operation of several such
  statements therefore returns the database beside its result, also when it fails.
\<close>

type_synonym 'a outcome = "'a api_result \<times> db"

definition sql_upsert :: "('r \<Rightarrow> bool) \<Rightarrow> ('r \<Rightarrow> 'r) \<Rightarrow> 'r \<Rightarrow> 'r list \<Rightarrow> 'r list" where
  \<comment> \<open>\<open>INSERT ... ON CONFLICT(key) DO UPDATE SET ...\<close>\<close>
  "sql_upsert P f r t = (if list_ex P t then sql_update P f t else t @ [r])"

definition sql_insert_or_ignore :: "('r \<Rightarrow> bool) \<Rightarrow> 'r \<Rightarrow> 'r list \<Rightarrow> 'r list" where
  "sql_insert_or_ignore P r t = (if list_ex P t then t else t @ [r])"

section \<open>Channels\<close>

record channel =
  cn_id :: rstr
  cn_name :: rstr
  cn_emoji :: rstr
  cn_subscribed :: bool
  cn_created_at :: instant

definition row_to_channel :: "channel_row \<Rightarrow> bool \<Rightarrow> channel" where
  "row_to_channel w subscribed = \<lparr>cn_id = ch_id w, cn_name = ch_name w, cn_emoji = ch_emoji w,
     cn_subscribed = subscribed, cn_created_at = of_millis (ch_created_at w)\<rparr>"

definition list_channels :: "db \<Rightarrow> channel list" where
  "list_channels s = map (\<lambda>c. row_to_channel c True) (sort_key ch_name (t_channels s))"

definition subscription_key :: "rstr \<Rightarrow> rstr \<Rightarrow> subscription_row \<Rightarrow> bool" where
  "subscription_key user channel b \<longleftrightarrow> sb_user_id b = user \<and> sb_channel_id b = channel"

definition list_channels_for_user :: "db \<Rightarrow> rstr \<Rightarrow> channel list" where
  \<comment> \<open>the left join: no subscription row reads as not subscribed\<close>
  "list_channels_for_user s user = map (\<lambda>c. row_to_channel c
     (case List.find (subscription_key user (ch_id c)) (t_subscriptions s) of
        None \<Rightarrow> False | Some b \<Rightarrow> sb_subscribed b)) (sort_key ch_name (t_channels s))"

definition list_channels_for_device :: "db \<Rightarrow> rstr \<Rightarrow> channel list api_result" where
  "list_channels_for_device s did =
     bind_res (get_device s did) (\<lambda>d. Inr (list_channels_for_user s (dv_user_id d)))"

definition bell :: rstr where "bell = [128276]"

definition normalized_emoji :: "ext \<Rightarrow> rstr \<Rightarrow> rstr" where
  "normalized_emoji X value =
     (let emoji = trim value in
      if emoji = [] then bell else concat (take 8 (x_graphemes X emoji)))"

record create_channel_body =
  ccb_id :: rstr
  ccb_name :: rstr
  ccb_emoji :: rstr

definition create_channel :: "ext \<Rightarrow> db \<Rightarrow> create_channel_body \<Rightarrow> instant \<Rightarrow> channel outcome" where
  "create_channel X s req now =
     (case validate_id (ccb_id req) ''channel id'' of
        Inl e \<Rightarrow> (Inl e, s)
      | Inr _ \<Rightarrow>
          if trim (ccb_name req) = [] then (Inl (bad_request ''channel name is required''), s)
          else
            let name = trim (ccb_name req); emoji = normalized_emoji X (ccb_emoji req);
                s1 = s\<lparr>t_channels := sql_upsert (\<lambda>c. ch_id c = ccb_id req)
                  (\<lambda>c. c\<lparr>ch_name := name, ch_emoji := emoji\<rparr>)
                  \<lparr>ch_id = ccb_id req, ch_name = name, ch_emoji = emoji, ch_created_at = now_string now\<rparr>
                  (t_channels s)\<rparr>
            in (map_ok (\<lambda>c. row_to_channel c True) (get_channel s1 (ccb_id req)), s1))"

text \<open>\<open>delete_channel\<close> runs in one transaction; deleting the requests cascades as in the sweep.\<close>

definition delete_channel :: "db \<Rightarrow> rstr \<Rightarrow> db api_result" where
  "delete_channel s cid =
     bind_res (validate_id cid ''channel id'') (\<lambda>_.
     let s1 = delete_requests s (\<lambda>w. rq_channel_id w = cid);
         s2 = s1\<lparr>t_clears := sql_delete (\<lambda>c. uc_channel_id c = cid) (t_clears s1),
           t_subscriptions := sql_delete (\<lambda>b. sb_channel_id b = cid) (t_subscriptions s1)\<rparr>
     in if sql_count (\<lambda>c. ch_id c = cid) (t_channels s2) = 0 then Inl NotFound
        else Inr (s2\<lparr>t_channels := sql_delete (\<lambda>c. ch_id c = cid) (t_channels s2)\<rparr>))"

section \<open>Subscriptions\<close>

definition set_user_subscription :: "db \<Rightarrow> rstr \<Rightarrow> rstr \<Rightarrow> bool \<Rightarrow> instant \<Rightarrow> db api_result" where
  "set_user_subscription s user channel subscribed now =
     bind_res (get_user s user) (\<lambda>_.
     bind_res (get_channel s channel) (\<lambda>_.
     Inr (s\<lparr>t_subscriptions := sql_upsert (subscription_key user channel)
       (\<lambda>b. b\<lparr>sb_subscribed := subscribed, sb_updated_at := now_string now\<rparr>)
       \<lparr>sb_user_id = user, sb_channel_id = channel, sb_subscribed = subscribed,
        sb_updated_at = now_string now\<rparr> (t_subscriptions s)\<rparr>)))"

definition set_subscription :: "db \<Rightarrow> rstr \<Rightarrow> rstr \<Rightarrow> bool \<Rightarrow> instant \<Rightarrow> db api_result" where
  "set_subscription s did channel subscribed now =
     bind_res (get_device s did) (\<lambda>d.
     set_user_subscription s (dv_user_id d) channel subscribed now)"

definition clear_channel :: "db \<Rightarrow> rstr \<Rightarrow> rstr \<Rightarrow> instant \<Rightarrow> db api_result" where
  "clear_channel s did channel now =
     bind_res (get_device s did) (\<lambda>d.
     bind_res (get_channel s channel) (\<lambda>_.
     if \<not> list_ex (\<lambda>u. us_id u = dv_user_id d) (t_users s) then Inl database_error
     else Inr (s\<lparr>t_clears := sql_upsert (\<lambda>c. uc_user_id c = dv_user_id d \<and> uc_channel_id c = channel)
       (\<lambda>c. c\<lparr>uc_cleared_at := now_string now\<rparr>)
       \<lparr>uc_user_id = dv_user_id d, uc_channel_id = channel, uc_cleared_at = now_string now\<rparr> (t_clears s)\<rparr>)))"

section \<open>Users\<close>

record user =
  u_id :: rstr
  u_name :: rstr
  u_created_at :: instant
  u_updated_at :: instant

definition row_to_user :: "user_row \<Rightarrow> user" where
  "row_to_user w = \<lparr>u_id = us_id w, u_name = us_name w, u_created_at = of_millis (us_created_at w),
     u_updated_at = of_millis (us_updated_at w)\<rparr>"

record admin_user =
  au_id :: rstr
  au_name :: rstr
  au_device_count :: nat
  au_subscribed_channel_count :: nat
  au_subscribed_channel_ids :: "rstr list"
  au_created_at :: instant
  au_updated_at :: instant

definition list_users_for_admin :: "db \<Rightarrow> admin_user list" where
  "list_users_for_admin s = map (\<lambda>u.
     let subs = filter (\<lambda>b. sb_user_id b = us_id u \<and> sb_subscribed b) (t_subscriptions s) in
     \<lparr>au_id = us_id u, au_name = us_name u,
      au_device_count = sql_count (\<lambda>d. dv_user_id d = us_id u \<and> dv_revoked_at d = None) (t_devices s),
      au_subscribed_channel_count = length subs,
      au_subscribed_channel_ids = filter (\<lambda>c. c \<noteq> []) (map sb_channel_id subs),
      au_created_at = of_millis (us_created_at u), au_updated_at = of_millis (us_updated_at u)\<rparr>)
     (sort_key us_name (filter (\<lambda>u. us_deleted_at u = None) (t_users s)))"

definition default_channel :: rstr where "default_channel = lit ''default''"

definition upsert_user :: "db \<Rightarrow> rstr \<Rightarrow> rstr \<Rightarrow> int \<Rightarrow> nat \<times> db" where
  \<comment> \<open>\<open>ON CONFLICT(id) DO UPDATE ... WHERE users.deleted_at IS NULL\<close>, with the rows affected\<close>
  "upsert_user s uid name now =
     (if list_ex (\<lambda>u. us_id u = uid) (t_users s)
      then let P = (\<lambda>u. us_id u = uid \<and> us_deleted_at u = None) in
        (sql_count P (t_users s),
         s\<lparr>t_users := sql_update P (\<lambda>u. u\<lparr>us_name := name, us_updated_at := now\<rparr>) (t_users s)\<rparr>)
      else (1, s\<lparr>t_users := t_users s @ [\<lparr>us_id = uid, us_name = name, us_created_at = now,
        us_updated_at = now, us_deleted_at = None\<rparr>]\<rparr>))"

definition subscribe_default :: "db \<Rightarrow> rstr \<Rightarrow> int \<Rightarrow> db api_result" where
  \<comment> \<open>\<open>INSERT OR IGNORE\<close> ignores a duplicate, not a foreign key that does not exist\<close>
  "subscribe_default s uid now =
     (if list_ex (subscription_key uid default_channel) (t_subscriptions s) then Inr s
      else if \<not> list_ex (\<lambda>c. ch_id c = default_channel) (t_channels s) \<or>
              \<not> list_ex (\<lambda>u. us_id u = uid) (t_users s) then Inl database_error
      else Inr (s\<lparr>t_subscriptions := t_subscriptions s @ [\<lparr>sb_user_id = uid,
        sb_channel_id = default_channel, sb_subscribed = True, sb_updated_at = now\<rparr>]\<rparr>))"

definition create_user :: "db \<Rightarrow> rstr \<Rightarrow> rstr \<Rightarrow> env \<Rightarrow> user outcome" where
  "create_user s uid name E =
     (case validate_id uid ''user id'' of
        Inl e \<Rightarrow> (Inl e, s)
      | Inr _ \<Rightarrow>
          if trim name = [] then (Inl (bad_request ''user name is required''), s)
          else
            let (n, s1) = upsert_user s uid (trim name) (now_string (e_now E 0)) in
            if n = 0 then (Inl (conflict ''deleted user IDs cannot be reused''), s1)
            else case subscribe_default s1 uid (now_string (e_now E 1)) of
                Inl e \<Rightarrow> (Inl e, s1)
              | Inr s2 \<Rightarrow> (map_ok row_to_user (get_user s2 uid), s2))"

definition update_user :: "db \<Rightarrow> rstr \<Rightarrow> rstr \<Rightarrow> instant \<Rightarrow> user outcome" where
  "update_user s uid name now =
     (case validate_id uid ''user id'' of
        Inl e \<Rightarrow> (Inl e, s)
      | Inr _ \<Rightarrow>
          if trim name = [] then (Inl (bad_request ''user name is required''), s)
          else
            let P = (\<lambda>u. us_id u = uid \<and> us_deleted_at u = None);
                s1 = s\<lparr>t_users := sql_update P
                  (\<lambda>u. u\<lparr>us_name := trim name, us_updated_at := now_string now\<rparr>) (t_users s)\<rparr>
            in if sql_count P (t_users s) = 0 then (Inl NotFound, s1)
               else (map_ok row_to_user (get_user s1 uid), s1))"

definition delete_user :: "db \<Rightarrow> rstr \<Rightarrow> instant \<Rightarrow> db api_result" where
  "delete_user s uid now =
     bind_res (validate_id uid ''user id'') (\<lambda>_.
     if sql_count (\<lambda>d. dv_user_id d = uid \<and> dv_revoked_at d = None) (t_devices s) > 0
     then Inl (conflict ''cannot delete a user that still owns devices'')
     else
       let P = (\<lambda>u. us_id u = uid \<and> us_deleted_at u = None) in
       if sql_count P (t_users s) = 0 then Inl NotFound
       else Inr (s\<lparr>t_users := sql_update P (\<lambda>u. u\<lparr>us_deleted_at := Some (now_string now)\<rparr>) (t_users s)\<rparr>))"

definition list_user_subscriptions_for_admin :: "db \<Rightarrow> rstr \<Rightarrow> channel list api_result" where
  "list_user_subscriptions_for_admin s uid =
     bind_res (get_user s uid) (\<lambda>_. Inr (list_channels_for_user s uid))"

text \<open>The updates of a batch are separate statements: those before a failure stay.\<close>

fun apply_subscriptions :: "db \<Rightarrow> rstr \<Rightarrow> (rstr \<times> bool) list \<Rightarrow> env \<Rightarrow> nat \<Rightarrow> unit outcome" where
  "apply_subscriptions s uid [] E n = (Inr (), s)"
| "apply_subscriptions s uid ((channel, subscribed) # us) E n =
     (case set_user_subscription s uid channel subscribed (e_now E n) of
        Inl e \<Rightarrow> (Inl e, s)
      | Inr s1 \<Rightarrow> apply_subscriptions s1 uid us E (Suc n))"

definition update_user_subscriptions_for_admin ::
  "db \<Rightarrow> rstr \<Rightarrow> (rstr \<times> bool) list \<Rightarrow> env \<Rightarrow> channel list outcome" where
  "update_user_subscriptions_for_admin s uid updates E =
     (case get_user s uid of
        Inl e \<Rightarrow> (Inl e, s)
      | Inr _ \<Rightarrow>
          let (r, s1) = apply_subscriptions s uid updates E 0 in
          (map_ok (\<lambda>_. list_channels_for_user s1 uid) r, s1))"

section \<open>Issuer tokens\<close>

record admin_issuer_token =
  ai_id :: rstr
  ai_name :: rstr
  ai_scopes :: "rstr list"
  ai_created_at :: instant
  ai_revoked_at :: "instant option"

definition list_issuer_tokens_for_admin :: "db \<Rightarrow> admin_issuer_token list" where
  "list_issuer_tokens_for_admin s = map (\<lambda>t. \<lparr>ai_id = it_id t, ai_name = it_name t,
     ai_scopes = it_scopes t, ai_created_at = of_millis (it_created_at t),
     ai_revoked_at = map_option of_millis (it_revoked_at t)\<rparr>)
     (rev (sort_key it_created_at (rev (t_issuers s))))"

definition hash_secret :: "ext \<Rightarrow> rstr \<Rightarrow> rstr" where
  "hash_secret X secret = x_hex X (x_sha256 X (utf8 secret))"

definition generate_token :: "string \<Rightarrow> env \<Rightarrow> rstr" where
  "generate_token kind E = lit (kind @ ''_'') @ e_token E"

record create_issuer_response =
  ci_id :: rstr
  ci_token :: rstr
  ci_scopes :: "rstr list"

definition create_issuer_token ::
  "ext \<Rightarrow> db \<Rightarrow> rstr \<Rightarrow> rstr list \<Rightarrow> env \<Rightarrow> (create_issuer_response \<times> db) api_result" where
  "create_issuer_token X s name scopes0 E =
     (if trim name = [] then Inl (bad_request ''token name is required'')
      else
        let scopes = (if scopes0 = [] then [lit ''requests:write'', lit ''requests:read''] else scopes0);
            token = generate_token ''nod_issuer'' E; id = e_id E 0; h = hash_secret X token
        in if list_ex (\<lambda>t. it_id t = id \<or> it_token_hash t = h) (t_issuers s) then Inl database_error
           else Inr (\<lparr>ci_id = id, ci_token = token, ci_scopes = scopes\<rparr>,
             s\<lparr>t_issuers := t_issuers s @ [\<lparr>it_id = id, it_name = trim name, it_token_hash = h,
               it_scopes = scopes, it_created_at = now_string (e_now E 0), it_revoked_at = None\<rparr>]\<rparr>))"

definition revoke_issuer_token :: "db \<Rightarrow> rstr \<Rightarrow> instant \<Rightarrow> db api_result" where
  "revoke_issuer_token s tid now =
     (let P = (\<lambda>t. it_id t = tid \<and> it_revoked_at t = None) in
      if sql_count P (t_issuers s) = 0 then Inl NotFound
      else Inr (s\<lparr>t_issuers := sql_update P (\<lambda>t. t\<lparr>it_revoked_at := Some (now_string now)\<rparr>) (t_issuers s)\<rparr>))"

section \<open>Counts and seed rows\<close>

record admin_counts =
  ac_users :: nat
  ac_channels :: nat
  ac_devices :: nat
  ac_active_issuer_tokens :: nat
  ac_pending_requests :: nat

definition admin_counts_of :: "db \<Rightarrow> admin_counts" where
  "admin_counts_of s = \<lparr>ac_users = sql_count (\<lambda>u. us_deleted_at u = None) (t_users s),
     ac_channels = length (t_channels s),
     ac_devices = sql_count (\<lambda>d. dv_revoked_at d = None) (t_devices s),
     ac_active_issuer_tokens = sql_count (\<lambda>t. it_revoked_at t = None) (t_issuers s),
     ac_pending_requests = sql_count (\<lambda>w. rq_status w = Pending) (t_requests s)\<rparr>"

definition owner :: rstr where "owner = lit ''owner''"

definition empty_db :: db where
  "empty_db = \<lparr>t_node_id = None, t_channels = [], t_users = [], t_devices = [], t_attestations = [],
     t_issuers = [], t_codes = [], t_subscriptions = [], t_clears = [], t_requests = [], t_options = [],
     t_recipients = [], t_decisions = [], t_nonces = [], t_push = [], t_idempotency = [], t_origins = [],
     t_events = [], t_callbacks = [], t_event_seq = 0\<rparr>"

text \<open>
  \<open>seed_defaults\<close> at every start; its last statement fails when a foreign key is missing, which the two
  statements before exclude.
\<close>

definition seed_defaults :: "db \<Rightarrow> env \<Rightarrow> db" where
  "seed_defaults s E =
     (let s1 = s\<lparr>t_node_id := (case t_node_id s of None \<Rightarrow> Some (e_id E 0) | Some n \<Rightarrow> Some n)\<rparr>;
          s2 = s1\<lparr>t_channels := sql_insert_or_ignore (\<lambda>c. ch_id c = default_channel)
            \<lparr>ch_id = default_channel, ch_name = lit ''Default'', ch_emoji = bell,
             ch_created_at = now_string (e_now E 0)\<rparr> (t_channels s1)\<rparr>;
          s3 = s2\<lparr>t_users := sql_insert_or_ignore (\<lambda>u. us_id u = owner)
            \<lparr>us_id = owner, us_name = lit ''Owner'', us_created_at = now_string (e_now E 1),
             us_updated_at = now_string (e_now E 1), us_deleted_at = None\<rparr> (t_users s2)\<rparr>
      in s3\<lparr>t_subscriptions := sql_insert_or_ignore (subscription_key owner default_channel)
            \<lparr>sb_user_id = owner, sb_channel_id = default_channel, sb_subscribed = True,
             sb_updated_at = now_string (e_now E 2)\<rparr> (t_subscriptions s3)\<rparr>)"

end
