(* ===== verification/Devices.thy ===== *)
theory Devices
  imports Accounts
begin

text \<open>
  Devices (nod-server db/enrollment.rs, devices.rs, device_attestations.rs, the device half of
  subscriptions.rs, rows.rs and models/attestation.rs): a single-use code enrolls a device of an
  active user with a signing key; a device is renamed, changes its push token and preferences, and
  is revoked, never deleted.
\<close>

section \<open>Attestation records\<close>

record attestation_record =
  ar_provider :: rstr
  ar_status :: attestation_status
  ar_key_id :: "rstr option"
  ar_team_id :: "rstr option"
  ar_bundle_id :: "rstr option"
  ar_environment :: "rstr option"
  ar_public_key :: "rstr option"
  ar_counter :: "int option"
  ar_receipt_hash :: "rstr option"
  ar_verified_at :: "instant option"
  ar_failure_reason :: "rstr option"

record verified_attestation =
  va_provider :: rstr
  va_key_id :: rstr
  va_team_id :: rstr
  va_bundle_id :: rstr
  va_environment :: rstr
  va_public_key :: rstr
  va_counter :: int
  va_receipt_hash :: "rstr option"

record failed_attestation =
  fa_provider :: rstr
  fa_key_id :: "rstr option"
  fa_team_id :: "rstr option"
  fa_environment :: "rstr option"
  fa_reason :: rstr

definition sanitize_attestation_failure :: "rstr \<Rightarrow> rstr" where
  "sanitize_attestation_failure reason0 =
     (let reason = trim reason0 in if strlen reason \<le> 160 then reason else take 160 reason)"

definition attestation_verified :: "verified_attestation \<Rightarrow> instant \<Rightarrow> attestation_record" where
  "attestation_verified v now = \<lparr>ar_provider = va_provider v, ar_status = Verified,
     ar_key_id = Some (va_key_id v), ar_team_id = Some (va_team_id v), ar_bundle_id = Some (va_bundle_id v),
     ar_environment = Some (va_environment v), ar_public_key = Some (va_public_key v),
     ar_counter = Some (va_counter v), ar_receipt_hash = va_receipt_hash v, ar_verified_at = Some now,
     ar_failure_reason = None\<rparr>"

definition attestation_failed :: "failed_attestation \<Rightarrow> attestation_record" where
  "attestation_failed f = \<lparr>ar_provider = fa_provider f, ar_status = Failed, ar_key_id = fa_key_id f,
     ar_team_id = fa_team_id f, ar_bundle_id = None, ar_environment = fa_environment f,
     ar_public_key = None, ar_counter = None, ar_receipt_hash = None, ar_verified_at = None,
     ar_failure_reason = Some (sanitize_attestation_failure (fa_reason f))\<rparr>"

definition record_device_attestation :: "db \<Rightarrow> rstr \<Rightarrow> attestation_record \<Rightarrow> instant \<Rightarrow> db api_result" where
  "record_device_attestation s did r now =
     (let t = now_string now; verified_at = map_option now_string (ar_verified_at r) in
      if \<not> list_ex (\<lambda>d. dv_id d = did) (t_devices s) then Inl database_error
      else Inr (s\<lparr>t_attestations := sql_upsert
        (\<lambda>a. at_device_id a = did \<and> at_provider a = ar_provider r)
        (\<lambda>a. a\<lparr>at_status := ar_status r, at_key_id := ar_key_id r, at_team_id := ar_team_id r,
           at_bundle_id := ar_bundle_id r, at_environment := ar_environment r,
           at_public_key := ar_public_key r, at_counter := ar_counter r,
           at_receipt_hash := ar_receipt_hash r, at_verified_at := verified_at,
           at_failure_reason := ar_failure_reason r, at_updated_at := t\<rparr>)
        \<lparr>at_device_id = did, at_provider = ar_provider r, at_status = ar_status r,
         at_key_id = ar_key_id r, at_team_id = ar_team_id r, at_bundle_id = ar_bundle_id r,
         at_environment = ar_environment r, at_public_key = ar_public_key r, at_counter = ar_counter r,
         at_receipt_hash = ar_receipt_hash r, at_verified_at = verified_at,
         at_failure_reason = ar_failure_reason r, at_created_at = t, at_updated_at = t\<rparr>
        (t_attestations s)\<rparr>))"

record attestation_summary =
  as_provider :: rstr
  as_status :: attestation_status
  as_key_id :: "rstr option"
  as_team_id :: "rstr option"
  as_bundle_id :: "rstr option"
  as_environment :: "rstr option"
  as_verified_at :: "instant option"
  as_failure_reason :: "rstr option"

definition row_to_attestation_summary :: "attestation_row option \<Rightarrow> attestation_summary option" where
  "row_to_attestation_summary a = map_option (\<lambda>a. \<lparr>as_provider = at_provider a, as_status = at_status a,
     as_key_id = at_key_id a, as_team_id = at_team_id a, as_bundle_id = at_bundle_id a,
     as_environment = at_environment a, as_verified_at = map_option of_millis (at_verified_at a),
     as_failure_reason = at_failure_reason a\<rparr>) a"

definition app_attest_of :: "db \<Rightarrow> rstr \<Rightarrow> attestation_row option" where
  \<comment> \<open>the left join on \<open>provider = 'apple_app_attest'\<close>\<close>
  "app_attest_of s did =
     List.find (\<lambda>a. at_device_id a = did \<and> at_provider a = lit ''apple_app_attest'') (t_attestations s)"

section \<open>Views of a device\<close>

record device =
  de_id :: rstr
  de_user_id :: rstr
  de_name :: rstr
  de_platform :: device_platform
  de_native_app_id :: "rstr option"
  de_push_provider :: "rstr option"
  de_push_token :: "rstr option"
  de_signing_key_id :: "rstr option"
  de_signing_key_algorithm :: "rstr option"
  de_signing_public_key :: "rstr option"
  de_notification_sound :: rstr
  de_preferences :: device_preferences
  de_last_seen_at :: instant
  de_created_at :: instant

definition row_to_device :: "device_row \<Rightarrow> device" where
  "row_to_device d = \<lparr>de_id = dv_id d, de_user_id = dv_user_id d, de_name = dv_name d,
     de_platform = dv_platform d, de_native_app_id = dv_native_app_id d,
     de_push_provider = dv_push_provider d, de_push_token = dv_push_token d,
     de_signing_key_id = dv_signing_key_id d, de_signing_key_algorithm = dv_signing_key_algorithm d,
     de_signing_public_key = dv_signing_public_key d, de_notification_sound = dv_notification_sound d,
     de_preferences = dv_preferences d, de_last_seen_at = of_millis (dv_last_seen_at d),
     de_created_at = of_millis (dv_created_at d)\<rparr>"

record user_device =
  ue_id :: rstr
  ue_user_id :: rstr
  ue_name :: rstr
  ue_platform :: device_platform
  ue_native_app_id :: "rstr option"
  ue_push_provider :: "rstr option"
  ue_has_push_token :: bool
  ue_has_signing_key :: bool
  ue_signing_key_id :: "rstr option"
  ue_signing_public_key :: "rstr option"
  ue_notification_sound :: rstr
  ue_preferences :: device_preferences
  ue_attestation :: "attestation_summary option"
  ue_last_seen_at :: instant
  ue_created_at :: instant
  ue_is_current :: bool

definition row_to_user_device :: "db \<Rightarrow> device_row \<Rightarrow> rstr \<Rightarrow> user_device" where
  "row_to_user_device s d current = \<lparr>ue_id = dv_id d, ue_user_id = dv_user_id d, ue_name = dv_name d,
     ue_platform = dv_platform d, ue_native_app_id = dv_native_app_id d,
     ue_push_provider = dv_push_provider d, ue_has_push_token = (dv_push_token d \<noteq> None),
     ue_has_signing_key = (dv_signing_public_key d \<noteq> None), ue_signing_key_id = dv_signing_key_id d,
     ue_signing_public_key = dv_signing_public_key d, ue_notification_sound = dv_notification_sound d,
     ue_preferences = dv_preferences d, ue_attestation = row_to_attestation_summary (app_attest_of s (dv_id d)),
     ue_last_seen_at = of_millis (dv_last_seen_at d), ue_created_at = of_millis (dv_created_at d),
     ue_is_current = (dv_id d = current)\<rparr>"

record admin_device =
  ad_id :: rstr
  ad_user_id :: rstr
  ad_user_name :: rstr
  ad_name :: rstr
  ad_platform :: device_platform
  ad_native_app_id :: "rstr option"
  ad_push_provider :: "rstr option"
  ad_has_push_token :: bool
  ad_has_signing_key :: bool
  ad_signing_key_id :: "rstr option"
  ad_signing_public_key :: "rstr option"
  ad_notification_sound :: rstr
  ad_preferences :: device_preferences
  ad_attestation :: "attestation_summary option"
  ad_last_seen_at :: instant
  ad_created_at :: instant
  ad_subscriptions :: "channel list"

definition newest_devices :: "db \<Rightarrow> (device_row \<Rightarrow> bool) \<Rightarrow> device_row list" where
  "newest_devices s P = rev (sort_key dv_created_at (rev (filter P (t_devices s))))"

definition list_devices_for_admin :: "db \<Rightarrow> admin_device list api_result" where
  "list_devices_for_admin s = map_res (\<lambda>d.
     bind_res (list_channels_for_device s (dv_id d)) (\<lambda>subscriptions.
     Inr \<lparr>ad_id = dv_id d, ad_user_id = dv_user_id d,
       ad_user_name = (case List.find (\<lambda>u. us_id u = dv_user_id d) (t_users s) of
          None \<Rightarrow> lit ''Owner'' | Some u \<Rightarrow> us_name u),
       ad_name = dv_name d, ad_platform = dv_platform d, ad_native_app_id = dv_native_app_id d,
       ad_push_provider = dv_push_provider d, ad_has_push_token = (dv_push_token d \<noteq> None),
       ad_has_signing_key = (dv_signing_public_key d \<noteq> None), ad_signing_key_id = dv_signing_key_id d,
       ad_signing_public_key = dv_signing_public_key d, ad_notification_sound = dv_notification_sound d,
       ad_preferences = dv_preferences d, ad_attestation = row_to_attestation_summary (app_attest_of s (dv_id d)),
       ad_last_seen_at = of_millis (dv_last_seen_at d), ad_created_at = of_millis (dv_created_at d),
       ad_subscriptions = subscriptions\<rparr>))
     (newest_devices s (\<lambda>d. dv_revoked_at d = None))"

definition list_user_devices :: "db \<Rightarrow> rstr \<Rightarrow> rstr \<Rightarrow> user_device list api_result" where
  "list_user_devices s uid current =
     bind_res (get_user s uid) (\<lambda>_.
     Inr (map (\<lambda>d. row_to_user_device s d current)
       (newest_devices s (\<lambda>d. dv_revoked_at d = None \<and> dv_user_id d = uid))))"

section \<open>Naming and revoking\<close>

definition active_device :: "rstr \<Rightarrow> device_row \<Rightarrow> bool" where
  "active_device did d \<longleftrightarrow> dv_id d = did \<and> dv_revoked_at d = None"

definition set_devices :: "db \<Rightarrow> (device_row \<Rightarrow> bool) \<Rightarrow> (device_row \<Rightarrow> device_row) \<Rightarrow> db" where
  "set_devices s P f = s\<lparr>t_devices := sql_update P f (t_devices s)\<rparr>"

definition revoke :: "instant \<Rightarrow> device_row \<Rightarrow> device_row" where
  "revoke now d = d\<lparr>dv_revoked_at := Some (now_string now), dv_push_token := None\<rparr>"

definition delete_device :: "db \<Rightarrow> rstr \<Rightarrow> instant \<Rightarrow> db api_result" where
  "delete_device s did now =
     (if sql_count (active_device did) (t_devices s) = 0 then Inl NotFound
      else Inr (set_devices s (active_device did) (revoke now)))"

definition revoke_user_device :: "db \<Rightarrow> rstr \<Rightarrow> rstr \<Rightarrow> instant \<Rightarrow> db api_result" where
  "revoke_user_device s uid did now =
     (let P = (\<lambda>d. active_device did d \<and> dv_user_id d = uid) in
      if sql_count P (t_devices s) = 0 then Inl NotFound
      else Inr (set_devices s P (revoke now)))"

definition get_user_device :: "db \<Rightarrow> rstr \<Rightarrow> rstr \<Rightarrow> rstr \<Rightarrow> user_device api_result" where
  "get_user_device s uid did current =
     bind_res (ok_or NotFound (List.find (\<lambda>d. active_device did d \<and> dv_user_id d = uid) (t_devices s)))
       (\<lambda>d. Inr (row_to_user_device s d current))"

definition rename_user_device ::
  "db \<Rightarrow> rstr \<Rightarrow> rstr \<Rightarrow> rstr \<Rightarrow> rstr \<Rightarrow> instant \<Rightarrow> user_device outcome" where
  "rename_user_device s uid did current name now =
     (if trim name = [] then (Inl (bad_request ''device name is required''), s)
      else
        let P = (\<lambda>d. active_device did d \<and> dv_user_id d = uid);
            s1 = set_devices s P (\<lambda>d. d\<lparr>dv_name := trim name, dv_last_seen_at := now_string now\<rparr>)
        in if sql_count P (t_devices s) = 0 then (Inl NotFound, s1)
           else (get_user_device s1 uid did current, s1))"

section \<open>Push token and preferences\<close>

definition MAX_NATIVE_APP_ID_LEN :: nat where "MAX_NATIVE_APP_ID_LEN = 255"

definition nonempty_trim :: "rstr option \<Rightarrow> rstr option" where
  \<comment> \<open>\<open>.map(str::trim).filter(|v| !v.is_empty())\<close>\<close>
  "nonempty_trim v = (case v of None \<Rightarrow> None | Some t \<Rightarrow> if trim t = [] then None else Some (trim t))"

definition normalized_native_app_id :: "rstr option \<Rightarrow> rstr option api_result" where
  "normalized_native_app_id v =
     (case nonempty_trim v of
        None \<Rightarrow> Inr None
      | Some value \<Rightarrow>
          if strlen value > MAX_NATIVE_APP_ID_LEN then Inl (bad_request ''native app id is too long'')
          else if list_ex is_whitespace value
          then Inl (bad_request ''native app id must not contain whitespace'')
          else Inr (Some value))"

definition push_columns_ok :: "device_row \<Rightarrow> bool" where
  \<comment> \<open>the CHECK of the table: a push token needs a non-blank native app id\<close>
  "push_columns_ok d \<longleftrightarrow> dv_push_token d = None \<or>
     (case dv_native_app_id d of None \<Rightarrow> False | Some v \<Rightarrow> sql_trim v \<noteq> [])"

definition update_push_token :: "db \<Rightarrow> rstr \<Rightarrow> rstr \<Rightarrow> rstr \<Rightarrow> rstr \<Rightarrow> instant \<Rightarrow> db api_result" where
  "update_push_token s did provider token native now =
     (if trim provider = [] then Inl (bad_request ''push provider is required'')
      else if trim token = [] then Inl (bad_request ''push token is required'')
      else bind_res (normalized_native_app_id (Some native)) (\<lambda>n.
      bind_res (ok_or (bad_request ''native app id is required'') n) (\<lambda>app.
      let s1 = set_devices s (active_device did) (\<lambda>d. d\<lparr>dv_push_provider := Some (trim provider),
            dv_push_token := Some (trim token), dv_native_app_id := Some app,
            dv_last_seen_at := now_string now\<rparr>)
      in if list_all push_columns_ok (filter (active_device did) (t_devices s1)) then Inr s1
         else Inl database_error)))"

definition update_device_preferences :: "db \<Rightarrow> rstr \<Rightarrow> rstr option \<Rightarrow> instant \<Rightarrow> db api_result" where
  "update_device_preferences s did sound now =
     (case sound of
        None \<Rightarrow> Inr s
      | Some v \<Rightarrow>
          bind_res (normalize_notification_sound v) (\<lambda>n.
          Inr (set_devices s (active_device did)
            (\<lambda>d. d\<lparr>dv_notification_sound := n, dv_last_seen_at := now_string now\<rparr>))))"

definition normalized_muted :: "rstr list \<Rightarrow> rstr list api_result" where
  "normalized_muted cs =
     map_res (\<lambda>c. bind_res (validate_id (trim c) ''muted channel id'') (\<lambda>_. Inr (trim c))) cs"

definition update_notification_preferences ::
  "db \<Rightarrow> rstr \<Rightarrow> device_preferences \<Rightarrow> instant \<Rightarrow> (device_preferences \<times> db) api_result" where
  \<comment> \<open>\<open>sort\<close> then \<open>dedup\<close>, which drops consecutive repeats\<close>
  "update_notification_preferences s did p now =
     (if length (dp_muted_channels p) > 100
      then Inl (bad_request ''at most 100 muted channels are supported'')
      else bind_res (normalized_muted (dp_muted_channels p)) (\<lambda>cs.
      let p1 = p\<lparr>dp_muted_channels := remdups_adj (sort cs)\<rparr> in
      if sql_count (active_device did) (t_devices s) = 0 then Inl NotFound
      else Inr (p1, set_devices s (active_device did)
        (\<lambda>d. d\<lparr>dv_preferences := p1, dv_last_seen_at := now_string now\<rparr>))))"

definition touch_device :: "db \<Rightarrow> rstr \<Rightarrow> env \<Rightarrow> db" where
  "touch_device s did E =
     (let cutoff = millis (e_now E 0 - seconds 30) in
      set_devices s (\<lambda>d. dv_id d = did \<and> dv_last_seen_at d < cutoff \<and> dv_revoked_at d = None)
        (\<lambda>d. d\<lparr>dv_last_seen_at := now_string (e_now E 1)\<rparr>))"

section \<open>Enrollment\<close>

definition ENROLLMENT_CODE_ALPHABET :: rstr where
  "ENROLLMENT_CODE_ALPHABET = lit ''ABCDEFGHIJKLMNOPQRSTUVWXYZ0123456789''"

definition ENROLLMENT_CODE_LENGTH :: nat where "ENROLLMENT_CODE_LENGTH = 8"

definition generate_enrollment_code :: "env \<Rightarrow> rstr" where
  \<comment> \<open>\<open>gen_range(0..len)\<close> is the pick modulo the length\<close>
  "generate_enrollment_code E = map (\<lambda>i. ENROLLMENT_CODE_ALPHABET !
     (e_pick E i mod length ENROLLMENT_CODE_ALPHABET)) [0..<ENROLLMENT_CODE_LENGTH]"

record enrollment_code_response =
  cr_code :: rstr
  cr_expires_at :: instant

definition code_lifetime :: "int option \<Rightarrow> int" where
  "code_lifetime v = max 30 (min (case v of None \<Rightarrow> 600 | Some n \<Rightarrow> n) 3600)"

definition create_enrollment_code ::
  "ext \<Rightarrow> db \<Rightarrow> rstr \<Rightarrow> int option \<Rightarrow> env \<Rightarrow> (enrollment_code_response \<times> db) api_result" where
  "create_enrollment_code X s uid lifetime E =
     bind_res (validate_id uid ''user id'') (\<lambda>_.
     bind_res (get_user s uid) (\<lambda>_.
     let code = generate_enrollment_code E; h = hash_secret X code;
         expires_at = e_now E 0 + seconds (code_lifetime lifetime)
     in if list_ex (\<lambda>c. ec_code_hash c = h) (t_codes s) then Inl database_error
        else Inr (\<lparr>cr_code = code, cr_expires_at = expires_at\<rparr>,
          s\<lparr>t_codes := t_codes s @ [\<lparr>ec_code_hash = h, ec_user_id = uid, ec_expires_at = millis expires_at,
            ec_consumed_at = None, ec_created_at = now_string (e_now E 1)\<rparr>]\<rparr>)))"

record signing_key_body =
  sk_key_id :: rstr
  sk_algorithm :: rstr
  sk_public_key :: rstr

record enroll_body =
  en_code :: rstr
  en_device_name :: rstr
  en_platform :: device_platform
  en_native_app_id :: "rstr option"
  en_push_provider :: "rstr option"
  en_push_token :: "rstr option"
  en_signing_key :: "signing_key_body option"

definition normalized_signing_key :: "ext \<Rightarrow> signing_key_body option \<Rightarrow> signing_key_body api_result" where
  "normalized_signing_key X v =
     bind_res (ok_or (bad_request ''signing_key is required to enroll a device'') v) (\<lambda>k.
     bind_res (validate_id (trim (sk_key_id k)) ''signing key id'') (\<lambda>_.
     if sk_algorithm k \<noteq> DECISION_SIGNING_ALGORITHM then Inl (bad_request ''unsupported signing key algorithm'')
     else if trim (sk_public_key k) = [] then Inl (bad_request ''signing public key is required'')
     else bind_res (validate_device_public_key X (trim (sk_public_key k))) (\<lambda>_.
       Inr \<lparr>sk_key_id = trim (sk_key_id k), sk_algorithm = sk_algorithm k,
            sk_public_key = trim (sk_public_key k)\<rparr>)))"

definition normalized_push_registration ::
  "enroll_body \<Rightarrow> (rstr option \<times> rstr option \<times> rstr option) api_result" where
  \<comment> \<open>native app id, provider and token\<close>
  "normalized_push_registration req =
     bind_res (normalized_native_app_id (en_native_app_id req)) (\<lambda>app.
     case (nonempty_trim (en_push_provider req), nonempty_trim (en_push_token req)) of
       (Some p, Some t) \<Rightarrow>
         if app = None then Inl (bad_request ''native app id is required for push registration'')
         else Inr (app, Some p, Some t)
     | (None, None) \<Rightarrow> Inr (app, None, None)
     | (Some _, None) \<Rightarrow> Inl (bad_request ''push token is required'')
     | (None, Some _) \<Rightarrow> Inl (bad_request ''push provider is required''))"

definition insert_device :: "db \<Rightarrow> device_row \<Rightarrow> db api_result" where
  "insert_device s d =
     (if list_ex (\<lambda>w. dv_id w = dv_id d \<or> dv_token_hash w = dv_token_hash d) (t_devices s) \<or>
         \<not> list_ex (\<lambda>u. us_id u = dv_user_id d) (t_users s) \<or> \<not> push_columns_ok d
      then Inl database_error
      else Inr (s\<lparr>t_devices := t_devices s @ [d]\<rparr>))"

record enroll_response =
  er_device_id :: rstr
  er_user_id :: rstr
  er_user_name :: rstr
  er_token :: rstr
  er_channels :: "channel list"
  er_devices :: "user_device list"

definition used_code :: string where "used_code = ''enrollment code is expired or already used''"

text \<open>
  The transaction of \<open>enroll_device\<close>: the code is looked up, checked against the clock in
  nanoseconds and consumed, and the device is inserted.
\<close>

definition enroll_transaction ::
  "ext \<Rightarrow> db \<Rightarrow> enroll_body \<Rightarrow> rstr option \<times> rstr option \<times> rstr option \<Rightarrow> signing_key_body \<Rightarrow> env \<Rightarrow>
   (device_row \<times> rstr \<times> db) api_result" where
  "enroll_transaction X s req push key E =
     (let h = hash_secret X (trim (en_code req)); now = e_now E 0; now_text = millis now in
      bind_res (ok_or NotFound (List.find (\<lambda>c. ec_code_hash c = h) (t_codes s))) (\<lambda>c.
      if ec_consumed_at c \<noteq> None \<or> of_millis (ec_expires_at c) \<le> now then Inl (conflict used_code)
      else bind_res (get_user s (ec_user_id c)) (\<lambda>u.
      let P = (\<lambda>c. ec_code_hash c = h \<and> ec_consumed_at c = None) in
      if sql_count P (t_codes s) = 0 then Inl (conflict used_code)
      else
        let s1 = s\<lparr>t_codes := sql_update P (\<lambda>c. c\<lparr>ec_consumed_at := Some now_text\<rparr>) (t_codes s)\<rparr>;
            d = \<lparr>dv_id = e_id E 0, dv_user_id = ec_user_id c, dv_name = trim (en_device_name req),
              dv_platform = en_platform req, dv_native_app_id = fst push,
              dv_token_hash = hash_secret X (generate_token ''nod_device'' E),
              dv_push_provider = fst (snd push), dv_push_token = snd (snd push),
              dv_signing_key_id = Some (sk_key_id key),
              dv_signing_key_algorithm = Some (sk_algorithm key),
              dv_signing_public_key = Some (sk_public_key key), dv_revoked_at = None,
              dv_notification_sound = lit ''default'', dv_preferences = default_preferences,
              dv_last_seen_at = now_text, dv_created_at = now_text\<rparr>
        in bind_res (insert_device s1 d) (\<lambda>s2. Inr (d, us_name u, s2)))))"

definition enroll_device :: "ext \<Rightarrow> db \<Rightarrow> enroll_body \<Rightarrow> env \<Rightarrow> enroll_response outcome" where
  "enroll_device X s req E =
     (if trim (en_device_name req) = [] then (Inl (bad_request ''device name is required''), s)
      else case bind_res (normalized_push_registration req) (\<lambda>push.
           bind_res (normalized_signing_key X (en_signing_key req)) (\<lambda>key.
           enroll_transaction X s req push key E)) of
          Inl e \<Rightarrow> (Inl e, s)
        | Inr (d, user_name, s1) \<Rightarrow>
            (bind_res (list_channels_for_device s1 (dv_id d)) (\<lambda>channels.
             bind_res (list_user_devices s1 (dv_user_id d) (dv_id d)) (\<lambda>devices.
             Inr \<lparr>er_device_id = dv_id d, er_user_id = dv_user_id d, er_user_name = user_name,
               er_token = generate_token ''nod_device'' E, er_channels = channels,
               er_devices = devices\<rparr>)), s1))"

end
