(* ===== verification/Accounts_Inv.thy ===== *)
theory Accounts_Inv
  imports Devices
begin

text \<open>
  The invariant of the account tables, preserved by every operation on them: keys, foreign keys, an
  active device belongs to an active user and has a signing key, and consumed codes, revoked
  devices, deleted users and revoked tokens stay so.
\<close>

section \<open>Upserts\<close>

lemma map_key_upsert:
  assumes "\<And>r. P r \<Longrightarrow> k (f r) = k r"
  shows "map k (sql_upsert P f r t) = (if list_ex P t then map k t else map k t @ [k r])"
  using assms by (simp add: sql_upsert_def map_sql_update_frame)

lemma distinct_upsert:
  assumes "distinct (map k t)" "\<And>r. P r \<longleftrightarrow> k r = x" "\<And>r. k (f r) = k r" "k r = x"
  shows "distinct (map k (sql_upsert P f r t))"
  using assms by (auto simp: map_key_upsert list_ex_iff)

lemma ball_upsert:
  "\<forall>r \<in> set t. Q r \<Longrightarrow> (\<And>r. r \<in> set t \<Longrightarrow> Q r \<Longrightarrow> P r \<Longrightarrow> Q (f r)) \<Longrightarrow> Q r \<Longrightarrow> \<forall>r \<in> set (sql_upsert P f r t). Q r"
  by (auto simp: sql_upsert_def set_sql_update)

lemma image_key_upsert:
  "(\<And>r. P r \<Longrightarrow> k (f r) = k r) \<Longrightarrow> k ` set t \<subseteq> k ` set (sql_upsert P f r t)"
  by (metis (no_types, lifting) list.set_map map_key_upsert set_append subset_refl sup_ge1)

lemma image_key_update: "(\<And>r. P r \<Longrightarrow> k (f r) = k r) \<Longrightarrow> k ` set (sql_update P f t) = k ` set t"
  by (metis list.set_map map_sql_update_frame)

lemma list_ex_key: "list_ex (\<lambda>r. k r = x) t \<longleftrightarrow> x \<in> k ` set t"
  by (induction t) auto

lemma list_ex_key2: "list_ex (\<lambda>r. k r = x \<or> l r = y) t \<longleftrightarrow> x \<in> k ` set t \<or> y \<in> l ` set t"
  by (induction t) auto

lemma image_others: "x \<in> k ` {r \<in> A. k r \<noteq> y} \<longleftrightarrow> x \<in> k ` A \<and> x \<noteq> y"
  by auto

section \<open>The invariant\<close>

definition live_users :: "db \<Rightarrow> rstr set" where
  "live_users s = us_id ` {u \<in> set (t_users s). us_deleted_at u = None}"

definition preferences_ok :: "device_preferences \<Rightarrow> bool" where
  "preferences_ok p \<longleftrightarrow> length (dp_muted_channels p) \<le> 100 \<and> sorted (dp_muted_channels p) \<and>
     distinct (dp_muted_channels p) \<and>
     (\<forall>c \<in> set (dp_muted_channels p). validate_id c ''muted channel id'' = Inr ())"

definition device_ok :: "rstr set \<Rightarrow> rstr set \<Rightarrow> device_row \<Rightarrow> bool" where
  "device_ok users live d \<longleftrightarrow> dv_user_id d \<in> users \<and> (dv_revoked_at d = None \<longrightarrow> dv_user_id d \<in> live) \<and>
     push_columns_ok d \<and> nonblank_text (dv_signing_public_key d) \<and> nonblank_text (dv_signing_key_id d) \<and>
     preferences_ok (dv_preferences d)"

definition devices_ok :: "db \<Rightarrow> bool" where
  "devices_ok s \<longleftrightarrow> distinct (map dv_id (t_devices s)) \<and> distinct (map dv_token_hash (t_devices s)) \<and>
     (\<forall>d \<in> set (t_devices s). device_ok (us_id ` set (t_users s)) (live_users s) d)"

definition memberships_ok :: "db \<Rightarrow> bool" where
  "memberships_ok s \<longleftrightarrow>
     distinct (map (\<lambda>b. (sb_user_id b, sb_channel_id b)) (t_subscriptions s)) \<and>
     distinct (map (\<lambda>c. (uc_user_id c, uc_channel_id c)) (t_clears s)) \<and>
     (\<forall>b \<in> set (t_subscriptions s). sb_user_id b \<in> us_id ` set (t_users s) \<and>
        sb_channel_id b \<in> ch_id ` set (t_channels s)) \<and>
     (\<forall>c \<in> set (t_clears s). uc_user_id c \<in> us_id ` set (t_users s) \<and>
        uc_channel_id c \<in> ch_id ` set (t_channels s))"

definition credentials_ok :: "db \<Rightarrow> bool" where
  "credentials_ok s \<longleftrightarrow> distinct (map ec_code_hash (t_codes s)) \<and>
     (\<forall>c \<in> set (t_codes s). ec_user_id c \<in> us_id ` set (t_users s)) \<and>
     distinct (map it_id (t_issuers s)) \<and> distinct (map it_token_hash (t_issuers s)) \<and>
     distinct (map (\<lambda>a. (at_device_id a, at_provider a)) (t_attestations s)) \<and>
     (\<forall>a \<in> set (t_attestations s). at_device_id a \<in> dv_id ` set (t_devices s))"

definition accounts_inv :: "db \<Rightarrow> bool" where
  "accounts_inv s \<longleftrightarrow> distinct (map ch_id (t_channels s)) \<and> distinct (map us_id (t_users s)) \<and>
     devices_ok s \<and> memberships_ok s \<and> credentials_ok s"

lemmas accounts_parts = accounts_inv_def devices_ok_def memberships_ok_def credentials_ok_def

text \<open>The tables the invariant reads, for operations that leave them alone.\<close>

definition accounts_of :: "db \<Rightarrow> channel_row list \<times> user_row list \<times> device_row list \<times> attestation_row list \<times>
    issuer_row list \<times> code_row list \<times> subscription_row list \<times> clear_row list" where
  "accounts_of s = (t_channels s, t_users s, t_devices s, t_attestations s, t_issuers s, t_codes s,
     t_subscriptions s, t_clears s)"

lemma accounts_frame: "accounts_of s' = accounts_of s \<Longrightarrow> accounts_inv s' \<longleftrightarrow> accounts_inv s"
  by (simp add: accounts_of_def accounts_parts live_users_def)

lemma device_ok_mono: "device_ok us live d \<Longrightarrow> us \<subseteq> us' \<Longrightarrow> live \<subseteq> live' \<Longrightarrow> device_ok us' live' d"
  by (auto simp: device_ok_def)

section \<open>Users, channels, subscriptions\<close>

text \<open>More users or channels, or the same with other columns, keep the rest valid.\<close>

lemma accounts_more:
  assumes inv: "accounts_inv s"
    and users: "distinct (map us_id (t_users s'))" "us_id ` set (t_users s) \<subseteq> us_id ` set (t_users s')"
      "live_users s \<subseteq> live_users s'"
    and channels: "distinct (map ch_id (t_channels s'))" "ch_id ` set (t_channels s) \<subseteq> ch_id ` set (t_channels s')"
    and same: "t_devices s' = t_devices s" "t_subscriptions s' = t_subscriptions s" "t_clears s' = t_clears s"
      "t_codes s' = t_codes s" "t_issuers s' = t_issuers s" "t_attestations s' = t_attestations s"
  shows "accounts_inv s'"
proof -
  have "devices_ok s'"
    using inv device_ok_mono users unfolding accounts_inv_def devices_ok_def same by blast
  moreover have "memberships_ok s'"
    using inv users(2) channels(2) unfolding accounts_inv_def memberships_ok_def same by blast
  moreover have "credentials_ok s'"
    using inv users(2) unfolding accounts_inv_def credentials_ok_def same by blast
  ultimately show ?thesis using users channels by (simp add: accounts_inv_def)
qed

lemma accounts_channels:
  assumes "accounts_inv s" "distinct (map ch_id t)" "ch_id ` set (t_channels s) \<subseteq> ch_id ` set t"
  shows "accounts_inv (s\<lparr>t_channels := t\<rparr>)"
  using assms by (intro accounts_more [OF assms(1)]) (auto simp: accounts_inv_def live_users_def)

lemma accounts_users:
  assumes "accounts_inv s" "distinct (map us_id t)" "us_id ` set (t_users s) \<subseteq> us_id ` set t"
    "\<And>u. u \<in> set (t_users s) \<Longrightarrow> us_deleted_at u = None \<Longrightarrow> \<exists>v \<in> set t. us_id v = us_id u \<and> us_deleted_at v = None"
  shows "accounts_inv (s\<lparr>t_users := t\<rparr>)"
  using assms by (intro accounts_more [OF assms(1)]) (auto simp: accounts_inv_def live_users_def image_iff, metis)

lemma accounts_subscriptions:
  assumes "accounts_inv s" "distinct (map (\<lambda>b. (sb_user_id b, sb_channel_id b)) t)"
    "\<And>b. b \<in> set t \<Longrightarrow> sb_user_id b \<in> us_id ` set (t_users s) \<and> sb_channel_id b \<in> ch_id ` set (t_channels s)"
  shows "accounts_inv (s\<lparr>t_subscriptions := t\<rparr>)"
  using assms by (simp add: accounts_parts live_users_def)

lemma accounts_create_channel:
  assumes "accounts_inv s"
  shows "accounts_inv (snd (create_channel X s req now))"
proof (cases "validate_id (ccb_id req) ''channel id''")
  case (Inr u)
  let ?row = "\<lparr>ch_id = ccb_id req, ch_name = trim (ccb_name req),
    ch_emoji = normalized_emoji X (ccb_emoji req), ch_created_at = now_string now\<rparr>"
  let ?t = "sql_upsert (\<lambda>c. ch_id c = ccb_id req) (\<lambda>c. c\<lparr>ch_name := trim (ccb_name req),
    ch_emoji := normalized_emoji X (ccb_emoji req)\<rparr>) ?row (t_channels s)"
  have "accounts_inv (s\<lparr>t_channels := ?t\<rparr>)"
  proof (rule accounts_channels [OF assms])
    show "distinct (map ch_id ?t)"
      using assms by (intro distinct_upsert [where x = "ccb_id req"]) (simp_all add: accounts_inv_def)
    show "ch_id ` set (t_channels s) \<subseteq> ch_id ` set ?t" by (rule image_key_upsert) simp
  qed
  with assms show ?thesis by (simp add: create_channel_def Inr Let_def)
qed (simp add: create_channel_def assms)

lemma accounts_delete_requests: "accounts_of (delete_requests s P) = accounts_of s"
  by (simp add: accounts_of_def delete_requests_def Let_def)

lemma accounts_delete_channel:
  assumes "accounts_inv s" "delete_channel s cid = Inr s'"
  shows "accounts_inv s'"
proof -
  have "t_channels (delete_requests s P) = t_channels s" "t_users (delete_requests s P) = t_users s"
    "t_devices (delete_requests s P) = t_devices s" "t_clears (delete_requests s P) = t_clears s"
    "t_subscriptions (delete_requests s P) = t_subscriptions s" "t_codes (delete_requests s P) = t_codes s"
    "t_issuers (delete_requests s P) = t_issuers s" "t_attestations (delete_requests s P) = t_attestations s" for P
    by (simp_all add: delete_requests_def Let_def)
  note same = this
  let ?s = "delete_requests s (\<lambda>w. rq_channel_id w = cid)"
  from assms(2) have s': "s' = ?s\<lparr>t_clears := sql_delete (\<lambda>c. uc_channel_id c = cid) (t_clears s),
      t_subscriptions := sql_delete (\<lambda>b. sb_channel_id b = cid) (t_subscriptions s),
      t_channels := sql_delete (\<lambda>c. ch_id c = cid) (t_channels s)\<rparr>"
    by (auto simp: delete_channel_def Let_def res_simps same split: if_splits)
  have "memberships_ok s'"
    using assms(1) by (simp add: s' same accounts_inv_def memberships_ok_def image_others
        set_sql_delete distinct_map_sql_delete)
  moreover have "distinct (map ch_id (t_channels s'))"
    using assms(1) by (simp add: s' accounts_inv_def sql_delete_def distinct_map_filter)
  moreover have "devices_ok s'" "credentials_ok s'" "distinct (map us_id (t_users s'))"
    using assms(1) by (simp_all add: s' same accounts_inv_def devices_ok_def credentials_ok_def live_users_def)
  ultimately show ?thesis by (simp add: accounts_inv_def)
qed

lemma get_channel_ok: "get_channel s cid = Inr c \<Longrightarrow> c \<in> set (t_channels s) \<and> ch_id c = cid"
  by (auto simp: get_channel_def dest: find_SomeD)

lemma accounts_set_user_subscription:
  assumes "accounts_inv s" "set_user_subscription s uid channel b now = Inr s'"
  shows "accounts_inv s'"
proof -
  from assms(2) obtain u c where uc: "get_user s uid = Inr u" "get_channel s channel = Inr c"
    and s': "s' = s\<lparr>t_subscriptions := sql_upsert (subscription_key uid channel)
       (\<lambda>r. r\<lparr>sb_subscribed := b, sb_updated_at := now_string now\<rparr>)
       \<lparr>sb_user_id = uid, sb_channel_id = channel, sb_subscribed = b,
        sb_updated_at = now_string now\<rparr> (t_subscriptions s)\<rparr>"
    by (auto simp: set_user_subscription_def res_simps)
  show ?thesis unfolding s'
  proof (rule accounts_subscriptions [OF assms(1)], goal_cases)
    case 1
    show ?case using assms(1)
      by (intro distinct_upsert [where x = "(uid, channel)"])
        (auto simp: accounts_parts subscription_key_def)
  next
    case (2 r)
    moreover have "uid \<in> us_id ` set (t_users s)" "channel \<in> ch_id ` set (t_channels s)"
      using get_user_ok [OF uc(1)] get_channel_ok [OF uc(2)] by auto
    ultimately show ?case
      using assms(1) by (auto simp: accounts_parts sql_upsert_def set_sql_update split: if_splits)
  qed
qed

lemma accounts_clear_channel:
  assumes "accounts_inv s" "clear_channel s did channel now = Inr s'"
  shows "accounts_inv s'"
proof -
  from assms(2) obtain d c where dc: "get_device s did = Inr d" "get_channel s channel = Inr c"
    "dv_user_id d \<in> us_id ` set (t_users s)"
    and s': "s' = s\<lparr>t_clears := sql_upsert (\<lambda>c. uc_user_id c = dv_user_id d \<and> uc_channel_id c = channel)
       (\<lambda>c. c\<lparr>uc_cleared_at := now_string now\<rparr>)
       \<lparr>uc_user_id = dv_user_id d, uc_channel_id = channel, uc_cleared_at = now_string now\<rparr> (t_clears s)\<rparr>"
    by (auto simp: clear_channel_def res_simps list_ex_key split: if_splits)
  let ?t = "sql_upsert (\<lambda>c. uc_user_id c = dv_user_id d \<and> uc_channel_id c = channel)
       (\<lambda>c. c\<lparr>uc_cleared_at := now_string now\<rparr>)
       \<lparr>uc_user_id = dv_user_id d, uc_channel_id = channel, uc_cleared_at = now_string now\<rparr> (t_clears s)"
  have "distinct (map (\<lambda>c. (uc_user_id c, uc_channel_id c)) ?t)"
    using assms(1) by (intro distinct_upsert [where x = "(dv_user_id d, channel)"])
      (auto simp: accounts_parts)
  moreover have "\<forall>c \<in> set ?t. uc_user_id c \<in> us_id ` set (t_users s) \<and> uc_channel_id c \<in> ch_id ` set (t_channels s)"
    using assms(1) dc(3) get_channel_ok [OF dc(2)]
    by (auto simp: accounts_parts sql_upsert_def set_sql_update split: if_splits)
  ultimately show ?thesis using assms(1) by (simp add: s' accounts_parts live_users_def)
qed

lemma accounts_apply_subscriptions:
  "accounts_inv s \<Longrightarrow> accounts_inv (snd (apply_subscriptions s uid us E n))"
  by (induction s uid us E n rule: apply_subscriptions.induct)
    (auto split: sum.split dest: accounts_set_user_subscription)

lemma accounts_update_subscriptions:
  "accounts_inv s \<Longrightarrow> accounts_inv (snd (update_user_subscriptions_for_admin s uid us E))"
  using accounts_apply_subscriptions [of s uid us E 0]
  by (auto simp: update_user_subscriptions_for_admin_def split: sum.split prod.split)

lemma accounts_set_users:
  assumes "accounts_inv s" "\<And>u. P u \<Longrightarrow> us_id (f u) = us_id u \<and> us_deleted_at (f u) = us_deleted_at u"
  shows "accounts_inv (s\<lparr>t_users := sql_update P f (t_users s)\<rparr>)"
proof (rule accounts_users [OF assms(1)])
  show "distinct (map us_id (sql_update P f (t_users s)))"
    using assms by (simp add: map_sql_update_frame accounts_inv_def)
  show "us_id ` set (t_users s) \<subseteq> us_id ` set (sql_update P f (t_users s))"
    using assms(2) by (simp add: image_key_update)
  show "\<exists>v \<in> set (sql_update P f (t_users s)). us_id v = us_id u \<and> us_deleted_at v = None"
    if "u \<in> set (t_users s)" "us_deleted_at u = None" for u
    using that assms(2) [of u] by (auto simp: set_sql_update)
qed

lemma accounts_upsert_user:
  assumes "accounts_inv s"
  shows "accounts_inv (snd (upsert_user s uid name now))"
proof (cases "list_ex (\<lambda>u. us_id u = uid) (t_users s)")
  case True
  with accounts_set_users [OF assms] show ?thesis by (simp add: upsert_user_def Let_def)
next
  case False
  with assms have "accounts_inv (s\<lparr>t_users := t_users s @ [\<lparr>us_id = uid, us_name = name, us_created_at = now,
        us_updated_at = now, us_deleted_at = None\<rparr>]\<rparr>)"
    by (intro accounts_users [OF assms]) (auto simp: accounts_inv_def list_ex_iff)
  with False show ?thesis by (simp add: upsert_user_def)
qed

lemma accounts_subscribe_default:
  assumes "accounts_inv s" "subscribe_default s uid now = Inr s'"
  shows "accounts_inv s'"
proof (cases "list_ex (subscription_key uid default_channel) (t_subscriptions s)")
  case False
  with assms(2) have s': "s' = s\<lparr>t_subscriptions := t_subscriptions s @ [\<lparr>sb_user_id = uid,
        sb_channel_id = default_channel, sb_subscribed = True, sb_updated_at = now\<rparr>]\<rparr>"
    and ex: "uid \<in> us_id ` set (t_users s)" "default_channel \<in> ch_id ` set (t_channels s)"
    by (auto simp: subscribe_default_def list_ex_key split: if_splits)
  show ?thesis unfolding s'
    by (rule accounts_subscriptions [OF assms(1)])
      (use assms(1) ex False in \<open>auto simp: accounts_parts list_ex_iff subscription_key_def\<close>)
qed (use assms in \<open>simp add: subscribe_default_def\<close>)

lemma accounts_create_user:
  assumes "accounts_inv s"
  shows "accounts_inv (snd (create_user s uid name E))"
  using assms accounts_upsert_user [OF assms, of uid "trim name" "now_string (e_now E 0)"]
  by (auto simp: create_user_def dest: accounts_subscribe_default split: sum.split prod.split)

lemma accounts_update_user:
  assumes "accounts_inv s"
  shows "accounts_inv (snd (update_user s uid name now))"
  using assms accounts_set_users [OF assms, of "\<lambda>u. us_id u = uid \<and> us_deleted_at u = None"
    "\<lambda>u. u\<lparr>us_name := trim name, us_updated_at := now_string now\<rparr>"]
  by (auto simp: update_user_def Let_def split: sum.split)

text \<open>A user without active devices can go: its remaining devices are all revoked.\<close>

lemma accounts_delete_user:
  assumes "accounts_inv s" "delete_user s uid now = Inr s'"
  shows "accounts_inv s'"
proof -
  let ?P = "\<lambda>u. us_id u = uid \<and> us_deleted_at u = None"
  let ?f = "\<lambda>u. u\<lparr>us_deleted_at := Some (now_string now)\<rparr>"
  from assms(2) have s': "s' = s\<lparr>t_users := sql_update ?P ?f (t_users s)\<rparr>"
    and none: "\<forall>d \<in> set (t_devices s). \<not> (dv_user_id d = uid \<and> dv_revoked_at d = None)"
    by (auto simp: delete_user_def Let_def res_simps split: if_splits)
  have ids: "us_id ` set (t_users s') = us_id ` set (t_users s)" "map us_id (t_users s') = map us_id (t_users s)"
    by (simp_all add: s' image_key_update map_sql_update_frame)
  have live: "v \<in> live_users s \<Longrightarrow> v \<noteq> uid \<Longrightarrow> v \<in> live_users s'" for v
    unfolding live_users_def s' by (force simp: set_sql_update image_iff)
  have "device_ok (us_id ` set (t_users s')) (live_users s') d" if "d \<in> set (t_devices s)" for d
    using that assms(1) none live unfolding accounts_inv_def devices_ok_def device_ok_def ids by metis
  moreover have "t_devices s' = t_devices s" by (simp add: s')
  ultimately have "devices_ok s'" using assms(1) by (simp add: accounts_inv_def devices_ok_def)
  moreover have "memberships_ok s'" "credentials_ok s'"
    using assms(1) by (simp_all add: accounts_inv_def memberships_ok_def credentials_ok_def s' image_key_update)
  moreover have "t_channels s' = t_channels s" by (simp add: s')
  ultimately show ?thesis using assms(1) by (simp add: accounts_inv_def ids)
qed

end
