(* ===== verification/Create.thy ===== *)
theory Create
  imports Lifecycle
begin

text \<open>
  Creating a request (nod-server db/requests/create.rs): validation, idempotency replay, recipient
  resolution, dedupe against the pending request, and the inserts, in one transaction. A failure
  leaves the database as it was; that is the \<open>Inl\<close> result.
\<close>

section \<open>Inputs\<close>

record create_metadata =
  cm_origin :: "origin option"
  cm_issuer :: "rstr option"
  cm_idempotency_key :: "rstr option"

record created_request =
  cd_request_id :: rstr
  cd_deduped :: bool
  cd_request :: decision_request

definition json_create_request :: "ext \<Rightarrow> create_request_body \<Rightarrow> json" where
  "json_create_request X req = JObj
     ((case c_answer_field req of None \<Rightarrow> [] | Some f \<Rightarrow> [(lit ''answer_field'', json_answer_field f)]) @
      [(lit ''channel_id'', JStr (c_channel_id req)),
       (lit ''recipients'', json_opt (\<lambda>us. JArr (map JStr us)) (c_recipients req)),
       (lit ''decision_resolution'',
          json_opt (\<lambda>d. JStr (decision_resolution_str d)) (c_resolution req)),
       (lit ''title'', JStr (c_title req)), (lit ''summary'', JStr (c_summary req)),
       (lit ''body_markdown'', JStr (c_body req)),
       (lit ''fields'', JArr (map json_card_field (c_fields req))),
       (lit ''links'', JArr (map json_card_link (c_links req))),
       (lit ''image_url'', json_opt JStr (c_image_url req)),
       (lit ''notification'', json_notification (c_notification req)),
       (lit ''dedupe_key'', json_opt JStr (c_dedupe_key req)),
       (lit ''expires_at'', json_opt (\<lambda>t. JStr (x_fmt_serde X t)) (c_expires_at req)),
       (lit ''options'', JArr (map json_request_option (c_options req))),
       (lit ''callback_url'', json_opt JStr (c_callback_url req))])"

definition json_origin :: "origin \<Rightarrow> json" where
  "json_origin g = JObj [(lit ''session'', JStr (og_session g)), (lit ''directory'', JStr (og_directory g)),
     (lit ''reference'', json_opt JStr (og_reference g))]"

definition request_fingerprint :: "ext \<Rightarrow> create_request_body \<Rightarrow> origin option \<Rightarrow> rstr api_result" where
  "request_fingerprint X req org =
     (let legacy = sha256_02x X (utf8 (x_ser X (json_create_request X req))) in
      case org of
        None \<Rightarrow> Inr legacy
      | Some g \<Rightarrow>
          bind_res (origin_validate g) (\<lambda>_.
          Inr (lit ''origin-v1:'' @ sha256_02x X (utf8 (x_ser X
            (JArr [JStr (lit ''origin-v1''), JStr legacy, json_origin g]))))))"

section \<open>Recipients and dedupe\<close>

definition user_active :: "db \<Rightarrow> rstr \<Rightarrow> bool" where
  "user_active s uid \<longleftrightarrow> list_ex (\<lambda>u. us_id u = uid \<and> us_deleted_at u = None) (t_users s)"

fun resolve_named :: "db \<Rightarrow> rstr list \<Rightarrow> rstr list \<Rightarrow> rstr list api_result" where
  "resolve_named s acc [] = Inr acc"
| "resolve_named s acc (u0 # us) =
     (let u = trim u0 in
      bind_res (validate_id u ''user id'') (\<lambda>_.
      if \<not> user_active s u then Inl NotFound
      else resolve_named s (if u \<in> set acc then acc else acc @ [u]) us))"

definition channel_subscribers :: "db \<Rightarrow> rstr \<Rightarrow> rstr list" where
  "channel_subscribers s channel = sort (map sb_user_id
     (filter (\<lambda>b. sb_channel_id b = channel \<and> sb_subscribed b \<and> user_active s (sb_user_id b))
       (t_subscriptions s)))"

definition resolve_request_recipients :: "db \<Rightarrow> rstr \<Rightarrow> rstr list option \<Rightarrow> rstr list api_result" where
  "resolve_request_recipients s channel requested =
     (case requested of
        Some us \<Rightarrow> if us = [] then Inl (bad_request ''recipients must not be empty when provided'')
                   else resolve_named s [] us
      | None \<Rightarrow> Inr (channel_subscribers s channel))"

definition pending_with_key :: "rstr \<Rightarrow> rstr \<Rightarrow> request_row \<Rightarrow> bool" where
  "pending_with_key channel key w \<longleftrightarrow>
     rq_channel_id w = channel \<and> rq_dedupe_key w = Some key \<and> rq_status w = Pending"

definition find_pending_request_by_dedupe_key ::
  "ext \<Rightarrow> db \<Rightarrow> rstr \<Rightarrow> rstr \<Rightarrow> decision_request option api_result" where
  "find_pending_request_by_dedupe_key X s channel key =
     (case List.find (pending_with_key channel key) (t_requests s) of
        None \<Rightarrow> Inr None
      | Some w \<Rightarrow> bind_res (get_request_on X s (rq_id w)) (\<lambda>r. Inr (Some r)))"

text \<open>A value request is only deduplicated against the same content.\<close>

definition same_value_content ::
  "db \<Rightarrow> create_request_body \<Rightarrow> origin option \<Rightarrow> rstr list \<Rightarrow> decision_request \<Rightarrow> bool" where
  "same_value_content s req org recipients r \<longleftrightarrow>
     c_answer_field req = r_answer_field r \<and> trim (c_title req) = r_title r \<and>
     trim (summary_of req) = r_summary r \<and> trim (c_body req) = r_body r \<and>
     c_fields req = r_fields r \<and> c_links req = r_links r \<and> c_image_url req = r_image_url r \<and>
     normalized_notification (c_notification req) = r_notification r \<and>
     c_expires_at req = r_expires_at r \<and> c_callback_url req = r_callback_url r \<and>
     normalize_options (c_options req) = r_options r \<and> recipients = r_recipients r \<and>
     request_resolution req = r_resolution r \<and> origin_on s (r_id r) = org"

section \<open>Inserts\<close>

definition bind_idempotency ::
  "db \<Rightarrow> rstr \<Rightarrow> rstr \<Rightarrow> rstr option \<Rightarrow> rstr \<Rightarrow> rstr \<Rightarrow> db api_result" where
  "bind_idempotency s scope channel key fingerprint rid =
     (case key of
        None \<Rightarrow> Inr s
      | Some k \<Rightarrow>
          if list_ex (\<lambda>w. ik_scope w = scope \<and> ik_channel_id w = channel \<and> ik_key w = k) (t_idempotency s)
          then Inl database_error
          else Inr (s\<lparr>t_idempotency := t_idempotency s @ [\<lparr>ik_scope = scope, ik_channel_id = channel,
            ik_key = k, ik_fingerprint = fingerprint, ik_request_id = rid\<rparr>]\<rparr>))"

definition new_request_row ::
  "create_request_body \<Rightarrow> create_metadata \<Rightarrow> rstr \<Rightarrow> instant \<Rightarrow> rstr \<Rightarrow> request_row" where
  "new_request_row req m rid now salt =
     \<lparr>rq_id = rid, rq_channel_id = c_channel_id req, rq_title = trim (c_title req),
      rq_summary = trim (summary_of req), rq_body = trim (c_body req), rq_fields = c_fields req,
      rq_links = c_links req, rq_image_url = c_image_url req,
      rq_notification = normalized_notification (c_notification req),
      rq_dedupe_key = c_dedupe_key req, rq_expires_at = map_option millis (c_expires_at req),
      rq_status = Pending, rq_created_at = now_string now, rq_updated_at = now_string now,
      rq_resolved_at = None, rq_decision = None, rq_callback_url = c_callback_url req,
      rq_resolution = request_resolution req, rq_recipient_salt = salt,
      rq_explicit_recipients = (c_recipients req \<noteq> None), rq_revision = 0,
      rq_created_by = cm_issuer m, rq_answer_field = c_answer_field req\<rparr>"

definition insert_request :: "db \<Rightarrow> request_row \<Rightarrow> db api_result" where
  \<comment> \<open>primary key, the partial unique index on pending dedupe keys, and the two foreign keys\<close>
  "insert_request s w =
     (if list_ex (\<lambda>v. rq_id v = rq_id w \<or>
           (\<exists>k \<in> set_option (rq_dedupe_key w). rq_status w = Pending \<and>
              pending_with_key (rq_channel_id w) k v)) (t_requests s) \<or>
         \<not> list_ex (\<lambda>c. ch_id c = rq_channel_id w) (t_channels s) \<or>
         (\<exists>i \<in> set_option (rq_created_by w). \<not> list_ex (\<lambda>t. it_id t = i) (t_issuers s))
      then Inl database_error
      else Inr (s\<lparr>t_requests := t_requests s @ [w]\<rparr>))"

fun insert_recipients :: "db \<Rightarrow> rstr \<Rightarrow> rstr list \<Rightarrow> db api_result" where
  "insert_recipients s rid [] = Inr s"
| "insert_recipients s rid (u # us) =
     (if list_ex (\<lambda>w. rr_request_id w = rid \<and> rr_user_id w = u) (t_recipients s) \<or>
         \<not> list_ex (\<lambda>w. us_id w = u) (t_users s)
      then Inl database_error
      else insert_recipients (s\<lparr>t_recipients := t_recipients s @ [\<lparr>rr_request_id = rid, rr_user_id = u\<rparr>]\<rparr>)
        rid us)"

fun insert_options :: "db \<Rightarrow> rstr \<Rightarrow> request_option list \<Rightarrow> db api_result" where
  "insert_options s rid [] = Inr s"
| "insert_options s rid (p # ps) =
     (if list_ex (\<lambda>w. ro_request_id w = rid \<and> o_id (ro_option w) = o_id p) (t_options s)
      then Inl database_error
      else insert_options (s\<lparr>t_options := t_options s @ [\<lparr>ro_request_id = rid, ro_option = p\<rparr>]\<rparr>) rid ps)"

definition sql_nonblank :: "rstr option \<Rightarrow> bool" where
  \<comment> \<open>\<open>v IS NOT NULL AND TRIM(v)!=''\<close>\<close>
  "sql_nonblank v \<longleftrightarrow> (case v of None \<Rightarrow> False | Some t \<Rightarrow> sql_trim t \<noteq> [])"

definition push_target :: "db \<Rightarrow> rstr \<Rightarrow> device_row \<Rightarrow> bool" where
  "push_target s rid d \<longleftrightarrow> dv_user_id d \<in> set (recipients_of s rid) \<and> dv_revoked_at d = None \<and>
     sql_nonblank (dv_push_token d) \<and> sql_nonblank (dv_native_app_id d)"

definition queue_pushes :: "db \<Rightarrow> rstr \<Rightarrow> instant \<Rightarrow> db api_result" where
  "queue_pushes s rid now =
     (let rows = map (\<lambda>d. \<lparr>pd_request_id = rid, pd_device_id = dv_id d, pd_status = lit ''queued'',
            pd_attempts = 0, pd_lease_until = None, pd_claim_generation = 0,
            pd_updated_at = now_string now, pd_error = None\<rparr>) (filter (push_target s rid) (t_devices s))
      in if list_ex (\<lambda>w. pd_request_id w = rid \<and> pd_device_id w \<in> pd_device_id ` set rows) (t_push s)
         then Inl database_error
         else Inr (s\<lparr>t_push := t_push s @ rows\<rparr>))"

definition insert_origin :: "db \<Rightarrow> rstr \<Rightarrow> origin option \<Rightarrow> db api_result" where
  "insert_origin s rid org =
     (case org of
        None \<Rightarrow> Inr s
      | Some g \<Rightarrow>
          if list_ex (\<lambda>w. or_request_id w = rid) (t_origins s) then Inl database_error
          else Inr (s\<lparr>t_origins := t_origins s @ [\<lparr>or_request_id = rid, or_origin = g\<rparr>]\<rparr>))"

section \<open>Creating\<close>

definition insert_new_request ::
  "ext \<Rightarrow> db \<Rightarrow> create_request_body \<Rightarrow> create_metadata \<Rightarrow> rstr list \<Rightarrow> rstr \<Rightarrow> rstr \<Rightarrow> rstr option \<Rightarrow> env \<Rightarrow>
   (created_request \<times> db) api_result" where
  "insert_new_request X s0 req m recipients scope fingerprint key E =
     (let now = e_now E 0; rid = e_id E 0 in
      bind_res (insert_request s0 (new_request_row req m rid now (e_salt E))) (\<lambda>s1.
      bind_res (insert_recipients s1 rid recipients) (\<lambda>s2.
      bind_res (insert_options s2 rid (normalize_options (c_options req))) (\<lambda>s3.
      bind_res (queue_pushes s3 rid now) (\<lambda>s4.
      bind_res (bind_idempotency s4 scope (c_channel_id req) key fingerprint rid) (\<lambda>s5.
      bind_res (get_request_on X s5 rid) (\<lambda>request.
      bind_res (insert_origin s5 rid (cm_origin m)) (\<lambda>s6.
      bind_res (append_lifecycle_on X s6 request KIND_CREATED None (e_id E 1) (e_now E 1)) (\<lambda>s7.
      Inr (\<lparr>cd_request_id = rid, cd_deduped = False, cd_request = request\<rparr>, s7))))))))))"

definition reuse_pending ::
  "db \<Rightarrow> create_request_body \<Rightarrow> create_metadata \<Rightarrow> rstr list \<Rightarrow> rstr \<Rightarrow> rstr \<Rightarrow> rstr option \<Rightarrow>
   decision_request \<Rightarrow> (created_request \<times> db) api_result" where
  "reuse_pending s req m recipients scope fingerprint key r =
     (if (c_answer_field req \<noteq> None \<or> r_answer_field r \<noteq> None) \<and>
         \<not> same_value_content s req (cm_origin m) recipients r
      then Inl (conflict ''pending value request has different content'')
      else if cm_origin m \<noteq> None \<and> origin_on s (r_id r) \<noteq> cm_origin m
      then Inl (conflict ''pending request has a different origin binding'')
      else bind_res (bind_idempotency s scope (c_channel_id req) key fingerprint (r_id r)) (\<lambda>s'.
        Inr (\<lparr>cd_request_id = r_id r, cd_deduped = True, cd_request = r\<rparr>, s')))"

definition create_request ::
  "ext \<Rightarrow> db \<Rightarrow> create_request_body \<Rightarrow> create_metadata \<Rightarrow> env \<Rightarrow> (created_request \<times> db) api_result" where
  "create_request X s req m E =
     bind_res (validate_request X req) (\<lambda>_.
     bind_res (validate_options (c_options req)) (\<lambda>_.
     let key = map_option trim (cm_idempotency_key m) in
     if (case key of None \<Rightarrow> False | Some k \<Rightarrow> k = [] \<or> strlen k > 128)
     then Inl (bad_request ''idempotency_key must contain 1 to 128 bytes'')
     else bind_res (request_fingerprint X req (cm_origin m)) (\<lambda>fingerprint.
     let scope = (case cm_issuer m of None \<Rightarrow> lit ''admin'' | Some i \<Rightarrow> i);
         replayed = (case key of None \<Rightarrow> None | Some k \<Rightarrow>
           List.find (\<lambda>w. ik_scope w = scope \<and> ik_channel_id w = c_channel_id req \<and> ik_key w = k)
             (t_idempotency s))
     in case replayed of
          Some row \<Rightarrow>
            if ik_fingerprint row \<noteq> fingerprint
            then Inl (conflict ''idempotency_key was already used for different request content'')
            else bind_res (get_request_on X s (ik_request_id row)) (\<lambda>r.
              Inr (\<lparr>cd_request_id = r_id r, cd_deduped = True, cd_request = r\<rparr>, s))
        | None \<Rightarrow>
            if \<not> list_ex (\<lambda>c. ch_id c = c_channel_id req) (t_channels s) then Inl NotFound
            else bind_res (resolve_request_recipients s (c_channel_id req) (c_recipients req)) (\<lambda>recipients.
            bind_res (case c_dedupe_key req of
                 None \<Rightarrow> Inr None
               | Some k \<Rightarrow> find_pending_request_by_dedupe_key X s (c_channel_id req) k) (\<lambda>pending.
            case pending of
              Some r \<Rightarrow> reuse_pending s req m recipients scope fingerprint key r
            | None \<Rightarrow> insert_new_request X s req m recipients scope fingerprint key E)))))"

end
