(* ===== verification/Requests_Inv.thy ===== *)
theory Requests_Inv
  imports Create Maintain
begin

text \<open>
  The invariant of the request tables and the journal, preserved by every operation: keys, one
  pending request per dedupe key, the agreement of a request's status, decisions and journal
  history, contiguous revisions, and single use of signature nonces.
\<close>

section \<open>The invariant\<close>

definition events_of :: "db \<Rightarrow> rstr \<Rightarrow> event_row list" where
  "events_of s rid = filter (\<lambda>e. ev_request_id e = rid) (t_events s)"

definition deciders :: "db \<Rightarrow> rstr \<Rightarrow> rstr list" where
  "deciders s rid = map rd_user_id (filter (\<lambda>d. rd_request_id d = rid) (t_decisions s))"

text \<open>
  The history a row must have: created, then one answer per decision, then the terminal event
  of a cancelled or expired request.
\<close>

definition answer_count :: "request_row \<Rightarrow> nat \<Rightarrow> nat" where
  "answer_count w n = (if rq_resolution w = PerUser then n else if rq_decision w = None then 0 else 1)"

definition expected_kinds :: "request_row \<Rightarrow> nat \<Rightarrow> rstr list" where
  "expected_kinds w n = KIND_CREATED # replicate (answer_count w n) KIND_ANSWER @
     (case rq_status w of Cancelled \<Rightarrow> [KIND_CANCELLED] | Expired \<Rightarrow> [KIND_EXPIRED] | _ \<Rightarrow> [])"

definition decisions_ok :: "request_row \<Rightarrow> rstr list \<Rightarrow> rstr list \<Rightarrow> bool" where
  "decisions_ok w recipients users \<longleftrightarrow>
     (rq_status w = Resolved \<longleftrightarrow> rq_resolved_at w \<noteq> None) \<and>
     (case rq_resolution w of
        Shared \<Rightarrow> users = [] \<and> (rq_status w = Resolved \<longleftrightarrow> rq_decision w \<noteq> None)
      | PerUser \<Rightarrow> rq_decision w = None \<and> distinct users \<and> set users \<subseteq> set recipients \<and>
          (rq_status w = Resolved \<longrightarrow> set recipients \<subseteq> set users) \<and>
          (rq_status w = Pending \<longrightarrow> recipients \<noteq> [] \<longrightarrow> \<not> set recipients \<subseteq> set users))"

definition row_ok :: "db \<Rightarrow> request_row \<Rightarrow> bool" where
  "row_ok s w \<longleftrightarrow>
     decisions_ok w (recipients_of s (rq_id w)) (deciders s (rq_id w)) \<and>
     map ev_kind (events_of s (rq_id w)) = expected_kinds w (length (deciders s (rq_id w))) \<and>
     rq_revision w = int (length (events_of s (rq_id w)))"

definition keys_ok :: "db \<Rightarrow> bool" where
  "keys_ok s \<longleftrightarrow> distinct (map rq_id (t_requests s)) \<and>
     distinct (map (\<lambda>w. (rr_request_id w, rr_user_id w)) (t_recipients s)) \<and>
     rr_request_id ` set (t_recipients s) \<subseteq> rq_id ` set (t_requests s) \<and>
     rd_request_id ` set (t_decisions s) \<subseteq> rq_id ` set (t_requests s)"

definition dedupe_ok :: "db \<Rightarrow> bool" where
  "dedupe_ok s \<longleftrightarrow> (\<forall>v \<in> set (t_requests s). \<forall>w \<in> set (t_requests s). \<forall>c k.
     pending_with_key c k v \<longrightarrow> pending_with_key c k w \<longrightarrow> v = w)"

definition revisions_ok :: "db \<Rightarrow> bool" where
  "revisions_ok s \<longleftrightarrow> (\<forall>rid. map ev_revision (events_of s rid) =
     map (\<lambda>n. int (Suc n)) [0..<length (events_of s rid)])"

definition journal_ok :: "db \<Rightarrow> bool" where
  "journal_ok s \<longleftrightarrow> journal_wf s \<and> revisions_ok s \<and>
     sorted (map ev_seq (t_events s)) \<and> (\<forall>e \<in> set (t_events s). ev_seq e \<le> t_event_seq s)"

text \<open>The device, key and nonce of a signed answer in the journal.\<close>

definition used_nonce :: "event_row \<Rightarrow> (rstr \<times> rstr \<times> rstr) option" where
  "used_nonce e = (case ed_decision (ev_detail e) of None \<Rightarrow> None | Some d \<Rightarrow>
     (case (d_actor_device_id d, d_signature d) of
        (Some dev, Some sig) \<Rightarrow> Some (dev, sr_key_id sig, sr_nonce sig) | _ \<Rightarrow> None))"

definition nonce_key :: "nonce_row \<Rightarrow> rstr \<times> rstr \<times> rstr" where
  "nonce_key n = (dn_device_id n, dn_key_id n, dn_nonce n)"

definition nonces_ok :: "db \<Rightarrow> bool" where
  "nonces_ok s \<longleftrightarrow> distinct (map nonce_key (t_nonces s)) \<and>
     distinct (List.map_filter used_nonce (t_events s)) \<and>
     set (List.map_filter used_nonce (t_events s)) \<subseteq> nonce_key ` set (t_nonces s)"

definition base_inv :: "db \<Rightarrow> bool" where
  "base_inv s \<longleftrightarrow> keys_ok s \<and> dedupe_ok s \<and> journal_ok s \<and> nonces_ok s"

definition requests_inv :: "db \<Rightarrow> bool" where
  "requests_inv s \<longleftrightarrow> base_inv s \<and> (\<forall>w \<in> set (t_requests s). row_ok s w)"

lemmas inv_parts = base_inv_def keys_ok_def dedupe_ok_def journal_ok_def nonces_ok_def

section \<open>Frame\<close>

text \<open>What the invariant reads.\<close>

lemma inv_frame:
  assumes "t_requests s' = t_requests s" "t_recipients s' = t_recipients s"
    "t_decisions s' = t_decisions s" "t_events s' = t_events s" "t_nonces s' = t_nonces s"
    "t_event_seq s' = t_event_seq s"
  shows "requests_inv s' \<longleftrightarrow> requests_inv s"
proof -
  have "events_of s' = events_of s" "deciders s' = deciders s" "recipients_of s' = recipients_of s"
    by (auto simp: events_of_def deciders_def recipients_of_def assms fun_eq_iff)
  then show ?thesis
    unfolding requests_inv_def inv_parts revisions_ok_def row_ok_def journal_wf_def assms by simp
qed

text \<open>Lease columns of the journal are free.\<close>

definition event_core :: "event_row \<Rightarrow> event_row" where
  "event_core e = e\<lparr>ev_published_at := None, ev_stream_seq := None, ev_attempts := 0,
     ev_next_attempt_at := 0, ev_lease_token := None, ev_lease_until := None, ev_last_error := None\<rparr>"

lemma event_core_fields:
  "event_core e = event_core f \<Longrightarrow> ev_seq e = ev_seq f \<and> ev_event_id e = ev_event_id f \<and>
     ev_request_id e = ev_request_id f \<and> ev_revision e = ev_revision f \<and> ev_kind e = ev_kind f \<and>
     ev_detail e = ev_detail f \<and> ev_envelope e = ev_envelope f \<and> ev_channel_id e = ev_channel_id f"
  by (cases e; cases f) (simp add: event_core_def)

lemma inv_journal_frame:
  assumes inv: "requests_inv s" and wf: "journal_wf s'" and core: "map event_core (t_events s') = map event_core (t_events s)"
    and same: "t_requests s' = t_requests s" "t_recipients s' = t_recipients s"
    "t_decisions s' = t_decisions s" "t_nonces s' = t_nonces s" "t_event_seq s' = t_event_seq s"
  shows "requests_inv s'"
proof -
  have "list_all2 (=) (map event_core (t_events s')) (map event_core (t_events s))"
    by (simp add: core list.rel_eq)
  then have all2: "list_all2 (\<lambda>e f. event_core e = event_core f) (t_events s') (t_events s)"
    by (simp add: list.rel_map)
  have m: "map g es' = map g es" if "list_all2 (\<lambda>e f. event_core e = event_core f) es' es"
    "\<And>e f. event_core e = event_core f \<Longrightarrow> g e = g f" for g :: "event_row \<Rightarrow> 'a" and es es'
    using that(1) by induction (auto dest: that(2))
  have flt: "list_all2 (\<lambda>e f. event_core e = event_core f) (events_of s' rid) (events_of s rid)" for rid
    using all2 unfolding events_of_def
    by induction (auto dest: event_core_fields)
  have ev: "map ev_kind (events_of s' rid) = map ev_kind (events_of s rid)"
    "map ev_revision (events_of s' rid) = map ev_revision (events_of s rid)"
    "length (events_of s' rid) = length (events_of s rid)" for rid
    using m [OF flt, of ev_kind] m [OF flt, of ev_revision] list_all2_lengthD [OF flt]
    by (auto dest: event_core_fields)
  have seqs: "map ev_seq (t_events s') = map ev_seq (t_events s)"
    using m [OF all2, of ev_seq] by (auto dest: event_core_fields)
  have used: "List.map_filter used_nonce (t_events s') = List.map_filter used_nonce (t_events s)"
  proof -
    have "used_nonce e = used_nonce f" if "event_core e = event_core f" for e f
      using event_core_fields [OF that] by (simp add: used_nonce_def)
    from m [OF all2, of used_nonce] this have "map used_nonce (t_events s') = map used_nonce (t_events s)"
      by blast
    moreover have "List.map_filter used_nonce es = map the (filter (\<lambda>x. x \<noteq> None) (map used_nonce es))" for es
      by (induction es) (auto simp: List.map_filter_def)
    ultimately show ?thesis by metis
  qed
  have "set (map ev_seq (t_events s')) = set (map ev_seq (t_events s))" using seqs by metis
  then have le: "(\<forall>e \<in> set (t_events s'). ev_seq e \<le> t_event_seq s) \<longleftrightarrow>
      (\<forall>e \<in> set (t_events s). ev_seq e \<le> t_event_seq s)"
    by (force simp: set_eq_iff image_iff)
  have same': "deciders s' = deciders s" "recipients_of s' = recipients_of s"
    by (auto simp: deciders_def recipients_of_def same fun_eq_iff)
  show ?thesis
    using inv wf le unfolding requests_inv_def inv_parts revisions_ok_def row_ok_def same ev same' seqs used
    by simp
qed

section \<open>One more journal entry\<close>

lemma append_lifecycle_on_ok:
  assumes "append_lifecycle_on X s r kind d eid now = Inr s'"
  obtains w e cbs where "find_request s (r_id r) = Some w"
    "s' = s\<lparr>t_requests := sql_update (\<lambda>v. rq_id v = r_id r) (\<lambda>v. v\<lparr>rq_revision := rq_revision v + 1\<rparr>)
        (t_requests s), t_events := t_events s @ [e], t_event_seq := t_event_seq s + 1,
      t_callbacks := t_callbacks s @ cbs\<rparr>"
    "ev_seq e = t_event_seq s + 1" "ev_request_id e = r_id r" "ev_revision e = rq_revision w + 1"
    "ev_kind e = kind" "ed_decision (ev_detail e) = d" "ev_event_id e = eid" "ev_lease_until e = None"
    "eid \<notin> ev_event_id ` set (t_events s)"
    "\<forall>v \<in> set (t_events s). \<not> (ev_request_id v = r_id r \<and> ev_revision v = rq_revision w + 1)"
    "\<forall>c \<in> set cbs. d \<noteq> None \<and> cb_request_id c = r_id r \<and> cb_request_revision c = rq_revision w + 1 \<and>
       cb_event_id c = eid \<and> cb_state c = lit ''queued'' \<and> cb_lease_until c = None \<and>
       cb_delivery_id c \<notin> cb_delivery_id ` set (t_callbacks s)"
    "length cbs \<le> 1"
proof -
  from assms obtain w node s1 where w: "find_request s (r_id r) = Some w"
    and s1: "insert_event (bump_revision s (r_id r)) (new_event X s node r w kind d eid now) = Inr s1"
    and s': "(case (d, r_callback_url r) of
       (Some _, Some url) \<Rightarrow> insert_callback s1 (new_callback X r (rq_revision w + 1) url eid now)
     | _ \<Rightarrow> Inr s1) = Inr s'"
    by (auto simp: append_lifecycle_on_def res_simps)
  let ?e = "(new_event X s node r w kind d eid now)\<lparr>ev_seq := t_event_seq s + 1\<rparr>"
  from s1 have e: "s1 = s\<lparr>t_requests := sql_update (\<lambda>v. rq_id v = r_id r)
        (\<lambda>v. v\<lparr>rq_revision := rq_revision v + 1\<rparr>) (t_requests s), t_events := t_events s @ [?e],
        t_event_seq := t_event_seq s + 1\<rparr>"
    and fresh: "eid \<notin> ev_event_id ` set (t_events s)"
    "\<forall>v \<in> set (t_events s). \<not> (ev_request_id v = r_id r \<and> ev_revision v = rq_revision w + 1)"
    by (auto simp: insert_event_def bump_revision_def new_event_def Let_def list_ex_iff split: if_splits)
  let ?c = "\<lambda>url. new_callback X r (rq_revision w + 1) url eid now"
  have cbs: "\<exists>cbs. s' = s1\<lparr>t_callbacks := t_callbacks s @ cbs\<rparr> \<and> length cbs \<le> 1 \<and>
      (\<forall>c \<in> set cbs. d \<noteq> None \<and> cb_request_id c = r_id r \<and> cb_request_revision c = rq_revision w + 1 \<and>
       cb_event_id c = eid \<and> cb_state c = lit ''queued'' \<and> cb_lease_until c = None \<and>
       cb_delivery_id c \<notin> cb_delivery_id ` set (t_callbacks s))"
  proof (cases "d = None \<or> r_callback_url r = None")
    case True
    with s' have "s' = s1" by (auto split: option.splits)
    with e have "s' = s1\<lparr>t_callbacks := t_callbacks s @ []\<rparr>" by simp
    then show ?thesis by (metis empty_iff empty_set le0 list.size(3))
  next
    case False
    then obtain url where url: "r_callback_url r = Some url" by auto
    with s' False have ic: "insert_callback s1 (?c url) = Inr s'" by auto
    then have "s' = s1\<lparr>t_callbacks := t_callbacks s @ [?c url]\<rparr>"
      "cb_delivery_id (?c url) \<notin> cb_delivery_id ` set (t_callbacks s)"
      by (auto simp: insert_callback_def e list_ex_iff split: if_splits)
    with False show ?thesis
      by (intro exI [of _ "[?c url]"]) (simp add: new_callback_def)
  qed
  then obtain cbs where cb: "s' = s1\<lparr>t_callbacks := t_callbacks s @ cbs\<rparr>" "length cbs \<le> 1"
    "\<forall>c \<in> set cbs. d \<noteq> None \<and> cb_request_id c = r_id r \<and> cb_request_revision c = rq_revision w + 1 \<and>
       cb_event_id c = eid \<and> cb_state c = lit ''queued'' \<and> cb_lease_until c = None \<and>
       cb_delivery_id c \<notin> cb_delivery_id ` set (t_callbacks s)"
    by blast
  show ?thesis
    by (rule that [OF w _ _ _ _ _ _ _ _ fresh cb(3,2), of ?e])
      (simp_all add: cb(1) e new_event_def Let_def)
qed

lemma revisions_snoc:
  assumes "revisions_ok s" and "t_events s' = t_events s @ [e]"
    and "ev_revision e = int (length (events_of s (ev_request_id e))) + 1"
  shows "revisions_ok s'"
  using assms by (auto simp: revisions_ok_def events_of_def)

lemma journal_snoc:
  assumes "journal_ok s" and "t_events s' = t_events s @ [e]" and "t_event_seq s' = t_event_seq s + 1"
    and "ev_revision e = int (length (events_of s (ev_request_id e))) + 1"
    and "ev_seq e = t_event_seq s + 1" "ev_event_id e \<notin> ev_event_id ` set (t_events s)"
    "ev_lease_until e = None"
  shows "journal_ok s'"
proof -
  have "revisions_ok s'"
    using assms(1) by (intro revisions_snoc [OF _ assms(2,4)]) (simp add: journal_ok_def)
  moreover have "\<forall>v \<in> set (t_events s). ev_seq v < ev_seq e"
    using assms by (force simp: journal_ok_def)
  then have "sorted (map ev_seq (t_events s'))" "ev_seq e \<notin> ev_seq ` set (t_events s)"
    using assms(1) by (auto simp: assms(2) journal_ok_def sorted_append less_imp_le)
  moreover from this have "journal_wf s'"
    using assms(1,6,7) by (simp add: assms(2) journal_ok_def journal_wf_def)
  moreover have "\<forall>v \<in> set (t_events s'). ev_seq v \<le> t_event_seq s'"
    using assms(1,5) by (auto simp: assms(2,3) journal_ok_def intro: order.trans)
  ultimately show ?thesis by (simp add: journal_ok_def)
qed

lemma nonces_snoc:
  assumes "nonces_ok s" and "t_events s' = t_events s @ [e]" and "t_nonces s' = t_nonces s @ ns"
    and "distinct (map nonce_key (t_nonces s @ ns))"
    and "\<And>k. used_nonce e = Some k \<Longrightarrow> k \<in> nonce_key ` set ns"
  shows "nonces_ok s'"
proof -
  have app: "List.map_filter used_nonce (t_events s') = List.map_filter used_nonce (t_events s) @
      (case used_nonce e of None \<Rightarrow> [] | Some k \<Rightarrow> [k])"
    by (auto simp: assms(2) List.map_filter_def split: option.splits)
  have "k \<notin> nonce_key ` set (t_nonces s)" if "used_nonce e = Some k" for k
    using assms(4,5) that by fastforce
  then show ?thesis
    using assms unfolding nonces_ok_def app by (auto split: option.splits)
qed

text \<open>
  A transition of one request: its row changes by \<open>f\<close>, decisions of its own are added, and one
  journal entry is appended.
\<close>

definition new_callback_ok :: "db \<Rightarrow> rstr \<Rightarrow> int \<Rightarrow> callback_row \<Rightarrow> bool" where
  "new_callback_ok s rid revision c \<longleftrightarrow> cb_request_id c = rid \<and> cb_request_revision c = revision \<and>
     cb_state c = lit ''queued'' \<and> cb_lease_until c = None \<and>
     cb_delivery_id c \<notin> cb_delivery_id ` set (t_callbacks s)"

definition advances ::
  "db \<Rightarrow> db \<Rightarrow> request_row \<Rightarrow> (request_row \<Rightarrow> request_row) \<Rightarrow> user_decision_row list \<Rightarrow> event_row \<Rightarrow> nonce_row list \<Rightarrow> bool" where
  "advances s s' w f ds e ns \<longleftrightarrow>
     w \<in> set (t_requests s) \<and>
     t_requests s' = sql_update (\<lambda>v. rq_id v = rq_id w) f (t_requests s) \<and>
     (\<forall>v. rq_id (f v) = rq_id v \<and> rq_channel_id (f v) = rq_channel_id v \<and> rq_dedupe_key (f v) = rq_dedupe_key v) \<and>
     (rq_status (f w) = Pending \<longrightarrow> rq_status w = Pending) \<and>
     t_recipients s' = t_recipients s \<and>
     t_decisions s' = t_decisions s @ ds \<and> (\<forall>d \<in> set ds. rd_request_id d = rq_id w) \<and>
     t_events s' = t_events s @ [e] \<and> t_event_seq s' = t_event_seq s + 1 \<and>
     ev_request_id e = rq_id w \<and> ev_revision e = rq_revision w + 1 \<and> ev_seq e = t_event_seq s + 1 \<and>
     ev_event_id e \<notin> ev_event_id ` set (t_events s) \<and> ev_lease_until e = None \<and>
     t_nonces s' = t_nonces s @ ns \<and> distinct (map nonce_key (t_nonces s @ ns)) \<and>
     (\<forall>k. used_nonce e = Some k \<longrightarrow> k \<in> nonce_key ` set ns) \<and>
     rq_revision (f w) = rq_revision w + 1 \<and>
     (\<exists>cbs. t_callbacks s' = t_callbacks s @ cbs \<and> length cbs \<le> 1 \<and>
        (\<forall>c \<in> set cbs. new_callback_ok s (rq_id w) (rq_revision w + 1) c))"

lemma unique_row:
  "keys_ok s \<Longrightarrow> w \<in> set (t_requests s) \<Longrightarrow> v \<in> set (t_requests s) \<Longrightarrow> rq_id v = rq_id w \<Longrightarrow> v = w"
  by (auto simp: keys_ok_def distinct_map inj_on_def)

lemma advances_views:
  assumes "advances s s' w f ds e ns"
  shows "events_of s' r = events_of s r @ (if r = rq_id w then [e] else [])"
    and "deciders s' r = deciders s r @ (if r = rq_id w then map rd_user_id ds else [])"
    and "recipients_of s' = recipients_of s"
proof -
  have "filter (\<lambda>d. rd_request_id d = r) ds = (if r = rq_id w then ds else [])"
    using assms by (auto simp: advances_def filter_empty_conv intro: filter_True)
  then show "deciders s' r = deciders s r @ (if r = rq_id w then map rd_user_id ds else [])"
    using assms by (simp add: advances_def deciders_def)
qed (use assms in \<open>auto simp: advances_def events_of_def recipients_of_def\<close>)

lemma advances_rows:
  assumes "keys_ok s" "advances s s' w f ds e ns"
  shows "set (t_requests s') = insert (f w) {v \<in> set (t_requests s). rq_id v \<noteq> rq_id w}"
proof -
  have "w \<in> set (t_requests s)" "t_requests s' = sql_update (\<lambda>v. rq_id v = rq_id w) f (t_requests s)"
    using assms(2) by (auto simp: advances_def)
  with unique_row [OF assms(1)] show ?thesis by (force simp: set_sql_update)
qed

lemma base_advance:
  assumes base: "base_inv s" and adv: "advances s s' w f ds e ns"
    and rev: "rq_revision w = int (length (events_of s (rq_id w)))"
  shows "base_inv s'"
proof -
  from base have keys: "keys_ok s" and j: "journal_ok s" and n: "nonces_ok s" and d: "dedupe_ok s"
    by (auto simp: base_inv_def)
  note a = adv [unfolded advances_def]
  have "map rq_id (t_requests s') = map rq_id (t_requests s)"
  proof -
    from a have "t_requests s' = sql_update (\<lambda>v. rq_id v = rq_id w) f (t_requests s)" by blast
    with a show ?thesis by (simp add: map_sql_update_frame)
  qed
  moreover from this have "rq_id ` set (t_requests s') = rq_id ` set (t_requests s)"
    by (metis list.set_map)
  ultimately have "keys_ok s'" using keys a by (auto simp: keys_ok_def)
  moreover have "dedupe_ok s'"
    using d a unfolding dedupe_ok_def advances_rows [OF keys adv] pending_with_key_def by auto
  moreover have "journal_ok s'"
    using a rev by (intro journal_snoc [OF j, of s' e]) auto
  moreover have "nonces_ok s'"
    using a by (intro nonces_snoc [OF n, of s' e ns]) auto
  ultimately show ?thesis by (simp add: base_inv_def)
qed

text \<open>The rows of other requests are not affected.\<close>

lemma row_ok_other:
  "advances s s' w f ds e ns \<Longrightarrow> rq_id v \<noteq> rq_id w \<Longrightarrow> row_ok s' v \<longleftrightarrow> row_ok s v"
  by (simp add: row_ok_def advances_views)

lemma row_ok_advanced:
  assumes adv: "advances s s' w f ds e ns"
    and new: "decisions_ok (f w) (recipients_of s (rq_id w)) (deciders s (rq_id w) @ map rd_user_id ds)"
      "map ev_kind (events_of s (rq_id w)) @ [ev_kind e] =
         expected_kinds (f w) (length (deciders s (rq_id w)) + length ds)"
    and rev: "rq_revision w = int (length (events_of s (rq_id w)))"
  shows "row_ok s' (f w)"
proof -
  from adv have "rq_id (f w) = rq_id w" "rq_revision (f w) = rq_revision w + 1" by (auto simp: advances_def)
  with new rev show ?thesis by (simp add: row_ok_def advances_views [OF adv])
qed

lemma inv_advance:
  assumes inv: "requests_inv s" and adv: "advances s s' w f ds e ns"
    and new: "decisions_ok (f w) (recipients_of s (rq_id w)) (deciders s (rq_id w) @ map rd_user_id ds)"
      "map ev_kind (events_of s (rq_id w)) @ [ev_kind e] =
         expected_kinds (f w) (length (deciders s (rq_id w)) + length ds)"
  shows "requests_inv s'"
proof -
  from inv have base: "base_inv s" and rows: "\<forall>v \<in> set (t_requests s). row_ok s v"
    by (auto simp: requests_inv_def)
  from adv have w: "w \<in> set (t_requests s)" by (simp add: advances_def)
  with rows have rev: "rq_revision w = int (length (events_of s (rq_id w)))" by (auto simp: row_ok_def)
  have "row_ok s' v" if "v \<in> set (t_requests s')" for v
    using that rows row_ok_advanced [OF adv new rev] row_ok_other [OF adv] base
    by (auto simp: advances_rows [OF _ adv] base_inv_def)
  with base_advance [OF base adv rev] show ?thesis by (simp add: requests_inv_def)
qed

end
