(* ===== verification/Requests_Ops.thy ===== *)
theory Requests_Ops
  imports Requests_Inv
begin

text \<open>
  Every operation on requests preserves the invariant: one lemma per operation, each an instance of
  the creation or the transition lemma, with the frame facts of the steps it is composed of.
\<close>

section \<open>Creation\<close>

lemma insert_recipients_ok:
  "insert_recipients s rid us = Inr s' \<Longrightarrow>
     s' = s\<lparr>t_recipients := t_recipients s @ map (\<lambda>u. \<lparr>rr_request_id = rid, rr_user_id = u\<rparr>) us\<rparr> \<and>
     distinct us \<and> (\<forall>u \<in> set us. \<forall>w \<in> set (t_recipients s). \<not> (rr_request_id w = rid \<and> rr_user_id w = u)) \<and>
     set us \<subseteq> us_id ` set (t_users s)"
proof (induction s rid us rule: insert_recipients.induct)
  case (2 s rid u us)
  then show ?case by (auto simp: list_ex_iff split: if_splits)
qed simp

lemma insert_options_ok:
  "insert_options s rid ps = Inr s' \<Longrightarrow>
     s' = s\<lparr>t_options := t_options s @ map (\<lambda>p. \<lparr>ro_request_id = rid, ro_option = p\<rparr>) ps\<rparr> \<and>
     distinct (map o_id ps) \<and>
     (\<forall>p \<in> set ps. \<forall>w \<in> set (t_options s). \<not> (ro_request_id w = rid \<and> o_id (ro_option w) = o_id p))"
proof (induction s rid ps rule: insert_options.induct)
  case (2 s rid p ps)
  then show ?case by (auto simp: list_ex_iff split: if_splits)
qed simp

lemma queue_pushes_ok:
  "queue_pushes s rid now = Inr s' \<Longrightarrow> \<exists>rows. s' = s\<lparr>t_push := t_push s @ rows\<rparr> \<and>
     map pd_device_id rows = map dv_id (filter (push_target s rid) (t_devices s)) \<and>
     (\<forall>w \<in> set rows. pd_request_id w = rid \<and> pd_status w = lit ''queued'' \<and> pd_attempts w = 0 \<and>
        pd_lease_until w = None \<and> (\<forall>v \<in> set (t_push s). \<not> (pd_request_id v = rid \<and> pd_device_id v = pd_device_id w)))"
proof -
  let ?rows = "map (\<lambda>d. \<lparr>pd_request_id = rid, pd_device_id = dv_id d, pd_status = lit ''queued'',
            pd_attempts = 0, pd_lease_until = None, pd_claim_generation = 0,
            pd_updated_at = now_string now, pd_error = None\<rparr>) (filter (push_target s rid) (t_devices s))"
  assume "queue_pushes s rid now = Inr s'"
  moreover obtain rows where rows: "rows = ?rows" by blast
  ultimately have "s' = s\<lparr>t_push := t_push s @ rows\<rparr>"
    "\<forall>v \<in> set (t_push s). \<not> (pd_request_id v = rid \<and> pd_device_id v \<in> pd_device_id ` set rows)"
    unfolding queue_pushes_def Let_def rows [symmetric] list_ex_iff by (auto split: if_splits)
  moreover have "map pd_device_id rows = map dv_id (filter (push_target s rid) (t_devices s))"
    "\<forall>w \<in> set rows. pd_request_id w = rid \<and> pd_status w = lit ''queued'' \<and> pd_attempts w = 0 \<and>
       pd_lease_until w = None"
    by (auto simp: rows comp_def)
  ultimately show ?thesis by (intro exI [of _ rows]) auto
qed

lemma bind_idempotency_ok:
  "bind_idempotency s scope channel key fp rid = Inr s' \<Longrightarrow>
     (\<exists>rows. s' = s\<lparr>t_idempotency := t_idempotency s @ rows\<rparr>)"
  by (cases key) (auto simp: bind_idempotency_def intro: exI [of _ "[]"] split: if_splits)

lemma insert_origin_ok: "insert_origin s rid org = Inr s' \<Longrightarrow> \<exists>rows. s' = s\<lparr>t_origins := t_origins s @ rows\<rparr>"
  by (cases org) (auto simp: insert_origin_def intro: exI [of _ "[]"] split: if_splits)

lemma insert_request_ok:
  assumes "insert_request s w = Inr s'"
  shows "s' = s\<lparr>t_requests := t_requests s @ [w]\<rparr>" and "rq_id w \<notin> rq_id ` set (t_requests s)"
    and "\<And>k v. rq_dedupe_key w = Some k \<Longrightarrow> rq_status w = Pending \<Longrightarrow> v \<in> set (t_requests s) \<Longrightarrow>
      \<not> pending_with_key (rq_channel_id w) k v"
    and "\<exists>c \<in> set (t_channels s). ch_id c = rq_channel_id w"
  using assms by (auto simp: insert_request_def list_ex_iff split: if_splits)

lemma no_events_without_first:
  assumes "revisions_ok s" and "\<forall>v \<in> set (t_events s). \<not> (ev_request_id v = rid \<and> ev_revision v = 1)"
  shows "events_of s rid = []"
proof (rule ccontr)
  assume ne: "events_of s rid \<noteq> []"
  have "map ev_revision (events_of s rid) ! 0 = map (\<lambda>n. int (Suc n)) [0..<length (events_of s rid)] ! 0"
    using assms(1) by (simp only: revisions_ok_def)
  with ne have "ev_revision (events_of s rid ! 0) = 1" by simp
  moreover have "events_of s rid ! 0 \<in> set (events_of s rid)" using ne by simp
  ultimately show False using assms(2) by (auto simp: events_of_def)
qed

text \<open>A new request: its row, its recipients, and the first journal entry.\<close>

lemma inv_new_request:
  assumes inv: "requests_inv s" and w: "rq_id w \<notin> rq_id ` set (t_requests s)"
    "rq_status w = Pending" "rq_resolved_at w = None" "rq_decision w = None" "rq_revision w = 1"
    and free: "\<And>k v. rq_dedupe_key w = Some k \<Longrightarrow> v \<in> set (t_requests s) \<Longrightarrow>
      \<not> pending_with_key (rq_channel_id w) k v"
    and reqs: "t_requests s' = t_requests s @ [w]"
    and recs: "t_recipients s' = t_recipients s @ map (\<lambda>u. \<lparr>rr_request_id = rq_id w, rr_user_id = u\<rparr>) us"
      "distinct us"
    and same: "t_decisions s' = t_decisions s" "t_nonces s' = t_nonces s"
    and ev: "t_events s' = t_events s @ [e]" "t_event_seq s' = t_event_seq s + 1"
      "ev_request_id e = rq_id w" "ev_revision e = 1" "ev_seq e = t_event_seq s + 1"
      "ev_event_id e \<notin> ev_event_id ` set (t_events s)" "ev_lease_until e = None" "ev_kind e = KIND_CREATED"
      "ed_decision (ev_detail e) = None"
      "\<forall>v \<in> set (t_events s). \<not> (ev_request_id v = rq_id w \<and> ev_revision v = 1)"
  shows "requests_inv s'"
proof -
  from inv have keys: "keys_ok s" and j: "journal_ok s" by (auto simp: requests_inv_def base_inv_def)
  have none: "events_of s (rq_id w) = []"
    using no_events_without_first [OF _ ev(10)] j by (simp add: journal_ok_def)
  have none_of: "\<forall>v \<in> set (t_recipients s). rr_request_id v \<noteq> rq_id w"
    "\<forall>d \<in> set (t_decisions s). rd_request_id d \<noteq> rq_id w"
    using keys w(1) unfolding keys_ok_def by (metis imageI subsetD)+
  then have no_rec: "recipients_of s (rq_id w) = []" and no_dec: "deciders s (rq_id w) = []"
    by (auto simp: recipients_of_def deciders_def filter_empty_conv)
  have ev_of: "events_of s' r = events_of s r @ (if r = rq_id w then [e] else [])" for r
    by (simp add: events_of_def ev)
  have rec_of: "recipients_of s' r = recipients_of s r @ (if r = rq_id w then us else [])" for r
    by (auto simp: recipients_of_def recs filter_empty_conv comp_def)
  have dec_of: "deciders s' = deciders s"
    by (simp add: deciders_def same fun_eq_iff)
  have "keys_ok s'"
  proof -
    have "distinct (map (\<lambda>u. (rq_id w, u)) us)" using recs(2) by (simp add: distinct_map inj_on_def)
    then show ?thesis
      using keys w(1) none_of by (auto simp: keys_ok_def reqs recs same comp_def)
  qed
  moreover have "dedupe_ok s'"
    using inv free unfolding requests_inv_def base_inv_def dedupe_ok_def reqs
    by (auto simp: pending_with_key_def)
  moreover have "journal_ok s'"
    using ev none by (intro journal_snoc [OF j]) auto
  moreover have "nonces_ok s'"
    using inv same ev(9) by (intro nonces_snoc [of s s' e "[]"] ev) (auto simp: requests_inv_def base_inv_def nonces_ok_def used_nonce_def)
  moreover have "row_ok s' v" if "v \<in> set (t_requests s')" for v
  proof (cases "v = w")
    case True
    have "decisions_ok w us []"
      using w by (auto simp: decisions_ok_def split: decision_resolution.split)
    with True show ?thesis
      using w ev by (simp add: row_ok_def ev_of rec_of dec_of none no_rec no_dec expected_kinds_def answer_count_def)
  next
    case False
    with that have v: "v \<in> set (t_requests s)" by (simp add: reqs)
    with w(1) have "rq_id v \<noteq> rq_id w" by (metis imageI)
    moreover from v inv have "row_ok s v" by (simp add: requests_inv_def)
    ultimately show ?thesis by (simp add: row_ok_def ev_of rec_of dec_of)
  qed
  ultimately show ?thesis by (simp add: requests_inv_def base_inv_def)
qed

text \<open>The state after a successful insert.\<close>

lemma insert_new_request_ok:
  assumes "insert_new_request X s req m recipients scope fp key E = Inr (c, s')"
  shows "\<exists>w e. w = (new_request_row req m (e_id E 0) (e_now E 0) (e_salt E))\<lparr>rq_revision := 1\<rparr> \<and>
    rq_id w \<notin> rq_id ` set (t_requests s) \<and>
    (\<forall>k v. rq_dedupe_key w = Some k \<longrightarrow> v \<in> set (t_requests s) \<longrightarrow> \<not> pending_with_key (rq_channel_id w) k v) \<and>
    t_requests s' = t_requests s @ [w] \<and>
    t_recipients s' = t_recipients s @ map (\<lambda>u. \<lparr>rr_request_id = rq_id w, rr_user_id = u\<rparr>) recipients \<and>
    distinct recipients \<and> t_decisions s' = t_decisions s \<and> t_nonces s' = t_nonces s \<and>
    t_events s' = t_events s @ [e] \<and> t_event_seq s' = t_event_seq s + 1 \<and>
    ev_request_id e = rq_id w \<and> ev_revision e = 1 \<and> ev_seq e = t_event_seq s + 1 \<and>
    ev_event_id e \<notin> ev_event_id ` set (t_events s) \<and> ev_lease_until e = None \<and> ev_kind e = KIND_CREATED \<and>
    ed_decision (ev_detail e) = None \<and>
    (\<forall>v \<in> set (t_events s). \<not> (ev_request_id v = rq_id w \<and> ev_revision v = 1)) \<and>
    t_callbacks s' = t_callbacks s \<and> t_devices s' = t_devices s \<and> t_users s' = t_users s \<and>
    c = \<lparr>cd_request_id = rq_id w, cd_deduped = False, cd_request = cd_request c\<rparr> \<and>
    r_id (cd_request c) = rq_id w"
proof -
  let ?rid = "e_id E 0" and ?row = "new_request_row req m (e_id E 0) (e_now E 0) (e_salt E)"
  from assms obtain s1 s2 s3 s4 s5 s6 r where st:
    "insert_request s ?row = Inr s1" "insert_recipients s1 ?rid recipients = Inr s2"
    "insert_options s2 ?rid (normalize_options (c_options req)) = Inr s3"
    "queue_pushes s3 ?rid (e_now E 0) = Inr s4"
    "bind_idempotency s4 scope (c_channel_id req) key fp ?rid = Inr s5"
    "get_request_on X s5 ?rid = Inr r" "insert_origin s5 ?rid (cm_origin m) = Inr s6"
    "append_lifecycle_on X s6 r KIND_CREATED None (e_id E 1) (e_now E 1) = Inr s'"
    "c = \<lparr>cd_request_id = ?rid, cd_deduped = False, cd_request = r\<rparr>"
    by (auto simp: insert_new_request_def Let_def res_simps)
  note s1 = insert_request_ok [OF st(1)]
  have rid: "rq_id ?row = ?rid" "rq_revision ?row = 0" "rq_status ?row = Pending"
    by (simp_all add: new_request_row_def)
  from insert_recipients_ok [OF st(2)] insert_options_ok [OF st(3)] queue_pushes_ok [OF st(4)]
    bind_idempotency_ok [OF st(5)] insert_origin_ok [OF st(7)] s1(1)
  have s6: "t_requests s6 = t_requests s @ [?row]" "t_decisions s6 = t_decisions s"
    "t_recipients s6 = t_recipients s @ map (\<lambda>u. \<lparr>rr_request_id = ?rid, rr_user_id = u\<rparr>) recipients"
    "t_nonces s6 = t_nonces s" "t_events s6 = t_events s" "t_event_seq s6 = t_event_seq s"
    "t_callbacks s6 = t_callbacks s" "t_devices s6 = t_devices s" "t_users s6 = t_users s"
    "distinct recipients"
    by auto
  have r: "r_id r = ?rid" using get_request_on_columns [OF st(6)] by auto
  show ?thesis
  proof (rule append_lifecycle_on_ok [OF st(8)])
    fix w e cbs
    assume a: "find_request s6 (r_id r) = Some w"
      "s' = s6\<lparr>t_requests := sql_update (\<lambda>v. rq_id v = r_id r) (\<lambda>v. v\<lparr>rq_revision := rq_revision v + 1\<rparr>)
        (t_requests s6), t_events := t_events s6 @ [e], t_event_seq := t_event_seq s6 + 1,
        t_callbacks := t_callbacks s6 @ cbs\<rparr>"
      "ev_seq e = t_event_seq s6 + 1" "ev_request_id e = r_id r" "ev_revision e = rq_revision w + 1"
      "ev_kind e = KIND_CREATED" "ed_decision (ev_detail e) = None" "ev_event_id e = e_id E 1"
      "ev_lease_until e = None" "e_id E 1 \<notin> ev_event_id ` set (t_events s6)"
      "\<forall>v \<in> set (t_events s6). \<not> (ev_request_id v = r_id r \<and> ev_revision v = rq_revision w + 1)"
      "\<forall>c \<in> set cbs. (None :: decision option) \<noteq> None \<and> cb_request_id c = r_id r \<and> cb_request_revision c = rq_revision w + 1 \<and>
         cb_event_id c = e_id E 1 \<and> cb_state c = lit ''queued'' \<and> cb_lease_until c = None \<and>
         cb_delivery_id c \<notin> cb_delivery_id ` set (t_callbacks s6)"
    from s1(2) have "List.find (\<lambda>v. rq_id v = ?rid) (t_requests s) = None"
      by (simp add: rid find_None_iff_key)
    with a(1) have "w = ?row"
      by (simp add: find_request_def s6 r rid find_append)
    then have w0: "rq_revision w = 0" by (simp add: rid)
    have "t_requests s' = t_requests s @ [?row\<lparr>rq_revision := 1\<rparr>]"
    proof -
      have "sql_update (\<lambda>v. rq_id v = ?rid) (\<lambda>v. v\<lparr>rq_revision := rq_revision v + 1\<rparr>) (t_requests s) = t_requests s"
        using s1(2) unfolding rid by (intro sql_update_none) (metis imageI)
      then show ?thesis by (simp add: a(2) s6 r rid)
    qed
    moreover from a(12) have "cbs = []" by (cases cbs) auto
    ultimately show ?thesis
      using s1 a s6 r rid w0 st(9)
      by (intro exI [of _ "?row\<lparr>rq_revision := 1\<rparr>"] exI [of _ e])
        (auto simp: pending_with_key_def new_request_row_def)
  qed
qed

lemma inv_insert_new_request:
  assumes "requests_inv s" and "insert_new_request X s req m recipients scope fp key E = Inr (c, s')"
  shows "requests_inv s'"
proof -
  from insert_new_request_ok [OF assms(2)] obtain w e where
    "w = (new_request_row req m (e_id E 0) (e_now E 0) (e_salt E))\<lparr>rq_revision := 1\<rparr>"
    and rest: "rq_id w \<notin> rq_id ` set (t_requests s)"
    "\<forall>k v. rq_dedupe_key w = Some k \<longrightarrow> v \<in> set (t_requests s) \<longrightarrow> \<not> pending_with_key (rq_channel_id w) k v"
    "t_requests s' = t_requests s @ [w]"
    "t_recipients s' = t_recipients s @ map (\<lambda>u. \<lparr>rr_request_id = rq_id w, rr_user_id = u\<rparr>) recipients"
    "distinct recipients" "t_decisions s' = t_decisions s" "t_nonces s' = t_nonces s"
    "t_events s' = t_events s @ [e]" "t_event_seq s' = t_event_seq s + 1"
    "ev_request_id e = rq_id w" "ev_revision e = 1" "ev_seq e = t_event_seq s + 1"
    "ev_event_id e \<notin> ev_event_id ` set (t_events s)" "ev_lease_until e = None" "ev_kind e = KIND_CREATED"
    "ed_decision (ev_detail e) = None"
    "\<forall>v \<in> set (t_events s). \<not> (ev_request_id v = rq_id w \<and> ev_revision v = 1)"
    by blast
  then show ?thesis
    by (intro inv_new_request [OF assms(1), where w = w and e = e and us = recipients])
      (simp_all add: new_request_row_def)
qed

lemma create_request_cases:
  assumes "create_request X s req m E = Inr (c, s')"
  obtains (same) rows where "s' = s\<lparr>t_idempotency := t_idempotency s @ rows\<rparr>" "cd_deduped c"
  | (new) recipients scope fp key where
      "insert_new_request X s req m recipients scope fp key E = Inr (c, s')" "\<not> cd_deduped c"
proof -
  let ?key = "map_option trim (cm_idempotency_key m)"
  let ?scope = "case cm_issuer m of None \<Rightarrow> lit ''admin'' | Some i \<Rightarrow> i"
  let ?replay = "case ?key of None \<Rightarrow> None | Some k \<Rightarrow>
    List.find (\<lambda>w. ik_scope w = ?scope \<and> ik_channel_id w = c_channel_id req \<and> ik_key w = k) (t_idempotency s)"
  consider (replay) row fp where "?replay = Some row" "(if ik_fingerprint row \<noteq> fp
            then Inl (conflict ''idempotency_key was already used for different request content'')
            else bind_res (get_request_on X s (ik_request_id row)) (\<lambda>r.
              Inr (\<lparr>cd_request_id = r_id r, cd_deduped = True, cd_request = r\<rparr>, s))) = Inr (c, s')"
    | (fresh) fp recipients pending where "(case pending of
              Some r \<Rightarrow> reuse_pending s req m recipients ?scope fp ?key r
            | None \<Rightarrow> insert_new_request X s req m recipients ?scope fp ?key E) = Inr (c, s')"
    using assms unfolding create_request_def Let_def res_simps
    by (cases ?replay) (auto simp: res_simps)
  then show thesis
  proof cases
    case replay
    then have "s' = s\<lparr>t_idempotency := t_idempotency s @ []\<rparr>" "cd_deduped c"
      by (auto simp: res_simps)
    then show thesis by (rule same)
  next
    case fresh
    show thesis
    proof (cases pending)
      case None
      with fresh have i: "insert_new_request X s req m recipients ?scope fp ?key E = Inr (c, s')" by simp
      from insert_new_request_ok [OF i] have "\<not> cd_deduped c" by (metis created_request.select_convs(2))
      with i show thesis by (rule new)
    next
      case (Some r)
      with fresh have "\<exists>rows. s' = s\<lparr>t_idempotency := t_idempotency s @ rows\<rparr>" "cd_deduped c"
        by (auto simp: reuse_pending_def res_simps dest: bind_idempotency_ok)
      then show thesis using same by blast
    qed
  qed
qed

lemma inv_create_request:
  assumes "requests_inv s" and "create_request X s req m E = Inr (c, s')"
  shows "requests_inv s'"
  using assms(2)
proof (cases rule: create_request_cases)
  case same
  then show ?thesis using assms(1) inv_frame [of s' s] by simp
next
  case new
  then show ?thesis using inv_insert_new_request [OF assms(1)] by blast
qed

end
