(* ===== verification/Transitions.thy ===== *)
theory Transitions
  imports Requests_Ops
begin

text \<open>
  Decisions, cancellation, the sweeps and the publisher preserve the invariant. Each transition is
  shown to be an \<open>advances\<close> step of one request.
\<close>

section \<open>From the operations to one step\<close>

lemma nonce_step:
  assumes "verified_decision_signature X s r opt actor txt provided answer = Inr (sg, s1)"
  obtains (none) "actor = None" "sg = None" "s1 = s"
  | (signed) dev sig n where "actor = Some dev" "sg = Some sig" "s1 = s\<lparr>t_nonces := t_nonces s @ [n]\<rparr>"
      "nonce_key n = (dv_id dev, sr_key_id sig, sr_nonce sig)" "nonce_key n \<notin> nonce_key ` set (t_nonces s)"
proof (cases actor)
  case None
  with assms show thesis by (auto simp: verified_decision_signature_def split: if_splits intro: none)
next
  case (Some dev)
  with assms obtain p s' digest payload where p: "provided = Some p"
    "insert_decision_nonce s (dv_id dev) (ds_key_id p) (ds_nonce p) = Inr s1"
    "sg = Some \<lparr>sr_payload_version = ds_payload_version p, sr_key_id = ds_key_id p,
             sr_algorithm = ds_algorithm p, sr_nonce = ds_nonce p, sr_signed_at = ds_signed_at p,
             sr_request_digest = digest, sr_signing_payload = payload, sr_signature = ds_signature p,
             sr_verified = True, sr_public_key = dv_signing_public_key dev\<rparr>"
    by (auto simp: verified_decision_signature_def res_simps)
  let ?n = "\<lparr>dn_device_id = dv_id dev, dn_key_id = ds_key_id p, dn_nonce = ds_nonce p\<rparr>"
  from p(2) have "s1 = s\<lparr>t_nonces := t_nonces s @ [?n]\<rparr>" "nonce_key ?n \<notin> nonce_key ` set (t_nonces s)"
    by (auto simp: insert_decision_nonce_def nonce_key_def list_ex_iff split: if_splits)
  with Some p(3) show thesis by (intro signed) (auto simp: nonce_key_def)
qed

text \<open>Update of one pending row, then the journal entry.\<close>

lemma advance_by_append:
  assumes keys: "keys_ok s" and w: "w \<in> set (t_requests s)"
    and mid: "t_requests s2 = sql_update (\<lambda>v. rq_id v = rq_id w) g (t_requests s)"
      "t_recipients s2 = t_recipients s" "t_decisions s2 = t_decisions s @ ds"
      "\<forall>d \<in> set ds. rd_request_id d = rq_id w" "t_events s2 = t_events s" "t_event_seq s2 = t_event_seq s"
      "t_nonces s2 = t_nonces s @ ns" "t_callbacks s2 = t_callbacks s"
      "distinct (map nonce_key (t_nonces s @ ns))"
    and g: "\<And>v. rq_id (g v) = rq_id v" "\<And>v. rq_channel_id (g v) = rq_channel_id v"
      "\<And>v. rq_dedupe_key (g v) = rq_dedupe_key v" "\<And>v. rq_revision (g v) = rq_revision v"
      "rq_status (g w) = Pending \<Longrightarrow> rq_status w = Pending"
    and app: "append_lifecycle_on X s2 r kind d eid now = Inr s3" "r_id r = rq_id w"
    and nonce: "\<And>x sig dev. d = Some x \<Longrightarrow> d_actor_device_id x = Some dev \<Longrightarrow> d_signature x = Some sig \<Longrightarrow>
      (dev, sr_key_id sig, sr_nonce sig) \<in> nonce_key ` set ns"
  shows "\<exists>e. advances s s3 w (\<lambda>v. (g v)\<lparr>rq_revision := rq_revision v + 1\<rparr>) ds e ns \<and>
    ev_kind e = kind \<and> ed_decision (ev_detail e) = d"
  using app(1)
proof (rule append_lifecycle_on_ok)
  fix w2 e cbs
  assume a: "find_request s2 (r_id r) = Some w2"
    "s3 = s2\<lparr>t_requests := sql_update (\<lambda>v. rq_id v = r_id r) (\<lambda>v. v\<lparr>rq_revision := rq_revision v + 1\<rparr>)
        (t_requests s2), t_events := t_events s2 @ [e], t_event_seq := t_event_seq s2 + 1,
        t_callbacks := t_callbacks s2 @ cbs\<rparr>"
    "ev_seq e = t_event_seq s2 + 1" "ev_request_id e = r_id r" "ev_revision e = rq_revision w2 + 1"
    "ev_kind e = kind" "ed_decision (ev_detail e) = d" "ev_event_id e = eid" "ev_lease_until e = None"
    "eid \<notin> ev_event_id ` set (t_events s2)"
    "\<forall>c \<in> set cbs. d \<noteq> None \<and> cb_request_id c = r_id r \<and> cb_request_revision c = rq_revision w2 + 1 \<and>
       cb_event_id c = eid \<and> cb_state c = lit ''queued'' \<and> cb_lease_until c = None \<and>
       cb_delivery_id c \<notin> cb_delivery_id ` set (t_callbacks s2)" "length cbs \<le> 1"
  have "find_request s2 (rq_id w) = map_option (\<lambda>v. if rq_id v = rq_id w then g v else v) (find_request s (rq_id w))"
    unfolding find_request_def mid by (rule find_sql_update_key) (simp add: g)
  moreover have "find_request s (rq_id w) = Some w"
    using keys w by (simp add: find_request_def keys_ok_def find_Some_iff_key)
  ultimately have "w2 = g w" using a(1) app(2) by simp
  then have rev: "rq_revision w2 = rq_revision w" by (simp add: g)
  have req: "t_requests s3 = sql_update (\<lambda>v. rq_id v = rq_id w) (\<lambda>v. (g v)\<lparr>rq_revision := rq_revision v + 1\<rparr>) (t_requests s)"
    by (simp add: a(2) app(2) mid sql_update_comp g)
  have "used_nonce e = Some k \<Longrightarrow> k \<in> nonce_key ` set ns" for k
    using a(7) nonce by (auto simp: used_nonce_def split: option.splits)
  with a rev w mid g app(2) show ?thesis
    unfolding advances_def req new_callback_ok_def by (intro exI [of _ e]) auto
qed

text \<open>An update restricted to the pending row of an id, when that row is pending.\<close>

lemma set_pending_row:
  assumes "keys_ok s" "w \<in> set (t_requests s)" "rq_status w = Pending"
    and "t_requests s1 = t_requests s"
  shows "t_requests (set_request s1 (pending_row (rq_id w)) g) =
    sql_update (\<lambda>v. rq_id v = rq_id w) g (t_requests s)"
  unfolding set_request_def pending_row_def using assms
  by (simp add: sql_update_unique [where w = w] keys_ok_def)

lemma set_request_frame [simp]:
  "t_recipients (set_request s P g) = t_recipients s" "t_decisions (set_request s P g) = t_decisions s"
  "t_events (set_request s P g) = t_events s" "t_event_seq (set_request s P g) = t_event_seq s"
  "t_nonces (set_request s P g) = t_nonces s" "t_callbacks (set_request s P g) = t_callbacks s"
  "t_requests (set_request s P g) = sql_update P g (t_requests s)"
  by (simp_all add: set_request_def)

section \<open>The rows after a transition\<close>

lemma kinds_simps [simp]: "KIND_CREATED \<noteq> KIND_ANSWER" "KIND_CANCELLED \<noteq> KIND_EXPIRED"
  "KIND_ANSWER \<noteq> KIND_CANCELLED" "KIND_ANSWER \<noteq> KIND_EXPIRED" "KIND_CREATED \<noteq> KIND_CANCELLED"
  "KIND_CREATED \<noteq> KIND_EXPIRED"
  by (simp_all add: kind_defs)

lemma recipients_distinct: "keys_ok s \<Longrightarrow> distinct (recipients_of s rid)"
proof -
  assume "keys_ok s"
  then have "distinct (map (\<lambda>w. (rr_request_id w, rr_user_id w)) (t_recipients s))" by (simp add: keys_ok_def)
  then show ?thesis
    unfolding recipients_of_def by (induction "t_recipients s" arbitrary: s) (auto simp: distinct_map inj_on_def)
qed

lemma decisions_ok_closed:
  "decisions_ok w rs us \<Longrightarrow> rq_status w = Pending \<Longrightarrow> st \<in> {Cancelled, Expired} \<Longrightarrow>
   decisions_ok (w\<lparr>rq_status := st, rq_updated_at := t, rq_revision := n\<rparr>) rs us"
  by (auto simp: decisions_ok_def split: decision_resolution.splits)

lemma expected_kinds_closed:
  "rq_status w = Pending \<Longrightarrow> expected_kinds w n @ [KIND_CANCELLED] =
     expected_kinds (w\<lparr>rq_status := Cancelled, rq_updated_at := t, rq_revision := m\<rparr>) n"
  "rq_status w = Pending \<Longrightarrow> expected_kinds w n @ [KIND_EXPIRED] =
     expected_kinds (w\<lparr>rq_status := Expired, rq_updated_at := t, rq_revision := m\<rparr>) n"
  by (simp_all add: expected_kinds_def answer_count_def)

lemma decisions_ok_shared:
  "decisions_ok w rs us \<Longrightarrow> rq_status w = Pending \<Longrightarrow> rq_resolution w = Shared \<Longrightarrow>
   decisions_ok (w\<lparr>rq_status := Resolved, rq_decision := Some d, rq_resolved_at := Some t,
     rq_updated_at := t, rq_revision := n\<rparr>) rs us \<and>
   expected_kinds w k @ [KIND_ANSWER] = expected_kinds (w\<lparr>rq_status := Resolved, rq_decision := Some d,
     rq_resolved_at := Some t, rq_updated_at := t, rq_revision := n\<rparr>) k"
  by (simp add: decisions_ok_def expected_kinds_def answer_count_def)

lemma expected_kinds_user:
  "rq_resolution w = PerUser \<Longrightarrow> rq_status w = Pending \<Longrightarrow> rq_resolution v = PerUser \<Longrightarrow>
   rq_status v \<in> {Pending, Resolved} \<Longrightarrow>
   expected_kinds w k @ [KIND_ANSWER] = expected_kinds v (Suc k)"
  by (auto simp: expected_kinds_def answer_count_def replicate_append_same)

lemma decisions_ok_user:
  assumes "decisions_ok w rs us" "rq_resolution w = PerUser" "rq_status w = Pending"
    and rs: "distinct rs" "u \<in> set rs" "u \<notin> set us"
  shows "length rs \<le> Suc (length us) \<Longrightarrow> decisions_ok (w\<lparr>rq_status := Resolved, rq_resolved_at := Some t,
      rq_updated_at := t, rq_revision := n\<rparr>) rs (us @ [u])"
    and "\<not> length rs \<le> Suc (length us) \<Longrightarrow> decisions_ok (w\<lparr>rq_updated_at := t, rq_revision := n\<rparr>) rs (us @ [u])"
proof -
  from assms have us: "distinct us" "set us \<subseteq> set rs" "rq_decision w = None" "rq_resolved_at w = None"
    by (auto simp: decisions_ok_def)
  have d: "distinct (us @ [u])" and sub: "set (us @ [u]) \<subseteq> set rs" using us rs by auto
  have card: "card (set (us @ [u])) = Suc (length us)" "card (set rs) = length rs"
    using distinct_card [OF d] distinct_card [OF rs(1)] by simp_all
  show "decisions_ok (w\<lparr>rq_status := Resolved, rq_resolved_at := Some t, rq_updated_at := t,
      rq_revision := n\<rparr>) rs (us @ [u])" if "length rs \<le> Suc (length us)"
  proof -
    have "set (us @ [u]) = set rs" using that card by (intro card_seteq sub) auto
    with d sub assms(2) us show ?thesis by (auto simp: decisions_ok_def)
  qed
  show "decisions_ok (w\<lparr>rq_updated_at := t, rq_revision := n\<rparr>) rs (us @ [u])"
    if "\<not> length rs \<le> Suc (length us)"
  proof -
    have "\<not> set rs \<subseteq> set (us @ [u])"
      using that card card_mono [of "set (us @ [u])" "set rs"] by auto
    with d sub assms(2,3) us show ?thesis by (auto simp: decisions_ok_def)
  qed
qed

section \<open>Operations\<close>

text \<open>A recorded decision, step by step.\<close>

lemma record_decision_ok:
  assumes "record_decision X s sub E = Inr (resolved, s')"
  obtains r opt sg s1 s2 where
    "get_request_on X s (sub_request_id sub) = Inr r" "check_value_submission X r sub = Inr ()"
    "check_actor s r sub = Inr ()" "\<forall>t. r_expires_at r = Some t \<longrightarrow> e_now E 0 < t"
    "find_option r (sub_option_id sub) = Some opt" "r_status r = Pending"
    "verified_decision_signature X s r opt (sub_device sub) (trimmed_text (sd_text (sub_decision sub)))
       (sd_signature (sub_decision sub)) (sd_answer_value (sub_decision sub)) = Inr (sg, s1)"
    "(\<exists>user. r_resolution r = PerUser \<and> sub_user_id sub = Some user \<and>
        record_user_decision s1 (sub_request_id sub) user (new_decision sub opt sg (e_now E 1)) (millis (e_now E 1)) = Inr s2) \<or>
     r_resolution r = Shared \<and>
        record_shared_decision s1 (sub_request_id sub) (new_decision sub opt sg (e_now E 1)) (millis (e_now E 1)) = Inr s2"
    "get_request_on X s2 (sub_request_id sub) = Inr resolved"
    "append_lifecycle_on X s2 resolved KIND_ANSWER (Some (new_decision sub opt sg (e_now E 1))) (e_id E 0) (e_now E 2) = Inr s'"
proof -
  have res: "r_resolution r = PerUser \<or> r_resolution r = Shared" for r by (cases "r_resolution r") auto
  from assms show thesis
    unfolding record_decision_def Let_def res_simps
    using that res by (fastforce simp: res_simps split: if_splits option.splits)
qed

lemma record_decision_advances:
  assumes inv: "requests_inv s" and op: "record_decision X s sub E = Inr (resolved, s')"
  shows "\<exists>w f ds e ns d. advances s s' w f ds e ns \<and> rq_id w = sub_request_id sub \<and> rq_status w = Pending \<and>
    ev_kind e = KIND_ANSWER \<and> ed_decision (ev_detail e) = Some d \<and> d_actor_user_id d = sub_user_id sub \<and>
    d_resolved_at d = e_now E 1 \<and>
    (\<forall>t. rq_expires_at w = Some t \<longrightarrow> e_now E 0 < of_millis t) \<and>
    decisions_ok (f w) (recipients_of s (rq_id w)) (deciders s (rq_id w) @ map rd_user_id ds) \<and>
    expected_kinds w (length (deciders s (rq_id w))) @ [ev_kind e] =
      expected_kinds (f w) (length (deciders s (rq_id w)) + length ds) \<and>
    (rq_resolution w = Shared \<longrightarrow> ds = [] \<and> rq_status (f w) = Resolved \<and> rq_decision (f w) = Some d \<and>
       rq_resolution (f w) = Shared) \<and>
    (rq_resolution w = PerUser \<longrightarrow> (\<exists>u. sub_user_id sub = Some u \<and> map rd_user_id ds = [u]) \<and>
       rq_resolution (f w) = PerUser)"
proof -
  obtain r opt sg s1 s2 where st:
    "get_request_on X s (sub_request_id sub) = Inr r" "check_actor s r sub = Inr ()"
    "\<forall>t. r_expires_at r = Some t \<longrightarrow> e_now E 0 < t" "r_status r = Pending"
    "verified_decision_signature X s r opt (sub_device sub) (trimmed_text (sd_text (sub_decision sub)))
       (sd_signature (sub_decision sub)) (sd_answer_value (sub_decision sub)) = Inr (sg, s1)"
    "(\<exists>user. r_resolution r = PerUser \<and> sub_user_id sub = Some user \<and>
        record_user_decision s1 (sub_request_id sub) user (new_decision sub opt sg (e_now E 1)) (millis (e_now E 1)) = Inr s2) \<or>
     r_resolution r = Shared \<and>
        record_shared_decision s1 (sub_request_id sub) (new_decision sub opt sg (e_now E 1)) (millis (e_now E 1)) = Inr s2"
    "get_request_on X s2 (sub_request_id sub) = Inr resolved"
    "append_lifecycle_on X s2 resolved KIND_ANSWER (Some (new_decision sub opt sg (e_now E 1))) (e_id E 0) (e_now E 2) = Inr s'"
    using record_decision_ok [OF op] by metis
  let ?d = "new_decision sub opt sg (e_now E 1)" and ?t = "millis (e_now E 1)" and ?rid = "sub_request_id sub"
  from get_request_on_columns [OF st(1)] obtain w where w: "find_request s ?rid = Some w"
    and r: "r_id r = ?rid" "r_status r = rq_status w" "r_resolution r = rq_resolution w"
    "r_expires_at r = map_option of_millis (rq_expires_at w)" "r_recipients r = recipients_of s ?rid"
    by blast
  from find_request_id [OF w] have wt: "w \<in> set (t_requests s)" "rq_id w = ?rid" by auto
  from r st(4) have pend: "rq_status w = Pending" by simp
  from inv have keys: "keys_ok s" and nonces: "nonces_ok s" and row: "row_ok s w"
    using wt by (auto simp: requests_inv_def base_inv_def)
  from row have dec: "decisions_ok w (recipients_of s ?rid) (deciders s ?rid)" by (simp add: row_ok_def wt)
  from st(5) obtain ns where ns: "s1 = s\<lparr>t_nonces := t_nonces s @ ns\<rparr>" "distinct (map nonce_key (t_nonces s @ ns))"
    "\<And>sig dev. sg = Some sig \<Longrightarrow> map_option dv_id (sub_device sub) = Some dev \<Longrightarrow> (dev, sr_key_id sig, sr_nonce sig) \<in> nonce_key ` set ns"
  proof (cases rule: nonce_step)
    case none
    with nonces show thesis by (intro that [of "[]"]) (auto simp: nonces_ok_def)
  next
    case (signed dev sig n)
    with nonces show thesis by (intro that [of "[n]"]) (auto simp: nonces_ok_def image_iff)
  qed
  have resolved: "r_id resolved = rq_id w" using get_request_on_columns [OF st(7)] wt by auto
  have exp: "\<forall>t. rq_expires_at w = Some t \<longrightarrow> e_now E 0 < of_millis t" using st(3) r by auto
  note step = advance_by_append [OF keys wt(1) _ _ _ _ _ _ _ _ ns(2) _ _ _ _ _ st(8) resolved]
  have nonce: "(dev, sr_key_id sig, sr_nonce sig) \<in> nonce_key ` set ns"
    if "Some ?d = Some x" "d_actor_device_id x = Some dev" "d_signature x = Some sig" for x dev sig
    using that ns(3) by (auto simp: new_decision_def)
  from st(6) show ?thesis
  proof (elim disjE exE conjE)
    assume sh: "r_resolution r = Shared" "record_shared_decision s1 ?rid ?d ?t = Inr s2"
    let ?g = "\<lambda>w. w\<lparr>rq_status := Resolved, rq_decision := Some ?d, rq_resolved_at := Some ?t, rq_updated_at := ?t\<rparr>"
    from sh(2) have s2: "s2 = set_request s1 (pending_row ?rid) ?g"
      by (simp add: record_shared_decision_def split: if_splits)
    have req: "t_requests s2 = sql_update (\<lambda>v. rq_id v = rq_id w) ?g (t_requests s)"
      unfolding s2 wt(2) [symmetric] by (rule set_pending_row [OF keys wt(1) pend]) (simp add: ns)
    have "\<exists>e. advances s s' w (\<lambda>v. (?g v)\<lparr>rq_revision := rq_revision v + 1\<rparr>) [] e ns \<and>
      ev_kind e = KIND_ANSWER \<and> ed_decision (ev_detail e) = Some ?d"
      by (rule step [OF req]; (rule nonce; assumption)?) (simp_all add: s2 ns)
    then obtain e where e: "advances s s' w (\<lambda>v. (?g v)\<lparr>rq_revision := rq_revision v + 1\<rparr>) [] e ns"
      "ev_kind e = KIND_ANSWER" "ed_decision (ev_detail e) = Some ?d" by blast
    with decisions_ok_shared [OF dec pend, where d = ?d and t = ?t and n = "rq_revision w + 1"] sh(1) r wt exp pend show ?thesis
      by (intro exI [of _ w] exI [of _ "\<lambda>v. (?g v)\<lparr>rq_revision := rq_revision v + 1\<rparr>"] exI [of _ "[]"]
          exI [of _ e] exI [of _ ns] exI [of _ ?d]) (simp add: new_decision_def)
  next
    fix user
    assume pu: "r_resolution r = PerUser" "sub_user_id sub = Some user"
      "record_user_decision s1 ?rid user ?d ?t = Inr s2"
    let ?row = "\<lparr>rd_request_id = ?rid, rd_user_id = user, rd_decision = ?d, rd_resolved_at = ?t\<rparr>"
    let ?s1 = "s1\<lparr>t_decisions := t_decisions s1 @ [?row]\<rparr>"
    let ?done = "length (recipients_of s ?rid) \<le> Suc (length (deciders s ?rid))"
    let ?g = "if ?done then (\<lambda>w. w\<lparr>rq_status := Resolved, rq_resolved_at := Some ?t, rq_updated_at := ?t\<rparr>)
       else (\<lambda>w. w\<lparr>rq_updated_at := ?t\<rparr>)"
    have user: "user \<in> set (recipients_of s ?rid)"
      using st(2) pu(2) r by (auto simp: check_actor_def split: if_splits)
    from pu(3) have new: "user \<notin> set (deciders s ?rid)"
      by (auto simp: record_user_decision_def deciders_def list_ex_iff ns split: if_splits)
    have count: "sql_count (\<lambda>w. rr_request_id w = ?rid) (t_recipients s) = length (recipients_of s ?rid)"
      "sql_count (\<lambda>w. rd_request_id w = ?rid) (t_decisions s @ [?row]) = Suc (length (deciders s ?rid))"
      by (simp_all add: sql_count_def recipients_of_def deciders_def)
    have pos: "0 < length (recipients_of s ?rid)" using user by (cases "recipients_of s ?rid") auto
    from pu(3) have s2: "s2 = (if ?done then set_request ?s1 (pending_row ?rid)
        (\<lambda>w. w\<lparr>rq_status := Resolved, rq_resolved_at := Some ?t, rq_updated_at := ?t\<rparr>)
       else set_request ?s1 (\<lambda>w. rq_id w = ?rid) (\<lambda>w. w\<lparr>rq_updated_at := ?t\<rparr>))"
      using count pos unfolding record_user_decision_def Let_def
      by (auto simp: ns split: if_splits)
    have req: "t_requests s2 = sql_update (\<lambda>v. rq_id v = rq_id w) ?g (t_requests s)"
    proof (cases ?done)
      case True
      then show ?thesis
        unfolding s2 using set_pending_row [OF keys wt(1) pend, of ?s1] by (simp add: ns wt(2))
    next
      case False
      then show ?thesis by (simp add: s2 set_request_def ns wt(2))
    qed
    have "\<exists>e. advances s s' w (\<lambda>v. (?g v)\<lparr>rq_revision := rq_revision v + 1\<rparr>) [?row] e ns \<and>
      ev_kind e = KIND_ANSWER \<and> ed_decision (ev_detail e) = Some ?d"
      by (rule step [OF req]; (rule nonce; assumption)?) (simp_all add: s2 ns wt pend)
    then obtain e where e: "advances s s' w (\<lambda>v. (?g v)\<lparr>rq_revision := rq_revision v + 1\<rparr>) [?row] e ns"
      "ev_kind e = KIND_ANSWER" "ed_decision (ev_detail e) = Some ?d" by blast
    have res: "rq_resolution w = PerUser" using pu(1) r by simp
    have "decisions_ok ((?g w)\<lparr>rq_revision := rq_revision w + 1\<rparr>) (recipients_of s ?rid) (deciders s ?rid @ [user])"
      using decisions_ok_user [OF dec res pend recipients_distinct [OF keys] user new] by simp
    moreover have "expected_kinds w (length (deciders s ?rid)) @ [KIND_ANSWER] =
        expected_kinds ((?g w)\<lparr>rq_revision := rq_revision w + 1\<rparr>) (Suc (length (deciders s ?rid)))"
      using res pend by (intro expected_kinds_user) auto
    ultimately show ?thesis
      using e res wt exp pend pu
      by (intro exI [of _ w] exI [of _ "\<lambda>v. (?g v)\<lparr>rq_revision := rq_revision v + 1\<rparr>"] exI [of _ "[?row]"]
          exI [of _ e] exI [of _ ns] exI [of _ ?d]) (simp add: new_decision_def)
  qed
qed

lemma inv_record_decision:
  assumes inv: "requests_inv s" and op: "record_decision X s sub E = Inr (resolved, s')"
  shows "requests_inv s'"
proof -
  from record_decision_advances [OF assms] obtain w f ds e ns where a: "advances s s' w f ds e ns"
    "decisions_ok (f w) (recipients_of s (rq_id w)) (deciders s (rq_id w) @ map rd_user_id ds)"
    "expected_kinds w (length (deciders s (rq_id w))) @ [ev_kind e] =
      expected_kinds (f w) (length (deciders s (rq_id w)) + length ds)"
    by blast
  moreover from a(1) inv have "row_ok s w" by (auto simp: advances_def requests_inv_def)
  then have "map ev_kind (events_of s (rq_id w)) = expected_kinds w (length (deciders s (rq_id w)))"
    by (simp add: row_ok_def)
  ultimately show ?thesis by (intro inv_advance [OF inv a(1)]) simp_all
qed

section \<open>Cancellation and the sweeps\<close>

lemma cancel_request_advances:
  assumes inv: "requests_inv s" and op: "cancel_request X s rid E = Inr (r', s')"
  shows "\<exists>w f e. advances s s' w f [] e [] \<and> rq_id w = rid \<and> rq_status w = Pending \<and>
    f w = w\<lparr>rq_status := Cancelled, rq_updated_at := millis (e_now E 0), rq_revision := rq_revision w + 1\<rparr> \<and>
    ev_kind e = KIND_CANCELLED"
proof -
  let ?g = "\<lambda>w. w\<lparr>rq_status := Cancelled, rq_updated_at := now_string (e_now E 0)\<rparr>"
  let ?s1 = "set_request s (pending_row rid) ?g"
  from op obtain r where st: "get_request_on X s rid = Inr r" "r_status r = Pending"
    "get_request_on X ?s1 rid = Inr r'"
    "append_lifecycle_on X ?s1 r' KIND_CANCELLED None (e_id E 0) (e_now E 1) = Inr s'"
    unfolding cancel_request_def Let_def res_simps by auto
  from get_request_on_columns [OF st(1)] find_request_id obtain w where
    w: "w \<in> set (t_requests s)" "rq_id w = rid" "rq_status w = Pending" using st(2) by metis
  from inv have keys: "keys_ok s" and "distinct (map nonce_key (t_nonces s))"
    by (auto simp: requests_inv_def base_inv_def nonces_ok_def)
  have req: "t_requests ?s1 = sql_update (\<lambda>v. rq_id v = rq_id w) ?g (t_requests s)"
    using set_pending_row [OF keys w(1,3) refl, of ?g] by (simp add: w(2))
  have "\<exists>e. advances s s' w (\<lambda>v. (?g v)\<lparr>rq_revision := rq_revision v + 1\<rparr>) [] e [] \<and>
      ev_kind e = KIND_CANCELLED \<and> ed_decision (ev_detail e) = None"
    using get_request_on_columns [OF st(3)] w \<open>distinct (map nonce_key (t_nonces s))\<close>
    by (intro advance_by_append [OF keys w(1) req _ _ _ _ _ _ _ _ _ _ _ _ _ st(4)]) auto
  then show ?thesis using w by (auto simp: now_string_def)
qed

lemma inv_cancel_request:
  assumes inv: "requests_inv s" and op: "cancel_request X s rid E = Inr (r', s')"
  shows "requests_inv s'"
proof -
  from cancel_request_advances [OF assms] obtain w f e where a: "advances s s' w f [] e []"
    "rq_status w = Pending" "ev_kind e = KIND_CANCELLED"
    "f w = w\<lparr>rq_status := Cancelled, rq_updated_at := millis (e_now E 0), rq_revision := rq_revision w + 1\<rparr>"
    by blast
  from a(1) inv have "row_ok s w" by (auto simp: advances_def requests_inv_def)
  then have "decisions_ok w (recipients_of s (rq_id w)) (deciders s (rq_id w))"
    "map ev_kind (events_of s (rq_id w)) = expected_kinds w (length (deciders s (rq_id w)))"
    by (simp_all add: row_ok_def)
  with decisions_ok_closed [OF _ a(2)] expected_kinds_closed(1) [OF a(2)] a(3,4) show ?thesis
    by (intro inv_advance [OF inv a(1)]) auto
qed

text \<open>
  Between the update and the journal entries of the expiry sweep, the rows in \<open>ids\<close> lack their
  entry: they look as they did when pending.
\<close>

definition lagging :: "db \<Rightarrow> request_row \<Rightarrow> bool" where
  "lagging s w \<longleftrightarrow> rq_status w = Expired \<and> row_ok s (w\<lparr>rq_status := Pending\<rparr>)"

definition sweeping :: "db \<Rightarrow> rstr list \<Rightarrow> bool" where
  "sweeping s ids \<longleftrightarrow> base_inv s \<and>
     (\<forall>w \<in> set (t_requests s). if rq_id w \<in> set ids then lagging s w else row_ok s w)"

lemma lagging_rev: "lagging s w \<Longrightarrow> rq_revision w = int (length (events_of s (rq_id w)))"
  by (simp add: lagging_def row_ok_def)

lemma sweeping_step:
  assumes sw: "sweeping s (rid # ids)" and "rid \<notin> set ids" and r: "get_request_on X s rid = Inr r"
    and app: "append_lifecycle_on X s r KIND_EXPIRED None eid now = Inr s'"
  shows "sweeping s' ids"
proof -
  from sw have base: "base_inv s" by (simp add: sweeping_def)
  then have keys: "keys_ok s" and nd: "distinct (map nonce_key (t_nonces s))"
    by (auto simp: base_inv_def nonces_ok_def)
  from get_request_on_columns [OF r] find_request_id obtain w where
    w: "w \<in> set (t_requests s)" "rq_id w = rid" and rid: "r_id r = rid" by metis
  have req: "t_requests s = sql_update (\<lambda>v. rq_id v = rq_id w) (\<lambda>v. v) (t_requests s)"
    by (simp add: sql_update_def)
  have "\<exists>e. advances s s' w (\<lambda>v. v\<lparr>rq_revision := rq_revision v + 1\<rparr>) [] e [] \<and>
      ev_kind e = KIND_EXPIRED \<and> ed_decision (ev_detail e) = None"
    using w rid nd by (intro advance_by_append [OF keys w(1) req _ _ _ _ _ _ _ _ _ _ _ _ _ app]) auto
  then obtain e where a: "advances s s' w (\<lambda>v. v\<lparr>rq_revision := rq_revision v + 1\<rparr>) [] e []"
    "ev_kind e = KIND_EXPIRED" by blast
  from sw w have lag: "lagging s w" by (auto simp: sweeping_def)
  let ?p = "w\<lparr>rq_status := Pending\<rparr>" and ?w' = "w\<lparr>rq_revision := rq_revision w + 1\<rparr>"
  from lag have pr: "decisions_ok ?p (recipients_of s rid) (deciders s rid)"
    "map ev_kind (events_of s rid) = expected_kinds ?p (length (deciders s rid))"
    and expired: "rq_status w = Expired"
    by (simp_all add: lagging_def row_ok_def w)
  have w': "?w' = ?p\<lparr>rq_status := Expired, rq_updated_at := rq_updated_at w, rq_revision := rq_revision w + 1\<rparr>"
    using expired by simp
  have new: "row_ok s' ?w'"
  proof (rule row_ok_advanced [OF a(1)])
    show "decisions_ok ?w' (recipients_of s (rq_id w)) (deciders s (rq_id w) @ map rd_user_id [])"
      unfolding w' w(2)
      using decisions_ok_closed [OF pr(1), where st = Expired and t = "rq_updated_at w" and n = "rq_revision w + 1"]
      by simp
    show "map ev_kind (events_of s (rq_id w)) @ [ev_kind e] =
        expected_kinds ?w' (length (deciders s (rq_id w)) + length ([] :: user_decision_row list))"
      using pr(2) a(2) expired by (simp add: w(2) expected_kinds_def answer_count_def)
    show "rq_revision w = int (length (events_of s (rq_id w)))" by (rule lagging_rev [OF lag])
  qed
  have other: "lagging s' v = lagging s v" "row_ok s' v = row_ok s v" if "rq_id v \<noteq> rq_id w" for v
    using that row_ok_other [OF a(1)] by (simp_all add: lagging_def)
  have "if rq_id v \<in> set ids then lagging s' v else row_ok s' v" if "v \<in> set (t_requests s')" for v
    using that sw other new assms(2) w(2)
    by (auto simp: advances_rows [OF keys a(1)] sweeping_def)
  with base_advance [OF base a(1) lagging_rev [OF lag]] show ?thesis by (simp add: sweeping_def)
qed

lemma sweeping_done:
  "sweeping s ids \<Longrightarrow> distinct ids \<Longrightarrow> append_expired X s ids E n = Inr (rs, s') \<Longrightarrow> requests_inv s'"
proof (induction X s ids E n arbitrary: rs rule: append_expired.induct)
  case (1 X s E n)
  then show ?case by (simp add: sweeping_def requests_inv_def)
next
  case (2 X s rid rids E n)
  then obtain r s1 rs' where st: "get_request_on X s rid = Inr r"
    "append_lifecycle_on X s r KIND_EXPIRED None (e_id E n) (e_now E (Suc n)) = Inr s1"
    "append_expired X s1 rids E (Suc n) = Inr (rs', s')"
    by (auto simp: res_simps)
  with "2.prems" sweeping_step [OF "2.prems"(1) _ st(1,2)] have "sweeping s1 rids" by simp
  with "2.IH" [OF this _ st(3)] "2.prems"(2) show ?case by simp
qed

lemma row_ok_pending_update:
  "row_ok s w \<Longrightarrow> rq_status w = Pending \<Longrightarrow> row_ok s (w\<lparr>rq_updated_at := t\<rparr>)"
  by (simp add: row_ok_def decisions_ok_def expected_kinds_def answer_count_def split: decision_resolution.splits)

lemma inv_expire_due_requests:
  assumes inv: "requests_inv s" and op: "expire_due_requests X s E = Inr (rs, s')"
  shows "requests_inv s'"
proof -
  let ?now = "now_string (e_now E 0)"
  let ?f = "\<lambda>w. w\<lparr>rq_status := Expired, rq_updated_at := ?now\<rparr>"
  let ?ids = "map rq_id (filter (expiry_due ?now) (t_requests s))"
  let ?s1 = "set_request s (expiry_due ?now) ?f"
  from inv have base: "base_inv s" and rows: "\<forall>w \<in> set (t_requests s). row_ok s w"
    by (auto simp: requests_inv_def)
  then have keys: "keys_ok s" by (simp add: base_inv_def)
  have ids: "map rq_id (t_requests ?s1) = map rq_id (t_requests s)"
    by (simp add: map_sql_update_frame)
  have views: "events_of ?s1 = events_of s" "deciders ?s1 = deciders s" "recipients_of ?s1 = recipients_of s"
    by (auto simp: events_of_def deciders_def recipients_of_def fun_eq_iff)
  have rok: "row_ok ?s1 v = row_ok s v" for v by (simp add: row_ok_def views)
  have due_unique: "expiry_due ?now v" if "v \<in> set (t_requests s)" "rq_id v \<in> set ?ids" for v
    using that unique_row [OF keys] by fastforce
  have "sweeping ?s1 ?ids"
  proof -
    have "keys_ok ?s1" using keys ids list.set_map [of rq_id "t_requests ?s1"] list.set_map [of rq_id "t_requests s"]
      by (simp add: keys_ok_def)
    moreover have "dedupe_ok ?s1"
    proof -
      have "v \<in> set (t_requests s)" if "v \<in> set (t_requests ?s1)" "rq_status v = Pending" for v
        using that by (auto simp: set_sql_update split: if_splits)
      then show ?thesis using base unfolding base_inv_def dedupe_ok_def pending_with_key_def by blast
    qed
    moreover have "journal_ok ?s1" "nonces_ok ?s1"
      using base by (auto simp: base_inv_def journal_ok_def journal_wf_def revisions_ok_def nonces_ok_def views)
    moreover have "if rq_id v \<in> set ?ids then lagging ?s1 v else row_ok ?s1 v" if "v \<in> set (t_requests ?s1)" for v
    proof -
      from that obtain u where u: "u \<in> set (t_requests s)" "v = (if expiry_due ?now u then ?f u else u)"
        by (auto simp: set_sql_update)
      show ?thesis
      proof (cases "expiry_due ?now u")
        case True
        then have p: "rq_status u = Pending" by (simp add: expiry_due_def)
        then have eq: "u\<lparr>rq_updated_at := ?now, rq_status := Pending\<rparr> = u\<lparr>rq_updated_at := ?now\<rparr>"
          by (cases u) simp
        have "row_ok s (u\<lparr>rq_updated_at := ?now, rq_status := Pending\<rparr>)"
          unfolding eq using rows u(1) p by (intro row_ok_pending_update) auto
        with u(2) True have "lagging ?s1 v" by (simp add: lagging_def rok)
        with True u show ?thesis by auto
      next
        case False
        with due_unique [OF u(1)] u rows show ?thesis by (auto simp: rok)
      qed
    qed
    ultimately show ?thesis by (simp add: sweeping_def base_inv_def)
  qed
  moreover have "distinct ?ids"
    using keys distinct_filter by (auto simp: keys_ok_def distinct_map inj_on_def)
  moreover have "append_expired X ?s1 ?ids E 0 = Inr (rs, s')"
    using op by (simp add: expire_due_requests_def Let_def)
  ultimately show ?thesis by (rule sweeping_done)
qed

text \<open>Deletion takes whole requests away.\<close>

lemma inv_delete_requests:
  assumes inv: "requests_inv s"
  shows "requests_inv (delete_requests s P)"
proof -
  let ?s = "delete_requests s P"
  let ?gone = "\<lambda>rid. list_ex (\<lambda>w. P w \<and> rq_id w = rid) (t_requests s)"
  from inv have keys: "keys_ok s" by (simp add: requests_inv_def base_inv_def)
  have stay: "\<not> ?gone (rq_id w)" if "w \<in> set (t_requests ?s)" for w
    using that unique_row [OF keys] by (auto simp: delete_requests_def Let_def list_ex_iff)
  have kept: "w \<in> set (t_requests s)" if "w \<in> set (t_requests ?s)" for w
    using that by (simp add: delete_requests_def Let_def)
  have views: "events_of ?s = events_of s"
    by (simp add: events_of_def delete_requests_def Let_def fun_eq_iff)
  have deciders: "deciders ?s rid = deciders s rid" and recipients: "recipients_of ?s rid = recipients_of s rid"
    if g: "\<not> ?gone rid" for rid
  proof -
    have "filter (\<lambda>d. rd_request_id d = rid) (sql_delete (\<lambda>w. ?gone (rd_request_id w)) (t_decisions s)) =
        filter (\<lambda>d. rd_request_id d = rid) (t_decisions s)"
      "filter (\<lambda>d. rr_request_id d = rid) (sql_delete (\<lambda>w. ?gone (rr_request_id w)) (t_recipients s)) =
        filter (\<lambda>d. rr_request_id d = rid) (t_recipients s)"
      using g by (intro filter_sql_delete; blast)+
    then show "deciders ?s rid = deciders s rid" "recipients_of ?s rid = recipients_of s rid"
      by (simp_all add: deciders_def recipients_of_def delete_requests_def Let_def)
  qed
  have ids: "rid \<in> rq_id ` set (t_requests ?s)" if "rid \<in> rq_id ` set (t_requests s)" "\<not> ?gone rid" for rid
    using that by (auto simp: delete_requests_def Let_def list_ex_iff)
  have "keys_ok ?s"
  proof -
    have "rr_request_id w \<in> rq_id ` set (t_requests ?s)" if "w \<in> set (t_recipients ?s)" for w
    proof -
      from that have "w \<in> set (t_recipients s)" "\<not> ?gone (rr_request_id w)"
        by (simp_all add: delete_requests_def Let_def)
      with keys ids show ?thesis unfolding keys_ok_def by blast
    qed
    moreover have "rd_request_id w \<in> rq_id ` set (t_requests ?s)" if "w \<in> set (t_decisions ?s)" for w
    proof -
      from that have "w \<in> set (t_decisions s)" "\<not> ?gone (rd_request_id w)"
        by (simp_all add: delete_requests_def Let_def)
      with keys ids show ?thesis unfolding keys_ok_def by blast
    qed
    moreover have "distinct (map rq_id (t_requests ?s))"
      "distinct (map (\<lambda>w. (rr_request_id w, rr_user_id w)) (t_recipients ?s))"
      using keys by (simp_all add: keys_ok_def delete_requests_def Let_def distinct_map_sql_delete)
    ultimately show ?thesis unfolding keys_ok_def by blast
  qed
  moreover have "dedupe_ok ?s"
    using inv kept unfolding requests_inv_def base_inv_def dedupe_ok_def by blast
  moreover have "journal_ok ?s" "nonces_ok ?s"
  proof -
    have "t_events ?s = t_events s" "t_nonces ?s = t_nonces s" "t_event_seq ?s = t_event_seq s"
      by (simp_all add: delete_requests_def Let_def)
    with inv show "journal_ok ?s" "nonces_ok ?s"
      by (simp_all add: requests_inv_def base_inv_def journal_ok_def journal_wf_def revisions_ok_def
          nonces_ok_def views)
  qed
  moreover have "row_ok ?s w" if "w \<in> set (t_requests ?s)" for w
    using inv kept [OF that] stay [OF that] by (simp add: requests_inv_def row_ok_def views deciders recipients)
  ultimately show ?thesis by (simp add: requests_inv_def base_inv_def)
qed

lemma inv_prune_retention: "requests_inv s \<Longrightarrow> requests_inv (snd (prune_retention s n now))"
  by (simp add: prune_retention_def Let_def inv_delete_requests)

section \<open>The publisher\<close>

lemma map_event_core_update:
  "(\<And>e. event_core (f e) = event_core e) \<Longrightarrow>
   map event_core (sql_update P f es) = map event_core es"
  by (rule map_sql_update_frame)

lemma inv_journal_wf: "requests_inv s \<Longrightarrow> journal_wf s"
  by (simp add: requests_inv_def base_inv_def journal_ok_def)

lemma inv_event_update:
  assumes "requests_inv s" and "\<And>e. P e \<Longrightarrow> ev_lease_until (f e) \<noteq> None \<Longrightarrow> ev_lease_token (f e) \<noteq> None"
    and "\<And>e. event_core (f e) = event_core e"
  shows "requests_inv (s\<lparr>t_events := sql_update P f (t_events s)\<rparr>)"
proof (rule inv_journal_frame [OF assms(1)])
  show "journal_wf (s\<lparr>t_events := sql_update P f (t_events s)\<rparr>)"
    using assms(2) event_core_fields [OF assms(3)]
    by (intro journal_wf_update inv_journal_wf assms(1)) auto
  show "map event_core (t_events (s\<lparr>t_events := sql_update P f (t_events s)\<rparr>)) = map event_core (t_events s)"
    by (simp add: map_event_core_update assms(3))
qed simp_all

lemma inv_publisher:
  assumes "requests_inv s"
  shows "requests_inv (snd (claim_event s E))" and "requests_inv (snd (published s c n t))"
    and "requests_inv (snd (publish_retry s c E))"
proof -
  show "requests_inv (snd (claim_event s E))"
  proof (cases "claim_event s E")
    case (Pair c s')
    show ?thesis
    proof (cases c)
      case None
      with Pair show ?thesis using assms by (auto simp: claim_event_def Let_def split: option.splits)
    next
      case (Some pc)
      from claim_event_Some [OF Pair [unfolded Some]] obtain e :: event_row where "s' = s\<lparr>t_events := sql_update (\<lambda>w. ev_seq w = ev_seq e)
         (\<lambda>w. w\<lparr>ev_lease_token := Some (e_id E 0), ev_lease_until := Some (millis (e_now E 1 + seconds 60)),
            ev_attempts := ev_attempts w + 1\<rparr>) (t_events s)\<rparr>" by (elim bexE conjE) (rule that)
      moreover have "requests_inv \<dots>" by (rule inv_event_update [OF assms]) (simp_all add: event_core_def)
      ultimately show ?thesis using Pair by simp
    qed
  qed
  show "requests_inv (snd (published s c n t))" "requests_inv (snd (publish_retry s c E))"
    unfolding published_def publish_retry_def Let_def snd_conv
    by (rule inv_event_update [OF assms]; simp add: event_core_def)+
qed

end
