(* ===== verification/Push_Queue.thy ===== *)
theory Push_Queue
  imports Transitions
begin

text \<open>
  The push outbox (nod-server db/push_deliveries.rs): one row per request and device, queued with
  the request. A worker claims a batch with a fresh claim generation and a lease of 90 seconds, counts an
  attempt before each send, and records the outcome only while it still owns the generation and
  the attempt. It is a lease queue whose token is the pair of generation and attempts.
\<close>

section \<open>Operations\<close>

definition MAX_ATTEMPTS :: int where "MAX_ATTEMPTS = 3"
definition LEASE_SECONDS :: int where "LEASE_SECONDS = 90"

definition PS_QUEUED :: rstr where "PS_QUEUED = lit ''queued''"
definition PS_SENDING :: rstr where "PS_SENDING = lit ''sending''"
definition PS_FAILED :: rstr where "PS_FAILED = lit ''failed''"

lemma push_states_distinct [simp]: "PS_QUEUED \<noteq> PS_SENDING" "PS_SENDING \<noteq> PS_QUEUED"
  "PS_FAILED \<noteq> PS_SENDING" "PS_FAILED \<noteq> PS_QUEUED"
  by (simp_all add: PS_QUEUED_def PS_SENDING_def PS_FAILED_def)

definition unixepoch :: "instant \<Rightarrow> int" where
  "unixepoch t = t div 1000000000"

record push_job =
  pj_request_id :: rstr
  pj_device_id :: rstr
  pj_attempts :: int
  pj_claim_generation :: int

definition push_recoverable :: "int \<Rightarrow> push_row \<Rightarrow> bool" where
  "push_recoverable now w \<longleftrightarrow>
     pd_status w = PS_SENDING \<and> lease_free (pd_lease_until w) now \<or>
     pd_status w = PS_QUEUED \<and> pd_attempts w \<ge> 3"

definition recover_pushes :: "db \<Rightarrow> instant \<Rightarrow> db" where
  "recover_pushes s t = s\<lparr>t_push := sql_update (push_recoverable (unixepoch t))
     (\<lambda>w. w\<lparr>pd_status := (if pd_attempts w \<ge> 3 then PS_FAILED else PS_QUEUED), pd_lease_until := None,
        pd_error := Some (lit ''interrupted push lease expired''), pd_updated_at := now_string t\<rparr>) (t_push s)\<rparr>"

definition push_key :: "push_row \<Rightarrow> rstr \<times> rstr" where
  "push_key w = (pd_request_id w, pd_device_id w)"

definition claimable_pushes :: "db \<Rightarrow> int \<Rightarrow> (rstr \<times> rstr) list" where
  "claimable_pushes s limit = map push_key (take (nat limit) (sort_key pd_updated_at
     (filter (\<lambda>w. pd_status w = PS_QUEUED \<and> pd_attempts w < 3) (t_push s))))"

definition claim_row :: "instant \<Rightarrow> push_row \<Rightarrow> push_row" where
  "claim_row t w = w\<lparr>pd_status := PS_SENDING, pd_claim_generation := pd_claim_generation w + 1,
     pd_lease_until := Some (unixepoch t + LEASE_SECONDS), pd_updated_at := now_string t\<rparr>"

definition job_of :: "push_row \<Rightarrow> push_job" where
  "job_of w = \<lparr>pj_request_id = pd_request_id w, pj_device_id = pd_device_id w,
     pj_attempts = pd_attempts w, pj_claim_generation = pd_claim_generation w\<rparr>"

definition claim_pushes :: "db \<Rightarrow> int \<Rightarrow> instant \<Rightarrow> push_job list \<times> db" where
  "claim_pushes s limit t =
     (let keys = claimable_pushes s (max limit 0); P = (\<lambda>w. push_key w \<in> set keys) in
      (map (\<lambda>w. job_of (claim_row t w)) (filter P (t_push s)),
       s\<lparr>t_push := sql_update P (claim_row t) (t_push s)\<rparr>))"

definition owns_push :: "push_job \<Rightarrow> int \<Rightarrow> push_row \<Rightarrow> bool" where
  \<comment> \<open>\<open>status='sending' AND claim_generation=? AND lease_until>unixepoch() AND attempts=?\<close>\<close>
  "owns_push j now w \<longleftrightarrow> push_key w = (pj_request_id j, pj_device_id j) \<and> pd_status w = PS_SENDING \<and>
     pd_claim_generation w = pj_claim_generation j \<and>
     (case pd_lease_until w of None \<Rightarrow> False | Some u \<Rightarrow> now < u) \<and> pd_attempts w = pj_attempts j"

definition update_push :: "db \<Rightarrow> push_job \<Rightarrow> rstr \<Rightarrow> rstr option \<Rightarrow> instant \<Rightarrow> db api_result" where
  "update_push s j status err t =
     (let P = owns_push j (unixepoch t) in
      if sql_count P (t_push s) \<noteq> 1 then Inl database_error
      else Inr (s\<lparr>t_push := sql_update P (\<lambda>w. w\<lparr>pd_status := status, pd_updated_at := now_string t,
        pd_error := err\<rparr>) (t_push s)\<rparr>))"

definition begin_attempt :: "db \<Rightarrow> push_job \<Rightarrow> instant \<Rightarrow> (push_job \<times> db) api_result" where
  "begin_attempt s j t =
     (let P = (\<lambda>w. owns_push j (unixepoch t) w \<and> pd_attempts w < 3) in
      if sql_count P (t_push s) \<noteq> 1 then Inl database_error
      else Inr (j\<lparr>pj_attempts := pj_attempts j + 1\<rparr>,
        s\<lparr>t_push := sql_update P (\<lambda>w. w\<lparr>pd_attempts := pd_attempts w + 1, pd_updated_at := now_string t\<rparr>)
          (t_push s)\<rparr>))"

definition clear_invalid_push_token :: "db \<Rightarrow> push_job \<Rightarrow> rstr option \<Rightarrow> instant \<Rightarrow> bool \<times> db" where
  \<comment> \<open>\<open>push_token=?\<close> is never true for a null\<close>
  "clear_invalid_push_token s j token t =
     (let P = (\<lambda>d. dv_id d = pj_device_id j \<and> token \<noteq> None \<and> dv_push_token d = token \<and>
            list_ex (owns_push j (unixepoch t)) (t_push s))
      in (sql_count P (t_devices s) = 1,
          s\<lparr>t_devices := sql_update P (\<lambda>d. d\<lparr>dv_push_token := None\<rparr>) (t_devices s)\<rparr>))"

definition recent_push_deliveries :: "db \<Rightarrow> (rstr \<times> rstr \<times> rstr \<times> int \<times> int \<times> rstr option) list" where
  "recent_push_deliveries s = map (\<lambda>w. (pd_request_id w, pd_device_id w, pd_status w, pd_attempts w,
     pd_updated_at w, pd_error w)) (take 100 (rev (sort_key pd_updated_at (rev (t_push s)))))"

section \<open>A lease queue\<close>

definition pushes_wf :: "db \<Rightarrow> bool" where
  "pushes_wf s \<longleftrightarrow> distinct (map push_key (t_push s))"

definition find_push :: "db \<Rightarrow> rstr \<times> rstr \<Rightarrow> push_row option" where
  "find_push s k = List.find (\<lambda>w. push_key w = k) (t_push s)"

definition push_holder :: "db \<Rightarrow> rstr \<times> rstr \<Rightarrow> ((int \<times> int) \<times> int) option" where
  "push_holder s k = Option.bind (find_push s k) (\<lambda>w.
     if pd_status w \<noteq> PS_SENDING then None
     else map_option (\<lambda>u. ((pd_claim_generation w, pd_attempts w), u)) (pd_lease_until w))"

definition push_closed :: "db \<Rightarrow> rstr \<times> rstr \<Rightarrow> bool" where
  "push_closed s k \<longleftrightarrow> (case find_push s k of None \<Rightarrow> False
     | Some w \<Rightarrow> pd_status w \<noteq> PS_QUEUED \<and> pd_status w \<noteq> PS_SENDING)"

definition job_token :: "push_job \<Rightarrow> int \<times> int" where
  "job_token j = (pj_claim_generation j, pj_attempts j)"

definition push_claims :: "db \<Rightarrow> int \<Rightarrow> db \<Rightarrow> rstr \<times> rstr \<Rightarrow> int \<times> int \<Rightarrow> bool" where
  "push_claims s now s' k token \<longleftrightarrow> (\<exists>limit t jobs j. claim_pushes s limit t = (jobs, s') \<and> now = unixepoch t \<and>
     j \<in> set jobs \<and> k = (pj_request_id j, pj_device_id j) \<and> token = job_token j)"

definition push_settled :: "db \<Rightarrow> rstr \<times> rstr \<Rightarrow> int \<times> int \<Rightarrow> int \<Rightarrow> db \<Rightarrow> bool" where
  "push_settled s k token now s' \<longleftrightarrow> (\<exists>j status err t. update_push s j status err t = Inr s' \<and>
     status \<noteq> PS_SENDING \<and> now = unixepoch t \<and> k = (pj_request_id j, pj_device_id j) \<and> token = job_token j)"

lemma find_push_iff: "pushes_wf s \<Longrightarrow> find_push s k = Some w \<longleftrightarrow> w \<in> set (t_push s) \<and> push_key w = k"
  unfolding find_push_def pushes_wf_def by (simp add: find_Some_iff_key)

lemma pushes_wf_update:
  "pushes_wf s \<Longrightarrow> (\<And>w. P w \<Longrightarrow> push_key (f w) = push_key w) \<Longrightarrow>
   pushes_wf (s\<lparr>t_push := sql_update P f (t_push s)\<rparr>)"
  by (simp add: pushes_wf_def map_sql_update_frame)

lemma find_push_update:
  "(\<And>w. P w \<Longrightarrow> push_key (f w) = push_key w) \<Longrightarrow>
   find_push (s\<lparr>t_push := sql_update P f (t_push s)\<rparr>) k = map_option (\<lambda>w. if P w then f w else w) (find_push s k)"
  unfolding find_push_def by (simp add: find_sql_update_key)

lemma claim_row_fields [simp]: "push_key (claim_row t w) = push_key w" "pd_status (claim_row t w) = PS_SENDING"
  "pd_lease_until (claim_row t w) = Some (unixepoch t + LEASE_SECONDS)" "pd_attempts (claim_row t w) = pd_attempts w"
  "pd_claim_generation (claim_row t w) = pd_claim_generation w + 1"
  by (simp_all add: claim_row_def push_key_def)

lemma claimable_rows:
  "k \<in> set (claimable_pushes s limit) \<Longrightarrow> \<exists>w \<in> set (t_push s). push_key w = k \<and> pd_status w = PS_QUEUED \<and> pd_attempts w < 3"
  by (auto simp: claimable_pushes_def dest!: in_set_takeD)

lemma claim_pushes_job:
  assumes "pushes_wf s" "claim_pushes s limit t = (jobs, s')" "j \<in> set jobs"
  shows "\<exists>w. find_push s (pj_request_id j, pj_device_id j) = Some w \<and> pd_status w = PS_QUEUED \<and> pd_attempts w < 3 \<and>
    find_push s' (pj_request_id j, pj_device_id j) = Some (claim_row t w) \<and>
    job_token j = (pd_claim_generation w + 1, pd_attempts w)"
proof -
  let ?P = "\<lambda>w. push_key w \<in> set (claimable_pushes s (max limit 0))"
  from assms(2,3) obtain w where w: "w \<in> set (t_push s)" "?P w" "j = job_of (claim_row t w)"
    and s': "s' = s\<lparr>t_push := sql_update ?P (claim_row t) (t_push s)\<rparr>"
    by (auto simp: claim_pushes_def Let_def)
  have key: "push_key w = (pj_request_id j, pj_device_id j)"
    by (simp add: w(3) job_of_def claim_row_def push_key_def)
  from claimable_rows [OF w(2)] obtain v where v: "v \<in> set (t_push s)" "push_key v = push_key w"
    "pd_status v = PS_QUEUED" "pd_attempts v < 3" by auto
  then have "v = w" using w(1) assms(1) by (auto simp: pushes_wf_def distinct_map inj_on_def)
  moreover have f: "find_push s (pj_request_id j, pj_device_id j) = Some w"
    using w(1) key by (simp add: find_push_iff [OF assms(1)])
  moreover have "find_push s' (pj_request_id j, pj_device_id j) = Some (claim_row t w)"
    unfolding s' using f w(2) by (simp add: find_push_update)
  ultimately show ?thesis using v by (simp add: w(3) job_token_def job_of_def)
qed

lemma push_claims_facts:
  assumes "pushes_wf s" "push_claims s now s' k token"
  shows "pushes_wf s'"
    and "(\<forall>t u. push_holder s k = Some (t, u) \<longrightarrow> u \<le> now) \<and> \<not> push_closed s k"
    and "\<exists>u. push_holder s' k = Some (token, u)"
proof -
  from assms(2) obtain limit t jobs j where j: "claim_pushes s limit t = (jobs, s')" "now = unixepoch t"
    "j \<in> set jobs" "k = (pj_request_id j, pj_device_id j)" "token = job_token j"
    by (auto simp: push_claims_def)
  from claim_pushes_job [OF assms(1) j(1,3)] obtain w where w: "find_push s k = Some w" "pd_status w = PS_QUEUED"
    "find_push s' k = Some (claim_row t w)" "token = (pd_claim_generation w + 1, pd_attempts w)"
    using j by auto
  from j(1) show "pushes_wf s'"
    by (auto simp: claim_pushes_def Let_def intro!: pushes_wf_update [OF assms(1)])
  show "(\<forall>t u. push_holder s k = Some (t, u) \<longrightarrow> u \<le> now) \<and> \<not> push_closed s k"
    "\<exists>u. push_holder s' k = Some (token, u)"
    using w by (simp_all add: push_holder_def push_closed_def)
qed

lemma owned_push:
  assumes "pushes_wf s" "sql_count (owns_push j now) (t_push s) = 1"
  shows "\<exists>w u. find_push s (pj_request_id j, pj_device_id j) = Some w \<and> owns_push j now w \<and>
    push_holder s (pj_request_id j, pj_device_id j) = Some (job_token j, u) \<and> now < u"
proof -
  from assms(2) obtain w where w: "w \<in> set (t_push s)" "owns_push j now w"
    unfolding sql_count_def by (metis One_nat_def filter_empty_conv length_0_conv zero_neq_one)
  then have "find_push s (pj_request_id j, pj_device_id j) = Some w"
    by (simp add: find_push_iff [OF assms(1)] owns_push_def)
  with w show ?thesis
    by (auto simp: push_holder_def owns_push_def job_token_def split: option.splits)
qed

lemma push_settled_facts:
  assumes "pushes_wf s" "push_settled s k token now s'"
  shows "pushes_wf s'" "\<exists>u. push_holder s k = Some (token, u) \<and> now < u \<and> \<not> push_closed s k"
    "push_holder s' k = None"
    "i \<noteq> k \<Longrightarrow> push_holder s' i = push_holder s i \<and> push_closed s' i = push_closed s i"
proof -
  from assms(2) obtain j status err t where j: "update_push s j status err t = Inr s'" "status \<noteq> PS_SENDING"
    "now = unixepoch t" "k = (pj_request_id j, pj_device_id j)" "token = job_token j"
    by (auto simp: push_settled_def)
  let ?f = "\<lambda>w. w\<lparr>pd_status := status, pd_updated_at := now_string t, pd_error := err\<rparr>"
  from j(1,3) have one: "sql_count (owns_push j now) (t_push s) = 1"
    and s': "s' = s\<lparr>t_push := sql_update (owns_push j now) ?f (t_push s)\<rparr>"
    by (auto simp: update_push_def Let_def split: if_splits)
  from owned_push [OF assms(1) one] j obtain w u where w: "find_push s k = Some w" "owns_push j now w"
    "push_holder s k = Some (token, u)" "now < u" by auto
  have upd: "find_push s' i = map_option (\<lambda>w. if owns_push j now w then ?f w else w) (find_push s i)" for i
    unfolding s' by (rule find_push_update) (simp add: push_key_def)
  show "pushes_wf s'" unfolding s' by (rule pushes_wf_update [OF assms(1)]) (simp add: push_key_def)
  show "\<exists>u. push_holder s k = Some (token, u) \<and> now < u \<and> \<not> push_closed s k"
    using w by (auto simp: push_closed_def owns_push_def)
  show "push_holder s' k = None" using w(1,2) j(2) by (simp add: push_holder_def upd)
  show "push_holder s' i = push_holder s i \<and> push_closed s' i = push_closed s i" if "i \<noteq> k"
  proof (cases "find_push s i")
    case (Some v)
    with find_push_iff [OF assms(1)] that j(4) have "\<not> owns_push j now v"
      by (auto simp: owns_push_def)
    with Some show ?thesis by (simp add: push_holder_def push_closed_def upd)
  qed (simp add: push_holder_def push_closed_def upd)
qed

interpretation push: lease_queue pushes_wf push_holder push_closed push_claims push_settled
  by (unfold_locales; rule push_claims_facts push_settled_facts; assumption)

section \<open>Attempts are bounded\<close>

definition push_row_ok :: "push_row \<Rightarrow> bool" where
  "push_row_ok w \<longleftrightarrow> 0 \<le> pd_attempts w \<and> pd_attempts w \<le> MAX_ATTEMPTS \<and> 0 \<le> pd_claim_generation w"

definition push_inv :: "db \<Rightarrow> bool" where
  "push_inv s \<longleftrightarrow> pushes_wf s \<and> (\<forall>w \<in> set (t_push s). push_row_ok w)"

text \<open>How one operation may change a row: attempts and generations only grow.\<close>

definition push_grows :: "push_row \<Rightarrow> push_row \<Rightarrow> bool" where
  "push_grows w v \<longleftrightarrow> push_key v = push_key w \<and> pd_attempts w \<le> pd_attempts v \<and>
     pd_attempts v \<le> max (pd_attempts w) MAX_ATTEMPTS \<and> pd_claim_generation w \<le> pd_claim_generation v"

lemma push_inv_update:
  assumes "push_inv s" and "\<And>w. P w \<Longrightarrow> push_grows w (f w)"
  shows "push_inv (s\<lparr>t_push := sql_update P f (t_push s)\<rparr>)"
proof -
  have "pushes_wf (s\<lparr>t_push := sql_update P f (t_push s)\<rparr>)"
    using assms by (intro pushes_wf_update) (auto simp: push_inv_def push_grows_def)
  moreover have "push_row_ok (f w)" if "w \<in> set (t_push s)" "P w" for w
    using assms(1) assms(2) [OF that(2)] that(1) unfolding push_inv_def push_row_ok_def push_grows_def
    by (metis max.absorb2 order.trans)
  ultimately show ?thesis using assms(1) by (auto simp: push_inv_def set_sql_update)
qed

lemma push_inv_ops:
  assumes "push_inv s"
  shows "push_inv (recover_pushes s t)" and "push_inv (snd (claim_pushes s limit t))"
    and "update_push s j status err t = Inr s' \<Longrightarrow> push_inv s'"
    and "begin_attempt s j t = Inr (j', s'') \<Longrightarrow> push_inv s''"
proof -
  show "push_inv (recover_pushes s t)"
    unfolding recover_pushes_def by (rule push_inv_update [OF assms]) (simp add: push_grows_def push_key_def)
  show "push_inv (snd (claim_pushes s limit t))"
    unfolding claim_pushes_def Let_def snd_conv by (rule push_inv_update [OF assms]) (simp add: push_grows_def)
  show "push_inv s'" if "update_push s j status err t = Inr s'"
    using that push_inv_update [OF assms, of "owns_push j (unixepoch t)"
      "\<lambda>w. w\<lparr>pd_status := status, pd_updated_at := now_string t, pd_error := err\<rparr>"]
    by (simp add: update_push_def Let_def push_grows_def push_key_def split: if_splits)
  show "push_inv s''" if "begin_attempt s j t = Inr (j', s'')"
    using that push_inv_update [OF assms, of "\<lambda>w. owns_push j (unixepoch t) w \<and> pd_attempts w < 3"
      "\<lambda>w. w\<lparr>pd_attempts := pd_attempts w + 1, pd_updated_at := now_string t\<rparr>"]
    by (simp add: begin_attempt_def Let_def push_grows_def push_key_def MAX_ATTEMPTS_def split: if_splits)
qed

end
