(* ===== verification/Devices_Inv.thy ===== *)
theory Devices_Inv
  imports Accounts_Inv Push_Queue
begin

text \<open>
  The account invariant through the device operations, and what enrollment guarantees: the new device
  is active, keyed, belongs to a live user, and its code is spent.
\<close>

section \<open>Device rows\<close>

lemma accounts_set_devices:
  assumes inv: "accounts_inv s"
    and f: "\<And>d. P d \<Longrightarrow> dv_id (f d) = dv_id d \<and> dv_token_hash (f d) = dv_token_hash d"
    and ok: "\<And>d us live. d \<in> set (t_devices s) \<Longrightarrow> P d \<Longrightarrow> device_ok us live d \<Longrightarrow> device_ok us live (f d)"
  shows "accounts_inv (set_devices s P f)"
proof -
  have "devices_ok (set_devices s P f)"
    using inv f ok by (auto simp: accounts_inv_def devices_ok_def set_devices_def map_sql_update_frame
        set_sql_update live_users_def)
  moreover have "memberships_ok (set_devices s P f)"
    using inv by (simp add: accounts_inv_def memberships_ok_def set_devices_def)
  moreover have "credentials_ok (set_devices s P f)"
    using inv f by (simp add: accounts_inv_def credentials_ok_def set_devices_def image_key_update)
  ultimately show ?thesis using inv by (simp add: accounts_inv_def set_devices_def)
qed

lemma accounts_revoke:
  "accounts_inv s \<Longrightarrow> accounts_inv (set_devices s P (revoke now))"
  by (rule accounts_set_devices) (simp_all add: revoke_def device_ok_def push_columns_ok_def)

lemma accounts_delete_device: "accounts_inv s \<Longrightarrow> delete_device s did now = Inr s' \<Longrightarrow> accounts_inv s'"
  by (auto simp: delete_device_def accounts_revoke split: if_splits)

lemma accounts_revoke_user_device:
  "accounts_inv s \<Longrightarrow> revoke_user_device s uid did now = Inr s' \<Longrightarrow> accounts_inv s'"
  by (auto simp: revoke_user_device_def Let_def accounts_revoke split: if_splits)

lemma accounts_rename:
  assumes "accounts_inv s"
  shows "accounts_inv (snd (rename_user_device s uid did current name now))"
proof -
  have "accounts_inv (set_devices s (\<lambda>d. active_device did d \<and> dv_user_id d = uid)
      (\<lambda>d. d\<lparr>dv_name := trim name, dv_last_seen_at := now_string now\<rparr>))"
    by (rule accounts_set_devices [OF assms]) (simp_all add: device_ok_def push_columns_ok_def)
  with assms show ?thesis by (simp add: rename_user_device_def Let_def)
qed

lemma accounts_update_push_token:
  assumes "accounts_inv s" "update_push_token s did provider token native now = Inr s'"
  shows "accounts_inv s'"
proof -
  from assms(2) obtain app where s': "s' = set_devices s (active_device did)
      (\<lambda>d. d\<lparr>dv_push_provider := Some (trim provider), dv_push_token := Some (trim token),
         dv_native_app_id := Some app, dv_last_seen_at := now_string now\<rparr>)"
    and check: "list_all push_columns_ok (filter (active_device did) (t_devices s'))"
    by (auto simp: update_push_token_def Let_def res_simps split: if_splits)
  show ?thesis unfolding s'
  proof (rule accounts_set_devices [OF assms(1)], goal_cases)
    case (2 d us live)
    let ?f = "\<lambda>d. d\<lparr>dv_push_provider := Some (trim provider), dv_push_token := Some (trim token),
         dv_native_app_id := Some app, dv_last_seen_at := now_string now\<rparr>"
    from 2 have "?f d \<in> set (filter (active_device did) (t_devices s'))"
      by (force simp: s' set_devices_def set_sql_update active_device_def)
    with check have "push_columns_ok (?f d)" by (simp add: list_all_iff)
    with 2 show ?case by (simp add: device_ok_def)
  qed simp
qed

lemma accounts_update_device_preferences:
  assumes "accounts_inv s" "update_device_preferences s did sound now = Inr s'"
  shows "accounts_inv s'"
proof (cases sound)
  case (Some v)
  with assms(2) obtain n where s': "s' = set_devices s (active_device did)
      (\<lambda>d. d\<lparr>dv_notification_sound := n, dv_last_seen_at := now_string now\<rparr>)"
    by (auto simp: update_device_preferences_def res_simps)
  show ?thesis unfolding s'
    by (rule accounts_set_devices [OF assms(1)]) (simp_all add: device_ok_def push_columns_ok_def)
qed (use assms in \<open>simp add: update_device_preferences_def\<close>)

text \<open>Stored preferences are normalised: sorted, without repeats, slugs, at most 100 channels.\<close>

lemma normalized_muted_ok:
  "normalized_muted cs = Inr ds \<Longrightarrow> ds = map trim cs \<and>
     (\<forall>d \<in> set ds. validate_id d ''muted channel id'' = Inr ())"
  unfolding normalized_muted_def by (induction cs arbitrary: ds) (auto simp: res_simps)

lemma length_remdups_adj_le: "length (remdups_adj xs) \<le> length xs"
  by (induction xs rule: remdups_adj.induct) auto

lemma distinct_remdups_adj_sorted: "sorted xs \<Longrightarrow> distinct (remdups_adj xs)"
  by (induction xs rule: remdups_adj.induct) (auto simp: order.order_iff_strict)

lemma update_notification_preferences_ok:
  assumes "update_notification_preferences s did p now = Inr (p1, s')"
  shows "preferences_ok p1" "dp_hide_content p1 = dp_hide_content p" "dp_snoozed_until p1 = dp_snoozed_until p"
    "set (dp_muted_channels p1) = trim ` set (dp_muted_channels p)"
    "s' = set_devices s (active_device did) (\<lambda>d. d\<lparr>dv_preferences := p1, dv_last_seen_at := now_string now\<rparr>)"
proof -
  from assms obtain cs where cs: "normalized_muted (dp_muted_channels p) = Inr cs"
    "length (dp_muted_channels p) \<le> 100" "p1 = p\<lparr>dp_muted_channels := remdups_adj (sort cs)\<rparr>"
    "s' = set_devices s (active_device did) (\<lambda>d. d\<lparr>dv_preferences := p1, dv_last_seen_at := now_string now\<rparr>)"
    by (auto simp: update_notification_preferences_def Let_def res_simps split: if_splits)
  note muted = normalized_muted_ok [OF cs(1)]
  with cs(2) length_remdups_adj_le [of "sort cs"] have "length (remdups_adj (sort cs)) \<le> 100" by simp
  with muted show "preferences_ok p1"
    by (simp add: preferences_ok_def cs(3) sorted_remdups_adj distinct_remdups_adj_sorted)
  from muted show "set (dp_muted_channels p1) = trim ` set (dp_muted_channels p)" by (simp add: cs(3))
qed (use assms in \<open>auto simp: update_notification_preferences_def Let_def res_simps split: if_splits\<close>)

lemma accounts_update_notification_preferences:
  assumes "accounts_inv s" "update_notification_preferences s did p now = Inr (p1, s')"
  shows "accounts_inv s'"
proof -
  note ok = update_notification_preferences_ok [OF assms(2)]
  show ?thesis unfolding ok(5)
    by (rule accounts_set_devices [OF assms(1)]) (simp_all add: device_ok_def push_columns_ok_def ok(1))
qed

lemma accounts_touch: "accounts_inv s \<Longrightarrow> accounts_inv (touch_device s did E)"
  unfolding touch_device_def Let_def
  by (rule accounts_set_devices) (simp_all add: device_ok_def push_columns_ok_def)

lemma accounts_clear_invalid_push_token:
  "accounts_inv s \<Longrightarrow> accounts_inv (snd (clear_invalid_push_token s j token t))"
  unfolding clear_invalid_push_token_def Let_def snd_conv set_devices_def [symmetric]
  by (rule accounts_set_devices) (simp_all add: device_ok_def push_columns_ok_def)

section \<open>Codes, tokens, attestations\<close>

lemma accounts_create_enrollment_code:
  assumes "accounts_inv s" "create_enrollment_code X s uid n E = Inr (r, s')"
  shows "accounts_inv s'"
proof -
  from assms(2) obtain u where u: "get_user s uid = Inr u"
    by (auto simp: create_enrollment_code_def Let_def res_simps split: if_splits)
  with get_user_ok [OF u] have "uid \<in> us_id ` set (t_users s)" by auto
  with assms show ?thesis
    by (auto simp: create_enrollment_code_def Let_def res_simps list_ex_key accounts_parts live_users_def
        split: if_splits)
qed

lemma accounts_record_attestation:
  assumes "accounts_inv s" "record_device_attestation s did r now = Inr s'"
  shows "accounts_inv s'"
proof -
  from assms(2) obtain f row where s': "s' = s\<lparr>t_attestations := sql_upsert
        (\<lambda>a. at_device_id a = did \<and> at_provider a = ar_provider r) f row (t_attestations s)\<rparr>"
    and f: "\<And>a. at_device_id (f a) = at_device_id a" "\<And>a. at_provider (f a) = at_provider a"
    and row: "at_device_id row = did" "at_provider row = ar_provider r"
    and did: "did \<in> dv_id ` set (t_devices s)"
    by (auto simp: record_device_attestation_def Let_def list_ex_key split: if_splits)
  have "distinct (map (\<lambda>a. (at_device_id a, at_provider a)) (t_attestations s'))"
    using assms(1) unfolding s' by simp
      (rule distinct_upsert [where x = "(did, ar_provider r)"], auto simp: accounts_parts f row)
  moreover have "\<forall>a \<in> set (t_attestations s'). at_device_id a \<in> dv_id ` set (t_devices s)"
    using assms(1) did by (auto simp: s' accounts_parts sql_upsert_def set_sql_update f row split: if_splits)
  ultimately show ?thesis using assms(1) by (simp add: s' accounts_parts live_users_def)
qed

lemma accounts_create_issuer:
  "accounts_inv s \<Longrightarrow> create_issuer_token X s name scopes E = Inr (r, s') \<Longrightarrow> accounts_inv s'"
  by (auto simp: create_issuer_token_def Let_def res_simps list_ex_key2 accounts_parts live_users_def split: if_splits)

lemma accounts_revoke_issuer:
  "accounts_inv s \<Longrightarrow> revoke_issuer_token s tid now = Inr s' \<Longrightarrow> accounts_inv s'"
  by (auto simp: revoke_issuer_token_def Let_def accounts_parts live_users_def map_sql_update_frame split: if_splits)

section \<open>Enrollment\<close>

text \<open>A successful transaction, read backwards.\<close>

lemma enroll_transaction_ok:
  assumes "enroll_transaction X s req push key E = Inr (d, user_name, s')"
  shows "\<exists>c u. c \<in> set (t_codes s) \<and> ec_code_hash c = hash_secret X (trim (en_code req)) \<and>
    ec_consumed_at c = None \<and> e_now E 0 < of_millis (ec_expires_at c) \<and>
    get_user s (ec_user_id c) = Inr u \<and> dv_user_id d = ec_user_id c \<and> user_name = us_name u \<and>
    insert_device (s\<lparr>t_codes := sql_update
      (\<lambda>c. ec_code_hash c = hash_secret X (trim (en_code req)) \<and> ec_consumed_at c = None)
      (\<lambda>c. c\<lparr>ec_consumed_at := Some (millis (e_now E 0))\<rparr>) (t_codes s)\<rparr>) d = Inr s' \<and>
    dv_id d = e_id E 0 \<and> dv_revoked_at d = None \<and> dv_preferences d = default_preferences \<and>
    dv_token_hash d = hash_secret X (generate_token ''nod_device'' E) \<and>
    dv_signing_key_id d = Some (sk_key_id key) \<and> dv_signing_public_key d = Some (sk_public_key key) \<and>
    dv_signing_key_algorithm d = Some (sk_algorithm key)"
proof -
  let ?h = "hash_secret X (trim (en_code req))"
  from assms obtain c u where c: "List.find (\<lambda>c. ec_code_hash c = ?h) (t_codes s) = Some c"
    "\<not> (ec_consumed_at c \<noteq> None \<or> of_millis (ec_expires_at c) \<le> e_now E 0)"
    "get_user s (ec_user_id c) = Inr u"
    by (auto simp: enroll_transaction_def Let_def res_simps)
  from assms c show ?thesis
    using find_SomeD [OF c(1)]
    by (auto simp: enroll_transaction_def Let_def res_simps intro!: exI [of _ c] exI [of _ u])
qed

lemma default_preferences_ok: "preferences_ok default_preferences"
  by (simp add: preferences_ok_def default_preferences_def)

lemma validate_id_nonempty: "validate_id v label = Inr u \<Longrightarrow> v \<noteq> []"
  by (auto simp: validate_id_def split: if_splits)

lemma normalized_signing_key_ok:
  assumes "normalized_signing_key X v = Inr key"
  shows "nonblank_text (Some (sk_public_key key))" "nonblank_text (Some (sk_key_id key))"
    "sk_algorithm key = DECISION_SIGNING_ALGORITHM" "validate_device_public_key X (sk_public_key key) = Inr ()"
  using assms
  by (auto simp: normalized_signing_key_def res_simps nonblank_text_def dest: validate_id_nonempty)

lemma enroll_device_ok:
  assumes "enroll_device X s req E = (Inr r, s')"
  obtains push key d user_name where "normalized_push_registration req = Inr push"
    "normalized_signing_key X (en_signing_key req) = Inr key"
    "enroll_transaction X s req push key E = Inr (d, user_name, s')" "er_device_id r = dv_id d"
    "er_user_id r = dv_user_id d" "er_token r = generate_token ''nod_device'' E"
  using assms unfolding enroll_device_def
  by (auto simp: res_simps split: if_splits sum.splits prod.splits)

text \<open>Whatever \<open>enroll_device\<close> answers, the database is the old one or the transaction's.\<close>

lemma enroll_device_cases:
  assumes "enroll_device X s req E = (r, s')"
  obtains "s' = s" | push key d user_name where
    "normalized_signing_key X (en_signing_key req) = Inr key"
    "enroll_transaction X s req push key E = Inr (d, user_name, s')"
  using assms unfolding enroll_device_def
  by (auto simp: res_simps split: if_splits sum.splits prod.splits)

lemma accounts_insert_device:
  assumes inv: "accounts_inv s" and op: "insert_device s d = Inr s'"
    and d: "device_ok (us_id ` set (t_users s)) (live_users s) d"
  shows "accounts_inv s'"
proof -
  from op have s': "s' = s\<lparr>t_devices := t_devices s @ [d]\<rparr>"
    and new: "\<not> list_ex (\<lambda>w. dv_id w = dv_id d \<or> dv_token_hash w = dv_token_hash d) (t_devices s)"
    by (auto simp: insert_device_def split: if_splits)
  then have "devices_ok s'"
    using inv d by (auto simp: accounts_inv_def devices_ok_def list_ex_iff live_users_def)
  with inv show ?thesis
    by (auto simp: s' accounts_inv_def memberships_ok_def credentials_ok_def)
qed

lemma accounts_enroll_transaction:
  assumes inv: "accounts_inv s" and key: "normalized_signing_key X v = Inr key"
    and op: "enroll_transaction X s req push key E = Inr (d, user_name, s')"
  shows "accounts_inv s'"
proof -
  from enroll_transaction_ok [OF op] obtain c :: code_row and u where c: "get_user s (ec_user_id c) = Inr u"
    "dv_user_id d = ec_user_id c"
    and ins: "insert_device (s\<lparr>t_codes := sql_update
      (\<lambda>c. ec_code_hash c = hash_secret X (trim (en_code req)) \<and> ec_consumed_at c = None)
      (\<lambda>c. c\<lparr>ec_consumed_at := Some (millis (e_now E 0))\<rparr>) (t_codes s)\<rparr>) d = Inr s'"
    and d: "dv_revoked_at d = None" "dv_preferences d = default_preferences"
    "dv_signing_key_id d = Some (sk_key_id key)" "dv_signing_public_key d = Some (sk_public_key key)"
    by blast
  let ?s = "s\<lparr>t_codes := sql_update
      (\<lambda>c. ec_code_hash c = hash_secret X (trim (en_code req)) \<and> ec_consumed_at c = None)
      (\<lambda>c. c\<lparr>ec_consumed_at := Some (millis (e_now E 0))\<rparr>) (t_codes s)\<rparr>"
  have "accounts_inv ?s"
    using inv by (auto simp: accounts_parts live_users_def map_sql_update_frame set_sql_update)
  moreover have "device_ok (us_id ` set (t_users ?s)) (live_users ?s) d"
  proof -
    have "ec_user_id c \<in> live_users s" using get_user_ok [OF c(1)] by (force simp: live_users_def)
    moreover from this have "ec_user_id c \<in> us_id ` set (t_users s)" by (auto simp: live_users_def)
    moreover from ins have "push_columns_ok d" by (simp add: insert_device_def split: if_splits)
    ultimately show ?thesis
      using c(2) d normalized_signing_key_ok [OF key] default_preferences_ok
      by (simp add: device_ok_def live_users_def)
  qed
  ultimately show ?thesis using accounts_insert_device ins by blast
qed

lemma accounts_enroll_device:
  assumes "accounts_inv s"
  shows "accounts_inv (snd (enroll_device X s req E))"
proof (cases "enroll_device X s req E")
  case (Pair r s')
  then show ?thesis
    by (cases rule: enroll_device_cases) (auto simp: assms Pair dest: accounts_enroll_transaction [OF assms])
qed

end
