(* ===== verification/Callback_Queue.thy ===== *)
theory Callback_Queue
  imports Transitions
begin

text \<open>
  The issuer callback queue (nod-server db/callback_deliveries.rs): due rows are claimed in order, an
  undelivered earlier revision of the same request holds later ones back, and only the lease
  holder completes or retries a delivery. It is a lease queue; its own invariant is that answers of
  a request are delivered in revision order.
\<close>

section \<open>Operations\<close>

definition ST_QUEUED :: rstr where "ST_QUEUED = lit ''queued''"
definition ST_SENDING :: rstr where "ST_SENDING = lit ''sending''"
definition ST_DELIVERED :: rstr where "ST_DELIVERED = lit ''delivered''"
definition ST_RETRYING :: rstr where "ST_RETRYING = lit ''retrying''"
definition ST_BLOCKED :: rstr where "ST_BLOCKED = lit ''blocked_policy''"

lemmas state_defs = ST_QUEUED_def ST_SENDING_def ST_DELIVERED_def ST_RETRYING_def ST_BLOCKED_def

lemma states_distinct [simp]: "ST_SENDING \<noteq> ST_DELIVERED" "ST_RETRYING \<noteq> ST_DELIVERED"
  "ST_BLOCKED \<noteq> ST_DELIVERED" "ST_DELIVERED \<noteq> ST_SENDING" "ST_RETRYING \<noteq> ST_SENDING"
  "ST_BLOCKED \<noteq> ST_SENDING" "ST_QUEUED \<noteq> ST_SENDING" "ST_QUEUED \<noteq> ST_DELIVERED"
  by (simp_all add: state_defs)

record callback_claim =
  cc_delivery_id :: rstr
  cc_event_id :: rstr
  cc_request_revision :: int
  cc_url :: rstr
  cc_payload :: callback_payload
  cc_lease_token :: rstr
  cc_attempts :: int

definition older_undelivered :: "callback_row list \<Rightarrow> callback_row \<Rightarrow> bool" where
  "older_undelivered t c \<longleftrightarrow> list_ex (\<lambda>o'. cb_request_id o' = cb_request_id c \<and>
     cb_request_revision o' < cb_request_revision c \<and> cb_state o' \<noteq> ST_DELIVERED) t"

definition callback_due :: "callback_row list \<Rightarrow> int \<Rightarrow> callback_row \<Rightarrow> bool" where
  "callback_due t now c \<longleftrightarrow> cb_state c \<noteq> ST_DELIVERED \<and> cb_next_attempt_at c \<le> now \<and>
     lease_free (cb_lease_until c) now \<and> \<not> older_undelivered t c"

definition claim_callback :: "db \<Rightarrow> env \<Rightarrow> callback_claim option \<times> db" where
  "claim_callback s E =
     (let now = now_string (e_now E 0);
          until = millis (e_now E 1 + seconds 30);
          token = e_id E 0;
          due = sort_key cb_next_attempt_at (sort_key cb_request_revision (sort_key cb_delivery_id
            (filter (callback_due (t_callbacks s) now) (t_callbacks s))))
      in case due of
           [] \<Rightarrow> (None, s)
         | c # _ \<Rightarrow>
             (Some \<lparr>cc_delivery_id = cb_delivery_id c, cc_event_id = cb_event_id c,
                cc_request_revision = cb_request_revision c, cc_url = cb_url c,
                cc_payload = cb_payload c, cc_lease_token = token, cc_attempts = cb_attempts c + 1\<rparr>,
              s\<lparr>t_callbacks := sql_update (\<lambda>w. cb_delivery_id w = cb_delivery_id c)
                 (\<lambda>w. w\<lparr>cb_state := ST_SENDING, cb_lease_token := Some token, cb_lease_until := Some until,
                    cb_attempts := cb_attempts w + 1, cb_updated_at := now\<rparr>) (t_callbacks s)\<rparr>))"

definition holds_callback_lease :: "callback_claim \<Rightarrow> int \<Rightarrow> callback_row \<Rightarrow> bool" where
  "holds_callback_lease c now w \<longleftrightarrow> cb_delivery_id w = cc_delivery_id c \<and> cb_state w = ST_SENDING \<and>
     cb_lease_token w = Some (cc_lease_token c) \<and>
     (case cb_lease_until w of None \<Rightarrow> False | Some u \<Rightarrow> now < u)"

definition complete_callback :: "db \<Rightarrow> callback_claim \<Rightarrow> int \<Rightarrow> instant \<Rightarrow> (bool \<times> db) api_result" where
  "complete_callback s c status t =
     (if \<not> (200 \<le> status \<and> status < 300) then Inl (bad_request ''callback success requires 2xx'')
      else let now = now_string t; P = holds_callback_lease c now in
        Inr (sql_count P (t_callbacks s) = 1,
          s\<lparr>t_callbacks := sql_update P (\<lambda>w. w\<lparr>cb_state := ST_DELIVERED, cb_delivered_at := Some now,
            cb_updated_at := now, cb_last_status := Some status, cb_last_error := None,
            cb_lease_token := None, cb_lease_until := None\<rparr>) (t_callbacks s)\<rparr>))"

definition callback_delay :: "bool \<Rightarrow> int \<Rightarrow> int" where
  "callback_delay blocked attempts =
     (if blocked then 300 else min (2 ^ nat (max 0 (min attempts 12))) 3600)"

definition retry_callback :: "db \<Rightarrow> callback_claim \<Rightarrow> int option \<Rightarrow> bool \<Rightarrow> env \<Rightarrow> bool \<times> db" where
  "retry_callback s c status blocked E =
     (let now = now_string (e_now E 0);
          next = millis (e_now E 1 + seconds (callback_delay blocked (cc_attempts c)));
          P = holds_callback_lease c now
      in (sql_count P (t_callbacks s) = 1,
          s\<lparr>t_callbacks := sql_update P (\<lambda>w. w\<lparr>cb_state := (if blocked then ST_BLOCKED else ST_RETRYING),
            cb_next_attempt_at := next, cb_updated_at := now, cb_last_status := status,
            cb_last_error := Some (if blocked then lit ''policy_denied'' else lit ''delivery_failed''),
            cb_lease_token := None, cb_lease_until := None\<rparr>) (t_callbacks s)\<rparr>))"

section \<open>A lease queue\<close>

definition callbacks_wf :: "db \<Rightarrow> bool" where
  "callbacks_wf s \<longleftrightarrow> distinct (map cb_delivery_id (t_callbacks s)) \<and>
     (\<forall>c \<in> set (t_callbacks s). cb_lease_until c \<noteq> None \<longrightarrow> cb_lease_token c \<noteq> None)"

definition find_callback :: "db \<Rightarrow> rstr \<Rightarrow> callback_row option" where
  "find_callback s k = List.find (\<lambda>c. cb_delivery_id c = k) (t_callbacks s)"

definition callback_lease :: "callback_row \<Rightarrow> (rstr \<times> int) option" where
  "callback_lease c = (if cb_state c \<noteq> ST_SENDING then None else
     (case (cb_lease_token c, cb_lease_until c) of (Some t, Some u) \<Rightarrow> Some (t, u) | _ \<Rightarrow> None))"

definition callback_holder :: "db \<Rightarrow> rstr \<Rightarrow> (rstr \<times> int) option" where
  "callback_holder s k = Option.bind (find_callback s k) callback_lease"

definition callback_closed :: "db \<Rightarrow> rstr \<Rightarrow> bool" where
  "callback_closed s k \<longleftrightarrow> (case find_callback s k of None \<Rightarrow> False | Some c \<Rightarrow> cb_state c = ST_DELIVERED)"

definition callback_claims :: "db \<Rightarrow> int \<Rightarrow> db \<Rightarrow> rstr \<Rightarrow> rstr \<Rightarrow> bool" where
  "callback_claims s now s' k token \<longleftrightarrow> (\<exists>E c. claim_callback s E = (Some c, s') \<and>
     now = now_string (e_now E 0) \<and> cc_delivery_id c = k \<and> cc_lease_token c = token)"

definition callback_completed :: "db \<Rightarrow> rstr \<Rightarrow> rstr \<Rightarrow> int \<Rightarrow> db \<Rightarrow> bool" where
  "callback_completed s k token now s' \<longleftrightarrow> (\<exists>c status t. complete_callback s c status t = Inr (True, s') \<and>
     now = now_string t \<and> cc_delivery_id c = k \<and> cc_lease_token c = token)"

definition callback_retried :: "db \<Rightarrow> rstr \<Rightarrow> rstr \<Rightarrow> int \<Rightarrow> db \<Rightarrow> bool" where
  "callback_retried s k token now s' \<longleftrightarrow> (\<exists>c status blocked E. retry_callback s c status blocked E = (True, s') \<and>
     now = now_string (e_now E 0) \<and> cc_delivery_id c = k \<and> cc_lease_token c = token)"

lemma find_callback_iff:
  "callbacks_wf s \<Longrightarrow> find_callback s k = Some c \<longleftrightarrow> c \<in> set (t_callbacks s) \<and> cb_delivery_id c = k"
  unfolding find_callback_def callbacks_wf_def by (simp add: find_Some_iff_key)

lemma claim_callback_Some:
  assumes "claim_callback s E = (Some cl, s')"
  shows "\<exists>c \<in> set (t_callbacks s). callback_due (t_callbacks s) (now_string (e_now E 0)) c \<and>
    cc_delivery_id cl = cb_delivery_id c \<and> cc_lease_token cl = e_id E 0 \<and>
    cc_request_revision cl = cb_request_revision c \<and> cc_attempts cl = cb_attempts c + 1 \<and>
    s' = s\<lparr>t_callbacks := sql_update (\<lambda>w. cb_delivery_id w = cb_delivery_id c)
      (\<lambda>w. w\<lparr>cb_state := ST_SENDING, cb_lease_token := Some (e_id E 0),
         cb_lease_until := Some (millis (e_now E 1 + seconds 30)), cb_attempts := cb_attempts w + 1,
         cb_updated_at := now_string (e_now E 0)\<rparr>) (t_callbacks s)\<rparr>"
proof -
  let ?due = "sort_key cb_next_attempt_at (sort_key cb_request_revision (sort_key cb_delivery_id
     (filter (callback_due (t_callbacks s) (now_string (e_now E 0))) (t_callbacks s))))"
  have set: "set ?due = {c \<in> set (t_callbacks s). callback_due (t_callbacks s) (now_string (e_now E 0)) c}"
    by auto
  show ?thesis
  proof (cases ?due)
    case Nil
    with assms show ?thesis by (simp add: claim_callback_def Let_def)
  next
    case (Cons c cs)
    then have "c \<in> set ?due" by simp
    with set assms Cons show ?thesis
      by (intro bexI [of _ c]) (auto simp: claim_callback_def Let_def)
  qed
qed

lemma callbacks_wf_update:
  assumes "callbacks_wf s" and "\<And>c. P c \<Longrightarrow> cb_delivery_id (f c) = cb_delivery_id c \<and>
     (cb_lease_until (f c) \<noteq> None \<longrightarrow> cb_lease_token (f c) \<noteq> None)"
  shows "callbacks_wf (s\<lparr>t_callbacks := sql_update P f (t_callbacks s)\<rparr>)"
  using assms by (auto simp: callbacks_wf_def map_sql_update_frame set_sql_update)

lemma find_callback_update:
  "(\<And>c. P c \<Longrightarrow> cb_delivery_id (f c) = cb_delivery_id c) \<Longrightarrow>
   find_callback (s\<lparr>t_callbacks := sql_update P f (t_callbacks s)\<rparr>) k =
     map_option (\<lambda>c. if P c then f c else c) (find_callback s k)"
  unfolding find_callback_def by (simp add: find_sql_update_key)

lemma callback_claims_facts:
  assumes "callbacks_wf s" "callback_claims s now s' k token"
  shows "callbacks_wf s'"
    and "(\<forall>t u. callback_holder s k = Some (t, u) \<longrightarrow> u \<le> now) \<and> \<not> callback_closed s k"
    and "\<exists>u. callback_holder s' k = Some (token, u)"
proof -
  from assms(2) obtain E cl where cl: "claim_callback s E = (Some cl, s')" "now = now_string (e_now E 0)"
    "cc_delivery_id cl = k" "cc_lease_token cl = token"
    by (auto simp: callback_claims_def)
  from claim_callback_Some [OF cl(1)] cl obtain c where c: "c \<in> set (t_callbacks s)"
    "callback_due (t_callbacks s) now c" "k = cb_delivery_id c"
    "s' = s\<lparr>t_callbacks := sql_update (\<lambda>w. cb_delivery_id w = cb_delivery_id c)
      (\<lambda>w. w\<lparr>cb_state := ST_SENDING, cb_lease_token := Some token,
         cb_lease_until := Some (millis (e_now E 1 + seconds 30)), cb_attempts := cb_attempts w + 1,
         cb_updated_at := now\<rparr>) (t_callbacks s)\<rparr>"
    by auto
  have f: "find_callback s k = Some c" using c by (simp add: find_callback_iff [OF assms(1)])
  show "callbacks_wf s'" unfolding c(4) by (rule callbacks_wf_update [OF assms(1)]) simp
  show "(\<forall>t u. callback_holder s k = Some (t, u) \<longrightarrow> u \<le> now) \<and> \<not> callback_closed s k"
    using c(2) f by (auto simp: callback_holder_def callback_closed_def callback_lease_def
        callback_due_def lease_free_def split: option.splits if_splits)
  show "\<exists>u. callback_holder s' k = Some (token, u)"
    unfolding c(4) using f c(3) by (simp add: callback_holder_def find_callback_update callback_lease_def)
qed

lemma callback_settle_facts:
  assumes "callbacks_wf s" and "sql_count (holds_callback_lease c now) (t_callbacks s) = 1"
    and s': "s' = s\<lparr>t_callbacks := sql_update (holds_callback_lease c now) f (t_callbacks s)\<rparr>"
    and f: "\<And>w. cb_delivery_id (f w) = cb_delivery_id w" "\<And>w. cb_state (f w) \<noteq> ST_SENDING"
      "\<And>w. cb_lease_until (f w) = None"
  shows "callbacks_wf s'"
    and "\<exists>u. callback_holder s (cc_delivery_id c) = Some (cc_lease_token c, u) \<and> now < u \<and>
      \<not> callback_closed s (cc_delivery_id c)"
    and "callback_holder s' (cc_delivery_id c) = None"
    and "k \<noteq> cc_delivery_id c \<Longrightarrow> callback_holder s' k = callback_holder s k \<and>
      callback_closed s' k = callback_closed s k"
    and "\<exists>w. find_callback s' (cc_delivery_id c) = Some (f w)"
proof -
  from assms(2) obtain w where w: "w \<in> set (t_callbacks s)" "holds_callback_lease c now w"
    unfolding sql_count_def by (metis One_nat_def filter_empty_conv length_0_conv zero_neq_one)
  then have fw: "find_callback s (cc_delivery_id c) = Some w"
    by (simp add: find_callback_iff [OF assms(1)] holds_callback_lease_def)
  have upd: "find_callback s' k = map_option (\<lambda>w. if holds_callback_lease c now w then f w else w) (find_callback s k)" for k
    unfolding s' by (rule find_callback_update) (simp add: f)
  show "callbacks_wf s'" unfolding s' by (rule callbacks_wf_update [OF assms(1)]) (simp add: f)
  show "\<exists>u. callback_holder s (cc_delivery_id c) = Some (cc_lease_token c, u) \<and> now < u \<and>
      \<not> callback_closed s (cc_delivery_id c)"
    using fw w(2) by (auto simp: callback_holder_def callback_closed_def callback_lease_def
        holds_callback_lease_def split: option.splits)
  show "callback_holder s' (cc_delivery_id c) = None"
    using fw w(2) by (simp add: callback_holder_def upd callback_lease_def f)
  show "\<exists>w. find_callback s' (cc_delivery_id c) = Some (f w)"
    using fw w(2) by (simp add: upd) blast
  show "callback_holder s' k = callback_holder s k \<and> callback_closed s' k = callback_closed s k"
    if "k \<noteq> cc_delivery_id c"
  proof (cases "find_callback s k")
    case (Some v)
    with find_callback_iff [OF assms(1)] that have "\<not> holds_callback_lease c now v"
      by (auto simp: holds_callback_lease_def)
    with Some show ?thesis by (simp add: callback_holder_def callback_closed_def upd)
  qed (simp add: callback_holder_def callback_closed_def upd)
qed

lemma callback_completed_facts:
  assumes "callbacks_wf s" "callback_completed s k token now s'"
  shows "callbacks_wf s'" "\<exists>u. callback_holder s k = Some (token, u) \<and> now < u \<and> \<not> callback_closed s k"
    "callback_holder s' k = None"
    "j \<noteq> k \<Longrightarrow> callback_holder s' j = callback_holder s j \<and> callback_closed s' j = callback_closed s j"
    "callback_closed s' k"
proof -
  from assms(2) obtain c status t where c: "complete_callback s c status t = Inr (True, s')"
    "now = now_string t" "cc_delivery_id c = k" "cc_lease_token c = token"
    by (auto simp: callback_completed_def)
  then have one: "sql_count (holds_callback_lease c now) (t_callbacks s) = 1"
    and s': "s' = s\<lparr>t_callbacks := sql_update (holds_callback_lease c now) (\<lambda>w. w\<lparr>cb_state := ST_DELIVERED,
      cb_delivered_at := Some now, cb_updated_at := now, cb_last_status := Some status, cb_last_error := None,
      cb_lease_token := None, cb_lease_until := None\<rparr>) (t_callbacks s)\<rparr>"
    by (auto simp: complete_callback_def Let_def split: if_splits)
  note facts = callback_settle_facts [OF assms(1) one s', unfolded c(3,4), simplified]
  from facts show "callbacks_wf s'"
    "\<exists>u. callback_holder s k = Some (token, u) \<and> now < u \<and> \<not> callback_closed s k"
    "callback_holder s' k = None"
    "j \<noteq> k \<Longrightarrow> callback_holder s' j = callback_holder s j \<and> callback_closed s' j = callback_closed s j"
    "callback_closed s' k"
    by (auto simp: callback_closed_def)
qed

lemma callback_retried_facts:
  assumes "callbacks_wf s" "callback_retried s k token now s'"
  shows "callbacks_wf s'" "\<exists>u. callback_holder s k = Some (token, u) \<and> now < u \<and> \<not> callback_closed s k"
    "callback_holder s' k = None"
    "j \<noteq> k \<Longrightarrow> callback_holder s' j = callback_holder s j \<and> callback_closed s' j = callback_closed s j"
proof -
  from assms(2) obtain c status blocked E where c: "retry_callback s c status blocked E = (True, s')"
    "now = now_string (e_now E 0)" "cc_delivery_id c = k" "cc_lease_token c = token"
    by (auto simp: callback_retried_def)
  let ?next = "millis (e_now E 1 + seconds (callback_delay blocked (cc_attempts c)))"
  from c have one: "sql_count (holds_callback_lease c now) (t_callbacks s) = 1"
    and s': "s' = s\<lparr>t_callbacks := sql_update (holds_callback_lease c now) (\<lambda>w. w\<lparr>cb_state :=
      (if blocked then ST_BLOCKED else ST_RETRYING), cb_next_attempt_at := ?next, cb_updated_at := now,
      cb_last_status := status,
      cb_last_error := Some (if blocked then lit ''policy_denied'' else lit ''delivery_failed''),
      cb_lease_token := None, cb_lease_until := None\<rparr>) (t_callbacks s)\<rparr>"
    by (auto simp: retry_callback_def Let_def)
  note facts = callback_settle_facts [OF assms(1) one s', unfolded c(3,4), simplified]
  from facts show "callbacks_wf s'"
    "\<exists>u. callback_holder s k = Some (token, u) \<and> now < u \<and> \<not> callback_closed s k"
    "callback_holder s' k = None"
    "j \<noteq> k \<Longrightarrow> callback_holder s' j = callback_holder s j \<and> callback_closed s' j = callback_closed s j"
    by auto
qed

interpretation cb: closing_queue callbacks_wf callback_holder callback_closed callback_claims callback_completed
  by (unfold_locales; rule callback_claims_facts callback_completed_facts; assumption)

interpretation cb_retry: lease_queue callbacks_wf callback_holder callback_closed callback_claims callback_retried
  by (unfold_locales; rule callback_claims_facts callback_retried_facts; assumption)

end
