(* ===== verification/Callback_Order.thy ===== *)
theory Callback_Order
  imports Callback_Queue Requests_Ops
begin

text \<open>
  Answers of one request reach the issuer in revision order: a callback row that is being sent or was
  delivered has no undelivered predecessor. Every operation that touches the queue or the journal
  preserves this.
\<close>

section \<open>The invariant\<close>

definition in_flight :: "callback_row \<Rightarrow> bool" where
  "in_flight c \<longleftrightarrow> cb_state c = ST_SENDING \<or> cb_state c = ST_DELIVERED"

definition callback_order :: "callback_row list \<Rightarrow> bool" where
  "callback_order t \<longleftrightarrow> (\<forall>c \<in> set t. in_flight c \<longrightarrow> \<not> older_undelivered t c)"

definition callback_inv :: "db \<Rightarrow> bool" where
  "callback_inv s \<longleftrightarrow> callbacks_wf s \<and> callback_order (t_callbacks s) \<and>
     (\<forall>c \<in> set (t_callbacks s). cb_request_revision c \<le> int (length (events_of s (cb_request_id c))))"

lemma older_undelivered_iff:
  "older_undelivered t c \<longleftrightarrow> (\<exists>v \<in> set t. cb_request_id v = cb_request_id c \<and>
     cb_request_revision v < cb_request_revision c \<and> cb_state v \<noteq> ST_DELIVERED)"
  by (simp add: older_undelivered_def list_ex_iff)

section \<open>Growth of the journal\<close>

definition journal_grows :: "db \<Rightarrow> db \<Rightarrow> bool" where
  "journal_grows s s' \<longleftrightarrow> (\<forall>rid. length (events_of s rid) \<le> length (events_of s' rid))"

lemma journal_grows_same: "t_events s' = t_events s \<Longrightarrow> journal_grows s s'"
  by (simp add: journal_grows_def events_of_def)

lemma journal_grows_append: "t_events s' = t_events s @ es \<Longrightarrow> journal_grows s s'"
  by (simp add: journal_grows_def events_of_def)

lemma journal_grows_update:
  assumes "\<And>e. ev_request_id (f e) = ev_request_id e"
  shows "journal_grows s (s\<lparr>t_events := sql_update P f (t_events s)\<rparr>)"
proof -
  have "length (filter (\<lambda>e. ev_request_id e = rid) (sql_update P f es)) =
      length (filter (\<lambda>e. ev_request_id e = rid) es)" for rid es
    unfolding sql_update_def by (induction es) (auto simp: assms)
  then show ?thesis by (simp add: journal_grows_def events_of_def)
qed

lemma callback_frame:
  "callback_inv s \<Longrightarrow> t_callbacks s' = t_callbacks s \<Longrightarrow> journal_grows s s' \<Longrightarrow> callback_inv s'"
  unfolding callback_inv_def callbacks_wf_def journal_grows_def
  by (metis of_nat_le_iff order.trans)

section \<open>A new callback\<close>

lemma callback_added:
  assumes inv: "callback_inv s" and cbs: "t_callbacks s' = t_callbacks s @ cbs" "length cbs \<le> 1"
    and new: "\<forall>c \<in> set cbs. new_callback_ok s rid (int (length (events_of s rid)) + 1) c"
    and grows: "journal_grows s s'" and more: "length (events_of s rid) < length (events_of s' rid)"
  shows "callback_inv s'"
proof (cases cbs)
  case Nil
  with callback_frame [OF inv _ grows] cbs show ?thesis by simp
next
  case (Cons c rest)
  with cbs have t: "t_callbacks s' = t_callbacks s @ [c]" by (cases rest) auto
  from new Cons have c: "cb_request_id c = rid" "cb_request_revision c = int (length (events_of s rid)) + 1"
    "cb_state c = ST_QUEUED" "cb_lease_until c = None"
    "cb_delivery_id c \<notin> cb_delivery_id ` set (t_callbacks s)"
    by (auto simp: new_callback_ok_def state_defs)
  from inv have wf: "callbacks_wf s" and ord: "callback_order (t_callbacks s)"
    and rev: "\<forall>v \<in> set (t_callbacks s). cb_request_revision v \<le> int (length (events_of s (cb_request_id v)))"
    by (auto simp: callback_inv_def)
  have "callbacks_wf s'" using wf c by (simp add: callbacks_wf_def t)
  moreover have late: "\<not> (cb_request_id v = rid \<and> cb_request_revision c < cb_request_revision v)"
    if "v \<in> set (t_callbacks s)" for v
    using rev that c(2) by fastforce
  have "callback_order (t_callbacks s')"
    unfolding callback_order_def
  proof (intro ballI impI)
    fix v assume v: "v \<in> set (t_callbacks s')" "in_flight v"
    with c have "v \<in> set (t_callbacks s)" by (auto simp: t in_flight_def state_defs)
    with ord v(2) late c(1) show "\<not> older_undelivered (t_callbacks s') v"
      by (auto simp: callback_order_def older_undelivered_iff t)
  qed
  moreover have "cb_request_revision v \<le> int (length (events_of s' (cb_request_id v)))"
    if "v \<in> set (t_callbacks s')" for v
    using that rev grows more c unfolding journal_grows_def t by (fastforce intro: order.trans)
  ultimately show ?thesis by (simp add: callback_inv_def)
qed

lemma callback_advances:
  assumes cb: "callback_inv s" and inv: "requests_inv s" and adv: "advances s s' w f ds e ns"
  shows "callback_inv s'"
proof -
  from inv adv have rev: "rq_revision w = int (length (events_of s (rq_id w)))"
    by (auto simp: requests_inv_def row_ok_def advances_def)
  from adv obtain cbs where cbs: "t_callbacks s' = t_callbacks s @ cbs" "length cbs \<le> 1"
    "\<forall>c \<in> set cbs. new_callback_ok s (rq_id w) (rq_revision w + 1) c"
    by (auto simp: advances_def)
  show ?thesis
    by (rule callback_added [OF cb cbs(1,2), of "rq_id w"])
      (use cbs(3) rev in \<open>auto simp: journal_grows_def advances_views [OF adv]\<close>)
qed

lemma callback_record_decision:
  "callback_inv s \<Longrightarrow> requests_inv s \<Longrightarrow> record_decision X s sub E = Inr (r, s') \<Longrightarrow> callback_inv s'"
  using record_decision_advances callback_advances by blast

lemma callback_cancel_request:
  "callback_inv s \<Longrightarrow> requests_inv s \<Longrightarrow> cancel_request X s rid E = Inr (r, s') \<Longrightarrow> callback_inv s'"
  using cancel_request_advances callback_advances by blast

lemma append_no_callback:
  assumes "append_lifecycle_on X s r kind None eid now = Inr s'"
  shows "t_callbacks s' = t_callbacks s \<and> journal_grows s s'"
  using assms
proof (rule append_lifecycle_on_ok)
  fix w :: request_row and e :: event_row and cbs :: "callback_row list"
  assume s': "s' = s\<lparr>t_requests := sql_update (\<lambda>v. rq_id v = r_id r) (\<lambda>v. v\<lparr>rq_revision := rq_revision v + 1\<rparr>)
        (t_requests s), t_events := t_events s @ [e], t_event_seq := t_event_seq s + 1,
      t_callbacks := t_callbacks s @ cbs\<rparr>"
    and "\<forall>c \<in> set cbs. (None :: decision option) \<noteq> None \<and> cb_request_id c = r_id r \<and>
       cb_request_revision c = rq_revision w + 1 \<and> cb_event_id c = eid \<and> cb_state c = lit ''queued'' \<and>
       cb_lease_until c = None \<and> cb_delivery_id c \<notin> cb_delivery_id ` set (t_callbacks s)"
  then have "cbs = []" by (cases cbs) auto
  with s' show ?thesis by (simp add: journal_grows_def events_of_def)
qed

lemma journal_grows_trans: "journal_grows s s1 \<Longrightarrow> journal_grows s1 s2 \<Longrightarrow> journal_grows s s2"
  by (meson journal_grows_def order.trans)

lemma append_expired_no_callback:
  "append_expired X s ids E n = Inr (rs, s') \<Longrightarrow> t_callbacks s' = t_callbacks s \<and> journal_grows s s'"
proof (induction X s ids E n arbitrary: rs rule: append_expired.induct)
  case (1 X s E n)
  then show ?case by (simp add: journal_grows_same)
next
  case (2 X s rid rids E n)
  from 2(2) obtain r s1 rs' where st: "get_request_on X s rid = Inr r"
    "append_lifecycle_on X s r KIND_EXPIRED None (e_id E n) (e_now E (Suc n)) = Inr s1"
    "append_expired X s1 rids E (Suc n) = Inr (rs', s')"
    by (auto simp: res_simps)
  from 2(1) [OF st(3)] append_no_callback [OF st(2)] show ?case
    using journal_grows_trans by force
qed

lemma callback_expire:
  assumes "callback_inv s" "expire_due_requests X s E = Inr (rs, s')"
  shows "callback_inv s'"
proof -
  from append_expired_no_callback [OF assms(2) [unfolded expire_due_requests_def Let_def]]
  have "t_callbacks s' = t_callbacks s \<and> journal_grows s s'"
    by (simp add: journal_grows_def events_of_def)
  with callback_frame [OF assms(1)] show ?thesis by simp
qed

lemma callback_create:
  assumes "callback_inv s" "create_request X s req m E = Inr (c, s')"
  shows "callback_inv s'"
  using assms(2)
proof (cases rule: create_request_cases)
  case (same rows)
  then show ?thesis by (intro callback_frame [OF assms(1)] journal_grows_same) simp_all
next
  case (new recipients scope fp key)
  from insert_new_request_ok [OF new(1)] obtain e where "t_callbacks s' = t_callbacks s"
    "t_events s' = t_events s @ [e]" by blast
  then show ?thesis by (intro callback_frame [OF assms(1)] journal_grows_append)
qed

section \<open>The queue's own operations\<close>

lemma callback_inv_update:
  assumes inv: "callback_inv s" and s': "s' = s\<lparr>t_callbacks := sql_update P f (t_callbacks s)\<rparr>"
    and wf: "callbacks_wf s'"
    and f: "\<And>c. P c \<Longrightarrow> cb_request_id (f c) = cb_request_id c \<and> cb_request_revision (f c) = cb_request_revision c"
    and open_: "\<And>c. c \<in> set (t_callbacks s) \<Longrightarrow> P c \<Longrightarrow> cb_state c \<noteq> ST_DELIVERED"
    and safe: "\<And>c. c \<in> set (t_callbacks s) \<Longrightarrow> P c \<Longrightarrow> in_flight (f c) \<Longrightarrow>
      in_flight c \<or> \<not> older_undelivered (t_callbacks s) c"
  shows "callback_inv s'"
proof -
  from inv have ord: "callback_order (t_callbacks s)"
    and rev: "\<forall>v \<in> set (t_callbacks s). cb_request_revision v \<le> int (length (events_of s (cb_request_id v)))"
    by (auto simp: callback_inv_def)
  have ev: "events_of s' = events_of s" by (simp add: s' events_of_def fun_eq_iff)
  have older: "\<not> older_undelivered (t_callbacks s') (if P c then f c else c)"
    if "c \<in> set (t_callbacks s)" "\<not> older_undelivered (t_callbacks s) c" for c
    using that f open_ unfolding older_undelivered_iff s' by (auto simp: set_sql_update split: if_splits)
  have "callback_order (t_callbacks s')"
    unfolding callback_order_def
  proof (intro ballI impI)
    fix v assume v: "v \<in> set (t_callbacks s')" "in_flight v"
    then obtain c where c: "c \<in> set (t_callbacks s)" "v = (if P c then f c else c)"
      by (auto simp: s' set_sql_update)
    have "\<not> older_undelivered (t_callbacks s) c"
      using ord safe [OF c(1)] v(2) c by (auto simp: callback_order_def split: if_splits)
    with older [OF c(1)] c(2) show "\<not> older_undelivered (t_callbacks s') v" by simp
  qed
  moreover have "cb_request_revision v \<le> int (length (events_of s' (cb_request_id v)))"
    if "v \<in> set (t_callbacks s')" for v
    using that rev f by (auto simp: s' set_sql_update ev [unfolded s'])
  ultimately show ?thesis using wf by (simp add: callback_inv_def)
qed

lemma callback_claim:
  assumes inv: "callback_inv s" and op: "claim_callback s E = (Some cl, s')"
  shows "callback_inv s'"
proof -
  from claim_callback_Some [OF op] obtain c where c: "c \<in> set (t_callbacks s)"
    "callback_due (t_callbacks s) (now_string (e_now E 0)) c"
    and s': "s' = s\<lparr>t_callbacks := sql_update (\<lambda>w. cb_delivery_id w = cb_delivery_id c)
      (\<lambda>w. w\<lparr>cb_state := ST_SENDING, cb_lease_token := Some (e_id E 0),
         cb_lease_until := Some (millis (e_now E 1 + seconds 30)), cb_attempts := cb_attempts w + 1,
         cb_updated_at := now_string (e_now E 0)\<rparr>) (t_callbacks s)\<rparr>"
    by blast
  from inv have wf: "callbacks_wf s" by (simp add: callback_inv_def)
  then have one: "w = c" if "w \<in> set (t_callbacks s)" "cb_delivery_id w = cb_delivery_id c" for w
    using c(1) that by (auto simp: callbacks_wf_def distinct_map inj_on_def)
  show ?thesis
  proof (rule callback_inv_update [OF inv s'])
    show "callbacks_wf s'" unfolding s' by (rule callbacks_wf_update [OF wf]) simp
  qed (use one c(2) in \<open>auto simp: callback_due_def\<close>)
qed

lemma callback_settle:
  assumes inv: "callback_inv s"
    and s': "s' = s\<lparr>t_callbacks := sql_update (holds_callback_lease c now) f (t_callbacks s)\<rparr>"
    and f: "\<And>w. cb_delivery_id (f w) = cb_delivery_id w" "\<And>w. cb_lease_until (f w) = None"
      "\<And>w. cb_request_id (f w) = cb_request_id w \<and> cb_request_revision (f w) = cb_request_revision w"
  shows "callback_inv s'"
proof (rule callback_inv_update [OF inv s'])
  show "callbacks_wf s'" unfolding s'
    using inv by (intro callbacks_wf_update) (simp_all add: callback_inv_def f)
qed (auto simp: f holds_callback_lease_def in_flight_def)

lemma callback_complete:
  assumes "callback_inv s" "complete_callback s c status t = Inr (b, s')"
  shows "callback_inv s'"
proof -
  from assms(2) have s': "s' = s\<lparr>t_callbacks := sql_update (holds_callback_lease c (now_string t))
      (\<lambda>w. w\<lparr>cb_state := ST_DELIVERED, cb_delivered_at := Some (now_string t),
            cb_updated_at := now_string t, cb_last_status := Some status, cb_last_error := None,
            cb_lease_token := None, cb_lease_until := None\<rparr>) (t_callbacks s)\<rparr>"
    by (auto simp: complete_callback_def Let_def split: if_splits)
  show ?thesis by (rule callback_settle [OF assms(1) s']) simp_all
qed

lemma callback_retry:
  assumes "callback_inv s"
  shows "callback_inv (snd (retry_callback s c status blocked E))"
  unfolding retry_callback_def Let_def snd_conv by (rule callback_settle [OF assms refl]) simp_all

lemma callback_publisher:
  assumes "callback_inv s"
  shows "callback_inv (snd (claim_event s E))" and "callback_inv (snd (published s c n t))"
    and "callback_inv (snd (publish_retry s c E))"
proof -
  show "callback_inv (snd (claim_event s E))"
    by (rule callback_frame [OF assms])
      (auto simp: claim_event_def Let_def simp: journal_grows_same intro: journal_grows_update split: option.splits)
  show "callback_inv (snd (published s c n t))"
    unfolding published_def Let_def snd_conv
    by (rule callback_frame [OF assms]) (simp, rule journal_grows_update, simp)
  show "callback_inv (snd (publish_retry s c E))"
    unfolding publish_retry_def Let_def snd_conv
    by (rule callback_frame [OF assms]) (simp, rule journal_grows_update, simp)
qed

lemma callback_delete: "callback_inv s \<Longrightarrow> callback_inv (delete_requests s P)"
  by (erule callback_frame) (simp_all add: delete_requests_def Let_def journal_grows_def events_of_def)

end
