(* ===== verification/Auth.thy ===== *)
theory Auth
  imports Devices Decimal_Text
begin

text \<open>
  Authentication and authorisation of the server (nod-server/src/auth.rs): bearer tokens of admins,
  devices and issuers, the signed admin session cookie, issuer scopes, and the comparison of
  secrets that reads every byte. HTTP headers are the list of name and value pairs of the request.
\<close>

unbundle bit_operations_syntax

section \<open>Headers\<close>

type_synonym headers = "(rstr \<times> byte list) list"

definition header_get :: "headers \<Rightarrow> rstr \<Rightarrow> byte list option" where
  "header_get hs name = map_option snd (List.find (\<lambda>h. fst h = name) hs)"

definition header_text :: "byte list \<Rightarrow> rstr option" where
  \<comment> \<open>\<open>HeaderValue::to_str\<close>: visible ASCII and tab\<close>
  "header_text b = (if list_all (\<lambda>c. 32 \<le> c \<and> c < 127 \<or> c = 9) b then Some b else None)"

definition AUTHORIZATION :: rstr where "AUTHORIZATION = lit ''authorization''"
definition COOKIE :: rstr where "COOKIE = lit ''cookie''"
definition BEARER :: rstr where "BEARER = lit ''Bearer ''"

definition bearer_token :: "headers \<Rightarrow> rstr api_result" where
  "bearer_token hs =
     bind_res (ok_or Unauthorized (Option.bind (header_get hs AUTHORIZATION) header_text)) (\<lambda>value.
       ok_or Unauthorized (strip_prefix BEARER value))"

section \<open>Comparison of secrets\<close>

definition byte_at :: "byte list \<Rightarrow> nat \<Rightarrow> byte" where
  \<comment> \<open>\<open>get(index).copied().unwrap_or_default()\<close>\<close>
  "byte_at s i = (if i < length s then s ! i else 0)"

definition constant_time_eq :: "byte list \<Rightarrow> byte list \<Rightarrow> bool" where
  "constant_time_eq left right =
     (fold (\<lambda>i diff. diff OR (byte_at left i XOR byte_at right i)) [0..<max (length left) (length right)]
        (length left XOR length right) = 0)"

definition admin_token_matches :: "rstr \<Rightarrow> rstr \<Rightarrow> bool" where
  "admin_token_matches token admin_token = constant_time_eq (utf8 token) (utf8 admin_token)"

lemma or_nat_eq_0 [simp]: "(m :: nat) OR n = 0 \<longleftrightarrow> m = 0 \<and> n = 0"
  by (auto simp: bit_eq_iff bit_or_iff)

lemma xor_nat_eq_0 [simp]: "(m :: nat) XOR n = 0 \<longleftrightarrow> m = n"
  by (auto simp: bit_eq_iff bit_xor_iff)

lemma fold_or_eq_0: "fold (\<lambda>i diff. diff OR f i) is d = (0 :: nat) \<longleftrightarrow> d = 0 \<and> (\<forall>i \<in> set is. f i = 0)"
  by (induction "is" arbitrary: d) auto

lemma constant_time_eq_iff [simp]: "constant_time_eq l r \<longleftrightarrow> l = r"
proof -
  have "constant_time_eq l r \<longleftrightarrow> length l = length r \<and> (\<forall>i < max (length l) (length r). byte_at l i = byte_at r i)"
    unfolding constant_time_eq_def fold_or_eq_0 by auto
  also have "\<dots> \<longleftrightarrow> l = r"
    unfolding list_eq_iff_nth_eq [of l r] by (auto simp: byte_at_def)
  finally show ?thesis .
qed

lemma admin_token_matches_iff [simp]: "admin_token_matches t a \<longleftrightarrow> utf8 t = utf8 a"
  by (simp add: admin_token_matches_def)

section \<open>The admin session\<close>

definition ADMIN_SESSION_COOKIE :: rstr where "ADMIN_SESSION_COOKIE = lit ''nod_admin_session''"
definition ADMIN_SESSION_SECONDS :: int where "ADMIN_SESSION_SECONDS = 12 * 60 * 60"

definition timestamp :: "instant \<Rightarrow> int" where
  \<comment> \<open>\<open>DateTime::timestamp\<close>\<close>
  "timestamp t = t div 1000000000"

definition admin_session_signature :: "ext \<Rightarrow> int \<Rightarrow> rstr \<Rightarrow> rstr" where
  "admin_session_signature X expires_at admin_token =
     hash_secret X (lit ''nod-admin-session:v1:'' @ show_int expires_at @ lit '':'' @ admin_token)"

definition admin_session_value :: "ext \<Rightarrow> int \<Rightarrow> rstr \<Rightarrow> rstr" where
  "admin_session_value X expires_at admin_token =
     show_int expires_at @ lit ''.'' @ admin_session_signature X expires_at admin_token"

definition create_admin_session_cookie :: "ext \<Rightarrow> rstr \<Rightarrow> bool \<Rightarrow> instant \<Rightarrow> rstr" where
  "create_admin_session_cookie X admin_token secure now =
     (let expires_at = timestamp now + ADMIN_SESSION_SECONDS in
      ADMIN_SESSION_COOKIE @ lit ''='' @ admin_session_value X expires_at admin_token @
      lit ''; Path=/; Max-Age='' @ show_int ADMIN_SESSION_SECONDS @ lit ''; HttpOnly; SameSite=Lax'' @
      (if secure then lit ''; Secure'' else []))"

definition expired_admin_session_cookie :: rstr where
  "expired_admin_session_cookie =
     ADMIN_SESSION_COOKIE @ lit ''=; Path=/; Max-Age=0; HttpOnly; SameSite=Lax''"

definition cookie_pairs :: "headers \<Rightarrow> (rstr \<times> rstr) list" where
  "cookie_pairs hs = List.map_filter (\<lambda>c. split_once 61 (trim c))
     (concat (map (split_on 59) (List.map_filter (\<lambda>h. if fst h = COOKIE then header_text (snd h) else None) hs)))"

definition cookie_value :: "headers \<Rightarrow> rstr \<Rightarrow> rstr option" where
  "cookie_value hs name = map_option snd (List.find (\<lambda>p. fst p = name) (cookie_pairs hs))"

definition valid_admin_session :: "ext \<Rightarrow> headers \<Rightarrow> rstr \<Rightarrow> instant \<Rightarrow> bool" where
  "valid_admin_session X hs admin_token now =
     (case cookie_value hs ADMIN_SESSION_COOKIE of None \<Rightarrow> False
      | Some value \<Rightarrow> (case split_once 46 value of None \<Rightarrow> False
        | Some (expires_text, signature) \<Rightarrow> (case parse_i64 expires_text of None \<Rightarrow> False
          | Some expires_at \<Rightarrow>
              if expires_at \<le> timestamp now then False
              else constant_time_eq (utf8 signature) (utf8 (admin_session_signature X expires_at admin_token)))))"

definition request_over_tls :: "headers \<Rightarrow> rstr option \<Rightarrow> bool" where
  "request_over_tls hs scheme =
     (if scheme = Some (lit ''https'') then True
      else (case Option.bind (header_get hs (lit ''x-forwarded-proto'')) header_text of
          None \<Rightarrow> False
        | Some value \<Rightarrow> to_ascii_lowercase (trim (hd (split_on 44 value))) = lit ''https''))"

definition require_admin :: "ext \<Rightarrow> headers \<Rightarrow> rstr \<Rightarrow> instant \<Rightarrow> unit api_result" where
  "require_admin X hs admin_token now =
     (case header_get hs AUTHORIZATION of
        Some value \<Rightarrow>
          bind_res (ok_or Unauthorized (Option.bind (header_text value) (strip_prefix BEARER))) (\<lambda>token.
            if admin_token_matches token admin_token then Inr () else Inl Forbidden)
      | None \<Rightarrow> if valid_admin_session X hs admin_token now then Inr () else Inl Unauthorized)"

section \<open>Principals\<close>

record issuer_token =
  iu_id :: rstr
  iu_name :: rstr
  iu_scopes :: "rstr list"
  iu_created_at :: instant

datatype principal = Admin | DevicePrincipal device_row | IssuerPrincipal issuer_token

definition find_device_by_hash :: "db \<Rightarrow> rstr \<Rightarrow> device_row option" where
  "find_device_by_hash s h = List.find (\<lambda>d. dv_token_hash d = h \<and> dv_revoked_at d = None) (t_devices s)"

definition find_issuer_token_by_hash :: "db \<Rightarrow> rstr \<Rightarrow> issuer_token option" where
  "find_issuer_token_by_hash s h = map_option
     (\<lambda>t. \<lparr>iu_id = it_id t, iu_name = it_name t, iu_scopes = it_scopes t, iu_created_at = of_millis (it_created_at t)\<rparr>)
     (List.find (\<lambda>t. it_token_hash t = h \<and> it_revoked_at t = None) (t_issuers s))"

definition authenticate :: "ext \<Rightarrow> db \<Rightarrow> headers \<Rightarrow> rstr \<Rightarrow> env \<Rightarrow> (principal \<times> db) api_result" where
  "authenticate X s hs admin_token E =
     bind_res (bearer_token hs) (\<lambda>token.
       if admin_token_matches token admin_token then Inr (Admin, s)
       else let h = hash_secret X token in
         (case find_device_by_hash s h of
            Some d \<Rightarrow> Inr (DevicePrincipal d, touch_device s (dv_id d) E)
          | None \<Rightarrow> (case find_issuer_token_by_hash s h of
              Some t \<Rightarrow> Inr (IssuerPrincipal t, s)
            | None \<Rightarrow> Inl Unauthorized)))"

definition require_device :: "ext \<Rightarrow> db \<Rightarrow> headers \<Rightarrow> env \<Rightarrow> (device_row \<times> db) api_result" where
  "require_device X s hs E =
     bind_res (bearer_token hs) (\<lambda>token.
       bind_res (ok_or Unauthorized (find_device_by_hash s (hash_secret X token))) (\<lambda>d.
         Inr (d, touch_device s (dv_id d) E)))"

section \<open>Scopes\<close>

definition scope_text :: "rstr \<Rightarrow> rstr" where "scope_text op = lit ''requests:'' @ op"

definition OP_READ :: rstr where "OP_READ = lit ''read''"
definition OP_WRITE :: rstr where "OP_WRITE = lit ''write''"
definition OP_CANCEL :: rstr where "OP_CANCEL = lit ''cancel''"

definition has_request_scope :: "issuer_token \<Rightarrow> rstr \<Rightarrow> rstr \<Rightarrow> bool" where
  "has_request_scope token operation channel_id =
     list_ex (\<lambda>scope. scope = lit ''*'' \<or> scope = lit ''requests:*'' \<or> scope = scope_text operation \<or>
        scope = scope_text operation @ lit '':'' @ channel_id \<or>
        scope = lit ''requests:*:'' @ channel_id \<or>
        operation = OP_READ \<and> (scope = lit ''requests:write'' \<or> scope = lit ''requests:write:'' @ channel_id))
       (iu_scopes token)"

fun require_request_write :: "principal \<Rightarrow> rstr \<Rightarrow> unit api_result" where
  "require_request_write Admin channel = Inr ()"
| "require_request_write (IssuerPrincipal t) channel = (if has_request_scope t OP_WRITE channel then Inr () else Inl Forbidden)"
| "require_request_write (DevicePrincipal _) channel = Inl Forbidden"

fun require_request_read :: "principal \<Rightarrow> rstr \<Rightarrow> unit api_result" where
  "require_request_read Admin channel = Inr ()"
| "require_request_read (IssuerPrincipal t) channel = (if has_request_scope t OP_READ channel then Inr () else Inl Forbidden)"
| "require_request_read (DevicePrincipal _) channel = Inr ()"

fun require_request_cancel :: "principal \<Rightarrow> rstr \<Rightarrow> unit api_result" where
  "require_request_cancel Admin channel = Inr ()"
| "require_request_cancel (IssuerPrincipal t) channel = (if has_request_scope t OP_CANCEL channel then Inr () else Inl Forbidden)"
| "require_request_cancel (DevicePrincipal _) channel = Inl Forbidden"

fun_cases write_okE: "require_request_write p c = Inr u"
fun_cases cancel_okE: "require_request_cancel p c = Inr u"

end
