(* ===== verification/Integration.thy ===== *)
theory Integration
  imports Auth
begin

text \<open>
  The integration endpoints (nod-server api/integration_events.rs) after authentication: binding an
  origin to a pending request, the replay of the journal in pages, and the private detail of an event.
\<close>

fun creator_ok :: "principal \<Rightarrow> rstr option \<Rightarrow> bool" where
  "creator_ok (IssuerPrincipal t) creator \<longleftrightarrow> creator = Some (iu_id t)"
| "creator_ok Admin creator \<longleftrightarrow> True"
| "creator_ok (DevicePrincipal d) creator \<longleftrightarrow> True"

fun is_device :: "principal \<Rightarrow> bool" where
  "is_device (DevicePrincipal d) = True"
| "is_device Admin = False"
| "is_device (IssuerPrincipal t) = False"

definition bind_origin :: "db \<Rightarrow> principal \<Rightarrow> rstr \<Rightarrow> origin \<Rightarrow> db api_result" where
  "bind_origin s p rid g =
     (if is_device p then Inl Forbidden
      else bind_res (ok_or NotFound (find_request s rid)) (\<lambda>w.
        bind_res (require_request_write p (rq_channel_id w)) (\<lambda>_.
        if \<not> creator_ok p (rq_created_by w) then Inl Forbidden
        else if rq_status w \<noteq> Pending then Inl (conflict ''origin migration requires pending request'')
        else (case origin_on s rid of
            Some existing \<Rightarrow> if existing \<noteq> g then Inl (conflict ''origin is immutable'') else Inr s
          | None \<Rightarrow> Inr (s\<lparr>t_origins := t_origins s @ [\<lparr>or_request_id = rid, or_origin = g\<rparr>]\<rparr>)))))"

definition may_replay :: "principal \<Rightarrow> bool" where
  "may_replay p = (case p of IssuerPrincipal t \<Rightarrow>
       list_ex (\<lambda>scope. scope = lit ''*'' \<or> scope = lit ''requests:*'' \<or> scope = lit ''requests:read'' \<or>
         scope = lit ''requests:write'' \<or> starts_with scope (lit ''requests:read:'') \<or>
         starts_with scope (lit ''requests:write:'') \<or> starts_with scope (lit ''requests:*:'')) (iu_scopes t)
     | _ \<Rightarrow> True)"

record replay_page =
  rp_events :: "(int \<times> json) list"
  rp_next_cursor :: int
  rp_high_water :: int

definition replay :: "db \<Rightarrow> principal \<Rightarrow> int option \<Rightarrow> int option \<Rightarrow> int option \<Rightarrow> replay_page api_result" where
  "replay s p after_q limit_q through_q =
     (if is_device p then Inl Forbidden
      else let after = (case after_q of None \<Rightarrow> 0 | Some a \<Rightarrow> a);
             limit = (case limit_q of None \<Rightarrow> 100 | Some l \<Rightarrow> l);
             high = high_water s;
             through = (case through_q of None \<Rightarrow> high | Some t \<Rightarrow> t)
        in if after < 0 \<or> \<not> (1 \<le> limit \<and> limit \<le> 500) \<or> through < after \<or> high < through
           then Inl (bad_request ''invalid replay cursor or limit'')
           else if \<not> may_replay p then Inl Forbidden
           else let rows = scan s after through (nat limit) in
             Inr \<lparr>rp_events = map fst (filter (\<lambda>(e, channel). is_ok (require_request_read p channel)) rows),
               rp_next_cursor = (if rows = [] then through else fst (fst (last rows))),
               rp_high_water = through\<rparr>)"

definition event_detail_for :: "db \<Rightarrow> principal \<Rightarrow> rstr \<Rightarrow> event_detail api_result" where
  "event_detail_for s p eid =
     (if is_device p then Inl Forbidden
      else bind_res (event_detail_of s eid) (\<lambda>(channel, detail).
        bind_res (require_request_read p channel) (\<lambda>_. Inr detail)))"

lemma origins_unchanged: "\<exists>os. s = s\<lparr>t_origins := t_origins s @ os\<rparr>"
  by (rule exI [of _ "[]"]) simp

lemma bind_origin_ok:
  "bind_origin s p rid g = Inr s' \<Longrightarrow>
     \<exists>w os. find_request s rid = Some w \<and> rq_status w = Pending \<and> creator_ok p (rq_created_by w) \<and>
       require_request_write p (rq_channel_id w) = Inr () \<and> origin_on s' rid = Some g \<and>
       s' = s\<lparr>t_origins := t_origins s @ os\<rparr>"
  by (auto simp: bind_origin_def res_simps origin_on_def find_append intro: origins_unchanged split: if_splits option.splits)

end
