(* ===== verification/Request_Frames.thy ===== *)
theory Request_Frames
  imports Devices_Inv Callback_Order Integration
begin

text \<open>
  What the request operations leave alone: the account tables, the node id, and (creation and
  deletion apart) the push outbox. With it the push invariant and the account invariant go through
  the request operations.
\<close>

definition rest_of :: "db \<Rightarrow> (channel_row list \<times> user_row list \<times> device_row list \<times> attestation_row list \<times>
    issuer_row list \<times> code_row list \<times> subscription_row list \<times> clear_row list) \<times> rstr option" where
  "rest_of s = (accounts_of s, t_node_id s)"

lemma rest_of_updates [simp]:
  "rest_of (s\<lparr>t_requests := a1\<rparr>) = rest_of s" "rest_of (s\<lparr>t_options := a2\<rparr>) = rest_of s"
  "rest_of (s\<lparr>t_recipients := a3\<rparr>) = rest_of s" "rest_of (s\<lparr>t_decisions := a4\<rparr>) = rest_of s"
  "rest_of (s\<lparr>t_nonces := a5\<rparr>) = rest_of s" "rest_of (s\<lparr>t_push := a6\<rparr>) = rest_of s"
  "rest_of (s\<lparr>t_idempotency := a7\<rparr>) = rest_of s" "rest_of (s\<lparr>t_origins := a8\<rparr>) = rest_of s"
  "rest_of (s\<lparr>t_events := a9\<rparr>) = rest_of s" "rest_of (s\<lparr>t_callbacks := b1\<rparr>) = rest_of s"
  "rest_of (s\<lparr>t_event_seq := b2\<rparr>) = rest_of s"
  by (simp_all add: rest_of_def accounts_of_def)

lemma rest_append:
  assumes "append_lifecycle_on X s r kind d eid now = Inr s'"
  shows "rest_of s' = rest_of s \<and> t_push s' = t_push s"
  using assms by (rule append_lifecycle_on_ok) simp

lemma rest_user_decision:
  "record_user_decision s rid u d t = Inr s' \<Longrightarrow> rest_of s' = rest_of s \<and> t_push s' = t_push s"
  by (auto simp: record_user_decision_def set_request_def Let_def split: if_splits)

lemma rest_shared_decision:
  "record_shared_decision s rid d t = Inr s' \<Longrightarrow> rest_of s' = rest_of s \<and> t_push s' = t_push s"
  by (auto simp: record_shared_decision_def set_request_def split: if_splits)

lemma rest_record_decision:
  assumes "record_decision X s sub E = Inr (r, s')"
  shows "rest_of s' = rest_of s \<and> t_push s' = t_push s"
proof -
  obtain r0 opt sg s1 s2 where
    v: "verified_decision_signature X s r0 opt (sub_device sub) (trimmed_text (sd_text (sub_decision sub)))
       (sd_signature (sub_decision sub)) (sd_answer_value (sub_decision sub)) = Inr (sg, s1)"
    and w: "(\<exists>user. r_resolution r0 = PerUser \<and> sub_user_id sub = Some user \<and>
        record_user_decision s1 (sub_request_id sub) user (new_decision sub opt sg (e_now E 1)) (millis (e_now E 1)) = Inr s2) \<or>
     r_resolution r0 = Shared \<and>
        record_shared_decision s1 (sub_request_id sub) (new_decision sub opt sg (e_now E 1)) (millis (e_now E 1)) = Inr s2"
    and a: "append_lifecycle_on X s2 r KIND_ANSWER (Some (new_decision sub opt sg (e_now E 1))) (e_id E 0) (e_now E 2) = Inr s'"
    using assms by (rule record_decision_ok)
  from v have "rest_of s1 = rest_of s \<and> t_push s1 = t_push s"
    by (cases rule: nonce_step) simp_all
  moreover from w have "rest_of s2 = rest_of s1 \<and> t_push s2 = t_push s1"
    using rest_user_decision rest_shared_decision by blast
  ultimately show ?thesis using rest_append [OF a] by simp
qed

lemma rest_cancel_request:
  "cancel_request X s rid E = Inr (r, s') \<Longrightarrow> rest_of s' = rest_of s \<and> t_push s' = t_push s"
  by (auto simp: cancel_request_def Let_def res_simps set_request_def dest!: rest_append split: if_splits)

lemma rest_append_expired:
  "append_expired X s ids E n = Inr (rs, s') \<Longrightarrow> rest_of s' = rest_of s \<and> t_push s' = t_push s"
proof (induction X s ids E n arbitrary: rs rule: append_expired.induct)
  case (2 X s rid rids E n)
  from 2(2) obtain r s1 rs' where st: "append_lifecycle_on X s r KIND_EXPIRED None (e_id E n) (e_now E (Suc n)) = Inr s1"
    "append_expired X s1 rids E (Suc n) = Inr (rs', s')"
    by (auto simp: res_simps)
  from 2(1) [OF st(2)] rest_append [OF st(1)] show ?case by simp
qed simp

lemma rest_expire:
  "expire_due_requests X s E = Inr (rs, s') \<Longrightarrow> rest_of s' = rest_of s \<and> t_push s' = t_push s"
  unfolding expire_due_requests_def Let_def by (drule rest_append_expired) (simp add: set_request_def)

lemma rest_delete_requests: "rest_of (delete_requests s P) = rest_of s"
  by (simp add: rest_of_def accounts_of_def delete_requests_def Let_def)

lemma rest_publisher:
  "rest_of (snd (claim_event s E)) = rest_of s" "rest_of (snd (published s c n t)) = rest_of s"
  "rest_of (snd (publish_retry s c E)) = rest_of s"
  by (auto simp: claim_event_def published_def publish_retry_def Let_def split: option.split)

lemma rest_insert_recipients:
  "insert_recipients s rid us = Inr s' \<Longrightarrow> rest_of s' = rest_of s \<and> t_push s' = t_push s"
  by (induction s rid us rule: insert_recipients.induct) (auto split: if_splits)

lemma rest_insert_options:
  "insert_options s rid ps = Inr s' \<Longrightarrow> rest_of s' = rest_of s \<and> t_push s' = t_push s"
  by (induction s rid ps rule: insert_options.induct) (auto split: if_splits)

section \<open>Creation and the push outbox\<close>

definition new_pushes :: "db \<Rightarrow> rstr \<Rightarrow> instant \<Rightarrow> push_row list" where
  "new_pushes s rid now = map (\<lambda>d. \<lparr>pd_request_id = rid, pd_device_id = dv_id d, pd_status = lit ''queued'',
     pd_attempts = 0, pd_lease_until = None, pd_claim_generation = 0, pd_updated_at = now_string now,
     pd_error = None\<rparr>) (filter (push_target s rid) (t_devices s))"

lemma queue_pushes_rows:
  assumes "queue_pushes s rid now = Inr s'"
  shows "s' = s\<lparr>t_push := t_push s @ new_pushes s rid now\<rparr>"
    "\<forall>w \<in> set (t_push s). \<forall>v \<in> set (new_pushes s rid now). push_key w \<noteq> push_key v"
proof -
  from assms have no: "\<not> list_ex (\<lambda>w. pd_request_id w = rid \<and> pd_device_id w \<in>
      pd_device_id ` set (new_pushes s rid now)) (t_push s)"
    and s': "s' = s\<lparr>t_push := t_push s @ new_pushes s rid now\<rparr>"
    unfolding queue_pushes_def Let_def new_pushes_def by (simp_all split: if_splits)
  have "pd_request_id v = rid" if "v \<in> set (new_pushes s rid now)" for v
    using that by (auto simp: new_pushes_def)
  with no show "\<forall>w \<in> set (t_push s). \<forall>v \<in> set (new_pushes s rid now). push_key w \<noteq> push_key v"
    unfolding push_key_def list_ex_iff by (metis imageI prod.inject)
  show "s' = s\<lparr>t_push := t_push s @ new_pushes s rid now\<rparr>" by (fact s')
qed

lemma rest_insert_new_request:
  assumes "insert_new_request X s req m recipients scope fp key E = Inr (c, s')"
  shows "rest_of s' = rest_of s" "\<exists>s3. t_devices s3 = t_devices s \<and> t_push s3 = t_push s \<and>
    recipients_of s3 (e_id E 0) = recipients_of s (e_id E 0) @ recipients \<and>
    t_push s' = t_push s @ new_pushes s3 (e_id E 0) (e_now E 0) \<and>
    (\<forall>w \<in> set (t_push s). \<forall>v \<in> set (new_pushes s3 (e_id E 0) (e_now E 0)). push_key w \<noteq> push_key v)"
proof -
  let ?rid = "e_id E 0"
  from assms obtain s1 s2 s3 s4 s5 s6 r where st:
    "insert_request s (new_request_row req m ?rid (e_now E 0) (e_salt E)) = Inr s1"
    "insert_recipients s1 ?rid recipients = Inr s2"
    "insert_options s2 ?rid (normalize_options (c_options req)) = Inr s3"
    "queue_pushes s3 ?rid (e_now E 0) = Inr s4"
    "bind_idempotency s4 scope (c_channel_id req) key fp ?rid = Inr s5"
    "insert_origin s5 ?rid (cm_origin m) = Inr s6"
    "append_lifecycle_on X s6 r KIND_CREATED None (e_id E 1) (e_now E 1) = Inr s'"
    by (auto simp: insert_new_request_def Let_def res_simps)
  from insert_recipients_ok [OF st(2)] insert_options_ok [OF st(3)] insert_request_ok [OF st(1)]
  have recs: "recipients_of s3 ?rid = recipients_of s ?rid @ recipients"
    by (auto simp: recipients_of_def filter_map comp_def)
  have 1: "rest_of s1 = rest_of s \<and> t_push s1 = t_push s"
    using st(1) by (auto simp: insert_request_def split: if_splits)
  have 5: "rest_of s5 = rest_of s4 \<and> t_push s5 = t_push s4"
    using st(5) by (auto simp: bind_idempotency_def split: option.splits if_splits)
  have 6: "rest_of s6 = rest_of s5 \<and> t_push s6 = t_push s5"
    using st(6) by (auto simp: insert_origin_def split: option.splits if_splits)
  note q = queue_pushes_rows [OF st(4)]
  note all = 1 rest_insert_recipients [OF st(2)] rest_insert_options [OF st(3)] 5 6 rest_append [OF st(7)]
  show "rest_of s' = rest_of s" using all q(1) by simp
  have same: "t_devices s3 = t_devices s" "t_push s3 = t_push s"
    using all by (auto simp: rest_of_def accounts_of_def)
  have "t_push s' = t_push s @ new_pushes s3 ?rid (e_now E 0)" using all q(1) same by simp
  with same recs q(2) show "\<exists>s3. t_devices s3 = t_devices s \<and> t_push s3 = t_push s \<and>
    recipients_of s3 (e_id E 0) = recipients_of s (e_id E 0) @ recipients \<and>
    t_push s' = t_push s @ new_pushes s3 (e_id E 0) (e_now E 0) \<and>
    (\<forall>w \<in> set (t_push s). \<forall>v \<in> set (new_pushes s3 (e_id E 0) (e_now E 0)). push_key w \<noteq> push_key v)"
    by auto
qed

lemma rest_create:
  "create_request X s req m E = Inr (c, s') \<Longrightarrow> rest_of s' = rest_of s"
  by (erule create_request_cases) (auto dest: rest_insert_new_request(1))

lemma push_inv_frame: "push_inv s \<Longrightarrow> t_push s' = t_push s \<Longrightarrow> push_inv s'"
  by (simp add: push_inv_def pushes_wf_def)

lemma push_inv_create:
  assumes inv: "push_inv s" and acc: "accounts_inv s" and op: "create_request X s req m E = Inr (c, s')"
  shows "push_inv s'"
  using op
proof (cases rule: create_request_cases)
  case (same rows)
  then show ?thesis using inv by (auto intro: push_inv_frame)
next
  case (new recipients scope fp key)
  from rest_insert_new_request(2) [OF new(1)] obtain s3 where s3: "t_devices s3 = t_devices s"
    "t_push s' = t_push s @ new_pushes s3 (e_id E 0) (e_now E 0)"
    "\<forall>w \<in> set (t_push s). \<forall>v \<in> set (new_pushes s3 (e_id E 0) (e_now E 0)). push_key w \<noteq> push_key v"
    by blast
  let ?new = "new_pushes s3 (e_id E 0) (e_now E 0)"
  have "distinct (map dv_id (t_devices s3))" using acc by (simp add: s3(1) accounts_inv_def devices_ok_def)
  then have "distinct (map push_key ?new)"
    by (simp add: new_pushes_def push_key_def comp_def distinct_map inj_on_def)
  moreover have "push_key ` set (t_push s) \<inter> push_key ` set ?new = {}" using s3(3) by blast
  ultimately have "pushes_wf s'" using inv by (simp add: push_inv_def pushes_wf_def s3(2))
  moreover have "\<forall>w \<in> set ?new. push_row_ok w"
    by (auto simp: new_pushes_def push_row_ok_def MAX_ATTEMPTS_def)
  ultimately show ?thesis using inv by (simp add: push_inv_def s3(2) ball_Un)
qed

lemma push_inv_delete_requests: "push_inv s \<Longrightarrow> push_inv (delete_requests s P)"
  by (simp add: push_inv_def pushes_wf_def delete_requests_def Let_def distinct_map_sql_delete set_sql_delete)

end
