(* ===== verification/Server.thy ===== *)
theory Server
  imports Request_Frames
begin

text \<open>
  The server as a state machine: one step per operation of the database layer that changes state, as
  the API handlers and the background workers run them, in any order and any number of times. An
  operation that fails inside its transaction leaves the state, so only successful ones are steps;
  operations of several statements step to whatever they left. The invariants of the components hold
  in every reachable state, and a step never takes back what is settled.
\<close>

section \<open>Steps\<close>

inductive server_step :: "ext \<Rightarrow> db \<Rightarrow> db \<Rightarrow> bool" for X :: ext and s :: db where
  create: "create_request X s req m E = Inr (c, s') \<Longrightarrow> server_step X s s'"
| decide: "record_decision X s sub E = Inr (r, s') \<Longrightarrow> server_step X s s'"
| cancel: "cancel_request X s rid E = Inr (r, s') \<Longrightarrow> server_step X s s'"
| expire: "expire_due_requests X s E = Inr (rs, s') \<Longrightarrow> server_step X s s'"
| prune: "server_step X s (snd (prune_retention s n now))"
| claim_publish: "server_step X s (snd (claim_event s E))"
| publish: "server_step X s (snd (published s c n t))"
| republish: "server_step X s (snd (publish_retry s c E))"
| claim_delivery: "server_step X s (snd (claim_callback s E))"
| delivered: "complete_callback s d status t = Inr (b, s') \<Longrightarrow> server_step X s s'"
| redeliver: "server_step X s (snd (retry_callback s d st blocked E))"
| recover: "server_step X s (recover_pushes s t)"
| claim_push: "server_step X s (snd (claim_pushes s limit t))"
| attempt_push: "begin_attempt s j t = Inr (j', s') \<Longrightarrow> server_step X s s'"
| finish_push: "update_push s j status err t = Inr s' \<Longrightarrow> server_step X s s'"
| drop_token: "server_step X s (snd (clear_invalid_push_token s j token t))"
| new_channel: "server_step X s (snd (create_channel X s cb now))"
| drop_channel: "delete_channel s cid = Inr s' \<Longrightarrow> server_step X s s'"
| subscribe: "set_subscription s did cid flag now = Inr s' \<Longrightarrow> server_step X s s'"
| subscribe_user: "server_step X s (snd (update_user_subscriptions_for_admin s uid us E))"
| clear: "clear_channel s did cid now = Inr s' \<Longrightarrow> server_step X s s'"
| new_user: "server_step X s (snd (create_user s uid name E))"
| change_user: "server_step X s (snd (update_user s uid name now))"
| drop_user: "delete_user s uid now = Inr s' \<Longrightarrow> server_step X s s'"
| new_code: "create_enrollment_code X s uid lifetime E = Inr (cr, s') \<Longrightarrow> server_step X s s'"
| enroll: "server_step X s (snd (enroll_device X s en E))"
| attest: "record_device_attestation s did ar now = Inr s' \<Longrightarrow> server_step X s s'"
| rename: "server_step X s (snd (rename_user_device s uid did cur name now))"
| drop_device: "delete_device s did now = Inr s' \<Longrightarrow> server_step X s s'"
| revoke_device: "revoke_user_device s uid did now = Inr s' \<Longrightarrow> server_step X s s'"
| push_token: "update_push_token s did provider tok native now = Inr s' \<Longrightarrow> server_step X s s'"
| sound: "update_device_preferences s did snd' now = Inr s' \<Longrightarrow> server_step X s s'"
| preferences: "update_notification_preferences s did p now = Inr (p', s') \<Longrightarrow> server_step X s s'"
| touch: "server_step X s (touch_device s did E)"
| new_issuer: "create_issuer_token X s name scopes E = Inr (ci, s') \<Longrightarrow> server_step X s s'"
| drop_issuer: "revoke_issuer_token s tid now = Inr s' \<Longrightarrow> server_step X s s'"
| bind: "bind_origin s p rid g = Inr s' \<Longrightarrow> server_step X s s'"
| restart: "server_step X s (seed_defaults s E)"

inductive_cases server_stepE: "server_step X s s'"

inductive reachable :: "ext \<Rightarrow> db \<Rightarrow> bool" for X :: ext where
  start: "reachable X (seed_defaults empty_db E)"
| step: "reachable X s \<Longrightarrow> server_step X s s' \<Longrightarrow> reachable X s'"

abbreviation server_steps :: "ext \<Rightarrow> db \<Rightarrow> db \<Rightarrow> bool" where
  "server_steps X \<equiv> (server_step X)\<^sup>*\<^sup>*"

section \<open>Requests and accounts are apart\<close>

text \<open>The tables of the request side, which the account operations leave alone.\<close>

definition requests_side :: "db \<Rightarrow> request_row list \<times> recipient_row list \<times> user_decision_row list \<times>
    event_row list \<times> nonce_row list \<times> int \<times> callback_row list \<times> push_row list \<times> option_row list \<times>
    idempotency_row list \<times> origin_row list" where
  "requests_side s = (t_requests s, t_recipients s, t_decisions s, t_events s, t_nonces s, t_event_seq s,
     t_callbacks s, t_push s, t_options s, t_idempotency s, t_origins s)"

lemma requests_side_updates [simp]:
  "requests_side (s\<lparr>t_channels := a1\<rparr>) = requests_side s" "requests_side (s\<lparr>t_users := a2\<rparr>) = requests_side s"
  "requests_side (s\<lparr>t_devices := a3\<rparr>) = requests_side s" "requests_side (s\<lparr>t_attestations := a4\<rparr>) = requests_side s"
  "requests_side (s\<lparr>t_issuers := a5\<rparr>) = requests_side s" "requests_side (s\<lparr>t_codes := a6\<rparr>) = requests_side s"
  "requests_side (s\<lparr>t_subscriptions := a7\<rparr>) = requests_side s" "requests_side (s\<lparr>t_clears := a8\<rparr>) = requests_side s"
  "requests_side (s\<lparr>t_node_id := a9\<rparr>) = requests_side s"
  by (simp_all add: requests_side_def)

lemma requests_side_set_devices [simp]: "requests_side (set_devices s P f) = requests_side s"
  by (simp add: set_devices_def)

definition request_side_inv :: "db \<Rightarrow> bool" where
  "request_side_inv s \<longleftrightarrow> requests_inv s \<and> callback_inv s \<and> push_inv s"

lemma request_side_frame:
  assumes "requests_side s' = requests_side s"
  shows "request_side_inv s' \<longleftrightarrow> request_side_inv s"
proof -
  from assms have t: "t_requests s' = t_requests s" "t_recipients s' = t_recipients s"
    "t_decisions s' = t_decisions s" "t_events s' = t_events s" "t_nonces s' = t_nonces s"
    "t_event_seq s' = t_event_seq s" "t_callbacks s' = t_callbacks s" "t_push s' = t_push s"
    by (auto simp: requests_side_def)
  then show ?thesis
    using inv_frame [OF t(1-6)]
    by (simp add: request_side_inv_def callback_inv_def callbacks_wf_def events_of_def push_inv_def pushes_wf_def)
qed

lemma side_set_user_subscription: "set_user_subscription s uid c b t = Inr s' \<Longrightarrow> requests_side s' = requests_side s"
  by (auto simp: set_user_subscription_def res_simps)

lemma side_apply_subscriptions: "requests_side (snd (apply_subscriptions s uid us E n)) = requests_side s"
  by (induction s uid us E n rule: apply_subscriptions.induct)
    (auto split: sum.split dest: side_set_user_subscription)

lemma side_update_subscriptions:
  "requests_side (snd (update_user_subscriptions_for_admin s uid us E)) = requests_side s"
  using side_apply_subscriptions [of s uid us E 0]
  by (auto simp: update_user_subscriptions_for_admin_def split: sum.split prod.split)

lemma side_subscribe_default: "subscribe_default s uid t = Inr s' \<Longrightarrow> requests_side s' = requests_side s"
  by (auto simp: subscribe_default_def split: if_splits)

lemma side_upsert_user: "requests_side (snd (upsert_user s uid name t)) = requests_side s"
  by (simp add: upsert_user_def Let_def)

lemma side_create_user: "requests_side (snd (create_user s uid name E)) = requests_side s"
  using side_upsert_user [of s uid "trim name" "now_string (e_now E 0)"]
  by (auto simp: create_user_def split: sum.split prod.split dest: side_subscribe_default)

lemma side_enroll: "requests_side (snd (enroll_device X s req E)) = requests_side s"
proof (cases "enroll_device X s req E")
  case (Pair r s')
  then show ?thesis
  proof (cases rule: enroll_device_cases)
    case (2 push key d user_name)
    from enroll_transaction_ok [OF this(2)] have "requests_side s' = requests_side s"
      by (auto simp: insert_device_def split: if_splits)
    with Pair show ?thesis by simp
  qed (use Pair in simp)
qed

lemma side_account_steps:
  "requests_side (snd (create_channel X s cb now)) = requests_side s"
  "requests_side (snd (update_user s uid name now)) = requests_side s"
  "requests_side (snd (rename_user_device s uid did cur name now)) = requests_side s"
  "requests_side (touch_device s did E) = requests_side s"
  "requests_side (seed_defaults s E) = requests_side s"
  "requests_side (snd (clear_invalid_push_token s j token t)) = requests_side s"
  "set_subscription s did cid flag now = Inr s' \<Longrightarrow> requests_side s' = requests_side s"
  "clear_channel s did cid now = Inr s' \<Longrightarrow> requests_side s' = requests_side s"
  "delete_user s uid now = Inr s' \<Longrightarrow> requests_side s' = requests_side s"
  "create_enrollment_code X s uid lifetime E = Inr (cr, s') \<Longrightarrow> requests_side s' = requests_side s"
  "record_device_attestation s did ar now = Inr s' \<Longrightarrow> requests_side s' = requests_side s"
  "delete_device s did now = Inr s' \<Longrightarrow> requests_side s' = requests_side s"
  "revoke_user_device s uid did now = Inr s' \<Longrightarrow> requests_side s' = requests_side s"
  "update_push_token s did provider tok native now = Inr s' \<Longrightarrow> requests_side s' = requests_side s"
  "update_device_preferences s did v now = Inr s' \<Longrightarrow> requests_side s' = requests_side s"
  "update_notification_preferences s did p now = Inr (p', s') \<Longrightarrow> requests_side s' = requests_side s"
  "create_issuer_token X s name scopes E = Inr (ci, s') \<Longrightarrow> requests_side s' = requests_side s"
  "revoke_issuer_token s tid now = Inr s' \<Longrightarrow> requests_side s' = requests_side s"
  by (auto simp: create_channel_def update_user_def rename_user_device_def touch_device_def seed_defaults_def
      clear_invalid_push_token_def set_subscription_def clear_channel_def delete_user_def
      create_enrollment_code_def record_device_attestation_def delete_device_def revoke_user_device_def
      update_push_token_def update_device_preferences_def update_notification_preferences_def
      create_issuer_token_def revoke_issuer_token_def Let_def res_simps
      dest: side_set_user_subscription split: sum.split if_splits option.splits)

section \<open>The invariant\<close>

definition server_inv :: "db \<Rightarrow> bool" where
  "server_inv s \<longleftrightarrow> request_side_inv s \<and> accounts_inv s"

lemma accounts_rest: "rest_of s' = rest_of s \<Longrightarrow> accounts_inv s' \<longleftrightarrow> accounts_inv s"
  by (rule accounts_frame) (simp add: rest_of_def)

text \<open>An operation on the account tables.\<close>

lemma server_inv_account_step:
  "server_inv s \<Longrightarrow> requests_side s' = requests_side s \<Longrightarrow> accounts_inv s' \<Longrightarrow> server_inv s'"
  by (simp add: server_inv_def request_side_frame [of s' s])

text \<open>An operation on the request tables.\<close>

lemma server_inv_request_step:
  "server_inv s \<Longrightarrow> rest_of s' = rest_of s \<Longrightarrow> requests_inv s' \<Longrightarrow> callback_inv s' \<Longrightarrow> push_inv s' \<Longrightarrow>
   server_inv s'"
  by (simp add: server_inv_def request_side_inv_def accounts_rest [of s' s])

text \<open>An operation on the push outbox or on the callback queue alone.\<close>

lemma server_inv_parts:
  assumes "server_inv s"
  shows "requests_inv s" "callback_inv s" "push_inv s" "accounts_inv s"
  using assms by (auto simp: server_inv_def request_side_inv_def)

lemma server_inv_push_step:
  assumes inv: "server_inv s" and push: "push_inv (s\<lparr>t_push := t\<rparr>)"
  shows "server_inv (s\<lparr>t_push := t\<rparr>)"
proof (rule server_inv_request_step [OF inv _ _ _ push])
  show "requests_inv (s\<lparr>t_push := t\<rparr>)"
    by (rule iffD2 [OF inv_frame server_inv_parts(1) [OF inv]]) simp_all
  show "callback_inv (s\<lparr>t_push := t\<rparr>)"
    by (rule callback_frame [OF server_inv_parts(2) [OF inv]]) (simp_all add: journal_grows_same)
qed simp

lemma server_inv_callback_step:
  assumes inv: "server_inv s" and cb: "callback_inv (s\<lparr>t_callbacks := t\<rparr>)"
  shows "server_inv (s\<lparr>t_callbacks := t\<rparr>)"
proof (rule server_inv_request_step [OF inv _ _ cb])
  show "requests_inv (s\<lparr>t_callbacks := t\<rparr>)"
    by (rule iffD2 [OF inv_frame server_inv_parts(1) [OF inv]]) simp_all
  show "push_inv (s\<lparr>t_callbacks := t\<rparr>)"
    by (rule push_inv_frame [OF server_inv_parts(3) [OF inv]]) simp
qed simp

lemma server_inv_requests:
  assumes inv: "server_inv s"
  shows "create_request X s req m E = Inr (c, s') \<Longrightarrow> server_inv s'"
    and "record_decision X s sub E = Inr (r, s') \<Longrightarrow> server_inv s'"
    and "cancel_request X s rid E = Inr (r, s') \<Longrightarrow> server_inv s'"
    and "expire_due_requests X s E = Inr (rs, s') \<Longrightarrow> server_inv s'"
    and "server_inv (delete_requests s P)"
proof -
  note i = server_inv_parts [OF inv]
  note step = server_inv_request_step [OF inv]
  show "server_inv s'" if op: "create_request X s req m E = Inr (c, s')"
    by (rule step [OF rest_create [OF op] inv_create_request [OF i(1) op] callback_create [OF i(2) op]
          push_inv_create [OF i(3,4) op]])
  show "server_inv s'" if op: "record_decision X s sub E = Inr (r, s')"
    using rest_record_decision [OF op]
    by (intro step inv_record_decision [OF i(1) op] callback_record_decision [OF i(2,1) op] push_inv_frame [OF i(3)])
      simp_all
  show "server_inv s'" if op: "cancel_request X s rid E = Inr (r, s')"
    using rest_cancel_request [OF op]
    by (intro step inv_cancel_request [OF i(1) op] callback_cancel_request [OF i(2,1) op] push_inv_frame [OF i(3)])
      simp_all
  show "server_inv s'" if op: "expire_due_requests X s E = Inr (rs, s')"
    using rest_expire [OF op]
    by (intro step inv_expire_due_requests [OF i(1) op] callback_expire [OF i(2) op] push_inv_frame [OF i(3)])
      simp_all
  show "server_inv (delete_requests s P)"
    by (intro step rest_delete_requests inv_delete_requests callback_delete push_inv_delete_requests i)
qed

lemma server_inv_publisher:
  assumes inv: "server_inv s"
  shows "server_inv (snd (claim_event s E))" "server_inv (snd (published s c n t))"
    "server_inv (snd (publish_retry s c E))"
proof -
  note i = server_inv_parts [OF inv]
  have p: "t_push (snd (claim_event s E)) = t_push s" "t_push (snd (published s c n t)) = t_push s"
    "t_push (snd (publish_retry s c E)) = t_push s"
    by (auto simp: claim_event_def published_def publish_retry_def Let_def split: option.split)
  note step = server_inv_request_step [OF inv]
  show "server_inv (snd (claim_event s E))"
    by (rule step [OF rest_publisher(1) inv_publisher(1) [OF i(1)] callback_publisher(1) [OF i(2)]
        push_inv_frame [OF i(3) p(1)]])
  show "server_inv (snd (published s c n t))"
    by (rule step [OF rest_publisher(2) inv_publisher(2) [OF i(1)] callback_publisher(2) [OF i(2)]
        push_inv_frame [OF i(3) p(2)]])
  show "server_inv (snd (publish_retry s c E))"
    by (rule step [OF rest_publisher(3) inv_publisher(3) [OF i(1)] callback_publisher(3) [OF i(2)]
        push_inv_frame [OF i(3) p(3)]])
qed

lemma server_inv_callbacks:
  assumes inv: "server_inv s"
  shows "server_inv (snd (claim_callback s E))" "complete_callback s d status t = Inr (b, s') \<Longrightarrow> server_inv s'"
    "server_inv (snd (retry_callback s d st blocked E))"
proof -
  note i = server_inv_parts [OF inv]
  show "server_inv (snd (claim_callback s E))"
  proof (cases "claim_callback s E")
    case (Pair cl s')
    then consider "s' = s" | c t where "cl = Some c" "s' = s\<lparr>t_callbacks := t\<rparr>"
      by (auto simp: claim_callback_def Let_def split: list.splits)
    then show ?thesis
      by cases (use Pair inv i server_inv_callback_step [OF inv] callback_claim [OF i(2)] in auto)
  qed
  show "server_inv s'" if "complete_callback s d status t = Inr (b, s')"
  proof -
    from that obtain cbs where "s' = s\<lparr>t_callbacks := cbs\<rparr>"
      by (auto simp: complete_callback_def Let_def split: if_splits)
    with server_inv_callback_step [OF inv] callback_complete [OF i(2) that] show ?thesis by simp
  qed
  show "server_inv (snd (retry_callback s d st blocked E))"
    using server_inv_callback_step [OF inv] callback_retry [OF i(2), of d st blocked E]
    by (simp add: retry_callback_def Let_def)
qed

lemma server_inv_pushes:
  assumes inv: "server_inv s"
  shows "server_inv (recover_pushes s t)" "server_inv (snd (claim_pushes s limit t))"
    "begin_attempt s j t = Inr (j', s') \<Longrightarrow> server_inv s'"
    "update_push s j status err t = Inr s' \<Longrightarrow> server_inv s'"
proof -
  note ops = push_inv_ops [OF server_inv_parts(3) [OF inv]]
  have to: "server_inv s'" if "push_inv s'" "s' = s\<lparr>t_push := p\<rparr>" for s' p
    using server_inv_push_step [OF inv] that by simp
  show "server_inv (recover_pushes s t)"
    by (rule to [OF ops(1)]) (simp add: recover_pushes_def)
  show "server_inv (snd (claim_pushes s limit t))"
    by (rule to [OF ops(2)]) (simp add: claim_pushes_def Let_def)
  show "server_inv s'" if op: "begin_attempt s j t = Inr (j', s')"
  proof -
    from op obtain p where "s' = s\<lparr>t_push := p\<rparr>" by (auto simp: begin_attempt_def Let_def split: if_splits)
    with to [OF ops(4) [OF op]] show ?thesis by blast
  qed
  show "server_inv s'" if op: "update_push s j status err t = Inr s'"
  proof -
    from op obtain p where "s' = s\<lparr>t_push := p\<rparr>" by (auto simp: update_push_def Let_def split: if_splits)
    with to [OF ops(3) [OF op]] show ?thesis by blast
  qed
qed

lemma accounts_seed:
  assumes "accounts_inv s"
  shows "accounts_inv (seed_defaults s E)"
  using assms
  by (auto simp: seed_defaults_def Let_def sql_insert_or_ignore_def accounts_parts live_users_def
      list_ex_key list_ex_iff subscription_key_def device_ok_def)

text \<open>Channel deletion is request deletion and an account step.\<close>

lemma side_delete_channel:
  "delete_channel s cid = Inr s' \<Longrightarrow> requests_side s' = requests_side (delete_requests s (\<lambda>w. rq_channel_id w = cid))"
  unfolding delete_channel_def Let_def by (auto simp: res_simps simp del: sql_count_0_iff split: if_splits)

lemma server_inv_delete_channel:
  assumes inv: "server_inv s" and op: "delete_channel s cid = Inr s'"
  shows "server_inv s'"
proof -
  have "request_side_inv s'"
    using server_inv_requests(5) [OF inv, of "\<lambda>w. rq_channel_id w = cid"]
    unfolding server_inv_def request_side_frame [OF side_delete_channel [OF op]] by simp
  with accounts_delete_channel [OF server_inv_parts(4) [OF inv] op] show ?thesis by (simp add: server_inv_def)
qed

lemma accounts_set_subscription:
  "accounts_inv s \<Longrightarrow> set_subscription s did cid flag now = Inr s' \<Longrightarrow> accounts_inv s'"
  by (auto simp: set_subscription_def res_simps dest: accounts_set_user_subscription)

lemmas sides = side_account_steps side_update_subscriptions side_create_user side_enroll

lemma server_inv_accounts:
  assumes inv: "server_inv s"
  shows "server_inv (snd (create_channel X s cb now))" "server_inv (snd (update_user_subscriptions_for_admin s uid us E))"
    "server_inv (snd (create_user s uid name E))" "server_inv (snd (update_user s uid name now))"
    "server_inv (snd (enroll_device X s en E))" "server_inv (snd (rename_user_device s uid did cur name now))"
    "server_inv (touch_device s did E)" "server_inv (seed_defaults s E)"
    "server_inv (snd (clear_invalid_push_token s j token t))"
  by (rule server_inv_account_step [OF inv], rule sides,
      rule accounts_create_channel accounts_update_subscriptions accounts_create_user accounts_update_user
        accounts_enroll_device accounts_rename accounts_touch accounts_seed accounts_clear_invalid_push_token,
      rule server_inv_parts [OF inv])+

lemma server_inv_accounts_ok:
  assumes inv: "server_inv s"
  shows "set_subscription s did cid flag now = Inr s' \<Longrightarrow> server_inv s'"
    "clear_channel s did cid now = Inr s' \<Longrightarrow> server_inv s'"
    "delete_user s uid now = Inr s' \<Longrightarrow> server_inv s'"
    "create_enrollment_code X s uid lifetime E = Inr (cr, s') \<Longrightarrow> server_inv s'"
    "record_device_attestation s did ar now = Inr s' \<Longrightarrow> server_inv s'"
    "delete_device s did now = Inr s' \<Longrightarrow> server_inv s'"
    "revoke_user_device s uid did now = Inr s' \<Longrightarrow> server_inv s'"
    "update_push_token s did provider tok native now = Inr s' \<Longrightarrow> server_inv s'"
    "update_device_preferences s did v now = Inr s' \<Longrightarrow> server_inv s'"
    "update_notification_preferences s did p now = Inr (p', s') \<Longrightarrow> server_inv s'"
    "create_issuer_token X s name scopes E = Inr (ci, s') \<Longrightarrow> server_inv s'"
    "revoke_issuer_token s tid now = Inr s' \<Longrightarrow> server_inv s'"
  by (rule server_inv_account_step [OF inv], erule sides,
      erule accounts_set_subscription [OF server_inv_parts(4) [OF inv]]
        accounts_clear_channel [OF server_inv_parts(4) [OF inv]]
        accounts_delete_user [OF server_inv_parts(4) [OF inv]]
        accounts_create_enrollment_code [OF server_inv_parts(4) [OF inv]]
        accounts_record_attestation [OF server_inv_parts(4) [OF inv]]
        accounts_delete_device [OF server_inv_parts(4) [OF inv]]
        accounts_revoke_user_device [OF server_inv_parts(4) [OF inv]]
        accounts_update_push_token [OF server_inv_parts(4) [OF inv]]
        accounts_update_device_preferences [OF server_inv_parts(4) [OF inv]]
        accounts_update_notification_preferences [OF server_inv_parts(4) [OF inv]]
        accounts_create_issuer [OF server_inv_parts(4) [OF inv]]
        accounts_revoke_issuer [OF server_inv_parts(4) [OF inv]])+

lemma server_inv_prune: "server_inv s \<Longrightarrow> server_inv (snd (prune_retention s n now))"
  by (simp add: prune_retention_def Let_def server_inv_requests(5))

lemma server_inv_bind_origin:
  assumes inv: "server_inv s" and op: "bind_origin s p rid g = Inr s'"
  shows "server_inv s'"
proof -
  note i = server_inv_parts [OF inv]
  from bind_origin_ok [OF op] obtain os where s': "s' = s\<lparr>t_origins := t_origins s @ os\<rparr>" by blast
  show ?thesis
    unfolding s'
    by (rule server_inv_request_step [OF inv], simp, rule iffD2 [OF inv_frame i(1)], simp_all add:
        callback_frame [OF i(2)] journal_grows_same push_inv_frame [OF i(3)])
qed

lemma server_inv_step:
  assumes step: "server_step X s s'" and inv: "server_inv s"
  shows "server_inv s'"
  by (rule server_stepE [OF step]; (erule server_inv_requests(1-4) [OF inv] server_inv_callbacks(2) [OF inv]
        server_inv_pushes(3,4) [OF inv] server_inv_delete_channel [OF inv] server_inv_accounts_ok [OF inv]
        server_inv_bind_origin [OF inv] |
      (simp only:, rule server_inv_prune [OF inv] server_inv_publisher [OF inv] server_inv_callbacks(1,3) [OF inv]
        server_inv_pushes(1,2) [OF inv] server_inv_accounts [OF inv])))

lemma server_inv_empty: "server_inv empty_db"
  by (simp add: server_inv_def request_side_inv_def requests_inv_def base_inv_def keys_ok_def dedupe_ok_def
      journal_ok_def nonces_ok_def callback_inv_def push_inv_def accounts_parts empty_db_def journal_wf_def
      revisions_ok_def events_of_def callbacks_wf_def callback_order_def pushes_wf_def List.map_filter_def)

lemma server_inv_reachable: "reachable X s \<Longrightarrow> server_inv s"
proof (induction rule: reachable.induct)
  case (start E)
  show ?case
    using server_inv_account_step [OF server_inv_empty side_account_steps(5)]
      accounts_seed [OF server_inv_parts(4) [OF server_inv_empty]] by blast
qed (rule server_inv_step)

lemma reachable_steps: "server_steps X s s' \<Longrightarrow> reachable X s \<Longrightarrow> reachable X s'"
  by (induction rule: rtranclp_induct) (auto intro: reachable.step)

end
