(* ===== verification/Persistence.thy ===== *)
theory Persistence
  imports Server
begin

text \<open>
  What the server never takes back. A step keeps the card of every request (its columns, options and
  recipients), leaves a request that is no longer pending exactly as it is until retention removes it,
  only appends to the journal and to a request's decisions, and never forgets a used nonce; an id that
  once occurred in the journal is not used for a new request. The relation composes, so it holds
  between any state and any later one.
\<close>

section \<open>The card of a request\<close>

definition request_core :: "request_row \<Rightarrow> request_row" where
  "request_core w = w\<lparr>rq_status := Pending, rq_updated_at := 0, rq_resolved_at := None,
     rq_decision := None, rq_revision := 0\<rparr>"

definition card_of :: "db \<Rightarrow> request_row list \<times> recipient_row list \<times> option_row list \<times> origin_row list" where
  "card_of s = (map request_core (t_requests s), t_recipients s, t_options s, t_origins s)"

lemma request_core_id: "request_core v = request_core w \<Longrightarrow> rq_id v = rq_id w"
  by (cases v; cases w) (simp add: request_core_def)

lemma request_core_updates [simp]:
  "request_core (w\<lparr>rq_status := st\<rparr>) = request_core w" "request_core (w\<lparr>rq_updated_at := t\<rparr>) = request_core w"
  "request_core (w\<lparr>rq_resolved_at := rt\<rparr>) = request_core w" "request_core (w\<lparr>rq_decision := d\<rparr>) = request_core w"
  "request_core (w\<lparr>rq_revision := n\<rparr>) = request_core w"
  by (simp_all add: request_core_def)

lemma card_of_updates [simp]:
  "card_of (s\<lparr>t_decisions := a1\<rparr>) = card_of s" "card_of (s\<lparr>t_nonces := a2\<rparr>) = card_of s"
  "card_of (s\<lparr>t_events := a3\<rparr>) = card_of s" "card_of (s\<lparr>t_event_seq := a4\<rparr>) = card_of s"
  "card_of (s\<lparr>t_callbacks := a5\<rparr>) = card_of s" "card_of (s\<lparr>t_push := a6\<rparr>) = card_of s"
  by (simp_all add: card_of_def)

lemma card_of_requests:
  "(\<And>w. request_core (f w) = request_core w) \<Longrightarrow>
   card_of (s\<lparr>t_requests := sql_update P f (t_requests s)\<rparr>) = card_of s"
  by (simp add: card_of_def map_sql_update_frame)

lemma card_set_request: "(\<And>w. request_core (f w) = request_core w) \<Longrightarrow> card_of (set_request s P f) = card_of s"
  unfolding set_request_def by (rule card_of_requests)

lemma card_append:
  assumes "append_lifecycle_on X s r kind d eid now = Inr s'"
  shows "card_of s' = card_of s"
  using assms by (rule append_lifecycle_on_ok) (simp add: card_of_def map_sql_update_frame)

lemma card_user_decision: "record_user_decision s rid u d t = Inr s' \<Longrightarrow> card_of s' = card_of s"
  by (auto simp: record_user_decision_def Let_def card_set_request split: if_splits)

lemma card_shared_decision: "record_shared_decision s rid d t = Inr s' \<Longrightarrow> card_of s' = card_of s"
  by (auto simp: record_shared_decision_def card_set_request split: if_splits)

lemma card_record_decision:
  assumes "record_decision X s sub E = Inr (r, s')"
  shows "card_of s' = card_of s"
proof -
  obtain r0 opt sg s1 s2 where
    v: "verified_decision_signature X s r0 opt (sub_device sub) (trimmed_text (sd_text (sub_decision sub)))
       (sd_signature (sub_decision sub)) (sd_answer_value (sub_decision sub)) = Inr (sg, s1)"
    and w: "(\<exists>user. r_resolution r0 = PerUser \<and> sub_user_id sub = Some user \<and>
        record_user_decision s1 (sub_request_id sub) user (new_decision sub opt sg (e_now E 1)) (millis (e_now E 1)) = Inr s2) \<or>
     r_resolution r0 = Shared \<and>
        record_shared_decision s1 (sub_request_id sub) (new_decision sub opt sg (e_now E 1)) (millis (e_now E 1)) = Inr s2"
    and a: "append_lifecycle_on X s2 r KIND_ANSWER (Some (new_decision sub opt sg (e_now E 1))) (e_id E 0) (e_now E 2) = Inr s'"
    using assms by (rule record_decision_ok)
  from v have "card_of s1 = card_of s" by (cases rule: nonce_step) simp_all
  moreover from w have "card_of s2 = card_of s1" using card_user_decision card_shared_decision by blast
  ultimately show ?thesis using card_append [OF a] by simp
qed

lemma card_cancel_request: "cancel_request X s rid E = Inr (r, s') \<Longrightarrow> card_of s' = card_of s"
  by (auto simp: cancel_request_def Let_def res_simps card_set_request dest!: card_append split: if_splits)

section \<open>The relation\<close>

definition decided_rows :: "db \<Rightarrow> rstr \<Rightarrow> user_decision_row list" where
  "decided_rows s rid = filter (\<lambda>d. rd_request_id d = rid) (t_decisions s)"

definition row_kept :: "db \<Rightarrow> db \<Rightarrow> request_row \<Rightarrow> request_row \<Rightarrow> bool" where
  "row_kept s s' w w' \<longleftrightarrow> request_core w' = request_core w \<and> (rq_status w \<noteq> Pending \<longrightarrow> w' = w) \<and>
     recipients_of s' (rq_id w) = recipients_of s (rq_id w) \<and> options_of s' (rq_id w) = options_of s (rq_id w) \<and>
     prefix (decided_rows s (rq_id w)) (decided_rows s' (rq_id w))"

definition evolves :: "db \<Rightarrow> db \<Rightarrow> bool" where
  "evolves s s' \<longleftrightarrow>
     (\<exists>es. map event_core (t_events s') = map event_core (t_events s) @ es) \<and>
     (\<forall>w' \<in> set (t_requests s'). (\<exists>w \<in> set (t_requests s). row_kept s s' w w') \<or> events_of s (rq_id w') = []) \<and>
     set (t_nonces s) \<subseteq> set (t_nonces s')"

lemma row_kept_same:
  "t_recipients s' = t_recipients s \<Longrightarrow> t_options s' = t_options s \<Longrightarrow> t_decisions s' = t_decisions s @ ds \<Longrightarrow>
   request_core w' = request_core w \<Longrightarrow> (rq_status w \<noteq> Pending \<Longrightarrow> w' = w) \<Longrightarrow> row_kept s s' w w'"
  by (auto simp: row_kept_def recipients_of_def options_of_def decided_rows_def)

lemma evolves_same:
  assumes "t_requests s' = t_requests s" "t_recipients s' = t_recipients s" "t_options s' = t_options s"
    "t_decisions s' = t_decisions s" "t_nonces s' = t_nonces s"
    "map event_core (t_events s') = map event_core (t_events s)"
  shows "evolves s s'"
proof -
  have "row_kept s s' w w" for w
    using assms by (intro row_kept_same [where ds = "[]"]) simp_all
  then show ?thesis
    unfolding evolves_def assms by (intro conjI exI [of _ "[]"] ballI disjI1) auto
qed

lemma evolves_side: "requests_side s' = requests_side s \<Longrightarrow> evolves s s'"
  by (rule evolves_same) (auto simp: requests_side_def)

lemma evolves_side_right: "requests_side s2 = requests_side s1 \<Longrightarrow> evolves s s1 \<Longrightarrow> evolves s s2"
  by (simp add: evolves_def requests_side_def row_kept_def recipients_of_def options_of_def decided_rows_def)

lemma events_of_core:
  assumes "map event_core (t_events s') = map event_core (t_events s) @ es" "events_of s' rid = []"
  shows "events_of s rid = []"
proof -
  have "ev_request_id e \<noteq> rid" if "e \<in> set (t_events s)" for e
  proof -
    from that have "event_core e \<in> set (map event_core (t_events s'))" by (simp add: assms(1))
    then obtain e' where e': "e' \<in> set (t_events s')" "event_core e = event_core e'" by auto
    from assms(2) e'(1) have "ev_request_id e' \<noteq> rid" by (simp add: events_of_def filter_empty_conv)
    with event_core_fields [OF e'(2)] show ?thesis by simp
  qed
  then show ?thesis by (simp add: events_of_def)
qed

lemma row_kept_trans: "row_kept s s1 w w1 \<Longrightarrow> row_kept s1 s2 w1 w2 \<Longrightarrow> row_kept s s2 w w2"
  using request_core_id [of w1 w] by (auto simp: row_kept_def intro: prefix_order.trans)

lemma evolves_trans:
  assumes "evolves s s1" "evolves s1 s2"
  shows "evolves s s2"
proof -
  from assms obtain es es' where es: "map event_core (t_events s1) = map event_core (t_events s) @ es"
    "map event_core (t_events s2) = map event_core (t_events s1) @ es'"
    unfolding evolves_def by blast
  have "(\<exists>w \<in> set (t_requests s). row_kept s s2 w w2) \<or> events_of s (rq_id w2) = []"
    if w2: "w2 \<in> set (t_requests s2)" for w2
  proof -
    consider w1 where "w1 \<in> set (t_requests s1)" "row_kept s1 s2 w1 w2" | "events_of s1 (rq_id w2) = []"
      using assms(2) w2 unfolding evolves_def by blast
    then show ?thesis
    proof cases
      case 1
      then have "rq_id w2 = rq_id w1" by (auto simp: row_kept_def dest: request_core_id)
      moreover from assms(1) 1(1) have "(\<exists>w \<in> set (t_requests s). row_kept s s1 w w1) \<or> events_of s (rq_id w1) = []"
        unfolding evolves_def by blast
      ultimately show ?thesis using row_kept_trans [OF _ 1(2)] by auto
    next
      case 2
      with events_of_core [OF es(1)] show ?thesis by simp
    qed
  qed
  moreover have "set (t_nonces s) \<subseteq> set (t_nonces s2)" using assms unfolding evolves_def by blast
  moreover have "map event_core (t_events s2) = map event_core (t_events s) @ es @ es'" by (simp add: es)
  ultimately show ?thesis unfolding evolves_def by blast
qed

section \<open>Every step\<close>

lemma core_pointwise:
  "map g (sql_update P f t) = map g t \<Longrightarrow> v \<in> set t \<Longrightarrow> P v \<Longrightarrow> g (f v) = g v"
  unfolding sql_update_def by (induction t) auto

text \<open>A transition of one pending request.\<close>

lemma evolves_advance:
  assumes keys: "keys_ok s" and adv: "advances s s' w f ds e ns" and pend: "rq_status w = Pending"
    and card: "card_of s' = card_of s"
  shows "evolves s s'"
proof -
  note a = adv [unfolded advances_def]
  from a have reqs: "t_requests s' = sql_update (\<lambda>v. rq_id v = rq_id w) f (t_requests s)" "w \<in> set (t_requests s)"
    and dec: "t_decisions s' = t_decisions s @ ds" and ev: "t_events s' = t_events s @ [e]"
    and nn: "t_nonces s' = t_nonces s @ ns"
    by blast+
  from card have "map request_core (sql_update (\<lambda>v. rq_id v = rq_id w) f (t_requests s)) = map request_core (t_requests s)"
    and same: "t_recipients s' = t_recipients s" "t_options s' = t_options s"
    by (simp_all add: card_of_def reqs)
  from core_pointwise [OF this(1) reqs(2)] have core: "request_core (f w) = request_core w" by simp
  have "\<exists>v \<in> set (t_requests s). row_kept s s' v w'" if "w' \<in> set (t_requests s')" for w'
  proof -
    from that have "w' = f w \<or> w' \<in> set (t_requests s)" by (auto simp: advances_rows [OF keys adv])
    then show ?thesis using row_kept_same [OF same dec] core pend reqs(2) by auto
  qed
  then show ?thesis unfolding evolves_def ev nn by auto
qed

lemma evolves_record_decision:
  assumes "requests_inv s" "record_decision X s sub E = Inr (r, s')"
  shows "evolves s s'"
proof -
  from assms(1) have keys: "keys_ok s" by (simp add: requests_inv_def base_inv_def)
  from record_decision_advances [OF assms] show ?thesis
    using evolves_advance [OF keys _ _ card_record_decision [OF assms(2)]] by blast
qed

lemma evolves_cancel_request:
  assumes "requests_inv s" "cancel_request X s rid E = Inr (r, s')"
  shows "evolves s s'"
proof -
  from assms(1) have keys: "keys_ok s" by (simp add: requests_inv_def base_inv_def)
  from cancel_request_advances [OF assms] show ?thesis
    using evolves_advance [OF keys _ _ card_cancel_request [OF assms(2)]] by blast
qed

text \<open>The expiry sweep touches the rows it expires only.\<close>

lemma append_expired_frame:
  "append_expired X s ids E n = Inr (rs, s') \<Longrightarrow>
     card_of s' = card_of s \<and> (\<exists>es. t_events s' = t_events s @ es) \<and> t_nonces s' = t_nonces s \<and>
     t_decisions s' = t_decisions s \<and>
     (\<forall>w \<in> set (t_requests s'). rq_id w \<notin> set ids \<longrightarrow> w \<in> set (t_requests s))"
proof (induction X s ids E n arbitrary: rs rule: append_expired.induct)
  case (2 X s rid rids E n)
  from 2(2) obtain r s1 rs' where st: "get_request_on X s rid = Inr r"
    "append_lifecycle_on X s r KIND_EXPIRED None (e_id E n) (e_now E (Suc n)) = Inr s1"
    "append_expired X s1 rids E (Suc n) = Inr (rs', s')"
    by (auto simp: res_simps)
  have id: "r_id r = rid" using get_request_on_columns [OF st(1)] by auto
  have "(\<exists>es. t_events s1 = t_events s @ es) \<and> t_nonces s1 = t_nonces s \<and> t_decisions s1 = t_decisions s \<and>
      (\<forall>w \<in> set (t_requests s1). rq_id w \<noteq> rid \<longrightarrow> w \<in> set (t_requests s))"
    using st(2)
  proof (rule append_lifecycle_on_ok, goal_cases)
    case (1 w e cbs)
    note s1 = 1(2)
    have "v \<in> set (t_requests s)" if "v \<in> set (t_requests s1)" "rq_id v \<noteq> rid" for v
      using that by (auto simp: s1 id set_sql_update)
    then show ?case by (simp add: s1)
  qed
  with 2(1) [OF st(3)] card_append [OF st(2)] show ?case by auto
qed simp

lemma evolves_expire:
  assumes inv: "requests_inv s" and op: "expire_due_requests X s E = Inr (rs, s')"
  shows "evolves s s'"
proof -
  let ?now = "now_string (e_now E 0)"
  let ?ids = "map rq_id (filter (expiry_due ?now) (t_requests s))"
  let ?f = "\<lambda>w. w\<lparr>rq_status := Expired, rq_updated_at := ?now\<rparr>"
  let ?s1 = "set_request s (expiry_due ?now) ?f"
  from inv have keys: "keys_ok s" by (simp add: requests_inv_def base_inv_def)
  from op have fr: "card_of s' = card_of ?s1 \<and> (\<exists>es. t_events s' = t_events ?s1 @ es) \<and> t_nonces s' = t_nonces ?s1 \<and>
     t_decisions s' = t_decisions ?s1 \<and>
     (\<forall>w \<in> set (t_requests s'). rq_id w \<notin> set ?ids \<longrightarrow> w \<in> set (t_requests ?s1))"
    unfolding expire_due_requests_def Let_def by (rule append_expired_frame)
  moreover have c1: "card_of ?s1 = card_of s" by (rule card_set_request) simp
  ultimately have same: "t_recipients s' = t_recipients s" "t_options s' = t_options s"
    "t_decisions s' = t_decisions s @ []" and core: "map request_core (t_requests s') = map request_core (t_requests s)"
    and ev: "\<exists>es. t_events s' = t_events s @ es" and nn: "t_nonces s' = t_nonces s"
    by (simp_all add: card_of_def)
  have "\<exists>w \<in> set (t_requests s). row_kept s s' w w'" if w': "w' \<in> set (t_requests s')" for w'
  proof -
    from w' have "request_core w' \<in> set (map request_core (t_requests s))" unfolding core [symmetric] by simp
    then obtain w where w: "w \<in> set (t_requests s)" "request_core w' = request_core w" by auto
    have "w' = w" if "rq_status w \<noteq> Pending"
    proof -
      have idw: "rq_id w' = rq_id w" by (rule request_core_id [OF w(2)])
      have "u = w" if "u \<in> set (t_requests s)" "rq_id u = rq_id w" for u
        by (rule unique_row [OF keys w(1) that])
      with \<open>rq_status w \<noteq> Pending\<close> have not_due: "\<not> expiry_due ?now u" if "u \<in> set (t_requests s)" "rq_id u = rq_id w" for u
        using that by (auto simp: expiry_due_def)
      then have "rq_id w' \<notin> set ?ids" unfolding idw by auto
      with fr w' have "w' \<in> set (t_requests ?s1)" by blast
      then obtain u where u: "u \<in> set (t_requests s)" "w' = (if expiry_due ?now u then ?f u else u)"
        by (auto simp: set_sql_update)
      then have "rq_id u = rq_id w" using idw by (simp split: if_splits)
      with u not_due [OF u(1)] unique_row [OF keys w(1) u(1)] show "w' = w" by simp
    qed
    then show ?thesis using row_kept_same [OF same w(2)] w(1) by blast
  qed
  with ev show ?thesis unfolding evolves_def nn by auto
qed

text \<open>A new request has an id the journal does not know.\<close>

lemma options_insert_new_request:
  assumes "insert_new_request X s req m recipients scope fp key E = Inr (c, s')" "r \<noteq> e_id E 0"
  shows "options_of s' r = options_of s r"
proof -
  let ?rid = "e_id E 0"
  from assms(1) obtain s1 s2 s3 s4 s5 s6 q where st:
    "insert_request s (new_request_row req m ?rid (e_now E 0) (e_salt E)) = Inr s1"
    "insert_recipients s1 ?rid recipients = Inr s2"
    "insert_options s2 ?rid (normalize_options (c_options req)) = Inr s3"
    "queue_pushes s3 ?rid (e_now E 0) = Inr s4"
    "bind_idempotency s4 scope (c_channel_id req) key fp ?rid = Inr s5"
    "insert_origin s5 ?rid (cm_origin m) = Inr s6"
    "append_lifecycle_on X s6 q KIND_CREATED None (e_id E 1) (e_now E 1) = Inr s'"
    by (auto simp: insert_new_request_def Let_def res_simps)
  from card_append [OF st(7)] have "t_options s' = t_options s6" by (simp add: card_of_def)
  moreover from insert_origin_ok [OF st(6)] bind_idempotency_ok [OF st(5)] queue_pushes_ok [OF st(4)]
  have "t_options s6 = t_options s3" by auto
  moreover from insert_options_ok [OF st(3)] insert_recipients_ok [OF st(2)] insert_request_ok(1) [OF st(1)]
  have "t_options s3 = t_options s @ map (\<lambda>p. \<lparr>ro_request_id = ?rid, ro_option = p\<rparr>) (normalize_options (c_options req))"
    by auto
  ultimately show ?thesis using assms(2) by (simp add: options_of_def filter_map comp_def)
qed

lemma evolves_insert_new_request:
  assumes inv: "requests_inv s" and op: "insert_new_request X s req m recipients scope fp key E = Inr (c, s')"
  shows "evolves s s'"
proof -
  from insert_new_request_ok [OF op] obtain w e where
    w: "w = (new_request_row req m (e_id E 0) (e_now E 0) (e_salt E))\<lparr>rq_revision := 1\<rparr>"
    "rq_id w \<notin> rq_id ` set (t_requests s)" "t_requests s' = t_requests s @ [w]"
    "t_recipients s' = t_recipients s @ map (\<lambda>u. \<lparr>rr_request_id = rq_id w, rr_user_id = u\<rparr>) recipients"
    "t_decisions s' = t_decisions s" "t_nonces s' = t_nonces s" "t_events s' = t_events s @ [e]"
    "\<forall>v \<in> set (t_events s). \<not> (ev_request_id v = rq_id w \<and> ev_revision v = 1)"
    by blast
  have id: "rq_id w = e_id E 0" by (simp add: w(1) new_request_row_def)
  have "events_of s (rq_id w) = []"
    using inv w(8) by (intro no_events_without_first) (simp_all add: requests_inv_def base_inv_def journal_ok_def)
  moreover have "row_kept s s' v v" if "v \<in> set (t_requests s)" for v
  proof -
    from that w(2) have ne: "rq_id v \<noteq> rq_id w" by (metis imageI)
    then have "recipients_of s' (rq_id v) = recipients_of s (rq_id v)"
      by (simp add: recipients_of_def w(4) filter_map comp_def)
    moreover have "options_of s' (rq_id v) = options_of s (rq_id v)"
      using ne id by (intro options_insert_new_request [OF op]) simp
    ultimately show ?thesis by (simp add: row_kept_def decided_rows_def w(5))
  qed
  ultimately show ?thesis unfolding evolves_def w(3,6,7) by auto
qed

lemma evolves_create:
  assumes "requests_inv s" "create_request X s req m E = Inr (c, s')"
  shows "evolves s s'"
  using assms(2)
proof (cases rule: create_request_cases)
  case same
  then show ?thesis by (intro evolves_same) simp_all
next
  case new
  with evolves_insert_new_request [OF assms(1)] show ?thesis by blast
qed

text \<open>Deletion keeps the rows of every request it does not take.\<close>

lemma filter_not_gone: "\<not> G x \<Longrightarrow> filter (\<lambda>d. k d = x) (sql_delete (\<lambda>d. G (k d)) t) = filter (\<lambda>d. k d = x) t"
  by (rule filter_sql_delete) auto

lemma evolves_delete_requests:
  assumes keys: "keys_ok s"
  shows "evolves s (delete_requests s P)"
proof -
  let ?s = "delete_requests s P"
  let ?gone = "\<lambda>rid. list_ex (\<lambda>w. P w \<and> rq_id w = rid) (t_requests s)"
  have "row_kept s ?s w w" if "w \<in> set (t_requests s)" "\<not> P w" for w
  proof -
    have stay: "\<not> ?gone (rq_id w)"
      using that unique_row [OF keys that(1)] by (auto simp: list_ex_iff)
    note flt = filter_not_gone [of ?gone, OF stay]
    show ?thesis
      by (simp add: row_kept_def recipients_of_def options_of_def decided_rows_def delete_requests_def Let_def flt)
  qed
  moreover have "set (t_requests ?s) = {w \<in> set (t_requests s). \<not> P w}" "t_events ?s = t_events s" "t_nonces ?s = t_nonces s"
    by (simp_all add: delete_requests_def Let_def)
  ultimately show ?thesis unfolding evolves_def by auto
qed

text \<open>The queues change no request.\<close>

lemma evolves_publisher:
  "evolves s (snd (claim_event s E))" "evolves s (snd (published s c n t))" "evolves s (snd (publish_retry s c E))"
  by (auto simp: claim_event_def published_def publish_retry_def Let_def map_event_core_update event_core_def
      intro!: evolves_same split: option.split)

lemma evolves_callbacks:
  "evolves s (snd (claim_callback s E))" "complete_callback s d status t = Inr (b, s') \<Longrightarrow> evolves s s'"
  "evolves s (snd (retry_callback s d st blocked E))"
  by (auto simp: claim_callback_def complete_callback_def retry_callback_def Let_def
      intro!: evolves_same split: list.split if_splits)

lemma evolves_pushes:
  "evolves s (recover_pushes s t)" "evolves s (snd (claim_pushes s limit t))"
  "begin_attempt s j t = Inr (j', s') \<Longrightarrow> evolves s s'" "update_push s j status err t = Inr s' \<Longrightarrow> evolves s s'"
  by (auto simp: recover_pushes_def claim_pushes_def begin_attempt_def update_push_def Let_def
      intro!: evolves_same split: if_splits)

lemma evolves_deletions:
  assumes "keys_ok s"
  shows "evolves s (snd (prune_retention s n now))" "delete_channel s cid = Inr s' \<Longrightarrow> evolves s s'"
  using evolves_delete_requests [OF assms] evolves_side_right [OF side_delete_channel]
  by (simp_all add: prune_retention_def Let_def)

lemma evolves_bind_origin: "bind_origin s p rid g = Inr s' \<Longrightarrow> evolves s s'"
  by (drule bind_origin_ok) (auto intro: evolves_same)

lemma evolves_step:
  assumes step: "server_step X s s'" and inv: "server_inv s"
  shows "evolves s s'"
proof -
  from inv have r: "requests_inv s" and k: "keys_ok s"
    by (simp_all add: server_inv_def request_side_inv_def requests_inv_def base_inv_def)
  note op = evolves_create [OF r] evolves_record_decision [OF r] evolves_cancel_request [OF r] evolves_expire [OF r]
    evolves_bind_origin evolves_callbacks(2) evolves_pushes(3,4) evolves_deletions(2) [OF k] evolves_side [OF side_account_steps(7)]
    evolves_side [OF side_account_steps(8)] evolves_side [OF side_account_steps(9)]
    evolves_side [OF side_account_steps(10)] evolves_side [OF side_account_steps(11)]
    evolves_side [OF side_account_steps(12)] evolves_side [OF side_account_steps(13)]
    evolves_side [OF side_account_steps(14)] evolves_side [OF side_account_steps(15)]
    evolves_side [OF side_account_steps(16)] evolves_side [OF side_account_steps(17)]
    evolves_side [OF side_account_steps(18)]
  note run = evolves_publisher evolves_callbacks(1,3) evolves_pushes(1,2) evolves_deletions(1) [OF k]
    evolves_side [OF side_account_steps(1)] evolves_side [OF side_account_steps(2)]
    evolves_side [OF side_account_steps(3)] evolves_side [OF side_account_steps(4)]
    evolves_side [OF side_account_steps(5)] evolves_side [OF side_account_steps(6)]
    evolves_side [OF side_update_subscriptions] evolves_side [OF side_create_user] evolves_side [OF side_enroll]
  show ?thesis by (rule server_stepE [OF step]; (erule op | (simp only:, rule run)))
qed

lemma evolves_steps: "server_steps X s s' \<Longrightarrow> server_inv s \<Longrightarrow> server_inv s' \<and> evolves s s'"
proof (induction rule: rtranclp_induct)
  case base
  then show ?case by (simp add: evolves_same)
next
  case (step s1 s2)
  then show ?case using server_inv_step evolves_step evolves_trans by blast
qed

text \<open>What the relation gives for a request that is present before and after.\<close>

lemma kept_row:
  assumes steps: "server_steps X s s'" and inv: "server_inv s"
    and w: "w \<in> set (t_requests s)" "w' \<in> set (t_requests s')" "rq_id w' = rq_id w"
  shows "row_kept s s' w w'"
proof -
  from inv have r: "requests_inv s" by (rule server_inv_parts)
  then have "events_of s (rq_id w') \<noteq> []"
    using w(1,3) by (auto simp: requests_inv_def row_ok_def expected_kinds_def)
  moreover from evolves_steps [OF steps inv]
  have "(\<exists>v \<in> set (t_requests s). row_kept s s' v w') \<or> events_of s (rq_id w') = []"
    using w(2) by (auto simp: evolves_def)
  ultimately obtain v where v: "v \<in> set (t_requests s)" "row_kept s s' v w'" by blast
  then have "rq_id v = rq_id w" using request_core_id [of w' v] w(3) by (simp add: row_kept_def)
  with v r unique_row [OF _ w(1) v(1)] show ?thesis by (simp add: requests_inv_def base_inv_def)
qed

end
