(* ===== verification/Example_Run.thy ===== *)
theory Example_Run
  imports Server
begin

text \<open>
  A run of the server with concrete inputs, evaluated in the logic: the first start, an enrollment code,
  a device, a card and its signed answer. The properties over reachable states are applied to it.
\<close>

section \<open>Inputs\<close>

text \<open>Third-party functions whose hashes are constant and whose signatures verify, to keep the terms small.\<close>

definition demo_hash :: rstr where "demo_hash = replicate 64 97"

definition demo_ext :: ext where
  "demo_ext = sample_ext\<lparr>x_sha256 := (\<lambda>_. demo_hash), x_hex := (\<lambda>b. b), x_ecdsa_verify := (\<lambda>_ _ _. True)\<rparr>"

definition demo_env :: "nat \<Rightarrow> instant \<Rightarrow> env" where
  "demo_env k t = \<lparr>e_now = (\<lambda>n. t), e_id = (\<lambda>n. [97 + k, 97 + n]), e_salt = [], e_token = [97],
     e_pick = (\<lambda>_. 0)\<rparr>"

lemma demo_env_sel [simp]:
  "e_now (demo_env k t) = (\<lambda>n. t)" "e_id (demo_env k t) = (\<lambda>n. [97 + k, 97 + n])"
  "e_salt (demo_env k t) = []" "e_token (demo_env k t) = [97]" "e_pick (demo_env k t) = (\<lambda>_. 0)"
  by (simp_all add: demo_env_def)

lemma demo_ext_sel [simp]:
  "x_sha256 demo_ext = (\<lambda>_. demo_hash)" "x_hex demo_ext = (\<lambda>b. b)" "x_ecdsa_verify demo_ext = (\<lambda>_ _ _. True)"
  "x_ser demo_ext = sample_ser" "x_b64_decode demo_ext = Some" "x_point_ok demo_ext = (\<lambda>_. True)"
  "x_der_ok demo_ext = (\<lambda>_. True)" "x_fmt_millis demo_ext = sample_fmt"
  "x_parse_rfc3339 demo_ext = sample_parse" "x_url_parts demo_ext = (\<lambda>s. Some (lit ''https'', Some s))"
  by (simp_all add: demo_ext_def)

lemma demo_sha256_hex [simp]: "sha256_hex demo_ext b = demo_hash" "hash_secret demo_ext w = demo_hash"
  by (simp_all add: sha256_hex_def hash_secret_def)

lemma demo_hash_well_formed [simp]: "commitment_well_formed demo_hash"
  by (simp add: commitment_well_formed_def demo_hash_def strlen_def utf8_ascii list_all_iff char_class_defs)

lemma demo_digests [simp]:
  "recipients_commitment demo_ext rs salt = Inr demo_hash"
  "request_digest_v1 demo_ext q demo_hash = Inr demo_hash"
  "request_digest_legacy_structured_v2 demo_ext q demo_hash = Inr demo_hash"
  "request_digest_legacy_line_snapshot demo_ext q = Inr demo_hash"
  by (simp_all add: recipients_commitment_def request_digest_v1_def request_digest_legacy_structured_v2_def
      structured_request_digest_def request_digest_legacy_line_snapshot_def Let_def)

text \<open>Reading an ordinary request.\<close>

definition demo_signing :: signing_context where
  "demo_signing = \<lparr>sc_version = REQUEST_DIGEST_VERSION, sc_commitment = demo_hash, sc_digest = demo_hash\<rparr>"

lemma demo_get_request:
  "find_request s rid = Some w \<Longrightarrow> rq_answer_field w = None \<Longrightarrow>
   get_request_on demo_ext s rid = Inr ((unsigned_request w (related s (rq_id w)))\<lparr>r_signing := Some demo_signing\<rparr>)"
  by (simp add: get_request_on_eq request_from_rows_def Let_def unsigned_request_def demo_signing_def)

section \<open>Start\<close>

definition run0 :: db where "run0 = seed_defaults empty_db (demo_env 0 0)"

lemma run0_eq: "run0 = empty_db\<lparr>t_node_id := Some [97, 97],
  t_channels := [\<lparr>ch_id = default_channel, ch_name = lit ''Default'', ch_emoji = bell, ch_created_at = 0\<rparr>],
  t_users := [\<lparr>us_id = owner, us_name = lit ''Owner'', us_created_at = 0, us_updated_at = 0, us_deleted_at = None\<rparr>],
  t_subscriptions := [\<lparr>sb_user_id = owner, sb_channel_id = default_channel, sb_subscribed = True, sb_updated_at = 0\<rparr>]\<rparr>"
  by (simp add: run0_def seed_defaults_def empty_db_def sql_insert_or_ignore_def now_string_def millis_def Let_def)

lemma run0_reachable: "reachable demo_ext run0"
  unfolding run0_def by (rule reachable.start)

section \<open>Enrolling a device\<close>

definition demo_point :: rstr where "demo_point = 4 # replicate 64 0"

lemma demo_point_facts [simp]: "trim demo_point = demo_point" "demo_point \<noteq> []" "length demo_point = 65"
  "hd demo_point = 4" "decode_public_key demo_ext demo_point = Inr demo_point"
  by (simp_all add: demo_point_def is_whitespace_def trim_eqI decode_public_key_def)

definition demo_body :: enroll_body where
  "demo_body = \<lparr>en_code = [], en_device_name = [100], en_platform = Linux, en_native_app_id = Some [97],
     en_push_provider = Some [112], en_push_token = Some [116], en_signing_key =
       Some \<lparr>sk_key_id = [107], sk_algorithm = DECISION_SIGNING_ALGORITHM, sk_public_key = demo_point\<rparr>\<rparr>"

definition demo_device :: device_row where
  "demo_device = \<lparr>dv_id = [99, 97], dv_user_id = owner, dv_name = [100], dv_platform = Linux,
     dv_native_app_id = Some [97], dv_token_hash = demo_hash, dv_push_provider = Some [112],
     dv_push_token = Some [116], dv_signing_key_id = Some [107],
     dv_signing_key_algorithm = Some DECISION_SIGNING_ALGORITHM,
     dv_signing_public_key = Some (demo_point), dv_revoked_at = None,
     dv_notification_sound = lit ''default'', dv_preferences = default_preferences, dv_last_seen_at = 0,
     dv_created_at = 0\<rparr>"

lemma demo_device_sel [simp]:
  "dv_id demo_device = [99, 97]" "dv_user_id demo_device = owner" "dv_revoked_at demo_device = None"
  "dv_native_app_id demo_device = Some [97]" "dv_push_token demo_device = Some [116]"
  "dv_signing_key_id demo_device = Some [107]" "dv_signing_public_key demo_device = Some demo_point"
  "dv_signing_key_algorithm demo_device = Some DECISION_SIGNING_ALGORITHM" "dv_token_hash demo_device = demo_hash"
  by (simp_all add: demo_device_def)

definition demo_code :: code_row where
  "demo_code = \<lparr>ec_code_hash = demo_hash, ec_user_id = owner, ec_expires_at = 600000, ec_consumed_at = None,
     ec_created_at = 0\<rparr>"

definition run1 :: db where "run1 = run0\<lparr>t_codes := [demo_code]\<rparr>"

definition run2 :: db where
  "run2 = run0\<lparr>t_codes := [demo_code\<lparr>ec_consumed_at := Some 0\<rparr>], t_devices := [demo_device]\<rparr>"

lemma owner_ids [simp]: "validate_id owner l = Inr ()" "validate_id default_channel l = Inr ()" "default_channel \<noteq> []"
  by (simp_all add: validate_id_def owner_def default_channel_def lit_def strlen_def is_slug_char_def char_class_defs
      utf8_def)

lemma run1_step: "\<exists>c. create_enrollment_code demo_ext run0 owner None (demo_env 1 0) = Inr (c, run1)"
  by (simp add: create_enrollment_code_def run1_def run0_eq empty_db_def get_user_def demo_code_def Let_def
      now_string_def millis_def seconds_def code_lifetime_def)

lemma demo_push: "normalized_push_registration demo_body = Inr (Some [97], Some [112], Some [116])"
  by (simp add: normalized_push_registration_def normalized_native_app_id_def nonempty_trim_def demo_body_def
      trim_def strip_both_def is_whitespace_def strlen_def utf8_def MAX_NATIVE_APP_ID_LEN_def)

lemma trim_single [simp]: "trim [c] = (if is_whitespace c then [] else [c])"
  by (simp add: trim_def strip_both_def)

lemma demo_key: "normalized_signing_key demo_ext (en_signing_key demo_body) =
  Inr \<lparr>sk_key_id = [107], sk_algorithm = DECISION_SIGNING_ALGORITHM, sk_public_key = demo_point\<rparr>"
  by (simp add: normalized_signing_key_def demo_body_def is_whitespace_def strlen_def
      utf8_def validate_id_def is_slug_char_def char_class_defs validate_device_public_key_def
      validate_public_key_def)

lemma demo_enrolled: "enroll_transaction demo_ext run1 demo_body (Some [97], Some [112], Some [116])
    \<lparr>sk_key_id = [107], sk_algorithm = DECISION_SIGNING_ALGORITHM, sk_public_key = demo_point\<rparr> (demo_env 2 0) =
  Inr (demo_device, lit ''Owner'', run2)"
  by (simp add: enroll_transaction_def Let_def run1_def run2_def run0_eq empty_db_def demo_code_def get_user_def
      insert_device_def demo_device_def demo_body_def sql_update_def sql_count_def push_columns_ok_def
      sql_trim_def strip_both_def trim_def is_whitespace_def of_millis_def millis_def)

lemma run2_step: "snd (enroll_device demo_ext run1 demo_body (demo_env 2 0)) = run2"
  by (simp add: enroll_device_def demo_push demo_key demo_enrolled)
    (simp add: demo_body_def trim_def strip_both_def is_whitespace_def)

lemma run2_reachable: "reachable demo_ext run2"
proof -
  obtain c where "create_enrollment_code demo_ext run0 owner None (demo_env 1 0) = Inr (c, run1)"
    using run1_step by blast
  with run0_reachable have "reachable demo_ext run1" by (blast intro: reachable.step server_step.new_code)
  then have "reachable demo_ext (snd (enroll_device demo_ext run1 demo_body (demo_env 2 0)))"
    by (rule reachable.step) (rule server_step.enroll)
  then show ?thesis by (simp add: run2_step)
qed

section \<open>A card\<close>

definition demo_card :: create_request_body where
  "demo_card = \<lparr>c_answer_field = None, c_channel_id = default_channel, c_recipients = None, c_resolution = None,
     c_title = [97], c_summary = [98], c_body = [], c_fields = [], c_links = [], c_image_url = None,
     c_notification = default_notification, c_dedupe_key = Some [107], c_expires_at = Some (seconds 60),
     c_options = [], c_callback_url = Some [117]\<rparr>"

definition demo_metadata :: create_metadata where
  "demo_metadata = \<lparr>cm_origin = None, cm_issuer = None, cm_idempotency_key = Some [105]\<rparr>"

definition demo_row :: request_row where
  "demo_row = (new_request_row demo_card demo_metadata [100, 97] 0 [])\<lparr>rq_revision := 1\<rparr>"

lemma demo_row_sel [simp]:
  "rq_id demo_row = [100, 97]" "rq_status demo_row = Pending" "rq_revision demo_row = 1" "rq_resolution demo_row = Shared"
  "rq_answer_field demo_row = None" "rq_decision demo_row = None" "rq_resolved_at demo_row = None"
  "rq_dedupe_key demo_row = Some [107]" "rq_channel_id demo_row = default_channel"
  "rq_created_by demo_row = None" "rq_expires_at demo_row = Some 60000" "rq_callback_url demo_row = Some [117]" "rq_explicit_recipients demo_row = False"
  by (simp_all add: demo_row_def new_request_row_def demo_card_def demo_metadata_def request_resolution_def
      millis_def seconds_def)

lemma demo_card_valid: "validate_request demo_ext demo_card = Inr ()" "validate_options (c_options demo_card) = Inr ()"
  by (simp_all add: validate_request_def demo_card_def trim_def strip_both_def is_whitespace_def
      validate_notification_text_def default_notification_def check_opt_def validate_http_url_def
      reject_control_characters_def is_control_def lit_def validate_options_def)

lemma demo_card_sel [simp]:
  "c_answer_field demo_card = None" "c_channel_id demo_card = default_channel" "c_recipients demo_card = None"
  "c_dedupe_key demo_card = Some [107]" "c_options demo_card = []" "cm_origin demo_metadata = None"
  "cm_issuer demo_metadata = None" "cm_idempotency_key demo_metadata = Some [105]"
  by (simp_all add: demo_card_def demo_metadata_def)

lemma run2_tables [simp]:
  "t_channels run2 = [\<lparr>ch_id = default_channel, ch_name = lit ''Default'', ch_emoji = bell, ch_created_at = 0\<rparr>]"
  "t_users run2 = [\<lparr>us_id = owner, us_name = lit ''Owner'', us_created_at = 0, us_updated_at = 0, us_deleted_at = None\<rparr>]"
  "t_subscriptions run2 = [\<lparr>sb_user_id = owner, sb_channel_id = default_channel, sb_subscribed = True, sb_updated_at = 0\<rparr>]"
  "t_devices run2 = [demo_device]" "t_requests run2 = []" "t_options run2 = []" "t_recipients run2 = []"
  "t_decisions run2 = []" "t_nonces run2 = []" "t_push run2 = []" "t_idempotency run2 = []" "t_origins run2 = []"
  "t_events run2 = []" "t_callbacks run2 = []" "t_event_seq run2 = 0" "t_node_id run2 = Some [97, 97]"
  "t_codes run2 = [demo_code\<lparr>ec_consumed_at := Some 0\<rparr>]"
  by (simp_all add: run2_def run0_eq empty_db_def)

text \<open>The journal entry of a request without origin.\<close>

definition demo_event :: "decision_request \<Rightarrow> request_row \<Rightarrow> rstr \<Rightarrow> decision option \<Rightarrow> rstr \<Rightarrow> event_row" where
  "demo_event r w kind d eid = new_event demo_ext empty_db [97, 97] r w kind d eid 0"

lemma demo_event: "t_origins s = [] \<Longrightarrow> new_event demo_ext s [97, 97] r w kind d eid 0 = demo_event r w kind d eid"
  by (simp add: new_event_def demo_event_def Let_def origin_on_def empty_db_def)

lemma demo_event_sel [simp]:
  "ev_event_id (demo_event r w kind d eid) = eid" "ev_request_id (demo_event r w kind d eid) = r_id r"
  "ev_revision (demo_event r w kind d eid) = rq_revision w + 1" "ev_kind (demo_event r w kind d eid) = kind"
  "ed_decision (ev_detail (demo_event r w kind d eid)) = d"
  by (simp_all add: demo_event_def new_event_def Let_def)

definition demo_push_row :: push_row where
  "demo_push_row = \<lparr>pd_request_id = [100, 97], pd_device_id = [99, 97], pd_status = lit ''queued'', pd_attempts = 0,
     pd_lease_until = None, pd_claim_generation = 0, pd_updated_at = 0, pd_error = None\<rparr>"

definition demo_read :: "request_row \<Rightarrow> decision_request" where
  "demo_read w = (unsigned_request w \<lparr>rl_recipients = [owner], rl_decisions = [], rl_options = []\<rparr>)
     \<lparr>r_signing := Some demo_signing\<rparr>"

definition demo_fingerprint :: rstr where
  "demo_fingerprint = projr (request_fingerprint demo_ext demo_card None)"

definition run3 :: db where
  "run3 = run2\<lparr>t_requests := [demo_row], t_recipients := [\<lparr>rr_request_id = [100, 97], rr_user_id = owner\<rparr>],
     t_push := [demo_push_row], t_idempotency := [\<lparr>ik_scope = lit ''admin'', ik_channel_id = default_channel,
       ik_key = [105], ik_fingerprint = demo_fingerprint, ik_request_id = [100, 97]\<rparr>],
     t_events := [(demo_event (demo_read (demo_row\<lparr>rq_revision := 0\<rparr>)) (demo_row\<lparr>rq_revision := 0\<rparr>)
       KIND_CREATED None [100, 98])\<lparr>ev_seq := 1\<rparr>],
     t_event_seq := 1\<rparr>"

lemma demo_read_sel [simp]: "r_id (demo_read w) = rq_id w" "r_callback_url (demo_read w) = rq_callback_url w"
  "r_status (demo_read w) = rq_status w" "r_resolution (demo_read w) = rq_resolution w" "r_recipients (demo_read w) = [owner]"
  "r_answer_field (demo_read w) = rq_answer_field w" "r_options (demo_read w) = []"
  "r_expires_at (demo_read w) = map_option of_millis (rq_expires_at w)"
  by (simp_all add: demo_read_def unsigned_request_def)

lemma demo_insert: "\<exists>c. insert_new_request demo_ext run2 demo_card demo_metadata [owner] (lit ''admin'') demo_fingerprint
    (Some [105]) (demo_env 3 0) = Inr (c, run3)"
proof -
  have row: "new_request_row demo_card demo_metadata [100, 97] 0 [] = demo_row\<lparr>rq_revision := 0\<rparr>"
    by (simp add: demo_row_def new_request_row_def)
  show ?thesis
    by (simp add: insert_new_request_def Let_def row insert_request_def normalize_options_def queue_pushes_def
        push_target_def recipients_of_def sql_nonblank_def sql_trim_def strip_both_def)
      (simp add: bind_idempotency_def demo_get_request find_request_def related_def recipients_of_def
        decisions_of_def options_of_def insert_origin_def now_string_def millis_def demo_push_row_def [symmetric]
        demo_read_def [symmetric] append_lifecycle_on_def bump_revision_def sql_update_def insert_event_def
        demo_event run3_def)
qed

lemma demo_recipients: "resolve_request_recipients run2 default_channel None = Inr [owner]"
  by (simp add: resolve_request_recipients_def channel_subscribers_def user_active_def)

lemma run3_step: "\<exists>c. create_request demo_ext run2 demo_card demo_metadata (demo_env 3 0) = Inr (c, run3)"
proof -
  have "request_fingerprint demo_ext demo_card None = Inr demo_fingerprint"
    by (simp add: demo_fingerprint_def request_fingerprint_def Let_def)
  with demo_insert show ?thesis
    by (simp add: create_request_def demo_card_valid [simplified] demo_recipients is_whitespace_def
        strlen_def utf8_def find_pending_request_by_dedupe_key_def Let_def)
qed

lemma run3_reachable: "reachable demo_ext run3"
  using run3_step run2_reachable by (blast intro: reachable.step server_step.create)

section \<open>A signed answer\<close>

definition demo_signature :: decision_signature where
  "demo_signature = \<lparr>ds_payload_version = None, ds_key_id = [107], ds_algorithm = DECISION_SIGNING_ALGORITHM,
     ds_nonce = [110], ds_signed_at = sample_fmt 0, ds_request_digest = demo_hash, ds_signature = []\<rparr>"

definition demo_submission :: decision_submission where
  "demo_submission = \<lparr>sub_request_id = [100, 97], sub_option_id = lit ''dismiss'', sub_device = Some demo_device,
     sub_user_id = Some owner, sub_decision = \<lparr>sd_answer_value = None, sd_text = None, sd_signature = Some demo_signature\<rparr>\<rparr>"

lemma demo_submission_sel [simp]:
  "sub_request_id demo_submission = [100, 97]" "sub_option_id demo_submission = lit ''dismiss''"
  "sub_device demo_submission = Some demo_device" "sub_user_id demo_submission = Some owner"
  "sd_answer_value (sub_decision demo_submission) = None" "sd_text (sub_decision demo_submission) = None"
  "sd_signature (sub_decision demo_submission) = Some demo_signature" "ds_payload_version demo_signature = None"
  "ds_key_id demo_signature = [107]" "ds_nonce demo_signature = [110]"
  by (simp_all add: demo_submission_def demo_signature_def)

lemma run3_tables [simp]:
  "t_requests run3 = [demo_row]" "t_devices run3 = [demo_device]" "t_nonces run3 = []" "t_callbacks run3 = []"
  "t_recipients run3 = [\<lparr>rr_request_id = [100, 97], rr_user_id = owner\<rparr>]" "t_decisions run3 = []" "t_options run3 = []"
  "t_event_seq run3 = 1" "t_origins run3 = []" "t_node_id run3 = Some [97, 97]"
  "t_events run3 = [(demo_event (demo_read (demo_row\<lparr>rq_revision := 0\<rparr>)) (demo_row\<lparr>rq_revision := 0\<rparr>)
       KIND_CREATED None [100, 98])\<lparr>ev_seq := 1\<rparr>]"
  by (simp_all add: run3_def)

lemma demo_get3: "t_requests s = [w] \<Longrightarrow> rq_id w = [100, 97] \<Longrightarrow> rq_answer_field w = None \<Longrightarrow>
    t_recipients s = t_recipients run3 \<Longrightarrow> t_decisions s = [] \<Longrightarrow> t_options s = [] \<Longrightarrow>
    get_request_on demo_ext s [100, 97] = Inr (demo_read w)"
  by (simp add: demo_get_request find_request_def related_def recipients_of_def decisions_of_def options_of_def demo_read_def)

definition demo_option :: request_option where
  "demo_option = the (implicit_dismiss_option (demo_read demo_row) (lit ''dismiss''))"

definition demo_record :: signature_record where
  "demo_record = (case verified_decision_signature demo_ext run3 (demo_read demo_row) demo_option (Some demo_device) None
     (Some demo_signature) None of Inr (Some r, _) \<Rightarrow> r | _ \<Rightarrow> undefined)"

lemma demo_verified: "verified_decision_signature demo_ext run3 (demo_read demo_row) demo_option (Some demo_device) None
     (Some demo_signature) None = Inr (Some demo_record,
       run3\<lparr>t_nonces := [\<lparr>dn_device_id = [99, 97], dn_key_id = [107], dn_nonce = [110]\<rparr>]\<rparr>)"
proof -
  have "submitted_candidates demo_ext (demo_read demo_row) = Inr [demo_hash, demo_hash, demo_hash]"
    by (simp add: submitted_candidates_def Let_def to_wire_def wire_of_def demo_read_def unsigned_request_def
        demo_signing_def res_ok_def api_of_signing_def)
  then have v: "\<exists>p. verify_value_decision_signature demo_ext (demo_read demo_row) demo_option demo_device None demo_signature None =
      Inr (demo_hash, p)"
    by (simp add: verify_value_decision_signature_def demo_signature_def is_whitespace_def strlen_def
        utf8_def sample_fmt_def sample_parse_def submitted_payload_def verify_payload_def)
  then obtain p where "verify_value_decision_signature demo_ext (demo_read demo_row) demo_option demo_device None demo_signature None =
      Inr (demo_hash, p)" by blast
  then show ?thesis
    by (simp add: demo_record_def verified_decision_signature_def nonblank_text_def is_whitespace_def
        insert_decision_nonce_def)
qed

definition demo_decision :: decision where
  "demo_decision = new_decision demo_submission demo_option (Some demo_record) 0"

definition demo_resolved :: request_row where
  "demo_resolved = demo_row\<lparr>rq_status := Resolved, rq_decision := Some demo_decision, rq_resolved_at := Some 0,
     rq_updated_at := 0\<rparr>"

definition run4 :: db where
  "run4 = run3\<lparr>t_requests := [demo_resolved\<lparr>rq_revision := 2\<rparr>],
     t_nonces := [\<lparr>dn_device_id = [99, 97], dn_key_id = [107], dn_nonce = [110]\<rparr>],
     t_events := t_events run3 @ [(demo_event (demo_read demo_resolved) demo_resolved
       KIND_ANSWER (Some demo_decision) [101, 97])\<lparr>ev_seq := 2\<rparr>], t_event_seq := 2,
     t_callbacks := [new_callback demo_ext (demo_read demo_resolved) 2 [117] [101, 97] 0]\<rparr>"

lemma run4_step: "record_decision demo_ext run3 demo_submission (demo_env 4 0) = Inr (demo_read demo_resolved, run4)"
proof -
  have opt: "find_option (demo_read demo_row) (lit ''dismiss'') = Some demo_option"
    by (simp add: find_option_def demo_option_def implicit_dismiss_option_def)
  have open_: "check_value_submission demo_ext (demo_read demo_row) demo_submission = Inr ()"
    "check_actor run3 (demo_read demo_row) demo_submission = Inr ()"
    by (simp_all add: check_value_submission_def check_actor_def signature_version_def)
  have set: "record_shared_decision (run3\<lparr>t_nonces := n\<rparr>) [100, 97] demo_decision 0 =
      Inr (run3\<lparr>t_nonces := n, t_requests := [demo_resolved]\<rparr>)" for n
    by (simp add: record_shared_decision_def pending_row_def set_request_def sql_update_def sql_count_def
        demo_resolved_def)
  have row: "rq_id demo_resolved = [100, 97]" "rq_answer_field demo_resolved = None" "rq_revision demo_resolved = 1"
    "rq_callback_url demo_resolved = Some [117]"
    by (simp_all add: demo_resolved_def)
  show ?thesis
    by (simp add: record_decision_def demo_get3 open_ opt Let_def of_millis_def millis_def trimmed_text_def
        demo_verified demo_decision_def [symmetric] set row append_lifecycle_on_def find_request_def
        bump_revision_def sql_update_def insert_event_def demo_event insert_callback_def run4_def)
qed

definition demo_final :: request_row where "demo_final = demo_resolved\<lparr>rq_revision := 2\<rparr>"

lemma demo_final_sel [simp]: "rq_id demo_final = [100, 97]" "rq_status demo_final = Resolved" "rq_revision demo_final = 2"
  "rq_resolution demo_final = Shared" "rq_decision demo_final = Some demo_decision" "rq_resolved_at demo_final = Some 0"
  "rq_dedupe_key demo_final = Some [107]" "rq_channel_id demo_final = default_channel"
  by (simp_all add: demo_final_def demo_resolved_def)

lemma run4_tables [simp]:
  "t_requests run4 = [demo_final]" "t_devices run4 = [demo_device]" "t_decisions run4 = []"
  "t_nonces run4 = [\<lparr>dn_device_id = [99, 97], dn_key_id = [107], dn_nonce = [110]\<rparr>]"
  "t_recipients run4 = [\<lparr>rr_request_id = [100, 97], rr_user_id = owner\<rparr>]" "t_options run4 = []"
  "map ev_kind (t_events run4) = [KIND_CREATED, KIND_ANSWER]" "map ev_request_id (t_events run4) = [[100, 97], [100, 97]]"
  by (simp_all add: run4_def demo_final_def demo_resolved_def)

lemma run4_reachable: "reachable demo_ext run4"
  using run4_step run3_reachable by (blast intro: reachable.step server_step.decide)

end
