(* ===== verification/Request_Facts.thy ===== *)
theory Request_Facts
  imports Persistence Example_Run
begin

text \<open>
  What holds of requests in every reachable state of the server, and between a state and any later one:
  the journal tells the history of each request, a decision is made once, in time and for good, and a
  signed nonce is accepted once.
\<close>

lemma reachable_requests_inv: "reachable X s \<Longrightarrow> requests_inv s"
  using server_inv_reachable server_inv_parts(1) by blast

lemma reachable_row_ok: "reachable X s \<Longrightarrow> w \<in> set (t_requests s) \<Longrightarrow> row_ok s w"
  using reachable_requests_inv by (auto simp: requests_inv_def)

text \<open>
  C8 (invariant). In every reachable state the journal of a request is its history: created first, one
  answer per accepted decision, and the closing event of a cancelled or expired request last; the
  revisions of these entries are 1, 2, 3, ... and the request carries the last of them.
\<close>

theorem journal_tells_history:
  assumes "reachable X s" and "w \<in> set (t_requests s)"
  shows "map ev_kind (events_of s (rq_id w)) = expected_kinds w (length (deciders s (rq_id w))) \<and>
    map ev_revision (events_of s (rq_id w)) = map (\<lambda>n. int (Suc n)) [0..<length (events_of s (rq_id w))] \<and>
    rq_revision w = int (length (events_of s (rq_id w)))"
  using reachable_row_ok [OF assms] reachable_requests_inv [OF assms(1)]
  by (simp add: row_ok_def requests_inv_def base_inv_def journal_ok_def revisions_ok_def)

lemma status_matches_decisions_raw:
  assumes "row_ok s w"
  shows "rq_status w = Resolved \<longleftrightarrow> rq_resolved_at w \<noteq> None"
    "rq_resolution w = Shared \<Longrightarrow> deciders s (rq_id w) = [] \<and> (rq_status w = Resolved \<longleftrightarrow> rq_decision w \<noteq> None)"
    "rq_resolution w = PerUser \<Longrightarrow> rq_decision w = None \<and> distinct (deciders s (rq_id w)) \<and>
       set (deciders s (rq_id w)) \<subseteq> set (recipients_of s (rq_id w)) \<and>
       (recipients_of s (rq_id w) \<noteq> [] \<longrightarrow> rq_status w \<in> {Pending, Resolved} \<longrightarrow>
          (rq_status w = Resolved \<longleftrightarrow> set (recipients_of s (rq_id w)) \<subseteq> set (deciders s (rq_id w))))"
  using assms by (auto simp: row_ok_def decisions_ok_def)

text \<open>
  C3 (invariant). Status and decisions agree in every reachable state. A shared request is resolved
  exactly when it carries its decision, and has no decisions of single users. A per-user request has at
  most one decision per recipient and none of others; while it is open or resolved, it is resolved
  exactly when every recipient has decided.
\<close>

theorem status_matches_decisions:
  assumes "reachable X s" and "w \<in> set (t_requests s)"
  shows "(rq_status w = Resolved \<longleftrightarrow> rq_resolved_at w \<noteq> None) \<and>
    (rq_resolution w = Shared \<longrightarrow> deciders s (rq_id w) = [] \<and> (rq_status w = Resolved \<longleftrightarrow> rq_decision w \<noteq> None)) \<and>
    (rq_resolution w = PerUser \<longrightarrow> rq_decision w = None \<and> distinct (deciders s (rq_id w)) \<and>
       set (deciders s (rq_id w)) \<subseteq> set (recipients_of s (rq_id w)) \<and>
       (recipients_of s (rq_id w) \<noteq> [] \<longrightarrow> rq_status w \<in> {Pending, Resolved} \<longrightarrow>
          (rq_status w = Resolved \<longleftrightarrow> set (recipients_of s (rq_id w)) \<subseteq> set (deciders s (rq_id w)))))"
  using status_matches_decisions_raw [OF reachable_row_ok [OF assms]] by blast

text \<open>
  At most one pending request per channel and dedupe key.
\<close>

theorem one_pending_per_key:
  assumes "reachable X s" and "v \<in> set (t_requests s)" and "w \<in> set (t_requests s)"
    and "pending_with_key c k v" and "pending_with_key c k w"
  shows "v = w"
  using reachable_requests_inv [OF assms(1)] assms(2-5)
  by (auto simp: requests_inv_def base_inv_def dedupe_ok_def)

text \<open>
  A request that is no longer pending is never changed again: in every later state it is
  the same row, with the same status, decision and times, or it is gone; its id is not given to another
  request.
\<close>

theorem closed_requests_stay:
  assumes "reachable X s" and "server_steps X s s'" and "w \<in> set (t_requests s)" and "rq_status w \<noteq> Pending"
    and "w' \<in> set (t_requests s')" and "rq_id w' = rq_id w"
  shows "w' = w"
  using kept_row [OF assms(2) server_inv_reachable [OF assms(1)] assms(3,5,6)] assms(4)
  by (simp add: row_kept_def)

text \<open>
  C7 (safety). The card of a request never changes after its creation: title, texts, fields, links,
  deadline, callback address, answer field, options and recipients read the same in every later state,
  and the decisions of single users only grow. So what a device signed is what every later reader sees.
\<close>

theorem card_never_changes:
  assumes "reachable X s" and "server_steps X s s'" and "w \<in> set (t_requests s)"
    and "w' \<in> set (t_requests s')" and "rq_id w' = rq_id w"
  shows "request_core w' = request_core w \<and> recipients_of s' (rq_id w) = recipients_of s (rq_id w) \<and>
    options_of s' (rq_id w) = options_of s (rq_id w) \<and>
    prefix (decided_rows s (rq_id w)) (decided_rows s' (rq_id w))"
  using kept_row [OF assms(2) server_inv_reachable [OF assms(1)] assms(3-5)]
  by (simp add: row_kept_def)

text \<open>
  The journal is append-only: whatever the server does, the entries of an earlier state
  stand at the front of every later one, up to the columns of the publishing lease.
\<close>

theorem journal_append_only:
  assumes "reachable X s" and "server_steps X s s'"
  shows "prefix (map event_core (t_events s)) (map event_core (t_events s'))"
  using evolves_steps [OF assms(2) server_inv_reachable [OF assms(1)]]
  by (auto simp: evolves_def prefix_def)

section \<open>Decisions\<close>

lemma record_decision_pending:
  assumes "record_decision X s sub E = Inr (r, s')"
  obtains w where "find_request s (sub_request_id sub) = Some w" "rq_status w = Pending"
proof -
  obtain q where "get_request_on X s (sub_request_id sub) = Inr q" "r_status q = Pending"
    using assms by (rule record_decision_ok)
  with get_request_on_columns that show thesis by metis
qed

text \<open>The row a decision leaves behind.\<close>

lemma record_decision_row:
  assumes inv: "requests_inv s" and op: "record_decision X s sub E = Inr (r, s')"
  obtains w' where "w' \<in> set (t_requests s')" "rq_id w' = sub_request_id sub"
    "rq_resolution w' = Shared \<Longrightarrow> rq_status w' = Resolved"
    "rq_resolution w' = PerUser \<Longrightarrow> \<exists>u. sub_user_id sub = Some u \<and> u \<in> set (deciders s' (sub_request_id sub))"
proof -
  from inv have keys: "keys_ok s" by (simp add: requests_inv_def base_inv_def)
  from record_decision_advances [OF assms] show thesis
  proof (elim exE conjE, goal_cases)
    case (1 w f ds e ns d)
    note a = 1(1) and w = 1(2,11,12)
    have "f w \<in> set (t_requests s')" by (simp add: advances_rows [OF keys a])
    moreover have "rq_id (f w) = sub_request_id sub" using a w(1) by (simp add: advances_def)
    moreover have "rq_resolution (f w) = rq_resolution w" using w(2,3) by (cases "rq_resolution w") auto
    ultimately show thesis
      using w by (intro that [of "f w"]) (auto simp: advances_views [OF a])
  qed
qed

lemma request_core_fields:
  "request_core v = request_core w \<Longrightarrow> rq_id v = rq_id w \<and> rq_resolution v = rq_resolution w \<and>
     rq_expires_at v = rq_expires_at w \<and> rq_answer_field v = rq_answer_field w"
  by (cases v; cases w) (simp add: request_core_def)

text \<open>The request a recorded decision returns has the resolution of its row.\<close>

lemma record_decision_resolution:
  assumes inv: "requests_inv s'" and op: "record_decision X s sub E = Inr (r, s')"
    and w: "w \<in> set (t_requests s')" "rq_id w = sub_request_id sub"
  shows "r_resolution r = rq_resolution w"
proof -
  obtain sm d where m: "get_request_on X sm (sub_request_id sub) = Inr r"
    "append_lifecycle_on X sm r KIND_ANSWER d (e_id E 0) (e_now E 2) = Inr s'"
    using op by (rule record_decision_ok)
  from get_request_on_columns [OF m(1)] obtain v where v: "find_request sm (sub_request_id sub) = Some v"
    "r_resolution r = rq_resolution v" by blast
  from find_request_id [OF v(1)] have v': "v \<in> set (t_requests sm)" "rq_id v = sub_request_id sub" by auto
  from card_append [OF m(2)] have "map request_core (t_requests s') = map request_core (t_requests sm)"
    by (simp add: card_of_def)
  with v'(1) have "request_core v \<in> set (map request_core (t_requests s'))" by simp
  then obtain u where u: "u \<in> set (t_requests s')" "request_core v = request_core u" by auto
  from request_core_fields [OF u(2)] v'(2) w(2) have "rq_id u = rq_id w" by simp
  with inv unique_row [OF _ w(1) u(1)] have "u = w" by (simp add: requests_inv_def base_inv_def)
  with request_core_fields [OF u(2)] v(2) show ?thesis by simp
qed

lemma record_decision_new_user:
  assumes "record_decision X s sub E = Inr (r, s')" and "find_request s (sub_request_id sub) = Some w"
    and "rq_resolution w = PerUser"
  obtains u where "sub_user_id sub = Some u" "u \<notin> set (deciders s (sub_request_id sub))"
proof -
  obtain q opt sg s1 s2 where q: "get_request_on X s (sub_request_id sub) = Inr q"
    "verified_decision_signature X s q opt (sub_device sub) (trimmed_text (sd_text (sub_decision sub)))
       (sd_signature (sub_decision sub)) (sd_answer_value (sub_decision sub)) = Inr (sg, s1)"
    "(\<exists>user. r_resolution q = PerUser \<and> sub_user_id sub = Some user \<and>
        record_user_decision s1 (sub_request_id sub) user (new_decision sub opt sg (e_now E 1)) (millis (e_now E 1)) = Inr s2) \<or>
     r_resolution q = Shared \<and>
        record_shared_decision s1 (sub_request_id sub) (new_decision sub opt sg (e_now E 1)) (millis (e_now E 1)) = Inr s2"
    using assms(1) by (rule record_decision_ok)
  from get_request_on_columns [OF q(1)] assms(2,3) have "r_resolution q = PerUser" by auto
  with q(3) obtain user where u: "sub_user_id sub = Some user"
    "record_user_decision s1 (sub_request_id sub) user (new_decision sub opt sg (e_now E 1)) (millis (e_now E 1)) = Inr s2"
    by auto
  from q(2) have "t_decisions s1 = t_decisions s" by (cases rule: nonce_step) simp_all
  with u(2) have "user \<notin> set (deciders s (sub_request_id sub))"
    by (auto simp: record_user_decision_def deciders_def list_ex_iff split: if_splits)
  with u(1) show thesis by (rule that)
qed

text \<open>
  C4 (safety). A request is decided once. After a decision was recorded, no later submission for the
  same request is accepted, in whatever state the server has got to, when the request is shared, or
  when the submission comes from the same user.
\<close>

theorem decided_once:
  assumes "reachable X s" and "record_decision X s sub E = Inr (r, s1)" and "server_steps X s1 s2"
    and "sub_request_id sub' = sub_request_id sub"
    and "r_resolution r = Shared \<or> sub_user_id sub' = sub_user_id sub"
  shows "record_decision X s2 sub' E' \<noteq> Inr (r', s')"
proof
  assume again: "record_decision X s2 sub' E' = Inr (r', s')"
  let ?rid = "sub_request_id sub"
  have reach: "reachable X s1" using assms(1,2) by (blast intro: reachable.step server_step.decide)
  obtain w1 where w1: "w1 \<in> set (t_requests s1)" "rq_id w1 = ?rid"
    "rq_resolution w1 = Shared \<Longrightarrow> rq_status w1 = Resolved"
    "rq_resolution w1 = PerUser \<Longrightarrow> \<exists>u. sub_user_id sub = Some u \<and> u \<in> set (deciders s1 ?rid)"
    using record_decision_row [OF reachable_requests_inv [OF assms(1)] assms(2)] by metis
  obtain w2 where w2: "find_request s2 ?rid = Some w2" "rq_status w2 = Pending"
    using record_decision_pending [OF again] assms(4) by metis
  from find_request_id [OF w2(1)] have in2: "w2 \<in> set (t_requests s2)" "rq_id w2 = rq_id w1" using w1(2) by auto
  note kept = kept_row [OF assms(3) server_inv_reachable [OF reach] w1(1) in2]
  have open_: "rq_status w1 = Pending" using kept w2(2) by (auto simp: row_kept_def)
  then have pu: "rq_resolution w1 = PerUser" using w1(3) by (cases "rq_resolution w1") auto
  then obtain u where u: "sub_user_id sub = Some u" "u \<in> set (deciders s1 ?rid)" using w1(4) by blast
  have "rq_resolution w2 = PerUser" using kept pu request_core_fields [of w2 w1] by (simp add: row_kept_def)
  then obtain v where v: "sub_user_id sub' = Some v" "v \<notin> set (deciders s2 ?rid)"
    using record_decision_new_user [OF again] w2(1) assms(4) by metis
  have "prefix (decided_rows s1 ?rid) (decided_rows s2 ?rid)" using kept w1(2) by (simp add: row_kept_def)
  then have "u \<in> set (deciders s2 ?rid)"
    using u(2) set_mono_prefix unfolding deciders_def decided_rows_def by fastforce
  moreover have "r_resolution r = rq_resolution w1"
    by (rule record_decision_resolution [OF reachable_requests_inv [OF reach] assms(2) w1(1,2)])
  ultimately show False using assms(5) pu u(1) v by auto
qed

text \<open>
  C6 (functional). What an accepted decision went through: the request was pending and, by the clock
  read first, before its deadline; a submitting device is active and a submitting user is one of the
  recipients; the chosen option is one of the card's, or the implicit dismissal of a card that has none;
  a value request got an answer its field admits, from a device of the submitting user.
\<close>

theorem accepted_decision_conditions:
  assumes "record_decision X s sub E = Inr (r, s')"
  shows "\<exists>w opt. find_request s (sub_request_id sub) = Some w \<and> rq_status w = Pending \<and>
    (\<forall>t. rq_expires_at w = Some t \<longrightarrow> e_now E 0 < of_millis t) \<and>
    (\<forall>d. sub_device sub = Some d \<longrightarrow> (\<exists>v \<in> set (t_devices s). dv_id v = dv_id d \<and> dv_revoked_at v = None)) \<and>
    (\<forall>u. sub_user_id sub = Some u \<longrightarrow> u \<in> set (recipients_of s (sub_request_id sub))) \<and>
    o_id opt = sub_option_id sub \<and>
    (opt \<in> set (options_of s (sub_request_id sub)) \<or>
       options_of s (sub_request_id sub) = [] \<and> sub_option_id sub = lit ''dismiss'' \<and> rq_answer_field w = None) \<and>
    (\<forall>f. rq_answer_field w = Some f \<longrightarrow> (\<exists>a d. sd_answer_value (sub_decision sub) = Some a \<and>
       validate_value f a = Inr () \<and> sub_device sub = Some d \<and> sub_user_id sub = Some (dv_user_id d)))"
proof -
  obtain q opt where q: "get_request_on X s (sub_request_id sub) = Inr q" "check_value_submission X q sub = Inr ()"
    "check_actor s q sub = Inr ()" "\<forall>t. r_expires_at q = Some t \<longrightarrow> e_now E 0 < t"
    "find_option q (sub_option_id sub) = Some opt" "r_status q = Pending"
    using assms by (rule record_decision_ok)
  from get_request_on_columns [OF q(1)] obtain w where w: "find_request s (sub_request_id sub) = Some w"
    "r_status q = rq_status w" "r_expires_at q = map_option of_millis (rq_expires_at w)"
    "r_answer_field q = rq_answer_field w" "r_recipients q = recipients_of s (sub_request_id sub)"
    "r_options q = options_of s (sub_request_id sub)"
    by blast
  have opt: "o_id opt = sub_option_id sub \<and> (opt \<in> set (r_options q) \<or>
       r_options q = [] \<and> sub_option_id sub = lit ''dismiss'' \<and> r_answer_field q = None)"
    using q(5) by (auto simp: find_option_def implicit_dismiss_option_def dest: find_SomeD split: option.splits if_splits)
  have val: "\<exists>a d. sd_answer_value (sub_decision sub) = Some a \<and> validate_value f a = Inr () \<and>
      sub_device sub = Some d \<and> sub_user_id sub = Some (dv_user_id d)" if "rq_answer_field w = Some f" for f
    using q(2) that w(4) by (auto simp: check_value_submission_def Let_def res_simps)
  have act: "(\<forall>d. sub_device sub = Some d \<longrightarrow> (\<exists>v \<in> set (t_devices s). dv_id v = dv_id d \<and> dv_revoked_at v = None)) \<and>
    (\<forall>u. sub_user_id sub = Some u \<longrightarrow> u \<in> set (r_recipients q))"
    using q(3) by (auto simp: check_actor_def list_ex_iff split: if_splits option.splits)
  show ?thesis
    by (intro exI [of _ w] exI [of _ opt]) (use w q(4,6) opt val act in auto)
qed

section \<open>Nonces and revoked devices\<close>

lemma verified_nonce:
  assumes "verified_decision_signature X s r opt (Some dev) txt (Some p) answer = Inr (sg, s1)"
  shows "nonce_key ` set (t_nonces s1) = insert (dv_id dev, ds_key_id p, ds_nonce p) (nonce_key ` set (t_nonces s))"
    "(dv_id dev, ds_key_id p, ds_nonce p) \<notin> nonce_key ` set (t_nonces s)"
proof -
  from assms have "insert_decision_nonce s (dv_id dev) (ds_key_id p) (ds_nonce p) = Inr s1"
    by (auto simp: verified_decision_signature_def res_simps)
  then show "nonce_key ` set (t_nonces s1) = insert (dv_id dev, ds_key_id p, ds_nonce p) (nonce_key ` set (t_nonces s))"
    "(dv_id dev, ds_key_id p, ds_nonce p) \<notin> nonce_key ` set (t_nonces s)"
    by (auto simp: insert_decision_nonce_def nonce_key_def list_ex_iff split: if_splits)
qed

lemma record_decision_nonce:
  assumes op: "record_decision X s sub E = Inr (r, s')" and dev: "sub_device sub = Some d"
    and sig: "sd_signature (sub_decision sub) = Some p"
  shows "(dv_id d, ds_key_id p, ds_nonce p) \<notin> nonce_key ` set (t_nonces s)"
    "(dv_id d, ds_key_id p, ds_nonce p) \<in> nonce_key ` set (t_nonces s')"
proof -
  obtain q opt sg s1 s2 where st:
    "verified_decision_signature X s q opt (sub_device sub) (trimmed_text (sd_text (sub_decision sub)))
       (sd_signature (sub_decision sub)) (sd_answer_value (sub_decision sub)) = Inr (sg, s1)"
    "(\<exists>user. r_resolution q = PerUser \<and> sub_user_id sub = Some user \<and>
        record_user_decision s1 (sub_request_id sub) user (new_decision sub opt sg (e_now E 1)) (millis (e_now E 1)) = Inr s2) \<or>
     r_resolution q = Shared \<and>
        record_shared_decision s1 (sub_request_id sub) (new_decision sub opt sg (e_now E 1)) (millis (e_now E 1)) = Inr s2"
    "append_lifecycle_on X s2 r KIND_ANSWER (Some (new_decision sub opt sg (e_now E 1))) (e_id E 0) (e_now E 2) = Inr s'"
    using op by (rule record_decision_ok)
  note v = verified_nonce [OF st(1) [unfolded dev sig]]
  have "t_nonces s2 = t_nonces s1"
    using st(2) by (auto simp: record_user_decision_def record_shared_decision_def Let_def split: if_splits)
  moreover have "t_nonces s' = t_nonces s2"
    using st(3) by (rule append_lifecycle_on_ok) simp
  ultimately show "(dv_id d, ds_key_id p, ds_nonce p) \<notin> nonce_key ` set (t_nonces s)"
    "(dv_id d, ds_key_id p, ds_nonce p) \<in> nonce_key ` set (t_nonces s')"
    using v by simp_all
qed

text \<open>
  C5 (safety). A signed decision cannot be replayed: once a device's signature with a nonce was
  accepted, no submission of that device with the same key and nonce is accepted again, for any
  request, in any later state.
\<close>

theorem nonce_accepted_once:
  assumes "reachable X s" and "record_decision X s sub E = Inr (r, s1)" and "server_steps X s1 s2"
    and "sub_device sub = Some d" and "sd_signature (sub_decision sub) = Some p"
    and "sub_device sub' = Some d'" and "sd_signature (sub_decision sub') = Some p'"
    and "dv_id d' = dv_id d" and "ds_key_id p' = ds_key_id p" and "ds_nonce p' = ds_nonce p"
  shows "record_decision X s2 sub' E' \<noteq> Inr (r', s')"
proof
  assume again: "record_decision X s2 sub' E' = Inr (r', s')"
  have "reachable X s1" using assms(1,2) by (blast intro: reachable.step server_step.decide)
  then have "set (t_nonces s1) \<subseteq> set (t_nonces s2)"
    using evolves_steps [OF assms(3) server_inv_reachable] by (simp add: evolves_def)
  with record_decision_nonce(2) [OF assms(2,4,5)] record_decision_nonce(1) [OF again assms(6,7)] assms(8-10)
  show False by auto
qed

section \<open>Witnesses\<close>

lemma run3_to_run4: "server_steps demo_ext run3 run4"
  using run4_step by (blast intro: server_step.decide)

theorem journal_tells_history_witness:
  "map ev_kind (events_of run4 [100, 97]) = [KIND_CREATED, KIND_ANSWER] \<and> int (length (events_of run4 [100, 97])) = 2"
proof -
  have "demo_final \<in> set (t_requests run4)" by simp
  from journal_tells_history [OF run4_reachable this]
  show ?thesis by (simp add: expected_kinds_def answer_count_def)
qed

theorem status_matches_decisions_witness:
  "rq_status demo_final = Resolved \<and> rq_decision demo_final \<noteq> None \<and> deciders run4 [100, 97] = []"
proof -
  have "demo_final \<in> set (t_requests run4)" by simp
  from status_matches_decisions [OF run4_reachable this] show ?thesis by simp
qed

theorem one_pending_per_key_witness:
  "pending_with_key default_channel [107] demo_row \<and> hd (t_requests run3) = demo_row"
proof -
  have p: "pending_with_key default_channel [107] demo_row" "demo_row \<in> set (t_requests run3)"
    "hd (t_requests run3) \<in> set (t_requests run3)" "pending_with_key default_channel [107] (hd (t_requests run3))"
    by (simp_all add: pending_with_key_def)
  from one_pending_per_key [OF run3_reachable p(3,2,4,1)] p(1) show ?thesis by simp
qed

theorem closed_requests_stay_witness:
  "rq_status demo_final \<noteq> Pending \<and> hd (t_requests (seed_defaults run4 (demo_env 5 0))) = demo_final"
proof -
  let ?s = "seed_defaults run4 (demo_env 5 0)"
  have t: "t_requests ?s = [demo_final]" by (simp add: seed_defaults_def Let_def)
  have steps: "server_steps demo_ext run4 ?s" by (blast intro: server_step.restart)
  have w: "demo_final \<in> set (t_requests run4)" "rq_status demo_final \<noteq> Pending"
    "hd (t_requests ?s) \<in> set (t_requests ?s)" "rq_id (hd (t_requests ?s)) = rq_id demo_final"
    by (simp_all add: t)
  from closed_requests_stay [OF run4_reachable steps w] w(2) show ?thesis by blast
qed

theorem card_never_changes_witness:
  "request_core demo_final = request_core demo_row \<and> recipients_of run4 [100, 97] = recipients_of run3 [100, 97]"
proof -
  have w: "demo_row \<in> set (t_requests run3)" "demo_final \<in> set (t_requests run4)" "rq_id demo_final = rq_id demo_row"
    by simp_all
  from card_never_changes [OF run3_reachable run3_to_run4 w] show ?thesis by simp
qed

theorem journal_append_only_witness:
  "prefix (map event_core (t_events run3)) (map event_core (t_events run4)) \<and> length (t_events run4) = 2"
  using journal_append_only [OF run3_reachable run3_to_run4] by (simp add: run4_def)

theorem decided_once_witness:
  "record_decision demo_ext run3 demo_submission (demo_env 4 0) = Inr (demo_read demo_resolved, run4) \<and>
   (\<forall>E' r' s'. record_decision demo_ext run4 demo_submission E' \<noteq> Inr (r', s'))"
  using decided_once [OF run3_reachable run4_step rtranclp.rtrancl_refl refl disjI2 [OF refl]] run4_step by blast

theorem accepted_decision_conditions_witness:
  "\<exists>w. find_request run3 [100, 97] = Some w \<and> rq_status w = Pending \<and> owner \<in> set (recipients_of run3 [100, 97])"
  using accepted_decision_conditions [OF run4_step] by auto

theorem nonce_accepted_once_witness:
  "record_decision demo_ext run3 demo_submission (demo_env 4 0) = Inr (demo_read demo_resolved, run4) \<and>
   (\<forall>E' r' s'. record_decision demo_ext run4 (demo_submission\<lparr>sub_request_id := [102]\<rparr>) E' \<noteq> Inr (r', s'))"
proof -
  let ?sub = "demo_submission\<lparr>sub_request_id := [102]\<rparr>"
  have "record_decision demo_ext run4 ?sub E' \<noteq> Inr (r', s')" for E' r' s'
    by (rule nonce_accepted_once [OF run3_reachable run4_step rtranclp.rtrancl_refl, of demo_device demo_signature
          ?sub demo_device demo_signature]) simp_all
  with run4_step show ?thesis by blast
qed

end
