(* ===== verification/Create_Facts.thy ===== *)
theory Create_Facts
  imports Request_Facts
begin

text \<open>
  Creation may be retried: with an idempotency key, the same body returns the same request and changes
  nothing, whatever the clock and the generated identifiers are the second time.
\<close>

section \<open>Reading is unaffected by the columns a read leaves out\<close>

lemma get_request_on_frame:
  assumes "find_request s' rid = map_option f (find_request s rid)"
    and "\<And>w. unsigned_request (f w) = unsigned_request w \<and> rq_recipient_salt (f w) = rq_recipient_salt w \<and> rq_id (f w) = rq_id w"
    and "related s' rid = related s rid"
  shows "get_request_on X s' rid = get_request_on X s rid"
proof (cases "find_request s rid")
  case None
  with assms(1) show ?thesis by (simp add: get_request_on_eq)
next
  case (Some w)
  then have "rq_id w = rid" by (auto dest: find_request_id)
  moreover from assms(2) have "unsigned_request (f w) = unsigned_request w" "rq_recipient_salt (f w) = rq_recipient_salt w"
    "rq_id (f w) = rq_id w"
    by blast+
  then have "request_from_rows X (f w) rl = request_from_rows X w rl" for rl
    by (simp only: request_from_rows_def)
  ultimately show ?thesis
    using Some assms by (simp add: get_request_on_eq)
qed

lemma get_request_on_same:
  assumes "t_requests s' = t_requests s" "t_recipients s' = t_recipients s" "t_decisions s' = t_decisions s"
    "t_options s' = t_options s"
  shows "get_request_on X s' rid = get_request_on X s rid"
  by (rule get_request_on_frame [where f = "\<lambda>w. w"])
    (simp_all add: find_request_def assms related_def recipients_of_def decisions_of_def options_of_def
      option.map_ident)

lemma get_request_on_append:
  assumes "append_lifecycle_on X s r kind d eid now = Inr s'"
  shows "get_request_on Y s' rid = get_request_on Y s rid"
  using assms
proof (rule append_lifecycle_on_ok, goal_cases)
  case (1 w e cbs)
  let ?f = "\<lambda>v. if rq_id v = r_id r then v\<lparr>rq_revision := rq_revision v + 1\<rparr> else v"
  show ?case
  proof (rule get_request_on_frame [where f = ?f])
    show "find_request s' rid = map_option ?f (find_request s rid)"
      unfolding 1(2) find_request_def by (simp add: find_sql_update_key)
  qed (simp_all add: 1(2) related_def recipients_of_def decisions_of_def options_of_def unsigned_request_def fun_eq_iff)
qed

lemma get_request_on_id: "get_request_on X s rid = Inr r \<Longrightarrow> r_id r = rid \<and> get_request_on X s (r_id r) = Inr r"
  using get_request_on_columns by blast

section \<open>The key of a creation\<close>

definition create_key :: "create_metadata \<Rightarrow> rstr option" where
  "create_key m = map_option trim (cm_idempotency_key m)"

definition create_scope :: "create_metadata \<Rightarrow> rstr" where
  "create_scope m = (case cm_issuer m of None \<Rightarrow> lit ''admin'' | Some i \<Rightarrow> i)"

definition bound_row :: "db \<Rightarrow> rstr \<Rightarrow> rstr \<Rightarrow> rstr \<Rightarrow> idempotency_row option" where
  "bound_row s scope channel key =
     List.find (\<lambda>w. ik_scope w = scope \<and> ik_channel_id w = channel \<and> ik_key w = key) (t_idempotency s)"

text \<open>A creation whose key is bound only looks its request up.\<close>

lemma create_replayed:
  assumes "validate_request X req = Inr ()" "validate_options (c_options req) = Inr ()"
    "create_key m = Some k" "k \<noteq> []" "strlen k \<le> 128"
    "request_fingerprint X req (cm_origin m) = Inr fp"
    "bound_row s (create_scope m) (c_channel_id req) k = Some row" "ik_fingerprint row = fp"
    "get_request_on X s (ik_request_id row) = Inr r"
  shows "create_request X s req m E = Inr (\<lparr>cd_request_id = r_id r, cd_deduped = True, cd_request = r\<rparr>, s)"
  using assms by (auto simp: create_request_def Let_def create_key_def create_scope_def bound_row_def)

lemma bind_idempotency_row:
  assumes "bind_idempotency s scope channel (Some k) fp rid = Inr s'" and "bound_row s scope channel k = None"
  shows "s' = s\<lparr>t_idempotency := t_idempotency s @ [\<lparr>ik_scope = scope, ik_channel_id = channel, ik_key = k,
      ik_fingerprint = fp, ik_request_id = rid\<rparr>]\<rparr>"
    and "bound_row s' scope channel k = Some \<lparr>ik_scope = scope, ik_channel_id = channel, ik_key = k,
      ik_fingerprint = fp, ik_request_id = rid\<rparr>"
  using assms by (auto simp: bind_idempotency_def bound_row_def find_append split: if_splits)

lemma insert_new_request_bound:
  assumes "insert_new_request X s req m recipients (create_scope m) fp (Some k) E = Inr (c, s')"
    and "bound_row s (create_scope m) (c_channel_id req) k = None"
  shows "bound_row s' (create_scope m) (c_channel_id req) k = Some \<lparr>ik_scope = create_scope m,
      ik_channel_id = c_channel_id req, ik_key = k, ik_fingerprint = fp, ik_request_id = cd_request_id c\<rparr>"
    and "get_request_on X s' (cd_request_id c) = Inr (cd_request c)" and "r_id (cd_request c) = cd_request_id c"
proof -
  let ?rid = "e_id E 0"
  from assms(1) obtain s1 s2 s3 s4 s5 s6 r where st:
    "insert_request s (new_request_row req m ?rid (e_now E 0) (e_salt E)) = Inr s1"
    "insert_recipients s1 ?rid recipients = Inr s2"
    "insert_options s2 ?rid (normalize_options (c_options req)) = Inr s3"
    "queue_pushes s3 ?rid (e_now E 0) = Inr s4"
    "bind_idempotency s4 (create_scope m) (c_channel_id req) (Some k) fp ?rid = Inr s5"
    "get_request_on X s5 ?rid = Inr r" "insert_origin s5 ?rid (cm_origin m) = Inr s6"
    "append_lifecycle_on X s6 r KIND_CREATED None (e_id E 1) (e_now E 1) = Inr s'"
    and c: "c = \<lparr>cd_request_id = ?rid, cd_deduped = False, cd_request = r\<rparr>"
    by (auto simp: insert_new_request_def Let_def res_simps)
  have "t_idempotency s4 = t_idempotency s"
    using insert_request_ok(1) [OF st(1)] insert_recipients_ok [OF st(2)] insert_options_ok [OF st(3)]
      queue_pushes_ok [OF st(4)] by auto
  then have none: "bound_row s4 (create_scope m) (c_channel_id req) k = None"
    using assms(2) by (simp add: bound_row_def)
  note b = bind_idempotency_row [OF st(5) none]
  obtain rows where s6: "s6 = s5\<lparr>t_origins := t_origins s5 @ rows\<rparr>" using insert_origin_ok [OF st(7)] by blast
  have i: "t_idempotency s' = t_idempotency s6" using st(8) by (rule append_lifecycle_on_ok) simp
  with b(2) show "bound_row s' (create_scope m) (c_channel_id req) k = Some \<lparr>ik_scope = create_scope m,
      ik_channel_id = c_channel_id req, ik_key = k, ik_fingerprint = fp, ik_request_id = cd_request_id c\<rparr>"
    by (simp add: bound_row_def s6 c)
  have "get_request_on X s6 ?rid = get_request_on X s5 ?rid" by (rule get_request_on_same) (simp_all add: s6)
  with get_request_on_append [OF st(8), of X ?rid] st(6)
  show "get_request_on X s' (cd_request_id c) = Inr (cd_request c)" by (simp add: c)
  show "r_id (cd_request c) = cd_request_id c" using get_request_on_columns [OF st(6)] by (auto simp: c)
qed

text \<open>The branches of a creation with a key.\<close>

lemma create_request_key_cases:
  assumes "create_request X s req m E = Inr (c, s')" and "create_key m = Some k"
  obtains (replay) fp row where "request_fingerprint X req (cm_origin m) = Inr fp"
      "bound_row s (create_scope m) (c_channel_id req) k = Some row" "ik_fingerprint row = fp"
      "get_request_on X s (ik_request_id row) = Inr (cd_request c)" "s' = s"
      "cd_request_id c = r_id (cd_request c)"
  | (fresh) fp recipients pending where "request_fingerprint X req (cm_origin m) = Inr fp"
      "bound_row s (create_scope m) (c_channel_id req) k = None"
      "(case c_dedupe_key req of None \<Rightarrow> Inr None
        | Some d \<Rightarrow> find_pending_request_by_dedupe_key X s (c_channel_id req) d) = Inr pending"
      "(case pending of
          Some r \<Rightarrow> reuse_pending s req m recipients (create_scope m) fp (Some k) r
        | None \<Rightarrow> insert_new_request X s req m recipients (create_scope m) fp (Some k) E) = Inr (c, s')"
proof -
  obtain fp where fp: "request_fingerprint X req (cm_origin m) = Inr fp"
    using assms(1) by (auto simp: create_request_def Let_def res_simps)
  show thesis
  proof (cases "bound_row s (create_scope m) (c_channel_id req) k")
    case None
    note n = None [unfolded bound_row_def]
    from assms fp obtain recipients pending where "(case c_dedupe_key req of None \<Rightarrow> Inr None
        | Some d \<Rightarrow> find_pending_request_by_dedupe_key X s (c_channel_id req) d) = Inr pending"
      "(case pending of
          Some r \<Rightarrow> reuse_pending s req m recipients (create_scope m) fp (Some k) r
        | None \<Rightarrow> insert_new_request X s req m recipients (create_scope m) fp (Some k) E) = Inr (c, s')"
      by (auto simp: create_request_def Let_def res_simps create_key_def create_scope_def [symmetric] n
          split: if_splits)
    then show thesis by (rule fresh [OF fp None])
  next
    case (Some row)
    note n = Some [unfolded bound_row_def create_scope_def]
    from assms fp show thesis
      by (auto simp: create_request_def Let_def res_simps create_key_def n intro!: replay [OF fp Some] split: if_splits)
  qed
qed

lemma create_request_checks:
  assumes "create_request X s req m E = Inr (c, s')"
  shows "validate_request X req = Inr ()" "validate_options (c_options req) = Inr ()"
    "create_key m = Some k \<Longrightarrow> k \<noteq> [] \<and> strlen k \<le> 128"
  using assms by (auto simp: create_request_def Let_def res_simps create_key_def split: if_splits)

text \<open>
  C29 (functional). A create call that carries an idempotency key may be repeated: the same body on the
  database it left returns the same request with the same id, marked as deduplicated, and leaves the
  database as it is. The clock, the identifiers and the salt of the second call play no part.
\<close>

theorem create_is_idempotent:
  assumes "create_request X s req m E = Inr (c, s')" and "cm_idempotency_key m \<noteq> None"
  shows "create_request X s' req m E' = Inr (c\<lparr>cd_deduped := True\<rparr>, s')"
proof -
  from assms(2) obtain k where k: "create_key m = Some k" by (auto simp: create_key_def)
  note chk = create_request_checks [OF assms(1)]
  have again: ?thesis if fp: "request_fingerprint X req (cm_origin m) = Inr fp"
    and row: "bound_row s' (create_scope m) (c_channel_id req) k = Some row" "ik_fingerprint row = fp"
      "get_request_on X s' (ik_request_id row) = Inr (cd_request c)" "cd_request_id c = r_id (cd_request c)" for fp row
    using create_replayed [OF chk(1,2) k _ _ fp row(1,2,3)] chk(3) [OF k] row(4) by (cases c) simp
  from assms(1) k show ?thesis
  proof (cases rule: create_request_key_cases)
    case (replay fp row)
    then show ?thesis by (intro again) simp_all
  next
    case (fresh fp recipients pending)
    show ?thesis
    proof (cases pending)
      case None
      with fresh(4) have "insert_new_request X s req m recipients (create_scope m) fp (Some k) E = Inr (c, s')" by simp
      from insert_new_request_bound [OF this fresh(2)] fresh(1) show ?thesis by (intro again) auto
    next
      case (Some r)
      with fresh(4) have b: "bind_idempotency s (create_scope m) (c_channel_id req) (Some k) fp (r_id r) = Inr s'"
        and c: "c = \<lparr>cd_request_id = r_id r, cd_deduped = True, cd_request = r\<rparr>"
        by (auto simp: reuse_pending_def res_simps split: if_splits)
      note row = bind_idempotency_row [OF b fresh(2)]
      from fresh(3) Some have "get_request_on X s (r_id r) = Inr r"
        by (auto simp: find_pending_request_by_dedupe_key_def res_simps dest: get_request_on_id split: option.splits)
      moreover have "get_request_on X s' (r_id r) = get_request_on X s (r_id r)"
        by (rule get_request_on_same) (simp_all add: row(1))
      ultimately show ?thesis using row(2) fresh(1) by (intro again) (auto simp: c)
    qed
  qed
qed

theorem create_is_idempotent_witness:
  "\<exists>c. create_request demo_ext run2 demo_card demo_metadata (demo_env 3 0) = Inr (c, run3) \<and>
     create_request demo_ext run3 demo_card demo_metadata (demo_env 9 7) = Inr (c\<lparr>cd_deduped := True\<rparr>, run3)"
  using run3_step create_is_idempotent [where E' = "demo_env 9 7"] by fastforce

end
