(* ===== verification/Account_Persistence.thy ===== *)
theory Account_Persistence
  imports Server
begin

text \<open>
  What the server never takes back of its accounts: a row of the users, devices, enrollment codes and
  issuer tokens is never removed, its identifying columns (a device's key and token hash, a code's
  user and deadline, a token's hash and scopes) never change, and once it is deleted, revoked or
  consumed it stays so, with the time it was.
\<close>

section \<open>Rows with a sticky mark\<close>

definition rows_keep :: "('r \<Rightarrow> 'k) \<Rightarrow> ('r \<Rightarrow> int option) \<Rightarrow> 'r list \<Rightarrow> 'r list \<Rightarrow> bool" where
  "rows_keep core mark t t' \<longleftrightarrow>
     (\<forall>r \<in> set t. \<exists>r' \<in> set t'. core r' = core r \<and> (mark r \<noteq> None \<longrightarrow> mark r' = mark r))"

lemma rows_keep_refl [simp]: "rows_keep core mark t t"
  by (auto simp: rows_keep_def)

lemma rows_keep_trans: "rows_keep core mark t u \<Longrightarrow> rows_keep core mark u v \<Longrightarrow> rows_keep core mark t v"
  unfolding rows_keep_def by metis

lemma rows_keep_append [simp]: "rows_keep core mark t (t @ u)"
  by (auto simp: rows_keep_def)

lemma rows_keep_update:
  assumes "\<And>r. P r \<Longrightarrow> core (f r) = core r \<and> (mark r \<noteq> None \<longrightarrow> mark (f r) = mark r)"
  shows "rows_keep core mark t (sql_update P f t)"
  unfolding rows_keep_def
proof
  fix r assume "r \<in> set t"
  then have "(if P r then f r else r) \<in> set (sql_update P f t)" by (simp add: set_sql_update)
  with assms [of r] show "\<exists>r' \<in> set (sql_update P f t). core r' = core r \<and> (mark r \<noteq> None \<longrightarrow> mark r' = mark r)"
    by (intro bexI [of _ "if P r then f r else r"]) simp_all
qed

section \<open>The account tables\<close>

definition code_core :: "code_row \<Rightarrow> rstr \<times> rstr \<times> int" where
  "code_core c = (ec_code_hash c, ec_user_id c, ec_expires_at c)"

definition device_core :: "device_row \<Rightarrow> rstr \<times> rstr \<times> rstr \<times> rstr option \<times> rstr option \<times> rstr option" where
  "device_core d = (dv_id d, dv_user_id d, dv_token_hash d, dv_signing_key_id d, dv_signing_key_algorithm d,
     dv_signing_public_key d)"

definition issuer_core :: "issuer_row \<Rightarrow> rstr \<times> rstr \<times> rstr list" where
  "issuer_core t = (it_id t, it_token_hash t, it_scopes t)"

definition accounts_keep :: "db \<Rightarrow> db \<Rightarrow> bool" where
  "accounts_keep s s' \<longleftrightarrow>
     rows_keep code_core ec_consumed_at (t_codes s) (t_codes s') \<and>
     rows_keep device_core dv_revoked_at (t_devices s) (t_devices s') \<and>
     rows_keep us_id us_deleted_at (t_users s) (t_users s') \<and>
     rows_keep issuer_core it_revoked_at (t_issuers s) (t_issuers s')"

lemmas keep_defs = code_core_def device_core_def issuer_core_def

lemma accounts_keep_trans: "accounts_keep s s1 \<Longrightarrow> accounts_keep s1 s2 \<Longrightarrow> accounts_keep s s2"
  unfolding accounts_keep_def by (elim conjE, intro conjI) (erule rows_keep_trans, assumption)+

lemma accounts_keep_same:
  "t_codes s' = t_codes s \<Longrightarrow> t_devices s' = t_devices s \<Longrightarrow> t_users s' = t_users s \<Longrightarrow>
   t_issuers s' = t_issuers s \<Longrightarrow> accounts_keep s s'"
  by (simp add: accounts_keep_def)

lemma accounts_keep_rest: "rest_of s' = rest_of s \<Longrightarrow> accounts_keep s s'"
  by (rule accounts_keep_same) (simp_all add: rest_of_def accounts_of_def)

lemma accounts_keep_devices:
  "(\<And>d. P d \<Longrightarrow> device_core (f d) = device_core d \<and> (dv_revoked_at d \<noteq> None \<longrightarrow> dv_revoked_at (f d) = dv_revoked_at d)) \<Longrightarrow>
   accounts_keep s (set_devices s P f)"
  by (simp add: accounts_keep_def set_devices_def rows_keep_update)

lemma accounts_keep_users:
  "(\<And>u. P u \<Longrightarrow> us_id (f u) = us_id u \<and> (us_deleted_at u \<noteq> None \<longrightarrow> us_deleted_at (f u) = us_deleted_at u)) \<Longrightarrow>
   accounts_keep s (s\<lparr>t_users := sql_update P f (t_users s)\<rparr>)"
  by (simp add: accounts_keep_def rows_keep_update)

section \<open>Every step\<close>

lemma keep_set_user_subscription: "set_user_subscription s uid c b t = Inr s' \<Longrightarrow> accounts_keep s s'"
  by (auto simp: set_user_subscription_def res_simps intro: accounts_keep_same)

lemma keep_apply_subscriptions: "accounts_keep s (snd (apply_subscriptions s uid us E n))"
proof (induction s uid us E n rule: apply_subscriptions.induct)
  case (2 s uid channel subscribed us E n)
  show ?case
  proof (cases "set_user_subscription s uid channel subscribed (e_now E n)")
    case (Inr s1)
    with 2 accounts_keep_trans [OF keep_set_user_subscription [OF Inr]] show ?thesis by simp
  qed (simp add: accounts_keep_same)
qed (simp add: accounts_keep_same)

lemma keep_update_subscriptions: "accounts_keep s (snd (update_user_subscriptions_for_admin s uid us E))"
  using keep_apply_subscriptions [of s uid us E 0]
  by (auto simp: update_user_subscriptions_for_admin_def accounts_keep_same split: sum.split prod.split)

lemma keep_upsert_user: "accounts_keep s (snd (upsert_user s uid name t))"
  by (auto simp: upsert_user_def Let_def accounts_keep_def intro!: rows_keep_update)

lemma keep_subscribe_default: "subscribe_default s uid t = Inr s' \<Longrightarrow> accounts_keep s s'"
  by (auto simp: subscribe_default_def intro: accounts_keep_same split: if_splits)

lemma keep_create_user: "accounts_keep s (snd (create_user s uid name E))"
  using keep_upsert_user [of s uid "trim name" "now_string (e_now E 0)"]
  by (auto simp: create_user_def accounts_keep_same split: sum.split prod.split
      dest: keep_subscribe_default intro: accounts_keep_trans)

lemma keep_enroll: "accounts_keep s (snd (enroll_device X s req E))"
proof (cases "enroll_device X s req E")
  case (Pair r s')
  then show ?thesis
  proof (cases rule: enroll_device_cases)
    case (2 push key d user_name)
    from enroll_transaction_ok [OF this(2)] have "accounts_keep s s'"
      by (auto simp: insert_device_def accounts_keep_def keep_defs intro!: rows_keep_update split: if_splits)
    with Pair show ?thesis by simp
  qed (use Pair in \<open>simp add: accounts_keep_same\<close>)
qed

lemma keep_devices:
  "accounts_keep s (snd (rename_user_device s uid did cur name now))"
  "accounts_keep s (touch_device s did E)"
  "accounts_keep s (snd (clear_invalid_push_token s j token t))"
  "delete_device s did now = Inr s' \<Longrightarrow> accounts_keep s s'"
  "revoke_user_device s uid did now = Inr s' \<Longrightarrow> accounts_keep s s'"
  "update_push_token s did provider tok native now = Inr s' \<Longrightarrow> accounts_keep s s'"
  "update_device_preferences s did v now = Inr s' \<Longrightarrow> accounts_keep s s'"
  "update_notification_preferences s did p now = Inr (p', s') \<Longrightarrow> accounts_keep s s'"
  unfolding clear_invalid_push_token_def snd_conv set_devices_def [symmetric] Let_def
  by (auto simp: rename_user_device_def touch_device_def delete_device_def revoke_user_device_def
      update_push_token_def update_device_preferences_def update_notification_preferences_def
      revoke_def active_device_def keep_defs Let_def res_simps accounts_keep_same
      intro!: accounts_keep_devices split: if_splits option.splits)

lemma keep_tables:
  "accounts_keep s (snd (create_channel X s cb now))"
  "accounts_keep s (snd (update_user s uid name now))"
  "accounts_keep s (seed_defaults s E)"
  "set_subscription s did cid flag now = Inr s' \<Longrightarrow> accounts_keep s s'"
  "clear_channel s did cid now = Inr s' \<Longrightarrow> accounts_keep s s'"
  "delete_user s uid now = Inr s' \<Longrightarrow> accounts_keep s s'"
  "create_enrollment_code X s uid lifetime E = Inr (cr, s') \<Longrightarrow> accounts_keep s s'"
  "record_device_attestation s did ar now = Inr s' \<Longrightarrow> accounts_keep s s'"
  "create_issuer_token X s name scopes E = Inr (ci, s') \<Longrightarrow> accounts_keep s s'"
  "revoke_issuer_token s tid now = Inr s' \<Longrightarrow> accounts_keep s s'"
  by (auto simp: create_channel_def update_user_def seed_defaults_def sql_insert_or_ignore_def
      set_subscription_def clear_channel_def delete_user_def create_enrollment_code_def
      record_device_attestation_def create_issuer_token_def revoke_issuer_token_def accounts_keep_def
      keep_defs Let_def res_simps dest: keep_set_user_subscription [unfolded accounts_keep_def]
      intro!: rows_keep_update split: sum.split if_splits)

lemma keep_delete_channel:
  assumes "delete_channel s cid = Inr s'"
  shows "accounts_keep s s'"
proof -
  have "t_codes (delete_requests s P) = t_codes s" "t_devices (delete_requests s P) = t_devices s"
    "t_users (delete_requests s P) = t_users s" "t_issuers (delete_requests s P) = t_issuers s" for P
    by (simp_all add: delete_requests_def Let_def)
  with assms show ?thesis
    by (auto simp: delete_channel_def Let_def res_simps intro!: accounts_keep_same split: if_splits)
qed

lemma keep_requests:
  "create_request X s req m E = Inr (c, s') \<Longrightarrow> accounts_keep s s'"
  "record_decision X s sub E = Inr (r, s') \<Longrightarrow> accounts_keep s s'"
  "cancel_request X s rid E = Inr (r, s') \<Longrightarrow> accounts_keep s s'"
  "expire_due_requests X s E = Inr (rs, s') \<Longrightarrow> accounts_keep s s'"
  "accounts_keep s (snd (prune_retention s n now))"
  by (simp_all add: accounts_keep_rest rest_create rest_record_decision rest_cancel_request rest_expire
      prune_retention_def Let_def rest_delete_requests)

lemma keep_queues:
  "accounts_keep s (snd (claim_event s E))" "accounts_keep s (snd (published s c n t))"
  "accounts_keep s (snd (publish_retry s c E))" "accounts_keep s (snd (claim_callback s E))"
  "complete_callback s cd status t = Inr (b, s') \<Longrightarrow> accounts_keep s s'"
  "accounts_keep s (snd (retry_callback s cd st blocked E))"
  "accounts_keep s (recover_pushes s t)" "accounts_keep s (snd (claim_pushes s limit t))"
  "begin_attempt s j t = Inr (j', s') \<Longrightarrow> accounts_keep s s'"
  "update_push s j pst err t = Inr s' \<Longrightarrow> accounts_keep s s'"
  by (auto simp: claim_event_def published_def publish_retry_def claim_callback_def complete_callback_def
      retry_callback_def recover_pushes_def claim_pushes_def begin_attempt_def update_push_def Let_def
      intro!: accounts_keep_same split: option.split list.split if_splits)

lemma keep_bind_origin: "bind_origin s p rid g = Inr s' \<Longrightarrow> accounts_keep s s'"
  by (drule bind_origin_ok) (auto intro: accounts_keep_same)

lemma keep_step:
  assumes step: "server_step X s s'"
  shows "accounts_keep s s'"
  by (rule server_stepE [OF step]; (erule keep_requests(1-4) keep_queues(5,9,10) keep_devices(4-8) keep_tables(4-10)
        keep_delete_channel keep_bind_origin |
      (simp only:, rule keep_requests(5) keep_queues(1-4,6-8) keep_devices(1-3) keep_tables(1-3)
        keep_update_subscriptions keep_create_user keep_enroll)))

lemma keep_steps: "server_steps X s s' \<Longrightarrow> accounts_keep s s'"
  by (induction rule: rtranclp_induct) (auto simp: accounts_keep_same intro: accounts_keep_trans keep_step)

section \<open>One row through time\<close>

lemma rows_keep_unique:
  assumes "rows_keep core mark t t'" "r \<in> set t" "r' \<in> set t'" "key r' = key r"
    and "distinct (map key t')" "\<And>u v. core u = core v \<Longrightarrow> key u = key v"
  shows "core r' = core r" "mark r \<noteq> None \<Longrightarrow> mark r' = mark r"
proof -
  from assms(1,2) obtain u where u: "u \<in> set t'" "core u = core r" "mark r \<noteq> None \<longrightarrow> mark u = mark r"
    by (auto simp: rows_keep_def)
  with assms(3-6) have "u = r'" by (metis distinct_map inj_onD)
  with u show "core r' = core r" "mark r \<noteq> None \<Longrightarrow> mark r' = mark r" by simp_all
qed

text \<open>A device that was revoked stays revoked; its user, key and token hash never change.\<close>

lemma device_kept:
  assumes steps: "server_steps X s s'" and inv: "accounts_inv s'"
    and d: "d \<in> set (t_devices s)" "d' \<in> set (t_devices s')" "dv_id d' = dv_id d"
  shows "device_core d' = device_core d" "dv_revoked_at d \<noteq> None \<Longrightarrow> dv_revoked_at d' = dv_revoked_at d"
proof -
  have k: "rows_keep device_core dv_revoked_at (t_devices s) (t_devices s')"
    using keep_steps [OF steps] by (simp add: accounts_keep_def)
  have dist: "distinct (map dv_id (t_devices s'))" using inv by (simp add: accounts_parts)
  have key: "device_core u = device_core v \<Longrightarrow> dv_id u = dv_id v" for u v by (simp add: device_core_def)
  show "device_core d' = device_core d" "dv_revoked_at d \<noteq> None \<Longrightarrow> dv_revoked_at d' = dv_revoked_at d"
    using rows_keep_unique [OF k d dist key] by simp_all
qed

text \<open>A consumed code stays consumed.\<close>

lemma code_kept:
  assumes steps: "server_steps X s s'" and c: "c \<in> set (t_codes s)" "ec_consumed_at c \<noteq> None"
    and c': "c' \<in> set (t_codes s')" "ec_code_hash c' = ec_code_hash c" and inv: "accounts_inv s'"
  shows "ec_consumed_at c' \<noteq> None"
proof -
  have k: "rows_keep code_core ec_consumed_at (t_codes s) (t_codes s')"
    using keep_steps [OF steps] by (simp add: accounts_keep_def)
  have dist: "distinct (map ec_code_hash (t_codes s'))" using inv by (simp add: accounts_parts)
  have key: "code_core u = code_core v \<Longrightarrow> ec_code_hash u = ec_code_hash v" for u v by (simp add: code_core_def)
  show ?thesis using rows_keep_unique(2) [OF k c(1) c' dist key] c(2) by simp
qed

end
