(* ===== verification/Account_Facts.thy ===== *)
theory Account_Facts
  imports Account_Persistence Request_Facts
begin

text \<open>
  What holds of accounts in every reachable state and across time: an active device has a live user and
  a key, credentials are single and never come back, and an enrollment code enrolls one device.
\<close>

lemma reachable_accounts_inv: "reachable X s \<Longrightarrow> accounts_inv s"
  using server_inv_reachable server_inv_parts(4) by blast

text \<open>
  In every reachable state each device belongs to a user of the table, has a signing key
  and its id, holds a push token only together with an app id, and, while it is active, its user is
  not deleted. Device ids and token hashes are unique, so a bearer token names one device.
\<close>

theorem devices_accountable:
  assumes "reachable X s" and "d \<in> set (t_devices s)"
  shows "dv_user_id d \<in> us_id ` set (t_users s) \<and>
    (dv_revoked_at d = None \<longrightarrow> (\<exists>u \<in> set (t_users s). us_id u = dv_user_id d \<and> us_deleted_at u = None)) \<and>
    nonblank_text (dv_signing_key_id d) \<and> nonblank_text (dv_signing_public_key d) \<and> push_columns_ok d \<and>
    (\<forall>e \<in> set (t_devices s). dv_id e = dv_id d \<or> dv_token_hash e = dv_token_hash d \<longrightarrow> e = d)"
proof -
  from reachable_accounts_inv [OF assms(1)] have dev: "devices_ok s" by (simp add: accounts_inv_def)
  with assms(2) have "e = d" if "e \<in> set (t_devices s)" "dv_id e = dv_id d \<or> dv_token_hash e = dv_token_hash d" for e
    using that by (auto simp: devices_ok_def distinct_map inj_on_def)
  moreover from dev assms(2) have ok: "device_ok (us_id ` set (t_users s)) (live_users s) d"
    by (simp add: devices_ok_def)
  then have "\<exists>u \<in> set (t_users s). us_id u = dv_user_id d \<and> us_deleted_at u = None" if "dv_revoked_at d = None"
    using that by (force simp: device_ok_def live_users_def)
  ultimately show ?thesis using ok by (simp add: device_ok_def)
qed

text \<open>
  Stored notification preferences are in normal form in every reachable state: the muted
  channels are sorted, without repeats, slugs, and at most a hundred.
\<close>

theorem preferences_normal_form:
  assumes "reachable X s" and "d \<in> set (t_devices s)"
  shows "length (dp_muted_channels (dv_preferences d)) \<le> 100 \<and> sorted (dp_muted_channels (dv_preferences d)) \<and>
    distinct (dp_muted_channels (dv_preferences d)) \<and>
    (\<forall>c \<in> set (dp_muted_channels (dv_preferences d)). validate_id c ''muted channel id'' = Inr ())"
  using reachable_accounts_inv [OF assms(1)] assms(2)
  by (simp add: accounts_inv_def devices_ok_def device_ok_def preferences_ok_def)

section \<open>Across time\<close>

lemma reachable_later: "reachable X s \<Longrightarrow> server_steps X s s' \<Longrightarrow> accounts_inv s'"
  using reachable_steps reachable_accounts_inv by blast

text \<open>
  A device keeps its user, token hash and signing key for good, and a revoked device stays
  revoked: no later operation enrolls it again, moves it to another user or exchanges its key.
\<close>

theorem device_identity_is_fixed:
  assumes "reachable X s" and "server_steps X s s'" and "d \<in> set (t_devices s)"
  shows "\<exists>d' \<in> set (t_devices s'). dv_id d' = dv_id d \<and> device_core d' = device_core d \<and>
    (dv_revoked_at d \<noteq> None \<longrightarrow> dv_revoked_at d' = dv_revoked_at d) \<and>
    (\<forall>e \<in> set (t_devices s'). dv_id e = dv_id d \<longrightarrow> e = d')"
proof -
  from keep_steps [OF assms(2)] assms(3) obtain d' where d': "d' \<in> set (t_devices s')"
    "device_core d' = device_core d" "dv_revoked_at d \<noteq> None \<longrightarrow> dv_revoked_at d' = dv_revoked_at d"
    by (auto simp: accounts_keep_def rows_keep_def)
  from d'(2) have id: "dv_id d' = dv_id d" by (simp add: device_core_def)
  have "e = d'" if "e \<in> set (t_devices s')" "dv_id e = dv_id d" for e
    using that reachable_later [OF assms(1,2)] d'(1) id by (auto simp: accounts_parts distinct_map inj_on_def)
  with d' id show ?thesis by blast
qed

text \<open>
  A revoked device decides nothing: no submission it makes is accepted, in any later state.
\<close>

theorem revoked_device_cannot_decide:
  assumes "reachable X s" and "d \<in> set (t_devices s)" and "dv_revoked_at d \<noteq> None" and "server_steps X s s'"
    and "sub_device sub = Some v" and "dv_id v = dv_id d"
  shows "record_decision X s' sub E \<noteq> Inr (r, s'')"
proof
  assume "record_decision X s' sub E = Inr (r, s'')"
  then obtain q where "check_actor s' q sub = Inr ()" by (rule record_decision_ok)
  with assms(5) obtain e where e: "e \<in> set (t_devices s')" "dv_id e = dv_id v" "dv_revoked_at e = None"
    by (auto simp: check_actor_def list_ex_iff split: if_splits)
  from device_kept(2) [OF assms(4) reachable_later [OF assms(1,4)] assms(2) e(1)] e(2,3) assms(3,6)
  show False by simp
qed

text \<open>
  What a successful enrollment requires and does: the code was known, unused and, by the
  clock in nanoseconds, not expired; its user is live; afterwards the code is consumed and one
  new device exists, active, of the code's user, with the submitted key and a token whose hash alone is stored.
\<close>

theorem enrollment_effect:
  assumes "enroll_device X s req E = (Inr resp, s')"
  shows "\<exists>c d key. c \<in> set (t_codes s) \<and> ec_code_hash c = hash_secret X (trim (en_code req)) \<and>
    ec_consumed_at c = None \<and> e_now E 0 < of_millis (ec_expires_at c) \<and> user_active s (ec_user_id c) \<and>
    normalized_signing_key X (en_signing_key req) = Inr key \<and>
    t_devices s' = t_devices s @ [d] \<and> dv_id d = er_device_id resp \<and> dv_user_id d = ec_user_id c \<and>
    dv_revoked_at d = None \<and> dv_signing_public_key d = Some (sk_public_key key) \<and>
    dv_token_hash d = hash_secret X (er_token resp) \<and>
    dv_id d \<notin> dv_id ` set (t_devices s) \<and> dv_token_hash d \<notin> dv_token_hash ` set (t_devices s) \<and>
    (\<forall>v \<in> set (t_codes s'). ec_code_hash v = ec_code_hash c \<longrightarrow> ec_consumed_at v \<noteq> None)"
proof -
  obtain push key d name where e: "normalized_signing_key X (en_signing_key req) = Inr key"
    "enroll_transaction X s req push key E = Inr (d, name, s')" "er_device_id resp = dv_id d"
    "er_token resp = generate_token ''nod_device'' E"
    using assms by (rule enroll_device_ok)
  let ?h = "hash_secret X (trim (en_code req))"
  from enroll_transaction_ok [OF e(2)] obtain c :: code_row and u where
    c: "c \<in> set (t_codes s)" "ec_code_hash c = ?h" "ec_consumed_at c = None"
    "e_now E 0 < of_millis (ec_expires_at c)" "get_user s (ec_user_id c) = Inr u" "dv_user_id d = ec_user_id c"
    and ins: "insert_device (s\<lparr>t_codes := sql_update (\<lambda>c. ec_code_hash c = ?h \<and> ec_consumed_at c = None)
      (\<lambda>c. c\<lparr>ec_consumed_at := Some (millis (e_now E 0))\<rparr>) (t_codes s)\<rparr>) d = Inr s'"
    and d: "dv_revoked_at d = None" "dv_signing_public_key d = Some (sk_public_key key)"
    "dv_token_hash d = hash_secret X (generate_token ''nod_device'' E)"
    by blast
  have "user_active s (ec_user_id c)" using get_user_ok [OF c(5)] by (auto simp: user_active_def list_ex_iff)
  moreover have "t_devices s' = t_devices s @ [d]" "dv_id d \<notin> dv_id ` set (t_devices s)"
    "dv_token_hash d \<notin> dv_token_hash ` set (t_devices s)"
    using ins by (auto simp: insert_device_def list_ex_iff split: if_splits)
  moreover have "ec_consumed_at v \<noteq> None" if "v \<in> set (t_codes s')" "ec_code_hash v = ec_code_hash c" for v
    using ins that c(2) by (auto simp: insert_device_def set_sql_update split: if_splits)
  ultimately show ?thesis using c d e by metis
qed

text \<open>
  C31 (safety). An enrollment code enrolls one device: after a success no later attempt with the same code
  succeeds or changes anything.
\<close>

theorem enrollment_code_single_use:
  assumes "reachable X s" and "enroll_device X s req E = (Inr resp, s1)" and "server_steps X s1 s2"
    and "hash_secret X (trim (en_code req')) = hash_secret X (trim (en_code req))"
  shows "\<exists>e. enroll_device X s2 req' E' = (Inl e, s2)"
proof -
  let ?h = "hash_secret X (trim (en_code req))"
  obtain c where c: "c \<in> set (t_codes s)" "ec_code_hash c = ?h"
    "\<forall>v \<in> set (t_codes s1). ec_code_hash v = ec_code_hash c \<longrightarrow> ec_consumed_at v \<noteq> None"
    using enrollment_effect [OF assms(2)] by blast
  have st: "server_step X s s1" using server_step.enroll [of X s req E] assms(2) by simp
  then have reach: "reachable X s1" using assms(1) by (rule reachable.step [rotated])
  from keep_step [OF st] c(1) obtain c1 where c1: "c1 \<in> set (t_codes s1)" "code_core c1 = code_core c"
    by (auto simp: accounts_keep_def rows_keep_def)
  have used: "ec_consumed_at v \<noteq> None" if "v \<in> set (t_codes s2)" "ec_code_hash v = ?h" for v
    using code_kept [OF assms(3) c1(1) _ that(1) _ reachable_later [OF reach assms(3)]] c c1 that(2)
    by (simp add: code_core_def)
  have "enroll_device X s2 req' E' = (r, s3) \<Longrightarrow> \<exists>e. (r, s3) = (Inl e, s2)" for r s3
  proof (cases r)
    case (Inr resp')
    moreover assume "enroll_device X s2 req' E' = (r, s3)"
    ultimately obtain v where "v \<in> set (t_codes s2)" "ec_code_hash v = ?h" "ec_consumed_at v = None"
      using enrollment_effect [of X s2 req' E' resp' s3] assms(4) by auto
    with used show ?thesis by blast
  next
    case (Inl e)
    moreover assume op: "enroll_device X s2 req' E' = (r, s3)"
    moreover have "s3 = s2"
      using op
    proof (cases rule: enroll_device_cases)
      case (2 push key d user_name)
      from enroll_transaction_ok [OF this(2)] used assms(4) show ?thesis by metis
    qed simp
    ultimately show ?thesis by simp
  qed
  then show ?thesis by (cases "enroll_device X s2 req' E'") auto
qed

section \<open>Witnesses\<close>

theorem devices_accountable_witness:
  "dv_revoked_at demo_device = None \<and> dv_user_id demo_device = owner \<and>
   (\<exists>u \<in> set (t_users run2). us_id u = owner \<and> us_deleted_at u = None)"
proof -
  have "demo_device \<in> set (t_devices run2)" by simp
  from devices_accountable [OF run2_reachable this] show ?thesis by simp
qed

theorem preferences_normal_form_witness:
  "demo_device \<in> set (t_devices run2) \<and> sorted (dp_muted_channels (dv_preferences demo_device))"
proof -
  have d: "demo_device \<in> set (t_devices run2)" by simp
  from preferences_normal_form [OF run2_reachable d] d show ?thesis by simp
qed

theorem device_identity_is_fixed_witness:
  "\<exists>d' \<in> set (t_devices run4). device_core d' = device_core demo_device"
proof -
  have d: "demo_device \<in> set (t_devices run3)" by simp
  from device_identity_is_fixed [OF run3_reachable run3_to_run4 d] show ?thesis by blast
qed

definition run5 :: db where "run5 = set_devices run3 (active_device [99, 97]) (revoke 0)"

lemma run5_step: "delete_device run3 [99, 97] 0 = Inr run5"
  by (simp add: delete_device_def run5_def sql_count_def active_device_def)

lemma run5_reachable: "reachable demo_ext run5"
  using run5_step run3_reachable by (blast intro: reachable.step server_step.drop_device)

theorem revoked_device_cannot_decide_witness:
  "demo_device \<in> set (t_devices run3) \<and> (\<forall>E r s'. record_decision demo_ext run5 demo_submission E \<noteq> Inr (r, s'))"
proof -
  have d: "revoke 0 demo_device \<in> set (t_devices run5)" "dv_revoked_at (revoke 0 demo_device) \<noteq> None"
    "dv_id demo_device = dv_id (revoke 0 demo_device)"
    by (simp_all add: run5_def set_devices_def sql_update_def active_device_def revoke_def)
  have "record_decision demo_ext run5 demo_submission E \<noteq> Inr (r, s')" for E r s'
    by (rule revoked_device_cannot_decide [OF run5_reachable d(1,2) rtranclp.rtrancl_refl _ d(3)]) simp
  then show ?thesis by simp
qed

lemma demo_enroll_ok: "\<exists>resp. enroll_device demo_ext run1 demo_body (demo_env 2 0) = (Inr resp, run2)"
proof -
  have "trim (en_device_name demo_body) \<noteq> []" by (simp add: demo_body_def is_whitespace_def)
  then show ?thesis
    by (simp add: enroll_device_def demo_push demo_key demo_enrolled list_channels_for_device_def
        list_user_devices_def get_device_def get_user_def)
qed

theorem enrollment_effect_witness:
  "\<exists>resp d. enroll_device demo_ext run1 demo_body (demo_env 2 0) = (Inr resp, run2) \<and>
     t_devices run2 = t_devices run1 @ [d] \<and> dv_id d = er_device_id resp \<and> dv_revoked_at d = None"
proof -
  obtain resp where r: "enroll_device demo_ext run1 demo_body (demo_env 2 0) = (Inr resp, run2)"
    using demo_enroll_ok by blast
  from enrollment_effect [OF r] r show ?thesis by blast
qed

theorem enrollment_code_single_use_witness:
  "\<exists>resp. enroll_device demo_ext run1 demo_body (demo_env 2 0) = (Inr resp, run2) \<and>
     (\<exists>e. enroll_device demo_ext run2 demo_body (demo_env 6 0) = (Inl e, run2))"
proof -
  obtain resp where r: "enroll_device demo_ext run1 demo_body (demo_env 2 0) = (Inr resp, run2)"
    using demo_enroll_ok by blast
  have "reachable demo_ext run1"
    using run1_step run0_reachable by (blast intro: reachable.step server_step.new_code)
  from enrollment_code_single_use [OF this r rtranclp.rtrancl_refl refl] r show ?thesis by blast
qed

end
