(* ===== verification/Queue_Facts.thy ===== *)
theory Queue_Facts
  imports Request_Facts Account_Persistence
begin

text \<open>
  The properties of the three delivery queues (nod-server db/lifecycle.rs, db/callback_deliveries.rs,
  db/push_deliveries.rs) on the states the server reaches: the facts of the lease contract, read off
  its interpretations, and what the queues keep across every other operation.
\<close>

lemma reachable_queues:
  assumes "reachable X s"
  shows "journal_wf s" "callbacks_wf s" "callback_order (t_callbacks s)" "push_inv s"
  using server_inv_reachable [OF assms]
  by (simp_all add: server_inv_def request_side_inv_def requests_inv_def base_inv_def callback_inv_def journal_ok_def)

section \<open>Published events\<close>

text \<open>Every operation keeps the events, and the mark of the published ones.\<close>

definition events_keep :: "db \<Rightarrow> db \<Rightarrow> bool" where
  "events_keep s s' \<longleftrightarrow> rows_keep ev_event_id ev_published_at (t_events s) (t_events s')"

lemma events_keep_append: "t_events s' = t_events s @ es \<Longrightarrow> events_keep s s'"
  by (simp add: events_keep_def)

lemma events_keep_same: "t_events s' = t_events s \<Longrightarrow> events_keep s s'"
  by (simp add: events_keep_def)

lemma events_keep_side: "requests_side s' = requests_side s \<Longrightarrow> events_keep s s'"
  by (simp add: events_keep_def requests_side_def)

lemma events_keep_trans: "events_keep s s1 \<Longrightarrow> events_keep s1 s2 \<Longrightarrow> events_keep s s2"
  unfolding events_keep_def by (rule rows_keep_trans)

lemma events_keep_requests:
  assumes "requests_inv s"
  shows "create_request X s req m E = Inr (c, s') \<Longrightarrow> events_keep s s'"
    and "record_decision X s sub E = Inr (r, s') \<Longrightarrow> events_keep s s'"
    and "cancel_request X s rid E = Inr (r, s') \<Longrightarrow> events_keep s s'"
    and "expire_due_requests X s E = Inr (rs, s') \<Longrightarrow> events_keep s s'"
    and "events_keep s (delete_requests s P)"
proof -
  show "events_keep s s'" if "create_request X s req m E = Inr (c, s')"
    using that
  proof (cases rule: create_request_cases)
    case (new recipients scope fp key)
    from insert_new_request_ok [OF new(1)] show ?thesis by (blast intro: events_keep_append)
  qed (simp add: events_keep_same)
  show "events_keep s s'" if "record_decision X s sub E = Inr (r, s')"
    using record_decision_advances [OF assms that] by (auto simp: advances_def intro: events_keep_append)
  show "events_keep s s'" if "cancel_request X s rid E = Inr (r, s')"
    using cancel_request_advances [OF assms that] by (auto simp: advances_def intro: events_keep_append)
  show "events_keep s s'" if "expire_due_requests X s E = Inr (rs, s')"
    using append_expired_frame [OF that [unfolded expire_due_requests_def Let_def]]
    by (auto intro: events_keep_append)
  show "events_keep s (delete_requests s P)"
    by (rule events_keep_same) (simp add: delete_requests_def Let_def)
qed

lemma events_keep_publisher:
  "events_keep s (snd (claim_event s E))" "events_keep s (snd (published s c n t))" "events_keep s (snd (publish_retry s c E))"
  by (auto simp: events_keep_def claim_event_def published_def publish_retry_def holds_event_lease_def Let_def
      intro!: rows_keep_update split: option.split)

lemma events_keep_other_queues:
  "events_keep s (snd (claim_callback s E))" "complete_callback s d status t = Inr (b, s') \<Longrightarrow> events_keep s s'"
  "events_keep s (snd (retry_callback s d st blocked E))"
  "events_keep s (recover_pushes s t)" "events_keep s (snd (claim_pushes s limit t))"
  "begin_attempt s j t = Inr (j', s') \<Longrightarrow> events_keep s s'" "update_push s j status' err t = Inr s' \<Longrightarrow> events_keep s s'"
  by (auto simp: claim_callback_def complete_callback_def retry_callback_def recover_pushes_def claim_pushes_def
      begin_attempt_def update_push_def Let_def intro!: events_keep_same split: list.split if_splits)

lemma events_keep_deletions:
  assumes "requests_inv s"
  shows "events_keep s (snd (prune_retention s n now))" "delete_channel s cid = Inr s' \<Longrightarrow> events_keep s s'"
  using events_keep_requests(5) [OF assms] side_delete_channel
  by (auto simp: prune_retention_def Let_def events_keep_def requests_side_def)

lemma events_keep_bind_origin: "bind_origin s p rid g = Inr s' \<Longrightarrow> events_keep s s'"
  by (drule bind_origin_ok) (auto intro: events_keep_same)

lemma events_keep_step:
  assumes step: "server_step X s s'" and inv: "server_inv s"
  shows "events_keep s s'"
proof -
  note r = server_inv_parts(1) [OF inv]
  note side = side_account_steps [THEN events_keep_side]
  show ?thesis
    by (rule server_stepE [OF step]; (erule events_keep_requests(1-4) [OF r] events_keep_other_queues(2,6,7)
          events_keep_deletions(2) [OF r] side(7-18) events_keep_bind_origin |
        (simp only:, rule events_keep_deletions(1) [OF r] events_keep_publisher events_keep_other_queues(1,3-5)
          side(1-6) side_update_subscriptions [THEN events_keep_side] side_create_user [THEN events_keep_side]
          side_enroll [THEN events_keep_side])))
qed

lemma events_keep_steps: "server_steps X s s' \<Longrightarrow> server_inv s \<Longrightarrow> events_keep s s'"
proof (induction rule: rtranclp_induct)
  case (step s1 s2)
  with evolves_steps [OF step.hyps(1) step.prems] show ?case
    by (blast intro: events_keep_trans events_keep_step)
qed (simp add: events_keep_same)

lemma published_mark:
  assumes "journal_wf s" "published s c n t = (True, s')"
  obtains e where "e \<in> set (t_events s')" "ev_event_id e = pc_event_id c" "ev_published_at e \<noteq> None"
proof -
  have op: "event_published s (pc_event_id c) (pc_lease_token c) (now_string t) s'"
    using assms(2) by (auto simp: event_published_def)
  from pub.settle_closes [OF assms(1) op] obtain e where "find_event s' (pc_event_id c) = Some e" "ev_published_at e \<noteq> None"
    by (auto simp: event_closed_def split: option.splits)
  with find_event_iff [OF pub.wf_settle [OF assms(1) op]] that show thesis by blast
qed

lemma closed_event:
  assumes "journal_wf s" "e \<in> set (t_events s)" "ev_published_at e \<noteq> None"
  shows "event_closed s (ev_event_id e)"
  using assms find_event_iff [OF assms(1), of "ev_event_id e" e] by (simp add: event_closed_def)

text \<open>
  An event is published once: after a worker has recorded the publication, no worker is
  handed the event again and none can record it again, in any later state of the server.
\<close>

theorem publication_is_final:
  assumes "reachable X s" and "published s c n t = (True, s1)" and "server_steps X s1 s2"
    and "pc_event_id c' = pc_event_id c"
  shows "claim_event s2 E \<noteq> (Some c', s3) \<and> \<not> fst (published s2 c' n' t')"
proof -
  from assms(2) have "server_step X s s1" using server_step.publish [of X s c n t] by simp
  with assms(1) have r1: "reachable X s1" by (rule reachable.step)
  with assms(3) have wf: "journal_wf s2" using reachable_steps reachable_queues(1) by blast
  obtain e where e: "e \<in> set (t_events s1)" "ev_event_id e = pc_event_id c" "ev_published_at e \<noteq> None"
    by (rule published_mark [OF reachable_queues(1) [OF assms(1)] assms(2)])
  from events_keep_steps [OF assms(3) server_inv_reachable [OF r1]] e obtain e' where
    "e' \<in> set (t_events s2)" "ev_event_id e' = pc_event_id c" "ev_published_at e' \<noteq> None"
    unfolding events_keep_def rows_keep_def by metis
  with closed_event [OF wf] have closed: "event_closed s2 (pc_event_id c')" using assms(4) by metis
  have "\<not> event_claims s2 (now_string (e_now E 0)) s3 (pc_event_id c') (pc_lease_token c')"
    using pub.claim_free [OF wf] closed by blast
  moreover have "\<not> event_published s2 (pc_event_id c') (pc_lease_token c') (now_string t') (snd (published s2 c' n' t'))"
    using pub.settle_owner [OF wf] closed by blast
  ultimately show ?thesis
    by (auto simp: event_claims_def event_published_def) (metis prod.collapse)
qed

text \<open>
  A publisher that lost its lease is fenced off: once the event was handed to another
  worker, under another token, the former one can neither record the publication nor hand the event back.
\<close>

theorem publisher_is_fenced:
  assumes "reachable X s" and "claim_event s E = (Some c, s')"
    and "pc_event_id c' = pc_event_id c" and "pc_lease_token c' \<noteq> pc_lease_token c"
  shows "\<not> fst (published s' c' n t) \<and> \<not> fst (publish_retry s' c' E')"
proof -
  note wf = reachable_queues(1) [OF assms(1)]
  have cl: "event_claims s (now_string (e_now E 0)) s' (pc_event_id c) (pc_lease_token c)"
    using assms(2) by (auto simp: event_claims_def)
  from pub.fenced [OF wf cl assms(4), folded assms(3)] pub_retry.fenced [OF wf cl assms(4), folded assms(3)]
  show ?thesis by (auto simp: event_published_def event_retried_def) (metis prod.collapse)+
qed

section \<open>Callbacks and pushes\<close>

text \<open>
  C30 (invariant). Callbacks of a request go out in the order of its revisions: in every reachable state,
  when one is being sent or was delivered, all those of earlier revisions have been delivered.
\<close>

theorem callbacks_in_order:
  assumes "reachable X s" and "w \<in> set (t_callbacks s)" and "cb_state w = ST_SENDING \<or> cb_state w = ST_DELIVERED"
  shows "\<forall>v \<in> set (t_callbacks s). cb_request_id v = cb_request_id w \<longrightarrow>
    cb_request_revision v < cb_request_revision w \<longrightarrow> cb_state v = ST_DELIVERED"
proof -
  from assms have "\<not> older_undelivered (t_callbacks s) w"
    using reachable_queues(3) [OF assms(1)] by (auto simp: callback_order_def in_flight_def)
  then show ?thesis by (simp only: older_undelivered_iff) blast
qed

text \<open>
  A push is sent at most three times: an attempt begins only for the worker that owns the
  row's claim and lease, and the attempt it counts is the first, second or third.
\<close>

theorem push_attempts_bounded:
  assumes "reachable X s" and "begin_attempt s j t = Inr (j', s')"
  shows "1 \<le> pj_attempts j' \<and> pj_attempts j' \<le> MAX_ATTEMPTS \<and> pj_attempts j' = pj_attempts j + 1 \<and>
    (\<exists>w \<in> set (t_push s). owns_push j (unixepoch t) w) \<and>
    (\<exists>w \<in> set (t_push s'). owns_push j' (unixepoch t) w)"
proof -
  let ?P = "\<lambda>w. owns_push j (unixepoch t) w \<and> pd_attempts w < 3"
  let ?f = "\<lambda>w. w\<lparr>pd_attempts := pd_attempts w + 1, pd_updated_at := now_string t\<rparr>"
  from assms(2) have one: "sql_count ?P (t_push s) = 1" and j': "j' = j\<lparr>pj_attempts := pj_attempts j + 1\<rparr>"
    and s': "s' = s\<lparr>t_push := sql_update ?P ?f (t_push s)\<rparr>"
    by (auto simp: begin_attempt_def Let_def split: if_splits)
  from one obtain w where w: "w \<in> set (t_push s)" "owns_push j (unixepoch t) w" "pd_attempts w < 3"
    unfolding sql_count_def by (metis (mono_tags, lifting) One_nat_def filter_empty_conv length_0_conv zero_neq_one)
  with reachable_queues(4) [OF assms(1)] have "0 \<le> pd_attempts w" by (auto simp: push_inv_def push_row_ok_def)
  moreover from w have "?f w \<in> set (t_push s')" by (auto simp: s' set_sql_update)
  moreover from w have "owns_push j' (unixepoch t) (?f w)" by (simp add: owns_push_def push_key_def j')
  ultimately show ?thesis using w by (auto simp: j' MAX_ATTEMPTS_def owns_push_def)
qed

section \<open>Witnesses\<close>

lemma demo_event_queued [simp]:
  "ev_published_at (demo_event r w kind d eid) = None" "ev_next_attempt_at (demo_event r w kind d eid) = 0"
  "ev_lease_until (demo_event r w kind d eid) = None" "ev_attempts (demo_event r w kind d eid) = 0"
  by (simp_all add: demo_event_def new_event_def Let_def now_string_def millis_def)

definition first_event :: event_row where "first_event = hd (t_events run4)"
definition second_event :: event_row where "second_event = last (t_events run4)"

lemma run4_events: "t_events run4 = [first_event, second_event]"
  by (simp add: first_event_def second_event_def run4_def)

lemma demo_events [simp]:
  "ev_event_id first_event = [100, 98]" "ev_seq first_event = 1" "ev_attempts first_event = 0"
  "ev_published_at first_event = None" "ev_next_attempt_at first_event = 0" "ev_lease_until first_event = None"
  "ev_event_id second_event = [101, 97]" "ev_seq second_event = 2"
  by (simp_all add: first_event_def second_event_def run4_def)

definition first_claim :: publish_claim where
  "first_claim = \<lparr>pc_event_id = [100, 98], pc_subject = ev_subject first_event,
     pc_envelope = ev_envelope first_event, pc_lease_token = [102, 97], pc_attempts = 1\<rparr>"

definition run5_claimed :: db where
  "run5_claimed = run4\<lparr>t_events := [first_event\<lparr>ev_lease_token := Some [102, 97], ev_lease_until := Some 60000,
     ev_attempts := 1\<rparr>, second_event]\<rparr>"

lemma run5_claim: "claim_event run4 (demo_env 5 0) = (Some first_claim, run5_claimed)"
  by (simp add: run5_claimed_def first_claim_def claim_event_def Let_def now_string_def millis_def seconds_def
      run4_events publish_due_def lease_free_def sql_update_def)

lemma run5_claimed_reachable: "reachable demo_ext run5_claimed"
  using reachable.step [OF run4_reachable server_step.claim_publish, of "demo_env 5 0"] by (simp add: run5_claim)

theorem publisher_is_fenced_witness:
  "\<not> fst (published run5_claimed (first_claim\<lparr>pc_lease_token := [103]\<rparr>) 7 0)"
  using publisher_is_fenced [OF run4_reachable run5_claim, of "first_claim\<lparr>pc_lease_token := [103]\<rparr>" 7 0]
  by (simp add: first_claim_def)

lemma run5_published: "fst (published run5_claimed first_claim 7 0)"
  by (simp add: published_def Let_def run5_claimed_def first_claim_def holds_event_lease_def sql_count_def
      now_string_def millis_def)

theorem publication_is_final_witness:
  "\<not> fst (published (snd (published run5_claimed first_claim 7 0)) first_claim 8 1)"
proof -
  have "published run5_claimed first_claim 7 0 = (True, snd (published run5_claimed first_claim 7 0))"
    using run5_published by (metis prod.collapse)
  from publication_is_final [OF run5_claimed_reachable this rtranclp.rtrancl_refl refl] show ?thesis by blast
qed

text \<open>The callback of the decision, and the push of the card.\<close>

definition run5_sending :: db where "run5_sending = snd (claim_callback run4 (demo_env 5 0))"

lemma run5_sending_reachable: "reachable demo_ext run5_sending"
  unfolding run5_sending_def by (rule reachable.step [OF run4_reachable server_step.claim_delivery])

lemma run5_sending_states: "map cb_state (t_callbacks run5_sending) = [ST_SENDING]"
  by (simp add: run5_sending_def claim_callback_def Let_def run4_def new_callback_def callback_due_def
      older_undelivered_def now_string_def millis_def lease_free_def sql_update_def ST_DELIVERED_def)

theorem callbacks_in_order_witness:
  "\<exists>w \<in> set (t_callbacks run5_sending). cb_state w = ST_SENDING \<and>
     (\<forall>v \<in> set (t_callbacks run5_sending). cb_request_id v = cb_request_id w \<longrightarrow>
        cb_request_revision v < cb_request_revision w \<longrightarrow> cb_state v = ST_DELIVERED)"
proof -
  from run5_sending_states obtain w where "w \<in> set (t_callbacks run5_sending)" "cb_state w = ST_SENDING" by auto
  with callbacks_in_order [OF run5_sending_reachable] show ?thesis by blast
qed

definition run5_push :: db where
  "run5_push = run4\<lparr>t_push := [demo_push_row\<lparr>pd_status := PS_SENDING, pd_claim_generation := 1,
     pd_lease_until := Some 90\<rparr>]\<rparr>"

definition demo_job :: push_job where
  "demo_job = \<lparr>pj_request_id = [100, 97], pj_device_id = [99, 97], pj_attempts = 0, pj_claim_generation = 1\<rparr>"

lemma run5_push_claim: "claim_pushes run4 10 0 = ([demo_job], run5_push)"
  by (simp add: claim_pushes_def Let_def claimable_pushes_def run4_def run3_def demo_push_row_def run5_push_def
      demo_job_def claim_row_def job_of_def push_key_def sql_update_def PS_QUEUED_def unixepoch_def
      LEASE_SECONDS_def now_string_def millis_def)

lemma run5_push_reachable: "reachable demo_ext run5_push"
  using reachable.step [OF run4_reachable server_step.claim_push, of 10 0] by (simp add: run5_push_claim)

theorem push_attempts_bounded_witness:
  "\<exists>s'. begin_attempt run5_push demo_job 0 = Inr (demo_job\<lparr>pj_attempts := 1\<rparr>, s') \<and>
     (\<exists>w \<in> set (t_push s'). owns_push (demo_job\<lparr>pj_attempts := 1\<rparr>) 0 w)"
proof -
  obtain s' where op: "begin_attempt run5_push demo_job 0 = Inr (demo_job\<lparr>pj_attempts := 1\<rparr>, s')"
    by (simp add: begin_attempt_def Let_def run5_push_def demo_job_def owns_push_def push_key_def demo_push_row_def
        sql_count_def unixepoch_def)
  from push_attempts_bounded [OF run5_push_reachable op] op show ?thesis by (auto simp: unixepoch_def)
qed

end
