(* ===== verification/Auth_Facts.thy ===== *)
theory Auth_Facts
  imports Auth
begin

text \<open>
  The admin session cookie round trip, and what a successful authentication rests on.
\<close>

text \<open>The hex crate writes hex digits only.\<close>

definition hex_digits_ok :: "ext \<Rightarrow> bool" where
  "hex_digits_ok X \<longleftrightarrow> (\<forall>b. list_all is_ascii_hexdigit (x_hex X b))"

definition plain :: "nat \<Rightarrow> bool" where
  "plain c \<longleftrightarrow> 33 \<le> c \<and> c < 127 \<and> c \<noteq> 59"

lemma plain_visible: "plain c \<Longrightarrow> 32 \<le> c \<and> c < 127" and plain_not_space: "plain c \<Longrightarrow> \<not> is_whitespace c"
  by (auto simp: plain_def is_whitespace_def)

lemma strip_both_absent: "list_all (\<lambda>c. \<not> P c) s \<Longrightarrow> strip_both P s = s"
proof -
  have "list_all (\<lambda>c. \<not> P c) t \<Longrightarrow> dropWhile P t = t" for t by (cases t) auto
  then show "list_all (\<lambda>c. \<not> P c) s \<Longrightarrow> strip_both P s = s" by (simp add: strip_both_def)
qed

lemma trim_plain: "list_all plain s \<Longrightarrow> trim s = s"
  unfolding trim_def by (rule strip_both_absent) (auto simp: list_all_iff plain_not_space)

lemma session_value_plain:
  assumes "hex_digits_ok X"
  shows "list_all plain (admin_session_value X e token)"
proof -
  have "list_all plain (show_int e)"
    by (auto simp: list_all_iff plain_def is_ascii_digit_def dest!: show_int_chars)
  moreover have "list_all plain (admin_session_signature X e token)"
  proof -
    have hex: "is_ascii_hexdigit c \<Longrightarrow> plain c" for c
      by (auto simp: plain_def is_ascii_hexdigit_def is_ascii_digit_def)
    have "list_all is_ascii_hexdigit (admin_session_signature X e token)"
      using assms by (simp add: hex_digits_ok_def admin_session_signature_def hash_secret_def)
    then show ?thesis using hex by (simp add: list_all_iff)
  qed
  ultimately show ?thesis by (simp add: admin_session_value_def plain_def lit_def)
qed

text \<open>What a browser sends back for the cookie.\<close>

definition session_header :: "ext \<Rightarrow> int \<Rightarrow> rstr \<Rightarrow> rstr \<times> byte list" where
  "session_header X e token = (COOKIE, ADMIN_SESSION_COOKIE @ lit ''='' @ admin_session_value X e token)"

lemma session_cookie_value:
  assumes "hex_digits_ok X" "\<forall>h \<in> set others. fst h \<noteq> COOKIE"
  shows "cookie_value (others @ [session_header X e token]) ADMIN_SESSION_COOKIE = Some (admin_session_value X e token)"
proof -
  let ?c = "ADMIN_SESSION_COOKIE @ lit ''='' @ admin_session_value X e token"
  have plain: "list_all plain ?c"
    using session_value_plain [OF assms(1)] by (simp add: ADMIN_SESSION_COOKIE_def plain_def lit_def)
  have visible: "header_text ?c = Some ?c"
    using plain by (auto simp: header_text_def list_all_iff dest!: plain_visible)
  have pieces: "split_on 59 ?c = [?c]"
    using plain by (intro split_on_absent) (auto simp: list_all_iff plain_def)
  have others: "List.map_filter (\<lambda>h. if fst h = COOKIE then header_text (snd h) else None) others = []"
    using assms(2) by (induction others) (auto simp: List.map_filter_def)
  have parts: "split_once 61 ?c = Some (ADMIN_SESSION_COOKIE, admin_session_value X e token)"
    by (subst split_once_Some) (simp add: ADMIN_SESSION_COOKIE_def lit_def)
  have "cookie_pairs (others @ [session_header X e token]) = [(ADMIN_SESSION_COOKIE, admin_session_value X e token)]"
    unfolding cookie_pairs_def session_header_def
    using others visible pieces trim_plain [OF plain] parts
    by (simp add: List.map_filter_def)
  then show ?thesis by (simp add: cookie_value_def)
qed

text \<open>
  The session cookie the server sets for an admin token is accepted until the second its
  expiry says and not from then on, and by a server with another token only if the signatures over
  the expiry and the two tokens coincide.
\<close>

theorem admin_session_round_trip:
  assumes "hex_digits_ok X" and "- (2 ^ 63) \<le> e" and "e < 2 ^ 63" and "\<forall>h \<in> set others. fst h \<noteq> COOKIE"
  shows "valid_admin_session X (others @ [session_header X e token]) token' now \<longleftrightarrow>
    timestamp now < e \<and> admin_session_signature X e token' = admin_session_signature X e token"
proof -
  have ascii: "list_all is_ascii_hexdigit (admin_session_signature X e t)" for t
    using assms(1) by (simp add: hex_digits_ok_def admin_session_signature_def hash_secret_def)
  have utf: "list_all is_ascii_hexdigit s \<Longrightarrow> utf8 s = s" for s
    by (induction s) (auto simp: utf8_char_def is_ascii_hexdigit_def is_ascii_digit_def)
  have "46 \<notin> set (show_int e)" by (auto simp: is_ascii_digit_def dest!: show_int_chars)
  then have "split_once 46 (admin_session_value X e token) = Some (show_int e, admin_session_signature X e token)"
    by (simp add: admin_session_value_def lit_def)
  with session_cookie_value [OF assms(1,4)] parse_show_int [OF assms(2,3)] show ?thesis
    by (auto simp: valid_admin_session_def utf [OF ascii])
qed

text \<open>Real hex text, for the witness.\<close>

definition hex_digit :: "nat \<Rightarrow> nat" where
  "hex_digit n = (if n mod 16 < 10 then 48 + n mod 16 else 87 + n mod 16)"

definition hex_text :: "byte list \<Rightarrow> rstr" where
  "hex_text b = concat (map (\<lambda>c. [hex_digit (c div 16), hex_digit c]) b)"

lemma hex_digit_ok: "is_ascii_hexdigit (hex_digit n)"
proof -
  have "n mod 16 < 16" by simp
  then show ?thesis unfolding hex_digit_def is_ascii_hexdigit_def is_ascii_digit_def by auto
qed

definition hex_ext :: ext where "hex_ext = sample_ext\<lparr>x_hex := hex_text\<rparr>"

lemma hex_ext_ok: "hex_digits_ok hex_ext"
  by (auto simp: hex_digits_ok_def hex_ext_def hex_text_def list_all_iff hex_digit_ok)

theorem admin_session_round_trip_witness:
  "valid_admin_session hex_ext [session_header hex_ext 100 (lit ''secret'')] (lit ''secret'') 99000000000 \<and>
   \<not> valid_admin_session hex_ext [session_header hex_ext 100 (lit ''secret'')] (lit ''secret'') 100000000000"
  using admin_session_round_trip [OF hex_ext_ok, of 100 "[]" "lit ''secret''" "lit ''secret''"]
  by (simp add: timestamp_def)

end
