(* ===== verification/Config.thy ===== *)
theory Config
  imports Validation Decimal_Text
begin

text \<open>
  The server configuration (nod-server config.rs, config/file.rs, config/environment.rs and
  config/integrations.rs): the values of the parsed configuration file, the environment variables
  that override them, and the checks at startup. The environment is a lookup function, the files named
  by \<open>*_FILE\<close> variables are read by a second one, and URLs are parsed by the url crate's function. An
  error is the fixed part of its message.
\<close>

text \<open>What \<open>url::Url\<close> gives of a parsed URL.\<close>

record url =
  ur_scheme :: rstr
  ur_host :: "rstr option"
  ur_username :: rstr
  ur_password :: "rstr option"
  ur_path :: rstr
  ur_query :: "rstr option"
  ur_fragment :: "rstr option"
  ur_origin :: rstr

type_synonym url_parser = "rstr \<Rightarrow> url option"
type_synonym 'a config_result = "rstr + 'a"

definition bail :: "string \<Rightarrow> 'a config_result" where
  "bail m = Inl (lit m)"

definition has_text :: "rstr option \<Rightarrow> bool" where
  "has_text v \<longleftrightarrow> (case v of None \<Rightarrow> False | Some t \<Rightarrow> trim t \<noteq> [])"

definition path_configured :: "rstr option \<Rightarrow> bool" where
  "path_configured p \<longleftrightarrow> (case p of None \<Rightarrow> False | Some t \<Rightarrow> t \<noteq> [])"

section \<open>Device attestation\<close>

datatype attestation_mode = ReportOnly

fun attestation_mode_str :: "attestation_mode \<Rightarrow> rstr" where
  "attestation_mode_str ReportOnly = lit ''report_only''"

definition attestation_mode_parse :: "rstr \<Rightarrow> attestation_mode config_result" where
  "attestation_mode_parse value =
     (if trim value = lit ''report_only'' then Inr ReportOnly else bail ''unsupported device attestation mode'')"

datatype attest_environment = Development | Production

fun attest_environment_str :: "attest_environment \<Rightarrow> rstr" where
  "attest_environment_str Development = lit ''development''"
| "attest_environment_str Production = lit ''production''"

definition attest_environment_parse :: "rstr \<Rightarrow> attest_environment config_result" where
  "attest_environment_parse value =
     (if trim value = lit ''development'' \<or> trim value = lit ''sandbox'' then Inr Development
      else if trim value = lit ''production'' then Inr Production
      else bail ''unsupported App Attest environment'')"

record attest_config =
  aa_mode :: attestation_mode
  aa_team_id :: "rstr option"
  aa_bundle_ids :: "rstr list"
  aa_environment :: attest_environment

definition default_attest_config :: attest_config where
  "default_attest_config = \<lparr>aa_mode = ReportOnly, aa_team_id = None, aa_bundle_ids = [], aa_environment = Production\<rparr>"

definition normalized_bundle_ids :: "attest_config \<Rightarrow> rstr list" where
  "normalized_bundle_ids c = filter (\<lambda>b. b \<noteq> []) (map trim (aa_bundle_ids c))"

definition attest_configured :: "attest_config \<Rightarrow> bool" where
  "attest_configured c \<longleftrightarrow> has_text (aa_team_id c) \<and> normalized_bundle_ids c \<noteq> []"

definition attest_validate :: "attest_config \<Rightarrow> unit config_result" where
  "attest_validate c =
     (if (case aa_team_id c of None \<Rightarrow> False | Some t \<Rightarrow> trim t = [])
      then bail ''device_attestation.apple_app_attest.team_id must not be empty''
      else if list_ex (\<lambda>b. trim b = []) (aa_bundle_ids c)
      then bail ''device_attestation.apple_app_attest.bundle_ids must not contain empty values''
      else Inr ())"

section \<open>Notifications\<close>

record apns_direct_config =
  dc_bundle_id :: "rstr option"
  dc_team_id :: "rstr option"
  dc_key_id :: "rstr option"
  dc_private_key_path :: "rstr option"
  dc_environment :: "rstr option"

definition default_direct :: apns_direct_config where
  "default_direct = \<lparr>dc_bundle_id = None, dc_team_id = None, dc_key_id = None, dc_private_key_path = None,
     dc_environment = None\<rparr>"

definition direct_enabled :: "apns_direct_config \<Rightarrow> bool" where
  "direct_enabled c \<longleftrightarrow> has_text (dc_bundle_id c) \<and> has_text (dc_team_id c) \<and> has_text (dc_key_id c) \<and>
     path_configured (dc_private_key_path c)"

definition direct_any_configured :: "apns_direct_config \<Rightarrow> bool" where
  "direct_any_configured c \<longleftrightarrow> has_text (dc_bundle_id c) \<or> has_text (dc_team_id c) \<or> has_text (dc_key_id c) \<or>
     path_configured (dc_private_key_path c) \<or> has_text (dc_environment c)"

definition direct_validate :: "apns_direct_config \<Rightarrow> unit config_result" where
  "direct_validate c =
     (if \<not> direct_any_configured c then Inr ()
      else if \<not> has_text (dc_bundle_id c) then bail ''notifications.apns_direct.bundle_id or NOD_APNS_DIRECT_BUNDLE_ID is required''
      else if \<not> has_text (dc_team_id c) then bail ''notifications.apns_direct.team_id or NOD_APNS_DIRECT_TEAM_ID is required''
      else if \<not> has_text (dc_key_id c) then bail ''notifications.apns_direct.key_id or NOD_APNS_DIRECT_KEY_ID is required''
      else if \<not> path_configured (dc_private_key_path c)
      then bail ''notifications.apns_direct.private_key_path or NOD_APNS_DIRECT_PRIVATE_KEY_PATH is required''
      else Inr ())"

record relay_tls_config =
  tl_client_cert :: "rstr option"
  tl_client_key :: "rstr option"
  tl_ca_cert :: "rstr option"

definition tls_validate :: "relay_tls_config \<Rightarrow> unit config_result" where
  "tls_validate c =
     (if \<not> path_configured (tl_client_cert c) then bail ''NOD_APNS_RELAY_CLIENT_CERT_PATH is required''
      else if \<not> path_configured (tl_client_key c) then bail ''NOD_APNS_RELAY_CLIENT_KEY_PATH is required''
      else if \<not> path_configured (tl_ca_cert c) then bail ''NOD_APNS_RELAY_CA_CERT_PATH is required''
      else Inr ())"

definition tls_any_configured :: "relay_tls_config \<Rightarrow> bool" where
  "tls_any_configured c \<longleftrightarrow> path_configured (tl_client_cert c) \<or> path_configured (tl_client_key c) \<or>
     path_configured (tl_ca_cert c)"

record apns_relay_config =
  rc_url :: "rstr option"
  rc_native_app_id :: "rstr option"
  rc_tls :: relay_tls_config

definition default_relay :: apns_relay_config where
  "default_relay = \<lparr>rc_url = None, rc_native_app_id = None,
     rc_tls = \<lparr>tl_client_cert = None, tl_client_key = None, tl_ca_cert = None\<rparr>\<rparr>"

definition client_enabled :: "apns_relay_config \<Rightarrow> bool" where
  "client_enabled c \<longleftrightarrow> has_text (rc_url c) \<and> has_text (rc_native_app_id c) \<and>
     path_configured (tl_client_cert (rc_tls c)) \<and> path_configured (tl_client_key (rc_tls c)) \<and>
     path_configured (tl_ca_cert (rc_tls c))"

definition relay_is_configured :: "apns_relay_config \<Rightarrow> bool" where
  "relay_is_configured c \<longleftrightarrow> has_text (rc_url c) \<or> has_text (rc_native_app_id c) \<or> tls_any_configured (rc_tls c)"

definition relay_validate :: "url_parser \<Rightarrow> apns_relay_config \<Rightarrow> unit config_result" where
  "relay_validate U c =
     (if \<not> relay_is_configured c then Inr ()
      else if \<not> has_text (rc_url c) then bail ''notifications.apns_relay.url or NOD_APNS_RELAY_URL is required''
      else if \<not> has_text (rc_native_app_id c)
      then bail ''notifications.apns_relay.native_app_id or NOD_APNS_RELAY_NATIVE_APP_ID is required''
      else bind_res (ok_or (lit ''invalid URL'') (U (case rc_url c of None \<Rightarrow> [] | Some u \<Rightarrow> u))) (\<lambda>u.
        if ur_scheme u \<noteq> lit ''https'' then bail ''notifications.apns_relay.url must use https for mTLS''
        else tls_validate (rc_tls c)))"

section \<open>The lifecycle stream\<close>

record nats_config =
  na_url :: "rstr option"
  na_credentials_file :: "rstr option"
  na_token_file :: "rstr option"
  na_user :: "rstr option"
  na_password_file :: "rstr option"
  na_inbox_prefix :: "rstr option"
  na_expected_stream :: rstr

definition default_nats :: nats_config where
  "default_nats = \<lparr>na_url = None, na_credentials_file = None, na_token_file = None, na_user = None,
     na_password_file = None, na_inbox_prefix = None, na_expected_stream = lit ''TOWER''\<rparr>"

definition nats_configured :: "nats_config \<Rightarrow> bool" where
  "nats_configured c \<longleftrightarrow> na_url c \<noteq> None \<or> na_credentials_file c \<noteq> None \<or> na_token_file c \<noteq> None \<or>
     na_user c \<noteq> None \<or> na_password_file c \<noteq> None \<or> na_inbox_prefix c \<noteq> None"

definition is_token_byte :: "nat \<Rightarrow> bool" where
  "is_token_byte c \<longleftrightarrow> is_ascii_alphanumeric c \<or> c = 95 \<or> c = 45"

definition nats_url_ok :: "url_parser \<Rightarrow> rstr option \<Rightarrow> bool" where
  "nats_url_ok U v \<longleftrightarrow> (case Option.bind v U of None \<Rightarrow> False
     | Some u \<Rightarrow> (ur_scheme u = lit ''nats'' \<or> ur_scheme u = lit ''tls'') \<and> ur_host u \<noteq> None \<and> ur_username u = [] \<and>
         ur_password u = None \<and> ur_query u = None \<and> ur_fragment u = None)"

definition nats_credentials_ok :: "nats_config \<Rightarrow> bool" where
  "nats_credentials_ok c \<longleftrightarrow>
     (case (na_credentials_file c, na_token_file c, na_user c, na_password_file c) of
        (Some path, None, None, None) \<Rightarrow> path \<noteq> []
      | (None, Some path, None, None) \<Rightarrow> path \<noteq> []
      | (None, None, Some user, Some path) \<Rightarrow>
          path \<noteq> [] \<and> user \<noteq> [] \<and> \<not> list_ex (\<lambda>ch. is_whitespace ch \<or> is_control ch) user
      | _ \<Rightarrow> False)"

definition nats_valid :: "url_parser \<Rightarrow> nats_config \<Rightarrow> bool" where
  "nats_valid U c \<longleftrightarrow> nats_url_ok U (na_url c) \<and> nats_credentials_ok c \<and>
     (case na_inbox_prefix c of None \<Rightarrow> True | Some p \<Rightarrow> p \<noteq> [] \<and> list_all is_token_byte (utf8 p)) \<and>
     na_expected_stream c \<noteq> [] \<and> list_all is_token_byte (utf8 (na_expected_stream c))"

section \<open>The whole configuration\<close>

record server_config =
  cg_nats :: nats_config
  cg_bind :: rstr
  cg_database_url :: rstr
  cg_data_dir :: rstr
  cg_retention_days :: int
  cg_callback_allowed_origins :: "rstr list option"
  cg_apns_direct :: apns_direct_config
  cg_apns_relay :: apns_relay_config
  cg_attest :: attest_config
  cg_admin_token :: rstr

definition without_secrets :: server_config where
  "without_secrets = \<lparr>cg_nats = default_nats, cg_bind = lit ''127.0.0.1:8767'',
     cg_database_url = lit ''sqlite://.nod/nod.sqlite'', cg_data_dir = lit ''.nod'', cg_retention_days = 90,
     cg_callback_allowed_origins = None, cg_apns_direct = default_direct, cg_apns_relay = default_relay,
     cg_attest = default_attest_config, cg_admin_token = []\<rparr>"

definition origin_setting_ok :: "url \<Rightarrow> bool" where
  "origin_setting_ok u \<longleftrightarrow> (ur_scheme u = lit ''http'' \<or> ur_scheme u = lit ''https'') \<and> ur_host u \<noteq> None \<and>
     ur_username u = [] \<and> ur_password u = None \<and> ur_query u = None \<and> ur_fragment u = None \<and> ur_path u = lit ''/''"

fun check_origins :: "url_parser \<Rightarrow> rstr list \<Rightarrow> unit config_result" where
  "check_origins U [] = Inr ()"
| "check_origins U (v # vs) = bind_res (ok_or (lit ''invalid URL'') (U v)) (\<lambda>u.
     if \<not> origin_setting_ok u then bail ''callback_allowed_origins must contain only HTTP(S) origins''
     else check_origins U vs)"

definition config_validate :: "url_parser \<Rightarrow> server_config \<Rightarrow> unit config_result" where
  "config_validate U c =
     (if trim (cg_admin_token c) = [] then bail ''NOD_ADMIN_TOKEN or NOD_ADMIN_TOKEN_FILE is required''
      else if cg_retention_days c < 1 then bail ''retention_days must be at least 1''
      else bind_res (case cg_callback_allowed_origins c of None \<Rightarrow> Inr () | Some os \<Rightarrow> check_origins U os) (\<lambda>_.
        bind_res (direct_validate (cg_apns_direct c)) (\<lambda>_.
        bind_res (relay_validate U (cg_apns_relay c)) (\<lambda>_.
        attest_validate (cg_attest c)))))"

section \<open>The file\<close>

record attest_file =
  af_mode :: "rstr option"
  af_team_id :: "rstr option"
  af_bundle_ids :: "rstr list"
  af_environment :: "rstr option"

definition attest_from_file :: "attest_file \<Rightarrow> attest_config config_result" where
  "attest_from_file f =
     bind_res (case af_mode f of None \<Rightarrow> Inr (aa_mode default_attest_config) | Some m \<Rightarrow> attestation_mode_parse m) (\<lambda>mode.
     bind_res (case af_environment f of None \<Rightarrow> Inr (aa_environment default_attest_config)
         | Some v \<Rightarrow> attest_environment_parse v) (\<lambda>environment.
     Inr \<lparr>aa_mode = mode, aa_team_id = af_team_id f, aa_bundle_ids = af_bundle_ids f, aa_environment = environment\<rparr>))"

record config_file =
  fl_nats :: nats_config
  fl_bind :: "rstr option"
  fl_database_url :: "rstr option"
  fl_data_dir :: "rstr option"
  fl_retention_days :: "int option"
  fl_callback_allowed_origins :: "rstr list option"
  fl_apns_direct :: apns_direct_config
  fl_apns_relay :: apns_relay_config
  fl_attest :: attest_file

definition or_default :: "'a option \<Rightarrow> 'a \<Rightarrow> 'a" where
  "or_default v d = (case v of None \<Rightarrow> d | Some x \<Rightarrow> x)"

definition config_from_file :: "config_file \<Rightarrow> server_config config_result" where
  "config_from_file f =
     bind_res (attest_from_file (fl_attest f)) (\<lambda>attest.
     Inr (without_secrets\<lparr>cg_nats := fl_nats f, cg_bind := or_default (fl_bind f) (cg_bind without_secrets),
       cg_database_url := or_default (fl_database_url f) (cg_database_url without_secrets),
       cg_data_dir := or_default (fl_data_dir f) (cg_data_dir without_secrets),
       cg_retention_days := or_default (fl_retention_days f) (cg_retention_days without_secrets),
       cg_apns_direct := fl_apns_direct f, cg_apns_relay := fl_apns_relay f,
       cg_callback_allowed_origins := fl_callback_allowed_origins f, cg_attest := attest\<rparr>))"

section \<open>The environment\<close>

text \<open>
  The environment's part of the server configuration (nod-server config/environment.rs, \<open>Config::load\<close>):
  variables override the file, secrets may come from a file named by a \<open>_FILE\<close> variable but not from
  both, and the result is validated. \<open>V\<close> looks a variable up, \<open>F\<close> reads a file, \<open>T\<close> parses TOML.
\<close>

type_synonym vars = "rstr \<Rightarrow> rstr option"

definition raw_env :: "vars \<Rightarrow> string \<Rightarrow> rstr option" where
  "raw_env V name = map_option trim (V (lit name))"

definition optional_env :: "vars \<Rightarrow> rstr \<Rightarrow> rstr option" where
  "optional_env V name = (case V name of None \<Rightarrow> None | Some v \<Rightarrow> if trim v = [] then None else Some (trim v))"

definition non_empty_value :: "rstr \<Rightarrow> rstr option config_result" where
  "non_empty_value value = (if trim value = [] then bail '' must not be empty'' else Inr (Some (trim value)))"

definition injected_value :: "vars \<Rightarrow> vars \<Rightarrow> string \<Rightarrow> rstr option config_result" where
  "injected_value V F name =
     (case (V (lit name), optional_env V (lit (name @ ''_FILE''))) of
        (Some _, Some _) \<Rightarrow> bail ''set either the variable or its file, not both''
      | (Some value, None) \<Rightarrow> non_empty_value value
      | (None, Some path) \<Rightarrow> bind_res (ok_or (lit ''failed to read secret'') (F path)) non_empty_value
      | (None, None) \<Rightarrow> Inr None)"

definition split_secret_list :: "rstr \<Rightarrow> rstr list" where
  \<comment> \<open>\<open>split([',', '\n'])\<close>\<close>
  "split_secret_list value = filter (\<lambda>k. k \<noteq> []) (map trim (concat (map (split_on 10) (split_on 44 value))))"

definition keep_or :: "'a option \<Rightarrow> 'a option \<Rightarrow> 'a option" where
  \<comment> \<open>\<open>if let Some(value) = ... { config.field = Some(value) }\<close>\<close>
  "keep_or v old = (case v of None \<Rightarrow> old | Some x \<Rightarrow> Some x)"

definition apply_nats_env :: "vars \<Rightarrow> nats_config \<Rightarrow> nats_config" where
  "apply_nats_env V c = c\<lparr>na_user := keep_or (raw_env V ''NOD_TOWER_NATS_USER'') (na_user c),
     na_password_file := keep_or (raw_env V ''NOD_TOWER_PASSWORD_FILE'') (na_password_file c),
     na_inbox_prefix := keep_or (raw_env V ''NOD_TOWER_INBOX_PREFIX'') (na_inbox_prefix c),
     na_url := keep_or (raw_env V ''NOD_TOWER_NATS_URL'') (keep_or (raw_env V ''NOD_NATS_URL'') (na_url c)),
     na_credentials_file := keep_or (raw_env V ''NOD_NATS_CREDENTIALS_FILE'') (na_credentials_file c),
     na_token_file := keep_or (raw_env V ''NOD_NATS_TOKEN_FILE'') (na_token_file c),
     na_expected_stream := or_default (raw_env V ''NOD_NATS_EXPECTED_STREAM'') (na_expected_stream c)\<rparr>"

definition apply_apns_direct_env :: "vars \<Rightarrow> vars \<Rightarrow> apns_direct_config \<Rightarrow> apns_direct_config config_result" where
  "apply_apns_direct_env V F c =
     bind_res (injected_value V F ''NOD_APNS_DIRECT_PRIVATE_KEY_PATH'') (\<lambda>key.
     Inr (c\<lparr>dc_bundle_id := keep_or (raw_env V ''NOD_APNS_DIRECT_BUNDLE_ID'') (dc_bundle_id c),
       dc_team_id := keep_or (raw_env V ''NOD_APNS_DIRECT_TEAM_ID'') (dc_team_id c),
       dc_key_id := keep_or (raw_env V ''NOD_APNS_DIRECT_KEY_ID'') (dc_key_id c),
       dc_private_key_path := keep_or key (dc_private_key_path c),
       dc_environment := keep_or (raw_env V ''NOD_APNS_DIRECT_ENVIRONMENT'') (dc_environment c)\<rparr>))"

definition apply_apns_relay_env :: "vars \<Rightarrow> vars \<Rightarrow> apns_relay_config \<Rightarrow> apns_relay_config config_result" where
  "apply_apns_relay_env V F c =
     bind_res (injected_value V F ''NOD_APNS_RELAY_CLIENT_CERT_PATH'') (\<lambda>cert.
     bind_res (injected_value V F ''NOD_APNS_RELAY_CLIENT_KEY_PATH'') (\<lambda>key.
     bind_res (injected_value V F ''NOD_APNS_RELAY_CA_CERT_PATH'') (\<lambda>ca.
     let t = rc_tls c in
     Inr (c\<lparr>rc_url := keep_or (raw_env V ''NOD_APNS_RELAY_URL'') (rc_url c),
       rc_native_app_id := keep_or (raw_env V ''NOD_APNS_RELAY_NATIVE_APP_ID'') (rc_native_app_id c),
       rc_tls := t\<lparr>tl_client_cert := keep_or cert (tl_client_cert t), tl_client_key := keep_or key (tl_client_key t),
         tl_ca_cert := keep_or ca (tl_ca_cert t)\<rparr>\<rparr>))))"

definition apply_attest_env :: "vars \<Rightarrow> attest_config \<Rightarrow> attest_config config_result" where
  "apply_attest_env V c =
     bind_res (case raw_env V ''NOD_APPLE_APP_ATTEST_MODE'' of None \<Rightarrow> Inr (aa_mode c) | Some v \<Rightarrow> attestation_mode_parse v) (\<lambda>mode.
     bind_res (case raw_env V ''NOD_APPLE_APP_ATTEST_ENVIRONMENT'' of None \<Rightarrow> Inr (aa_environment c)
         | Some v \<Rightarrow> attest_environment_parse v) (\<lambda>environment.
     Inr (c\<lparr>aa_mode := mode,
       aa_team_id := keep_or (raw_env V ''NOD_APPLE_APP_ATTEST_TEAM_ID'') (aa_team_id c),
       aa_bundle_ids := (case raw_env V ''NOD_APPLE_APP_ATTEST_BUNDLE_IDS'' of None \<Rightarrow> aa_bundle_ids c
         | Some v \<Rightarrow> split_secret_list v),
       aa_environment := environment\<rparr>)))"

definition apply_server_env :: "vars \<Rightarrow> vars \<Rightarrow> server_config \<Rightarrow> server_config config_result" where
  "apply_server_env V F c =
     bind_res (case raw_env V ''NOD_RETENTION_DAYS'' of None \<Rightarrow> Inr (cg_retention_days c)
       | Some v \<Rightarrow> ok_or (lit ''NOD_RETENTION_DAYS must be an integer'') (parse_i64 v)) (\<lambda>days.
     bind_res (injected_value V F ''NOD_ADMIN_TOKEN'') (\<lambda>token.
     bind_res (apply_apns_direct_env V F (cg_apns_direct c)) (\<lambda>direct.
     bind_res (apply_apns_relay_env V F (cg_apns_relay c)) (\<lambda>relay.
     bind_res (apply_attest_env V (cg_attest c)) (\<lambda>attest.
     Inr (c\<lparr>cg_nats := apply_nats_env V (cg_nats c),
       cg_bind := or_default (raw_env V ''NOD_BIND'') (cg_bind c),
       cg_database_url := or_default (raw_env V ''NOD_DATABASE_URL'') (cg_database_url c),
       cg_data_dir := or_default (raw_env V ''NOD_DATA_DIR'') (cg_data_dir c),
       cg_retention_days := days, cg_admin_token := or_default token (cg_admin_token c),
       cg_callback_allowed_origins := (case raw_env V ''NOD_CALLBACK_ALLOWED_ORIGINS'' of
           None \<Rightarrow> cg_callback_allowed_origins c | Some v \<Rightarrow> Some (split_secret_list v)),
       cg_apns_direct := direct, cg_apns_relay := relay, cg_attest := attest\<rparr>))))))"

definition load_config :: "url_parser \<Rightarrow> vars \<Rightarrow> vars \<Rightarrow> (rstr \<Rightarrow> config_file option) \<Rightarrow> server_config config_result" where
  "load_config U V F T =
     bind_res (case optional_env V (lit ''NOD_CONFIG'') of
         Some path \<Rightarrow> bind_res (ok_or (lit ''failed to read config file'') (F path)) (\<lambda>raw.
           bind_res (ok_or (lit ''failed to parse config file'') (T raw)) config_from_file)
       | None \<Rightarrow> Inr without_secrets) (\<lambda>c.
     bind_res (apply_server_env V F c) (\<lambda>c.
     bind_res (config_validate U c) (\<lambda>_. Inr c)))"

lemma non_empty_value_ok: "non_empty_value v = Inr t \<longleftrightarrow> trim v \<noteq> [] \<and> t = Some (trim v)"
  by (auto simp: non_empty_value_def bail_def)

lemma injected_value_ok:
  assumes "injected_value V F name = Inr (Some t)"
  shows "t \<noteq> []" "V (lit name) = None \<or> optional_env V (lit (name @ ''_FILE'')) = None"
  using assms by (auto simp: injected_value_def non_empty_value_ok res_simps bail_def split: option.splits)

text \<open>A server that starts has an admin token, keeps requests for at least a day, and does not send pushes two ways.\<close>

lemma load_config_sound:
  assumes "load_config U V F T = Inr c"
  shows "trim (cg_admin_token c) \<noteq> []" "1 \<le> cg_retention_days c"
    "cg_callback_allowed_origins c = Some os \<Longrightarrow> o' \<in> set os \<Longrightarrow> \<exists>u. U o' = Some u \<and> origin_setting_ok u"
proof -
  from assms have v: "config_validate U c = Inr ()"
    by (auto simp: load_config_def res_simps split: option.splits)
  then show "trim (cg_admin_token c) \<noteq> []" "1 \<le> cg_retention_days c"
    by (auto simp: config_validate_def bail_def split: if_splits)
  have "check_origins U vs = Inr () \<Longrightarrow> o' \<in> set vs \<Longrightarrow> \<exists>u. U o' = Some u \<and> origin_setting_ok u" for vs
    by (induction vs) (auto simp: res_simps bail_def split: if_splits)
  with v show "cg_callback_allowed_origins c = Some os \<Longrightarrow> o' \<in> set os \<Longrightarrow> \<exists>u. U o' = Some u \<and> origin_setting_ok u"
    by (auto simp: config_validate_def bail_def res_simps split: if_splits)
qed

end
