(* ===== verification/Attestation.thy ===== *)
theory Attestation
  imports Devices Config
begin

text \<open>
  Apple App Attest at enrollment (nod-server device_attestation.rs): the client data text that binds
  the enrollment, the CBOR attestation object with its authenticator data, and the record that is kept.
  Base64, CBOR and the certificate check are the crates' functions.
\<close>

unbundle bit_operations_syntax

section \<open>What the crates provide\<close>

datatype cbor = CMap "(cbor \<times> cbor) list" | CText rstr | CBytes "byte list" | COther

record attest_ext =
  at_b64_urlsafe_nopad :: "rstr \<Rightarrow> byte list option"
  at_b64_urlsafe :: "rstr \<Rightarrow> byte list option"
  at_b64_standard :: "rstr \<Rightarrow> byte list option"
  at_b64_urlsafe_encode :: "byte list \<Rightarrow> rstr"
  at_parse_cbor :: "byte list \<Rightarrow> cbor option"
  at_from_cbor_ok :: "byte list \<Rightarrow> bool"
  at_verify_chain :: "byte list \<Rightarrow> rstr \<Rightarrow> rstr \<Rightarrow> rstr \<Rightarrow> (byte list \<times> byte list) option"
    \<comment> \<open>\<open>Attestation::verify\<close> against the Apple root: client data, app id and key id; public key and receipt\<close>

record attestation_body =
  ab_provider :: rstr
  ab_key_id :: rstr
  ab_object :: rstr

definition APPLE_APP_ATTEST_PROVIDER :: rstr where "APPLE_APP_ATTEST_PROVIDER = lit ''apple_app_attest''"
definition MAX_ATTESTATION_OBJECT_BYTES :: nat where "MAX_ATTESTATION_OBJECT_BYTES = 64 * 1024"
definition DEVELOPMENT_AAGUID :: "byte list" where "DEVELOPMENT_AAGUID = lit ''appattestdevelop''"
definition DEVELOPMENT_SANDBOX_AAGUID :: "byte list" where "DEVELOPMENT_SANDBOX_AAGUID = lit ''appattestsandbox''"
definition PRODUCTION_AAGUID :: "byte list" where "PRODUCTION_AAGUID = lit ''appattest'' @ replicate 7 0"

section \<open>The attestation object\<close>

fun map_field :: "cbor \<Rightarrow> rstr \<Rightarrow> cbor option" where
  "map_field (CMap entries) key = map_option snd (List.find (\<lambda>(k, v). k = CText key) entries)"
| "map_field _ key = None"

definition text_field :: "cbor \<Rightarrow> rstr \<Rightarrow> rstr option" where
  "text_field value key = (case map_field value key of Some (CText t) \<Rightarrow> Some t | _ \<Rightarrow> None)"

definition bytes_field :: "cbor \<Rightarrow> rstr \<Rightarrow> byte list option" where
  "bytes_field value key = (case map_field value key of Some (CBytes b) \<Rightarrow> Some b | _ \<Rightarrow> None)"

record attestation_object =
  ao_auth_data :: "byte list"
  ao_receipt :: "byte list option"

definition invalid_object :: rstr where "invalid_object = lit ''attestation object is invalid''"

definition decode_attestation_object :: "attest_ext \<Rightarrow> rstr \<Rightarrow> rstr + byte list" where
  "decode_attestation_object A v =
     (let value = trim v in
      if value = [] \<or> MAX_ATTESTATION_OBJECT_BYTES < strlen value then Inl invalid_object
      else ok_or invalid_object (case at_b64_urlsafe_nopad A value of Some b \<Rightarrow> Some b
        | None \<Rightarrow> (case at_b64_urlsafe A value of Some b \<Rightarrow> Some b | None \<Rightarrow> at_b64_standard A value)))"

definition parse_attestation_object :: "attest_ext \<Rightarrow> byte list \<Rightarrow> rstr + attestation_object" where
  "parse_attestation_object A b =
     bind_res (ok_or invalid_object (at_parse_cbor A b)) (\<lambda>value.
     bind_res (ok_or invalid_object (text_field value (lit ''fmt''))) (\<lambda>fmt.
     if fmt \<noteq> lit ''apple-appattest'' then Inl (lit ''attestation object has unsupported format'')
     else bind_res (ok_or (lit ''attestation object is missing authenticator data'')
         (bytes_field value (lit ''authData''))) (\<lambda>auth.
       Inr \<lparr>ao_auth_data = auth, ao_receipt = Option.bind (map_field value (lit ''attStmt'')) (\<lambda>stmt.
         case bytes_field stmt (lit ''receipt'') of Some r \<Rightarrow> Some r | None \<Rightarrow> bytes_field stmt (lit ''receiptData''))\<rparr>)))"

record auth_data =
  ah_counter :: nat
  ah_aaguid :: "byte list"

definition be_u32 :: "byte list \<Rightarrow> nat" where
  "be_u32 b = foldl (\<lambda>n c. 256 * n + c) 0 b"

definition parse_auth_data :: "byte list \<Rightarrow> rstr + auth_data" where
  "parse_auth_data b =
     (if length b < 37 + 16 + 2 then Inl (lit ''authenticator data is invalid'')
      else if b ! 32 AND 64 = 0 then Inl (lit ''authenticator data is missing attested credential data'')
      else let counter = be_u32 (take 4 (drop 33 b)) in
        if counter \<noteq> 0 then Inl (lit ''authenticator counter is invalid'')
        else Inr \<lparr>ah_counter = counter, ah_aaguid = take 16 (drop 37 b)\<rparr>)"

fun environment_matches :: "attest_environment \<Rightarrow> byte list \<Rightarrow> bool" where
  "environment_matches Development g \<longleftrightarrow> g = DEVELOPMENT_AAGUID \<or> g = DEVELOPMENT_SANDBOX_AAGUID"
| "environment_matches Production g \<longleftrightarrow> g = PRODUCTION_AAGUID"

section \<open>The client data\<close>

definition opt_text :: "rstr option \<Rightarrow> rstr" where
  "opt_text v = (case v of None \<Rightarrow> [] | Some t \<Rightarrow> t)"

definition enrollment_client_data :: "ext \<Rightarrow> enroll_body \<Rightarrow> rstr \<Rightarrow> rstr" where
  "enrollment_client_data X req key_id =
     (let h = (\<lambda>t. sha256_hex X (utf8 t)); key = en_signing_key req;
          signing_key_id = opt_text (map_option (\<lambda>k. trim (sk_key_id k)) key);
          algorithm = (case key of None \<Rightarrow> DECISION_SIGNING_ALGORITHM
            | Some k \<Rightarrow> if sk_algorithm k = [] then DECISION_SIGNING_ALGORITHM else sk_algorithm k)
      in lit ''nod-enrollment-v1'' @ [10] @
         lit ''code_sha256:'' @ h (trim (en_code req)) @ [10] @
         lit ''device_name_sha256:'' @ h (trim (en_device_name req)) @ [10] @
         lit ''platform:'' @ device_platform_str (en_platform req) @ [10] @
         lit ''push_provider:'' @ opt_text (normalized_optional_text (en_push_provider req)) @ [10] @
         lit ''push_token_sha256:'' @ opt_text (map_option h (normalized_optional_text (en_push_token req))) @ [10] @
         lit ''signing_key_id:'' @ signing_key_id @ [10] @
         lit ''signing_key_algorithm:'' @ algorithm @ [10] @
         lit ''signing_public_key_sha256:'' @ opt_text (map_option (\<lambda>k. h (trim (sk_public_key k))) key) @ [10] @
         lit ''attestation_provider:'' @ APPLE_APP_ATTEST_PROVIDER @ [10] @
         lit ''attestation_key_id:'' @ trim key_id @ [10])"

section \<open>Verification\<close>

definition receipt_hash :: "ext \<Rightarrow> attestation_object \<Rightarrow> byte list \<Rightarrow> rstr option" where
  "receipt_hash X parsed verified =
     (if verified = [] then map_option (sha256_hex X) (ao_receipt parsed) else Some (sha256_hex X verified))"

definition verify_native_app_id :: "enroll_body \<Rightarrow> rstr \<Rightarrow> rstr + unit" where
  "verify_native_app_id req bundle =
     (case normalized_optional_text (en_native_app_id req) of None \<Rightarrow> Inr ()
      | Some native \<Rightarrow> if native = bundle then Inr () else Inl (lit ''native app id does not match App Attest bundle id''))"

fun verify_bundle_ids ::
  "ext \<Rightarrow> attest_ext \<Rightarrow> attest_config \<Rightarrow> enroll_body \<Rightarrow> rstr \<Rightarrow> byte list \<Rightarrow> attestation_object \<Rightarrow> auth_data \<Rightarrow>
   rstr \<Rightarrow> rstr \<Rightarrow> instant \<Rightarrow> rstr list \<Rightarrow> rstr + attestation_record" where
  "verify_bundle_ids X A C req key_id cbor parsed auth client team now [] = Inl (lit ''App Attest verification failed'')"
| "verify_bundle_ids X A C req key_id cbor parsed auth client team now (bundle # rest) =
     (if \<not> at_from_cbor_ok A cbor then Inl invalid_object
      else case at_verify_chain A cbor client (team @ lit ''.'' @ bundle) key_id of
        None \<Rightarrow> verify_bundle_ids X A C req key_id cbor parsed auth client team now rest
      | Some (public_key, receipt) \<Rightarrow>
          bind_res (verify_native_app_id req bundle) (\<lambda>_.
          Inr (attestation_verified \<lparr>va_provider = APPLE_APP_ATTEST_PROVIDER, va_key_id = key_id, va_team_id = team,
            va_bundle_id = bundle, va_environment = attest_environment_str (aa_environment C),
            va_public_key = at_b64_urlsafe_encode A public_key, va_counter = int (ah_counter auth),
            va_receipt_hash = receipt_hash X parsed receipt\<rparr> now)))"

definition verify_configured_attestation ::
  "ext \<Rightarrow> attest_ext \<Rightarrow> attest_config \<Rightarrow> enroll_body \<Rightarrow> rstr \<Rightarrow> rstr \<Rightarrow> instant \<Rightarrow> rstr + attestation_record" where
  "verify_configured_attestation X A C req object key_id now =
     bind_res (decode_attestation_object A object) (\<lambda>cbor.
     bind_res (parse_attestation_object A cbor) (\<lambda>parsed.
     bind_res (parse_auth_data (ao_auth_data parsed)) (\<lambda>auth.
     if \<not> environment_matches (aa_environment C) (ah_aaguid auth) then Inl (lit ''App Attest environment mismatch'')
     else bind_res (case aa_team_id C of None \<Rightarrow> Inl (lit ''Apple App Attest is not configured'')
         | Some t \<Rightarrow> if trim t = [] then Inl (lit ''Apple App Attest is not configured'') else Inr (trim t)) (\<lambda>team.
       verify_bundle_ids X A C req key_id cbor parsed auth (enrollment_client_data X req key_id) team now
         (normalized_bundle_ids C)))))"

definition attest_failed :: "attest_config \<Rightarrow> rstr \<Rightarrow> rstr option \<Rightarrow> rstr \<Rightarrow> attestation_record" where
  "attest_failed C provider key_id reason =
     attestation_failed \<lparr>fa_provider = provider, fa_key_id = key_id, fa_team_id = map_option trim (aa_team_id C),
       fa_environment = Some (attest_environment_str (aa_environment C)), fa_reason = reason\<rparr>"

definition verify_attestation ::
  "ext \<Rightarrow> attest_ext \<Rightarrow> attest_config \<Rightarrow> enroll_body \<Rightarrow> attestation_body \<Rightarrow> instant \<Rightarrow> attestation_record" where
  "verify_attestation X A C req b now =
     (let provider = trim (ab_provider b); key_id = trim (ab_key_id b);
          failed = attest_failed C provider (if key_id = [] then None else Some key_id)
      in if provider \<noteq> APPLE_APP_ATTEST_PROVIDER then failed (lit ''unsupported attestation provider'')
         else if key_id = [] then attest_failed C provider None (lit ''attestation key id is required'')
         else if \<not> attest_configured C then failed (lit ''Apple App Attest is not configured'')
         else case verify_configured_attestation X A C req (ab_object b) key_id now of
             Inr r \<Rightarrow> r | Inl reason \<Rightarrow> failed reason)"

definition verify_enrollment_attestation ::
  "ext \<Rightarrow> attest_ext \<Rightarrow> attest_config \<Rightarrow> enroll_body \<Rightarrow> attestation_body option \<Rightarrow> instant \<Rightarrow> attestation_record option" where
  "verify_enrollment_attestation X A C req b now = map_option (\<lambda>b. verify_attestation X A C req b now) b"

section \<open>Facts\<close>

text \<open>A record says verified only after the certificate check passed, for a configured bundle and this very enrollment.\<close>

lemma verify_bundle_ids_ok:
  "verify_bundle_ids X A C req key_id cbor parsed auth client team now bundles = Inr r \<Longrightarrow>
     \<exists>bundle \<in> set bundles. \<exists>k rc. at_verify_chain A cbor client (team @ lit ''.'' @ bundle) key_id = Some (k, rc) \<and>
       ar_bundle_id r = Some bundle \<and> ar_status r = Verified \<and> ar_key_id r = Some key_id \<and>
       (normalized_optional_text (en_native_app_id req) = None \<or> normalized_optional_text (en_native_app_id req) = Some bundle)"
  by (induction bundles)
    (auto simp: res_simps attestation_verified_def verify_native_app_id_def split: if_splits option.splits)

lemma attest_failed_status [simp]: "ar_status (attest_failed C p k m) = Failed" "ar_bundle_id (attest_failed C p k m) = None"
  by (simp_all add: attest_failed_def attestation_failed_def)

lemma verified_attestation_sound:
  assumes "ar_status (verify_attestation X A C req b now) = Verified"
  shows "\<exists>cbor bundle team k rc. bundle \<in> set (normalized_bundle_ids C) \<and> aa_team_id C = Some team \<and>
    at_verify_chain A cbor (enrollment_client_data X req (trim (ab_key_id b))) (trim team @ lit ''.'' @ bundle) (trim (ab_key_id b)) = Some (k, rc)"
proof -
  from assms obtain r where r: "verify_configured_attestation X A C req (ab_object b) (trim (ab_key_id b)) now = Inr r"
    by (auto simp: verify_attestation_def Let_def split: if_splits sum.splits)
  then show ?thesis
    unfolding verify_configured_attestation_def
    by (auto simp: res_simps split: if_splits option.splits dest!: verify_bundle_ids_ok)
qed

end
