(* ===== verification/App.thy ===== *)
theory App
  imports Server Attestation
begin

text \<open>
  The state an HTTP handler of the server works on (nod-server state.rs): the database, the audit log
  and the messages broadcast to the connected clients, with the fixed configuration and push routes. A
  handler returns its reply and the state it leaves, which a later failure does not undo: each
  database operation is a transaction of its own. The lemmas lift the step relation of the
  database to such handlers.
\<close>

section \<open>State and configuration\<close>

datatype sync_payload = RequestUpdate request | ChannelUpdate channel | DeviceUpdate user_device | JsonUpdate json

record envelope =
  sy_kind :: rstr
  sy_at :: instant
  sy_targets :: "rstr list option"
  sy_payload :: sync_payload

datatype audit_payload = AuditRequest decision_request | AuditUser user | AuditChannel channel
  | AuditPreferences rstr device_preferences | AuditJson json

record app =
  ap_db :: db
  ap_audit :: "(instant \<times> rstr \<times> audit_payload) list"
  ap_sync :: "envelope list"

datatype push_route = ApnsRelay | ApnsDirect

datatype notification_delivery = DeliverPush | DeliverWebsocket

fun notification_delivery_mode_str :: "notification_delivery \<Rightarrow> rstr" where
  "notification_delivery_mode_str DeliverPush = lit ''push''"
| "notification_delivery_mode_str DeliverWebsocket = lit ''websocket''"

type_synonym route_key = "rstr \<times> rstr option"

record app_config =
  ac_admin_token :: rstr
  ac_retention_days :: int
  ac_callback_origins :: "rstr list option"
  ac_routes :: "route_key list"
  ac_push_route :: "push_route option"
  ac_attest :: attest_config
  ac_parse_url :: url_parser

definition configured_push_route :: "apns_direct_config \<Rightarrow> apns_relay_config \<Rightarrow> push_route option config_result" where
  "configured_push_route direct relay =
     (case (direct_enabled direct, client_enabled relay) of
        (True, True) \<Rightarrow> bail ''configure either in-process APNs or the remote relay, not both''
      | (True, False) \<Rightarrow> Inr (Some ApnsDirect)
      | (False, True) \<Rightarrow> Inr (Some ApnsRelay)
      | (False, False) \<Rightarrow> Inr None)"

section \<open>Handlers\<close>

type_synonym 'a reply = "'a api_result \<times> app"

definition and_then :: "'a reply \<Rightarrow> ('a \<Rightarrow> app \<Rightarrow> 'b reply) \<Rightarrow> 'b reply" where
  "and_then r f = (case r of (Inl e, a) \<Rightarrow> (Inl e, a) | (Inr x, a) \<Rightarrow> f x a)"

definition check :: "'a api_result \<Rightarrow> app \<Rightarrow> 'a reply" where
  "check r a = (r, a)"

definition in_txn :: "(db \<Rightarrow> ('a \<times> db) api_result) \<Rightarrow> app \<Rightarrow> 'a reply" where
  "in_txn f a = (case f (ap_db a) of Inl e \<Rightarrow> (Inl e, a) | Inr (x, s) \<Rightarrow> (Inr x, a\<lparr>ap_db := s\<rparr>))"

definition in_txn_ok :: "(db \<Rightarrow> db api_result) \<Rightarrow> app \<Rightarrow> unit reply" where
  "in_txn_ok f a = (case f (ap_db a) of Inl e \<Rightarrow> (Inl e, a) | Inr s \<Rightarrow> (Inr (), a\<lparr>ap_db := s\<rparr>))"

definition in_db :: "(db \<Rightarrow> 'a outcome) \<Rightarrow> app \<Rightarrow> 'a reply" where
  "in_db f a = (case f (ap_db a) of (r, s) \<Rightarrow> (r, a\<lparr>ap_db := s\<rparr>))"

definition audit :: "env \<Rightarrow> string \<Rightarrow> audit_payload \<Rightarrow> app \<Rightarrow> app" where
  "audit E kind payload a = a\<lparr>ap_audit := ap_audit a @ [(e_now E 0, lit kind, payload)]\<rparr>"

definition send :: "envelope \<Rightarrow> app \<Rightarrow> app" where
  "send v a = a\<lparr>ap_sync := ap_sync a @ [v]\<rparr>"

text \<open>The envelopes of sync.rs.\<close>

definition sync_envelope :: "env \<Rightarrow> rstr \<Rightarrow> sync_payload \<Rightarrow> envelope" where
  "sync_envelope E kind payload = \<lparr>sy_kind = kind, sy_at = e_now E 1, sy_targets = None, sy_payload = payload\<rparr>"

definition targeted_envelope :: "env \<Rightarrow> rstr \<Rightarrow> sync_payload \<Rightarrow> rstr list \<Rightarrow> envelope" where
  "targeted_envelope E kind payload users =
     \<lparr>sy_kind = kind, sy_at = e_now E 1, sy_targets = Some users, sy_payload = payload\<rparr>"

definition sync_request_for_users :: "ext \<Rightarrow> env \<Rightarrow> string \<Rightarrow> decision_request \<Rightarrow> rstr list \<Rightarrow> envelope" where
  "sync_request_for_users X E kind r users = targeted_envelope E (lit kind) (RequestUpdate (to_wire X r)) users"

definition sync_request :: "ext \<Rightarrow> env \<Rightarrow> string \<Rightarrow> decision_request \<Rightarrow> envelope" where
  "sync_request X E kind r = sync_request_for_users X E kind r (r_recipients r)"

definition device_update :: "env \<Rightarrow> string \<Rightarrow> json \<Rightarrow> envelope" where
  "device_update E kind payload = sync_envelope E (lit kind) (JsonUpdate payload)"

definition channel_update :: "env \<Rightarrow> string \<Rightarrow> channel \<Rightarrow> envelope" where
  "channel_update E kind c = sync_envelope E (lit kind) (ChannelUpdate c)"

text \<open>\<open>json!\<close> objects with text members.\<close>

definition text_object :: "(string \<times> rstr) list \<Rightarrow> json" where
  "text_object ms = JObj (map (\<lambda>(k, v). (lit k, JStr v)) ms)"

definition authenticated :: "ext \<Rightarrow> app_config \<Rightarrow> headers \<Rightarrow> env \<Rightarrow> app \<Rightarrow> principal reply" where
  "authenticated X C hs E = in_txn (\<lambda>s. authenticate X s hs (ac_admin_token C) E)"

definition device_only :: "ext \<Rightarrow> headers \<Rightarrow> env \<Rightarrow> app \<Rightarrow> device_row reply" where
  "device_only X hs E = in_txn (\<lambda>s. require_device X s hs E)"

definition admin_only :: "ext \<Rightarrow> app_config \<Rightarrow> headers \<Rightarrow> env \<Rightarrow> app \<Rightarrow> unit reply" where
  "admin_only X C hs E = check (require_admin X hs (ac_admin_token C) (e_now E 0))"

section \<open>Routes\<close>

definition APPLE_APNS_PROVIDER_ID :: rstr where "APPLE_APNS_PROVIDER_ID = lit ''apple_apns''"

definition push_route_key :: "rstr \<Rightarrow> rstr option \<Rightarrow> route_key" where
  "push_route_key provider native = (trim provider, normalized_optional_text native)"

definition device_route_key :: "device_row \<Rightarrow> route_key option" where
  "device_route_key d = map_option (\<lambda>p. push_route_key p (dv_native_app_id d))
     (normalized_optional_text (dv_push_provider d))"

definition has_route :: "app_config \<Rightarrow> device_row \<Rightarrow> bool" where
  "has_route C d =
     (if dv_push_provider d = Some APPLE_APNS_PROVIDER_ID \<and> dv_platform d \<noteq> Ios \<and> dv_platform d \<noteq> Watchos
      then False
      else case device_route_key d of None \<Rightarrow> False | Some k \<Rightarrow> k \<in> set (ac_routes C))"

definition notification_delivery_for_route :: "push_route option \<Rightarrow> notification_delivery" where
  "notification_delivery_for_route r = (if r = None then DeliverWebsocket else DeliverPush)"

definition delivery_for_device :: "app_config \<Rightarrow> device_row \<Rightarrow> notification_delivery" where
  "delivery_for_device C d =
     (let eligible = has_route C d \<and> normalized_optional_text (dv_push_token d) \<noteq> None in
      notification_delivery_for_route (if eligible then ac_push_route C else None))"

section \<open>Handlers run the server\<close>

definition runs :: "ext \<Rightarrow> app \<Rightarrow> 'a reply \<Rightarrow> bool" where
  "runs X a r \<longleftrightarrow> server_steps X (ap_db a) (ap_db (snd r))"

named_theorems runs_intros

lemma runs_check [runs_intros]: "runs X a (check r a)"
  by (simp add: runs_def check_def)

lemma runs_pair [runs_intros]: "ap_db a' = ap_db a \<Longrightarrow> runs X a (r, a')"
  by (simp add: runs_def)

lemma runs_and_then [runs_intros]:
  "runs X a r \<Longrightarrow> (\<And>x a'. fst r = Inr x \<Longrightarrow> snd r = a' \<Longrightarrow> runs X a' (f x a')) \<Longrightarrow> runs X a (and_then r f)"
  unfolding runs_def and_then_def
  by (cases r; cases "fst r") (auto intro: rtranclp_trans)

lemma runs_txn [runs_intros]: "(\<And>x s'. f (ap_db a) = Inr (x, s') \<Longrightarrow> server_steps X (ap_db a) s') \<Longrightarrow> runs X a (in_txn f a)"
  by (auto simp: runs_def in_txn_def split: sum.split prod.split)

lemma runs_txn_ok [runs_intros]: "(\<And>s'. f (ap_db a) = Inr s' \<Longrightarrow> server_steps X (ap_db a) s') \<Longrightarrow> runs X a (in_txn_ok f a)"
  by (auto simp: runs_def in_txn_ok_def split: sum.split)

lemma runs_db [runs_intros]: "server_steps X (ap_db a) (snd (f (ap_db a))) \<Longrightarrow> runs X a (in_db f a)"
  by (auto simp: runs_def in_db_def split: prod.split)

lemma same_db [simp]: "ap_db (audit E kind p a) = ap_db a" "ap_db (send v a) = ap_db a"
  by (simp_all add: audit_def send_def)

lemma authenticate_steps: "authenticate X s hs t E = Inr (p, s') \<Longrightarrow> server_steps X s s'"
  by (auto simp: authenticate_def Let_def res_simps intro: server_step.touch split: if_splits option.splits)

lemma require_device_steps: "require_device X s hs E = Inr (d, s') \<Longrightarrow> server_steps X s s'"
  by (auto simp: require_device_def res_simps intro: server_step.touch)

lemma runs_auth [runs_intros]:
  "runs X a (authenticated X C hs E a)" "runs X a (device_only X hs E a)" "runs X a (admin_only X C hs E a)"
  unfolding authenticated_def device_only_def admin_only_def
  by (auto intro: runs_intros authenticate_steps require_device_steps)

end
