(* ===== verification/Api_Requests.thy ===== *)
theory Api_Requests
  imports App
begin

text \<open>
  The request endpoints (nod-server api/requests.rs, api/integration_events.rs) with the service layer
  they call (services/requests.rs): each handler authenticates, authorises against the channel of the
  request, runs its database transaction, writes the audit log and broadcasts. The environments of one
  call are numbered: 0 for the authentication, 1 for the operation, 2 for the audit entry and message.
\<close>

section \<open>Callback destinations\<close>

definition validate_destination :: "app_config \<Rightarrow> rstr list option \<Rightarrow> rstr option \<Rightarrow> unit api_result" where
  "validate_destination C allowed callback =
     (case callback of None \<Rightarrow> Inr ()
      | Some c \<Rightarrow> bind_res (ok_or (bad_request ''invalid callback URL'') (ac_parse_url C c)) (\<lambda>u.
          if \<not> (ur_scheme u = lit ''http'' \<or> ur_scheme u = lit ''https'') \<or> ur_host u = None \<or>
             ur_username u \<noteq> [] \<or> ur_password u \<noteq> None
          then Inl (bad_request ''callback URL must be HTTP(S) without userinfo'')
          else if (case allowed of None \<Rightarrow> False
             | Some origins \<Rightarrow> \<not> list_ex (\<lambda>v. case ac_parse_url C v of None \<Rightarrow> False
                 | Some a \<Rightarrow> ur_origin a = ur_origin u) origins)
          then Inl (bad_request ''callback origin is not allowed by this server'')
          else Inr ()))"

section \<open>Services\<close>

definition create_service ::
  "ext \<Rightarrow> app_config \<Rightarrow> create_request_body \<Rightarrow> create_metadata \<Rightarrow> (nat \<Rightarrow> env) \<Rightarrow> app \<Rightarrow> created_request reply" where
  "create_service X C req m E a =
     and_then (check (validate_destination C (ac_callback_origins C) (c_callback_url req)) a) (\<lambda>_ a.
     and_then (in_txn (\<lambda>s. create_request X s req m (E 1)) a) (\<lambda>c a.
       if cd_deduped c
       then (Inr c, audit (E 2) ''request.deduped'' (AuditRequest (cd_request c)) a)
       else (Inr c, send (sync_request X (E 2) ''created'' (cd_request c))
              (audit (E 2) ''request.created'' (AuditRequest (cd_request c)) a))))"

definition cancel_service :: "ext \<Rightarrow> rstr \<Rightarrow> (nat \<Rightarrow> env) \<Rightarrow> app \<Rightarrow> decision_request reply" where
  "cancel_service X rid E a =
     and_then (in_txn (\<lambda>s. cancel_request X s rid (E 1)) a) (\<lambda>r a.
       (Inr r, send (sync_request X (E 2) ''cancelled'' r)
          (audit (E 2) ''request.cancelled'' (AuditRequest r) a)))"

definition decision_service ::
  "ext \<Rightarrow> device_row \<Rightarrow> rstr \<Rightarrow> rstr \<Rightarrow> submit_decision \<Rightarrow> (nat \<Rightarrow> env) \<Rightarrow> app \<Rightarrow> decision_request reply" where
  "decision_service X device rid option_id decision E a =
     and_then (in_txn (\<lambda>s. record_decision X s \<lparr>sub_request_id = rid, sub_option_id = option_id,
       sub_device = Some device, sub_user_id = Some (dv_user_id device), sub_decision = decision\<rparr> (E 1)) a) (\<lambda>r a.
     let v = (if r_resolution r = PerUser
              then sync_request_for_users X (E 2) ''resolved'' r [dv_user_id device]
              else sync_request X (E 2) ''resolved'' r);
         a = send v (audit (E 2) ''decision.recorded'' (AuditRequest r) a)
     in check (request_for_user X (ap_db a) rid (dv_user_id device)) a)"

definition request_for_principal :: "ext \<Rightarrow> principal \<Rightarrow> rstr \<Rightarrow> db \<Rightarrow> decision_request api_result" where
  "request_for_principal X p rid s =
     (case p of
        DevicePrincipal d \<Rightarrow>
          if \<not> request_visible_to_user s rid (dv_user_id d) then Inl Forbidden
          else request_for_user X s rid (dv_user_id d)
      | _ \<Rightarrow> bind_res (get_request_on X s rid) (\<lambda>r.
          bind_res (require_request_read p (r_channel_id r)) (\<lambda>_. Inr r)))"

text \<open>
  \<open>wait_for_decision\<close> polls: the argument lists the database at each poll before the deadline, and
  the one at the deadline. The flag says whether the wait timed out.
\<close>

definition waited_request :: "ext \<Rightarrow> rstr \<Rightarrow> rstr option \<Rightarrow> db \<Rightarrow> decision_request api_result" where
  "waited_request X rid user s =
     (case user of Some u \<Rightarrow> request_for_user X s rid u | None \<Rightarrow> get_request_on X s rid)"

fun wait_for_decision ::
  "ext \<Rightarrow> rstr \<Rightarrow> rstr option \<Rightarrow> db list \<Rightarrow> db \<Rightarrow> (decision_request \<times> bool) api_result" where
  "wait_for_decision X rid user [] deadline = map_ok (\<lambda>r. (r, True)) (waited_request X rid user deadline)"
| "wait_for_decision X rid user (s # polls) deadline =
     bind_res (waited_request X rid user s) (\<lambda>r.
       if r_status r \<noteq> Pending then Inr (r, False) else wait_for_decision X rid user polls deadline)"

section \<open>Handlers\<close>

definition value_capable :: "headers \<Rightarrow> bool" where
  "value_capable hs \<longleftrightarrow>
     Option.bind (header_get hs (lit ''nod-request-contract'')) header_text = Some (lit ''single-value-v1'')"

definition guard_value_read :: "decision_request \<Rightarrow> principal \<Rightarrow> headers \<Rightarrow> unit api_result" where
  "guard_value_read r p hs =
     (if r_answer_field r \<noteq> None \<and> is_device p \<and> \<not> value_capable hs then Inl ClientUpdateRequired else Inr ())"

definition contract :: "bool \<Rightarrow> request \<Rightarrow> request" where
  "contract capable q = (if capable then q else legacy_value_projection q)"

fun principal_issuer :: "principal \<Rightarrow> rstr option" where
  "principal_issuer (IssuerPrincipal t) = Some (iu_id t)"
| "principal_issuer Admin = None"
| "principal_issuer (DevicePrincipal d) = None"

definition create_request_api ::
  "ext \<Rightarrow> app_config \<Rightarrow> headers \<Rightarrow> create_request_body \<Rightarrow> origin option \<Rightarrow> rstr option \<Rightarrow> (nat \<Rightarrow> env) \<Rightarrow> app \<Rightarrow>
   (rstr \<times> bool \<times> request) reply" where
  "create_request_api X C hs req org key E a =
     and_then (authenticated X C hs (E 0) a) (\<lambda>p a.
     and_then (check (require_request_write p (c_channel_id req)) a) (\<lambda>_ a.
     and_then (create_service X C req \<lparr>cm_origin = org, cm_issuer = principal_issuer p,
       cm_idempotency_key = key\<rparr> E a) (\<lambda>c a.
     (Inr (cd_request_id c, cd_deduped c, to_wire X (cd_request c)), a))))"

definition list_requests_api ::
  "ext \<Rightarrow> app_config \<Rightarrow> headers \<Rightarrow> rstr option \<Rightarrow> bool option \<Rightarrow> int option \<Rightarrow> rstr option \<Rightarrow> rstr option \<Rightarrow>
   (nat \<Rightarrow> env) \<Rightarrow> app \<Rightarrow> (request list \<times> rstr option) reply" where
  "list_requests_api X C hs channel include_cleared limit search before E a =
     and_then (device_only X hs (E 0) a) (\<lambda>d a.
     and_then (check (list_requests_for_device X (ap_db a) (dv_id d)
       \<lparr>iq_channel_id = channel, iq_include_cleared = (include_cleared = Some True),
        iq_handled_limit = (case limit of None \<Rightarrow> 100 | Some l \<Rightarrow> l), iq_retention_days = ac_retention_days C,
        iq_search = search, iq_before = before\<rparr> (e_now (E 1) 0)) a) (\<lambda>page a.
     (Inr (map (contract (value_capable hs)) (map (to_wire X) (pg_requests page)), pg_next_cursor page), a)))"

definition get_request_api ::
  "ext \<Rightarrow> app_config \<Rightarrow> headers \<Rightarrow> rstr \<Rightarrow> (nat \<Rightarrow> env) \<Rightarrow> app \<Rightarrow> request reply" where
  "get_request_api X C hs rid E a =
     and_then (authenticated X C hs (E 0) a) (\<lambda>p a.
     and_then (check (request_for_principal X p rid (ap_db a)) a) (\<lambda>r a.
     (Inr (contract (\<not> is_device p \<or> value_capable hs) (to_wire X r)), a)))"

definition cancel_request_api ::
  "ext \<Rightarrow> app_config \<Rightarrow> headers \<Rightarrow> rstr \<Rightarrow> (nat \<Rightarrow> env) \<Rightarrow> app \<Rightarrow> request reply" where
  "cancel_request_api X C hs rid E a =
     and_then (authenticated X C hs (E 0) a) (\<lambda>p a.
     and_then (check (get_request_on X (ap_db a) rid) a) (\<lambda>r a.
     and_then (check (require_request_cancel p (r_channel_id r)) a) (\<lambda>_ a.
     and_then (check (case p of
         IssuerPrincipal t \<Rightarrow> bind_res (request_created_by_issuer_token_id (ap_db a) rid) (\<lambda>creator.
           if creator \<noteq> Some (iu_id t) then Inl Forbidden else Inr ())
       | _ \<Rightarrow> Inr ()) a) (\<lambda>_ a.
     and_then (cancel_service X rid E a) (\<lambda>r a. (Inr (to_wire X r), a))))))"

definition get_request_decision_api ::
  "ext \<Rightarrow> app_config \<Rightarrow> headers \<Rightarrow> rstr \<Rightarrow> (nat \<Rightarrow> env) \<Rightarrow> app \<Rightarrow> request_decision_view reply" where
  "get_request_decision_api X C hs rid E a =
     and_then (authenticated X C hs (E 0) a) (\<lambda>p a.
     and_then (check (request_for_principal X p rid (ap_db a)) a) (\<lambda>r a.
     and_then (check (guard_value_read r p hs) a) (\<lambda>_ a.
     (Inr (request_decision_view_of X r), a))))"

definition submit_option_api ::
  "ext \<Rightarrow> headers \<Rightarrow> rstr \<Rightarrow> rstr \<Rightarrow> submit_decision \<Rightarrow> (nat \<Rightarrow> env) \<Rightarrow> app \<Rightarrow> request reply" where
  "submit_option_api X hs rid option_id decision E a =
     and_then (device_only X hs (E 0) a) (\<lambda>d a.
     and_then (decision_service X d rid option_id decision E a) (\<lambda>r a.
     (Inr (contract (value_capable hs) (to_wire X r)), a)))"

text \<open>The wait: the guards run on the state after the authentication, the polls see later ones.\<close>

definition wait_api ::
  "ext \<Rightarrow> app_config \<Rightarrow> headers \<Rightarrow> rstr \<Rightarrow> db list \<Rightarrow> db \<Rightarrow> (nat \<Rightarrow> env) \<Rightarrow> app \<Rightarrow> request_decision_view reply" where
  "wait_api X C hs rid polls deadline E a =
     and_then (authenticated X C hs (E 0) a) (\<lambda>p a.
     and_then (check (get_request_on X (ap_db a) rid) a) (\<lambda>r0 a.
     and_then (check (case p of
         DevicePrincipal d \<Rightarrow>
           if \<not> request_visible_to_user (ap_db a) rid (dv_user_id d) then Inl Forbidden else Inr (Some (dv_user_id d))
       | _ \<Rightarrow> bind_res (require_request_read p (r_channel_id r0)) (\<lambda>_. Inr None)) a) (\<lambda>user a.
     and_then (check (guard_value_read r0 p hs) a) (\<lambda>_ a.
     and_then (check (wait_for_decision X rid user polls deadline) a) (\<lambda>(r, timed_out) a.
     (Inr (if timed_out then mark_timed_out (request_decision_view_of X r) else request_decision_view_of X r), a))))))"

definition wait_seconds :: "nat option \<Rightarrow> nat" where
  "wait_seconds q = min 60 (max 1 (case q of None \<Rightarrow> 55 | Some t \<Rightarrow> t))"

section \<open>Integrations\<close>

definition bind_origin_api ::
  "ext \<Rightarrow> app_config \<Rightarrow> headers \<Rightarrow> rstr \<Rightarrow> origin \<Rightarrow> (nat \<Rightarrow> env) \<Rightarrow> app \<Rightarrow> (rstr \<times> origin) reply" where
  "bind_origin_api X C hs rid g E a =
     and_then (check (origin_validate g) a) (\<lambda>_ a.
     and_then (authenticated X C hs (E 0) a) (\<lambda>p a.
     and_then (in_txn_ok (\<lambda>s. bind_origin s p rid g) a) (\<lambda>_ a. (Inr (rid, g), a))))"

definition replay_api ::
  "ext \<Rightarrow> app_config \<Rightarrow> headers \<Rightarrow> int option \<Rightarrow> int option \<Rightarrow> int option \<Rightarrow> (nat \<Rightarrow> env) \<Rightarrow> app \<Rightarrow> replay_page reply" where
  "replay_api X C hs after limit through E a =
     and_then (authenticated X C hs (E 0) a) (\<lambda>p a. check (replay (ap_db a) p after limit through) a)"

definition detail_api ::
  "ext \<Rightarrow> app_config \<Rightarrow> headers \<Rightarrow> rstr \<Rightarrow> (nat \<Rightarrow> env) \<Rightarrow> app \<Rightarrow> event_detail reply" where
  "detail_api X C hs eid E a =
     and_then (authenticated X C hs (E 0) a) (\<lambda>p a. check (event_detail_for (ap_db a) p eid) a)"

section \<open>They run the server\<close>

lemma runs_create_service [runs_intros]: "runs X a (create_service X C req m E a)"
  unfolding create_service_def by (auto intro!: runs_intros intro: server_step.create)

lemma runs_cancel_service [runs_intros]: "runs X a (cancel_service X rid E a)"
  unfolding cancel_service_def by (auto intro!: runs_intros intro: server_step.cancel)

lemma runs_decision_service [runs_intros]: "runs X a (decision_service X d rid opt dec E a)"
  unfolding decision_service_def Let_def check_def by (auto intro!: runs_intros intro: server_step.decide)

lemma request_handlers_run:
  "runs X a (create_request_api X C hs req org key E a)"
  "runs X a (list_requests_api X C hs channel cleared limit search before E a)"
  "runs X a (get_request_api X C hs rid E a)" "runs X a (cancel_request_api X C hs rid E a)"
  "runs X a (get_request_decision_api X C hs rid E a)" "runs X a (submit_option_api X hs rid opt dec E a)"
  "runs X a (wait_api X C hs rid polls deadline E a)" "runs X a (bind_origin_api X C hs rid g E a)"
  "runs X a (replay_api X C hs after limit through E a)" "runs X a (detail_api X C hs eid E a)"
  unfolding create_request_api_def list_requests_api_def get_request_api_def cancel_request_api_def
    get_request_decision_api_def submit_option_api_def wait_api_def bind_origin_api_def replay_api_def detail_api_def
  by (auto intro!: runs_intros intro: server_step.bind split: prod.split)

end
