(* ===== verification/Sync_Socket.thy ===== *)
theory Sync_Socket
  imports App Api_Requests
begin

text \<open>
  The websocket of a device (nod-server api/sync_socket.rs): one step per event of the select loop.
  Before anything is sent the database is asked whether the device is still active; an envelope about a
  request is sent only to its targets and only while the user may see the request, cut down to
  the user's part. A connection ends on a revoked device, a failed write, or a close.
\<close>

section \<open>The user's part of an envelope\<close>

definition filter_request_for_user :: "rstr \<Rightarrow> request \<Rightarrow> request" where
  "filter_request_for_user user q0 =
     (let q = (if length (q_recipients q0) > 1 then q0\<lparr>q_request_digest := None\<rparr> else q0)\<lparr>q_recipients := [user]\<rparr> in
      if q_resolution q \<noteq> PerUser then q
      else case List.find (\<lambda>d. ud_user_id d = user) (q_decisions q) of
          Some d \<Rightarrow> q\<lparr>q_decisions := [d], q_status := Resolved,
            q_resolved_at := Some (d_resolved_at (ud_decision d)), q_decision := Some (ud_decision d)\<rparr>
        | None \<Rightarrow>
            if q_status q = Resolved
            then q\<lparr>q_decisions := [], q_status := Pending, q_resolved_at := None, q_decision := None\<rparr>
            else q\<lparr>q_decisions := []\<rparr>)"

definition sync_envelope_for_user :: "rstr \<Rightarrow> envelope \<Rightarrow> envelope" where
  "sync_envelope_for_user user v =
     (if sy_targets v = None then v
      else let w = v\<lparr>sy_targets := None\<rparr> in
        (case sy_payload w of RequestUpdate q \<Rightarrow> w\<lparr>sy_payload := RequestUpdate (filter_request_for_user user q)\<rparr>
          | _ \<Rightarrow> w))"

definition device_is_active :: "db \<Rightarrow> rstr \<Rightarrow> bool" where
  "device_is_active s did \<longleftrightarrow> list_ex (\<lambda>d. dv_id d = did \<and> dv_revoked_at d = None) (t_devices s)"

section \<open>The connection\<close>

record socket =
  so_device_id :: rstr
  so_user_id :: rstr
  so_capable :: bool

datatype socket_event =
    Broadcast envelope
  | Lagged nat
  | BroadcastClosed
  | AuthorizationTick
  | ClientClosed
  | ClientMessage
  | ClientError

datatype socket_action = Continue | Deliver envelope | Hangup

definition sync_hello :: "rstr \<Rightarrow> notification_delivery \<Rightarrow> env \<Rightarrow> envelope" where
  "sync_hello did d E = device_update E ''hello'' (JObj [(lit ''device_id'', JStr did),
     (lit ''notification_delivery'', JObj [(lit ''mode'', JStr (notification_delivery_mode_str d))])])"

definition lagged_resync :: "nat \<Rightarrow> env \<Rightarrow> envelope" where
  "lagged_resync skipped E = device_update E ''resync_required'' (JObj [(lit ''skipped'', JNum (int skipped))])"

definition broadcast_action :: "db \<Rightarrow> socket \<Rightarrow> envelope \<Rightarrow> socket_action" where
  "broadcast_action s c v =
     (if \<not> device_is_active s (so_device_id c) then Hangup
      else if (case sy_targets v of None \<Rightarrow> False | Some us \<Rightarrow> so_user_id c \<notin> set us) then Continue
      else if (case sy_payload v of RequestUpdate q \<Rightarrow> \<not> request_delivery_eligible s (q_id q) (so_user_id c)
         | _ \<Rightarrow> False) then Continue
      else let w = sync_envelope_for_user (so_user_id c) v in
        Deliver (case sy_payload w of
            RequestUpdate q \<Rightarrow> w\<lparr>sy_payload := RequestUpdate (contract (so_capable c) q)\<rparr>
          | _ \<Rightarrow> w))"

fun socket_step :: "db \<Rightarrow> socket \<Rightarrow> env \<Rightarrow> socket_event \<Rightarrow> socket_action" where
  "socket_step s c E (Broadcast v) = broadcast_action s c v"
| "socket_step s c E (Lagged skipped) =
     (if \<not> device_is_active s (so_device_id c) then Hangup else Deliver (lagged_resync skipped E))"
| "socket_step s c E BroadcastClosed = Hangup"
| "socket_step s c E AuthorizationTick =
     (if \<not> device_is_active s (so_device_id c) then Hangup
      else Deliver (device_update E ''resync_required'' (JObj [])))"
| "socket_step s c E ClientClosed = Hangup"
| "socket_step s c E ClientMessage = Continue"
| "socket_step s c E ClientError = Hangup"

text \<open>
  \<open>handle_socket\<close>: the moments of the connection, each with the database it finds, whether a write
  would succeed, and the event; the result is what was written before the connection ended.
\<close>

fun socket_run :: "socket \<Rightarrow> (db \<times> env \<times> bool \<times> socket_event) list \<Rightarrow> envelope list" where
  "socket_run c [] = []"
| "socket_run c ((s, E, writable, e) # rest) =
     (case socket_step s c E e of
        Continue \<Rightarrow> socket_run c rest
      | Hangup \<Rightarrow> []
      | Deliver v \<Rightarrow> if writable then v # socket_run c rest else [])"

definition handle_socket ::
  "app_config \<Rightarrow> socket \<Rightarrow> db \<Rightarrow> env \<Rightarrow> bool \<Rightarrow> (db \<times> env \<times> bool \<times> socket_event) list \<Rightarrow> envelope list" where
  "handle_socket C c s E writable moments =
     (case get_device s (so_device_id c) of
        Inl _ \<Rightarrow> []
      | Inr d \<Rightarrow>
          if \<not> device_is_active s (so_device_id c) then []
          else if \<not> writable then []
          else sync_hello (so_device_id c) (delivery_for_device C d) E # socket_run c moments)"

definition sync_socket :: "ext \<Rightarrow> headers \<Rightarrow> db \<Rightarrow> socket api_result" where
  "sync_socket X hs s =
     bind_res (bearer_token hs) (\<lambda>token.
     bind_res (ok_or Unauthorized (find_device_by_hash s (hash_secret X token))) (\<lambda>d.
     Inr \<lparr>so_device_id = dv_id d, so_user_id = dv_user_id d, so_capable = value_capable hs\<rparr>))"

section \<open>What a client gets to see\<close>

lemma socket_step_active: "socket_step s c E e = Deliver v \<Longrightarrow> device_is_active s (so_device_id c)"
  by (cases e) (auto simp: broadcast_action_def split: if_splits)

lemma filter_sees_own_part:
  "q_recipients (filter_request_for_user u q) = [u]"
  "q_resolution q = PerUser \<Longrightarrow> \<forall>d \<in> set (q_decisions (filter_request_for_user u q)). ud_user_id d = u"
  by (auto simp: filter_request_for_user_def Let_def dest: find_SomeD split: option.split)

lemma legacy_recipients [simp]: "q_recipients (legacy_value_projection q) = q_recipients q"
  by (simp add: legacy_value_projection_def Let_def)

lemma delivered_request:
  assumes "socket_step s c E e = Deliver v" "sy_payload v = RequestUpdate q"
  shows "\<exists>w q0. e = Broadcast w \<and> sy_payload w = RequestUpdate q0 \<and>
    request_delivery_eligible s (q_id q0) (so_user_id c) \<and>
    (case sy_targets w of None \<Rightarrow> q = contract (so_capable c) q0
      | Some us \<Rightarrow> so_user_id c \<in> set us \<and> q = contract (so_capable c) (filter_request_for_user (so_user_id c) q0))"
  using assms
  by (cases e) (auto simp: broadcast_action_def sync_envelope_for_user_def Let_def lagged_resync_def device_update_def
      sync_envelope_def split: if_splits option.splits sync_payload.splits)

end
