(* ===== verification/Sync_Facts.thy ===== *)
theory Sync_Facts
  imports Sync_Socket Inbox_Facts
begin

text \<open>
  The websocket and the REST interface show a user the same request: the filter of the socket, which
  works on the wire form, gives what the projection of the database layer would have given.
\<close>

lemma filter_unique:
  "distinct (map k xs) \<Longrightarrow> filter (\<lambda>x. k x = u) xs = (case List.find (\<lambda>x. k x = u) xs of None \<Rightarrow> [] | Some x \<Rightarrow> [x])"
proof (induction xs)
  case (Cons x xs)
  show ?case
  proof (cases "k x = u")
    case True
    with Cons.prems have "filter (\<lambda>y. k y = u) xs = []" by (auto simp: filter_empty_conv image_iff)
    with True show ?thesis by simp
  qed (use Cons in simp)
qed simp

lemma filter_own: "distinct us \<Longrightarrow> u \<in> set us \<Longrightarrow> filter (\<lambda>x. x = u) us = [u]"
  using filter_unique [of "\<lambda>x. x" us u] by (auto split: option.splits simp: find_None_iff dest: find_SomeD)

lemma singleton_recipients: "u \<in> set us \<Longrightarrow> \<not> 1 < length us \<Longrightarrow> us = [u]"
  by (cases us; cases "tl us") auto

lemma line_digest_cong:
  "q_id p = q_id q \<Longrightarrow> q_channel_id p = q_channel_id q \<Longrightarrow> q_recipients p = q_recipients q \<Longrightarrow>
   q_resolution p = q_resolution q \<Longrightarrow> q_title p = q_title q \<Longrightarrow> q_summary p = q_summary q \<Longrightarrow>
   q_body p = q_body q \<Longrightarrow> q_fields p = q_fields q \<Longrightarrow> q_links p = q_links q \<Longrightarrow> q_image_url p = q_image_url q \<Longrightarrow>
   q_dedupe_key p = q_dedupe_key q \<Longrightarrow> q_expires_at p = q_expires_at q \<Longrightarrow> q_created_at p = q_created_at q \<Longrightarrow>
   q_options p = q_options q \<Longrightarrow> request_digest_legacy_line_snapshot X p = request_digest_legacy_line_snapshot X q"
  by (simp add: request_digest_legacy_line_snapshot_def line_snapshot_def)

definition fan_out_ok :: "decision_request \<Rightarrow> bool" where
  "fan_out_ok r \<longleftrightarrow> distinct (r_recipients r) \<and> distinct (map ud_user_id (r_user_decisions r)) \<and>
     (r_resolution r = Shared \<longrightarrow> r_user_decisions r = []) \<and> \<not> r_private_recipients r"

lemma wire_of_sel [simp]:
  "q_id (wire_of r) = r_id r" "q_recipients (wire_of r) = r_recipients r" "q_resolution (wire_of r) = r_resolution r"
  "q_decisions (wire_of r) = r_user_decisions r" "q_status (wire_of r) = r_status r" "q_answer_field (wire_of r) = r_answer_field r"
  "q_request_digest (wire_of r) = None"
  by (simp_all add: wire_of_def)

lemma to_wire_sel [simp]:
  "q_id (to_wire X r) = r_id r" "q_recipients (to_wire X r) = r_recipients r" "q_resolution (to_wire X r) = r_resolution r"
  "q_decisions (to_wire X r) = r_user_decisions r" "q_status (to_wire X r) = r_status r"
  by (simp_all add: to_wire_def Let_def)

text \<open>Both sides cut the same members: first without the digest, then the digest.\<close>

lemma filter_request_digest:
  "q_request_digest (filter_request_for_user u q) = (if 1 < length (q_recipients q) then None else q_request_digest q)"
  by (auto simp: filter_request_for_user_def Let_def split: option.split)

lemma filter_request_cut:
  "(filter_request_for_user u q)\<lparr>q_request_digest := None\<rparr> = filter_request_for_user u (q\<lparr>q_request_digest := None\<rparr>)"
  by (auto simp: filter_request_for_user_def Let_def split: option.split)

lemma to_wire_cut: "(to_wire X r)\<lparr>q_request_digest := None\<rparr> = wire_of r"
  by (simp add: to_wire_def Let_def wire_of_def)

lemma wire_digest_None [simp]: "(wire_of r)\<lparr>q_request_digest := None\<rparr> = wire_of r"
  by (simp add: wire_of_def)

lemma project_wire:
  assumes "fan_out_ok r" "u \<in> set (r_recipients r)"
  shows "filter_request_for_user u (wire_of r) = wire_of (project_request_for_user r u)"
proof -
  note own = filter_own [OF _ assms(2)]
  have res: "r_resolution r = Shared \<or> r_resolution r = PerUser" by (cases "r_resolution r") auto
  show ?thesis
    using assms(1) own filter_unique [of ud_user_id "r_user_decisions r" u] res
    by (cases "List.find (\<lambda>d. ud_user_id d = u) (r_user_decisions r)")
      (auto simp: fan_out_ok_def filter_request_for_user_def project_request_for_user_def Let_def wire_of_def)
qed

lemma project_digest:
  assumes "fan_out_ok r" "u \<in> set (r_recipients r)"
  shows "q_request_digest (to_wire X (project_request_for_user r u)) =
    (if 1 < length (r_recipients r) then None else q_request_digest (to_wire X r))"
proof (cases "1 < length (r_recipients r)")
  case True
  then have "r_private_recipients (project_request_for_user r u)"
    by (auto simp: project_request_for_user_def Let_def split: option.split)
  with True show ?thesis by (simp add: to_wire_def Let_def wire_of_def)
next
  case False
  let ?p = "project_request_for_user r u"
  have p: "\<not> r_private_recipients ?p" "r_answer_field ?p = r_answer_field r" "r_recipients ?p = r_recipients r"
    "\<not> r_private_recipients r"
    using False assms singleton_recipients [OF assms(2) False]
    by (auto simp: project_request_for_user_def Let_def fan_out_ok_def split: option.split)
  have "request_digest_legacy_line_snapshot X (wire_of ?p) = request_digest_legacy_line_snapshot X (wire_of r)"
    using p(3) by (intro line_digest_cong)
      (auto simp: wire_of_def project_request_for_user_def Let_def split: option.split)
  with p False show ?thesis by (simp add: to_wire_def Let_def)
qed

lemma request_eqI: "p\<lparr>q_request_digest := None\<rparr> = q\<lparr>q_request_digest := None\<rparr> \<Longrightarrow>
    q_request_digest p = q_request_digest q \<Longrightarrow> (p :: request) = q"
  by (cases p; cases q) simp

lemma filter_is_projection:
  assumes "fan_out_ok r" "u \<in> set (r_recipients r)"
  shows "filter_request_for_user u (to_wire X r) = to_wire X (project_request_for_user r u)"
proof (rule request_eqI)
  show "(filter_request_for_user u (to_wire X r))\<lparr>q_request_digest := None\<rparr> =
      (to_wire X (project_request_for_user r u))\<lparr>q_request_digest := None\<rparr>"
    by (simp add: filter_request_cut to_wire_cut project_wire [OF assms])
  show "q_request_digest (filter_request_for_user u (to_wire X r)) = q_request_digest (to_wire X (project_request_for_user r u))"
    by (simp add: filter_request_digest project_digest [OF assms])
qed

lemma reachable_fan_out:
  assumes "reachable X s" "get_request_on X s rid = Inr r"
  shows "fan_out_ok r" "r_id r = rid"
proof -
  from get_request_on_columns [OF assms(2)] obtain w where w: "find_request s rid = Some w" "r_id r = rid"
    "r_resolution r = rq_resolution w" "r_user_decisions r = decisions_of s rid"
    "r_recipients r = recipients_of s rid" "\<not> r_private_recipients r" by blast
  from find_request_id [OF w(1)] have wt: "w \<in> set (t_requests s)" "rq_id w = rid" by auto
  note ok = status_matches_decisions_raw [OF reachable_row_ok [OF assms(1) wt(1)], unfolded wt(2)]
  have "keys_ok s" using reachable_requests_inv [OF assms(1)] by (simp add: requests_inv_def base_inv_def)
  note rec = recipients_distinct [OF this, of rid]
  have users: "distinct (map ud_user_id (decisions_of s rid)) \<longleftrightarrow> distinct (deciders s rid)"
    by (simp add: decisions_of_def deciders_def comp_def distinct_map distinct_sort inj_on_def)
  show "fan_out_ok r"
  proof (cases "rq_resolution w")
    case Shared
    with ok have "filter (\<lambda>d. rd_request_id d = rid) (t_decisions s) = []" by (simp add: deciders_def)
    with Shared w rec show ?thesis by (simp add: fan_out_ok_def decisions_of_def)
  next
    case PerUser
    with ok w rec users show ?thesis by (simp add: fan_out_ok_def)
  qed
  show "r_id r = rid" by (rule w(2))
qed


definition demo_socket :: socket where
  "demo_socket = \<lparr>so_device_id = [99, 97], so_user_id = owner, so_capable = True\<rparr>"


end
