(* ===== verification/Integration_Facts.thy ===== *)
theory Integration_Facts
  imports Integration Request_Facts
begin

text \<open>
  The replay of the journal (nod-server api/integration_events.rs): a page is exactly the readable part of
  an interval of sequence numbers, so a consumer that continues from the returned cursor misses nothing
  and sees nothing twice.
\<close>

lemma sorted_append_last_le: "sorted (map k (ys @ [y])) \<Longrightarrow> x \<in> set (ys @ [y]) \<Longrightarrow> k x \<le> (k y :: int)"
  by (auto simp: sorted_append)

lemma filter_parts: "\<forall>x \<in> set a. P x \<Longrightarrow> \<forall>y \<in> set b. \<not> P y \<Longrightarrow> filter P (a @ b) = a"
  by (simp add: filter_empty_conv)

lemma sorted_take_last:
  assumes "sorted (map k xs)" "distinct (map k xs)" "take n xs \<noteq> []"
  shows "filter (\<lambda>x. k x \<le> (k (last (take n xs)) :: int)) xs = take n xs"
proof -
  let ?a = "take n xs" and ?b = "drop n xs"
  have split: "xs = ?a @ ?b" by simp
  have "sorted (map k ?a @ map k ?b)" "distinct (map k ?a @ map k ?b)"
    using assms(1,2) by (metis map_append split)+
  then have s: "sorted (map k ?a)" "\<forall>x \<in> set ?a. \<forall>y \<in> set ?b. k x < k y"
    by (auto simp: sorted_append less_le)
  have "sorted (map k (butlast ?a @ [last ?a]))" unfolding append_butlast_last_id [OF assms(3)] by (rule s(1))
  then have "\<forall>x \<in> set (butlast ?a @ [last ?a]). k x \<le> k (last ?a)"
    by (intro ballI) (rule sorted_append_last_le)
  then have "\<forall>x \<in> set ?a. k x \<le> k (last ?a)" unfolding append_butlast_last_id [OF assms(3)] .
  moreover have "\<forall>y \<in> set ?b. \<not> k y \<le> k (last ?a)"
    using s(2) last_in_set [OF assms(3)] by (simp add: not_le)
  ultimately show ?thesis using filter_parts [of ?a "\<lambda>x. k x \<le> k (last ?a)" ?b] by (simp only: append_take_drop_id)
qed

lemma sort_filter_key: "filter P (sort_key k xs) = sort_key (k :: _ \<Rightarrow> int) (filter P xs)"
  by (rule filter_sort)

definition entries :: "db \<Rightarrow> int \<Rightarrow> int \<Rightarrow> event_row list" where
  "entries s after through = sort_key ev_seq (filter (\<lambda>e. after < ev_seq e \<and> ev_seq e \<le> through) (t_events s))"

lemma entries_sorted:
  assumes "journal_wf s"
  shows "sorted (map ev_seq (entries s a t))" "distinct (map ev_seq (entries s a t))"
proof -
  have "distinct (map ev_seq (filter P (t_events s)))" for P
    using assms by (simp add: journal_wf_def distinct_map_filter)
  then show "sorted (map ev_seq (entries s a t))" "distinct (map ev_seq (entries s a t))"
    by (simp_all add: entries_def distinct_map distinct_sort)
qed

lemma entries_range: "e \<in> set (entries s a t) \<longleftrightarrow> e \<in> set (t_events s) \<and> a < ev_seq e \<and> ev_seq e \<le> t"
  by (auto simp: entries_def)

lemma entries_upto: "filter (\<lambda>e. ev_seq e \<le> c) (entries s a t) = entries s a (min c t)"
  by (simp add: entries_def sort_filter_key conj_ac)

lemma scan_entries:
  "scan s after through limit = map (\<lambda>e. ((ev_seq e, ev_envelope e), ev_channel_id e)) (take limit (entries s after through))"
  by (simp add: scan_def entries_def)

lemma scan_page:
  assumes wf: "journal_wf s" and le: "after \<le> through" and lim: "0 < limit"
  defines "rows \<equiv> scan s after through limit"
  defines "cursor \<equiv> (if rows = [] then through else fst (fst (last rows)))"
  shows "rows = map (\<lambda>e. ((ev_seq e, ev_envelope e), ev_channel_id e)) (entries s after cursor)"
    and "after \<le> cursor" "cursor \<le> through" "cursor = after \<Longrightarrow> through = after"
proof -
  let ?t = "take limit (entries s after through)"
  let ?row = "\<lambda>e. ((ev_seq e, ev_envelope e), ev_channel_id e)"
  have rows: "rows = map ?row ?t" by (simp add: rows_def scan_entries)
  have "rows = map ?row (entries s after cursor) \<and> after \<le> cursor \<and> cursor \<le> through \<and> (cursor = after \<longrightarrow> through = after)"
  proof (cases "?t = []")
    case True
    with lim have "entries s after through = []" by simp
    with True rows le show ?thesis by (simp add: cursor_def)
  next
    case False
    then have c: "cursor = ev_seq (last ?t)" by (simp add: cursor_def rows last_map)
    have "last ?t \<in> set (entries s after through)" using False by (meson last_in_set in_set_takeD)
    then have range: "after < cursor" "cursor \<le> through" by (auto simp: entries_range c)
    have "entries s after cursor = ?t"
      using sorted_take_last [OF entries_sorted [OF wf] False] range(2)
      by (simp add: entries_upto c min_absorb1)
    with rows range show ?thesis by simp
  qed
  then show "rows = map ?row (entries s after cursor)" "after \<le> cursor" "cursor \<le> through"
    "cursor = after \<Longrightarrow> through = after" by simp_all
qed

text \<open>
  C34 (functional). A replay page has no gap and no repeat: it holds, in order, exactly the events the caller
  may read whose sequence numbers lie after the requested cursor and up to the returned one. The
  returned cursor moves on unless everything up to the bound was already delivered.
\<close>

theorem replay_page_exact:
  assumes "reachable X s" and "replay s p (Some after) limit (Some through) = Inr page"
  shows "rp_events page = map (\<lambda>e. (ev_seq e, ev_envelope e))
      (filter (\<lambda>e. is_ok (require_request_read p (ev_channel_id e))) (entries s after (rp_next_cursor page))) \<and>
    after \<le> rp_next_cursor page \<and> rp_next_cursor page \<le> through \<and>
    (rp_next_cursor page = after \<longrightarrow> through = after)"
proof -
  have wf: "journal_wf s"
    using reachable_requests_inv [OF assms(1)] by (simp add: requests_inv_def base_inv_def journal_ok_def)
  define l where "l = (case limit of None \<Rightarrow> 100 | Some l \<Rightarrow> l)"
  let ?rows = "scan s after through (nat l)"
  from assms(2) have g: "after \<le> through" "0 < nat l" and page:
    "rp_events page = map fst (filter (\<lambda>(e, channel). is_ok (require_request_read p channel)) ?rows)"
    "rp_next_cursor page = (if ?rows = [] then through else fst (fst (last ?rows)))"
    unfolding l_def by (auto simp: replay_def Let_def split: if_splits)
  note facts = scan_page [OF wf g, folded page(2)]
  have "rp_events page = map (\<lambda>e. (ev_seq e, ev_envelope e))
      (filter (\<lambda>e. is_ok (require_request_read p (ev_channel_id e))) (entries s after (rp_next_cursor page)))"
    unfolding page(1) by (subst facts(1)) (simp add: filter_map comp_def)
  with facts(2-4) show ?thesis by blast
qed

theorem replay_page_exact_witness:
  "\<exists>page. replay run4 Admin (Some 0) (Some 1) (Some 2) = Inr page \<and> rp_next_cursor page = 1 \<and>
     rp_events page = map (\<lambda>e. (ev_seq e, ev_envelope e))
       (filter (\<lambda>e. is_ok (require_request_read Admin (ev_channel_id e))) (entries run4 0 1))"
proof -
  obtain page where page: "replay run4 Admin (Some 0) (Some 1) (Some 2) = Inr page" "rp_next_cursor page = 1"
    by (simp add: replay_def Let_def may_replay_def high_water_def scan_def run4_def run3_def)
  from replay_page_exact [OF run4_reachable page(1)] page show ?thesis by auto
qed

end
