(* ===== verification/Api_Devices.thy ===== *)
theory Api_Devices
  imports App
begin

text \<open>
  The device endpoints (nod-server api/device_endpoints.rs) and their service layer
  (services/devices.rs): enrollment with its attestation, and what an authenticated device may do to
  itself, to the other devices of its user and to its user's subscriptions.
\<close>

section \<open>Enrollment\<close>

definition apply_attested_native_app_id :: "enroll_body \<Rightarrow> attestation_record option \<Rightarrow> enroll_body" where
  "apply_attested_native_app_id req att =
     (if normalized_optional_text (en_native_app_id req) \<noteq> None then req
      else req\<lparr>en_native_app_id := Option.bind att ar_bundle_id\<rparr>)"

definition enroll_service ::
  "ext \<Rightarrow> attest_ext \<Rightarrow> app_config \<Rightarrow> enroll_body \<Rightarrow> attestation_body option \<Rightarrow> (nat \<Rightarrow> env) \<Rightarrow> app \<Rightarrow>
   (enroll_response \<times> notification_delivery) reply" where
  "enroll_service X A C req0 body E a =
     (let att = verify_enrollment_attestation X A (ac_attest C) req0 body (e_now (E 0) 0);
          req = apply_attested_native_app_id req0 att in
      and_then (in_db (\<lambda>s. enroll_device X s req (E 1)) a) (\<lambda>resp a.
      and_then (check (get_device (ap_db a) (er_device_id resp)) a) (\<lambda>d a.
      and_then (case att of None \<Rightarrow> (Inr resp, a)
        | Some r \<Rightarrow> (case in_txn_ok (\<lambda>s. record_device_attestation s (er_device_id resp) r (e_now (E 2) 0)) a of
            (Inl e, a) \<Rightarrow> (Inr resp, a)
          | (Inr _, a) \<Rightarrow> and_then (check (list_user_devices (ap_db a) (er_user_id resp) (er_device_id resp)) a)
              (\<lambda>devices a. (Inr (resp\<lparr>er_devices := devices\<rparr>), a)))) (\<lambda>resp a.
      let ids = text_object [(''device_id'', er_device_id resp), (''user_id'', er_user_id resp)] in
      (Inr (resp, delivery_for_device C d),
       send (targeted_envelope (E 3) (lit ''device_enrolled'') (JsonUpdate ids) [er_user_id resp])
         (audit (E 3) ''device.enrolled'' (AuditJson ids) a))))))"

section \<open>Handlers\<close>

definition list_channels_api :: "ext \<Rightarrow> app_config \<Rightarrow> headers \<Rightarrow> (nat \<Rightarrow> env) \<Rightarrow> app \<Rightarrow> channel list reply" where
  "list_channels_api X C hs E a =
     and_then (authenticated X C hs (E 0) a) (\<lambda>p a.
     check (case p of DevicePrincipal d \<Rightarrow> list_channels_for_device (ap_db a) (dv_id d)
       | _ \<Rightarrow> Inr (list_channels (ap_db a))) a)"

definition current_user_api ::
  "ext \<Rightarrow> app_config \<Rightarrow> headers \<Rightarrow> (nat \<Rightarrow> env) \<Rightarrow> app \<Rightarrow> (user_row \<times> user_device \<times> notification_delivery) reply" where
  "current_user_api X C hs E a =
     and_then (device_only X hs (E 0) a) (\<lambda>d a.
     and_then (check (get_user (ap_db a) (dv_user_id d)) a) (\<lambda>u a.
     and_then (check (list_user_devices (ap_db a) (dv_user_id d) (dv_id d)) a) (\<lambda>devices a.
     and_then (check (ok_or NotFound (List.find (\<lambda>v. ue_id v = dv_id d) devices)) a) (\<lambda>current a.
     (Inr (u, current, delivery_for_device C d), a)))))"

definition list_user_devices_api :: "ext \<Rightarrow> headers \<Rightarrow> (nat \<Rightarrow> env) \<Rightarrow> app \<Rightarrow> user_device list reply" where
  "list_user_devices_api X hs E a =
     and_then (device_only X hs (E 0) a) (\<lambda>d a. check (list_user_devices (ap_db a) (dv_user_id d) (dv_id d)) a)"

definition update_user_device_api ::
  "ext \<Rightarrow> headers \<Rightarrow> rstr \<Rightarrow> rstr \<Rightarrow> (nat \<Rightarrow> env) \<Rightarrow> app \<Rightarrow> user_device reply" where
  "update_user_device_api X hs did name E a =
     and_then (device_only X hs (E 0) a) (\<lambda>d a.
     and_then (in_db (\<lambda>s. rename_user_device s (dv_user_id d) did (dv_id d) name (e_now (E 1) 0)) a) (\<lambda>v a.
     (Inr v, send (targeted_envelope (E 2) (lit ''device_updated'')
          (DeviceUpdate v) [dv_user_id d])
        (audit (E 2) ''device.renamed'' (AuditJson (text_object [(''device_id'', ue_id v), (''user_id'', ue_user_id v)])) a))))"

definition revoke_user_device_api :: "ext \<Rightarrow> headers \<Rightarrow> rstr \<Rightarrow> (nat \<Rightarrow> env) \<Rightarrow> app \<Rightarrow> unit reply" where
  "revoke_user_device_api X hs did E a =
     and_then (device_only X hs (E 0) a) (\<lambda>d a.
     and_then (in_txn_ok (\<lambda>s. revoke_user_device s (dv_user_id d) did (e_now (E 1) 0)) a) (\<lambda>_ a.
     let ids = text_object [(''device_id'', did), (''user_id'', dv_user_id d)] in
     (Inr (), send (targeted_envelope (E 2) (lit ''device_revoked'') (JsonUpdate ids) [dv_user_id d])
        (audit (E 2) ''device.revoked'' (AuditJson ids) a))))"

definition update_push_token_api ::
  "ext \<Rightarrow> headers \<Rightarrow> rstr \<Rightarrow> rstr \<Rightarrow> rstr \<Rightarrow> (nat \<Rightarrow> env) \<Rightarrow> app \<Rightarrow> unit reply" where
  "update_push_token_api X hs provider token native E a =
     and_then (device_only X hs (E 0) a) (\<lambda>d a.
     and_then (in_txn_ok (\<lambda>s. update_push_token s (dv_id d) provider token native (e_now (E 1) 0)) a) (\<lambda>_ a.
     (Inr (), audit (E 2) ''device.push_token_updated'' (AuditJson (text_object [(''device_id'', dv_id d),
          (''provider'', provider), (''native_app_id'', native)]))
        (send (targeted_envelope (E 2) (lit ''device_push_updated'')
          (JsonUpdate (text_object [(''device_id'', dv_id d)])) [dv_user_id d]) a))))"

definition update_device_preferences_api ::
  "ext \<Rightarrow> headers \<Rightarrow> rstr option \<Rightarrow> (nat \<Rightarrow> env) \<Rightarrow> app \<Rightarrow> unit reply" where
  "update_device_preferences_api X hs sound E a =
     and_then (device_only X hs (E 0) a) (\<lambda>d a.
     and_then (in_txn_ok (\<lambda>s. update_device_preferences s (dv_id d) sound (e_now (E 1) 0)) a) (\<lambda>_ a.
     (Inr (), audit (E 2) ''device.preferences_updated'' (AuditJson (text_object [(''device_id'', dv_id d)])) a)))"

definition update_subscription_api ::
  "ext \<Rightarrow> headers \<Rightarrow> rstr \<Rightarrow> bool \<Rightarrow> (nat \<Rightarrow> env) \<Rightarrow> app \<Rightarrow> unit reply" where
  "update_subscription_api X hs channel subscribed E a =
     and_then (device_only X hs (E 0) a) (\<lambda>d a.
     and_then (in_txn_ok (\<lambda>s. set_subscription s (dv_id d) channel subscribed (e_now (E 1) 0)) a) (\<lambda>_ a.
     (Inr (), send (device_update (E 2) ''subscription_updated'' (JObj [(lit ''device_id'', JStr (dv_id d)),
        (lit ''channel_id'', JStr channel), (lit ''subscribed'', JBool subscribed)])) a)))"

definition clear_channel_api :: "ext \<Rightarrow> headers \<Rightarrow> rstr \<Rightarrow> (nat \<Rightarrow> env) \<Rightarrow> app \<Rightarrow> unit reply" where
  "clear_channel_api X hs channel E a =
     and_then (device_only X hs (E 0) a) (\<lambda>d a.
     and_then (in_txn_ok (\<lambda>s. clear_channel s (dv_id d) channel (e_now (E 1) 0)) a) (\<lambda>_ a.
     let ids = text_object [(''device_id'', dv_id d), (''channel_id'', channel)] in
     (Inr (), send (device_update (E 2) ''cleared'' ids) (audit (E 2) ''channel.cleared'' (AuditJson ids) a))))"

definition update_notification_preferences_api ::
  "ext \<Rightarrow> headers \<Rightarrow> device_preferences \<Rightarrow> (nat \<Rightarrow> env) \<Rightarrow> app \<Rightarrow> unit reply" where
  "update_notification_preferences_api X hs prefs E a =
     and_then (device_only X hs (E 0) a) (\<lambda>d a.
     and_then (in_txn (\<lambda>s. update_notification_preferences s (dv_id d) prefs (e_now (E 1) 0)) a) (\<lambda>stored a.
     let ids = text_object [(''device_id'', dv_id d)] in
     (Inr (), send (targeted_envelope (E 2) (lit ''device_preferences_updated'') (JsonUpdate ids) [dv_user_id d])
        (audit (E 2) ''device.notification_preferences_updated'' (AuditPreferences (dv_id d) stored) a))))"

section \<open>They run the server\<close>

lemma runs_attest: "runs X a (case att of None \<Rightarrow> (Inr resp, a)
    | Some r \<Rightarrow> (case in_txn_ok (\<lambda>s. record_device_attestation s did r t) a of
        (Inl e, a) \<Rightarrow> (Inr resp, a)
      | (Inr _, a) \<Rightarrow> and_then (check (q a) a) (\<lambda>x a. (Inr (g x), a))))"
proof (cases att)
  case (Some r)
  show ?thesis
  proof (cases "record_device_attestation (ap_db a) did r t")
    case (Inr s)
    then have "server_steps X (ap_db a) s" by (blast intro: server_step.attest)
    with Some Inr show ?thesis by (simp add: in_txn_ok_def runs_def and_then_def check_def split: sum.split)
  qed (simp add: Some in_txn_ok_def runs_def)
qed (simp add: runs_def)

lemma runs_enroll_service: "runs X a (enroll_service X A C req body E a)"
  unfolding enroll_service_def Let_def
  by (auto intro!: runs_intros runs_attest intro: server_step.enroll)

lemma device_handlers_run:
  "runs X a (list_channels_api X C hs E a)" "runs X a (current_user_api X C hs E a)"
  "runs X a (list_user_devices_api X hs E a)" "runs X a (update_user_device_api X hs did name E a)"
  "runs X a (revoke_user_device_api X hs did E a)" "runs X a (update_push_token_api X hs provider token native E a)"
  "runs X a (update_device_preferences_api X hs sound E a)" "runs X a (update_subscription_api X hs channel flag E a)"
  "runs X a (clear_channel_api X hs channel E a)" "runs X a (update_notification_preferences_api X hs prefs E a)"
  unfolding list_channels_api_def current_user_api_def list_user_devices_api_def update_user_device_api_def
    revoke_user_device_api_def update_push_token_api_def update_device_preferences_api_def
    update_subscription_api_def clear_channel_api_def update_notification_preferences_api_def Let_def
  by (auto intro!: runs_intros intro: server_step.intros)

end
