(* ===== verification/Api_Admin.thy ===== *)
theory Api_Admin
  imports Api_Requests
begin

text \<open>
  The admin endpoints (nod-server api/admin_endpoints.rs, admin.rs): every one first requires the admin
  token or a valid session cookie, then runs one database operation, audits it and tells the clients.
\<close>

section \<open>The session\<close>

definition create_admin_session ::
  "ext \<Rightarrow> app_config \<Rightarrow> headers \<Rightarrow> rstr option \<Rightarrow> rstr \<Rightarrow> instant \<Rightarrow> rstr api_result" where
  \<comment> \<open>the cookie that is set\<close>
  "create_admin_session X C hs scheme token now =
     (if \<not> admin_token_matches (trim token) (ac_admin_token C) then Inl Forbidden
      else Inr (create_admin_session_cookie X (ac_admin_token C) (request_over_tls hs scheme) now))"

definition delete_admin_session :: rstr where
  "delete_admin_session = expired_admin_session_cookie"

section \<open>Reading\<close>

definition admin_read :: "ext \<Rightarrow> app_config \<Rightarrow> headers \<Rightarrow> (db \<Rightarrow> 'a api_result) \<Rightarrow> (nat \<Rightarrow> env) \<Rightarrow> app \<Rightarrow> 'a reply" where
  "admin_read X C hs f E a = and_then (admin_only X C hs (E 0) a) (\<lambda>_ a. check (f (ap_db a)) a)"

record admin_summary =
  sm_counts :: admin_counts
  sm_delivery :: notification_delivery
  sm_push_route :: "push_route option"
  sm_retention_days :: int

definition admin_summary_api :: "ext \<Rightarrow> app_config \<Rightarrow> headers \<Rightarrow> (nat \<Rightarrow> env) \<Rightarrow> app \<Rightarrow> admin_summary reply" where
  "admin_summary_api X C hs = admin_read X C hs (\<lambda>s. Inr \<lparr>sm_counts = admin_counts_of s,
     sm_delivery = notification_delivery_for_route (ac_push_route C), sm_push_route = ac_push_route C,
     sm_retention_days = ac_retention_days C\<rparr>)"

definition list_admin_channels_api :: "ext \<Rightarrow> app_config \<Rightarrow> headers \<Rightarrow> (nat \<Rightarrow> env) \<Rightarrow> app \<Rightarrow> channel list reply" where
  "list_admin_channels_api X C hs = admin_read X C hs (\<lambda>s. Inr (list_channels s))"

definition list_admin_users_api :: "ext \<Rightarrow> app_config \<Rightarrow> headers \<Rightarrow> (nat \<Rightarrow> env) \<Rightarrow> app \<Rightarrow> admin_user list reply" where
  "list_admin_users_api X C hs = admin_read X C hs (\<lambda>s. Inr (list_users_for_admin s))"

definition list_admin_user_subscriptions_api ::
  "ext \<Rightarrow> app_config \<Rightarrow> headers \<Rightarrow> rstr \<Rightarrow> (nat \<Rightarrow> env) \<Rightarrow> app \<Rightarrow> channel list reply" where
  "list_admin_user_subscriptions_api X C hs uid = admin_read X C hs (\<lambda>s. list_user_subscriptions_for_admin s uid)"

definition list_admin_devices_api :: "ext \<Rightarrow> app_config \<Rightarrow> headers \<Rightarrow> (nat \<Rightarrow> env) \<Rightarrow> app \<Rightarrow> admin_device list reply" where
  "list_admin_devices_api X C hs = admin_read X C hs list_devices_for_admin"

definition list_admin_issuer_tokens_api ::
  "ext \<Rightarrow> app_config \<Rightarrow> headers \<Rightarrow> (nat \<Rightarrow> env) \<Rightarrow> app \<Rightarrow> admin_issuer_token list reply" where
  "list_admin_issuer_tokens_api X C hs = admin_read X C hs (\<lambda>s. Inr (list_issuer_tokens_for_admin s))"

section \<open>Changing\<close>

definition id_object :: "string \<Rightarrow> rstr \<Rightarrow> json" where
  "id_object k v = text_object [(k, v)]"

definition create_user_api ::
  "ext \<Rightarrow> app_config \<Rightarrow> headers \<Rightarrow> rstr \<Rightarrow> rstr \<Rightarrow> (nat \<Rightarrow> env) \<Rightarrow> app \<Rightarrow> user reply" where
  "create_user_api X C hs uid name E a =
     and_then (admin_only X C hs (E 0) a) (\<lambda>_ a.
     and_then (in_db (\<lambda>s. create_user s uid name (E 1)) a) (\<lambda>u a.
     (Inr u, send (device_update (E 2) ''user_updated'' (id_object ''user_id'' (u_id u)))
        (audit (E 2) ''user.upserted'' (AuditUser u) a))))"

definition update_admin_user_api ::
  "ext \<Rightarrow> app_config \<Rightarrow> headers \<Rightarrow> rstr \<Rightarrow> rstr \<Rightarrow> (nat \<Rightarrow> env) \<Rightarrow> app \<Rightarrow> user reply" where
  "update_admin_user_api X C hs uid name E a =
     and_then (admin_only X C hs (E 0) a) (\<lambda>_ a.
     and_then (in_db (\<lambda>s. update_user s uid name (e_now (E 1) 0)) a) (\<lambda>u a.
     (Inr u, send (device_update (E 2) ''user_updated'' (id_object ''user_id'' (u_id u)))
        (audit (E 2) ''user.updated'' (AuditUser u) a))))"

definition delete_admin_user_api :: "ext \<Rightarrow> app_config \<Rightarrow> headers \<Rightarrow> rstr \<Rightarrow> (nat \<Rightarrow> env) \<Rightarrow> app \<Rightarrow> unit reply" where
  "delete_admin_user_api X C hs uid E a =
     and_then (admin_only X C hs (E 0) a) (\<lambda>_ a.
     and_then (in_txn_ok (\<lambda>s. delete_user s uid (e_now (E 1) 0)) a) (\<lambda>_ a.
     (Inr (), send (device_update (E 2) ''user_deleted'' (id_object ''user_id'' uid))
        (audit (E 2) ''user.deleted'' (AuditJson (id_object ''user_id'' uid)) a))))"

definition create_enrollment_code_api ::
  "ext \<Rightarrow> app_config \<Rightarrow> headers \<Rightarrow> rstr \<Rightarrow> int option \<Rightarrow> (nat \<Rightarrow> env) \<Rightarrow> app \<Rightarrow> enrollment_code_response reply" where
  "create_enrollment_code_api X C hs uid lifetime E a =
     and_then (admin_only X C hs (E 0) a) (\<lambda>_ a.
     and_then (in_txn (\<lambda>s. create_enrollment_code X s uid lifetime (E 1)) a) (\<lambda>c a.
     (Inr c, audit (E 2) ''enrollment_code.created'' (AuditJson (text_object [(''user_id'', uid),
        (''expires_at'', x_fmt_serde X (cr_expires_at c))])) a)))"

definition update_admin_user_subscriptions_api ::
  "ext \<Rightarrow> app_config \<Rightarrow> headers \<Rightarrow> rstr \<Rightarrow> (rstr \<times> bool) list \<Rightarrow> (nat \<Rightarrow> env) \<Rightarrow> app \<Rightarrow> channel list reply" where
  "update_admin_user_subscriptions_api X C hs uid updates E a =
     and_then (admin_only X C hs (E 0) a) (\<lambda>_ a.
     and_then (in_db (\<lambda>s. update_user_subscriptions_for_admin s uid updates (E 1)) a) (\<lambda>channels a.
     let payload = JObj [(lit ''user_id'', JStr uid), (lit ''updates'', JArr (map (\<lambda>(c, b).
           JObj [(lit ''channel_id'', JStr c), (lit ''subscribed'', JBool b)]) updates))] in
     (Inr channels, if updates = [] then a
        else send (targeted_envelope (E 2) (lit ''subscription_updated'') (JsonUpdate payload) [uid])
          (audit (E 2) ''user.subscription_updated'' (AuditJson payload) a))))"

definition create_channel_api ::
  "ext \<Rightarrow> app_config \<Rightarrow> headers \<Rightarrow> create_channel_body \<Rightarrow> (nat \<Rightarrow> env) \<Rightarrow> app \<Rightarrow> channel reply" where
  "create_channel_api X C hs body E a =
     and_then (admin_only X C hs (E 0) a) (\<lambda>_ a.
     and_then (in_db (\<lambda>s. create_channel X s body (e_now (E 1) 0)) a) (\<lambda>c a.
     (Inr c, send (channel_update (E 2) ''channel_updated'' c) (audit (E 2) ''channel.upserted'' (AuditChannel c) a))))"

definition delete_admin_channel_api :: "ext \<Rightarrow> app_config \<Rightarrow> headers \<Rightarrow> rstr \<Rightarrow> (nat \<Rightarrow> env) \<Rightarrow> app \<Rightarrow> unit reply" where
  "delete_admin_channel_api X C hs cid E a =
     and_then (admin_only X C hs (E 0) a) (\<lambda>_ a.
     and_then (in_txn_ok (\<lambda>s. delete_channel s cid) a) (\<lambda>_ a.
     (Inr (), send (device_update (E 2) ''channel_deleted'' (id_object ''channel_id'' cid))
        (audit (E 2) ''channel.deleted'' (AuditJson (id_object ''channel_id'' cid)) a))))"

definition delete_admin_device_api :: "ext \<Rightarrow> app_config \<Rightarrow> headers \<Rightarrow> rstr \<Rightarrow> (nat \<Rightarrow> env) \<Rightarrow> app \<Rightarrow> unit reply" where
  "delete_admin_device_api X C hs did E a =
     and_then (admin_only X C hs (E 0) a) (\<lambda>_ a.
     and_then (in_txn_ok (\<lambda>s. delete_device s did (e_now (E 1) 0)) a) (\<lambda>_ a.
     (Inr (), send (device_update (E 2) ''device_revoked'' (id_object ''device_id'' did))
        (audit (E 2) ''device.revoked'' (AuditJson (id_object ''device_id'' did)) a))))"

definition update_admin_subscription_api ::
  "ext \<Rightarrow> app_config \<Rightarrow> headers \<Rightarrow> rstr \<Rightarrow> rstr \<Rightarrow> bool \<Rightarrow> (nat \<Rightarrow> env) \<Rightarrow> app \<Rightarrow> unit reply" where
  "update_admin_subscription_api X C hs did channel subscribed E a =
     and_then (admin_only X C hs (E 0) a) (\<lambda>_ a.
     and_then (check (get_device (ap_db a) did) a) (\<lambda>_ a.
     and_then (in_txn_ok (\<lambda>s. set_subscription s did channel subscribed (e_now (E 1) 0)) a) (\<lambda>_ a.
     let payload = JObj [(lit ''device_id'', JStr did), (lit ''channel_id'', JStr channel),
           (lit ''subscribed'', JBool subscribed)] in
     (Inr (), send (device_update (E 2) ''subscription_updated'' payload)
        (audit (E 2) ''device.subscription_updated'' (AuditJson payload) a)))))"

definition create_issuer_token_api ::
  "ext \<Rightarrow> app_config \<Rightarrow> headers \<Rightarrow> rstr \<Rightarrow> rstr list \<Rightarrow> (nat \<Rightarrow> env) \<Rightarrow> app \<Rightarrow> create_issuer_response reply" where
  "create_issuer_token_api X C hs name scopes E a =
     and_then (admin_only X C hs (E 0) a) (\<lambda>_ a.
     and_then (in_txn (\<lambda>s. create_issuer_token X s name scopes (E 1)) a) (\<lambda>t a.
     (Inr t, audit (E 2) ''issuer_token.created'' (AuditJson (JObj [(lit ''id'', JStr (ci_id t)),
        (lit ''scopes'', JArr (map JStr (ci_scopes t)))])) a)))"

definition revoke_admin_issuer_token_api :: "ext \<Rightarrow> app_config \<Rightarrow> headers \<Rightarrow> rstr \<Rightarrow> (nat \<Rightarrow> env) \<Rightarrow> app \<Rightarrow> unit reply" where
  "revoke_admin_issuer_token_api X C hs tid E a =
     and_then (admin_only X C hs (E 0) a) (\<lambda>_ a.
     and_then (in_txn_ok (\<lambda>s. revoke_issuer_token s tid (e_now (E 1) 0)) a) (\<lambda>_ a.
     (Inr (), audit (E 2) ''issuer_token.revoked'' (AuditJson (id_object ''id'' tid)) a)))"

definition create_admin_test_request_api ::
  "ext \<Rightarrow> app_config \<Rightarrow> headers \<Rightarrow> create_request_body \<Rightarrow> rstr option \<Rightarrow> (nat \<Rightarrow> env) \<Rightarrow> app \<Rightarrow>
   (rstr \<times> bool \<times> request) reply" where
  "create_admin_test_request_api X C hs req key E a =
     and_then (admin_only X C hs (E 0) a) (\<lambda>_ a.
     and_then (create_service X C req \<lparr>cm_origin = None, cm_issuer = None, cm_idempotency_key = key\<rparr> E a) (\<lambda>c a.
     (Inr (cd_request_id c, cd_deduped c, to_wire X (cd_request c)), a)))"

section \<open>They run the server\<close>

lemma runs_admin_read: "runs X a (admin_read X C hs f E a)"
  unfolding admin_read_def by (auto intro!: runs_intros)

lemma admin_handlers_run:
  "runs X a (create_user_api X C hs uid name E a)" "runs X a (update_admin_user_api X C hs uid name E a)"
  "runs X a (delete_admin_user_api X C hs uid E a)" "runs X a (create_enrollment_code_api X C hs uid lifetime E a)"
  "runs X a (update_admin_user_subscriptions_api X C hs uid updates E a)" "runs X a (create_channel_api X C hs body E a)"
  "runs X a (delete_admin_channel_api X C hs cid E a)" "runs X a (delete_admin_device_api X C hs did E a)"
  "runs X a (update_admin_subscription_api X C hs did cid flag E a)"
  "runs X a (create_issuer_token_api X C hs name scopes E a)" "runs X a (revoke_admin_issuer_token_api X C hs tid E a)"
  "runs X a (create_admin_test_request_api X C hs req key E a)"
  unfolding create_user_api_def update_admin_user_api_def delete_admin_user_api_def create_enrollment_code_api_def
    update_admin_user_subscriptions_api_def create_channel_api_def delete_admin_channel_api_def
    delete_admin_device_api_def update_admin_subscription_api_def create_issuer_token_api_def
    revoke_admin_issuer_token_api_def create_admin_test_request_api_def Let_def
  by (auto intro!: runs_intros intro: server_step.intros)

text \<open>Without the admin's credentials an endpoint answers an error and does nothing.\<close>

lemma admin_guard: "require_admin X hs (ac_admin_token C) (e_now (E 0) 0) = Inl e \<Longrightarrow>
    and_then (admin_only X C hs (E 0) a) f = (Inl e, a)"
  by (simp add: and_then_def admin_only_def check_def)

end
