(* ===== verification/Workers.thy ===== *)
theory Workers
  imports Api_Requests
begin

text \<open>
  The background workers of the server. A push task (services/push_delivery.rs) is a small state machine,
  stepped on whatever database it finds: prepare, count the attempt, send, record the outcome.
  The callback task (services/callback_delivery.rs) and the publisher task (services/lifecycle_publish.rs)
  settle one claim with what the network answered. The maintenance sweep (state.rs) expires and prunes.
\<close>

section \<open>Push tasks\<close>

datatype send_outcome = Accepted | SendFailed rstr bool bool \<comment> \<open>message, retryable, invalid token\<close>

definition prepare_delivery ::
  "ext \<Rightarrow> app_config \<Rightarrow> db \<Rightarrow> push_job \<Rightarrow> env \<Rightarrow> (device_row \<times> decision_request) option api_result" where
  "prepare_delivery X C s j E =
     (case get_device s (pj_device_id j) of
        Inl NotFound \<Rightarrow> Inr None
      | Inl e \<Rightarrow> Inl e
      | Inr d \<Rightarrow>
          if \<not> has_route C d \<or> dv_push_token d = None then Inr None
          else if \<not> request_delivery_eligible s (pj_request_id j) (dv_user_id d) then Inr None
          else (case request_for_user X s (pj_request_id j) (dv_user_id d) of
              Inl NotFound \<Rightarrow> Inr None
            | Inl e \<Rightarrow> Inl e
            | Inr r \<Rightarrow>
                if \<not> allows_alert (dv_preferences d) (r_channel_id r) (e_now E 0) then Inr None
                else if r_status r \<noteq> Pending \<or> (case r_expires_at r of None \<Rightarrow> False | Some t \<Rightarrow> t \<le> e_now E 1)
                then Inr None
                else Inr (Some (d, r))))"

definition registry_push :: "app_config \<Rightarrow> device_row \<Rightarrow> send_outcome \<Rightarrow> send_outcome" where
  "registry_push C d out =
     (case device_route_key d of None \<Rightarrow> Accepted
      | Some k \<Rightarrow> if k \<notin> set (ac_routes C) then SendFailed (lit ''push provider route is not configured'') False False
          else out)"

datatype push_phase =
    Prepare push_job
  | Attempt push_job device_row decision_request
  | Sending push_job device_row
  | PushDone

definition progress :: "db \<Rightarrow> push_job \<Rightarrow> rstr \<Rightarrow> rstr option \<Rightarrow> env \<Rightarrow> db" where
  \<comment> \<open>a failed update is only logged\<close>
  "progress s j status err E = (case update_push s j status err (e_now E 2) of Inl _ \<Rightarrow> s | Inr s' \<Rightarrow> s')"

definition skipped_reason :: rstr where
  "skipped_reason = lit ''request handled, alerts muted/snoozed, device revoked, or push route unavailable''"

text \<open>A cleared token is announced to the clients of its user.\<close>

definition announce_cleared :: "env \<Rightarrow> device_row \<Rightarrow> bool \<Rightarrow> app \<Rightarrow> app" where
  "announce_cleared E d cleared a =
     (if cleared then send (targeted_envelope E (lit ''device_push_updated'')
        (JsonUpdate (text_object [(''device_id'', dv_id d)])) [dv_user_id d]) a else a)"

definition reject_token :: "app \<Rightarrow> push_job \<Rightarrow> device_row \<Rightarrow> env \<Rightarrow> app" where
  "reject_token a j d E =
     (case clear_invalid_push_token (ap_db a) j (dv_push_token d) (e_now E 3) of
        (cleared, s) \<Rightarrow> announce_cleared E d cleared (a\<lparr>ap_db := s\<rparr>))"

definition progress_on :: "app \<Rightarrow> push_job \<Rightarrow> rstr \<Rightarrow> rstr option \<Rightarrow> env \<Rightarrow> app" where
  "progress_on a j status err E = a\<lparr>ap_db := progress (ap_db a) j status err E\<rparr>"

definition push_step ::
  "ext \<Rightarrow> app_config \<Rightarrow> app \<Rightarrow> env \<Rightarrow> send_outcome \<Rightarrow> push_phase \<Rightarrow> push_phase \<times> app" where
  "push_step X C a E out ph =
     (case ph of
        Prepare j \<Rightarrow>
          if \<not> pj_attempts j < MAX_ATTEMPTS
          then (PushDone, progress_on a j (lit ''failed'') (Some (lit ''delivery attempt limit reached'')) E)
          else (case prepare_delivery X C (ap_db a) j E of
              Inl _ \<Rightarrow> (PushDone, a)
            | Inr None \<Rightarrow> (PushDone, progress_on a j (lit ''skipped'') (Some skipped_reason) E)
            | Inr (Some (d, r)) \<Rightarrow> (Attempt j d r, a))
      | Attempt j d r \<Rightarrow> (case begin_attempt (ap_db a) j (e_now E 0) of
            Inl _ \<Rightarrow> (PushDone, a)
          | Inr (j', s) \<Rightarrow> (Sending j' d, a\<lparr>ap_db := s\<rparr>))
      | Sending j d \<Rightarrow> (case registry_push C d out of
            Accepted \<Rightarrow> (PushDone, progress_on a j (lit ''accepted'') None E)
          | SendFailed message retryable invalid_token \<Rightarrow>
              let a1 = (if invalid_token then reject_token a j d E else a);
                  will_retry = retryable \<and> pj_attempts j < MAX_ATTEMPTS;
                  a2 = progress_on a1 j (if will_retry then lit ''sending'' else lit ''failed'') (Some (take 240 message)) E
              in (if will_retry then Prepare j else PushDone, a2))
      | PushDone \<Rightarrow> (PushDone, a))"

text \<open>The steps left, whatever the database and the provider do.\<close>

fun steps_left :: "push_phase \<Rightarrow> nat" where
  "steps_left (Prepare j) = 3 * nat (MAX_ATTEMPTS - pj_attempts j) + 1"
| "steps_left (Attempt j d r) = 3 * nat (MAX_ATTEMPTS - pj_attempts j)"
| "steps_left (Sending j d) = 3 * nat (MAX_ATTEMPTS - pj_attempts j) + 2"
| "steps_left PushDone = 0"

fun phase_ok :: "push_phase \<Rightarrow> bool" where
  "phase_ok (Attempt j d r) \<longleftrightarrow> pj_attempts j < MAX_ATTEMPTS"
| "phase_ok _ \<longleftrightarrow> True"

lemma begin_attempt_job: "begin_attempt s j t = Inr (j', s') \<Longrightarrow> pj_attempts j' = pj_attempts j + 1"
  by (auto simp: begin_attempt_def Let_def split: if_splits)

lemma push_step_measure:
  assumes "phase_ok ph" "ph \<noteq> PushDone" "push_step X C a E out ph = (ph', a')"
  shows "phase_ok ph' \<and> steps_left ph' < steps_left ph"
proof (cases ph)
  case (Prepare j)
  with assms(3) show ?thesis
    by (auto simp: push_step_def split: if_splits sum.splits option.splits)
next
  case (Attempt j d r)
  with assms(1) have lt: "pj_attempts j < MAX_ATTEMPTS" by simp
  show ?thesis
  proof (cases "begin_attempt (ap_db a) j (e_now E 0)")
    case (Inr p)
    with assms(3) Attempt obtain j' where "ph' = Sending j' d" "pj_attempts j' = pj_attempts j + 1"
      using begin_attempt_job by (cases p) (auto simp: push_step_def)
    with Attempt lt show ?thesis by simp
  qed (use assms(3) Attempt lt in \<open>auto simp: push_step_def\<close>)
next
  case (Sending j d)
  with assms(3) show ?thesis
    by (auto simp: push_step_def Let_def split: if_splits send_outcome.splits)
qed (use assms(2) in simp)

text \<open>A run: at each step the database the task finds, the clock, and what the provider would answer.\<close>

fun push_task ::
  "ext \<Rightarrow> app_config \<Rightarrow> (app \<times> env \<times> send_outcome) list \<Rightarrow> push_phase \<Rightarrow> push_phase" where
  "push_task X C [] ph = ph"
| "push_task X C ((a, E, out) # rest) ph = push_task X C rest (fst (push_step X C a E out ph))"

lemma push_task_done [simp]: "push_task X C ms PushDone = PushDone"
  by (induction ms) (auto simp: push_step_def)

lemma push_task_ends:
  "phase_ok ph \<Longrightarrow> steps_left ph \<le> length ms \<Longrightarrow> push_task X C ms ph = PushDone"
proof (induction ms arbitrary: ph)
  case Nil
  then show ?case by (cases ph) auto
next
  case (Cons m ms)
  obtain a E out where m: "m = (a, E, out)" by (cases m)
  obtain ph' a' where st: "push_step X C a E out ph = (ph', a')" by (cases "push_step X C a E out ph")
  show ?case
  proof (cases "ph = PushDone")
    case False
    from push_step_measure [OF Cons.prems(1) False st] Cons.prems(2) have "phase_ok ph'" "steps_left ph' \<le> length ms"
      by auto
    with Cons.IH show ?thesis by (simp add: m st)
  qed simp
qed

text \<open>Each step is a run of the server.\<close>

lemma progress_steps: "server_steps X s (progress s j status err E)"
  by (auto simp: progress_def intro: server_step.finish_push split: sum.split)

lemma announce_cleared_db [simp]: "ap_db (announce_cleared E d cleared a) = ap_db a"
  by (simp add: announce_cleared_def send_def)

lemma reject_token_db: "ap_db (reject_token a j d E) =
    snd (clear_invalid_push_token (ap_db a) j (dv_push_token d) (e_now E 3))"
  by (simp add: reject_token_def split: prod.split)

lemma progress_on_steps: "server_steps X (ap_db a) (ap_db (progress_on a j status err E))"
  by (simp add: progress_on_def progress_steps)

lemma rejected_progress_steps: "server_steps X (ap_db a) (ap_db (progress_on (reject_token a j d E) j status err E))"
  unfolding progress_on_def reject_token_db app.select_convs app.update_convs
  by (simp add: reject_token_db converse_rtranclp_into_rtranclp [OF server_step.drop_token progress_steps])

lemma push_step_runs: "server_steps X (ap_db a) (ap_db (snd (push_step X C a E out ph)))"
proof (cases ph)
  case (Sending j d)
  show ?thesis
  proof (cases "registry_push C d out")
    case (SendFailed message retryable invalid)
    with Sending show ?thesis
      by (cases invalid) (simp_all add: push_step_def Let_def progress_on_steps rejected_progress_steps)
  qed (simp add: Sending push_step_def progress_on_steps)
qed (auto simp: push_step_def progress_on_steps split: sum.split option.split intro: server_step.attempt_push)

section \<open>Callback and publisher tasks\<close>

definition deliver_callback ::
  "app_config \<Rightarrow> db \<Rightarrow> callback_claim \<Rightarrow> int option \<Rightarrow> env \<Rightarrow> db" where
  \<comment> \<open>\<open>answer\<close>: the status the destination answered with, if it did so in time\<close>
  "deliver_callback C s c answer E =
     (let blocked = \<not> is_ok (validate_destination C (ac_callback_origins C) (Some (cc_url c)));
          status = (if blocked then None else answer)
      in case status of
           Some n \<Rightarrow> if 200 \<le> n \<and> n < 300
             then (case complete_callback s c n (e_now E 0) of Inl _ \<Rightarrow> s | Inr (_, s') \<Rightarrow> s')
             else snd (retry_callback s c status blocked E)
         | None \<Rightarrow> snd (retry_callback s c status blocked E))"

definition acknowledged_sequence :: "rstr \<Rightarrow> rstr \<Rightarrow> nat \<Rightarrow> int option" where
  "acknowledged_sequence expected stream sequence =
     (if expected = stream \<and> sequence < 2 ^ 63 then Some (int sequence) else None)"

definition publish_task :: "nats_config \<Rightarrow> db \<Rightarrow> publish_claim \<Rightarrow> (rstr \<times> nat) option \<Rightarrow> env \<Rightarrow> db" where
  \<comment> \<open>\<open>ack\<close>: the stream and sequence of the acknowledgement, if one came in time\<close>
  "publish_task N s c ack E =
     (case Option.bind ack (\<lambda>(stream, sequence). acknowledged_sequence (na_expected_stream N) stream sequence) of
        Some n \<Rightarrow> snd (published s c n (e_now E 0))
      | None \<Rightarrow> snd (publish_retry s c E))"

definition authentication_token :: "rstr \<Rightarrow> rstr option" where
  \<comment> \<open>the token of an authentication file: one line without white space\<close>
  "authentication_token raw =
     (let token = (if drop (length raw - 2) raw = [13, 10] then butlast (butlast raw)
                   else if raw \<noteq> [] \<and> last raw = 10 then butlast raw else raw)
      in if token = [] \<or> list_ex (\<lambda>c. is_control c \<or> is_whitespace c) token then None else Some token)"

lemma deliver_callback_runs: "server_steps X s (deliver_callback C s c answer E)"
proof -
  have retry: "server_steps X s (snd (retry_callback s c st b E))" for st b
    by (intro r_into_rtranclp server_step.redeliver)
  have done_: "server_steps X s (case complete_callback s c n t of Inl _ \<Rightarrow> s | Inr (_, s') \<Rightarrow> s')" for n t
    by (auto intro: server_step.delivered split: sum.split)
  show ?thesis
    unfolding deliver_callback_def Let_def
    by (simp only: retry done_ split: option.split if_split) simp
qed

lemma publish_task_runs: "server_steps X s (publish_task N s c ack E)"
  by (auto simp: publish_task_def split: option.split intro: server_step.publish server_step.republish)

section \<open>Maintenance\<close>

definition announce_expired :: "ext \<Rightarrow> env \<Rightarrow> decision_request list \<Rightarrow> app \<Rightarrow> app" where
  "announce_expired X E rs a =
     fold (\<lambda>r a. audit E ''request.expired'' (AuditRequest r) (send (sync_request X E ''expired'' r) a)) rs a"

definition maintenance_tick :: "ext \<Rightarrow> app_config \<Rightarrow> (nat \<Rightarrow> env) \<Rightarrow> app \<Rightarrow> app" where
  "maintenance_tick X C E a =
     (let a1 = (case expire_due_requests X (ap_db a) (E 0) of
            Inl _ \<Rightarrow> a
          | Inr (rs, s) \<Rightarrow> announce_expired X (E 1) rs (a\<lparr>ap_db := s\<rparr>))
      in a1\<lparr>ap_db := snd (prune_retention (ap_db a1) (ac_retention_days C) (e_now (E 2) 0))\<rparr>)"

lemma announce_db [simp]: "ap_db (announce_expired X E rs a) = ap_db a"
  unfolding announce_expired_def by (induction rs arbitrary: a) auto

lemma maintenance_runs: "server_steps X (ap_db a) (ap_db (maintenance_tick X C E a))"
proof -
  have prune: "server_steps X s (snd (prune_retention s n t))" for s n t
    by (intro r_into_rtranclp server_step.prune)
  show ?thesis
  proof (cases "expire_due_requests X (ap_db a) (E 0)")
    case (Inr p)
    then obtain rs s where s: "expire_due_requests X (ap_db a) (E 0) = Inr (rs, s)" by (cases p) auto
    have "server_step X (ap_db a) s" by (rule server_step.expire [OF s])
    then show ?thesis
      by (simp add: maintenance_tick_def s converse_rtranclp_into_rtranclp [OF _ prune])
  qed (simp add: maintenance_tick_def prune)
qed

end
