(* ===== verification/Api_Run.thy ===== *)
theory Api_Run
  imports Api_Devices Api_Admin Workers
begin

text \<open>
  The whole server process: one step per HTTP request, with any headers and body, and one per action of
  the background workers. Every step runs the database layer's operations, so the process refines the
  state machine of the database layer and inherits all its invariants.
\<close>

section \<open>Steps\<close>

inductive api_step :: "ext \<Rightarrow> attest_ext \<Rightarrow> app_config \<Rightarrow> nats_config \<Rightarrow> app \<Rightarrow> app \<Rightarrow> bool"
  for X :: ext and A :: attest_ext and C :: app_config and N :: nats_config and a :: app where
  create_request: "api_step X A C N a (snd (create_request_api X C hs req org key E a))"
| list_requests: "api_step X A C N a (snd (list_requests_api X C hs channel cleared limit search before E a))"
| get_request: "api_step X A C N a (snd (get_request_api X C hs rid E a))"
| cancel_request: "api_step X A C N a (snd (cancel_request_api X C hs rid E a))"
| get_decision: "api_step X A C N a (snd (get_request_decision_api X C hs rid E a))"
| submit_option: "api_step X A C N a (snd (submit_option_api X hs rid opt dec E a))"
| wait: "api_step X A C N a (snd (wait_api X C hs rid polls deadline E a))"
| bind_origin: "api_step X A C N a (snd (bind_origin_api X C hs rid g E a))"
| replay: "api_step X A C N a (snd (replay_api X C hs after limit' through E a))"
| event_detail: "api_step X A C N a (snd (detail_api X C hs eid E a))"
| enroll: "api_step X A C N a (snd (enroll_service X A C en body E a))"
| list_channels: "api_step X A C N a (snd (list_channels_api X C hs E a))"
| current_user: "api_step X A C N a (snd (current_user_api X C hs E a))"
| list_devices: "api_step X A C N a (snd (list_user_devices_api X hs E a))"
| rename_device: "api_step X A C N a (snd (update_user_device_api X hs did name E a))"
| revoke_device: "api_step X A C N a (snd (revoke_user_device_api X hs did E a))"
| push_token: "api_step X A C N a (snd (update_push_token_api X hs provider token native E a))"
| sound: "api_step X A C N a (snd (update_device_preferences_api X hs sound E a))"
| subscribe: "api_step X A C N a (snd (update_subscription_api X hs cid flag E a))"
| clear: "api_step X A C N a (snd (clear_channel_api X hs cid E a))"
| preferences: "api_step X A C N a (snd (update_notification_preferences_api X hs prefs E a))"
| new_user: "api_step X A C N a (snd (create_user_api X C hs uid name E a))"
| change_user: "api_step X A C N a (snd (update_admin_user_api X C hs uid name E a))"
| drop_user: "api_step X A C N a (snd (delete_admin_user_api X C hs uid E a))"
| new_code: "api_step X A C N a (snd (create_enrollment_code_api X C hs uid lifetime E a))"
| user_subscriptions: "api_step X A C N a (snd (update_admin_user_subscriptions_api X C hs uid updates E a))"
| new_channel: "api_step X A C N a (snd (create_channel_api X C hs cb E a))"
| drop_channel: "api_step X A C N a (snd (delete_admin_channel_api X C hs cid E a))"
| drop_device: "api_step X A C N a (snd (delete_admin_device_api X C hs did E a))"
| device_subscription: "api_step X A C N a (snd (update_admin_subscription_api X C hs did cid flag E a))"
| new_issuer: "api_step X A C N a (snd (create_issuer_token_api X C hs name scopes E a))"
| drop_issuer: "api_step X A C N a (snd (revoke_admin_issuer_token_api X C hs tid E a))"
| test_request: "api_step X A C N a (snd (create_admin_test_request_api X C hs req key E a))"
| recover_pushes: "api_step X A C N a (a\<lparr>ap_db := recover_pushes (ap_db a) t\<rparr>)"
| claim_pushes: "api_step X A C N a (a\<lparr>ap_db := snd (claim_pushes (ap_db a) n t)\<rparr>)"
| push_work: "api_step X A C N a (snd (push_step X C a E' out ph))"
| claim_callback: "api_step X A C N a (a\<lparr>ap_db := snd (claim_callback (ap_db a) E')\<rparr>)"
| callback_work: "api_step X A C N a (a\<lparr>ap_db := deliver_callback C (ap_db a) c answer E'\<rparr>)"
| claim_event: "api_step X A C N a (a\<lparr>ap_db := snd (claim_event (ap_db a) E')\<rparr>)"
| publish_work: "api_step X A C N a (a\<lparr>ap_db := publish_task N (ap_db a) c' ack E'\<rparr>)"
| maintenance: "api_step X A C N a (maintenance_tick X C E a)"
| restart: "api_step X A C N a (a\<lparr>ap_db := seed_defaults (ap_db a) E'\<rparr>)"

inductive_cases api_stepE: "api_step X A C N a a'"

inductive api_reachable :: "ext \<Rightarrow> attest_ext \<Rightarrow> app_config \<Rightarrow> nats_config \<Rightarrow> app \<Rightarrow> bool"
  for X :: ext and A :: attest_ext and C :: app_config and N :: nats_config where
  start: "api_reachable X A C N \<lparr>ap_db = seed_defaults empty_db E, ap_audit = [], ap_sync = []\<rparr>"
| step: "api_reachable X A C N a \<Longrightarrow> api_step X A C N a a' \<Longrightarrow> api_reachable X A C N a'"

section \<open>Simulation\<close>

lemmas handlers_run = request_handlers_run device_handlers_run admin_handlers_run runs_enroll_service

lemma worker_steps:
  "server_steps X s (recover_pushes s t)" "server_steps X s (snd (claim_pushes s n t))"
  "server_steps X s (snd (claim_callback s E))" "server_steps X s (snd (claim_event s E))"
  "server_steps X s (seed_defaults s E)"
  by (intro r_into_rtranclp server_step.intros)+

lemma db_update: "ap_db (a\<lparr>ap_db := s\<rparr>) = s"
  by simp

lemma api_step_runs:
  assumes "api_step X A C N a a'"
  shows "server_steps X (ap_db a) (ap_db a')"
  by (rule api_stepE [OF assms]; simp only: db_update)
    (rule handlers_run [unfolded runs_def] worker_steps push_step_runs deliver_callback_runs publish_task_runs
        maintenance_runs)+

lemma api_reachable_db: "api_reachable X A C N a \<Longrightarrow> reachable X (ap_db a)"
proof (induction rule: api_reachable.induct)
  case (start E)
  show ?case by (simp add: reachable.start)
next
  case (step a a')
  with reachable_steps [OF api_step_runs] show ?case by blast
qed

end
