(* ===== verification/Api_Facts.thy ===== *)
theory Api_Facts
  imports Api_Run Queue_Facts
begin

text \<open>
  The properties of the server process: it refines the database layer, requests are cancelled and answered
  only under the right credentials, and a push task ends after at most ten steps.
\<close>

section \<open>Replies\<close>

lemma and_then_ok: "and_then r f = (Inr y, a') \<longleftrightarrow> (\<exists>x a1. r = (Inr x, a1) \<and> f x a1 = (Inr y, a'))"
  by (auto simp: and_then_def split: sum.splits prod.splits)

lemma check_ok: "check r a = (Inr x, a') \<longleftrightarrow> r = Inr x \<and> a' = a"
  by (auto simp: check_def)

lemma in_txn_Inr: "in_txn f a = (Inr x, a') \<longleftrightarrow> (\<exists>s. f (ap_db a) = Inr (x, s) \<and> a' = a\<lparr>ap_db := s\<rparr>)"
  by (auto simp: in_txn_def split: sum.splits prod.splits)

lemmas reply_simps = and_then_ok check_ok in_txn_Inr

definition cancel_scopes :: "rstr \<Rightarrow> rstr list" where
  "cancel_scopes channel = [lit ''*'', lit ''requests:*'', lit ''requests:cancel'',
     lit ''requests:cancel:'' @ channel, lit ''requests:*:'' @ channel]"

lemma cancel_scope_iff:
  "has_request_scope t OP_CANCEL channel \<longleftrightarrow> (\<exists>scope \<in> set (iu_scopes t). scope \<in> set (cancel_scopes channel))"
proof -
  have member: "scope \<in> set (cancel_scopes channel) \<longleftrightarrow> scope = lit ''*'' \<or> scope = lit ''requests:*'' \<or>
      scope = scope_text OP_CANCEL \<or> scope = scope_text OP_CANCEL @ lit '':'' @ channel \<or>
      scope = lit ''requests:*:'' @ channel" for scope
    by (simp add: cancel_scopes_def scope_text_def OP_CANCEL_def lit_def)
  have "OP_CANCEL \<noteq> OP_READ" by (simp add: OP_CANCEL_def OP_READ_def lit_def)
  then show ?thesis
    unfolding has_request_scope_def list_ex_iff member by (simp only: simp_thms)
qed

lemma authenticate_ok:
  assumes "authenticate X s hs admin E = Inr (p, s')"
  obtains (admin) token where "bearer_token hs = Inr token" "utf8 token = utf8 admin" "p = Admin" "s' = s"
  | (device) token d where "bearer_token hs = Inr token" "d \<in> set (t_devices s)" "dv_token_hash d = hash_secret X token"
      "dv_revoked_at d = None" "p = DevicePrincipal d" "s' = touch_device s (dv_id d) E"
  | (issuer) token t where "bearer_token hs = Inr token" "t \<in> set (t_issuers s)" "it_token_hash t = hash_secret X token"
      "it_revoked_at t = None" "s' = s"
      "p = IssuerPrincipal \<lparr>iu_id = it_id t, iu_name = it_name t, iu_scopes = it_scopes t, iu_created_at = of_millis (it_created_at t)\<rparr>"
proof -
  from assms obtain token where token: "bearer_token hs = Inr token"
    by (auto simp: authenticate_def res_simps)
  let ?h = "hash_secret X token"
  show thesis
  proof (cases "admin_token_matches token admin")
    case True
    with assms token that(1) show thesis
      by (auto simp: authenticate_def res_simps admin_token_matches_def constant_time_eq_iff)
  next
    case client: False
    show thesis
    proof (cases "find_device_by_hash s ?h")
      case (Some d)
      with assms token client have "p = DevicePrincipal d" "s' = touch_device s (dv_id d) E"
        by (simp_all add: authenticate_def Let_def)
      with find_SomeD [OF Some [unfolded find_device_by_hash_def]] show thesis
        by (intro that(2) [OF token, of d]) auto
    next
      case None
      with assms token client obtain t where t: "List.find (\<lambda>t. it_token_hash t = ?h \<and> it_revoked_at t = None) (t_issuers s) = Some t"
        and p: "s' = s" "p = IssuerPrincipal \<lparr>iu_id = it_id t, iu_name = it_name t, iu_scopes = it_scopes t,
          iu_created_at = of_millis (it_created_at t)\<rparr>"
        by (auto simp: authenticate_def Let_def find_issuer_token_by_hash_def split: option.splits)
      from find_SomeD [OF t] p show thesis by (intro that(3) [OF token, of t]) auto
    qed
  qed
qed

section \<open>Refinement\<close>


section \<open>Authority\<close>

text \<open>The calls a successful cancel went through.\<close>

lemma cancel_ok:
  assumes "cancel_request_api X C hs rid E a = (Inr q, a')"
  obtains p s1 r where "authenticate X (ap_db a) hs (ac_admin_token C) (E 0) = Inr (p, s1)"
    "get_request_on X s1 rid = Inr r" "require_request_cancel p (r_channel_id r) = Inr ()"
    "(case p of IssuerPrincipal t \<Rightarrow> bind_res (request_created_by_issuer_token_id s1 rid) (\<lambda>creator.
       if creator \<noteq> Some (iu_id t) then Inl Forbidden else Inr ()) | _ \<Rightarrow> Inr ()) = Inr ()"
  using assms unfolding cancel_request_api_def authenticated_def and_then_ok check_ok in_txn_Inr
proof (elim exE conjE, goal_cases)
  case (1 p _ s1 r)
  show ?case by (rule 1(1) [of p s1 r]) (use 1(2-) in \<open>cases p; simp\<close>)+
qed

text \<open>
  C16 (safety). A request is cancelled only by the admin or by the issuer that created it, presenting a
  token that is not revoked and holds a cancel scope for the request's channel.
\<close>

theorem cancel_needs_authority:
  assumes "cancel_request_api X C hs rid E a = (Inr q, a')"
  shows "\<exists>token w. bearer_token hs = Inr token \<and> find_request (ap_db a) rid = Some w \<and>
    (utf8 token = utf8 (ac_admin_token C) \<or>
     (\<exists>t \<in> set (t_issuers (ap_db a)). it_token_hash t = hash_secret X token \<and> it_revoked_at t = None \<and>
        rq_created_by w = Some (it_id t) \<and>
        (\<exists>scope \<in> set (it_scopes t). scope \<in> set (cancel_scopes (rq_channel_id w)))))"
proof -
  from assms obtain p s1 r where auth: "authenticate X (ap_db a) hs (ac_admin_token C) (E 0) = Inr (p, s1)"
    and get: "get_request_on X s1 rid = Inr r" and cancel: "require_request_cancel p (r_channel_id r) = Inr ()"
    and creator: "(case p of IssuerPrincipal t \<Rightarrow> bind_res (request_created_by_issuer_token_id s1 rid) (\<lambda>creator.
       if creator \<noteq> Some (iu_id t) then Inl Forbidden else Inr ()) | _ \<Rightarrow> Inr ()) = Inr ()"
    by (rule cancel_ok)
  from get_request_on_columns [OF get] obtain w where w: "find_request s1 rid = Some w" "r_channel_id r = rq_channel_id w"
    by blast
  from auth show ?thesis
  proof (cases rule: authenticate_ok)
    case (admin token)
    with w show ?thesis by auto
  next
    case (device token d)
    with cancel show ?thesis by simp
  next
    case (issuer token t)
    with cancel w have "\<exists>scope \<in> set (it_scopes t). scope \<in> set (cancel_scopes (rq_channel_id w))"
      by (simp add: cancel_scope_iff split: if_splits)
    moreover from creator issuer w have "rq_created_by w = Some (it_id t)"
      by (simp add: request_created_by_issuer_token_id_def split: if_splits)
    ultimately show ?thesis using issuer w by blast
  qed
qed

lemma touch_frame [simp]:
  "t_events (touch_device s did E) = t_events s" "t_recipients (touch_device s did E) = t_recipients s"
  "t_requests (touch_device s did E) = t_requests s"
  by (simp_all add: touch_device_def set_devices_def Let_def)

text \<open>
  C9 (safety). A decision enters over HTTP only from an active device that proved itself by its token, for
  a request its user is a recipient of; the journal entry it leaves names that user.
\<close>

theorem decision_needs_device:
  assumes "reachable X (ap_db a)" and "submit_option_api X hs rid option_id decision E a = (Inr q, a')"
  shows "\<exists>token d e dec. bearer_token hs = Inr token \<and> d \<in> set (t_devices (ap_db a)) \<and>
    dv_token_hash d = hash_secret X token \<and> dv_revoked_at d = None \<and>
    dv_user_id d \<in> set (recipients_of (ap_db a) rid) \<and>
    t_events (ap_db a') = t_events (ap_db a) @ [e] \<and> ev_request_id e = rid \<and> ev_kind e = KIND_ANSWER \<and>
    ed_decision (ev_detail e) = Some dec \<and> d_actor_user_id dec = Some (dv_user_id d)"
proof -
  from assms(2) obtain token d s2 r where auth: "bearer_token hs = Inr token"
      "find_device_by_hash (ap_db a) (hash_secret X token) = Some d"
    and rec: "record_decision X (touch_device (ap_db a) (dv_id d) (E 0)) \<lparr>sub_request_id = rid, sub_option_id = option_id,
      sub_device = Some d, sub_user_id = Some (dv_user_id d), sub_decision = decision\<rparr> (E 1) = Inr (r, s2)"
    and a': "ap_db a' = s2"
    by (auto simp: submit_option_api_def reply_simps device_only_def require_device_def res_simps decision_service_def Let_def)
  let ?s = "touch_device (ap_db a) (dv_id d) (E 0)"
  have "reachable X ?s" using assms(1) by (rule reachable.step) (rule server_step.touch)
  from record_decision_advances [OF reachable_requests_inv [OF this] rec] obtain w f ds e ns dec where
    adv: "advances ?s s2 w f ds e ns" "rq_id w = rid" "ev_kind e = KIND_ANSWER" "ed_decision (ev_detail e) = Some dec"
      "d_actor_user_id dec = Some (dv_user_id d)"
    by auto
  from rec obtain q' where "check_actor ?s q' \<lparr>sub_request_id = rid, sub_option_id = option_id,
      sub_device = Some d, sub_user_id = Some (dv_user_id d), sub_decision = decision\<rparr> = Inr ()"
    "get_request_on X ?s rid = Inr q'"
    by (rule record_decision_ok) simp
  with get_request_on_columns [OF this(2)] have "dv_user_id d \<in> set (recipients_of ?s rid)"
    by (auto simp: check_actor_def split: if_splits)
  then have "dv_user_id d \<in> set (recipients_of (ap_db a) rid)" by (simp add: recipients_of_def)
  with auth adv a' show ?thesis
    by (auto simp: find_device_by_hash_def advances_def dest!: find_SomeD)
qed

section \<open>Termination\<close>

text \<open>
  C35 (termination). A push task ends: whatever the database holds at each of its steps and whatever the
  provider answers, after ten steps the task is done.
\<close>

theorem push_task_terminates:
  assumes "0 \<le> pj_attempts j" and "10 \<le> length moments"
  shows "push_task X C moments (Prepare j) = PushDone"
  using assms by (intro push_task_ends) (simp_all add: MAX_ATTEMPTS_def)

section \<open>Witnesses\<close>

definition demo_config :: "rstr \<Rightarrow> app_config" where
  "demo_config admin = \<lparr>ac_admin_token = admin, ac_retention_days = 30, ac_callback_origins = None, ac_routes = [],
     ac_push_route = None, ac_attest = default_attest_config, ac_parse_url = (\<lambda>_. None)\<rparr>"

definition demo_attest :: attest_ext where
  "demo_attest = \<lparr>at_b64_urlsafe_nopad = Some, at_b64_urlsafe = Some, at_b64_standard = Some,
     at_b64_urlsafe_encode = id, at_parse_cbor = (\<lambda>_. None), at_from_cbor_ok = (\<lambda>_. False),
     at_verify_chain = (\<lambda>_ _ _ _. None)\<rparr>"

definition demo_app :: "db \<Rightarrow> app" where
  "demo_app s = \<lparr>ap_db = s, ap_audit = [], ap_sync = []\<rparr>"

definition demo_headers :: headers where
  "demo_headers = [(AUTHORIZATION, lit ''Bearer '' @ [109])]"

lemma demo_bearer: "bearer_token demo_headers = Inr [109]"
  by (simp add: bearer_token_def demo_headers_def header_get_def header_text_def BEARER_def strip_prefix_def lit_def)

lemma demo_app_sel [simp]: "ap_db (demo_app s) = s" "ac_admin_token (demo_config admin) = admin"
  by (simp_all add: demo_app_def demo_config_def)

theorem push_task_terminates_witness:
  "push_task demo_ext (demo_config []) (replicate 10 (demo_app run3, demo_env 5 0, Accepted)) (Prepare demo_job) = PushDone"
  by (rule push_task_terminates) (simp_all add: demo_job_def)


definition demo_cancelled :: request_row where
  "demo_cancelled = demo_row\<lparr>rq_status := Cancelled, rq_updated_at := 0\<rparr>"

lemma demo_cancel: "\<exists>s. cancel_request demo_ext run3 [100, 97] (demo_env 5 0) = Inr (demo_read demo_cancelled, s)"
proof -
  have row: "rq_id demo_cancelled = [100, 97]" "rq_answer_field demo_cancelled = None"
    "rq_callback_url demo_cancelled = Some [117]" "rq_revision demo_cancelled = 1"
    by (simp_all add: demo_cancelled_def)
  show ?thesis
    by (simp add: cancel_request_def demo_get3 pending_row_def set_request_def sql_update_def sql_count_def Let_def
        now_string_def millis_def demo_cancelled_def [symmetric] row append_lifecycle_on_def find_request_def
        bump_revision_def insert_event_def demo_event)
qed

theorem cancel_needs_authority_witness:
  "\<exists>q a'. cancel_request_api demo_ext (demo_config [109]) demo_headers [100, 97] (\<lambda>n. demo_env 5 0) (demo_app run3) = (Inr q, a') \<and>
     (\<exists>w. find_request run3 [100, 97] = Some w)"
proof -
  from demo_cancel obtain s where c: "cancel_request demo_ext run3 [100, 97] (demo_env 5 0) = Inr (demo_read demo_cancelled, s)" ..
  have "\<exists>q a'. cancel_request_api demo_ext (demo_config [109]) demo_headers [100, 97] (\<lambda>n. demo_env 5 0) (demo_app run3) = (Inr q, a')"
    by (simp add: cancel_request_api_def and_then_def authenticated_def in_txn_def authenticate_def demo_bearer
        admin_token_matches_def constant_time_eq_iff check_def demo_get3 cancel_service_def c)
  then obtain q a' where op: "cancel_request_api demo_ext (demo_config [109]) demo_headers [100, 97] (\<lambda>n. demo_env 5 0) (demo_app run3) = (Inr q, a')"
    by blast
  from cancel_needs_authority [OF op] op show ?thesis by auto
qed

theorem decision_needs_device_witness:
  "\<exists>q a' e. submit_option_api demo_ext demo_headers [100, 97] (lit ''dismiss'') (sub_decision demo_submission)
       (\<lambda>n. demo_env 4 0) (demo_app run3) = (Inr q, a') \<and>
     t_events (ap_db a') = t_events run3 @ [e] \<and> ev_kind e = KIND_ANSWER"
proof -
  have touch: "touch_device run3 [99, 97] (demo_env 4 0) = run3"
    by (simp add: touch_device_def set_devices_def Let_def sql_update_def demo_device_def now_string_def millis_def run3_def run2_def)
  have sub: "\<lparr>sub_request_id = [100, 97], sub_option_id = lit ''dismiss'', sub_device = Some demo_device,
       sub_user_id = Some owner, sub_decision = sub_decision demo_submission\<rparr> = demo_submission"
    by (simp add: demo_submission_def)
  have "find_request run4 [100, 97] = Some demo_final" "rq_answer_field demo_final = None"
    by (simp_all add: find_request_def) (simp add: demo_final_def demo_resolved_def)
  note final = demo_get_request [OF this]
  have "\<exists>q a'. submit_option_api demo_ext demo_headers [100, 97] (lit ''dismiss'') (sub_decision demo_submission)
       (\<lambda>n. demo_env 4 0) (demo_app run3) = (Inr q, a')"
    by (simp add: submit_option_api_def and_then_def device_only_def in_txn_def require_device_def demo_bearer
        find_device_by_hash_def touch decision_service_def sub run4_step Let_def check_def request_for_user_def
        audit_def send_def final)
  then obtain q a' where op: "submit_option_api demo_ext demo_headers [100, 97] (lit ''dismiss'') (sub_decision demo_submission)
       (\<lambda>n. demo_env 4 0) (demo_app run3) = (Inr q, a')" by blast
  from run3_reachable have "reachable demo_ext (ap_db (demo_app run3))" by simp
  from decision_needs_device [OF this op] op show ?thesis by auto
qed

end
