(* ===== verification/Ordered_Map.thy ===== *)
theory Ordered_Map
  imports Prelude "HOL-Library.Multiset"
begin

text \<open>
  \<open>BTreeMap<String, V>\<close> of the Rust standard library, which the clients keep their state in: an
  association list in key order. The contract its users rely on is the locale \<open>key_map\<close>, with the
  lemmas they share; the lists are its interpretation.
\<close>

section \<open>The contract of a map\<close>

locale key_map =
  fixes get :: "'m \<Rightarrow> 'k \<Rightarrow> 'v option"
    and put :: "'k \<Rightarrow> 'v \<Rightarrow> 'm \<Rightarrow> 'm"
    and del :: "'k \<Rightarrow> 'm \<Rightarrow> 'm"
    and wf :: "'m \<Rightarrow> bool"
  assumes get_put: "wf m \<Longrightarrow> get (put k v m) k' = (if k' = k then Some v else get m k')"
    and get_del: "wf m \<Longrightarrow> get (del k m) k' = (if k' = k then None else get m k')"
    and wf_put: "wf m \<Longrightarrow> wf (put k v m)"
    and wf_del: "wf m \<Longrightarrow> wf (del k m)"
begin

lemma wf_fold_put: "wf m \<Longrightarrow> wf (fold (\<lambda>(k, v). put k v) ps m)"
  by (induction ps arbitrary: m) (auto simp: wf_put)

lemma wf_fold_del: "wf m \<Longrightarrow> wf (fold del ks m)"
  by (induction ks arbitrary: m) (auto simp: wf_del)

lemma get_fold_put:
  "wf m \<Longrightarrow> get (fold (\<lambda>(k, v). put k v) ps m) k' =
     (case map_of (rev ps) k' of None \<Rightarrow> get m k' | Some v \<Rightarrow> Some v)"
  by (induction ps arbitrary: m) (auto simp: wf_put get_put map_of_append map_add_def split: option.split)

lemma get_fold_del: "wf m \<Longrightarrow> get (fold del ks m) k' = (if k' \<in> set ks then None else get m k')"
  by (induction ks arbitrary: m) (auto simp: wf_del get_del)

text \<open>Deleting some keys, then writing some entries: what every merge of two versions does.\<close>

lemma get_patch:
  assumes "wf m" "distinct (map fst ps)"
  shows "get (fold (\<lambda>(k, v). put k v) ps (fold del ks m)) k' =
    (case map_of ps k' of Some v \<Rightarrow> Some v | None \<Rightarrow> if k' \<in> set ks then None else get m k')"
proof -
  have "map_of (rev ps) = map_of ps"
    using assms(2) by (intro map_of_eqI) (auto simp: rev_map [symmetric] dest: map_of_SomeD)
  then show ?thesis
    by (simp add: get_fold_put wf_fold_del get_fold_del assms(1) split: option.split)
qed

end

section \<open>Sorted association lists\<close>

type_synonym 'v omap = "(rstr \<times> 'v) list"

definition om_get :: "'v omap \<Rightarrow> rstr \<Rightarrow> 'v option" where
  "om_get = map_of"

definition om_del :: "rstr \<Rightarrow> 'v omap \<Rightarrow> 'v omap" where
  "om_del k m = filter (\<lambda>p. fst p \<noteq> k) m"

definition om_put :: "rstr \<Rightarrow> 'v \<Rightarrow> 'v omap \<Rightarrow> 'v omap" where
  "om_put k v m = insort_key fst (k, v) (om_del k m)"

definition om_ok :: "'v omap \<Rightarrow> bool" where
  "om_ok m \<longleftrightarrow> sorted (map fst m) \<and> distinct (map fst m)"

definition om_keys :: "'v omap \<Rightarrow> rstr list" where
  "om_keys m = map fst m"

definition om_values :: "'v omap \<Rightarrow> 'v list" where
  "om_values m = map snd m"

definition om_of :: "(rstr \<times> 'v) list \<Rightarrow> 'v omap" where
  \<comment> \<open>\<open>collect()\<close>: a later entry replaces an earlier one\<close>
  "om_of ps = fold (\<lambda>(k, v). om_put k v) ps []"

lemma om_ok_Nil [simp]: "om_ok []" and om_get_Nil [simp]: "om_get [] k = None"
  by (simp_all add: om_ok_def om_get_def)

lemma om_ok_del [simp]: "om_ok m \<Longrightarrow> om_ok (om_del k m)"
  unfolding om_ok_def om_del_def by (induction m) auto

lemma om_get_del [simp]: "om_get (om_del k m) k' = (if k' = k then None else om_get m k')"
  unfolding om_get_def om_del_def by (induction m) auto

lemma insort_fst_get:
  "k \<notin> fst ` set m \<Longrightarrow> map_of (insort_key fst (k, v) m) k' = (if k' = k then Some v else map_of m k')"
  by (induction m) auto

lemma om_get_put [simp]: "om_get (om_put k v m) k' = (if k' = k then Some v else om_get m k')"
proof -
  have "k \<notin> fst ` set (om_del k m)" by (auto simp: om_del_def)
  from insort_fst_get [OF this] show ?thesis
    by (simp add: om_put_def om_get_def om_get_del [unfolded om_get_def])
qed

lemma om_ok_put [simp]: "om_ok m \<Longrightarrow> om_ok (om_put k v m)"
  unfolding om_ok_def om_put_def om_del_def
  by (auto simp: sorted_insort_key distinct_map_filter distinct_insort sorted_filter)
    (auto simp: distinct_map inj_on_def set_insort_key distinct_insort)

interpretation om: key_map om_get om_put om_del om_ok
  by unfold_locales auto

lemma om_ok_of [simp]: "om_ok (om_of ps)"
  unfolding om_of_def by (rule om.wf_fold_put) simp

lemma om_get_of: "om_get (om_of ps) k = map_of (rev ps) k"
  unfolding om_of_def by (subst om.get_fold_put) (auto split: option.split)

lemma om_in_iff: "om_ok m \<Longrightarrow> (k, v) \<in> set m \<longleftrightarrow> om_get m k = Some v"
  by (simp add: om_ok_def om_get_def)

lemma om_filter_ok [simp]: "om_ok m \<Longrightarrow> om_ok (filter P m)"
  unfolding om_ok_def by (induction m) auto

lemma om_get_filter: "om_ok m \<Longrightarrow> om_get (filter P m) k =
    (case om_get m k of None \<Rightarrow> None | Some v \<Rightarrow> if P (k, v) then Some v else None)"
proof (induction m)
  case (Cons p m)
  have "om_ok m" and new: "fst p \<notin> fst ` set m"
    using Cons.prems by (auto simp: om_ok_def)
  moreover have "map_of (filter P m) (fst p) = None" and "map_of m (fst p) = None"
    using new by (auto simp: map_of_eq_None_iff)
  ultimately show ?case
    using Cons.IH by (cases p) (auto simp: om_get_def split: option.splits)
qed (simp add: om_get_def)

text \<open>Two maps with the same entries are the same list.\<close>

lemma om_ext:
  assumes "om_ok m" "om_ok m'" "\<And>k. om_get m k = om_get m' k"
  shows "m = m'"
proof -
  from assms have "set m = set m'" by (auto simp: om_in_iff)
  moreover from assms have "sorted (map fst m)" "distinct (map fst m)" "sorted (map fst m')" "distinct (map fst m')"
    by (auto simp: om_ok_def)
  ultimately show ?thesis by (intro map_sorted_distinct_set_unique [of fst]) (auto simp: distinct_map)
qed

text \<open>The values, counted.\<close>

lemma mset_put: "mset (om_values (om_put k v m)) = add_mset v (mset (om_values (om_del k m)))"
  by (simp add: om_values_def om_put_def)

lemma mset_get:
  "om_ok m \<Longrightarrow> mset (om_values m) =
     (case om_get m k of None \<Rightarrow> mset (om_values (om_del k m))
      | Some v \<Rightarrow> add_mset v (mset (om_values (om_del k m))))"
proof (induction m)
  case (Cons p m)
  have ok: "om_ok m" and new: "fst p \<notin> fst ` set m"
    using Cons.prems by (auto simp: om_ok_def)
  have del: "om_del (fst p) m = m"
    unfolding om_del_def using new by (intro filter_True) (metis imageI)
  have none: "map_of m (fst p) = None"
    using new by (simp add: map_of_eq_None_iff)
  show ?case
  proof (cases "k = fst p")
    case True
    with del none show ?thesis
      unfolding om_del_def by (cases p) (simp add: om_get_def om_values_def)
  next
    case False
    with Cons.IH [OF ok] show ?thesis
      by (cases p) (auto simp: om_get_def om_del_def om_values_def split: option.splits)
  qed
qed (simp add: om_get_def om_values_def om_del_def)

definition om_count :: "('v \<Rightarrow> bool) \<Rightarrow> 'v omap \<Rightarrow> nat" where
  "om_count P m = length (filter P (om_values m))"

lemma om_count_mset: "om_count P m = size (filter_mset P (mset (om_values m)))"
  by (simp add: om_count_def flip: mset_filter)

lemma om_count_put:
  assumes "om_ok m"
  shows "om_count P (om_put k v m) + (case om_get m k of Some w \<Rightarrow> if P w then 1 else 0 | None \<Rightarrow> 0) =
    om_count P m + (if P v then 1 else 0)"
  unfolding om_count_mset mset_put mset_get [OF assms, of k] by (auto split: option.split)

end
