(* ===== verification/Client_State.thy ===== *)
theory Client_State
  imports App Ordered_Map
begin

text \<open>
  What a client shows (nod-client-core models.rs and state.rs): the profiles of its servers and, for
  the selected one, the devices, channels and requests it has loaded. \<open>StateReducer\<close> is the only
  writer of that state; each of its methods is a function on \<open>reducer\<close>, and \<open>reducer_step\<close> is the
  relation of all of them.

  \<^item> A \<open>BTreeMap<String, V>\<close> is a \<open>'v omap\<close>. The wire types are those of nod-proto and of the server.
  \<^item> \<open>revision\<close> (u64) counts the accepted updates of one process; it is a natural number here.
  \<^item> \<open>now\<close> is \<open>chrono::Utc::now().to_rfc3339()\<close>, which is only displayed.
\<close>

section \<open>Models\<close>

datatype sync_phase = Offline | Connecting | Reconciling | Current | Revoked

record server_profile =
  sp_id :: rstr
  sp_credential_id :: "rstr option"
  sp_name :: rstr
  sp_base_url :: rstr
  sp_device_name :: rstr
  sp_device_id :: "rstr option"
  sp_user_id :: "rstr option"
  sp_user_name :: "rstr option"

definition credential_id :: "server_profile \<Rightarrow> rstr" where
  "credential_id p = (case sp_credential_id p of Some c \<Rightarrow> c | None \<Rightarrow> sp_id p)"

record client_device =
  kd_id :: rstr
  kd_user_id :: rstr
  kd_name :: rstr
  kd_platform :: device_platform
  kd_native_app_id :: "rstr option"
  kd_push_provider :: "rstr option"
  kd_has_push_token :: bool
  kd_has_signing_key :: bool
  kd_attestation :: "attestation_summary option"
  kd_notification_sound :: rstr
  kd_preferences :: device_preferences
  kd_last_seen_at :: instant
  kd_created_at :: instant
  kd_is_current :: bool

record client_envelope =
  ce_kind :: rstr
  ce_at :: instant
  ce_delivery :: "notification_delivery option"
  ce_request :: "request option"
  ce_channel :: "channel option"
  ce_payload_delivery :: "notification_delivery option"
  ce_extra :: "json omap"

record client_state =
  cs_servers :: "server_profile list"
  cs_selected_server_id :: "rstr option"
  cs_current_user :: "user option"
  cs_devices :: "client_device list"
  cs_channels :: "channel list"
  cs_pending_counts :: "nat omap"
  cs_requests :: "request list"
  cs_selected_channel_id :: "rstr option"
  cs_selected_request_id :: "rstr option"
  cs_notification_sound :: rstr
  cs_delivery_mode :: notification_delivery
  cs_is_registered :: bool
  cs_is_sync_connected :: bool
  cs_sync_phase :: sync_phase
  cs_last_synced_at :: "rstr option"
  cs_last_error :: "rstr option"

record reducer =
  re_state :: client_state
  re_known_pending :: "rstr omap"
  re_loaded :: bool
  re_requests :: "request omap"
  re_revision :: nat
  re_request_revisions :: "nat omap"

definition new_reducer :: "server_profile list \<Rightarrow> rstr option \<Rightarrow> rstr \<Rightarrow> reducer" where
  "new_reducer servers selected sound =
     \<lparr>re_state = \<lparr>cs_servers = servers, cs_selected_server_id = selected, cs_current_user = None,
        cs_devices = [], cs_channels = [], cs_pending_counts = [], cs_requests = [],
        cs_selected_channel_id = None, cs_selected_request_id = None, cs_notification_sound = sound,
        cs_delivery_mode = DeliverWebsocket, cs_is_registered = (servers \<noteq> []),
        cs_is_sync_connected = False, cs_sync_phase = Offline, cs_last_synced_at = None,
        cs_last_error = None\<rparr>,
      re_known_pending = [], re_loaded = False, re_requests = [], re_revision = 0,
      re_request_revisions = []\<rparr>"

section \<open>The order of versions and of the display\<close>

text \<open>\<open>request_is_stale candidate current\<close>: a later update wins; of two with one time, a handled one.\<close>

definition request_is_stale :: "request \<Rightarrow> request \<Rightarrow> bool" where
  "request_is_stale candidate current \<longleftrightarrow>
     q_updated_at candidate < q_updated_at current \<or>
     q_updated_at current = q_updated_at candidate \<and> q_status current \<noteq> Pending \<and> q_status candidate = Pending"

definition pending_requests :: "request list \<Rightarrow> request list" where
  "pending_requests qs = filter (\<lambda>q. q_status q = Pending) qs"

definition increment_pending_count :: "rstr \<Rightarrow> nat omap \<Rightarrow> nat omap" where
  "increment_pending_count c m = om_put c ((case om_get m c of Some n \<Rightarrow> n | None \<Rightarrow> 0) + 1) m"

definition decrement_pending_count :: "rstr \<Rightarrow> nat omap \<Rightarrow> nat omap" where
  "decrement_pending_count c m =
     (let m = (case om_get m c of Some n \<Rightarrow> om_put c (n - 1) m | None \<Rightarrow> m) in filter (\<lambda>(_, n). n > 0) m)"

definition count_pending_by_channel :: "request list \<Rightarrow> nat omap" where
  "count_pending_by_channel qs = fold (\<lambda>q. increment_pending_count (q_channel_id q)) qs []"

definition pending_request_channels :: "request list \<Rightarrow> rstr omap" where
  "pending_request_channels qs = om_of (map (\<lambda>q. (q_id q, q_channel_id q)) qs)"

fun request_status_rank :: "request_status \<Rightarrow> nat" where
  "request_status_rank Pending = 0"
| "request_status_rank Resolved = 1"
| "request_status_rank Expired = 1"
| "request_status_rank Cancelled = 1"

text \<open>The comparison of \<open>sort_by\<close> is not \<open>Greater\<close>; the sort is stable, so an insertion sort is it.\<close>

definition shown_before :: "request \<Rightarrow> request \<Rightarrow> bool" where
  "shown_before l r \<longleftrightarrow>
     (let a = request_status_rank (q_status l); b = request_status_rank (q_status r) in
      a < b \<or> a = b \<and> (q_created_at r < q_created_at l \<or> q_created_at r = q_created_at l \<and> q_id r \<le> q_id l))"

fun insert_shown :: "request \<Rightarrow> request list \<Rightarrow> request list" where
  "insert_shown q [] = [q]"
| "insert_shown q (p # ps) = (if shown_before q p then q # p # ps else p # insert_shown q ps)"

definition sort_shown :: "request list \<Rightarrow> request list" where
  "sort_shown qs = foldr insert_shown qs []"

definition handled_display_limit :: nat where
  "handled_display_limit = 500"

fun limit_handled :: "nat \<Rightarrow> request list \<Rightarrow> request list" where
  "limit_handled handled [] = []"
| "limit_handled handled (q # qs) =
     (if q_status q = Pending then q # limit_handled handled qs
      else if handled + 1 \<le> handled_display_limit then q # limit_handled (handled + 1) qs
      else limit_handled (handled + 1) qs)"

definition visible_requests :: "request list \<Rightarrow> request list" where
  "visible_requests qs = limit_handled 0 (sort_shown qs)"

section \<open>The selection\<close>

definition ensure_selected_channel :: "client_state \<Rightarrow> client_state" where
  "ensure_selected_channel s =
     (case cs_selected_channel_id s of
        None \<Rightarrow> s
      | Some c \<Rightarrow>
          if c \<in> set (map cn_id (filter cn_subscribed (cs_channels s))) then s
          else s\<lparr>cs_selected_channel_id := None\<rparr>)"

definition ensure_selected_request :: "client_state \<Rightarrow> client_state" where
  "ensure_selected_request s =
     (if (case cs_selected_request_id s of Some i \<Rightarrow> \<exists>q \<in> set (cs_requests s). q_id q = i | None \<Rightarrow> False) then s
      else s\<lparr>cs_selected_request_id := (case cs_requests s of q # _ \<Rightarrow> Some (q_id q) | [] \<Rightarrow> None)\<rparr>)"

definition visible_requests_for_selected_channel :: "client_state \<Rightarrow> request list \<Rightarrow> request list" where
  "visible_requests_for_selected_channel s qs =
     (case cs_selected_channel_id s of
        Some c \<Rightarrow> visible_requests (filter (\<lambda>q. q_channel_id q = c) qs)
      | None \<Rightarrow> visible_requests qs)"

definition update_visible_requests :: "reducer \<Rightarrow> reducer" where
  "update_visible_requests r =
     r\<lparr>re_state := ensure_selected_request
         ((re_state r)\<lparr>cs_requests := visible_requests_for_selected_channel (re_state r) (om_values (re_requests r))\<rparr>)\<rparr>"

definition select_channel :: "rstr option \<Rightarrow> reducer \<Rightarrow> reducer" where
  "select_channel c r = update_visible_requests (r\<lparr>re_state := (re_state r)\<lparr>cs_selected_channel_id := c\<rparr>\<rparr>)"

section \<open>Servers\<close>

definition selected_server :: "client_state \<Rightarrow> server_profile option" where
  "selected_server s =
     (case cs_selected_server_id s of
        Some i \<Rightarrow> (case find (\<lambda>p. sp_id p = i) (cs_servers s) of
            Some p \<Rightarrow> Some p
          | None \<Rightarrow> (case cs_servers s of p # _ \<Rightarrow> Some p | [] \<Rightarrow> None))
      | None \<Rightarrow> (case cs_servers s of p # _ \<Rightarrow> Some p | [] \<Rightarrow> None))"

text \<open>\<open>iter_mut().find\<close> replaces the first element with the key, else the element is pushed.\<close>

fun upsert_by :: "('a \<Rightarrow> rstr) \<Rightarrow> 'a \<Rightarrow> 'a list \<Rightarrow> 'a list" where
  "upsert_by key x [] = [x]"
| "upsert_by key x (y # ys) = (if key y = key x then x # ys else y # upsert_by key x ys)"

definition clear_loaded_data :: "reducer \<Rightarrow> reducer" where
  "clear_loaded_data r =
     r\<lparr>re_state := (re_state r)\<lparr>cs_current_user := None, cs_devices := [], cs_channels := [],
          cs_pending_counts := [], cs_requests := [], cs_selected_channel_id := None,
          cs_selected_request_id := None, cs_last_synced_at := None\<rparr>,
       re_known_pending := [], re_loaded := False, re_requests := [], re_request_revisions := []\<rparr>"

definition upsert_server :: "server_profile \<Rightarrow> reducer \<Rightarrow> reducer" where
  "upsert_server p r =
     (let servers = upsert_by sp_id p (cs_servers (re_state r)) in
      r\<lparr>re_state := (re_state r)\<lparr>cs_servers := servers, cs_is_registered := servers \<noteq> []\<rparr>\<rparr>)"

definition remove_server :: "rstr \<Rightarrow> reducer \<Rightarrow> reducer" where
  "remove_server i r =
     (let servers = filter (\<lambda>p. sp_id p \<noteq> i) (cs_servers (re_state r));
          r = r\<lparr>re_state := (re_state r)\<lparr>cs_servers := servers\<rparr>\<rparr>;
          r = (if cs_selected_server_id (re_state r) = Some i
               then clear_loaded_data (r\<lparr>re_state := (re_state r)\<lparr>cs_selected_server_id :=
                      (case servers of p # _ \<Rightarrow> Some (sp_id p) | [] \<Rightarrow> None)\<rparr>\<rparr>)
               else r) in
      r\<lparr>re_state := (re_state r)\<lparr>cs_is_registered := servers \<noteq> []\<rparr>\<rparr>)"

definition set_selected_server :: "rstr \<Rightarrow> reducer \<Rightarrow> reducer" where
  "set_selected_server i r = clear_loaded_data (r\<lparr>re_state := (re_state r)\<lparr>cs_selected_server_id := Some i\<rparr>\<rparr>)"

section \<open>Connection, errors\<close>

definition mark_sync_connected :: "bool \<Rightarrow> reducer \<Rightarrow> reducer" where
  "mark_sync_connected connected r =
     (let s = (re_state r)\<lparr>cs_is_sync_connected := connected\<rparr> in
      r\<lparr>re_state := (if \<not> connected \<and> cs_sync_phase s \<noteq> Revoked then s\<lparr>cs_sync_phase := Offline\<rparr> else s)\<rparr>)"

definition set_sync_phase :: "sync_phase \<Rightarrow> reducer \<Rightarrow> reducer" where
  "set_sync_phase ph r = r\<lparr>re_state := (re_state r)\<lparr>cs_is_sync_connected := (ph = Current), cs_sync_phase := ph\<rparr>\<rparr>"

definition set_notification_delivery_mode :: "notification_delivery \<Rightarrow> reducer \<Rightarrow> reducer" where
  "set_notification_delivery_mode d r = r\<lparr>re_state := (re_state r)\<lparr>cs_delivery_mode := d\<rparr>\<rparr>"

definition set_error :: "rstr \<Rightarrow> reducer \<Rightarrow> reducer" where
  "set_error e r = r\<lparr>re_state := (re_state r)\<lparr>cs_last_error := Some e\<rparr>\<rparr>"

section \<open>Updates of single requests\<close>

definition pending_request_ids :: "reducer \<Rightarrow> rstr list" where
  "pending_request_ids r = om_keys (re_known_pending r)"

definition previous_pending_channel :: "reducer \<Rightarrow> request \<Rightarrow> rstr option" where
  "previous_pending_channel r q =
     (case om_get (re_known_pending r) (q_id q) of
        Some c \<Rightarrow> Some c
      | None \<Rightarrow> map_option q_channel_id
          (find (\<lambda>p. q_id p = q_id q \<and> q_status p = Pending) (cs_requests (re_state r))))"

definition mark_pending :: "request \<Rightarrow> reducer \<Rightarrow> reducer" where
  "mark_pending q r =
     r\<lparr>re_state := (re_state r)\<lparr>cs_pending_counts :=
          increment_pending_count (q_channel_id q) (cs_pending_counts (re_state r))\<rparr>,
       re_known_pending := om_put (q_id q) (q_channel_id q) (re_known_pending r)\<rparr>"

definition clear_pending :: "rstr \<Rightarrow> rstr \<Rightarrow> reducer \<Rightarrow> reducer" where
  "clear_pending i c r =
     r\<lparr>re_state := (re_state r)\<lparr>cs_pending_counts :=
          decrement_pending_count c (cs_pending_counts (re_state r))\<rparr>,
       re_known_pending := om_del i (re_known_pending r)\<rparr>"

definition update_pending_channel :: "rstr \<Rightarrow> request \<Rightarrow> reducer \<Rightarrow> reducer" where
  "update_pending_channel previous q r =
     (let counts = cs_pending_counts (re_state r) in
      r\<lparr>re_state := (re_state r)\<lparr>cs_pending_counts :=
           (if previous \<noteq> q_channel_id q
            then increment_pending_count (q_channel_id q) (decrement_pending_count previous counts)
            else counts)\<rparr>,
        re_known_pending := om_put (q_id q) (q_channel_id q) (re_known_pending r)\<rparr>)"

definition update_pending_tracking :: "request \<Rightarrow> reducer \<Rightarrow> bool \<times> reducer" where
  "update_pending_tracking q r =
     (case (previous_pending_channel r q, q_status q = Pending) of
        (None, True) \<Rightarrow> (True, mark_pending q r)
      | (Some c, False) \<Rightarrow> (False, clear_pending (q_id q) c r)
      | (Some c, True) \<Rightarrow> (False, update_pending_channel c q r)
      | (None, False) \<Rightarrow> (False, r))"

definition apply_request_update :: "request \<Rightarrow> reducer \<Rightarrow> bool \<times> reducer" where
  "apply_request_update q r =
     (if (case om_get (re_requests r) (q_id q) of Some held \<Rightarrow> request_is_stale q held | None \<Rightarrow> False)
      then (False, r)
      else
        let (is_new, r) = update_pending_tracking q r;
            r = r\<lparr>re_revision := re_revision r + 1\<rparr>;
            r = r\<lparr>re_request_revisions := om_put (q_id q) (re_revision r) (re_request_revisions r)\<rparr>;
            r = r\<lparr>re_requests := om_put (q_id q) q (re_requests r)\<rparr>
        in (is_new, update_visible_requests r))"

definition upsert_channel :: "channel \<Rightarrow> reducer \<Rightarrow> reducer" where
  "upsert_channel c r = r\<lparr>re_state := (re_state r)\<lparr>cs_channels := upsert_by cn_id c (cs_channels (re_state r))\<rparr>\<rparr>"

definition apply_sync_envelope :: "client_envelope \<Rightarrow> reducer \<Rightarrow> request list \<times> reducer" where
  "apply_sync_envelope v r =
     (let r = r\<lparr>re_state := (re_state r)\<lparr>cs_is_sync_connected := True\<rparr>\<rparr>;
          r = (case ce_channel v of Some c \<Rightarrow> upsert_channel c r | None \<Rightarrow> r) in
      case ce_request v of
        None \<Rightarrow> ([], r)
      | Some q \<Rightarrow>
          let (is_new, r) = apply_request_update q r in
          (if ce_kind v = lit ''created'' \<and> is_new then [q] else [], r))"

section \<open>Snapshots\<close>

text \<open>The loop over the held requests: what changed while the answer was on its way survives it.\<close>

definition keep_changed :: "reducer \<Rightarrow> nat \<Rightarrow> rstr \<times> request \<Rightarrow> request omap \<Rightarrow> request omap" where
  "keep_changed r started p snapshot =
     (let changed_during_fetch =
            (case om_get (re_request_revisions r) (fst p) of Some n \<Rightarrow> n | None \<Rightarrow> 0) > started;
          snapshot_is_newer =
            (case om_get snapshot (fst p) of Some current \<Rightarrow> request_is_stale (snd p) current | None \<Rightarrow> False) in
      if changed_during_fetch \<and> \<not> snapshot_is_newer then om_put (fst p) (snd p) snapshot else snapshot)"

definition merged_snapshot :: "reducer \<Rightarrow> request list \<Rightarrow> nat \<Rightarrow> request omap" where
  "merged_snapshot r qs started =
     fold (keep_changed r started) (re_requests r) (om_of (map (\<lambda>q. (q_id q, q)) qs))"

definition notification_candidates_after_refresh :: "reducer \<Rightarrow> request list \<Rightarrow> request list" where
  "notification_candidates_after_refresh r pending =
     (if \<not> re_loaded r then []
      else filter (\<lambda>q. om_get (re_known_pending r) (q_id q) = None) pending)"

definition remember_pending_requests :: "request list \<Rightarrow> reducer \<Rightarrow> reducer" where
  "remember_pending_requests pending r =
     r\<lparr>re_known_pending := pending_request_channels pending, re_loaded := True\<rparr>"

definition apply_snapshot ::
  "rstr \<Rightarrow> user option \<Rightarrow> client_device list \<Rightarrow> channel list \<Rightarrow> request list \<Rightarrow> nat \<Rightarrow> reducer \<Rightarrow> request list \<times> reducer" where
  "apply_snapshot now user devices channels qs started r =
     (let r = r\<lparr>re_state := ensure_selected_channel ((re_state r)\<lparr>cs_current_user := user,
                 cs_devices := devices, cs_channels := channels\<rparr>)\<rparr>;
          snapshot = merged_snapshot r qs started;
          r = r\<lparr>re_requests := snapshot\<rparr>;
          r = r\<lparr>re_request_revisions :=
                 filter (\<lambda>(i, _). om_get (re_requests r) i \<noteq> None) (re_request_revisions r)\<rparr>;
          pending = pending_requests (om_values (re_requests r));
          r = r\<lparr>re_state := (re_state r)\<lparr>cs_pending_counts := count_pending_by_channel pending\<rparr>\<rparr>;
          candidates = notification_candidates_after_refresh r pending;
          r = remember_pending_requests pending r;
          r = update_visible_requests r;
          r = r\<lparr>re_state := ensure_selected_request (re_state r)\<rparr>;
          r = r\<lparr>re_state := (re_state r)\<lparr>cs_last_error := None, cs_last_synced_at := Some now\<rparr>\<rparr>
      in (candidates, r))"

definition held_request :: "reducer \<Rightarrow> rstr \<Rightarrow> request option" where
  "held_request r i = om_get (re_requests r) i"

section \<open>The relation of all operations\<close>

text \<open>The last four rules are the fields the runtime writes directly.\<close>

inductive reducer_step :: "reducer \<Rightarrow> reducer \<Rightarrow> bool" where
  upserted_server: "reducer_step r (upsert_server p r)"
| removed_server: "reducer_step r (remove_server i r)"
| selected_other_server: "reducer_step r (set_selected_server i r)"
| cleared: "reducer_step r (clear_loaded_data r)"
| snapshot: "reducer_step r (snd (apply_snapshot now user devices channels qs started r))"
| envelope: "reducer_step r (snd (apply_sync_envelope v r))"
| request_update: "reducer_step r (snd (apply_request_update q r))"
| selected_channel: "reducer_step r (select_channel c r)"
| sync_connected: "reducer_step r (mark_sync_connected b r)"
| sync_phase: "reducer_step r (set_sync_phase ph r)"
| delivery_mode: "reducer_step r (set_notification_delivery_mode d r)"
| failed: "reducer_step r (set_error e r)"
| selected_request: "reducer_step r (r\<lparr>re_state := (re_state r)\<lparr>cs_selected_request_id := i\<rparr>\<rparr>)"
| wrote_channels: "reducer_step r (r\<lparr>re_state := (re_state r)\<lparr>cs_channels := cs\<rparr>\<rparr>)"
| wrote_devices: "reducer_step r (r\<lparr>re_state := (re_state r)\<lparr>cs_devices := ds\<rparr>\<rparr>)"
| wrote_sound: "reducer_step r (r\<lparr>re_state := (re_state r)\<lparr>cs_notification_sound := sound\<rparr>\<rparr>)"

inductive reducer_reachable :: "reducer \<Rightarrow> bool" where
  reducer_start: "reducer_reachable (new_reducer servers selected sound)"
| reducer_next: "reducer_reachable r \<Longrightarrow> reducer_step r r' \<Longrightarrow> reducer_reachable r'"

end
