(* ===== verification/Client_State_Facts.thy ===== *)
theory Client_State_Facts
  imports Client_State
begin

text \<open>
  What the client shows is what it holds. The first part is the order of the display: the list with
  its counting filter is the sorted list cut after all pending and 500 handled requests. The second
  is the invariant of the reducer: the pending set, the counts per channel, and the visible list
  are functions of the requests it holds. The third follows one version of a request through
  updates and snapshots that overlap it.
\<close>

section \<open>The order of versions\<close>

lemma stale_irrefl [simp]: "\<not> request_is_stale q q"
  by (auto simp: request_is_stale_def)

lemma not_stale_trans: "\<not> request_is_stale b a \<Longrightarrow> \<not> request_is_stale c b \<Longrightarrow> \<not> request_is_stale c a"
  by (auto simp: request_is_stale_def)

lemma stale_not_stale: "request_is_stale a b \<Longrightarrow> \<not> request_is_stale b a"
  by (auto simp: request_is_stale_def)

section \<open>The visible list\<close>

lemma shown_before_total: "shown_before l r \<or> shown_before r l"
  by (auto simp: shown_before_def Let_def)

lemma shown_before_trans: "shown_before a b \<Longrightarrow> shown_before b c \<Longrightarrow> shown_before a c"
  by (auto simp: shown_before_def Let_def)

lemma mset_insert_shown [simp]: "mset (insert_shown q qs) = add_mset q (mset qs)"
  by (induction qs) auto

lemma mset_sort_shown [simp]: "mset (sort_shown qs) = mset qs"
  by (induction qs) (auto simp: sort_shown_def)

lemma set_sort_shown [simp]: "set (sort_shown qs) = set qs"
  by (metis mset_sort_shown set_mset_mset)

lemma insert_shown_sorted:
  "sorted_wrt shown_before qs \<Longrightarrow> sorted_wrt shown_before (insert_shown q qs)"
proof (induction qs)
  case (Cons p ps)
  have set: "set (insert_shown q ps) = insert q (set ps)"
    by (metis mset_insert_shown set_mset_add_mset_insert set_mset_mset)
  show ?case
    using Cons shown_before_total [of q p] by (auto simp: set intro: shown_before_trans)
qed simp

lemma sort_shown_sorted: "sorted_wrt shown_before (sort_shown qs)"
  by (induction qs) (auto simp: sort_shown_def insert_shown_sorted)

abbreviation "is_pending q \<equiv> q_status q = Pending"

lemma rank_pending: "request_status_rank st = (if st = Pending then 0 else 1)"
  by (cases st) auto

lemma pending_first:
  assumes "sorted_wrt shown_before qs"
  shows "qs = filter is_pending qs @ filter (\<lambda>q. \<not> is_pending q) qs"
  using assms
proof (induction qs)
  case (Cons q qs)
  show ?case
  proof (cases "is_pending q")
    case False
    have "\<not> is_pending p" if "p \<in> set qs" for p
      using Cons.prems that False by (auto simp: shown_before_def rank_pending Let_def)
    then have "filter is_pending qs = []" by (auto simp: filter_empty_conv)
    with False Cons show ?thesis by simp
  qed (use Cons in simp)
qed simp

lemma limit_handled_handled:
  "(\<And>q. q \<in> set qs \<Longrightarrow> \<not> is_pending q) \<Longrightarrow> limit_handled h qs = take (handled_display_limit - h) qs"
proof (induction qs arbitrary: h)
  case (Cons q qs)
  then show ?case
    by (auto simp: take_Cons' not_le)
qed simp

lemma limit_handled_pending:
  "(\<And>q. q \<in> set ps \<Longrightarrow> is_pending q) \<Longrightarrow> limit_handled h (ps @ qs) = ps @ limit_handled h qs"
  by (induction ps) auto

text \<open>The reference: everything pending, then the newest handled requests up to the limit.\<close>

lemma visible_split:
  "visible_requests qs = filter is_pending (sort_shown qs) @
     take handled_display_limit (filter (\<lambda>q. \<not> is_pending q) (sort_shown qs))"
proof -
  have "visible_requests qs =
      limit_handled 0 (filter is_pending (sort_shown qs) @ filter (\<lambda>q. \<not> is_pending q) (sort_shown qs))"
    unfolding visible_requests_def using pending_first [OF sort_shown_sorted, of qs] by simp
  also have "\<dots> = filter is_pending (sort_shown qs) @ limit_handled 0 (filter (\<lambda>q. \<not> is_pending q) (sort_shown qs))"
    by (rule limit_handled_pending) simp
  also have "limit_handled 0 (filter (\<lambda>q. \<not> is_pending q) (sort_shown qs)) =
      take handled_display_limit (filter (\<lambda>q. \<not> is_pending q) (sort_shown qs))"
    by (subst limit_handled_handled) auto
  finally show ?thesis .
qed

lemma length_filter_sort_shown [simp]: "length (filter P (sort_shown qs)) = length (filter P qs)"
  by (metis mset_sort_shown mset_filter size_mset)

lemma visible_eq_take:
  "visible_requests qs = take (length (filter is_pending qs) + handled_display_limit) (sort_shown qs)"
proof -
  have "take (length (filter is_pending qs) + handled_display_limit)
      (filter is_pending (sort_shown qs) @ filter (\<lambda>q. \<not> is_pending q) (sort_shown qs)) = visible_requests qs"
    by (simp add: visible_split)
  then show ?thesis using pending_first [OF sort_shown_sorted, of qs] by simp
qed

lemma visible_subset: "set (visible_requests qs) \<subseteq> set qs"
  unfolding visible_eq_take using set_take_subset [of _ "sort_shown qs"] by auto

lemma visible_pending: "is_pending q \<Longrightarrow> q \<in> set (visible_requests qs) \<longleftrightarrow> q \<in> set qs"
  using visible_subset [of qs] by (auto simp: visible_split)

section \<open>The counts\<close>

definition counts_of :: "nat omap \<Rightarrow> (rstr \<Rightarrow> nat) \<Rightarrow> bool" where
  "counts_of m f \<longleftrightarrow> om_ok m \<and> (\<forall>c. om_get m c = (if f c = 0 then None else Some (f c)))"

lemma counts_of_increment:
  "counts_of m f \<Longrightarrow> counts_of (increment_pending_count c m) (f(c := f c + 1))"
  by (auto simp: counts_of_def increment_pending_count_def)

lemma counts_of_decrement:
  "counts_of m f \<Longrightarrow> counts_of (decrement_pending_count c m) (f(c := f c - 1))"
  by (auto simp: counts_of_def decrement_pending_count_def om_get_filter split: option.split)

lemma counts_of_count:
  "counts_of (count_pending_by_channel qs) (\<lambda>c. length (filter (\<lambda>q. q_channel_id q = c) qs))"
proof -
  have "counts_of (fold (\<lambda>q. increment_pending_count (q_channel_id q)) qs m)
      (\<lambda>c. f c + length (filter (\<lambda>q. q_channel_id q = c) qs))" if "counts_of m f" for m f
    using that
  proof (induction qs arbitrary: m f)
    case (Cons q qs)
    from Cons.IH [OF counts_of_increment [OF Cons.prems, of "q_channel_id q"]] show ?case
      by (auto elim!: arg_cong [of _ _ "counts_of _", THEN iffD1, rotated])
  qed simp
  from this [of "[]" "\<lambda>_. 0"] show ?thesis
    by (simp add: count_pending_by_channel_def counts_of_def)
qed

section \<open>The invariant\<close>

definition pending_count :: "request omap \<Rightarrow> rstr \<Rightarrow> nat" where
  "pending_count m c = om_count (\<lambda>q. is_pending q \<and> q_channel_id q = c) m"

definition pending_channel :: "request omap \<Rightarrow> rstr \<Rightarrow> rstr option" where
  "pending_channel m i =
     (case om_get m i of Some q \<Rightarrow> if is_pending q then Some (q_channel_id q) else None | None \<Rightarrow> None)"

definition keyed_requests :: "request omap \<Rightarrow> bool" where
  "keyed_requests m \<longleftrightarrow> om_ok m \<and> (\<forall>i q. om_get m i = Some q \<longrightarrow> q_id q = i)"

text \<open>What is tracked next to the requests is determined by them.\<close>

definition tracked_ok :: "reducer \<Rightarrow> bool" where
  "tracked_ok r \<longleftrightarrow>
     keyed_requests (re_requests r) \<and>
     om_ok (re_known_pending r) \<and>
     (\<forall>i. om_get (re_known_pending r) i = pending_channel (re_requests r) i) \<and>
     counts_of (cs_pending_counts (re_state r)) (pending_count (re_requests r)) \<and>
     om_ok (re_request_revisions r) \<and>
     (\<forall>i n. om_get (re_request_revisions r) i = Some n \<longrightarrow>
        n \<le> re_revision r \<and> om_get (re_requests r) i \<noteq> None)"

text \<open>What is shown is determined by the requests and the selected channel.\<close>

definition shown_ok :: "client_state \<Rightarrow> request omap \<Rightarrow> bool" where
  "shown_ok s m \<longleftrightarrow>
     cs_requests s = visible_requests_for_selected_channel s (om_values m)"

definition client_consistent :: "reducer \<Rightarrow> bool" where
  "client_consistent r \<longleftrightarrow>
     tracked_ok r \<and> shown_ok (re_state r) (re_requests r) \<and>
     cs_is_registered (re_state r) = (cs_servers (re_state r) \<noteq> [])"

lemma om_values_mem: "om_ok m \<Longrightarrow> q \<in> set (om_values m) \<longleftrightarrow> (\<exists>i. om_get m i = Some q)"
  by (force simp: om_values_def om_in_iff [symmetric] image_iff)

lemma keyed_values: "keyed_requests m \<Longrightarrow> q \<in> set (om_values m) \<longleftrightarrow> om_get m (q_id q) = Some q"
  by (auto simp: keyed_requests_def om_values_mem)

lemma visible_for_subset: "set (visible_requests_for_selected_channel s qs) \<subseteq> set qs"
  by (cases "cs_selected_channel_id s")
    (auto simp: visible_requests_for_selected_channel_def dest: subsetD [OF visible_subset])

lemma visible_for_frame:
  "cs_selected_channel_id s = cs_selected_channel_id s' \<Longrightarrow>
    visible_requests_for_selected_channel s qs = visible_requests_for_selected_channel s' qs"
  by (simp add: visible_requests_for_selected_channel_def)

text \<open>Operations on other parts of the state keep it.\<close>

lemma shown_ok_frame:
  assumes "shown_ok s m" "cs_requests s' = cs_requests s"
    "cs_selected_channel_id s' = cs_selected_channel_id s"
  shows "shown_ok s' m"
  using assms visible_for_frame [OF assms(3)] unfolding shown_ok_def by metis

lemma tracked_ok_frame:
  assumes "tracked_ok r" "re_requests r' = re_requests r" "re_known_pending r' = re_known_pending r"
    "re_request_revisions r' = re_request_revisions r" "re_revision r' = re_revision r"
    "cs_pending_counts (re_state r') = cs_pending_counts (re_state r)"
  shows "tracked_ok r'"
  using assms by (simp add: tracked_ok_def)

lemma ensure_selected_request_frame [simp]:
  "cs_requests (ensure_selected_request s) = cs_requests s"
  "cs_selected_channel_id (ensure_selected_request s) = cs_selected_channel_id s"
  "cs_pending_counts (ensure_selected_request s) = cs_pending_counts s"
  "cs_servers (ensure_selected_request s) = cs_servers s"
  "cs_is_registered (ensure_selected_request s) = cs_is_registered s"
  by (simp_all add: ensure_selected_request_def)

lemma ensure_selected_request_idem:
  "ensure_selected_request (ensure_selected_request s) = ensure_selected_request s"
  by (auto simp: ensure_selected_request_def split: option.splits list.splits)

lemma ensure_selected_channel_frame [simp]:
  "cs_pending_counts (ensure_selected_channel s) = cs_pending_counts s"
  "cs_servers (ensure_selected_channel s) = cs_servers s"
  "cs_is_registered (ensure_selected_channel s) = cs_is_registered s"
  by (simp_all add: ensure_selected_channel_def split: option.split)

lemma update_visible_frame [simp]:
  "re_requests (update_visible_requests r) = re_requests r"
  "re_known_pending (update_visible_requests r) = re_known_pending r"
  "re_loaded (update_visible_requests r) = re_loaded r"
  "re_revision (update_visible_requests r) = re_revision r"
  "re_request_revisions (update_visible_requests r) = re_request_revisions r"
  "cs_pending_counts (re_state (update_visible_requests r)) = cs_pending_counts (re_state r)"
  "cs_servers (re_state (update_visible_requests r)) = cs_servers (re_state r)"
  "cs_is_registered (re_state (update_visible_requests r)) = cs_is_registered (re_state r)"
  "cs_selected_channel_id (re_state (update_visible_requests r)) = cs_selected_channel_id (re_state r)"
  by (simp_all add: update_visible_requests_def)

lemma update_visible_shown: "shown_ok (re_state (update_visible_requests r)) (re_requests r)"
proof -
  let ?s = "(re_state r)\<lparr>cs_requests := visible_requests_for_selected_channel (re_state r) (om_values (re_requests r))\<rparr>"
  have "visible_requests_for_selected_channel (ensure_selected_request ?s) qs =
      visible_requests_for_selected_channel (re_state r) qs" for qs
    by (rule visible_for_frame) simp
  then show ?thesis by (simp add: shown_ok_def update_visible_requests_def)
qed

lemma update_visible_consistent:
  assumes "tracked_ok r" "cs_is_registered (re_state r) = (cs_servers (re_state r) \<noteq> [])"
  shows "client_consistent (update_visible_requests r)"
  using tracked_ok_frame [OF assms(1), of "update_visible_requests r"] assms(2) update_visible_shown [of r]
  by (simp add: client_consistent_def)

section \<open>Every operation keeps it\<close>

lemma empty_tracked:
  "re_requests r = [] \<Longrightarrow> re_known_pending r = [] \<Longrightarrow> re_request_revisions r = [] \<Longrightarrow>
    cs_pending_counts (re_state r) = [] \<Longrightarrow> tracked_ok r"
  by (simp add: tracked_ok_def keyed_requests_def pending_channel_def counts_of_def pending_count_def om_count_def
      om_values_def)

lemma visible_for_Nil [simp]: "visible_requests_for_selected_channel s [] = []"
  by (simp add: visible_requests_for_selected_channel_def visible_requests_def sort_shown_def split: option.split)

lemma empty_shown: "cs_requests s = [] \<Longrightarrow> shown_ok s []"
  by (simp add: shown_ok_def om_values_def)

lemma new_reducer_consistent: "client_consistent (new_reducer servers selected sound)"
  by (auto simp: client_consistent_def new_reducer_def intro!: empty_tracked empty_shown)

lemma clear_consistent:
  "cs_is_registered (re_state r) = (cs_servers (re_state r) \<noteq> []) \<Longrightarrow> client_consistent (clear_loaded_data r)"
  by (auto simp: client_consistent_def clear_loaded_data_def intro!: empty_tracked empty_shown)

lemma upsert_by_nonempty [simp]: "upsert_by key x xs \<noteq> []"
  by (cases xs) auto

lemma client_consistent_frame:
  assumes "client_consistent r" "re_requests r' = re_requests r" "re_known_pending r' = re_known_pending r"
    "re_request_revisions r' = re_request_revisions r" "re_revision r' = re_revision r"
    "cs_pending_counts (re_state r') = cs_pending_counts (re_state r)"
    "cs_requests (re_state r') = cs_requests (re_state r)"
    "cs_selected_channel_id (re_state r') = cs_selected_channel_id (re_state r)"
    "cs_is_registered (re_state r') = (cs_servers (re_state r') \<noteq> [])"
  shows "client_consistent r'"
  using assms unfolding client_consistent_def
  by (auto intro: tracked_ok_frame shown_ok_frame)

lemma registered: "client_consistent r \<Longrightarrow> cs_is_registered (re_state r) = (cs_servers (re_state r) \<noteq> [])"
  by (simp add: client_consistent_def)

lemma simple_steps_consistent:
  assumes "client_consistent r"
  shows "client_consistent (upsert_server p r)" "client_consistent (mark_sync_connected b r)"
    "client_consistent (set_sync_phase ph r)" "client_consistent (set_notification_delivery_mode d r)"
    "client_consistent (set_error e r)" "client_consistent (upsert_channel c r)"
  using registered [OF assms]
  by (auto intro!: client_consistent_frame [OF assms] simp: upsert_server_def mark_sync_connected_def set_sync_phase_def
      set_notification_delivery_mode_def set_error_def upsert_channel_def Let_def)

lemma direct_writes_consistent:
  assumes "client_consistent r"
  shows "client_consistent (r\<lparr>re_state := (re_state r)\<lparr>cs_selected_request_id := i\<rparr>\<rparr>)"
    "client_consistent (r\<lparr>re_state := (re_state r)\<lparr>cs_channels := cs\<rparr>\<rparr>)"
    "client_consistent (r\<lparr>re_state := (re_state r)\<lparr>cs_devices := ds\<rparr>\<rparr>)"
    "client_consistent (r\<lparr>re_state := (re_state r)\<lparr>cs_notification_sound := sound\<rparr>\<rparr>)"
  using registered [OF assms] by (auto intro!: client_consistent_frame [OF assms])

lemma set_selected_server_consistent: "client_consistent r \<Longrightarrow> client_consistent (set_selected_server i r)"
  by (simp add: set_selected_server_def clear_consistent registered)

lemma select_channel_consistent:
  assumes "client_consistent r"
  shows "client_consistent (select_channel c r)"
proof -
  have "tracked_ok (r\<lparr>re_state := (re_state r)\<lparr>cs_selected_channel_id := c\<rparr>\<rparr>)"
    using assms by (auto simp: client_consistent_def intro: tracked_ok_frame)
  then show ?thesis
    unfolding select_channel_def using registered [OF assms] by (intro update_visible_consistent) simp_all
qed

lemma remove_server_consistent:
  assumes "client_consistent r"
  shows "client_consistent (remove_server i r)"
proof (cases "cs_selected_server_id (re_state r) = Some i")
  case True
  let ?rest = "filter (\<lambda>p. sp_id p \<noteq> i) (cs_servers (re_state r))"
  from True show ?thesis
    by (cases ?rest)
      (auto simp: remove_server_def clear_loaded_data_def client_consistent_def intro!: empty_tracked empty_shown)
next
  case False
  then show ?thesis
    by (auto simp: remove_server_def Let_def intro!: client_consistent_frame [OF assms])
qed

text \<open>A single update moves one request between the counts.\<close>

lemma previous_pending:
  assumes "client_consistent r"
  shows "previous_pending_channel r q = pending_channel (re_requests r) (q_id q)"
proof -
  from assms have keyed: "keyed_requests (re_requests r)"
    and known: "om_get (re_known_pending r) (q_id q) = pending_channel (re_requests r) (q_id q)"
    and shown: "cs_requests (re_state r) =
      visible_requests_for_selected_channel (re_state r) (om_values (re_requests r))"
    by (auto simp: client_consistent_def tracked_ok_def shown_ok_def)
  have "find (\<lambda>p. q_id p = q_id q \<and> is_pending p) (cs_requests (re_state r)) = None"
    if none: "pending_channel (re_requests r) (q_id q) = None"
  proof -
    have "\<not> (q_id p = q_id q \<and> is_pending p)" if "p \<in> set (cs_requests (re_state r))" for p
      using that none keyed_values [OF keyed, of p] visible_for_subset [of "re_state r" "om_values (re_requests r)"]
      by (auto simp: shown pending_channel_def)
    then show ?thesis by (auto simp: find_None_iff)
  qed
  with known show ?thesis
    by (cases "pending_channel (re_requests r) (q_id q)") (simp_all add: previous_pending_channel_def)
qed

lemma pending_count_pos:
  assumes "om_ok m" "pending_channel m i = Some c"
  shows "0 < pending_count m c"
  using om_count_put [OF assms(1), of "\<lambda>q. is_pending q \<and> q_channel_id q = c" i "the (om_get m i)\<lparr>q_status := Expired\<rparr>"] assms(2)
  by (auto simp: pending_count_def pending_channel_def split: option.splits if_splits)

lemma pending_count_put:
  assumes "om_ok m"
  shows "pending_count (om_put i q m) c =
    pending_count m c - (if pending_channel m i = Some c then 1 else 0) + (if is_pending q \<and> q_channel_id q = c then 1 else 0)"
  using om_count_put [OF assms, of "\<lambda>q. is_pending q \<and> q_channel_id q = c" i q]
    pending_count_pos [OF assms, of i c]
  by (auto simp: pending_count_def pending_channel_def split: option.splits if_splits)

lemma pending_channel_put:
  "pending_channel (om_put i q m) j =
     (if j = i then if is_pending q then Some (q_channel_id q) else None else pending_channel m j)"
  by (simp add: pending_channel_def)

lemma tracking_counts:
  assumes "client_consistent r"
  shows "counts_of (cs_pending_counts (re_state (snd (update_pending_tracking q r))))
    (pending_count (om_put (q_id q) q (re_requests r)))"
proof -
  let ?m = "re_requests r" and ?i = "q_id q" and ?f = "pending_count (re_requests r)"
  from assms have ok: "om_ok ?m" and counts: "counts_of (cs_pending_counts (re_state r)) ?f"
    by (auto simp: client_consistent_def tracked_ok_def keyed_requests_def)
  note put = pending_count_put [OF ok, of ?i q]
  show ?thesis
  proof (cases "pending_channel ?m ?i")
    case None
    have "pending_count (om_put ?i q ?m) = (if is_pending q then ?f(q_channel_id q := ?f (q_channel_id q) + 1) else ?f)"
      using None by (auto simp: put fun_eq_iff)
    with None counts counts_of_increment [OF counts, of "q_channel_id q"] show ?thesis
      by (simp add: update_pending_tracking_def previous_pending [OF assms] mark_pending_def)
  next
    case (Some c)
    note pos = pending_count_pos [OF ok Some]
    note down = counts_of_decrement [OF counts, of c]
    note move = counts_of_increment [OF down, of "q_channel_id q"]
    have "pending_count (om_put ?i q ?m) =
        (if \<not> is_pending q then ?f(c := ?f c - 1)
         else if c = q_channel_id q then ?f
         else (?f(c := ?f c - 1))(q_channel_id q := (?f(c := ?f c - 1)) (q_channel_id q) + 1))"
      using Some pos by (auto simp: put fun_eq_iff)
    with Some counts down move show ?thesis
      by (cases "is_pending q"; cases "q_channel_id q = c") (simp_all add: update_pending_tracking_def previous_pending [OF assms] clear_pending_def
          update_pending_channel_def Let_def)
  qed
qed

lemma tracking_known:
  assumes "client_consistent r"
  shows "om_get (re_known_pending (snd (update_pending_tracking q r))) i =
      pending_channel (om_put (q_id q) q (re_requests r)) i"
    and "om_ok (re_known_pending (snd (update_pending_tracking q r)))"
proof -
  from assms have "om_ok (re_known_pending r)"
    and known: "\<And>i. om_get (re_known_pending r) i = pending_channel (re_requests r) i"
    by (auto simp: client_consistent_def tracked_ok_def)
  then show "om_ok (re_known_pending (snd (update_pending_tracking q r)))"
    by (auto simp: update_pending_tracking_def mark_pending_def clear_pending_def update_pending_channel_def Let_def
        split: option.split bool.split)
  show "om_get (re_known_pending (snd (update_pending_tracking q r))) i =
      pending_channel (om_put (q_id q) q (re_requests r)) i"
    by (auto simp: update_pending_tracking_def previous_pending [OF assms] mark_pending_def clear_pending_def
        update_pending_channel_def Let_def pending_channel_put known split: option.split bool.split)
qed

lemma tracking_frame [simp]:
  "re_requests (snd (update_pending_tracking q r)) = re_requests r"
  "re_revision (snd (update_pending_tracking q r)) = re_revision r"
  "re_loaded (snd (update_pending_tracking q r)) = re_loaded r"
  "re_request_revisions (snd (update_pending_tracking q r)) = re_request_revisions r"
  "cs_servers (re_state (snd (update_pending_tracking q r))) = cs_servers (re_state r)"
  "cs_is_registered (re_state (snd (update_pending_tracking q r))) = cs_is_registered (re_state r)"
  by (simp_all add: update_pending_tracking_def mark_pending_def clear_pending_def update_pending_channel_def Let_def
      split: option.split bool.split)

definition is_current :: "reducer \<Rightarrow> request \<Rightarrow> bool" where
  "is_current r q \<longleftrightarrow> (case om_get (re_requests r) (q_id q) of Some held \<Rightarrow> \<not> request_is_stale q held | None \<Rightarrow> True)"

lemma apply_request_update_stale: "\<not> is_current r q \<Longrightarrow> apply_request_update q r = (False, r)"
  by (auto simp: apply_request_update_def is_current_def split: option.splits)

text \<open>The state written before the list is drawn.\<close>

definition accepted :: "request \<Rightarrow> reducer \<Rightarrow> reducer" where
  "accepted q r =
     (let r' = snd (update_pending_tracking q r) in
      r'\<lparr>re_revision := re_revision r + 1,
         re_request_revisions := om_put (q_id q) (re_revision r + 1) (re_request_revisions r),
         re_requests := om_put (q_id q) q (re_requests r)\<rparr>)"

lemma apply_request_update_current:
  "is_current r q \<Longrightarrow> apply_request_update q r =
     (fst (update_pending_tracking q r), update_visible_requests (accepted q r))"
  by (auto simp: apply_request_update_def is_current_def accepted_def Let_def case_prod_beta split: option.splits)

lemma accepted_tracked:
  assumes "client_consistent r"
  shows "tracked_ok (accepted q r)"
proof -
  from assms have "keyed_requests (re_requests r)" "om_ok (re_request_revisions r)"
    and "\<And>i n. om_get (re_request_revisions r) i = Some n \<Longrightarrow> n \<le> re_revision r \<and> om_get (re_requests r) i \<noteq> None"
    by (auto simp: client_consistent_def tracked_ok_def)
  then show ?thesis
    using tracking_counts [OF assms, of q] tracking_known [OF assms, of q]
    by (auto simp: tracked_ok_def accepted_def Let_def keyed_requests_def le_Suc_eq)
qed

lemma request_update_consistent:
  assumes "client_consistent r"
  shows "client_consistent (snd (apply_request_update q r))"
proof (cases "is_current r q")
  case True
  have "client_consistent (update_visible_requests (accepted q r))"
    using accepted_tracked [OF assms] registered [OF assms]
    by (intro update_visible_consistent) (simp_all add: accepted_def Let_def)
  with True show ?thesis by (simp add: apply_request_update_current)
qed (simp add: apply_request_update_stale assms)

lemma envelope_cases:
  "snd (apply_sync_envelope v r) =
     (let r1 = r\<lparr>re_state := (re_state r)\<lparr>cs_is_sync_connected := True\<rparr>\<rparr>;
          r2 = (case ce_channel v of Some c \<Rightarrow> upsert_channel c r1 | None \<Rightarrow> r1) in
      case ce_request v of Some q \<Rightarrow> snd (apply_request_update q r2) | None \<Rightarrow> r2)"
  by (simp add: apply_sync_envelope_def Let_def case_prod_beta split: option.split)

lemma envelope_consistent:
  assumes "client_consistent r"
  shows "client_consistent (snd (apply_sync_envelope v r))"
proof -
  have "client_consistent (r\<lparr>re_state := (re_state r)\<lparr>cs_is_sync_connected := True\<rparr>\<rparr>)"
    using registered [OF assms] by (auto intro!: client_consistent_frame [OF assms])
  then show ?thesis
    by (auto simp: envelope_cases Let_def intro!: request_update_consistent simple_steps_consistent split: option.split)
qed

section \<open>Snapshots\<close>

definition answered :: "request list \<Rightarrow> request omap" where
  "answered qs = om_of (map (\<lambda>q. (q_id q, q)) qs)"

definition revision_of :: "reducer \<Rightarrow> rstr \<Rightarrow> nat" where
  "revision_of r i = (case om_get (re_request_revisions r) i of Some n \<Rightarrow> n | None \<Rightarrow> 0)"

definition survives :: "reducer \<Rightarrow> nat \<Rightarrow> request \<Rightarrow> request option \<Rightarrow> bool" where
  "survives r started q answer \<longleftrightarrow>
     started < revision_of r (q_id q) \<and> (case answer of Some cur \<Rightarrow> \<not> request_is_stale q cur | None \<Rightarrow> True)"

lemma keyed_answered: "keyed_requests (answered qs)"
  by (auto simp: keyed_requests_def answered_def om_get_of dest!: map_of_SomeD)

lemma keep_changed_get:
  "q_id q = i \<Longrightarrow> om_get (keep_changed r started (i, q) m) j =
     (if j = i \<and> survives r started q (om_get m i) then Some q else om_get m j)"
  by (auto simp: keep_changed_def survives_def revision_of_def Let_def split: option.splits)

lemma keep_changed_ok: "om_ok m \<Longrightarrow> om_ok (keep_changed r started p m)"
  by (simp add: keep_changed_def Let_def)

lemma fold_keep_changed:
  assumes "distinct (map fst ps)" "\<And>i q. (i, q) \<in> set ps \<Longrightarrow> q_id q = i" "om_ok m"
  shows "om_ok (fold (keep_changed r started) ps m) \<and>
    om_get (fold (keep_changed r started) ps m) j =
      (case map_of ps j of
         Some q \<Rightarrow> if survives r started q (om_get m j) then Some q else om_get m j
       | None \<Rightarrow> om_get m j)"
  using assms
proof (induction ps arbitrary: m)
  case (Cons p ps)
  obtain i q where p: "p = (i, q)" and qi: "q_id q = i" using Cons.prems(2) by (cases p) auto
  have none: "map_of ps i = None" using Cons.prems(1) p by (simp add: map_of_eq_None_iff)
  have rest: "distinct (map fst ps)" "\<And>i q. (i, q) \<in> set ps \<Longrightarrow> q_id q = i"
    "om_ok (keep_changed r started p m)"
    using Cons.prems by (auto simp: keep_changed_ok)
  from Cons.IH [OF rest] show ?case
    using none by (auto simp: p keep_changed_get [OF qi] split: option.splits)
qed simp

lemma merged_get:
  assumes "keyed_requests (re_requests r)"
  shows "om_ok (merged_snapshot r qs started)"
    and "om_get (merged_snapshot r qs started) i =
      (case om_get (re_requests r) i of
         Some q \<Rightarrow> if survives r started q (om_get (answered qs) i) then Some q else om_get (answered qs) i
       | None \<Rightarrow> om_get (answered qs) i)"
proof -
  from assms have d: "distinct (map fst (re_requests r))" "\<And>i q. (i, q) \<in> set (re_requests r) \<Longrightarrow> q_id q = i"
    by (auto simp: keyed_requests_def om_ok_def om_get_def)
  have "om_ok (answered qs)" by (simp add: answered_def)
  note f = fold_keep_changed [OF d this, where r = r and started = started]
  from f show "om_ok (merged_snapshot r qs started)"
    by (simp add: merged_snapshot_def answered_def)
  from f show "om_get (merged_snapshot r qs started) i =
      (case om_get (re_requests r) i of
         Some q \<Rightarrow> if survives r started q (om_get (answered qs) i) then Some q else om_get (answered qs) i
       | None \<Rightarrow> om_get (answered qs) i)"
    by (simp add: merged_snapshot_def answered_def om_get_def)
qed

lemma merged_keyed:
  assumes "keyed_requests (re_requests r)"
  shows "keyed_requests (merged_snapshot r qs started)"
  using merged_get [OF assms, of qs started] assms keyed_answered [of qs]
  by (auto simp: keyed_requests_def split: option.splits if_splits)

lemma merged_frame [simp]: "merged_snapshot (r\<lparr>re_state := s\<rparr>) qs started = merged_snapshot r qs started"
  by (simp add: merged_snapshot_def keep_changed_def [abs_def])

text \<open>The state written before the list is drawn.\<close>

definition loaded ::
  "user option \<Rightarrow> client_device list \<Rightarrow> channel list \<Rightarrow> request list \<Rightarrow> nat \<Rightarrow> reducer \<Rightarrow> reducer" where
  "loaded u ds cs qs started r =
     (let m = merged_snapshot r qs started; pending = pending_requests (om_values m);
          s = ensure_selected_channel ((re_state r)\<lparr>cs_current_user := u, cs_devices := ds, cs_channels := cs\<rparr>) in
      r\<lparr>re_requests := m,
        re_request_revisions := filter (\<lambda>(i, _). om_get m i \<noteq> None) (re_request_revisions r),
        re_state := s\<lparr>cs_pending_counts := count_pending_by_channel pending\<rparr>,
        re_known_pending := pending_request_channels pending, re_loaded := True\<rparr>)"

lemma apply_snapshot_loaded:
  "snd (apply_snapshot now u ds cs qs started r) =
     (let r' = update_visible_requests (loaded u ds cs qs started r) in
      r'\<lparr>re_state := (re_state r')\<lparr>cs_last_error := None, cs_last_synced_at := Some now\<rparr>\<rparr>)"
proof -
  have "ensure_selected_request (re_state (update_visible_requests r)) = re_state (update_visible_requests r)" for r
    by (simp add: update_visible_requests_def ensure_selected_request_idem)
  then show ?thesis
    by (simp add: apply_snapshot_def loaded_def remember_pending_requests_def Let_def)
qed

lemma loaded_fields [simp]:
  "re_requests (loaded u ds cs qs started r) = merged_snapshot r qs started"
  "re_revision (loaded u ds cs qs started r) = re_revision r"
  "cs_servers (re_state (loaded u ds cs qs started r)) = cs_servers (re_state r)"
  "cs_is_registered (re_state (loaded u ds cs qs started r)) = cs_is_registered (re_state r)"
  "re_request_revisions (loaded u ds cs qs started r) =
     filter (\<lambda>(i, _). om_get (merged_snapshot r qs started) i \<noteq> None) (re_request_revisions r)"
  by (simp_all add: loaded_def Let_def)

lemma apply_snapshot_fields:
  "re_requests (snd (apply_snapshot now u ds cs qs started r)) = merged_snapshot r qs started"
  "re_revision (snd (apply_snapshot now u ds cs qs started r)) = re_revision r"
  "re_request_revisions (snd (apply_snapshot now u ds cs qs started r)) =
     filter (\<lambda>(i, _). om_get (merged_snapshot r qs started) i \<noteq> None) (re_request_revisions r)"
  by (simp_all add: apply_snapshot_loaded Let_def)

lemma pending_channels_get:
  assumes "keyed_requests m"
  shows "om_get (pending_request_channels (pending_requests (om_values m))) i = pending_channel m i"
proof -
  let ?ps = "pending_requests (om_values m)"
  have "om_get (pending_request_channels ?ps) i = Some c \<longleftrightarrow> (\<exists>q \<in> set ?ps. q_id q = i \<and> q_channel_id q = c)" for c
  proof -
    have "distinct (map fst m)" using assms by (simp add: keyed_requests_def om_ok_def)
    moreover have "map q_id (om_values m) = map fst m"
      using assms by (auto simp: om_values_def keyed_requests_def om_in_iff [symmetric])
    ultimately have "distinct (map q_id (om_values m))" by simp
    then have "distinct (map fst (map (\<lambda>q. (q_id q, q_channel_id q)) ?ps))"
      by (simp add: pending_requests_def comp_def distinct_map_filter)
    then have "distinct (map fst (rev (map (\<lambda>q. (q_id q, q_channel_id q)) ?ps)))"
      unfolding rev_map [symmetric] by simp
    from map_of_eq_Some_iff [OF this, of i c] show ?thesis
      by (auto simp: pending_request_channels_def om_get_of)
  qed
  moreover have "(\<exists>q \<in> set ?ps. q_id q = i \<and> q_channel_id q = c) \<longleftrightarrow> pending_channel m i = Some c" for c
  proof -
    have "(\<exists>q \<in> set ?ps. q_id q = i \<and> q_channel_id q = c) \<longleftrightarrow>
        (\<exists>q. om_get m i = Some q \<and> is_pending q \<and> q_channel_id q = c)"
      using assms unfolding pending_requests_def keyed_requests_def
      by (auto simp: om_values_mem)
    then show ?thesis
      by (auto simp: pending_channel_def split: option.splits if_splits)
  qed
  ultimately have "om_get (pending_request_channels ?ps) i = Some c \<longleftrightarrow> pending_channel m i = Some c" for c
    by simp
  then show ?thesis by (cases "pending_channel m i") (metis not_None_eq)+
qed

lemma om_ok_pending_channels [simp]: "om_ok (pending_request_channels qs)"
  by (simp add: pending_request_channels_def)

lemma pending_counts_count:
  "counts_of (count_pending_by_channel (pending_requests (om_values m))) (pending_count m)"
  using counts_of_count [of "pending_requests (om_values m)"]
  by (simp add: pending_count_def [abs_def] om_count_def pending_requests_def conj_commute)

lemma loaded_tracked:
  assumes "client_consistent r"
  shows "tracked_ok (loaded u ds cs qs started r)"
proof -
  let ?m = "merged_snapshot r qs started"
  from assms have keyed: "keyed_requests ?m" and revs: "om_ok (re_request_revisions r)"
    and bound: "\<And>i n. om_get (re_request_revisions r) i = Some n \<Longrightarrow> n \<le> re_revision r"
    by (auto simp: client_consistent_def tracked_ok_def intro: merged_keyed)
  let ?l = "loaded u ds cs qs started r"
  have known: "re_known_pending ?l = pending_request_channels (pending_requests (om_values ?m))"
    and counts: "cs_pending_counts (re_state ?l) = count_pending_by_channel (pending_requests (om_values ?m))"
    by (simp_all add: loaded_def Let_def)
  have "om_get (re_request_revisions ?l) i =
      (if om_get ?m i = None then None else om_get (re_request_revisions r) i)" for i
    using revs by (simp add: om_get_filter split: option.split)
  then show ?thesis
    unfolding tracked_ok_def loaded_fields known counts
    using keyed revs bound by (simp add: pending_counts_count pending_channels_get [OF keyed])
qed

lemma snapshot_consistent:
  assumes "client_consistent r"
  shows "client_consistent (snd (apply_snapshot now u ds cs qs started r))"
proof -
  let ?r = "update_visible_requests (loaded u ds cs qs started r)"
  have c: "client_consistent ?r"
    using loaded_tracked [OF assms] registered [OF assms] by (intro update_visible_consistent) simp_all
  have "client_consistent
      (?r\<lparr>re_state := (re_state ?r)\<lparr>cs_last_error := None, cs_last_synced_at := Some now\<rparr>\<rparr>)"
    by (rule client_consistent_frame [OF c]) (simp_all add: registered [OF assms])
  then show ?thesis by (simp add: apply_snapshot_loaded Let_def)
qed

theorem reducer_step_consistent: "reducer_step r r' \<Longrightarrow> client_consistent r \<Longrightarrow> client_consistent r'"
  by (induction rule: reducer_step.induct)
    (auto intro: simple_steps_consistent direct_writes_consistent remove_server_consistent set_selected_server_consistent clear_consistent
      snapshot_consistent envelope_consistent request_update_consistent select_channel_consistent simp: registered)

lemma reachable_consistent: "reducer_reachable r \<Longrightarrow> client_consistent r"
  by (induction rule: reducer_reachable.induct) (auto intro: new_reducer_consistent reducer_step_consistent)

section \<open>One version through overlapping snapshots\<close>

text \<open>The steps that do not drop the loaded data, with snapshots that were started at revision \<open>n\<close> or before.\<close>

inductive live_step :: "nat \<Rightarrow> reducer \<Rightarrow> reducer \<Rightarrow> bool" for n where
  live_snapshot: "started \<le> n \<Longrightarrow> live_step n r (snd (apply_snapshot now u ds cs qs started r))"
| live_envelope: "live_step n r (snd (apply_sync_envelope v r))"
| live_update: "live_step n r (snd (apply_request_update q r))"
| live_channel: "live_step n r (select_channel c r)"
| live_server: "live_step n r (upsert_server p r)"
| live_connected: "live_step n r (mark_sync_connected b r)"
| live_phase: "live_step n r (set_sync_phase ph r)"
| live_mode: "live_step n r (set_notification_delivery_mode d r)"
| live_error: "live_step n r (set_error e r)"
| live_write: "live_step n r (r\<lparr>re_state := s\<rparr>)"

text \<open>The request of \<open>q\<close> is held in a version no older than \<open>q\<close>, marked as changed after \<open>n\<close>.\<close>

definition holds_since :: "nat \<Rightarrow> request \<Rightarrow> reducer \<Rightarrow> bool" where
  "holds_since n q r \<longleftrightarrow>
     keyed_requests (re_requests r) \<and> om_ok (re_request_revisions r) \<and> n \<le> re_revision r \<and>
     n < revision_of r (q_id q) \<and> (\<exists>p. held_request r (q_id q) = Some p \<and> \<not> request_is_stale p q)"

lemma holds_since_frame:
  assumes "holds_since n q r" "re_requests r' = re_requests r" "re_request_revisions r' = re_request_revisions r"
    "re_revision r' = re_revision r"
  shows "holds_since n q r'"
  using assms by (simp add: holds_since_def revision_of_def held_request_def)

lemma accepted_fields [simp]:
  "re_requests (accepted q r) = om_put (q_id q) q (re_requests r)"
  "re_revision (accepted q r) = re_revision r + 1"
  "re_request_revisions (accepted q r) = om_put (q_id q) (re_revision r + 1) (re_request_revisions r)"
  by (simp_all add: accepted_def Let_def)

lemma holds_since_update:
  assumes "holds_since n q r"
  shows "holds_since n q (snd (apply_request_update q' r))"
proof (cases "is_current r q'")
  case True
  from assms obtain p where p: "held_request r (q_id q) = Some p" "\<not> request_is_stale p q"
    by (auto simp: holds_since_def)
  have "\<not> request_is_stale q' q" if "q_id q' = q_id q"
    using not_stale_trans [OF p(2), of q'] True p(1) that by (simp add: is_current_def held_request_def)
  with True p assms show ?thesis
    by (auto simp: apply_request_update_current holds_since_def held_request_def revision_of_def keyed_requests_def)
qed (simp add: apply_request_update_stale assms)

lemma holds_since_snapshot:
  assumes "holds_since n q r" "started \<le> n"
  shows "holds_since n q (snd (apply_snapshot now u ds cs qs started r))"
proof -
  let ?i = "q_id q" and ?m = "merged_snapshot r qs started"
  from assms obtain p where p: "om_get (re_requests r) ?i = Some p" "\<not> request_is_stale p q"
    and keyed: "keyed_requests (re_requests r)" and rev: "n < revision_of r ?i" "om_ok (re_request_revisions r)"
    by (auto simp: holds_since_def held_request_def)
  have pid: "q_id p = ?i" using keyed p by (auto simp: keyed_requests_def)
  have kept: "\<exists>p'. om_get ?m ?i = Some p' \<and> \<not> request_is_stale p' q"
  proof (cases "survives r started p (om_get (answered qs) ?i)")
    case True
    with p show ?thesis by (simp add: merged_get(2) [OF keyed])
  next
    case False
    with rev assms(2) obtain cur where cur: "om_get (answered qs) ?i = Some cur" "request_is_stale p cur"
      by (auto simp: survives_def pid split: option.splits)
    with p False show ?thesis
      using not_stale_trans [OF p(2) stale_not_stale [OF cur(2)]] by (simp add: merged_get(2) [OF keyed])
  qed
  then have "n < revision_of (snd (apply_snapshot now u ds cs qs started r)) ?i"
    using rev by (auto simp: revision_of_def apply_snapshot_fields om_get_filter split: option.splits)
  with kept rev(2) merged_keyed [OF keyed] assms(1) show ?thesis
    by (auto simp: holds_since_def held_request_def apply_snapshot_fields)
qed

lemma select_channel_frame [simp]:
  "re_requests (select_channel c r) = re_requests r"
  "re_request_revisions (select_channel c r) = re_request_revisions r"
  "re_revision (select_channel c r) = re_revision r"
  by (simp_all add: select_channel_def)

lemma holds_since_envelope:
  assumes "holds_since n q r"
  shows "holds_since n q (snd (apply_sync_envelope v r))"
proof -
  have "holds_since n q (r\<lparr>re_state := s\<rparr>)" for s
    by (rule holds_since_frame [OF assms]) simp_all
  then show ?thesis
    by (auto simp: envelope_cases Let_def upsert_channel_def intro!: holds_since_update split: option.split)
qed

lemma holds_since_step: "live_step n r r' \<Longrightarrow> holds_since n q r \<Longrightarrow> holds_since n q r'"
proof (induction rule: live_step.induct)
  case (live_snapshot started r)
  then show ?case by (intro holds_since_snapshot)
next
  case (live_envelope r v)
  then show ?case by (rule holds_since_envelope)
next
  case (live_update r q')
  then show ?case by (rule holds_since_update)
qed (erule holds_since_frame; simp add: upsert_server_def mark_sync_connected_def set_sync_phase_def
    set_notification_delivery_mode_def set_error_def Let_def)+

lemma holds_since_steps: "(live_step n)\<^sup>*\<^sup>* r r' \<Longrightarrow> holds_since n q r \<Longrightarrow> holds_since n q r'"
  by (induction rule: rtranclp_induct) (auto intro: holds_since_step)

lemma accepted_holds_since:
  assumes "client_consistent r" "is_current r q"
  shows "holds_since (re_revision r) q (snd (apply_request_update q r))"
  using assms
  by (auto simp: apply_request_update_current holds_since_def held_request_def revision_of_def keyed_requests_def
      client_consistent_def tracked_ok_def)

end
