(* ===== verification/Client_Views.thy ===== *)
theory Client_Views
  imports Client_State_Facts
begin

text \<open>
  What a user of a client can rely on: the view is the requests held, an update is not undone by an older
  answer, a refresh converges to the server's answer, and a notification is raised once.
\<close>

text \<open>The card of the tests of state.rs.\<close>

definition inbox_request :: "rstr \<Rightarrow> rstr \<Rightarrow> request_status \<Rightarrow> instant \<Rightarrow> request" where
  "inbox_request i c st at =
     \<lparr>q_answer_field = None, q_id = i, q_request_id = i, q_channel_id = c, q_recipients = [], q_resolution = Shared,
      q_title = i, q_summary = [], q_body = [], q_fields = [], q_links = [], q_image_url = None,
      q_notification = default_notification, q_dedupe_key = None, q_expires_at = None, q_status = st,
      q_created_at = 0, q_updated_at = at, q_resolved_at = None, q_decision = None, q_decisions = [],
      q_callback_url = None, q_options = [], q_request_digest = None, q_signing = None\<rparr>"

abbreviation "client_start \<equiv> new_reducer [] None (lit ''default'')"

lemma start_reachable: "reducer_reachable client_start"
  by (rule reducer_start)

lemma start_update_reachable: "reducer_reachable (snd (apply_request_update q client_start))"
  by (rule reducer_next [OF start_reachable]) (rule request_update)

lemma start_fields [simp]:
  "re_requests client_start = []" "re_request_revisions client_start = []" "re_revision client_start = 0"
  "re_known_pending client_start = []" "\<not> re_loaded client_start"
  by (simp_all add: new_reducer_def)

lemma start_is_current [simp]: "is_current client_start q"
  by (simp add: is_current_def)

section \<open>The view is the requests held\<close>

text \<open>
  The list a client displays, computed by sorting and a counting filter, is the list in
  display order cut after all pending requests and 500 handled ones: no pending request is ever
  left out, and a handled one only for 500 that stand before it.
\<close>

theorem visible_requests_reference:
  "visible_requests qs = take (length (pending_requests qs) + 500) (sort_shown qs) \<and>
   mset (sort_shown qs) = mset qs \<and> sorted_wrt shown_before (sort_shown qs)"
  using sort_shown_sorted visible_eq_take [of qs]
  by (simp add: pending_requests_def handled_display_limit_def)

text \<open>
  C21 (invariant). In every state of a client reached by any sequence of operations: a request is tracked as
  pending, under its channel, exactly when it is held as pending; the badge of every channel is the number
  of its pending requests, and channels without any have none; and the list shown is the display of the
  requests held in the selected channel.
\<close>

theorem client_view_consistent:
  assumes "reducer_reachable r"
  shows "(om_get (re_known_pending r) i = Some c \<longleftrightarrow>
      (\<exists>q. held_request r i = Some q \<and> q_status q = Pending \<and> q_channel_id q = c)) \<and>
    om_get (cs_pending_counts (re_state r)) c =
      (let n = length (filter (\<lambda>q. q_channel_id q = c) (pending_requests (om_values (re_requests r)))) in
       if n = 0 then None else Some n) \<and>
    cs_requests (re_state r) = visible_requests (filter (\<lambda>q. case cs_selected_channel_id (re_state r) of
        None \<Rightarrow> True | Some c \<Rightarrow> q_channel_id q = c) (om_values (re_requests r)))"
proof -
  from reachable_consistent [OF assms]
  have t: "tracked_ok r" and s: "shown_ok (re_state r) (re_requests r)"
    by (auto simp: client_consistent_def)
  have "om_get (re_known_pending r) i = Some c \<longleftrightarrow>
      (\<exists>q. held_request r i = Some q \<and> q_status q = Pending \<and> q_channel_id q = c)"
    using t by (auto simp: tracked_ok_def pending_channel_def held_request_def split: option.splits)
  moreover have "om_get (cs_pending_counts (re_state r)) c =
      (let n = length (filter (\<lambda>q. q_channel_id q = c) (pending_requests (om_values (re_requests r)))) in
       if n = 0 then None else Some n)"
    using t by (simp add: tracked_ok_def counts_of_def pending_count_def om_count_def pending_requests_def conj_commute)
  moreover have "cs_requests (re_state r) = visible_requests (filter (\<lambda>q. case cs_selected_channel_id (re_state r) of
        None \<Rightarrow> True | Some c \<Rightarrow> q_channel_id q = c) (om_values (re_requests r)))"
    using s by (simp add: shown_ok_def visible_requests_for_selected_channel_def split: option.split)
  ultimately show ?thesis by blast
qed

theorem client_view_consistent_witness:
  "om_get (cs_pending_counts (re_state
     (snd (apply_request_update (inbox_request [97] [98] Pending 5) client_start)))) [98] = Some 1"
  using client_view_consistent [OF start_update_reachable [of "inbox_request [97] [98] Pending 5"], of "[97]" "[98]"]
  by (simp add: apply_request_update_current inbox_request_def om_values_def om_put_def om_del_def pending_requests_def)

section \<open>Updates survive older answers\<close>

text \<open>
  C22 (safety). Once a client accepted a version of a request (from a submission or a live event), it holds that
  version or a later one through every further event and every answer of the server whose fetch had
  begun before the version was accepted: an answer on its way never undoes it.
\<close>

theorem update_survives_snapshots:
  assumes "reducer_reachable r" and "is_current r q"
    and "(live_step (re_revision r))\<^sup>*\<^sup>* (snd (apply_request_update q r)) r'"
  shows "\<exists>p. held_request r' (q_id q) = Some p \<and> \<not> request_is_stale p q"
  using holds_since_steps [OF assms(3) accepted_holds_since [OF reachable_consistent [OF assms(1)] assms(2)]]
  by (auto simp: holds_since_def)

theorem update_survives_snapshots_witness:
  "\<exists>p. held_request (snd (apply_snapshot [] None [] [] [inbox_request [97] [98] Pending 5] 0
      (snd (apply_request_update (inbox_request [97] [98] Resolved 5) client_start)))) [97] = Some p \<and>
    \<not> request_is_stale p (inbox_request [97] [98] Resolved 5)"
proof -
  let ?q = "inbox_request [97] [98] Resolved 5" and ?old = "inbox_request [97] [98] Pending 5"
  have "(live_step (re_revision client_start))\<^sup>*\<^sup>* (snd (apply_request_update ?q client_start))
      (snd (apply_snapshot [] None [] [] [?old] 0 (snd (apply_request_update ?q client_start))))"
    by (intro r_into_rtranclp live_snapshot) simp
  from update_survives_snapshots [OF start_reachable start_is_current this]
  show ?thesis by (simp add: inbox_request_def)
qed

text \<open>
  C23 (liveness). A refresh converges: when no update was accepted since its fetch began, the client holds after
  it exactly the requests of the server's answer, and has forgotten every other one.
\<close>

theorem refresh_converges:
  assumes "reducer_reachable r"
  shows "held_request (snd (apply_snapshot now u ds cs qs (re_revision r) r)) i = om_get (answered qs) i"
proof -
  from reachable_consistent [OF assms] have keyed: "keyed_requests (re_requests r)"
    and "\<And>n i. om_get (re_request_revisions r) i = Some n \<Longrightarrow> n \<le> re_revision r"
    by (auto simp: client_consistent_def tracked_ok_def)
  then have "\<not> survives r (re_revision r) q a" for q a
    by (auto simp: survives_def revision_of_def not_less split: option.split)
  then show ?thesis
    by (simp add: held_request_def apply_snapshot_fields merged_get(2) [OF keyed] split: option.split)
qed

theorem refresh_converges_witness:
  "held_request (snd (apply_snapshot [] None [] [] [] 1
     (snd (apply_request_update (inbox_request [97] [98] Pending 5) client_start)))) [97] = None"
  using refresh_converges [OF start_update_reachable [of "inbox_request [97] [98] Pending 5"], of "[]" None "[]" "[]" "[]" "[97]"]
  by (simp add: apply_request_update_current answered_def om_of_def)

section \<open>Notifications\<close>

lemma snapshot_candidates:
  "fst (apply_snapshot now u ds cs qs started r) =
     notification_candidates_after_refresh r (pending_requests (om_values (merged_snapshot r qs started)))"
  by (simp add: apply_snapshot_def Let_def notification_candidates_after_refresh_def)

lemma update_is_new:
  assumes "client_consistent r" "fst (apply_request_update q r)"
  shows "is_pending q \<and> pending_channel (re_requests r) (q_id q) = None \<and>
    om_get (re_requests (snd (apply_request_update q r))) (q_id q) = Some q"
proof -
  from assms(2) have cur: "is_current r q" using apply_request_update_stale [of r q] by (cases "is_current r q") auto
  with assms(2) have "fst (update_pending_tracking q r)" by (simp add: apply_request_update_current)
  then have "is_pending q \<and> pending_channel (re_requests r) (q_id q) = None"
    by (auto simp: update_pending_tracking_def previous_pending [OF assms(1)] split: option.splits bool.splits)
  with cur show ?thesis by (simp add: apply_request_update_current)
qed

lemma envelope_candidates:
  assumes "client_consistent r" "q \<in> set (fst (apply_sync_envelope v r))"
  shows "is_pending q \<and> pending_channel (re_requests r) (q_id q) = None \<and>
    om_get (re_requests (snd (apply_sync_envelope v r))) (q_id q) = Some q"
proof -
  define r1 where "r1 = r\<lparr>re_state := (re_state r)\<lparr>cs_is_sync_connected := True\<rparr>\<rparr>"
  define r2 where "r2 = (case ce_channel v of Some c \<Rightarrow> upsert_channel c r1 | None \<Rightarrow> r1)"
  have "client_consistent r1"
    using registered [OF assms(1)] by (auto simp: r1_def intro!: client_consistent_frame [OF assms(1)])
  then have c: "client_consistent r2"
    by (auto simp: r2_def intro: simple_steps_consistent split: option.split)
  have same: "re_requests r2 = re_requests r"
    by (simp add: r2_def r1_def upsert_channel_def split: option.split)
  from assms(2) have req: "ce_request v = Some q" and new: "fst (apply_request_update q r2)"
    by (auto simp: apply_sync_envelope_def Let_def case_prod_beta r1_def [symmetric] r2_def [symmetric]
        split: option.splits if_splits)
  have "snd (apply_sync_envelope v r) = snd (apply_request_update q r2)"
    by (simp add: envelope_cases Let_def req flip: r1_def r2_def)
  with update_is_new [OF c new] same show ?thesis by simp
qed

text \<open>
  A client notifies its user of a request only when it is pending, is held in this version
  afterwards, and was not held as pending before: so it is announced once, by the live event or by a
  later refresh, and a refresh after the first one announces everything pending that is new.
\<close>

theorem notified_once:
  assumes "reducer_reachable r"
    and "q \<in> set (fst (apply_sync_envelope v r)) \<and> r' = snd (apply_sync_envelope v r) \<or>
      q \<in> set (fst (apply_snapshot now u ds cs qs started r)) \<and> r' = snd (apply_snapshot now u ds cs qs started r)"
  shows "q_status q = Pending \<and> held_request r' (q_id q) = Some q \<and>
    (\<forall>p. held_request r (q_id q) = Some p \<longrightarrow> q_status p \<noteq> Pending)"
proof -
  note c = reachable_consistent [OF assms(1)]
  from c have keyed: "keyed_requests (re_requests r)"
    and known: "\<And>i. om_get (re_known_pending r) i = pending_channel (re_requests r) i"
    by (auto simp: client_consistent_def tracked_ok_def)
  from assms(2) have "is_pending q \<and> pending_channel (re_requests r) (q_id q) = None \<and>
      om_get (re_requests r') (q_id q) = Some q"
  proof
    assume "q \<in> set (fst (apply_sync_envelope v r)) \<and> r' = snd (apply_sync_envelope v r)"
    with envelope_candidates [OF c] show ?thesis by blast
  next
    assume "q \<in> set (fst (apply_snapshot now u ds cs qs started r)) \<and> r' = snd (apply_snapshot now u ds cs qs started r)"
    then show ?thesis
      using known keyed_values [OF merged_keyed [OF keyed]]
      by (auto simp: snapshot_candidates notification_candidates_after_refresh_def pending_requests_def
          apply_snapshot_fields split: if_splits)
  qed
  then show ?thesis by (auto simp: held_request_def pending_channel_def split: option.splits)
qed

definition created_envelope :: "request \<Rightarrow> client_envelope" where
  "created_envelope q = \<lparr>ce_kind = lit ''created'', ce_at = 0, ce_delivery = None, ce_request = Some q, ce_channel = None,
     ce_payload_delivery = None, ce_extra = []\<rparr>"

theorem notified_once_witness:
  "held_request (snd (apply_sync_envelope (created_envelope (inbox_request [97] [98] Pending 5)) client_start)) [97] =
     Some (inbox_request [97] [98] Pending 5)"
proof -
  let ?q = "inbox_request [97] [98] Pending 5"
  have "?q \<in> set (fst (apply_sync_envelope (created_envelope ?q) client_start))"
    by (simp add: apply_sync_envelope_def created_envelope_def apply_request_update_def update_pending_tracking_def
        previous_pending_channel_def new_reducer_def inbox_request_def Let_def)
  then have "?q \<in> set (fst (apply_sync_envelope (created_envelope ?q) client_start)) \<and>
      snd (apply_sync_envelope (created_envelope ?q) client_start) = snd (apply_sync_envelope (created_envelope ?q) client_start) \<or>
      ?q \<in> set (fst (apply_snapshot [] None [] [] [] 0 client_start)) \<and>
      snd (apply_sync_envelope (created_envelope ?q) client_start) = snd (apply_snapshot [] None [] [] [] 0 client_start)"
    by simp
  from notified_once [OF start_reachable this] show ?thesis by (simp add: inbox_request_def)
qed

end
