(* ===== verification/Client_Api.thy ===== *)
theory Client_Api
  imports Client_State Decimal_Text
begin

text \<open>
  The HTTP interface of the client (nod-client-core api.rs): server addresses, one call per route, and
  the one function that sends a call, with its retries and the error it reports. The network and
  the web server behind it are an argument, \<open>answers k\<close> being what happens to attempt \<open>k\<close>; so are
  the URL crate (parsing, percent-encoding of a path segment and of a query) and the JSON reader.
\<close>

section \<open>Addresses\<close>

definition trim_start_of :: "nat \<Rightarrow> rstr \<Rightarrow> rstr" where
  "trim_start_of c s = dropWhile (\<lambda>x. x = c) s"

definition trim_end_of :: "nat \<Rightarrow> rstr \<Rightarrow> rstr" where
  "trim_end_of c s = rev (dropWhile (\<lambda>x. x = c) (rev s))"

fun contains_text :: "rstr \<Rightarrow> rstr \<Rightarrow> bool" where
  "contains_text p [] \<longleftrightarrow> p = []"
| "contains_text p (c # s) \<longleftrightarrow> take (length p) (c # s) = p \<or> contains_text p s"

definition normalize_base_url :: "rstr \<Rightarrow> rstr" where
  "normalize_base_url value =
     (let trimmed = trim_end_of 47 (trim value) in
      if contains_text (lit ''://'') trimmed then trimmed
      else if trimmed = lit ''localhost'' \<or> starts_with trimmed (lit ''localhost:'') \<or>
         starts_with trimmed (lit ''127.'') \<or> starts_with trimmed (lit ''192.168.'')
      then lit ''http://'' @ trimmed
      else lit ''https://'' @ trimmed)"

definition join_path :: "rstr \<Rightarrow> rstr \<Rightarrow> rstr" where
  "join_path base path =
     (let base = trim_end_of 47 base; path = trim_start_of 47 path in
      case (base = [], path = []) of
        (True, True) \<Rightarrow> lit ''/''
      | (True, False) \<Rightarrow> lit ''/'' @ path
      | (False, True) \<Rightarrow> base
      | (False, False) \<Rightarrow> base @ lit ''/'' @ path)"

text \<open>\<open>defragmented\<close> is \<open>url.to_string()\<close> after \<open>set_fragment(None)\<close>.\<close>

definition profile_id_for :: "ext \<Rightarrow> (rstr \<Rightarrow> rstr option) \<Rightarrow> rstr \<Rightarrow> rstr" where
  "profile_id_for X defragmented base_url =
     (let normalized = normalize_base_url base_url;
          canonical = (case defragmented normalized of Some u \<Rightarrow> trim_end_of 47 u | None \<Rightarrow> normalized) in
      lit ''server-'' @ sha256_02x X (utf8 canonical))"

definition display_name_for :: "url_parser \<Rightarrow> rstr \<Rightarrow> rstr" where
  "display_name_for U base_url =
     (case U (normalize_base_url base_url) of
        None \<Rightarrow> lit ''Nod Server''
      | Some u \<Rightarrow>
          let name = (case ur_host u of Some h \<Rightarrow> h | None \<Rightarrow> lit ''Nod Server'');
              path = trim_start_of 47 (trim_end_of 47 (ur_path u)) in
          if path = [] then name else name @ lit ''/'' @ path)"

record nod_api =
  na_base :: url
  na_token :: "rstr option"

datatype client_error = Failure rstr | ApiStatus nat rstr | RegistrationRevoked

definition with_client :: "url_parser \<Rightarrow> rstr \<Rightarrow> rstr option \<Rightarrow> client_error + nod_api" where
  "with_client U base_url token =
     bind_res (ok_or (Failure (lit ''invalid URL'')) (U (normalize_base_url base_url))) (\<lambda>u.
     if ur_scheme u \<notin> {lit ''http'', lit ''https''} \<or> ur_host u = None
     then Inl (Failure (lit ''server address must be an absolute HTTP or HTTPS URL''))
     else Inr \<lparr>na_base = u, na_token = token\<rparr>)"

text \<open>
  \<open>set_scheme\<close>, \<open>set_path\<close> and \<open>set_query\<close> write the part; \<open>set_path\<close> also encodes characters that no path
  may hold, which the identifiers of the program do not contain.
\<close>

definition websocket_url :: "nod_api \<Rightarrow> url" where
  "websocket_url a =
     (na_base a)\<lparr>ur_scheme := (if ur_scheme (na_base a) = lit ''https'' then lit ''wss'' else lit ''ws''),
       ur_path := join_path (ur_path (na_base a)) (lit ''/api/v1/sync''), ur_query := None\<rparr>"

definition websocket_authorization :: "nod_api \<Rightarrow> client_error + rstr" where
  "websocket_authorization a =
     (case na_token a of Some t \<Rightarrow> Inr (lit ''Bearer '' @ t) | None \<Rightarrow> Inl (Failure (lit ''device token is missing'')))"

definition api_url :: "nod_api \<Rightarrow> rstr \<Rightarrow> url" where
  "api_url a path =
     (let (path_part, query_part) = (case split_once 63 path of Some pq \<Rightarrow> pq | None \<Rightarrow> (path, [])) in
      (na_base a)\<lparr>ur_path := join_path (ur_path (na_base a)) path_part,
        ur_query := (if query_part = [] then None else Some query_part)\<rparr>)"

section \<open>Sending a call\<close>

datatype http_method = GET | POST | PUT | DELETE

datatype request_auth = Anonymous | DeviceToken

datatype attempt = TimedOut | TransportFailed | Response nat "byte list option"
  \<comment> \<open>status and body; \<open>None\<close>: the body was interrupted\<close>

record api_status_error =
  ae_status :: nat
  ae_method :: http_method
  ae_path :: rstr
  ae_attempts :: nat
  ae_detail :: rstr

definition http_status :: "http_method \<Rightarrow> rstr \<Rightarrow> nat \<Rightarrow> nat \<Rightarrow> api_status_error" where
  "http_status m path status attempts =
     \<lparr>ae_status = status, ae_method = m, ae_path = hd (split_on 63 path), ae_attempts = attempts,
      ae_detail = lit ''server returned an unsuccessful response''\<rparr>"

definition failure :: "http_method \<Rightarrow> rstr \<Rightarrow> nat \<Rightarrow> string \<Rightarrow> api_status_error" where
  "failure m path attempts detail = (http_status m path 500 attempts)\<lparr>ae_detail := lit detail\<rparr>"

definition is_success :: "nat \<Rightarrow> bool" where
  "is_success status \<longleftrightarrow> 200 \<le> status \<and> status < 300"

text \<open>The loop: the result, and how many attempts were sent.\<close>

function send_loop ::
  "http_method \<Rightarrow> rstr \<Rightarrow> (nat \<Rightarrow> attempt) \<Rightarrow> nat \<Rightarrow> (api_status_error + byte list option) \<times> nat" where
  "send_loop m path answers sent =
     (let attempts = sent + 1 in
      case answers attempts of
        TimedOut \<Rightarrow> (Inl (failure m path attempts ''request timed out''), attempts)
      | TransportFailed \<Rightarrow> (Inl (failure m path attempts ''transport failed''), attempts)
      | Response status body \<Rightarrow>
          if m = GET \<and> attempts < 3 \<and> status \<in> {502, 503, 504} then send_loop m path answers attempts
          else if \<not> is_success status then (Inl (http_status m path status attempts), attempts)
          else (Inr body, attempts))"
  by pat_completeness auto
termination by (relation "measure (\<lambda>(m, path, answers, sent). 3 - sent)") auto

declare send_loop.simps [simp del]

text \<open>\<open>decode None\<close> reads the empty object, \<open>decode (Some b)\<close> the body.\<close>

definition api_request ::
  "nod_api \<Rightarrow> http_method \<Rightarrow> rstr \<Rightarrow> request_auth \<Rightarrow> (byte list option \<Rightarrow> 'a option) \<Rightarrow> (nat \<Rightarrow> attempt) \<Rightarrow>
   (api_status_error + 'a) \<times> nat" where
  "api_request a m path auth decode answers =
     (if auth = DeviceToken \<and> na_token a = None
      then (Inl (failure m path 1 ''device token is missing''), 0)
      else
        let (result, attempts) = send_loop m path answers 0 in
        (bind_res result (\<lambda>body.
         bind_res (ok_or (failure m path attempts ''response interrupted'') body) (\<lambda>bytes.
         if bytes = [] then ok_or (failure m path attempts ''invalid empty response'') (decode None)
         else ok_or (failure m path attempts ''invalid JSON response'') (decode (Some bytes)))), attempts))"

section \<open>The calls\<close>

record device_signing_key =
  dk_key_id :: rstr
  dk_algorithm :: rstr
  dk_public_key :: rstr

record enroll_request =
  eq_code :: rstr
  eq_device_name :: rstr
  eq_platform :: device_platform
  eq_native_app_id :: "rstr option"
  eq_push_provider :: "rstr option"
  eq_push_token :: "rstr option"
  eq_signing_key :: "device_signing_key option"
  eq_attestation :: "json option"

record submission =
  sn_answer_value :: "answer_value option"
  sn_request_id :: rstr
  sn_option_id :: rstr
  sn_text :: "rstr option"
  sn_signature :: "decision_signature option"

record history_query =
  hq_channel_id :: "rstr option"
  hq_search :: "rstr option"
  hq_before :: "rstr option"
  hq_limit :: "nat option"

datatype api_call =
    Enroll enroll_request
  | CurrentUser
  | ListDevices
  | RenameDevice rstr rstr
  | RevokeDevice rstr
  | ListChannels
  | ListRequests "rstr option" "nat option"
  | GetRequest rstr
  | QueryHistory history_query
  | SubmitOption submission
  | ClearChannel rstr
  | SetSubscription rstr bool
  | SetNotificationSound rstr
  | SetPreferences device_preferences
  | UpdatePushToken rstr rstr rstr

definition json_member :: "string \<Rightarrow> ('a \<Rightarrow> json) \<Rightarrow> 'a option \<Rightarrow> (rstr \<times> json) list" where
  \<comment> \<open>\<open>skip_serializing_if = "Option::is_none"\<close>\<close>
  "json_member k f v = (case v of None \<Rightarrow> [] | Some x \<Rightarrow> [(lit k, f x)])"

definition json_device_signing_key :: "device_signing_key \<Rightarrow> json" where
  "json_device_signing_key k = JObj [(lit ''key_id'', JStr (dk_key_id k)), (lit ''algorithm'', JStr (dk_algorithm k)),
     (lit ''public_key'', JStr (dk_public_key k))]"

definition json_enroll_request :: "enroll_request \<Rightarrow> json" where
  "json_enroll_request r = JObj ([(lit ''code'', JStr (eq_code r)), (lit ''device_name'', JStr (eq_device_name r)),
     (lit ''platform'', JStr (device_platform_str (eq_platform r)))] @
     json_member ''native_app_id'' JStr (eq_native_app_id r) @ json_member ''push_provider'' JStr (eq_push_provider r) @
     json_member ''push_token'' JStr (eq_push_token r) @ json_member ''signing_key'' json_device_signing_key (eq_signing_key r) @
     json_member ''attestation'' (\<lambda>v. v) (eq_attestation r))"

definition json_decision_signature :: "decision_signature \<Rightarrow> json" where
  "json_decision_signature g = JObj (json_member ''payload_version'' JStr (ds_payload_version g) @
     [(lit ''key_id'', JStr (ds_key_id g)), (lit ''algorithm'', JStr (ds_algorithm g)), (lit ''nonce'', JStr (ds_nonce g)),
      (lit ''signed_at'', JStr (ds_signed_at g)), (lit ''request_digest'', JStr (ds_request_digest g)),
      (lit ''signature'', JStr (ds_signature g))])"

definition json_submission :: "submission \<Rightarrow> json" where
  "json_submission b = JObj (json_member ''answer_value'' json_answer_value (sn_answer_value b) @
     json_member ''text'' JStr (sn_text b) @ json_member ''signature'' json_decision_signature (sn_signature b))"

definition json_preferences :: "ext \<Rightarrow> device_preferences \<Rightarrow> json" where
  "json_preferences X p = JObj [(lit ''hide_content'', JBool (dp_hide_content p)),
     (lit ''muted_channels'', JArr (map JStr (dp_muted_channels p))),
     (lit ''snoozed_until'', json_opt (\<lambda>t. JStr (x_fmt_serde X t)) (dp_snoozed_until p))]"

record url_ext =
  ux_segment :: "rstr \<Rightarrow> rstr"
    \<comment> \<open>a path segment as \<open>path_segments_mut().push\<close> encodes it\<close>
  ux_form :: "(rstr \<times> rstr) list \<Rightarrow> rstr"
    \<comment> \<open>\<open>form_urlencoded\<close>\<close>

definition requests_path :: "url_ext \<Rightarrow> rstr option \<Rightarrow> nat option \<Rightarrow> rstr" where
  "requests_path V channel limit =
     lit ''/api/v1/requests?'' @ ux_form V ([(lit ''include_cleared'', lit ''false'')] @
       (case channel of Some c \<Rightarrow> [(lit ''channel_id'', c)] | None \<Rightarrow> []) @
       (case limit of Some n \<Rightarrow> [(lit ''limit'', show_nat n)] | None \<Rightarrow> []))"

definition history_path :: "url_ext \<Rightarrow> history_query \<Rightarrow> rstr" where
  "history_path V h =
     (let pair = (\<lambda>(k, v). case v of Some x \<Rightarrow> [(lit k, x)] | None \<Rightarrow> []);
          limit = (case hq_limit h of Some n \<Rightarrow> n | None \<Rightarrow> 100) in
      lit ''/api/v1/requests?'' @ ux_form V ([(lit ''include_cleared'', lit ''true'')] @
        concat (map pair [(''channel_id'', hq_channel_id h), (''search'', hq_search h), (''before'', hq_before h)]) @
        [(lit ''limit'', show_nat (if limit < 1 then 1 else if limit > 500 then 500 else limit))]))"

definition call_method :: "api_call \<Rightarrow> http_method" where
  "call_method c = (case c of
      Enroll _ \<Rightarrow> POST | RenameDevice _ _ \<Rightarrow> PUT | RevokeDevice _ \<Rightarrow> DELETE | SubmitOption _ \<Rightarrow> POST
    | ClearChannel _ \<Rightarrow> POST | SetSubscription _ _ \<Rightarrow> PUT | SetNotificationSound _ \<Rightarrow> PUT
    | SetPreferences _ \<Rightarrow> PUT | UpdatePushToken _ _ _ \<Rightarrow> PUT | _ \<Rightarrow> GET)"

definition call_path :: "url_ext \<Rightarrow> api_call \<Rightarrow> rstr" where
  "call_path V c = (case c of
      Enroll _ \<Rightarrow> lit ''/api/v1/enroll''
    | CurrentUser \<Rightarrow> lit ''/api/v1/users/me''
    | ListDevices \<Rightarrow> lit ''/api/v1/users/me/devices''
    | RenameDevice i _ \<Rightarrow> lit ''/api/v1/users/me/devices/'' @ i
    | RevokeDevice i \<Rightarrow> lit ''/api/v1/users/me/devices/'' @ i
    | ListChannels \<Rightarrow> lit ''/api/v1/channels''
    | ListRequests ch n \<Rightarrow> requests_path V ch n
    | GetRequest i \<Rightarrow> lit ''/api/v1/requests/'' @ ux_segment V i
    | QueryHistory h \<Rightarrow> history_path V h
    | SubmitOption b \<Rightarrow> lit ''/api/v1/requests/'' @ sn_request_id b @ lit ''/options/'' @ sn_option_id b
    | ClearChannel i \<Rightarrow> lit ''/api/v1/devices/me/channels/'' @ i @ lit ''/clear''
    | SetSubscription i _ \<Rightarrow> lit ''/api/v1/devices/me/subscriptions/'' @ i
    | SetNotificationSound _ \<Rightarrow> lit ''/api/v1/devices/me/preferences''
    | SetPreferences _ \<Rightarrow> lit ''/api/v1/devices/me/notification-preferences''
    | UpdatePushToken _ _ _ \<Rightarrow> lit ''/api/v1/devices/me/push-token'')"

definition call_body :: "ext \<Rightarrow> api_call \<Rightarrow> json option" where
  "call_body X c = (case c of
      Enroll r \<Rightarrow> Some (json_enroll_request r)
    | RenameDevice _ name \<Rightarrow> Some (JObj [(lit ''name'', JStr name)])
    | SubmitOption b \<Rightarrow> Some (json_submission b)
    | SetSubscription _ b \<Rightarrow> Some (JObj [(lit ''subscribed'', JBool b)])
    | SetNotificationSound v \<Rightarrow> Some (JObj [(lit ''notification_sound'', JStr v)])
    | SetPreferences p \<Rightarrow> Some (json_preferences X p)
    | UpdatePushToken p n t \<Rightarrow>
        Some (JObj [(lit ''provider'', JStr p), (lit ''native_app_id'', JStr n), (lit ''token'', JStr t)])
    | _ \<Rightarrow> None)"

definition call_auth :: "api_call \<Rightarrow> request_auth" where
  "call_auth c = (case c of Enroll _ \<Rightarrow> Anonymous | _ \<Rightarrow> DeviceToken)"

definition perform :: "url_ext \<Rightarrow> nod_api \<Rightarrow> api_call \<Rightarrow> (byte list option \<Rightarrow> 'a option) \<Rightarrow> (nat \<Rightarrow> attempt) \<Rightarrow>
   (api_status_error + 'a) \<times> nat" where
  "perform V a c decode answers = api_request a (call_method c) (call_path V c) (call_auth c) decode answers"

section \<open>What is sent\<close>

text \<open>The reference: an answer either calls for a retry, or concludes the call.\<close>

definition retried :: "http_method \<Rightarrow> nat \<Rightarrow> attempt \<Rightarrow> bool" where
  "retried m n a \<longleftrightarrow> m = GET \<and> n < 3 \<and> (case a of Response st _ \<Rightarrow> st \<in> {502, 503, 504} | _ \<Rightarrow> False)"

definition conclusion :: "http_method \<Rightarrow> rstr \<Rightarrow> nat \<Rightarrow> attempt \<Rightarrow> api_status_error + byte list option" where
  "conclusion m path n a = (case a of
      TimedOut \<Rightarrow> Inl (failure m path n ''request timed out'')
    | TransportFailed \<Rightarrow> Inl (failure m path n ''transport failed'')
    | Response st body \<Rightarrow> if is_success st then Inr body else Inl (http_status m path st n))"

lemma retried_status: "retried m k a \<Longrightarrow> \<exists>st b. a = Response st b \<and> st \<in> {502, 503, 504}"
  by (auto simp: retried_def split: attempt.splits)

lemma send_loop_unfold:
  "send_loop m path answers sent =
     (if retried m (Suc sent) (answers (Suc sent)) then send_loop m path answers (Suc sent)
      else (conclusion m path (Suc sent) (answers (Suc sent)), Suc sent))"
  by (subst send_loop.simps) (auto simp: Let_def retried_def conclusion_def split: attempt.split)

lemma send_loop_concludes:
  "\<exists>n > sent. send_loop m path answers sent = (conclusion m path n (answers n), n) \<and>
     \<not> retried m n (answers n) \<and> (\<forall>k. sent < k \<and> k < n \<longrightarrow> retried m k (answers k))"
proof (induction m path answers sent rule: send_loop.induct)
  case (1 m path answers sent)
  show ?case
  proof (cases "retried m (Suc sent) (answers (Suc sent))")
    case True
    then obtain st b where a: "answers (sent + 1) = Response st b"
      and c: "m = GET \<and> sent + 1 < 3 \<and> st \<in> {502, 503, 504}"
      by (auto simp: retried_def split: attempt.splits)
    from 1 [OF refl a c] obtain n where n: "sent + 1 < n"
      "send_loop m path answers (sent + 1) = (conclusion m path n (answers n), n)" "\<not> retried m n (answers n)"
      "\<forall>k. sent + 1 < k \<and> k < n \<longrightarrow> retried m k (answers k)"
      by blast
    have "\<forall>k. sent < k \<and> k < n \<longrightarrow> retried m k (answers k)"
      using n(4) True by (metis Suc_eq_plus1 Suc_lessI)
    with n True show ?thesis
      by (intro exI [of _ n]) (simp add: send_loop_unfold [of m path answers sent])
  next
    case False
    then show ?thesis
      by (intro exI [of _ "Suc sent"]) (auto simp: send_loop_unfold [of m path answers sent])
  qed
qed

lemma perform_bounds:
  "case perform V a c decode answers of (result, n) \<Rightarrow>
     n \<le> (if call_method c = GET then 3 else 1) \<and>
     (\<forall>k. 0 < k \<and> k < n \<longrightarrow> (\<exists>st b. answers k = Response st b \<and> st \<in> {502, 503, 504})) \<and>
     (n = 0 \<longleftrightarrow> call_auth c = DeviceToken \<and> na_token a = None) \<and>
     (\<forall>v. result = Inr v \<longrightarrow> (\<exists>st b. answers n = Response st (Some b) \<and> is_success st))"
proof -
  let ?m = "call_method c" and ?path = "call_path V c"
  obtain n where n: "0 < n" "send_loop ?m ?path answers 0 = (conclusion ?m ?path n (answers n), n)"
    "\<not> retried ?m n (answers n)" "\<forall>k. 0 < k \<and> k < n \<longrightarrow> retried ?m k (answers k)"
    using send_loop_concludes [of 0] by blast
  have few: "n \<le> (if ?m = GET then 3 else 1)"
  proof (rule ccontr)
    assume "\<not> n \<le> (if ?m = GET then 3 else 1)"
    with n(4) have "retried ?m (n - 1) (answers (n - 1))" by (auto split: if_splits)
    with \<open>\<not> n \<le> _\<close> show False by (auto simp: retried_def split: if_splits)
  qed
  have again: "\<exists>st b. answers k = Response st b \<and> st \<in> {502, 503, 504}" if "0 < k" "k < n" for k
    using n(4) that retried_status by blast
  have ok: "\<exists>st b. answers n = Response st (Some b) \<and> is_success st"
    if "conclusion ?m ?path n (answers n) = Inr (Some b)" for b
    using that by (auto simp: conclusion_def split: attempt.splits if_splits)
  show ?thesis
    using n(1) few again ok by (auto simp: perform_def api_request_def n(2) bind_res_Inr_iff)
qed

text \<open>
  A call that changes something (a decision, an enrollment, a revocation) is sent at most once,
  whatever the network answers; a GET at most three times, and again only after 502, 503 or 504. The
  result is what the last attempt concluded, and a device call without a token is never sent.
\<close>

theorem only_reads_are_repeated:
  "case perform V a c decode answers of (result, n) \<Rightarrow>
     n \<le> (if call_method c = GET then 3 else 1) \<and>
     (\<forall>k. 0 < k \<and> k < n \<longrightarrow> (\<exists>st b. answers k = Response st b \<and> st \<in> {502, 503, 504})) \<and>
     (n = 0 \<longleftrightarrow> call_auth c = DeviceToken \<and> na_token a = None) \<and>
     (\<forall>v. result = Inr v \<longrightarrow> (\<exists>st b. answers n = Response st (Some b) \<and> is_success st))"
  by (rule perform_bounds)

theorem only_reads_are_repeated_witness:
  "snd (perform \<lparr>ux_segment = (\<lambda>s. s), ux_form = (\<lambda>_. [])\<rparr>
     \<lparr>na_base = \<lparr>ur_scheme = lit ''https'', ur_host = None, ur_username = [], ur_password = None, ur_path = [],
        ur_query = None, ur_fragment = None, ur_origin = []\<rparr>, na_token = Some [116]\<rparr>
     (ClearChannel [97]) (\<lambda>_. Some ()) (\<lambda>_. Response 503 None)) = 1"
  using only_reads_are_repeated [where c = "ClearChannel [97]" and decode = "\<lambda>_. Some ()" and answers = "\<lambda>_. Response 503 None"
      and V = "\<lparr>ux_segment = (\<lambda>s. s), ux_form = (\<lambda>_. [])\<rparr>"
      and a = "\<lparr>na_base = \<lparr>ur_scheme = lit ''https'', ur_host = None, ur_username = [], ur_password = None, ur_path = [],
        ur_query = None, ur_fragment = None, ur_origin = []\<rparr>, na_token = Some [116]\<rparr>"]
  by (simp add: case_prod_beta call_method_def call_auth_def)

end
