(* ===== verification/Client_Signing.thy ===== *)
theory Client_Signing
  imports Client_Api
begin

text \<open>
  What a client signs (nod-client-core signing.rs and the key functions of nod-proto signing.rs). A
  \<open>DeviceSigner\<close> is the record of its four methods; the software key is one, a hardware key of the host
  another. \<open>key_ext\<close> is the part of the p256 crate that signs. The nonce (a fresh UUID) and the clock are
  arguments.
\<close>

section \<open>Signers\<close>

record key_ext =
  kx_secret_ok :: "byte list \<Rightarrow> bool"
    \<comment> \<open>\<open>SigningKey::from_slice\<close>\<close>
  kx_public :: "byte list \<Rightarrow> byte list"
    \<comment> \<open>the uncompressed point\<close>
  kx_sign :: "byte list \<Rightarrow> byte list \<Rightarrow> byte list"
    \<comment> \<open>the DER signature\<close>

record device_signer =
  dg_key_id :: rstr
  dg_algorithm :: rstr
  dg_public_key :: "client_error + rstr"
  dg_sign :: "byte list \<Rightarrow> client_error + rstr"

record stored_signing_key =
  kk_key_id :: rstr
  kk_private_key :: rstr

definition of_signing :: "signing_error + 'a \<Rightarrow> client_error + 'a" where
  "of_signing m = map_err (\<lambda>e. Failure (signing_error_text e)) m"

definition of_text :: "rstr + 'a \<Rightarrow> client_error + 'a" where
  "of_text m = map_err Failure m"

definition decode_signing_key :: "key_ext \<Rightarrow> ext \<Rightarrow> rstr \<Rightarrow> signing_error + byte list" where
  "decode_signing_key K X private_key =
     bind_res (ok_or InvalidPrivateKey (x_b64_decode X private_key)) (\<lambda>bytes.
     if kx_secret_ok K bytes then Inr bytes else Inl InvalidPrivateKey)"

definition encode_public_key :: "key_ext \<Rightarrow> ext \<Rightarrow> byte list \<Rightarrow> rstr" where
  "encode_public_key K X secret = x_b64_encode X (kx_public K secret)"

definition public_key_for :: "key_ext \<Rightarrow> ext \<Rightarrow> rstr \<Rightarrow> signing_error + rstr" where
  "public_key_for K X private_key =
     bind_res (decode_signing_key K X private_key) (\<lambda>secret. Inr (encode_public_key K X secret))"

definition sign_payload :: "key_ext \<Rightarrow> ext \<Rightarrow> rstr \<Rightarrow> byte list \<Rightarrow> signing_error + rstr" where
  "sign_payload K X private_key payload =
     bind_res (decode_signing_key K X private_key) (\<lambda>secret. Inr (x_b64_encode X (kx_sign K secret payload)))"

definition stored_signer :: "key_ext \<Rightarrow> ext \<Rightarrow> stored_signing_key \<Rightarrow> device_signer" where
  "stored_signer K X key =
     \<lparr>dg_key_id = kk_key_id key, dg_algorithm = DECISION_SIGNING_ALGORITHM,
      dg_public_key = of_signing (public_key_for K X (kk_private_key key)),
      dg_sign = (\<lambda>payload. of_signing (sign_payload K X (kk_private_key key) payload))\<rparr>"

definition generate_stored_key :: "ext \<Rightarrow> byte list \<Rightarrow> rstr \<Rightarrow> stored_signing_key" where
  \<comment> \<open>\<open>secret\<close>: the random key; \<open>key_id\<close>: the fresh UUID\<close>
  "generate_stored_key X secret key_id = \<lparr>kk_key_id = key_id, kk_private_key = x_b64_encode X secret\<rparr>"

definition device_signing_key_of :: "device_signer \<Rightarrow> client_error + device_signing_key" where
  "device_signing_key_of signer =
     bind_res (dg_public_key signer) (\<lambda>key.
     Inr \<lparr>dk_key_id = dg_key_id signer, dk_algorithm = dg_algorithm signer, dk_public_key = key\<rparr>)"

record foreign_key =
  fk_key_id :: rstr
  fk_public_key :: rstr

definition foreign_device_signer ::
  "(rstr \<Rightarrow> byte list \<Rightarrow> client_error + rstr) \<Rightarrow> rstr \<Rightarrow> foreign_key \<Rightarrow> device_signer" where
  "foreign_device_signer sign profile_id key =
     \<lparr>dg_key_id = fk_key_id key, dg_algorithm = DECISION_SIGNING_ALGORITHM, dg_public_key = Inr (fk_public_key key),
      dg_sign = sign profile_id\<rparr>"

section \<open>The decision signature\<close>

definition REQUEST_CHANGED_ERROR :: rstr where
  "REQUEST_CHANGED_ERROR = lit ''Request changed. Review it again before answering.''"

definition asserted_request_digest :: "request \<Rightarrow> rstr option" where
  "asserted_request_digest q =
     (case q_signing q of Some context \<Rightarrow> Some (sc_digest context) | None \<Rightarrow> q_request_digest q)"

definition implicit_dismiss_option_id :: rstr where
  "implicit_dismiss_option_id = lit ''dismiss''"

definition option_for :: "request \<Rightarrow> rstr \<Rightarrow> client_error + rstr \<times> option_kind" where
  "option_for q option_id =
     (case find (\<lambda>p. o_id p = option_id) (q_options q) of
        Some p \<Rightarrow> Inr (o_id p, o_kind p)
      | None \<Rightarrow>
          if q_answer_field q = None \<and> option_id = implicit_dismiss_option_id \<and> q_options q = []
          then Inr (implicit_dismiss_option_id, Dismiss)
          else Inl (Failure (lit ''option '' @ option_id @ lit '' is not available for '' @ q_id q)))"

definition check_answer :: "ext \<Rightarrow> request \<Rightarrow> answer_value option \<Rightarrow> client_error + unit" where
  "check_answer X q answer =
     (case q_answer_field q of
        Some field \<Rightarrow>
          bind_res (of_text (validate_field X field)) (\<lambda>_.
          bind_res (ok_or (Failure (lit ''explicit answer_value required'')) answer) (\<lambda>a.
          of_text (validate_value field a)))
      | None \<Rightarrow>
          if answer \<noteq> None then Inl (Failure (lit ''ordinary request does not accept answer_value'')) else Inr ())"

text \<open>The digest the copy asserts, and the one recomputed from its content.\<close>

definition reproduced_digest :: "ext \<Rightarrow> request \<Rightarrow> client_error + rstr \<times> rstr" where
  "reproduced_digest X q =
     (case q_signing q of
        Some context \<Rightarrow>
          bind_res (of_signing
            (case q_answer_field q of
               Some field \<Rightarrow> value_request_digest_for_version X q (sc_version context) (sc_commitment context) field
             | None \<Rightarrow> request_digest_for_version X q (sc_version context) (sc_commitment context))) (\<lambda>recomputed.
          case recomputed of
            Some d \<Rightarrow> Inr (sc_digest context, d)
          | None \<Rightarrow> Inl (Failure (lit ''unsupported request signing version: '' @ sc_version context)))
      | None \<Rightarrow>
          bind_res (ok_or (Failure (lit ''request digest is missing for '' @ q_id q)) (q_request_digest q)) (\<lambda>asserted.
          bind_res (of_signing (request_digest_legacy_line_snapshot X q)) (\<lambda>d. Inr (asserted, d))))"

record signing_request =
  sq_request :: request
  sq_option_id :: rstr
  sq_text :: "rstr option"
  sq_user_id :: rstr
  sq_device_id :: rstr

definition client_input ::
  "ext \<Rightarrow> device_signer \<Rightarrow> signing_request \<Rightarrow> rstr \<Rightarrow> rstr \<times> option_kind \<Rightarrow> rstr \<Rightarrow> instant \<Rightarrow> signing_input" where
  "client_input X signer r digest opt nonce now =
     \<lparr>i_request_id = q_id (sq_request r), i_request_digest = digest, i_option_id = fst opt,
      i_option_kind = snd opt, i_user_id = sq_user_id r, i_device_id = sq_device_id r,
      i_key_id = dg_key_id signer, i_nonce = nonce, i_signed_at = x_fmt_millis X now,
      i_text = trimmed_text (sq_text r)\<rparr>"

definition client_payload :: "ext \<Rightarrow> signing_input \<Rightarrow> answer_value option \<Rightarrow> client_error + rstr" where
  "client_payload X i answer =
     (case answer of Some a \<Rightarrow> of_signing (decision_signing_payload_v2 X i a)
      | None \<Rightarrow> Inr (decision_signing_payload X i))"

definition build_value_decision_signature ::
  "ext \<Rightarrow> device_signer \<Rightarrow> signing_request \<Rightarrow> answer_value option \<Rightarrow> rstr option \<Rightarrow> rstr \<Rightarrow> instant \<Rightarrow>
   client_error + decision_signature" where
  "build_value_decision_signature X signer r answer expected nonce now =
     bind_res (check_answer X (sq_request r) answer) (\<lambda>_.
     bind_res (reproduced_digest X (sq_request r)) (\<lambda>(request_digest, recomputed).
     if expected = None \<or> expected = Some [] \<or> expected \<noteq> Some request_digest
     then Inl (Failure REQUEST_CHANGED_ERROR)
     else if recomputed \<noteq> request_digest
     then Inl (Failure (lit ''request digest does not match request content for '' @ q_id (sq_request r)))
     else bind_res (option_for (sq_request r) (sq_option_id r)) (\<lambda>opt.
     bind_res (client_payload X (client_input X signer r request_digest opt nonce now) answer) (\<lambda>payload.
     bind_res (dg_sign signer (utf8 payload)) (\<lambda>signature.
     Inr \<lparr>ds_payload_version = map_option (\<lambda>_. VALUE_DECISION_PAYLOAD_VERSION) answer,
          ds_key_id = dg_key_id signer, ds_algorithm = dg_algorithm signer, ds_nonce = nonce,
          ds_signed_at = x_fmt_millis X now, ds_request_digest = request_digest, ds_signature = signature\<rparr>)))))"

definition build_decision_signature ::
  "ext \<Rightarrow> device_signer \<Rightarrow> signing_request \<Rightarrow> rstr \<Rightarrow> instant \<Rightarrow> client_error + decision_signature" where
  "build_decision_signature X signer r nonce now =
     build_value_decision_signature X signer r None (asserted_request_digest (sq_request r)) nonce now"

end
