(* ===== verification/Client_Store.thy ===== *)
theory Client_Store
  imports Client_Signing
begin

text \<open>
  The client's configuration file (nod-client-core store.rs, with the start-up code of runtime.rs). Several
  programs of one user share the file: a save reads what is on disk, merges its own changes since the last
  load into it, and replaces the file atomically, with a backup of the previous content. Credentials
  live in the system's key ring, or in the file when configured so.

  \<^item> A file is absent, unreadable, or its bytes. The JSON reader and printer of the configuration are the record
    \<open>config_codec\<close>; \<open>codec_ok\<close> is their round trip.
  \<^item> A save can be interrupted by an I/O error at every step: \<open>save_fault\<close> names the step, and what a failed
    copy left in the backup.
  \<^item> The lock file excludes other saves; the key ring is a map whose writes may be refused.
\<close>

section \<open>The configuration\<close>

record client_config =
  cg_servers :: "server_profile list"
  cg_selected :: "rstr option"
  cg_sound :: rstr
  cg_tokens :: "rstr omap"
  cg_keys :: "stored_signing_key omap"

definition default_notification_sound :: rstr where
  "default_notification_sound = lit ''default''"

definition default_config :: client_config where
  "default_config = \<lparr>cg_servers = [], cg_selected = None, cg_sound = default_notification_sound,
     cg_tokens = [], cg_keys = []\<rparr>"

text \<open>The second loop of \<open>merge_map\<close> and of \<open>merge_config\<close> writes what differs from the base.\<close>

definition merge_map :: "'v omap \<Rightarrow> 'v omap \<Rightarrow> 'v omap \<Rightarrow> 'v omap" where
  "merge_map base ours disk =
     (let disk = fold om_del (filter (\<lambda>k. om_get ours k = None) (om_keys base)) disk in
      fold (\<lambda>(k, v) d. if om_get base k \<noteq> Some v then om_put k v d else d) ours disk)"

definition find_profile :: "server_profile list \<Rightarrow> rstr \<Rightarrow> server_profile option" where
  "find_profile ps i = find (\<lambda>p. sp_id p = i) ps"

definition without_profile :: "rstr \<Rightarrow> server_profile list \<Rightarrow> server_profile list" where
  "without_profile i ps = filter (\<lambda>p. sp_id p \<noteq> i) ps"

definition merge_servers ::
  "server_profile list \<Rightarrow> server_profile list \<Rightarrow> server_profile list \<Rightarrow> server_profile list" where
  "merge_servers base ours disk =
     (let removed = filter (\<lambda>p. \<not> list_ex (\<lambda>c. sp_id c = sp_id p) ours) base;
          disk = fold (\<lambda>p. without_profile (sp_id p)) removed disk in
      fold (\<lambda>p d. if find_profile base (sp_id p) = Some p then d else without_profile (sp_id p) d @ [p]) ours disk)"

definition merge_config :: "client_config \<Rightarrow> client_config \<Rightarrow> client_config \<Rightarrow> client_config" where
  "merge_config base ours disk =
     disk\<lparr>cg_servers := merge_servers (cg_servers base) (cg_servers ours) (cg_servers disk),
       cg_selected := (if cg_selected ours \<noteq> cg_selected base then cg_selected ours else cg_selected disk),
       cg_sound := (if cg_sound ours \<noteq> cg_sound base then cg_sound ours else cg_sound disk),
       cg_tokens := merge_map (cg_tokens base) (cg_tokens ours) (cg_tokens disk),
       cg_keys := merge_map (cg_keys base) (cg_keys ours) (cg_keys disk)\<rparr>"

section \<open>The file\<close>

datatype file_state = Absent | Unreadable | Bytes "byte list"

record config_codec =
  co_parse :: "byte list \<Rightarrow> client_config option"
  co_print :: "client_config \<Rightarrow> byte list"

definition codec_ok :: "config_codec \<Rightarrow> bool" where
  "codec_ok C \<longleftrightarrow> (\<forall>c. co_parse C (co_print C c) = Some c)"

record config_files =
  fs_main :: file_state
  fs_backup :: file_state

record store_state =
  st_path :: rstr
  st_backup_path :: rstr
  st_use_config_file :: bool
  st_baseline :: client_config
  st_recovery_warning :: "rstr option"

definition new_store :: "rstr \<Rightarrow> rstr \<Rightarrow> bool \<Rightarrow> store_state" where
  "new_store path backup insecure = \<lparr>st_path = path, st_backup_path = backup, st_use_config_file = insecure,
     st_baseline = default_config, st_recovery_warning = None\<rparr>"

definition read_config :: "config_codec \<Rightarrow> rstr \<Rightarrow> file_state \<Rightarrow> rstr + client_config" where
  "read_config C path f =
     (case f of
        Bytes raw \<Rightarrow> ok_or (lit ''parse '' @ path) (co_parse C raw)
      | Absent \<Rightarrow> Inr default_config
      | Unreadable \<Rightarrow> Inl (lit ''read '' @ path))"

definition store_load :: "config_codec \<Rightarrow> config_files \<Rightarrow> store_state \<Rightarrow> (rstr + client_config) \<times> store_state" where
  "store_load C fs st =
     (case read_config C (st_path st) (fs_main fs) of
        Inr config \<Rightarrow> (Inr config, st\<lparr>st_baseline := config\<rparr>)
      | Inl error \<Rightarrow>
          if fs_backup fs = Absent then (Inl error, st)
          else case read_config C (st_backup_path st) (fs_backup fs) of
            Inl _ \<Rightarrow> (Inl (lit ''configuration and recovery copy are unreadable''), st)
          | Inr config \<Rightarrow>
              (Inr config, st\<lparr>st_recovery_warning := Some (lit ''Recovered configuration from '' @ st_backup_path st @
                 lit ''. Original: '' @ error), st_baseline := config\<rparr>))"

datatype save_fault = NoFault | DirectoryFails rstr | LockFails | TemporaryFails | CopyFails file_state | RestrictFails
  | RenameFails | SyncFails

definition replace_file :: "bool \<Rightarrow> byte list \<Rightarrow> save_fault \<Rightarrow> config_files \<Rightarrow> bool \<times> config_files" where
  \<comment> \<open>the steps after the lock; whether they all succeeded, and the files they leave\<close>
  "replace_file recovered raw fault fs =
     (if fault = TemporaryFails then (False, fs)
      else
        let backed_up = fs_main fs \<noteq> Absent \<and> \<not> recovered in
        case (backed_up, fault) of
          (True, CopyFails left) \<Rightarrow> (False, fs\<lparr>fs_backup := left\<rparr>)
        | _ \<Rightarrow>
          let fs = (if backed_up then fs\<lparr>fs_backup := fs_main fs\<rparr> else fs) in
          if backed_up \<and> fault = RestrictFails then (False, fs)
          else if fault = RenameFails then (False, fs)
          else (fault \<noteq> SyncFails, fs\<lparr>fs_main := Bytes raw\<rparr>))"

definition save_locked ::
  "config_codec \<Rightarrow> client_config \<Rightarrow> save_fault \<Rightarrow> config_files \<Rightarrow> store_state \<Rightarrow> (rstr + unit) \<times> config_files \<times> store_state" where
  "save_locked C config fault fs st =
     (case fault of
        DirectoryFails e \<Rightarrow> (Inl e, fs, st)
      | LockFails \<Rightarrow> (Inl (lit ''lock client configuration''), fs, st)
      | _ \<Rightarrow>
        let on_disk = (case read_config C (st_path st) (fs_main fs) of
               Inr c \<Rightarrow> Inr c
             | Inl error \<Rightarrow>
                 if st_recovery_warning st \<noteq> None then read_config C (st_backup_path st) (fs_backup fs) else Inl error) in
        case on_disk of
          Inl error \<Rightarrow> (Inl error, fs, st)
        | Inr disk \<Rightarrow>
            let merged = merge_config (st_baseline st) config disk;
                (ok, fs) = replace_file (st_recovery_warning st \<noteq> None) (co_print C merged) fault fs in
            if ok then (Inr (), fs, st\<lparr>st_baseline := config\<rparr>)
            else (Inl (lit ''write '' @ st_path st), fs, st))"

definition remove_external_credentials :: "store_state \<Rightarrow> client_config \<Rightarrow> client_config" where
  "remove_external_credentials st config =
     (if st_use_config_file st then config else config\<lparr>cg_tokens := [], cg_keys := []\<rparr>)"

definition store_save ::
  "config_codec \<Rightarrow> client_config \<Rightarrow> save_fault \<Rightarrow> config_files \<Rightarrow> store_state \<Rightarrow> (rstr + unit) \<times> config_files \<times> store_state" where
  "store_save C config fault fs st = save_locked C (remove_external_credentials st config) fault fs st"

section \<open>Credentials\<close>

type_synonym keyring = "rstr \<rightharpoonup> rstr"

definition token_account :: "rstr \<Rightarrow> rstr" where
  "token_account server = lit ''serverToken.'' @ server"

definition signing_key_account :: "rstr \<Rightarrow> rstr" where
  "signing_key_account server = lit ''decisionSigningKey.'' @ server"

definition set_keyring_password :: "rstr option \<Rightarrow> rstr \<Rightarrow> rstr \<Rightarrow> keyring \<Rightarrow> rstr + keyring" where
  \<comment> \<open>\<open>refused\<close>: the key ring's error, if it refuses the entry\<close>
  "set_keyring_password refused account password kr =
     (case refused of None \<Rightarrow> Inr (kr(account \<mapsto> password)) | Some e \<Rightarrow> Inl e)"

definition save_token ::
  "store_state \<Rightarrow> rstr option \<Rightarrow> rstr \<Rightarrow> rstr \<Rightarrow> client_config \<times> keyring \<Rightarrow> rstr + client_config \<times> keyring" where
  "save_token st refused server token ck =
     (let (config, kr) = ck in
      if st_use_config_file st then Inr (config\<lparr>cg_tokens := om_put server token (cg_tokens config)\<rparr>, kr)
      else bind_res (set_keyring_password refused (token_account server) token kr) (\<lambda>kr. Inr (config, kr)))"

definition load_token :: "store_state \<Rightarrow> rstr \<Rightarrow> client_config \<times> keyring \<Rightarrow> rstr option" where
  "load_token st server ck =
     (if st_use_config_file st then om_get (cg_tokens (fst ck)) server else snd ck (token_account server))"

definition delete_token :: "store_state \<Rightarrow> rstr option \<Rightarrow> rstr \<Rightarrow> client_config \<times> keyring \<Rightarrow> client_config \<times> keyring" where
  "delete_token st refused server ck =
     (let (config, kr) = ck in
      (config\<lparr>cg_tokens := om_del server (cg_tokens config)\<rparr>,
       if \<not> st_use_config_file st \<and> refused = None then kr(token_account server := None) else kr))"

record key_codec =
  kc_parse :: "rstr \<Rightarrow> stored_signing_key option"
  kc_print :: "stored_signing_key \<Rightarrow> rstr"

definition save_signing_key ::
  "key_codec \<Rightarrow> store_state \<Rightarrow> rstr option \<Rightarrow> rstr \<Rightarrow> stored_signing_key \<Rightarrow> client_config \<times> keyring \<Rightarrow>
   rstr + client_config \<times> keyring" where
  "save_signing_key J st refused server key ck =
     (let (config, kr) = ck in
      if st_use_config_file st then Inr (config\<lparr>cg_keys := om_put server key (cg_keys config)\<rparr>, kr)
      else bind_res (set_keyring_password refused (signing_key_account server) (kc_print J key) kr)
        (\<lambda>kr. Inr (config, kr)))"

definition load_signing_key :: "key_codec \<Rightarrow> store_state \<Rightarrow> rstr \<Rightarrow> client_config \<times> keyring \<Rightarrow> stored_signing_key option" where
  "load_signing_key J st server ck =
     (if st_use_config_file st then om_get (cg_keys (fst ck)) server
      else Option.bind (snd ck (signing_key_account server)) (kc_parse J))"

definition delete_signing_key :: "store_state \<Rightarrow> rstr option \<Rightarrow> rstr \<Rightarrow> client_config \<times> keyring \<Rightarrow> client_config \<times> keyring" where
  "delete_signing_key st refused server ck =
     (let (config, kr) = ck in
      (config\<lparr>cg_keys := om_del server (cg_keys config)\<rparr>,
       if \<not> st_use_config_file st \<and> refused = None then kr(signing_key_account server := None) else kr))"

end
