(* ===== verification/Client_Runtime.thy ===== *)
theory Client_Runtime
  imports Client_Store
begin

text \<open>
  The process around the reducer (nod-client-core runtime.rs, runtime/session.rs, runtime/snapshot.rs): the
  configuration, the message channel to the user interface, the synchronisation task, and the snapshot of
  the server. An operation is a function on the record \<open>runtime\<close>; what it changed before a failure stays.

  \<^item> \<open>client_world\<close> is what the process meets: the parameters for third-party code, and, numbered by the effects the
    process performs, the answers of the network, the faults of disk and key ring, clock and random choices.
  \<^item> While an operation waits for the network, the synchronisation task may run: \<open>cw_meanwhile\<close> is what it does to
    the reducer, and the messages it sends. Without a running task nothing happens.
  \<^item> \<open>rn_log\<close> records every call given to the HTTP interface with the number of times it was sent.
\<close>

section \<open>Messages and responses\<close>

datatype client_message =
    ClientReady rstr
  | StateMessage client_state
  | NotificationCandidate rstr request
  | NotificationRemoved rstr rstr
  | SyncStatus bool
  | AuthRevoked
  | ResyncRequired
  | TransientError rstr

record enrolled_response =
  eo_device_id :: rstr
  eo_token :: rstr
  eo_channels :: "channel list"
  eo_user_id :: rstr
  eo_user_name :: rstr
  eo_devices :: "client_device list"
  eo_delivery :: notification_delivery

record current_user_response =
  cu_user :: user
  cu_current_device :: client_device
  cu_delivery :: notification_delivery

record requests_response =
  lr_requests :: "request list"
  lr_next_cursor :: "rstr option"

text \<open>The JSON readers, one per response type; \<open>None\<close> is an empty body, read as the empty object.\<close>

record response_decoders =
  dd_enroll :: "byte list option \<Rightarrow> enrolled_response option"
  dd_user :: "byte list option \<Rightarrow> current_user_response option"
  dd_devices :: "byte list option \<Rightarrow> client_device list option"
  dd_device :: "byte list option \<Rightarrow> client_device option"
  dd_channels :: "byte list option \<Rightarrow> channel list option"
  dd_requests :: "byte list option \<Rightarrow> requests_response option"
  dd_request :: "byte list option \<Rightarrow> request option"
  dd_value :: "byte list option \<Rightarrow> unit option"
  dd_envelope :: "byte list \<Rightarrow> client_envelope option"

section \<open>The process\<close>

record snapshot_context =
  sx_api :: nod_api
  sx_server_id :: rstr

text \<open>\<open>rn_sync\<close>: the synchronisation task with its context, and whether it has finished.\<close>

record runtime =
  rn_store :: store_state
  rn_files :: config_files
  rn_keyring :: keyring
  rn_persisted :: client_config
  rn_reducer :: reducer
  rn_out :: "client_message list"
  rn_sync :: "(snapshot_context \<times> bool) option"
  rn_log :: "(nod_api \<times> api_call \<times> nat) list"
  rn_tick :: nat

text \<open>A host-owned signing backend; its answers depend on when it is asked.\<close>

record foreign_signer =
  fb_provision :: "nat \<Rightarrow> rstr \<Rightarrow> client_error + foreign_key"
  fb_signing_key :: "nat \<Rightarrow> rstr \<Rightarrow> client_error + foreign_key option"
  fb_sign :: "nat \<Rightarrow> rstr \<Rightarrow> byte list \<Rightarrow> client_error + rstr"
  fb_remove :: "nat \<Rightarrow> rstr \<Rightarrow> client_error + unit"

datatype signer_backend = Software | Foreign foreign_signer

record client_world =
  cw_ext :: ext
  cw_keys :: key_ext
  cw_urls :: url_ext
  cw_parse_url :: url_parser
  cw_defragmented :: "rstr \<Rightarrow> rstr option"
  cw_status_text :: "nat \<Rightarrow> rstr"
    \<comment> \<open>how an HTTP status prints\<close>
  cw_codec :: config_codec
  cw_key_codec :: key_codec
  cw_decode :: response_decoders
  cw_backend :: signer_backend
  cw_platform :: device_platform
    \<comment> \<open>\<open>DevicePlatform::current_desktop\<close>\<close>
  cw_upper :: "rstr \<Rightarrow> rstr"
    \<comment> \<open>\<open>to_ascii_uppercase\<close>\<close>
  cw_attempt :: "nat \<Rightarrow> nat \<Rightarrow> attempt"
  cw_meanwhile :: "nat \<Rightarrow> reducer \<Rightarrow> reducer \<times> client_message list \<times> bool"
    \<comment> \<open>the reducer, the messages, whether the task ended\<close>
  cw_others :: "nat \<Rightarrow> config_files \<Rightarrow> config_files"
    \<comment> \<open>what other programs did to the configuration since\<close>
  cw_fault :: "nat \<Rightarrow> save_fault"
  cw_refused :: "nat \<Rightarrow> rstr option"
  cw_locked :: "nat \<Rightarrow> bool"
  cw_now :: "nat \<Rightarrow> instant"
  cw_stamp :: "nat \<Rightarrow> rstr"
    \<comment> \<open>\<open>now().to_rfc3339()\<close>\<close>
  cw_uuid :: "nat \<Rightarrow> rstr"
  cw_secret :: "nat \<Rightarrow> byte list"

section \<open>Operations\<close>

type_synonym 'a client_op = "runtime \<Rightarrow> (client_error + 'a) \<times> runtime"

definition pure_op :: "'a \<Rightarrow> 'a client_op" where
  "pure_op a st = (Inr a, st)"

definition lift_op :: "client_error + 'a \<Rightarrow> 'a client_op" where
  "lift_op r st = (r, st)"

definition bind_op :: "'a client_op \<Rightarrow> ('a \<Rightarrow> 'b client_op) \<Rightarrow> 'b client_op" where
  "bind_op m f st = (case m st of (Inl e, st') \<Rightarrow> (Inl e, st') | (Inr a, st') \<Rightarrow> f a st')"

definition read_op :: "(runtime \<Rightarrow> 'a) \<Rightarrow> 'a client_op" where
  "read_op f st = (Inr (f st), st)"

definition write_op :: "(runtime \<Rightarrow> runtime) \<Rightarrow> unit client_op" where
  "write_op f st = (Inr (), f st)"

text \<open>Goes on after a failure, with the result as a value.\<close>

definition try_op :: "'a client_op \<Rightarrow> (client_error + 'a) client_op" where
  "try_op m st = (case m st of (r, st') \<Rightarrow> (Inr r, st'))"

fun for_op :: "('a \<Rightarrow> unit client_op) \<Rightarrow> 'a list \<Rightarrow> unit client_op" where
  "for_op f [] = pure_op ()"
| "for_op f (x # xs) = bind_op (f x) (\<lambda>_. for_op f xs)"

definition tell :: "client_message \<Rightarrow> unit client_op" where
  "tell m = write_op (\<lambda>st. st\<lparr>rn_out := rn_out st @ [m]\<rparr>)"

definition next_tick :: "nat client_op" where
  "next_tick st = (Inr (rn_tick st), st\<lparr>rn_tick := rn_tick st + 1\<rparr>)"

definition on_reducer :: "(reducer \<Rightarrow> reducer) \<Rightarrow> unit client_op" where
  "on_reducer f = write_op (\<lambda>st. st\<lparr>rn_reducer := f (rn_reducer st)\<rparr>)"

definition step_reducer :: "(reducer \<Rightarrow> 'a \<times> reducer) \<Rightarrow> 'a client_op" where
  "step_reducer f st = (case f (rn_reducer st) of (a, r) \<Rightarrow> (Inr a, st\<lparr>rn_reducer := r\<rparr>))"

definition client_state_now :: "client_state client_op" where
  "client_state_now = read_op (\<lambda>st. re_state (rn_reducer st))"

definition emit_state :: "unit client_op" where
  "emit_state = bind_op client_state_now (\<lambda>s. tell (StateMessage s))"

definition emit_ready :: "unit client_op" where
  "emit_ready = bind_op (read_op (\<lambda>st. st_path (rn_store st))) (\<lambda>path. tell (ClientReady path))"

section \<open>Effects\<close>

definition method_text :: "http_method \<Rightarrow> rstr" where
  "method_text m = (case m of GET \<Rightarrow> lit ''GET'' | POST \<Rightarrow> lit ''POST'' | PUT \<Rightarrow> lit ''PUT'' | DELETE \<Rightarrow> lit ''DELETE'')"

definition api_failure :: "client_world \<Rightarrow> api_status_error \<Rightarrow> client_error" where
  "api_failure W e = ApiStatus (ae_status e) (lit ''Nod '' @ method_text (ae_method e) @ lit '' '' @ ae_path e @
     lit '' failed with '' @ cw_status_text W (ae_status e) @ lit '' ('' @ show_nat (ae_attempts e) @
     lit '' attempt(s)): '' @ ae_detail e)"

definition error_text :: "client_error \<Rightarrow> rstr" where
  "error_text e = (case e of Failure t \<Rightarrow> t | ApiStatus _ t \<Rightarrow> t
     | RegistrationRevoked \<Rightarrow> lit ''This device registration was revoked.'')"

definition meanwhile :: "client_world \<Rightarrow> nat \<Rightarrow> runtime \<Rightarrow> runtime" where
  "meanwhile W n st =
     (case rn_sync st of
        Some (ctx, False) \<Rightarrow>
          let (r, messages, ended) = cw_meanwhile W n (rn_reducer st) in
          st\<lparr>rn_reducer := r, rn_out := rn_out st @ messages, rn_sync := Some (ctx, ended)\<rparr>
      | _ \<Rightarrow> st)"

definition send_call ::
  "client_world \<Rightarrow> nod_api \<Rightarrow> api_call \<Rightarrow> (byte list option \<Rightarrow> 'a option) \<Rightarrow> 'a client_op" where
  "send_call W a c decode =
     bind_op next_tick (\<lambda>n.
     let (result, attempts) = perform (cw_urls W) a c decode (cw_attempt W n) in
     bind_op (write_op (\<lambda>st. st\<lparr>rn_log := rn_log st @ [(a, c, attempts)]\<rparr>)) (\<lambda>_.
     bind_op (write_op (meanwhile W n)) (\<lambda>_.
     lift_op (map_err (api_failure W) result))))"

definition save_persisted :: "client_world \<Rightarrow> unit client_op" where
  "save_persisted W =
     bind_op next_tick (\<lambda>n st.
     let (result, fs, store) =
       store_save (cw_codec W) (rn_persisted st) (cw_fault W n) (cw_others W n (rn_files st)) (rn_store st) in
     (map_err Failure result, st\<lparr>rn_files := fs, rn_store := store\<rparr>))"

definition on_credentials :: "client_world \<Rightarrow> (rstr option \<Rightarrow> store_state \<Rightarrow> client_config \<times> keyring \<Rightarrow>
    rstr + client_config \<times> keyring) \<Rightarrow> unit client_op" where
  "on_credentials W f =
     bind_op next_tick (\<lambda>n st.
     case f (cw_refused W n) (rn_store st) (rn_persisted st, rn_keyring st) of
       Inl e \<Rightarrow> (Inl (Failure e), st)
     | Inr (config, kr) \<Rightarrow> (Inr (), st\<lparr>rn_persisted := config, rn_keyring := kr\<rparr>))"

text \<open>A locked key ring reads as empty.\<close>

definition credentials_now :: "client_world \<Rightarrow> (store_state \<Rightarrow> client_config \<times> keyring \<Rightarrow> 'a) \<Rightarrow> 'a client_op" where
  "credentials_now W f =
     bind_op next_tick (\<lambda>n. read_op (\<lambda>st.
       f (rn_store st) (rn_persisted st, if cw_locked W n then Map.empty else rn_keyring st)))"

definition on_persisted :: "(client_config \<Rightarrow> client_config) \<Rightarrow> unit client_op" where
  "on_persisted f = write_op (\<lambda>st. st\<lparr>rn_persisted := f (rn_persisted st)\<rparr>)"

section \<open>Start\<close>

definition fill_notification_sound :: "client_config \<Rightarrow> client_config" where
  "fill_notification_sound c =
     (if trim (cg_sound c) = [] then c\<lparr>cg_sound := default_notification_sound\<rparr> else c)"

fun migrate_servers :: "(rstr \<Rightarrow> rstr) \<Rightarrow> server_profile list \<Rightarrow> rstr option \<Rightarrow> bool \<times> server_profile list \<times> rstr option" where
  "migrate_servers ident [] selected = (False, [], selected)"
| "migrate_servers ident (p # ps) selected =
     (let i = ident (sp_base_url p) in
      if sp_id p = i
      then let (changed, ps, selected) = migrate_servers ident ps selected in (changed, p # ps, selected)
      else
        let selected = (if selected = Some (sp_id p) then Some i else selected);
            p = p\<lparr>sp_credential_id := Some (credential_id p), sp_id := i\<rparr>;
            (_, ps, selected) = migrate_servers ident ps selected in
        (True, p # ps, selected))"

definition migrate_profile_ids :: "(rstr \<Rightarrow> rstr) \<Rightarrow> client_config \<Rightarrow> bool \<times> client_config" where
  "migrate_profile_ids ident c =
     (let (changed, servers, selected) = migrate_servers ident (cg_servers c) (cg_selected c) in
      (changed, c\<lparr>cg_servers := servers, cg_selected := selected\<rparr>))"

definition first_server :: "client_config \<Rightarrow> rstr option" where
  "first_server c = (case cg_servers c of p # _ \<Rightarrow> Some (sp_id p) | [] \<Rightarrow> None)"

definition selected_server_id_for :: "client_config \<Rightarrow> rstr option" where
  "selected_server_id_for c =
     (case cg_selected c of
        Some i \<Rightarrow> if list_ex (\<lambda>p. sp_id p = i) (cg_servers c) then Some i else first_server c
      | None \<Rightarrow> first_server c)"

definition ident_of :: "client_world \<Rightarrow> rstr \<Rightarrow> rstr" where
  "ident_of W = profile_id_for (cw_ext W) (cw_defragmented W)"

text \<open>\<open>with_store\<close>: the process of a new runtime, or why it does not start.\<close>

definition start_runtime :: "client_world \<Rightarrow> store_state \<Rightarrow> config_files \<Rightarrow> keyring \<Rightarrow> client_error + runtime" where
  "start_runtime W store fs kr =
     (let (loaded, store) = store_load (cw_codec W) fs store in
      bind_res (of_text loaded) (\<lambda>c.
      let (changed, c) = migrate_profile_ids (ident_of W) (fill_notification_sound c);
          selected = selected_server_id_for c;
          r = new_reducer (cg_servers c) selected (cg_sound c);
          r = (case st_recovery_warning store of Some w \<Rightarrow> set_error w r | None \<Rightarrow> r);
          st = \<lparr>rn_store = store, rn_files = fs, rn_keyring = kr, rn_persisted = c\<lparr>cg_selected := selected\<rparr>,
                rn_reducer = r, rn_out = [], rn_sync = None, rn_log = [], rn_tick = 0\<rparr> in
      if changed
      then let (saved, fs, store) = store_save (cw_codec W) c (cw_fault W 0) (cw_others W 0 fs) store in
        bind_res (of_text saved) (\<lambda>_. Inr (st\<lparr>rn_files := fs, rn_store := store, rn_tick := 1\<rparr>))
      else Inr st))"

section \<open>Session\<close>

definition api_for_profile :: "client_world \<Rightarrow> server_profile \<Rightarrow> nod_api client_op" where
  "api_for_profile W p =
     bind_op (credentials_now W (\<lambda>store. load_token store (credential_id p))) (\<lambda>token.
     lift_op (bind_res (ok_or (Failure (lit ''Device credentials are unavailable for '' @ sp_name p @
         lit ''. Unlock the credential store or enroll again.'')) token) (\<lambda>t.
       with_client (cw_parse_url W) (sp_base_url p) (Some t))))"

definition selected_server_profile :: "server_profile client_op" where
  "selected_server_profile =
     bind_op (read_op (\<lambda>st. selected_server (re_state (rn_reducer st))))
       (\<lambda>p. lift_op (ok_or (Failure (lit ''no selected server'')) p))"

definition selected_api :: "client_world \<Rightarrow> nod_api client_op" where
  "selected_api W = bind_op selected_server_profile (api_for_profile W)"

definition enrolled_profile :: "rstr \<Rightarrow> server_profile client_op" where
  "enrolled_profile i =
     bind_op (read_op (\<lambda>st. find (\<lambda>p. sp_id p = i \<or> sp_credential_id p = Some i) (cg_servers (rn_persisted st))))
       (\<lambda>p. lift_op (ok_or (Failure (lit ''This notification belongs to a server that is no longer enrolled.'')) p))"

definition snapshot_context_now :: "client_world \<Rightarrow> snapshot_context client_op" where
  "snapshot_context_now W =
     bind_op selected_server_profile (\<lambda>p.
     bind_op (api_for_profile W p) (\<lambda>a. pure_op \<lparr>sx_api = a, sx_server_id = sp_id p\<rparr>))"

definition device_signer_for :: "client_world \<Rightarrow> server_profile \<Rightarrow> device_signer option client_op" where
  "device_signer_for W p =
     (case cw_backend W of
        Software \<Rightarrow>
          bind_op (credentials_now W (\<lambda>store. load_signing_key (cw_key_codec W) store (credential_id p))) (\<lambda>key.
          pure_op (map_option (stored_signer (cw_keys W) (cw_ext W)) key))
      | Foreign b \<Rightarrow>
          bind_op next_tick (\<lambda>n.
          bind_op (lift_op (fb_signing_key b n (credential_id p))) (\<lambda>key.
          pure_op (map_option (foreign_device_signer (fb_sign b n) (credential_id p)) key))))"

record submit_params =
  su_answer :: "answer_value option"
  su_expected :: rstr
  su_request_id :: rstr
  su_option_id :: rstr
  su_text :: "rstr option"

definition decision_signature_for ::
  "client_world \<Rightarrow> server_profile \<Rightarrow> request \<Rightarrow> submit_params \<Rightarrow> decision_signature option client_op" where
  "decision_signature_for W p q o1 =
     bind_op (device_signer_for W p) (\<lambda>signer.
     bind_op (lift_op (ok_or (Failure (lit ''The device signing key is unavailable. Unlock the credential store or enroll again.'')) signer)) (\<lambda>signer.
     bind_op (lift_op (ok_or (Failure (lit ''server profile is missing user identity'')) (sp_user_id p))) (\<lambda>user.
     bind_op (lift_op (ok_or (Failure (lit ''server profile is missing device identity'')) (sp_device_id p))) (\<lambda>device.
     bind_op next_tick (\<lambda>n.
     lift_op (map_ok Some (build_value_decision_signature (cw_ext W) signer
       \<lparr>sq_request = q, sq_option_id = su_option_id o1, sq_text = su_text o1, sq_user_id = user,
        sq_device_id = device\<rparr>
       (su_answer o1) (Some (su_expected o1)) (cw_uuid W n) (cw_now W n))))))))"

section \<open>Snapshots\<close>

definition refresh_history_limit :: nat where
  "refresh_history_limit = 500"

definition hidden_content :: "request \<Rightarrow> request" where
  "hidden_content q = q\<lparr>q_notification := (q_notification q)\<lparr>n_redact := True, n_title := None, n_body := None\<rparr>\<rparr>"

definition current_preferences :: "client_state \<Rightarrow> device_preferences" where
  "current_preferences s =
     (let device_id = Option.bind (selected_server s) sp_device_id in
      case find (\<lambda>d. Some (kd_id d) = device_id) (cs_devices s) of
        Some d \<Rightarrow> kd_preferences d
      | None \<Rightarrow> default_preferences)"

definition emit_candidate :: "client_world \<Rightarrow> snapshot_context \<Rightarrow> device_preferences \<Rightarrow> request \<Rightarrow> unit client_op" where
  "emit_candidate W ctx prefs q =
     bind_op next_tick (\<lambda>n.
     if \<not> allows_alert prefs (q_channel_id q) (cw_now W n) then pure_op ()
     else tell (NotificationCandidate (sx_server_id ctx) (if dp_hide_content prefs then hidden_content q else q)))"

definition emit_candidates :: "client_world \<Rightarrow> snapshot_context \<Rightarrow> request list \<Rightarrow> unit client_op" where
  "emit_candidates W ctx qs =
     bind_op (read_op (\<lambda>st. current_preferences (re_state (rn_reducer st)))) (\<lambda>prefs.
     for_op (emit_candidate W ctx prefs) qs)"

definition tell_removed :: "snapshot_context \<Rightarrow> rstr \<Rightarrow> unit client_op" where
  "tell_removed ctx i = tell (NotificationRemoved (sx_server_id ctx) i)"

definition set_phase :: "sync_phase \<Rightarrow> unit client_op" where
  "set_phase ph =
     bind_op (on_reducer (set_sync_phase ph)) (\<lambda>_.
     bind_op client_state_now (\<lambda>s.
     bind_op (tell (SyncStatus (cs_is_sync_connected s))) (\<lambda>_. tell (StateMessage s))))"

text \<open>
  The four reads of \<open>try_join!\<close> are all under way at once; the failure reported is that of the first in
  the order of the source (the code reports the one that arrived first).
\<close>

definition load_snapshot :: "client_world \<Rightarrow> nod_api \<Rightarrow>
    (current_user_response \<times> client_device list \<times> channel list \<times> request list) client_op" where
  "load_snapshot W a =
     bind_op (try_op (send_call W a CurrentUser (dd_user (cw_decode W)))) (\<lambda>user.
     bind_op (try_op (send_call W a ListDevices (dd_devices (cw_decode W)))) (\<lambda>devices.
     bind_op (try_op (send_call W a ListChannels (dd_channels (cw_decode W)))) (\<lambda>channels.
     bind_op (try_op (send_call W a (ListRequests None (Some refresh_history_limit)) (dd_requests (cw_decode W)))) (\<lambda>page.
     lift_op (bind_res user (\<lambda>user. bind_res devices (\<lambda>devices. bind_res channels (\<lambda>channels.
       bind_res page (\<lambda>page. Inr (user, devices, channels, lr_requests page))))))))))"

definition snapshot_devices :: "current_user_response \<Rightarrow> client_device list \<Rightarrow> client_device list" where
  "snapshot_devices user devices =
     cu_current_device user # filter (\<lambda>d. kd_id d \<noteq> kd_id (cu_current_device user)) devices"

definition install_snapshot ::
  "rstr \<Rightarrow> current_user_response \<Rightarrow> client_device list \<Rightarrow> channel list \<Rightarrow> request list \<Rightarrow> nat \<Rightarrow> reducer \<Rightarrow>
   request list \<times> reducer" where
  "install_snapshot now user devices channels qs started r =
     (let r = set_notification_delivery_mode (cu_delivery user) r;
          r = r\<lparr>re_state := (re_state r)\<lparr>cs_notification_sound := kd_notification_sound (cu_current_device user)\<rparr>\<rparr> in
      apply_snapshot now (Some (cu_user user)) devices channels qs started r)"

definition refresh_snapshot :: "client_world \<Rightarrow> snapshot_context \<Rightarrow> client_state client_op" where
  "refresh_snapshot W ctx =
     bind_op (read_op (\<lambda>st. re_revision (rn_reducer st))) (\<lambda>started.
     bind_op (load_snapshot W (sx_api ctx)) (\<lambda>(user, devices, channels, qs).
     bind_op (read_op (\<lambda>st. pending_request_ids (rn_reducer st))) (\<lambda>old_pending.
     bind_op next_tick (\<lambda>n.
     bind_op (step_reducer (install_snapshot (cw_stamp W n) user (snapshot_devices user devices) channels qs started))
       (\<lambda>candidates.
     bind_op (read_op rn_reducer) (\<lambda>r.
     bind_op (emit_candidates W ctx candidates) (\<lambda>_.
     bind_op (for_op (tell_removed ctx) (filter (\<lambda>i. i \<notin> set (pending_request_ids r)) old_pending)) (\<lambda>_.
     bind_op (tell (StateMessage (re_state r))) (\<lambda>_. pure_op (re_state r))))))))))"

end
