(* ===== verification/Client_Workflows.thy ===== *)
theory Client_Workflows
  imports Client_Runtime
begin

text \<open>
  What the user interface asks of the client process (nod-client-core runtime/workflows.rs, runtime/rpc.rs,
  and the start and stop of the synchronisation task of runtime/sync.rs): enrollment, switching and
  forgetting servers, reading and answering requests, preferences, devices, and the dispatch of remote calls.
\<close>

section \<open>The synchronisation task\<close>

definition disconnect_sync :: "unit client_op" where
  "disconnect_sync =
     bind_op (write_op (\<lambda>st. st\<lparr>rn_sync := None\<rparr>)) (\<lambda>_.
     bind_op (on_reducer (mark_sync_connected False)) (\<lambda>_.
     bind_op (tell (SyncStatus False)) (\<lambda>_. emit_state)))"

text \<open>The task that \<open>tokio::spawn\<close> starts is \<open>Client_Sync.sync_loop\<close>.\<close>

definition connect_sync :: "client_world \<Rightarrow> unit client_op" where
  "connect_sync W =
     bind_op (read_op rn_sync) (\<lambda>task.
     case task of
       Some (_, False) \<Rightarrow> pure_op ()
     | _ \<Rightarrow>
        bind_op disconnect_sync (\<lambda>_.
        bind_op (snapshot_context_now W) (\<lambda>ctx.
        write_op (\<lambda>st. st\<lparr>rn_sync := Some (ctx, False)\<rparr>))))"

section \<open>Servers\<close>

record enroll_params =
  ep_base_url :: rstr
  ep_device_name :: rstr
  ep_code :: rstr
  ep_sound :: "rstr option"
  ep_platform :: "device_platform option"
  ep_native_app_id :: "rstr option"
  ep_push_provider :: "rstr option"
  ep_push_token :: "rstr option"
  ep_attestation :: "json option"

definition provision_device_signing_key ::
  "client_world \<Rightarrow> rstr \<Rightarrow> (device_signing_key \<times> stored_signing_key option) client_op" where
  "provision_device_signing_key W profile_id =
     bind_op next_tick (\<lambda>n. lift_op
       (case cw_backend W of
          Software \<Rightarrow>
            let key = generate_stored_key (cw_ext W) (cw_secret W n) (cw_uuid W n) in
            bind_res (device_signing_key_of (stored_signer (cw_keys W) (cw_ext W) key)) (\<lambda>public. Inr (public, Some key))
        | Foreign b \<Rightarrow>
            bind_res (fb_provision b n profile_id) (\<lambda>key.
            Inr (\<lparr>dk_key_id = fk_key_id key, dk_algorithm = DECISION_SIGNING_ALGORITHM,
                  dk_public_key = fk_public_key key\<rparr>, None))))"

definition store_credentials :: "client_world \<Rightarrow> rstr \<Rightarrow> rstr \<Rightarrow> stored_signing_key option \<Rightarrow> unit client_op" where
  "store_credentials W profile_id token software_key =
     bind_op (on_credentials W (\<lambda>refused store. save_token store refused profile_id token)) (\<lambda>_.
     case software_key of
       Some key \<Rightarrow> on_credentials W (\<lambda>refused store. save_signing_key (cw_key_codec W) store refused profile_id key)
     | None \<Rightarrow> pure_op ())"

definition enrolled_server :: "client_world \<Rightarrow> enroll_params \<Rightarrow> enrolled_response \<Rightarrow> server_profile" where
  "enrolled_server W p response =
     (let url = normalize_base_url (ep_base_url p) in
      \<lparr>sp_id = ident_of W url, sp_credential_id = None, sp_name = display_name_for (cw_parse_url W) url,
       sp_base_url = url, sp_device_name = trim (ep_device_name p), sp_device_id = Some (eo_device_id response),
       sp_user_id = Some (eo_user_id response), sp_user_name = Some (eo_user_name response)\<rparr>)"

definition enroll_call :: "client_world \<Rightarrow> enroll_params \<Rightarrow> device_signing_key \<Rightarrow> api_call" where
  "enroll_call W p key = Enroll \<lparr>eq_code = cw_upper W (trim (ep_code p)), eq_device_name = trim (ep_device_name p),
     eq_platform = (case ep_platform p of Some x \<Rightarrow> x | None \<Rightarrow> cw_platform W),
     eq_native_app_id = ep_native_app_id p, eq_push_provider = ep_push_provider p, eq_push_token = ep_push_token p,
     eq_signing_key = Some key, eq_attestation = ep_attestation p\<rparr>"

definition install_enrollment :: "server_profile \<Rightarrow> enrolled_response \<Rightarrow> reducer \<Rightarrow> reducer" where
  "install_enrollment profile response r =
     (let r = set_selected_server (sp_id profile) (upsert_server profile r);
          r = r\<lparr>re_state := (re_state r)\<lparr>cs_channels := eo_channels response, cs_devices := eo_devices response,
                cs_is_registered := True\<rparr>\<rparr> in
      set_notification_delivery_mode (eo_delivery response) r)"

definition refresh :: "client_world \<Rightarrow> client_state client_op" where
  "refresh W = bind_op (snapshot_context_now W) (refresh_snapshot W)"

text \<open>The steps before the refresh; a failure among them fails the enrollment.\<close>

definition enroll_and_store :: "client_world \<Rightarrow> enroll_params \<Rightarrow> unit client_op" where
  "enroll_and_store W p =
     (let url = normalize_base_url (ep_base_url p); profile_id = ident_of W url in
      bind_op (provision_device_signing_key W profile_id) (\<lambda>(public, software_key).
      bind_op (lift_op (with_client (cw_parse_url W) url None)) (\<lambda>a.
      bind_op (send_call W a (enroll_call W p public) (dd_enroll (cw_decode W))) (\<lambda>response.
      let profile = enrolled_server W p response in
      bind_op (store_credentials W profile_id (eo_token response) software_key) (\<lambda>_.
      bind_op (on_persisted (\<lambda>c. c\<lparr>cg_selected := Some profile_id,
          cg_sound := (case ep_sound p of Some s \<Rightarrow> s | None \<Rightarrow> cg_sound c),
          cg_servers := upsert_by sp_id profile (cg_servers c)\<rparr>)) (\<lambda>_.
      bind_op (save_persisted W) (\<lambda>_.
      bind_op disconnect_sync (\<lambda>_.
      on_reducer (install_enrollment profile response)))))))))"

definition enroll :: "client_world \<Rightarrow> enroll_params \<Rightarrow> client_state client_op" where
  "enroll W p =
     bind_op (enroll_and_store W p) (\<lambda>_.
     bind_op (try_op (refresh W)) (\<lambda>refreshed.
     case refreshed of
       Inr s \<Rightarrow> pure_op s
     | Inl e \<Rightarrow>
         bind_op (on_reducer (set_error (lit ''Enrollment completed. Inbox sync will retry: '' @ error_text e))) (\<lambda>_.
         bind_op emit_state (\<lambda>_. client_state_now))))"

definition select_server :: "client_world \<Rightarrow> rstr \<Rightarrow> client_state client_op" where
  "select_server W i =
     bind_op (read_op (\<lambda>st. list_ex (\<lambda>p. sp_id p = i) (cg_servers (rn_persisted st)))) (\<lambda>known.
     if \<not> known then lift_op (Inl (Failure (lit ''unknown server: '' @ i)))
     else
       bind_op (on_persisted (\<lambda>c. c\<lparr>cg_selected := Some i\<rparr>)) (\<lambda>_.
       bind_op (save_persisted W) (\<lambda>_.
       bind_op disconnect_sync (\<lambda>_.
       bind_op (on_reducer (set_selected_server i)) (\<lambda>_.
       bind_op (connect_sync W) (\<lambda>_. client_state_now))))))"

definition remove_foreign_key :: "client_world \<Rightarrow> server_profile \<Rightarrow> unit client_op" where
  "remove_foreign_key W p =
     (case cw_backend W of
        Software \<Rightarrow> pure_op ()
      | Foreign b \<Rightarrow> bind_op next_tick (\<lambda>n. lift_op (fb_remove b n (credential_id p))))"

definition remove_credentials :: "client_world \<Rightarrow> server_profile \<Rightarrow> unit client_op" where
  "remove_credentials W p =
     bind_op (on_credentials W (\<lambda>refused store ck. Inr (delete_token store refused (credential_id p) ck))) (\<lambda>_.
     on_credentials W (\<lambda>refused store ck. Inr (delete_signing_key store refused (credential_id p) ck)))"

definition forget_profile :: "rstr \<Rightarrow> client_config \<Rightarrow> client_config" where
  "forget_profile i c = c\<lparr>cg_servers := without_profile i (cg_servers c)\<rparr>"

definition forget_server :: "client_world \<Rightarrow> rstr \<Rightarrow> client_state client_op" where
  "forget_server W server_id =
     bind_op (enrolled_profile server_id) (\<lambda>p.
     let i = sp_id p in
     bind_op (read_op (\<lambda>st. cs_selected_server_id (re_state (rn_reducer st)) = Some i)) (\<lambda>was_selected.
     bind_op (if was_selected then disconnect_sync else pure_op ()) (\<lambda>_.
     bind_op (remove_foreign_key W p) (\<lambda>_.
     bind_op (on_persisted (forget_profile i)) (\<lambda>_.
     bind_op (remove_credentials W p) (\<lambda>_.
     bind_op (on_persisted (\<lambda>c. if cg_selected c = Some i then c\<lparr>cg_selected := first_server c\<rparr> else c)) (\<lambda>_.
     bind_op (save_persisted W) (\<lambda>_.
     bind_op (on_reducer (remove_server i)) (\<lambda>_.
     bind_op client_state_now (\<lambda>s.
     bind_op (if was_selected \<and> cs_is_registered s then connect_sync W else pure_op ()) (\<lambda>_.
     bind_op emit_state (\<lambda>_. client_state_now))))))))))))"

section \<open>Reading\<close>

definition query_history :: "client_world \<Rightarrow> rstr option \<Rightarrow> history_query \<Rightarrow> requests_response client_op" where
  "query_history W server h =
     bind_op (case server of Some i \<Rightarrow> enrolled_profile i | None \<Rightarrow> selected_server_profile) (\<lambda>p.
     bind_op (api_for_profile W p) (\<lambda>a. send_call W a (QueryHistory h) (dd_requests (cw_decode W))))"

definition read_request :: "client_world \<Rightarrow> rstr \<Rightarrow> rstr \<Rightarrow> (server_profile \<times> request) client_op" where
  "read_request W server i =
     bind_op (enrolled_profile server) (\<lambda>p.
     bind_op (api_for_profile W p) (\<lambda>a.
     bind_op (send_call W a (GetRequest i) (dd_request (cw_decode W))) (\<lambda>q. pure_op (p, q))))"

definition open_request :: "client_world \<Rightarrow> rstr \<Rightarrow> rstr \<Rightarrow> client_state client_op" where
  "open_request W server i =
     bind_op (read_request W server i) (\<lambda>(p, q).
     bind_op client_state_now (\<lambda>s.
     bind_op (if cs_selected_server_id s \<noteq> Some (sp_id p)
              then bind_op (select_server W (sp_id p)) (\<lambda>_. pure_op ()) else pure_op ()) (\<lambda>_.
     bind_op (on_reducer (\<lambda>r.
       let r = select_channel (Some (q_channel_id q)) (snd (apply_request_update q r)) in
       r\<lparr>re_state := (re_state r)\<lparr>cs_selected_request_id := Some (q_id q)\<rparr>\<rparr>)) (\<lambda>_.
     bind_op emit_state (\<lambda>_. client_state_now)))))"

section \<open>Answering\<close>

definition apply_targeted_request :: "rstr \<Rightarrow> request \<Rightarrow> unit client_op" where
  "apply_targeted_request i q =
     bind_op client_state_now (\<lambda>s.
     bind_op (if cs_selected_server_id s = Some i
              then bind_op (on_reducer (\<lambda>r. snd (apply_request_update q r))) (\<lambda>_. emit_state)
              else pure_op ()) (\<lambda>_.
     if q_status q \<noteq> Pending then tell (NotificationRemoved i (q_id q)) else pure_op ()))"

definition rendered_request :: "runtime \<Rightarrow> rstr \<Rightarrow> rstr \<Rightarrow> request option" where
  "rendered_request st server i =
     (if cs_selected_server_id (re_state (rn_reducer st)) \<noteq> Some server then None
      else held_request (rn_reducer st) i)"

definition send_answer :: "client_world \<Rightarrow> server_profile \<Rightarrow> nod_api \<Rightarrow> submit_params \<Rightarrow> decision_signature option \<Rightarrow>
    request client_op" where
  "send_answer W p a o1 signature =
     bind_op (try_op (send_call W a (SubmitOption \<lparr>sn_answer_value = su_answer o1, sn_request_id = su_request_id o1,
         sn_option_id = su_option_id o1, sn_text = su_text o1, sn_signature = signature\<rparr>) (dd_request (cw_decode W))))
       (\<lambda>result.
     case result of
       Inr q \<Rightarrow> bind_op (apply_targeted_request (sp_id p) q) (\<lambda>_. pure_op q)
     | Inl e \<Rightarrow>
         bind_op (try_op (send_call W a (GetRequest (su_request_id o1)) (dd_request (cw_decode W)))) (\<lambda>current.
         bind_op (case current of Inr q \<Rightarrow> apply_targeted_request (sp_id p) q | Inl _ \<Rightarrow> pure_op ()) (\<lambda>_.
         lift_op (Inl e))))"

definition already_handled :: rstr where
  "already_handled = lit ''This request has already been handled. Refresh to see its outcome.''"

text \<open>The steps up to the signature: what is then sent, to whom.\<close>

definition signed_answer ::
  "client_world \<Rightarrow> rstr \<Rightarrow> submit_params \<Rightarrow> (server_profile \<times> nod_api \<times> submit_params \<times> decision_signature option) client_op" where
  "signed_answer W server o1 =
     bind_op (enrolled_profile server) (\<lambda>p.
     let rendered_digest = trim (su_expected o1) in
     if rendered_digest = [] then lift_op (Inl (Failure REQUEST_CHANGED_ERROR))
     else
       bind_op (api_for_profile W p) (\<lambda>a.
       bind_op (send_call W a (GetRequest (su_request_id o1)) (dd_request (cw_decode W))) (\<lambda>authoritative.
       if q_status authoritative \<noteq> Pending
       then bind_op (apply_targeted_request (sp_id p) authoritative) (\<lambda>_. lift_op (Inl (Failure already_handled)))
       else if asserted_request_digest authoritative \<noteq> Some rendered_digest
       then lift_op (Inl (Failure REQUEST_CHANGED_ERROR))
       else
         bind_op (read_op (\<lambda>st. case rendered_request st (sp_id p) (su_request_id o1) of
             Some q \<Rightarrow> q | None \<Rightarrow> authoritative)) (\<lambda>rendered.
         let o2 = o1\<lparr>su_expected := rendered_digest, su_text := trimmed_text (su_text o1)\<rparr> in
         bind_op (decision_signature_for W p rendered o2) (\<lambda>signature. pure_op (p, a, o2, signature))))))"

definition submit_request_option :: "client_world \<Rightarrow> rstr \<Rightarrow> submit_params \<Rightarrow> request client_op" where
  "submit_request_option W server o1 =
     bind_op (signed_answer W server o1) (\<lambda>(p, a, o2, signature). send_answer W p a o2 signature)"

definition submit_option :: "client_world \<Rightarrow> submit_params \<Rightarrow> request client_op" where
  "submit_option W o1 = bind_op selected_server_profile (\<lambda>p. submit_request_option W (sp_id p) o1)"

section \<open>Channels, preferences and devices\<close>

definition clear_channel_op :: "client_world \<Rightarrow> rstr \<Rightarrow> client_state client_op" where
  "clear_channel_op W c =
     bind_op (selected_api W) (\<lambda>a.
     bind_op (send_call W a (ClearChannel c) (dd_value (cw_decode W))) (\<lambda>_. refresh W))"

definition set_subscription_op :: "client_world \<Rightarrow> rstr \<Rightarrow> bool \<Rightarrow> client_state client_op" where
  "set_subscription_op W c subscribed =
     bind_op (selected_api W) (\<lambda>a.
     bind_op (send_call W a (SetSubscription c subscribed) (dd_value (cw_decode W))) (\<lambda>_. refresh W))"

fun update_first :: "('a \<Rightarrow> bool) \<Rightarrow> ('a \<Rightarrow> 'a) \<Rightarrow> 'a list \<Rightarrow> 'a list" where
  "update_first P f [] = []"
| "update_first P f (x # xs) = (if P x then f x # xs else x # update_first P f xs)"

definition set_preferences_op :: "client_world \<Rightarrow> rstr option \<Rightarrow> device_preferences \<Rightarrow> client_state client_op" where
  "set_preferences_op W server prefs =
     bind_op (case server of Some i \<Rightarrow> enrolled_profile i | None \<Rightarrow> selected_server_profile) (\<lambda>p.
     bind_op (api_for_profile W p) (\<lambda>a.
     bind_op (send_call W a (SetPreferences prefs) (dd_value (cw_decode W))) (\<lambda>_.
     bind_op client_state_now (\<lambda>s.
     if cs_selected_server_id s = Some (sp_id p)
     then
       bind_op (on_reducer (\<lambda>r. r\<lparr>re_state := (re_state r)\<lparr>cs_devices :=
           update_first (\<lambda>d. Some (kd_id d) = sp_device_id p) (\<lambda>d. d\<lparr>kd_preferences := prefs\<rparr>)
             (cs_devices (re_state r))\<rparr>\<rparr>)) (\<lambda>_.
       bind_op emit_state (\<lambda>_. refresh W))
     else pure_op s))))"

definition set_sound_op :: "client_world \<Rightarrow> rstr \<Rightarrow> client_state client_op" where
  "set_sound_op W sound =
     bind_op (selected_api W) (\<lambda>a.
     bind_op (send_call W a (SetNotificationSound sound) (dd_value (cw_decode W))) (\<lambda>_.
     bind_op (on_persisted (\<lambda>c. c\<lparr>cg_sound := sound\<rparr>)) (\<lambda>_.
     bind_op (save_persisted W) (\<lambda>_.
     bind_op (on_reducer (\<lambda>r. r\<lparr>re_state := (re_state r)\<lparr>cs_notification_sound := sound\<rparr>\<rparr>)) (\<lambda>_.
     bind_op emit_state (\<lambda>_. client_state_now))))))"

text \<open>The servers that failed, with their errors.\<close>

fun push_to_servers :: "client_world \<Rightarrow> api_call \<Rightarrow> server_profile list \<Rightarrow> rstr list client_op" where
  "push_to_servers W c [] = pure_op []"
| "push_to_servers W c (p # ps) =
     bind_op (try_op (bind_op (api_for_profile W p) (\<lambda>a. send_call W a c (dd_value (cw_decode W))))) (\<lambda>result.
     bind_op (push_to_servers W c ps) (\<lambda>failures.
     pure_op (case result of Inl e \<Rightarrow> (sp_name p @ lit '': '' @ error_text e) # failures | Inr _ \<Rightarrow> failures)))"

definition register_push_token :: "client_world \<Rightarrow> rstr \<Rightarrow> rstr \<Rightarrow> rstr \<Rightarrow> client_state client_op" where
  "register_push_token W provider native_app_id token =
     bind_op (read_op (\<lambda>st. cg_servers (rn_persisted st))) (\<lambda>servers.
     bind_op (push_to_servers W (UpdatePushToken provider native_app_id token) servers) (\<lambda>failures.
     if failures \<noteq> []
     then lift_op (Inl (Failure (lit ''Push registration updated on '' @ show_nat (length servers - length failures) @
       lit '' of '' @ show_nat (length servers) @ lit '' servers. Retry the failed servers: '' @
       join_with (lit ''; '') failures)))
     else refresh W))"

definition list_devices :: "client_world \<Rightarrow> client_device list client_op" where
  "list_devices W =
     bind_op (selected_api W) (\<lambda>a.
     bind_op (send_call W a ListDevices (dd_devices (cw_decode W))) (\<lambda>devices.
     bind_op (on_reducer (\<lambda>r. r\<lparr>re_state := (re_state r)\<lparr>cs_devices := devices\<rparr>\<rparr>)) (\<lambda>_.
     bind_op emit_state (\<lambda>_. pure_op devices))))"

definition rename_device :: "client_world \<Rightarrow> rstr \<Rightarrow> rstr \<Rightarrow> client_device client_op" where
  "rename_device W i name =
     bind_op (selected_api W) (\<lambda>a.
     bind_op (send_call W a (RenameDevice i name) (dd_device (cw_decode W))) (\<lambda>device.
     bind_op (on_reducer (\<lambda>r. r\<lparr>re_state := (re_state r)\<lparr>cs_devices :=
         update_first (\<lambda>d. kd_id d = kd_id device) (\<lambda>_. device) (cs_devices (re_state r))\<rparr>\<rparr>)) (\<lambda>_.
     bind_op emit_state (\<lambda>_. pure_op device))))"

definition refresh_or_forget_current :: "client_world \<Rightarrow> rstr \<Rightarrow> client_state client_op" where
  "refresh_or_forget_current W revoked_device =
     bind_op (read_op (\<lambda>st. selected_server (re_state (rn_reducer st)))) (\<lambda>server.
     case server of
       Some p \<Rightarrow> if sp_device_id p = Some revoked_device then forget_server W (sp_id p) else refresh W
     | None \<Rightarrow> refresh W)"

definition revoke_device :: "client_world \<Rightarrow> rstr \<Rightarrow> client_state client_op" where
  "revoke_device W i =
     bind_op (selected_api W) (\<lambda>a.
     bind_op (send_call W a (RevokeDevice i) (dd_value (cw_decode W))) (\<lambda>_. refresh_or_forget_current W i))"

definition select_channel_op :: "rstr \<Rightarrow> client_state client_op" where
  "select_channel_op c =
     bind_op client_state_now (\<lambda>s.
     if \<not> list_ex (\<lambda>ch. cn_id ch = c \<and> cn_subscribed ch) (cs_channels s)
     then lift_op (Inl (Failure (lit ''channel is unavailable or unsubscribed'')))
     else bind_op (on_reducer (select_channel (Some c))) (\<lambda>_. bind_op emit_state (\<lambda>_. client_state_now)))"

definition select_all_channels :: "client_state client_op" where
  "select_all_channels = bind_op (on_reducer (select_channel None)) (\<lambda>_. bind_op emit_state (\<lambda>_. client_state_now))"

definition select_request :: "rstr \<Rightarrow> client_state client_op" where
  "select_request i =
     bind_op (on_reducer (\<lambda>r. r\<lparr>re_state := (re_state r)\<lparr>cs_selected_request_id := Some i\<rparr>\<rparr>)) (\<lambda>_.
     bind_op emit_state (\<lambda>_. client_state_now))"

section \<open>Remote calls\<close>

text \<open>\<open>rpc_call\<close>: a method with its decoded parameters; \<open>BadParams\<close> carries the JSON reader's error.\<close>

datatype rpc_call =
    RpcState | RpcEnroll enroll_params | RpcSelectServer rstr | RpcForgetServer rstr | RpcRefresh
  | RpcGetRequest rstr rstr | RpcOpenRequest rstr rstr | RpcSubmitRequestOption rstr submit_params
  | RpcSelectAllChannels | RpcQueryHistory "rstr option" history_query | RpcSubmitOption submit_params
  | RpcClearChannel rstr | RpcSetSubscription rstr bool | RpcSetPreferences "rstr option" device_preferences
  | RpcSetSound rstr | RpcRegisterPushToken rstr rstr rstr | RpcListDevices | RpcRenameDevice rstr rstr
  | RpcRevokeDevice rstr | RpcConnectSync | RpcDisconnectSync | RpcSelectChannel rstr | RpcSelectRequest rstr
  | BadParams rstr | UnknownMethod rstr

datatype rpc_value =
    StateValue client_state | RequestValue request | HistoryValue requests_response
  | DevicesValue "client_device list" | DeviceValue client_device | ConnectedValue bool

definition give :: "('a \<Rightarrow> rpc_value) \<Rightarrow> 'a client_op \<Rightarrow> rpc_value client_op" where
  "give f m = bind_op m (\<lambda>a. pure_op (f a))"

definition handle_method :: "client_world \<Rightarrow> rpc_call \<Rightarrow> rpc_value client_op" where
  "handle_method W c = (case c of
      RpcState \<Rightarrow> give StateValue client_state_now
    | RpcEnroll p \<Rightarrow> give StateValue (enroll W p)
    | RpcSelectServer i \<Rightarrow> give StateValue (select_server W i)
    | RpcForgetServer i \<Rightarrow> give StateValue (forget_server W i)
    | RpcRefresh \<Rightarrow> give StateValue (refresh W)
    | RpcGetRequest s i \<Rightarrow> give (\<lambda>pq. RequestValue (snd pq)) (read_request W s i)
    | RpcOpenRequest s i \<Rightarrow> give StateValue (open_request W s i)
    | RpcSubmitRequestOption s o1 \<Rightarrow> give RequestValue (submit_request_option W s o1)
    | RpcSelectAllChannels \<Rightarrow> give StateValue select_all_channels
    | RpcQueryHistory s h \<Rightarrow> give HistoryValue (query_history W s h)
    | RpcSubmitOption o1 \<Rightarrow> give RequestValue (submit_option W o1)
    | RpcClearChannel ch \<Rightarrow> give StateValue (clear_channel_op W ch)
    | RpcSetSubscription ch b \<Rightarrow> give StateValue (set_subscription_op W ch b)
    | RpcSetPreferences s prefs \<Rightarrow> give StateValue (set_preferences_op W s prefs)
    | RpcSetSound sound \<Rightarrow> give StateValue (set_sound_op W sound)
    | RpcRegisterPushToken p n t \<Rightarrow> give StateValue (register_push_token W p n t)
    | RpcListDevices \<Rightarrow> give DevicesValue (list_devices W)
    | RpcRenameDevice i name \<Rightarrow> give DeviceValue (rename_device W i name)
    | RpcRevokeDevice i \<Rightarrow> give StateValue (revoke_device W i)
    | RpcConnectSync \<Rightarrow> give (\<lambda>_. ConnectedValue True) (connect_sync W)
    | RpcDisconnectSync \<Rightarrow> give (\<lambda>_. ConnectedValue False) disconnect_sync
    | RpcSelectChannel ch \<Rightarrow> give StateValue (select_channel_op ch)
    | RpcSelectRequest i \<Rightarrow> give StateValue (select_request i)
    | BadParams e \<Rightarrow> lift_op (Inl (Failure e))
    | UnknownMethod m \<Rightarrow> lift_op (Inl (Failure (lit ''unknown method: '' @ m))))"

text \<open>\<open>handle_rpc\<close>: a failed call is also shown in the state.\<close>

definition handle_rpc :: "client_world \<Rightarrow> rpc_call \<Rightarrow> (client_error + rpc_value) client_op" where
  "handle_rpc W c =
     bind_op (try_op (handle_method W c)) (\<lambda>result.
     bind_op (case result of
         Inl e \<Rightarrow> bind_op (on_reducer (set_error (error_text e))) (\<lambda>_. emit_state)
       | Inr _ \<Rightarrow> pure_op ()) (\<lambda>_.
     pure_op result))"

end
