(* ===== verification/Client_Sync.thy ===== *)
theory Client_Sync
  imports Client_Workflows "HOL-Library.Word"
begin

text \<open>
  The synchronisation task of a client (nod-client-core runtime/sync.rs): connecting, the snapshot after it,
  the events of the socket, and the loop that reconnects. The web socket is an argument: how the
  handshake ended and what the \<open>select!\<close> of the read loop met, in order. A list that ends
  before the connection does is a connection still open.
\<close>

section \<open>Errors of a connection\<close>

datatype io_kind = ConnectionAborted | ConnectionRefused | ConnectionReset | NotConnected | IoTimedOut | UnexpectedEof | OtherIo

datatype socket_error =
    SocketConnectionClosed
  | ResetWithoutClosingHandshake
  | SocketIo io_kind
  | SocketHttp nat
  | OtherSocketError

text \<open>A web socket error comes with the text it prints.\<close>

datatype sync_error = ClientFailed client_error | SocketFailed socket_error rstr

definition sync_error_text :: "sync_error \<Rightarrow> rstr" where
  "sync_error_text e = (case e of ClientFailed c \<Rightarrow> error_text c | SocketFailed _ t \<Rightarrow> t)"

definition is_unauthorized :: "sync_error \<Rightarrow> bool" where
  "is_unauthorized e = (case e of
      ClientFailed (ApiStatus status _) \<Rightarrow> status = 401
    | ClientFailed RegistrationRevoked \<Rightarrow> True
    | ClientFailed (Failure _) \<Rightarrow> False
    | SocketFailed (SocketHttp status) _ \<Rightarrow> status = 401
    | SocketFailed _ _ \<Rightarrow> False)"

definition is_expected_reconnect_error :: "sync_error \<Rightarrow> bool \<Rightarrow> bool" where
  "is_expected_reconnect_error e has_connected = (case e of
      SocketFailed SocketConnectionClosed _ \<Rightarrow> True
    | SocketFailed ResetWithoutClosingHandshake _ \<Rightarrow> True
    | SocketFailed (SocketIo kind) _ \<Rightarrow> has_connected \<and>
        kind \<in> {ConnectionAborted, ConnectionRefused, ConnectionReset, NotConnected, IoTimedOut, UnexpectedEof}
    | _ \<Rightarrow> False)"

section \<open>Envelopes\<close>

definition should_resync_after :: "client_envelope \<Rightarrow> bool" where
  "should_resync_after v \<longleftrightarrow>
     ce_kind v \<in> {lit ''cleared'', lit ''subscription_updated'', lit ''resync_required''} \<or>
     starts_with (ce_kind v) (lit ''device_'')"

definition notification_removal_for :: "client_envelope \<Rightarrow> rstr option" where
  "notification_removal_for v =
     (case ce_request v of Some q \<Rightarrow> if q_status q \<noteq> Pending then Some (q_id q) else None | None \<Rightarrow> None)"

definition notification_delivery_mode_for :: "client_envelope \<Rightarrow> notification_delivery option" where
  "notification_delivery_mode_for v = (case ce_delivery v of Some d \<Rightarrow> Some d | None \<Rightarrow> ce_payload_delivery v)"

definition is_current_device_revoked :: "client_envelope \<Rightarrow> client_state \<Rightarrow> bool" where
  "is_current_device_revoked v s \<longleftrightarrow>
     ce_kind v = lit ''device_revoked'' \<and>
     (case om_get (ce_extra v) (lit ''device_id'') of
        Some (JStr device) \<Rightarrow> Option.bind (selected_server s) sp_device_id = Some device
      | _ \<Rightarrow> False)"

datatype socket_message = TextMessage "byte list" | BinaryMessage "byte list" | ControlMessage | CloseMessage

definition envelope_from_message :: "client_world \<Rightarrow> socket_message \<Rightarrow> client_error + client_envelope option" where
  "envelope_from_message W m =
     (let read = (\<lambda>raw. if raw = [] then Inr None
            else bind_res (ok_or (Failure (lit ''Invalid sync message received; reconnecting to restore current state.''))
              (dd_envelope (cw_decode W) raw)) (\<lambda>v. Inr (Some v))) in
      case m of TextMessage raw \<Rightarrow> read raw | BinaryMessage raw \<Rightarrow> read raw | _ \<Rightarrow> Inr None)"

text \<open>\<open>apply_sync_envelope\<close> of the task: whether the envelope revoked this device.\<close>

definition receive_envelope :: "client_world \<Rightarrow> snapshot_context \<Rightarrow> client_envelope \<Rightarrow> bool client_op" where
  "receive_envelope W ctx v =
     bind_op (read_op (\<lambda>st. is_current_device_revoked v (re_state (rn_reducer st)))) (\<lambda>revoked.
     bind_op (case notification_delivery_mode_for v of
         Some d \<Rightarrow> on_reducer (set_notification_delivery_mode d) | None \<Rightarrow> pure_op ()) (\<lambda>_.
     bind_op (step_reducer (apply_sync_envelope v)) (\<lambda>candidates.
     bind_op (emit_candidates W ctx candidates) (\<lambda>_.
     bind_op (case notification_removal_for v of Some i \<Rightarrow> tell_removed ctx i | None \<Rightarrow> pure_op ()) (\<lambda>_.
     bind_op emit_state (\<lambda>_. pure_op revoked))))))"

section \<open>One connection\<close>

datatype sync_event =
    Incoming socket_message
  | ReadFails socket_error rstr
  | StreamEnds
  | Heartbeat "(socket_error \<times> rstr) option"
    \<comment> \<open>the ping, and the error of sending it\<close>
  | SilentTooLong

datatype handshake = Connected | BadHandshake rstr | HandshakeTimesOut | HandshakeStatus nat | HandshakeFails

type_synonym connection_end = "(sync_error + unit) option"

definition resync :: "client_world \<Rightarrow> snapshot_context \<Rightarrow> connection_end client_op" where
  "resync W ctx =
     bind_op (set_phase Reconciling) (\<lambda>_.
     bind_op (try_op (refresh_snapshot W ctx)) (\<lambda>r.
     case r of
       Inl e \<Rightarrow> pure_op (Some (Inl (ClientFailed e)))
     | Inr _ \<Rightarrow> bind_op (set_phase Current) (\<lambda>_. pure_op None)))"

definition sync_event_step :: "client_world \<Rightarrow> snapshot_context \<Rightarrow> sync_event \<Rightarrow> connection_end client_op" where
  "sync_event_step W ctx e = (case e of
      StreamEnds \<Rightarrow> pure_op (Some (Inr ()))
    | ReadFails err t \<Rightarrow> pure_op (Some (Inl (SocketFailed err t)))
    | Heartbeat None \<Rightarrow> pure_op None
    | Heartbeat (Some (err, t)) \<Rightarrow> pure_op (Some (Inl (SocketFailed err t)))
    | SilentTooLong \<Rightarrow> pure_op (Some (Inl (ClientFailed (Failure (lit ''No response from sync server; reconnecting.'')))))
    | Incoming m \<Rightarrow>
        if m = CloseMessage then pure_op (Some (Inr ()))
        else case envelope_from_message W m of
          Inl err \<Rightarrow> pure_op (Some (Inl (ClientFailed err)))
        | Inr None \<Rightarrow> pure_op None
        | Inr (Some v) \<Rightarrow>
            bind_op (receive_envelope W ctx v) (\<lambda>revoked.
            if revoked then pure_op (Some (Inl (ClientFailed RegistrationRevoked)))
            else if should_resync_after v then resync W ctx else pure_op None))"

fun socket_loop :: "client_world \<Rightarrow> snapshot_context \<Rightarrow> sync_event list \<Rightarrow> connection_end client_op" where
  "socket_loop W ctx [] = pure_op None"
| "socket_loop W ctx (e # es) =
     bind_op (sync_event_step W ctx e) (\<lambda>r. case r of Some _ \<Rightarrow> pure_op r | None \<Rightarrow> socket_loop W ctx es)"

definition handshake_error :: "client_world \<Rightarrow> handshake \<Rightarrow> client_error option" where
  "handshake_error W h = (case h of
      Connected \<Rightarrow> None
    | BadHandshake t \<Rightarrow> Some (Failure t)
    | HandshakeTimesOut \<Rightarrow> Some (Failure (lit ''Nod GET /api/v1/sync connection timed out; reconnecting.''))
    | HandshakeStatus status \<Rightarrow> Some (api_failure W (http_status GET (lit ''/api/v1/sync'') status 1))
    | HandshakeFails \<Rightarrow> Some (Failure (lit ''Nod GET /api/v1/sync connection failed; reconnecting.'')))"

definition run_connection :: "client_world \<Rightarrow> snapshot_context \<Rightarrow> handshake \<Rightarrow> sync_event list \<Rightarrow> connection_end client_op" where
  "run_connection W ctx h es =
     (case websocket_authorization (sx_api ctx) of
        Inl e \<Rightarrow> pure_op (Some (Inl (ClientFailed e)))
      | Inr _ \<Rightarrow>
          case handshake_error W h of
            Some e \<Rightarrow> pure_op (Some (Inl (ClientFailed e)))
          | None \<Rightarrow>
              bind_op (resync W ctx) (\<lambda>r. case r of Some _ \<Rightarrow> pure_op r | None \<Rightarrow> socket_loop W ctx es))"

section \<open>The loop\<close>

text \<open>\<open>u32\<close> counts failures, the delay is computed in \<open>u64\<close> milliseconds.\<close>

definition saturating_succ :: "32 word \<Rightarrow> 32 word" where
  "saturating_succ n = (if n = - 1 then n else n + 1)"

definition reconnect_delay :: "32 word \<Rightarrow> 8 word \<Rightarrow> 64 word" where
  "reconnect_delay failures random =
     (let seconds = push_bit (unat (min failures 5)) 1; jitter = ucast random * 4 in
      min (seconds * 1000 + jitter) 30000)"

definition heartbeat_interval :: nat where
  "heartbeat_interval = 20000"

record connection =
  ln_handshake :: handshake
  ln_events :: "sync_event list"
  ln_elapsed :: nat
    \<comment> \<open>milliseconds since the attempt started\<close>
  ln_random :: "8 word"

definition revoked_text :: rstr where
  "revoked_text = lit ''This device registration was revoked. Enroll again to reconnect.''"

definition revoke_registration :: "snapshot_context \<Rightarrow> unit client_op" where
  "revoke_registration ctx =
     bind_op (read_op (\<lambda>st. pending_request_ids (rn_reducer st))) (\<lambda>pending.
     bind_op (on_reducer (\<lambda>r. set_error revoked_text (clear_loaded_data r))) (\<lambda>_.
     bind_op client_state_now (\<lambda>s.
     bind_op (for_op (tell_removed ctx) pending) (\<lambda>_.
     bind_op (tell (StateMessage s)) (\<lambda>_.
     bind_op (set_phase Revoked) (\<lambda>_. tell AuthRevoked))))))"

definition report_failure :: "sync_error + unit \<Rightarrow> bool \<Rightarrow> unit client_op" where
  "report_failure r has_connected = (case r of
      Inl e \<Rightarrow> if is_expected_reconnect_error e has_connected then pure_op () else tell (TransientError (sync_error_text e))
    | Inr _ \<Rightarrow> pure_op ())"

definition is_revocation :: "sync_error + unit \<Rightarrow> bool" where
  "is_revocation r = (case r of Inl e \<Rightarrow> is_unauthorized e | Inr _ \<Rightarrow> False)"

text \<open>Whether the task has finished, and the delays it slept for.\<close>

fun sync_loop :: "client_world \<Rightarrow> snapshot_context \<Rightarrow> bool \<Rightarrow> 32 word \<Rightarrow> connection list \<Rightarrow> (bool \<times> 64 word list) client_op" where
  "sync_loop W ctx has_connected failures [] = pure_op (False, [])"
| "sync_loop W ctx has_connected failures (c # cs) =
     bind_op (set_phase Connecting) (\<lambda>_.
     bind_op (run_connection W ctx (ln_handshake c) (ln_events c)) (\<lambda>result.
     case result of
       None \<Rightarrow> pure_op (False, [])
     | Some r \<Rightarrow>
        if is_revocation r then bind_op (revoke_registration ctx) (\<lambda>_. pure_op (True, []))
        else
          bind_op (report_failure r has_connected) (\<lambda>_.
          bind_op client_state_now (\<lambda>s.
          let has_connected = (has_connected \<or> cs_is_sync_connected s);
              failures = (if heartbeat_interval \<le> ln_elapsed c then 0 else saturating_succ failures) in
          bind_op (set_phase Offline) (\<lambda>_.
          bind_op (sync_loop W ctx has_connected failures cs) (\<lambda>(finished, delays).
          pure_op (finished, reconnect_delay failures (ln_random c) # delays)))))))"

text \<open>The task started by \<open>connect_sync\<close>, on the connections it meets.\<close>

definition run_sync_task :: "client_world \<Rightarrow> connection list \<Rightarrow> unit client_op" where
  "run_sync_task W cs =
     bind_op (read_op rn_sync) (\<lambda>task.
     case task of
       Some (ctx, False) \<Rightarrow>
         bind_op (sync_loop W ctx False 0 cs) (\<lambda>(finished, _).
         write_op (\<lambda>st. st\<lparr>rn_sync := Some (ctx, finished)\<rparr>))
     | _ \<Rightarrow> pure_op ())"

end
