(* ===== verification/Client_Process.thy ===== *)
theory Client_Process
  imports Client_Sync Client_Views "HOL-Library.Sublist"
begin

text \<open>
  The client process as a whole: \<open>client_reachable\<close> are the states it can be in, after any calls of
  the user interface and any runs of the synchronisation task. A locale gives the way to show that an
  operation relates the states before and after it by a preorder: that holds for every operation
  built from others of which it holds. It is used for \<open>progresses\<close>: the reducer makes steps of the reducer,
  and messages and calls are only added.
\<close>

section \<open>Relations kept by operations\<close>

definition keeps :: "(runtime \<Rightarrow> runtime \<Rightarrow> bool) \<Rightarrow> 'a client_op \<Rightarrow> bool" where
  "keeps R m \<longleftrightarrow> (\<forall>st. R st (snd (m st)))"

named_theorems keeps_ops

lemma keepsD: "keeps R m \<Longrightarrow> m st = (r, st') \<Longrightarrow> R st st'"
  by (metis keeps_def snd_conv)

lemma keeps_if: "(b \<Longrightarrow> keeps R x) \<Longrightarrow> (\<not> b \<Longrightarrow> keeps R y) \<Longrightarrow> keeps R (if b then x else y)"
  by simp

lemma keeps_option: "(x = None \<Longrightarrow> keeps R a) \<Longrightarrow> (\<And>y. x = Some y \<Longrightarrow> keeps R (f y)) \<Longrightarrow>
    keeps R (case x of None \<Rightarrow> a | Some y \<Rightarrow> f y)"
  by (cases x) auto

lemma keeps_sum: "(\<And>e. x = Inl e \<Longrightarrow> keeps R (f e)) \<Longrightarrow> (\<And>a. x = Inr a \<Longrightarrow> keeps R (g a)) \<Longrightarrow>
    keeps R (case x of Inl e \<Rightarrow> f e | Inr a \<Rightarrow> g a)"
  by (cases x) auto

lemma keeps_prod: "(\<And>a b. x = (a, b) \<Longrightarrow> keeps R (f a b)) \<Longrightarrow> keeps R (case x of (a, b) \<Rightarrow> f a b)"
  by (cases x) auto

lemma keeps_let: "(\<And>a. a = x \<Longrightarrow> keeps R (f a)) \<Longrightarrow> keeps R (let a = x in f a)"
  by simp

lemma keeps_bool: "keeps R a \<Longrightarrow> keeps R b \<Longrightarrow> keeps R (case x of True \<Rightarrow> a | False \<Rightarrow> b)"
  by (cases x) auto

lemma keeps_backend: "keeps R a \<Longrightarrow> (\<And>b. keeps R (f b)) \<Longrightarrow> keeps R (case x of Software \<Rightarrow> a | Foreign b \<Rightarrow> f b)"
  by (cases x) auto

locale run_relation =
  fixes R :: "runtime \<Rightarrow> runtime \<Rightarrow> bool"
  assumes same: "R st st"
    and chain: "R a b \<Longrightarrow> R b c \<Longrightarrow> R a c"
begin

lemma keeps_pure: "keeps R (pure_op a)"
  by (simp add: keeps_def pure_op_def same)

lemma keeps_lift: "keeps R (lift_op r)"
  by (simp add: keeps_def lift_op_def same)

lemma keeps_read: "keeps R (read_op f)"
  by (simp add: keeps_def read_op_def same)

lemma keeps_write: "(\<And>st. R st (f st)) \<Longrightarrow> keeps R (write_op f)"
  by (simp add: keeps_def write_op_def)

lemma keeps_bind: "keeps R m \<Longrightarrow> (\<And>a. keeps R (f a)) \<Longrightarrow> keeps R (bind_op m f)"
  by (auto simp: keeps_def bind_op_def split: prod.splits sum.splits) (metis chain snd_conv same)+

lemma keeps_try: "keeps R m \<Longrightarrow> keeps R (try_op m)"
  by (auto simp: keeps_def try_op_def split: prod.splits) (metis snd_conv)

lemma keeps_for: "(\<And>x. keeps R (f x)) \<Longrightarrow> keeps R (for_op f xs)"
  by (induction xs) (auto intro: keeps_pure keeps_bind)

lemmas keeps_rules = keeps_pure keeps_lift keeps_read keeps_bind keeps_try keeps_for
  keeps_if keeps_option keeps_sum keeps_prod keeps_let keeps_bool keeps_backend

end

section \<open>What an operation adds\<close>

text \<open>\<open>P\<close> holds for every call an operation adds to the log.\<close>

definition progresses :: "(nod_api \<times> api_call \<times> nat \<Rightarrow> bool) \<Rightarrow> runtime \<Rightarrow> runtime \<Rightarrow> bool" where
  "progresses P st st' \<longleftrightarrow> reducer_step\<^sup>*\<^sup>* (rn_reducer st) (rn_reducer st') \<and> prefix (rn_out st) (rn_out st') \<and>
     (\<exists>calls. rn_log st' = rn_log st @ calls \<and> list_all P calls) \<and> rn_tick st \<le> rn_tick st'"

text \<open>What runs meanwhile changes the reducer by its operations only.\<close>

definition meanwhile_ok :: "client_world \<Rightarrow> bool" where
  "meanwhile_ok W \<longleftrightarrow> (\<forall>n r. reducer_step\<^sup>*\<^sup>* r (fst (cw_meanwhile W n r)))"

definition is_submission :: "nod_api \<times> api_call \<times> nat \<Rightarrow> bool" where
  "is_submission e = (case e of (_, SubmitOption _, _) \<Rightarrow> True | _ \<Rightarrow> False)"

definition world_ok :: "(nod_api \<times> api_call \<times> nat \<Rightarrow> bool) \<Rightarrow> client_world \<Rightarrow> bool" where
  "world_ok P W \<longleftrightarrow> meanwhile_ok W \<and> (\<forall>e. \<not> is_submission e \<longrightarrow> P e)"

interpretation evo: run_relation "progresses P" for P
  by unfold_locales (auto simp: progresses_def)

lemma progresses_tick [keeps_ops]: "keeps (progresses P) next_tick"
  by (simp add: keeps_def next_tick_def progresses_def)

lemma progresses_tell [keeps_ops]: "keeps (progresses P) (tell m)"
  by (simp add: keeps_def tell_def write_op_def progresses_def)

lemma progresses_on_reducer: "(\<And>r. reducer_step\<^sup>*\<^sup>* r (f r)) \<Longrightarrow> keeps (progresses P) (on_reducer f)"
  by (simp add: keeps_def on_reducer_def write_op_def progresses_def)

lemma progresses_step: "(\<And>r. reducer_step r (f r)) \<Longrightarrow> keeps (progresses P) (on_reducer f)"
  by (blast intro: progresses_on_reducer)

lemma progresses_on_persisted [keeps_ops]: "keeps (progresses P) (on_persisted f)"
  by (simp add: keeps_def on_persisted_def write_op_def progresses_def)

lemma progresses_meanwhile: "meanwhile_ok W \<Longrightarrow> progresses P st (meanwhile W n st)"
  by (auto simp: meanwhile_def progresses_def meanwhile_ok_def Let_def split: option.split prod.split bool.split)
    (metis fst_conv)

lemma progresses_log: "keeps (progresses P) (write_op (\<lambda>st. st\<lparr>rn_log := rn_log st @ [e]\<rparr>))" if "P e"
  using that by (simp add: keeps_def write_op_def progresses_def)

lemma progresses_any_call:
  assumes "meanwhile_ok W" and "\<And>n. P (a, c, n)"
  shows "keeps (progresses P) (send_call W a c decode)"
  unfolding send_call_def
  by (intro evo.keeps_rules progresses_tick evo.keeps_write progresses_meanwhile progresses_log assms)

lemma progresses_send [keeps_ops]:
  "world_ok P W \<Longrightarrow> \<not> is_submission (a, c, 0) \<Longrightarrow> keeps (progresses P) (send_call W a c decode)"
  by (rule progresses_any_call) (auto simp: world_ok_def is_submission_def)

lemma is_submission_simps [keeps_ops]:
  "\<not> is_submission (a, Enroll x, n)" "\<not> is_submission (a, CurrentUser, n)" "\<not> is_submission (a, ListDevices, n)"
  "\<not> is_submission (a, RenameDevice i x2, n)" "\<not> is_submission (a, RevokeDevice i, n)" "\<not> is_submission (a, ListChannels, n)"
  "\<not> is_submission (a, ListRequests c l, n)" "\<not> is_submission (a, GetRequest i, n)" "\<not> is_submission (a, QueryHistory h, n)"
  "\<not> is_submission (a, ClearChannel i, n)" "\<not> is_submission (a, SetSubscription i b, n)"
  "\<not> is_submission (a, SetNotificationSound i, n)" "\<not> is_submission (a, SetPreferences pr, n)"
  "\<not> is_submission (a, UpdatePushToken p1 p2 p3, n)"
  by (simp_all add: is_submission_def)

lemma progresses_save [keeps_ops]: "keeps (progresses P) (save_persisted W)"
  unfolding save_persisted_def
  by (intro evo.keeps_rules progresses_tick) (simp add: keeps_def progresses_def split: prod.split)

lemma progresses_on_credentials [keeps_ops]: "keeps (progresses P) (on_credentials W f)"
  unfolding on_credentials_def
  by (intro evo.keeps_rules progresses_tick) (simp add: keeps_def progresses_def split: sum.split prod.split)

lemma progresses_credentials [keeps_ops]: "keeps (progresses P) (credentials_now W f)"
  unfolding credentials_now_def by (intro evo.keeps_rules progresses_tick)

lemma progresses_step_reducer: "(\<And>r. reducer_step\<^sup>*\<^sup>* r (snd (f r))) \<Longrightarrow> keeps (progresses P) (step_reducer f)"
  by (auto simp: keeps_def step_reducer_def progresses_def split: prod.split) (metis snd_conv)

lemma progresses_state [keeps_ops]: "keeps (progresses P) client_state_now"
  unfolding client_state_now_def by (rule evo.keeps_read)

lemma progresses_emit [keeps_ops]: "keeps (progresses P) emit_state"
  unfolding emit_state_def by (intro evo.keeps_rules keeps_ops)

section \<open>Session and snapshots\<close>

lemma progresses_api [keeps_ops]: "keeps (progresses P) (api_for_profile W p)"
  unfolding api_for_profile_def by (intro evo.keeps_rules keeps_ops)

lemma progresses_selected [keeps_ops]: "keeps (progresses P) selected_server_profile"
  unfolding selected_server_profile_def by (intro evo.keeps_rules keeps_ops)

lemma progresses_selected_api [keeps_ops]: "keeps (progresses P) (selected_api W)"
  unfolding selected_api_def by (intro evo.keeps_rules keeps_ops)

lemma progresses_enrolled [keeps_ops]: "keeps (progresses P) (enrolled_profile i)"
  unfolding enrolled_profile_def by (intro evo.keeps_rules keeps_ops)

lemma progresses_context [keeps_ops]: "keeps (progresses P) (snapshot_context_now W)"
  unfolding snapshot_context_now_def by (intro evo.keeps_rules keeps_ops)

lemma progresses_signature [keeps_ops]: "keeps (progresses P) (decision_signature_for W p q o1)"
  unfolding decision_signature_for_def device_signer_for_def
  by (intro evo.keeps_rules keeps_ops)

lemma progresses_candidates [keeps_ops]: "keeps (progresses P) (emit_candidates W ctx qs)"
  unfolding emit_candidates_def emit_candidate_def by (intro evo.keeps_rules keeps_ops)

lemma progresses_removed [keeps_ops]: "keeps (progresses P) (tell_removed ctx i)"
  unfolding tell_removed_def by (rule progresses_tell)

lemma progresses_phase [keeps_ops]: "keeps (progresses P) (set_phase ph)"
  unfolding set_phase_def by (intro evo.keeps_rules keeps_ops progresses_step reducer_step.intros)

lemma install_snapshot_steps: "reducer_step\<^sup>*\<^sup>* r (snd (install_snapshot now user devices channels qs started r))"
  unfolding install_snapshot_def Let_def
  by (rule rtranclp.rtrancl_into_rtrancl [OF rtranclp.rtrancl_into_rtrancl
      [OF r_into_rtranclp [of reducer_step, OF reducer_step.delivery_mode] reducer_step.wrote_sound] reducer_step.snapshot])

lemma progresses_refresh_snapshot [keeps_ops]: "world_ok P W \<Longrightarrow> keeps (progresses P) (refresh_snapshot W ctx)"
  unfolding refresh_snapshot_def load_snapshot_def
  by (intro evo.keeps_rules keeps_ops progresses_step_reducer install_snapshot_steps)

lemma progresses_refresh [keeps_ops]: "world_ok P W \<Longrightarrow> keeps (progresses P) (refresh W)"
  unfolding refresh_def by (intro evo.keeps_rules keeps_ops)

section \<open>Workflows\<close>

lemma progresses_set_sync: "keeps (progresses P) (write_op (\<lambda>st. st\<lparr>rn_sync := x\<rparr>))"
  by (simp add: keeps_def write_op_def progresses_def)

lemma progresses_disconnect [keeps_ops]: "keeps (progresses P) disconnect_sync"
  unfolding disconnect_sync_def
  by (intro evo.keeps_rules keeps_ops progresses_set_sync progresses_step reducer_step.intros)

lemma progresses_connect [keeps_ops]: "keeps (progresses P) (connect_sync W)"
  unfolding connect_sync_def
  by (intro evo.keeps_rules keeps_ops progresses_set_sync)

lemma upsert_by_not_Nil [simp]: "upsert_by key x ys \<noteq> []"
  by (cases ys) auto

lemma install_enrollment_steps: "reducer_step\<^sup>*\<^sup>* r (install_enrollment profile response r)"
proof -
  let ?r1 = "set_selected_server (sp_id profile) (upsert_server profile r)"
  let ?r2 = "?r1\<lparr>re_state := (re_state ?r1)\<lparr>cs_channels := eo_channels response\<rparr>\<rparr>"
  let ?r3 = "?r2\<lparr>re_state := (re_state ?r2)\<lparr>cs_devices := eo_devices response\<rparr>\<rparr>"
  have "install_enrollment profile response r = set_notification_delivery_mode (eo_delivery response) ?r3"
    by (rule reducer.cases [of r], rule client_state.cases [of "re_state r"])
      (simp add: install_enrollment_def Let_def set_selected_server_def clear_loaded_data_def upsert_server_def)
  moreover have "reducer_step\<^sup>*\<^sup>* r ?r1"
    by (rule rtranclp.rtrancl_into_rtrancl [OF r_into_rtranclp [of reducer_step, OF upserted_server] selected_other_server])
  moreover have "reducer_step ?r1 ?r2" by (rule wrote_channels)
  moreover have "reducer_step ?r2 ?r3" by (rule wrote_devices)
  ultimately show ?thesis by (metis delivery_mode rtranclp.rtrancl_into_rtrancl)
qed

lemma opened_request_steps:
  "reducer_step\<^sup>*\<^sup>* r (let r1 = select_channel c (snd (apply_request_update q r)) in
     r1\<lparr>re_state := (re_state r1)\<lparr>cs_selected_request_id := i\<rparr>\<rparr>)"
  unfolding Let_def
  by (rule rtranclp.rtrancl_into_rtrancl [OF rtranclp.rtrancl_into_rtrancl
      [OF r_into_rtranclp [of reducer_step, OF request_update] selected_channel] selected_request])

lemma progresses_provision [keeps_ops]: "keeps (progresses P) (provision_device_signing_key W i)"
  unfolding provision_device_signing_key_def by (intro evo.keeps_rules keeps_ops)

lemma progresses_store_credentials [keeps_ops]: "keeps (progresses P) (store_credentials W i token key)"
  unfolding store_credentials_def by (intro evo.keeps_rules keeps_ops)

lemma progresses_enroll_and_store [keeps_ops]: "world_ok P W \<Longrightarrow> keeps (progresses P) (enroll_and_store W p)"
  unfolding enroll_and_store_def
  by (intro evo.keeps_rules keeps_ops progresses_on_reducer install_enrollment_steps)
    (simp_all add: enroll_call_def is_submission_simps)

lemma progresses_enroll [keeps_ops]: "world_ok P W \<Longrightarrow> keeps (progresses P) (enroll W p)"
  unfolding enroll_def by (intro evo.keeps_rules keeps_ops progresses_step reducer_step.intros)

lemma progresses_select_server [keeps_ops]: "keeps (progresses P) (select_server W i)"
  unfolding select_server_def by (intro evo.keeps_rules keeps_ops progresses_step reducer_step.intros)

lemma progresses_forget_server [keeps_ops]: "keeps (progresses P) (forget_server W i)"
  unfolding forget_server_def remove_foreign_key_def remove_credentials_def
  by (intro evo.keeps_rules keeps_ops progresses_step reducer_step.intros)

lemma progresses_query_history [keeps_ops]: "world_ok P W \<Longrightarrow> keeps (progresses P) (query_history W s h)"
  unfolding query_history_def by (intro evo.keeps_rules keeps_ops)

lemma progresses_read_request [keeps_ops]: "world_ok P W \<Longrightarrow> keeps (progresses P) (read_request W s i)"
  unfolding read_request_def by (intro evo.keeps_rules keeps_ops)

lemma progresses_open_request [keeps_ops]: "world_ok P W \<Longrightarrow> keeps (progresses P) (open_request W s i)"
  unfolding open_request_def by (intro evo.keeps_rules keeps_ops progresses_on_reducer opened_request_steps)

lemma progresses_targeted [keeps_ops]: "keeps (progresses P) (apply_targeted_request i q)"
  unfolding apply_targeted_request_def by (intro evo.keeps_rules keeps_ops progresses_step reducer_step.intros)

lemma progresses_push [keeps_ops]:
  assumes "world_ok P W" and "\<And>a. \<not> is_submission (a, c, 0)"
  shows "keeps (progresses P) (push_to_servers W c ps)"
proof (induction ps)
  case (Cons p ps)
  show ?case unfolding push_to_servers.simps by (intro evo.keeps_rules keeps_ops assms Cons.IH)
qed (simp add: evo.keeps_pure)

lemma progresses_selections [keeps_ops]:
  "keeps (progresses P) (select_channel_op c)" "keeps (progresses P) select_all_channels" "keeps (progresses P) (select_request i)"
  unfolding select_channel_op_def select_all_channels_def select_request_def
  by (intro evo.keeps_rules keeps_ops progresses_step reducer_step.intros)+

lemma progresses_settings [keeps_ops]:
  "world_ok P W \<Longrightarrow> keeps (progresses P) (clear_channel_op W c)"
  "world_ok P W \<Longrightarrow> keeps (progresses P) (set_subscription_op W c b)"
  "world_ok P W \<Longrightarrow> keeps (progresses P) (set_preferences_op W s prefs)"
  "world_ok P W \<Longrightarrow> keeps (progresses P) (set_sound_op W sound)"
  "world_ok P W \<Longrightarrow> keeps (progresses P) (register_push_token W pr n t)"
  "world_ok P W \<Longrightarrow> keeps (progresses P) (list_devices W)"
  "world_ok P W \<Longrightarrow> keeps (progresses P) (rename_device W d name)"
  "world_ok P W \<Longrightarrow> keeps (progresses P) (revoke_device W d)"
  unfolding clear_channel_op_def set_subscription_op_def set_preferences_op_def set_sound_op_def
    register_push_token_def list_devices_def rename_device_def revoke_device_def refresh_or_forget_current_def
  by (intro evo.keeps_rules keeps_ops progresses_step reducer_step.intros; assumption)+

lemma progresses_give [keeps_ops]: "keeps (progresses P) m \<Longrightarrow> keeps (progresses P) (give f m)"
  unfolding give_def by (intro evo.keeps_rules)

definition is_answer :: "rpc_call \<Rightarrow> bool" where
  "is_answer c = (case c of RpcSubmitOption _ \<Rightarrow> True | RpcSubmitRequestOption _ _ \<Rightarrow> True | _ \<Rightarrow> False)"

lemma progresses_method: "world_ok P W \<Longrightarrow> \<not> is_answer c \<Longrightarrow> keeps (progresses P) (handle_method W c)"
  by (cases c) (simp_all add: handle_method_def is_answer_def keeps_ops evo.keeps_lift)

lemma progresses_after [keeps_ops]: "keeps (progresses P) (case result of
    Inl e \<Rightarrow> bind_op (on_reducer (set_error (error_text e))) (\<lambda>_. emit_state) | Inr a \<Rightarrow> pure_op ())"
  by (intro evo.keeps_rules keeps_ops progresses_step reducer_step.intros)

lemma progresses_rpc: "keeps (progresses P) (handle_method W c) \<Longrightarrow> keeps (progresses P) (handle_rpc W c)"
  unfolding handle_rpc_def by (intro evo.keeps_rules keeps_ops)

text \<open>Answers: any call may be added.\<close>

lemma progresses_send_answer: "meanwhile_ok W \<Longrightarrow> keeps (progresses (\<lambda>_. True)) (send_answer W p a o1 signature)"
  unfolding send_answer_def by (intro evo.keeps_rules keeps_ops progresses_any_call) simp_all

lemma progresses_signed [keeps_ops]: "world_ok P W \<Longrightarrow> keeps (progresses P) (signed_answer W s o1)"
  unfolding signed_answer_def by (intro evo.keeps_rules keeps_ops)

lemma any_world: "meanwhile_ok W \<Longrightarrow> world_ok (\<lambda>_. True) W"
  by (simp add: world_ok_def)

lemma progresses_submit: "meanwhile_ok W \<Longrightarrow> keeps (progresses (\<lambda>_. True)) (submit_request_option W s o1)"
  unfolding submit_request_option_def
  by (intro evo.keeps_rules progresses_signed any_world progresses_send_answer)

lemma progresses_any_method:
  assumes "meanwhile_ok W"
  shows "keeps (progresses (\<lambda>_. True)) (handle_method W c)"
proof (cases "is_answer c")
  case True
  then consider server o1 where "c = RpcSubmitRequestOption server o1" | o1 where "c = RpcSubmitOption o1"
    by (cases c) (auto simp: is_answer_def)
  then show ?thesis
    by cases (simp_all add: handle_method_def submit_option_def progresses_give evo.keeps_bind progresses_selected
        progresses_submit assms)
qed (rule progresses_method [OF any_world [OF assms]])

section \<open>The synchronisation task\<close>

lemma progresses_receive [keeps_ops]: "keeps (progresses P) (receive_envelope W ctx v)"
  unfolding receive_envelope_def
  by (intro evo.keeps_rules keeps_ops progresses_step progresses_step_reducer reducer_step.intros r_into_rtranclp [of reducer_step])

lemma progresses_resync [keeps_ops]: "world_ok P W \<Longrightarrow> keeps (progresses P) (resync W ctx)"
  unfolding resync_def by (intro evo.keeps_rules keeps_ops)

lemma progresses_event_step [keeps_ops]: "world_ok P W \<Longrightarrow> keeps (progresses P) (sync_event_step W ctx e)"
  by (cases e) (auto simp: sync_event_step_def intro!: evo.keeps_rules keeps_ops split: option.split)

lemma progresses_socket_loop [keeps_ops]: "world_ok P W \<Longrightarrow> keeps (progresses P) (socket_loop W ctx es)"
  by (induction es) (simp_all, (intro evo.keeps_rules keeps_ops; assumption)+)

lemma progresses_connection [keeps_ops]: "world_ok P W \<Longrightarrow> keeps (progresses P) (run_connection W ctx h es)"
  unfolding run_connection_def by (intro evo.keeps_rules keeps_ops)

lemma clear_and_report: "reducer_step\<^sup>*\<^sup>* r (set_error e (clear_loaded_data r))"
  by (rule rtranclp.rtrancl_into_rtrancl [OF r_into_rtranclp [of reducer_step, OF cleared] failed])

lemma progresses_revoke [keeps_ops]: "keeps (progresses P) (revoke_registration ctx)"
  unfolding revoke_registration_def by (intro evo.keeps_rules keeps_ops progresses_on_reducer clear_and_report)

lemma progresses_report [keeps_ops]: "keeps (progresses P) (report_failure r b)"
  unfolding report_failure_def by (intro evo.keeps_rules keeps_ops)

lemma progresses_sync_loop [keeps_ops]:
  assumes "world_ok P W"
  shows "keeps (progresses P) (sync_loop W ctx has f cs)"
proof (induction cs arbitrary: has f)
  case (Cons c cs)
  show ?case
    unfolding sync_loop.simps by (intro evo.keeps_rules keeps_ops assms Cons.IH)
qed (simp add: evo.keeps_pure)

lemma progresses_sync_task [keeps_ops]: "world_ok P W \<Longrightarrow> keeps (progresses P) (run_sync_task W cs)"
  unfolding run_sync_task_def by (intro evo.keeps_rules keeps_ops progresses_set_sync)

section \<open>The states of a client process\<close>

inductive client_reachable :: "client_world \<Rightarrow> runtime \<Rightarrow> bool" for W where
  process_start: "start_runtime W store fs kr = Inr st \<Longrightarrow> client_reachable W st"
| process_call: "client_reachable W st \<Longrightarrow> client_reachable W (snd (handle_rpc W c st))"
| process_sync: "client_reachable W st \<Longrightarrow> client_reachable W (snd (run_sync_task W cs st))"

end
