(* ===== verification/Tui_Forms.thy ===== *)
theory Tui_Forms
  imports Client_Process
begin

text \<open>
  The parts of the terminal client (src/client/nod-tui): what it derives from a client state (domain.rs),
  text input and forms (app/text_input.rs, app/enrollment.rs, app/option_text.rs, app/rename_device.rs,
  app/settings.rs, app/navigation.rs, app/focus.rs), alerts (alerts.rs) and the commands it gives
  to the client process (runtime_bridge). A key is what crossterm reports; lower case and the \<open>Debug\<close> text of an
  optional string are arguments.
\<close>

record tui_ext =
  tx_lower :: "rstr \<Rightarrow> rstr"
  tx_debug :: "rstr option \<Rightarrow> rstr"
  tx_host :: "rstr option"
    \<comment> \<open>the variable HOSTNAME\<close>

section \<open>Keys\<close>

datatype key_code = KChar nat | KEnter | KEsc | KTab | KBackTab | KBackspace | KUp | KDown | KLeft | KRight
  | KHome | KEnd | KPageUp | KPageDown | KOther

datatype key_kind = KeyPress | KeyRepeat | KeyRelease

record key_event =
  ke_code :: key_code
  ke_kind :: key_kind
  ke_control :: bool
  ke_shift :: bool
  ke_other :: bool
    \<comment> \<open>any further modifier\<close>

definition is_key :: "key_event \<Rightarrow> char \<Rightarrow> bool" where
  "is_key k c \<longleftrightarrow> ke_code k = KChar (of_char c)"

definition is_pressed_key :: "key_event \<Rightarrow> bool" where
  "is_pressed_key k \<longleftrightarrow> ke_kind k = KeyPress \<or> ke_kind k = KeyRepeat"

definition is_close_key :: "key_event \<Rightarrow> bool" where
  "is_close_key k \<longleftrightarrow> ke_code k = KEsc \<or> is_key k CHR ''q''"

definition is_interrupt_key :: "key_event \<Rightarrow> bool" where
  "is_interrupt_key k \<longleftrightarrow> (is_key k CHR ''c'' \<or> is_key k CHR ''d'') \<and> ke_control k"

section \<open>Navigation\<close>

datatype focus = FocusServers | FocusChannels | FocusRequests | FocusDetail

fun focus_next :: "focus \<Rightarrow> focus" where
  "focus_next FocusServers = FocusChannels"
| "focus_next FocusChannels = FocusRequests"
| "focus_next FocusRequests = FocusDetail"
| "focus_next FocusDetail = FocusServers"

text \<open>\<open>usize\<close> arithmetic that saturates at zero; its upper end is out of reach of the bound that follows.\<close>

definition moved_index :: "nat \<Rightarrow> nat \<Rightarrow> int \<Rightarrow> nat" where
  "moved_index current items delta = min (nat (int current + delta)) (items - 1)"

definition previous_index :: "nat \<Rightarrow> nat \<Rightarrow> nat" where
  "previous_index current items = (if items = 0 then 0 else current - 1)"

definition next_index :: "nat \<Rightarrow> nat \<Rightarrow> nat" where
  "next_index current items = min (current + 1) (items - 1)"

fun position :: "('a \<Rightarrow> bool) \<Rightarrow> 'a list \<Rightarrow> nat option" where
  "position P [] = None"
| "position P (x # xs) = (if P x then Some 0 else map_option Suc (position P xs))"

definition selected_id_after :: "rstr list \<Rightarrow> rstr option \<Rightarrow> int \<Rightarrow> rstr option" where
  "selected_id_after ids current delta =
     (if ids = [] then None
      else
        let at = (case Option.bind current (\<lambda>i. position (\<lambda>c. c = i) ids) of Some n \<Rightarrow> n | None \<Rightarrow> 0) in
        Some (ids ! moved_index at (length ids) delta))"

definition request_matches :: "tui_ext \<Rightarrow> request \<Rightarrow> rstr \<Rightarrow> bool" where
  "request_matches T q query \<longleftrightarrow> contains_text query (tx_lower T (q_title q)) \<or> contains_text query (tx_lower T (q_summary q)) \<or>
     contains_text query (tx_lower T (q_body q))"

section \<open>What a client state shows\<close>

definition subscribed_channels :: "client_state \<Rightarrow> channel list" where
  "subscribed_channels s = filter cn_subscribed (cs_channels s)"

definition status_rank :: "request_status \<Rightarrow> nat" where
  "status_rank st = (if st = Pending then 0 else 1)"

text \<open>The comparison of three keys as three stable sorts, the last key first.\<close>

definition ordered_requests :: "request list \<Rightarrow> request list" where
  "ordered_requests qs =
     sort_key (\<lambda>q. status_rank (q_status q)) (rev (sort_key q_created_at (sort_key q_id (rev qs))))"

definition shown_channel :: "client_state \<Rightarrow> channel option" where
  "shown_channel s = Option.bind (cs_selected_channel_id s) (\<lambda>i. find (\<lambda>c. cn_id c = i) (cs_channels s))"

definition shown_request :: "client_state \<Rightarrow> request option" where
  "shown_request s =
     (case Option.bind (cs_selected_request_id s) (\<lambda>i. find (\<lambda>q. q_id q = i) (cs_requests s)) of
        Some q \<Rightarrow> Some q
      | None \<Rightarrow> (case ordered_requests (cs_requests s) of q # _ \<Rightarrow> Some q | [] \<Rightarrow> None))"

definition shown_server_id :: "client_state \<Rightarrow> rstr option" where
  "shown_server_id s = (case cs_selected_server_id s of Some i \<Rightarrow> Some i
     | None \<Rightarrow> (case cs_servers s of p # _ \<Rightarrow> Some (sp_id p) | [] \<Rightarrow> None))"

section \<open>Options\<close>

record option_choice =
  oc_id :: rstr
  oc_label :: rstr
  oc_placeholder :: "rstr option"
  oc_requires_text :: bool

definition option_requires_text :: "request_option \<Rightarrow> bool" where
  "option_requires_text p \<longleftrightarrow> o_requires_text p \<or> o_kind p = ApproveWithText \<or> o_kind p = RejectWithText"

definition choice_of :: "request_option \<Rightarrow> option_choice" where
  "choice_of p = \<lparr>oc_id = o_id p, oc_label = o_label p, oc_placeholder = o_text_placeholder p,
     oc_requires_text = option_requires_text p\<rparr>"

definition with_text_variant :: "option_kind \<Rightarrow> option_kind option" where
  "with_text_variant k = (case k of Approve \<Rightarrow> Some ApproveWithText | Reject \<Rightarrow> Some RejectWithText | _ \<Rightarrow> None)"

definition default_dismiss_option :: "request \<Rightarrow> option_kind \<Rightarrow> option_choice option" where
  "default_dismiss_option q k =
     (if q_answer_field q \<noteq> None \<or> k \<noteq> Dismiss \<or> q_options q \<noteq> [] then None
      else Some \<lparr>oc_id = lit ''dismiss'', oc_label = lit ''Dismiss'', oc_placeholder = None, oc_requires_text = False\<rparr>)"

definition option_for_kind :: "request \<Rightarrow> option_kind \<Rightarrow> option_choice option" where
  "option_for_kind q k =
     (case find (\<lambda>p. o_kind p = k) (q_options q) of
        Some p \<Rightarrow> Some (choice_of p)
      | None \<Rightarrow> (case find (\<lambda>p. Some (o_kind p) = with_text_variant k) (q_options q) of
            Some p \<Rightarrow> Some (choice_of p)
          | None \<Rightarrow> default_dismiss_option q k))"

definition submittable_options :: "request \<Rightarrow> request_option list" where
  "submittable_options q =
     (if q_options q = [] \<and> q_answer_field q = None
      then [\<lparr>o_id = lit ''dismiss'', o_label = lit ''Dismiss'', o_kind = Dismiss, o_style = lit ''default'',
        o_requires_text = False, o_text_placeholder = None, o_destructive = False, o_foreground = False\<rparr>]
      else q_options q)"

definition first_text_option :: "request \<Rightarrow> option_choice option" where
  "first_text_option q = map_option choice_of (find option_requires_text (q_options q))"

section \<open>Commands\<close>

datatype runtime_command =
    CmdEnroll enroll_params | CmdRefresh | CmdConnectSync | CmdSelectServer rstr | CmdForgetServer rstr
  | CmdSelectChannel rstr | CmdSelectAllChannels | CmdQueryHistory "rstr option" history_query | CmdSelectRequest rstr
  | CmdSubmitOption submit_params | CmdClearChannel rstr | CmdSetSubscription rstr bool | CmdSetSound rstr
  | CmdListDevices | CmdRenameDevice rstr rstr | CmdRevokeDevice rstr

definition command_label :: "runtime_command \<Rightarrow> rstr" where
  "command_label c = (case c of
      CmdEnroll _ \<Rightarrow> lit ''Enrolling'' | CmdRefresh \<Rightarrow> lit ''Refreshing'' | CmdConnectSync \<Rightarrow> lit ''Connecting sync''
    | CmdSelectServer _ \<Rightarrow> lit ''Switching server'' | CmdForgetServer _ \<Rightarrow> lit ''Forgetting server''
    | CmdSelectChannel _ \<Rightarrow> lit ''Selecting channel'' | CmdSelectAllChannels \<Rightarrow> lit ''Showing all channels''
    | CmdQueryHistory _ _ \<Rightarrow> lit ''Searching history'' | CmdSelectRequest _ \<Rightarrow> lit ''Selecting request''
    | CmdSubmitOption _ \<Rightarrow> lit ''Submitting option'' | CmdClearChannel _ \<Rightarrow> lit ''Clearing channel''
    | CmdSetSubscription _ _ \<Rightarrow> lit ''Updating subscription'' | CmdSetSound _ \<Rightarrow> lit ''Updating notification sound''
    | CmdListDevices \<Rightarrow> lit ''Loading devices'' | CmdRenameDevice _ _ \<Rightarrow> lit ''Renaming device''
    | CmdRevokeDevice _ \<Rightarrow> lit ''Revoking device'')"

datatype command_outcome =
    OutState client_state | OutRequest request | OutDevice client_device | OutDevices "client_device list"
  | OutHistory "rstr option" history_query requests_response | OutNone

definition execute_command :: "client_world \<Rightarrow> runtime_command \<Rightarrow> command_outcome client_op" where
  "execute_command W c =
     (let state = (\<lambda>m. bind_op m (\<lambda>s. pure_op (OutState s))) in
      case c of
        CmdEnroll p \<Rightarrow>
          bind_op (enroll W p) (\<lambda>s.
          bind_op (try_op (connect_sync W)) (\<lambda>r.
          pure_op (OutState (case r of
              Inl e \<Rightarrow> s\<lparr>cs_last_error := Some (lit ''Enrollment completed. Sync could not start: '' @ error_text e)\<rparr>
            | Inr _ \<Rightarrow> s))))
      | CmdRefresh \<Rightarrow> state (refresh W)
      | CmdConnectSync \<Rightarrow> bind_op (connect_sync W) (\<lambda>_. pure_op OutNone)
      | CmdSelectServer i \<Rightarrow> state (select_server W i)
      | CmdForgetServer i \<Rightarrow> state (forget_server W i)
      | CmdSelectChannel i \<Rightarrow> state (select_channel_op i)
      | CmdQueryHistory s h \<Rightarrow> bind_op (query_history W s h) (\<lambda>page. pure_op (OutHistory s h page))
      | CmdSelectAllChannels \<Rightarrow> state select_all_channels
      | CmdSelectRequest i \<Rightarrow> state (select_request i)
      | CmdSubmitOption p \<Rightarrow> bind_op (submit_option W p) (\<lambda>q. pure_op (OutRequest q))
      | CmdClearChannel i \<Rightarrow> state (clear_channel_op W i)
      | CmdSetSubscription i b \<Rightarrow> state (set_subscription_op W i b)
      | CmdSetSound sound \<Rightarrow> state (set_sound_op W sound)
      | CmdListDevices \<Rightarrow> bind_op (list_devices W) (\<lambda>ds. pure_op (OutDevices ds))
      | CmdRenameDevice i name \<Rightarrow> bind_op (rename_device W i name) (\<lambda>d. pure_op (OutDevice d))
      | CmdRevokeDevice i \<Rightarrow> state (revoke_device W i))"

section \<open>Text input and forms\<close>

definition input_key :: "rstr \<Rightarrow> key_event \<Rightarrow> rstr" where
  "input_key value k = (case ke_code k of
      KBackspace \<Rightarrow> butlast value
    | KChar c \<Rightarrow> if \<not> ke_control k \<and> \<not> ke_other k then value @ [c] else value
    | _ \<Rightarrow> value)"

definition ascii_upper :: "nat \<Rightarrow> nat" where
  "ascii_upper c = (if 97 \<le> c \<and> c \<le> 122 then c - 32 else c)"

definition input_code_key :: "rstr \<Rightarrow> key_event \<Rightarrow> rstr" where
  "input_code_key value k = (case ke_code k of
      KChar c \<Rightarrow> if is_ascii_alphanumeric c then value @ [ascii_upper c] else input_key value k
    | _ \<Rightarrow> input_key value k)"

definition SOUND_OPTIONS :: "rstr list" where
  "SOUND_OPTIONS = map lit [''default'', ''nod_ping.wav'', ''nod_chime.wav'', ''nod_low.wav'', ''silent'']"

datatype enrollment_field = FieldServer | FieldDevice | FieldCode | FieldSound

fun enrollment_field_next :: "enrollment_field \<Rightarrow> enrollment_field" where
  "enrollment_field_next FieldServer = FieldDevice"
| "enrollment_field_next FieldDevice = FieldCode"
| "enrollment_field_next FieldCode = FieldSound"
| "enrollment_field_next FieldSound = FieldServer"

record enrollment_form =
  ef_base_url :: rstr
  ef_device_name :: rstr
  ef_code :: rstr
  ef_sound :: nat
  ef_field :: enrollment_field

definition default_device_name :: "tui_ext \<Rightarrow> rstr" where
  "default_device_name T = (case tx_host T of Some h \<Rightarrow> if trim h \<noteq> [] then h else lit ''Nod TUI'' | None \<Rightarrow> lit ''Nod TUI'')"

definition new_enrollment :: "tui_ext \<Rightarrow> enrollment_form" where
  "new_enrollment T = \<lparr>ef_base_url = [], ef_device_name = default_device_name T, ef_code = [], ef_sound = 0,
     ef_field = FieldServer\<rparr>"

definition submit_ready :: "enrollment_form \<Rightarrow> bool" where
  "submit_ready f \<longleftrightarrow> trim (ef_base_url f) \<noteq> [] \<and> trim (ef_device_name f) \<noteq> [] \<and> strlen (trim (ef_code f)) \<ge> 8"

definition enroll_params_of :: "enrollment_form \<Rightarrow> enroll_params" where
  "enroll_params_of f = \<lparr>ep_base_url = trim (ef_base_url f), ep_device_name = trim (ef_device_name f), ep_code = trim (ef_code f),
     ep_sound = Some (SOUND_OPTIONS ! ef_sound f), ep_platform = None, ep_native_app_id = None, ep_push_provider = None,
     ep_push_token = None, ep_attestation = None\<rparr>"

definition sound_key :: "nat \<Rightarrow> key_event \<Rightarrow> nat" where
  "sound_key n k =
     (if ke_code k = KLeft \<or> ke_code k = KUp \<or> is_key k CHR ''k'' then previous_index n (length SOUND_OPTIONS)
      else if ke_code k = KRight \<or> ke_code k = KDown \<or> is_key k CHR ''j'' \<or> is_key k CHR '' '' then
        next_index n (length SOUND_OPTIONS)
      else n)"

definition enrollment_key :: "enrollment_form \<Rightarrow> key_event \<Rightarrow> enrollment_form \<times> runtime_command list" where
  "enrollment_key f k =
     (if ke_code k = KTab then (f\<lparr>ef_field := enrollment_field_next (ef_field f)\<rparr>, [])
      else if ke_code k = KEnter \<and> submit_ready f then (f, [CmdEnroll (enroll_params_of f)])
      else (case ef_field f of
          FieldServer \<Rightarrow> f\<lparr>ef_base_url := input_key (ef_base_url f) k\<rparr>
        | FieldDevice \<Rightarrow> f\<lparr>ef_device_name := input_key (ef_device_name f) k\<rparr>
        | FieldCode \<Rightarrow> f\<lparr>ef_code := input_code_key (ef_code f) k\<rparr>
        | FieldSound \<Rightarrow> f\<lparr>ef_sound := sound_key (ef_sound f) k\<rparr>, []))"

record option_text_form =
  ot_answer :: "answer_value option"
  ot_digest :: rstr
  ot_request_id :: rstr
  ot_option_id :: rstr
  ot_label :: rstr
  ot_placeholder :: "rstr option"
  ot_input :: rstr

definition form_from_choice :: "request \<Rightarrow> option_choice \<Rightarrow> rstr \<Rightarrow> option_text_form" where
  "form_from_choice q c digest = \<lparr>ot_answer = map_option default_value (q_answer_field q), ot_digest = digest,
     ot_request_id = q_id q, ot_option_id = oc_id c, ot_label = oc_label c, ot_placeholder = oc_placeholder c, ot_input = []\<rparr>"

definition option_text_key :: "option_text_form \<Rightarrow> key_event \<Rightarrow> option_text_form option \<times> runtime_command list" where
  "option_text_key f k =
     (if ke_code k = KEsc then (None, [])
      else if ke_code k = KEnter
      then (Some f, [CmdSubmitOption \<lparr>su_answer = ot_answer f, su_expected = ot_digest f, su_request_id = ot_request_id f,
             su_option_id = ot_option_id f, su_text = (if trim (ot_input f) \<noteq> [] then Some (ot_input f) else None)\<rparr>])
      else (Some (f\<lparr>ot_input := input_key (ot_input f) k\<rparr>), []))"

record rename_form =
  nf_device_id :: rstr
  nf_input :: rstr

definition rename_form_of :: "client_device \<Rightarrow> rename_form" where
  "rename_form_of d = \<lparr>nf_device_id = kd_id d, nf_input = kd_name d\<rparr>"

definition rename_key :: "rename_form \<Rightarrow> key_event \<Rightarrow> rename_form option \<times> runtime_command list" where
  "rename_key f k =
     (if ke_code k = KEsc then (None, [])
      else if ke_code k = KEnter \<and> trim (nf_input f) \<noteq> []
      then (Some f, [CmdRenameDevice (nf_device_id f) (trim (nf_input f))])
      else (Some (f\<lparr>nf_input := input_key (nf_input f) k\<rparr>), []))"

section \<open>Settings\<close>

datatype settings_tab = TabChannels | TabSound | TabDevices

fun tab_next :: "settings_tab \<Rightarrow> settings_tab" where
  "tab_next TabChannels = TabSound" | "tab_next TabSound = TabDevices" | "tab_next TabDevices = TabChannels"

fun tab_previous :: "settings_tab \<Rightarrow> settings_tab" where
  "tab_previous TabChannels = TabDevices" | "tab_previous TabSound = TabChannels" | "tab_previous TabDevices = TabSound"

record settings_state =
  sg_tab :: settings_tab
  sg_index :: nat

definition new_settings :: settings_state where
  "new_settings = \<lparr>sg_tab = TabChannels, sg_index = 0\<rparr>"

definition item_count :: "settings_state \<Rightarrow> client_state \<Rightarrow> nat \<Rightarrow> nat" where
  "item_count g s devices = (case sg_tab g of TabChannels \<Rightarrow> length (cs_channels s) | TabSound \<Rightarrow> length SOUND_OPTIONS
     | TabDevices \<Rightarrow> devices)"

definition clamp_selection :: "settings_state \<Rightarrow> client_state \<Rightarrow> nat \<Rightarrow> settings_state" where
  "clamp_selection g s devices =
     (let items = item_count g s devices in
      if items = 0 then g\<lparr>sg_index := 0\<rparr> else if items \<le> sg_index g then g\<lparr>sg_index := items - 1\<rparr> else g)"

definition next_tab :: "settings_state \<Rightarrow> client_state \<Rightarrow> nat \<Rightarrow> settings_state" where
  "next_tab g s devices = clamp_selection (g\<lparr>sg_tab := tab_next (sg_tab g)\<rparr>) s devices"

definition previous_tab :: "settings_state \<Rightarrow> client_state \<Rightarrow> nat \<Rightarrow> settings_state" where
  "previous_tab g s devices = clamp_selection (g\<lparr>sg_tab := tab_previous (sg_tab g)\<rparr>) s devices"

definition move_setting :: "int \<Rightarrow> settings_state \<Rightarrow> client_state \<Rightarrow> nat \<Rightarrow> settings_state" where
  "move_setting delta g s devices =
     (let items = item_count g s devices in
      g\<lparr>sg_index := (if items = 0 then 0 else moved_index (sg_index g) items delta)\<rparr>)"

definition list_get :: "'a list \<Rightarrow> nat \<Rightarrow> 'a option" where
  "list_get xs n = (if n < length xs then Some (xs ! n) else None)"

definition selected_device :: "settings_state \<Rightarrow> client_device list \<Rightarrow> client_device option" where
  "selected_device g ds = (if sg_tab g \<noteq> TabDevices then None else list_get ds (sg_index g))"

definition command_for_selected :: "settings_state \<Rightarrow> client_state \<Rightarrow> runtime_command list" where
  "command_for_selected g s = (case sg_tab g of
      TabChannels \<Rightarrow> (case list_get (cs_channels s) (sg_index g) of
          Some c \<Rightarrow> [CmdSetSubscription (cn_id c) (\<not> cn_subscribed c)] | None \<Rightarrow> [])
    | TabSound \<Rightarrow> [CmdSetSound (SOUND_OPTIONS ! sg_index g)]
    | TabDevices \<Rightarrow> [])"

section \<open>Alerts\<close>

text \<open>Times are milliseconds.\<close>

definition FLASH_DURATION :: nat where "FLASH_DURATION = 900"

record alert_state =
  al_muted :: bool
  al_request_id :: "rstr option"
  al_message :: "rstr option"
  al_flash_until :: "nat option"

definition new_alerts :: alert_state where
  "new_alerts = \<lparr>al_muted = False, al_request_id = None, al_message = None, al_flash_until = None\<rparr>"

definition alert_for :: "request \<Rightarrow> nat \<Rightarrow> alert_state \<Rightarrow> bool \<times> alert_state" where
  \<comment> \<open>whether the bell rings\<close>
  "alert_for q now a =
     (let a = a\<lparr>al_request_id := Some (q_id q),
            al_message := Some (lit ''New request: '' @ np_title (notification_preview_of q))\<rparr> in
      if al_muted a then (False, a) else (True, a\<lparr>al_flash_until := Some (now + FLASH_DURATION)\<rparr>))"

definition remove_alert :: "rstr \<Rightarrow> alert_state \<Rightarrow> alert_state" where
  "remove_alert i a =
     (if al_request_id a = Some i then a\<lparr>al_request_id := None, al_message := None, al_flash_until := None\<rparr> else a)"

definition alert_message :: "client_message \<Rightarrow> nat \<Rightarrow> alert_state \<Rightarrow> bool \<times> alert_state" where
  "alert_message m now a = (case m of
      NotificationCandidate _ q \<Rightarrow> alert_for q now a
    | NotificationRemoved _ i \<Rightarrow> (False, remove_alert i a)
    | _ \<Rightarrow> (False, a))"

definition tick_alerts :: "nat \<Rightarrow> alert_state \<Rightarrow> alert_state" where
  "tick_alerts now a = (if (case al_flash_until a of Some t \<Rightarrow> t \<le> now | None \<Rightarrow> False) then a\<lparr>al_flash_until := None\<rparr> else a)"

definition toggle_mute :: "alert_state \<Rightarrow> alert_state" where
  "toggle_mute a =
     (let a = a\<lparr>al_muted := \<not> al_muted a\<rparr> in if al_muted a then a\<lparr>al_flash_until := None\<rparr> else a)"

end
