(* ===== verification/Tui.thy ===== *)
theory Tui
  imports Tui_Forms
begin

text \<open>
  The terminal client's screen state and its keys (src/client/nod-tui/src/app.rs), and its loop with the client process
  (src/client/nod-tui/src/main.rs).
\<close>

section \<open>State\<close>

datatype destructive_action = ClearAction rstr rstr | ForgetAction rstr rstr | RevokeAction rstr rstr

definition action_prompt :: "destructive_action \<Rightarrow> rstr" where
  "action_prompt a = (case a of
      ClearAction _ name \<Rightarrow> lit ''Hide handled requests in '' @ name @ lit ''? Pending requests remain; history stays searchable.''
    | ForgetAction _ name \<Rightarrow> lit ''Forget '' @ name @ lit ''? Re-enrollment will be required.''
    | RevokeAction _ name \<Rightarrow> lit ''Revoke '' @ name @ lit ''? It will lose access immediately.'')"

definition action_command :: "destructive_action \<Rightarrow> runtime_command" where
  "action_command a = (case a of
      ClearAction i _ \<Rightarrow> CmdClearChannel i | ForgetAction i _ \<Rightarrow> CmdForgetServer i | RevokeAction i _ \<Rightarrow> CmdRevokeDevice i)"

datatype modal = EnrollmentModal enrollment_form | OptionTextModal option_text_form | SettingsModal settings_state
  | RenameModal rename_form | FilterModal rstr | HelpModal | ActionsModal request nat | ConfirmModal destructive_action

record app_screen =
  ts_drafts :: "answer_value omap"
  ts_client :: client_state
  ts_devices :: "client_device list"
  ts_focus :: focus
  ts_modal :: "modal option"
  ts_filter :: rstr
  ts_error :: "rstr option"
  ts_status :: rstr
  ts_running :: "rstr option"
  ts_alerts :: alert_state
  ts_quit :: bool
  ts_scroll :: nat
  ts_history :: "request list"
  ts_cursor :: "rstr option"
  ts_history_selected :: "rstr option"
  ts_history_loaded :: bool

definition new_app :: "tui_ext \<Rightarrow> client_state \<Rightarrow> app_screen" where
  "new_app T s = \<lparr>ts_drafts = [], ts_client = s, ts_devices = [], ts_focus = FocusRequests,
     ts_modal = (if cs_is_registered s then None else Some (EnrollmentModal (new_enrollment T))), ts_filter = [],
     ts_error = None, ts_status = lit ''Ready'', ts_running = None, ts_alerts = new_alerts, ts_quit = False, ts_scroll = 0,
     ts_history = [], ts_cursor = None, ts_history_selected = None, ts_history_loaded = False\<rparr>"

definition clamp_detail_scroll :: "nat \<Rightarrow> app_screen \<Rightarrow> app_screen" where
  "clamp_detail_scroll most a = a\<lparr>ts_scroll := min (ts_scroll a) most\<rparr>"

definition shown_error :: "app_screen \<Rightarrow> rstr option" where
  "shown_error a = (case ts_error a of Some e \<Rightarrow> Some e | None \<Rightarrow> cs_last_error (ts_client a))"

definition listed_requests :: "app_screen \<Rightarrow> request list" where
  "listed_requests a = cs_requests (ts_client a) @
     filter (\<lambda>h. \<not> list_ex (\<lambda>q. q_id q = q_id h) (cs_requests (ts_client a))) (ts_history a)"

definition screen_requests :: "tui_ext \<Rightarrow> app_screen \<Rightarrow> request list" where
  "screen_requests T a =
     (let query = tx_lower T (trim (ts_filter a)) in
      filter (\<lambda>q. query = [] \<or> request_matches T q query) (ordered_requests (listed_requests a)))"

definition selected_request :: "app_screen \<Rightarrow> request option" where
  "selected_request a =
     (case Option.bind (ts_history_selected a) (\<lambda>i. find (\<lambda>q. q_id q = i) (cs_requests (ts_client a) @ ts_history a)) of
        Some q \<Rightarrow> Some q
      | None \<Rightarrow> shown_request (ts_client a))"

definition history_hint :: "app_screen \<Rightarrow> rstr" where
  "history_hint a = (if ts_cursor a \<noteq> None then [32, 183, 32] @ lit ''] older''
     else if ts_history_loaded a then [32, 183, 32] @ lit ''end of history'' else [32, 183, 32] @ lit ''H history'')"

definition history_command :: "rstr option \<Rightarrow> app_screen \<Rightarrow> runtime_command" where
  "history_command before a = CmdQueryHistory (cs_selected_server_id (ts_client a))
     \<lparr>hq_channel_id = cs_selected_channel_id (ts_client a),
      hq_search = (if ts_filter a \<noteq> [] then Some (ts_filter a) else None), hq_before = before, hq_limit = Some 100\<rparr>"

definition begin_command :: "runtime_command \<Rightarrow> app_screen \<Rightarrow> app_screen" where
  "begin_command c a = a\<lparr>ts_error := None, ts_status := command_label c, ts_running := Some (command_label c)\<rparr>"

definition set_busy_notice :: "app_screen \<Rightarrow> app_screen" where
  "set_busy_notice a = a\<lparr>ts_error := Some (lit ''Another command is still running.'')\<rparr>"

definition set_screen_error :: "rstr \<Rightarrow> app_screen \<Rightarrow> app_screen" where
  "set_screen_error e a = a\<lparr>ts_running := None, ts_error := Some e\<rparr>"

section \<open>What the client process reports\<close>

definition is_enrollment :: "modal option \<Rightarrow> bool" where
  "is_enrollment m = (case m of Some (EnrollmentModal _) \<Rightarrow> True | _ \<Rightarrow> False)"

definition apply_screen_state :: "tui_ext \<Rightarrow> client_state \<Rightarrow> app_screen \<Rightarrow> app_screen" where
  "apply_screen_state T s a =
     (let old = ts_client a;
          a = (if cs_selected_server_id old \<noteq> cs_selected_server_id s \<or> cs_selected_channel_id old \<noteq> cs_selected_channel_id s
               then a\<lparr>ts_history := [], ts_cursor := None, ts_history_selected := None, ts_history_loaded := False\<rparr> else a);
          a = (if cs_selected_request_id old \<noteq> cs_selected_request_id s \<or> cs_selected_server_id old \<noteq> cs_selected_server_id s
               then a\<lparr>ts_scroll := 0\<rparr> else a);
          a = a\<lparr>ts_client := s, ts_devices := cs_devices s\<rparr> in
      if \<not> cs_is_registered s \<and> \<not> is_enrollment (ts_modal a) then a\<lparr>ts_modal := Some (EnrollmentModal (new_enrollment T))\<rparr> else a)"

fun replace_first :: "('a \<Rightarrow> bool) \<Rightarrow> 'a \<Rightarrow> 'a list \<Rightarrow> 'a list option" where
  "replace_first P y [] = None"
| "replace_first P y (x # xs) = (if P x then Some (y # xs) else map_option (\<lambda>r. x # r) (replace_first P y xs))"

definition apply_request :: "request \<Rightarrow> app_screen \<Rightarrow> app_screen" where
  "apply_request q a =
     (let a = (case replace_first (\<lambda>e. q_id e = q_id q) q (ts_history a) of Some h \<Rightarrow> a\<lparr>ts_history := h\<rparr> | None \<Rightarrow> a);
          s = ts_client a in
      a\<lparr>ts_client := s\<lparr>cs_requests :=
          (case replace_first (\<lambda>e. q_id e = q_id q) q (cs_requests s) of Some qs \<Rightarrow> qs | None \<Rightarrow> q # cs_requests s)\<rparr>\<rparr>)"

definition apply_device :: "client_device \<Rightarrow> app_screen \<Rightarrow> app_screen" where
  "apply_device d a = a\<lparr>ts_devices :=
     (case replace_first (\<lambda>e. kd_id e = kd_id d) d (ts_devices a) of Some ds \<Rightarrow> ds | None \<Rightarrow> ts_devices a @ [d])\<rparr>"

definition apply_history :: "tui_ext \<Rightarrow> rstr option \<Rightarrow> history_query \<Rightarrow> requests_response \<Rightarrow> app_screen \<Rightarrow> app_screen" where
  "apply_history T server query page a =
     (if server = cs_selected_server_id (ts_client a) \<and> hq_channel_id query = cs_selected_channel_id (ts_client a)
      then
        let a = (if hq_before query = None then a\<lparr>ts_history := []\<rparr> else a);
            a = a\<lparr>ts_history := fold (\<lambda>q h. filter (\<lambda>e. q_id e \<noteq> q_id q) h @ [q]) (lr_requests page) (ts_history a)\<rparr>;
            a = a\<lparr>ts_cursor := lr_next_cursor page, ts_history_loaded := True\<rparr> in
        if (case selected_request a of None \<Rightarrow> True
            | Some q \<Rightarrow> \<not> list_ex (\<lambda>c. q_id c = q_id q) (screen_requests T a))
        then a\<lparr>ts_history_selected := (case screen_requests T a of q # _ \<Rightarrow> Some (q_id q) | [] \<Rightarrow> None)\<rparr>
        else a
      else a)"

definition apply_runtime_outcome :: "tui_ext \<Rightarrow> command_outcome \<Rightarrow> app_screen \<Rightarrow> app_screen" where
  "apply_runtime_outcome T outcome a =
     (let a = (case outcome of
            OutState s \<Rightarrow>
              let enrolled = ts_running a = Some (lit ''Enrolling'') \<and> cs_is_registered s; a = apply_screen_state T s a in
              if enrolled then a\<lparr>ts_modal := None\<rparr> else a
          | OutRequest q \<Rightarrow>
              let a = apply_request q a in (case ts_modal a of Some (OptionTextModal _) \<Rightarrow> a\<lparr>ts_modal := None\<rparr> | _ \<Rightarrow> a)
          | OutDevice d \<Rightarrow>
              let a = apply_device d a in (case ts_modal a of Some (RenameModal _) \<Rightarrow> a\<lparr>ts_modal := None\<rparr> | _ \<Rightarrow> a)
          | OutDevices ds \<Rightarrow> a\<lparr>ts_devices := ds\<rparr>
          | OutHistory server query page \<Rightarrow> apply_history T server query page a
          | OutNone \<Rightarrow> a);
          a = (case ts_modal a of
              Some (ConfirmModal action) \<Rightarrow>
                if ts_running a = Some (command_label (action_command action)) then a\<lparr>ts_modal := None\<rparr> else a
            | _ \<Rightarrow> a) in
      a\<lparr>ts_running := None, ts_status := lit ''Ready''\<rparr>)"

definition apply_runtime_message :: "tui_ext \<Rightarrow> client_message \<Rightarrow> nat \<Rightarrow> app_screen \<Rightarrow> bool \<times> app_screen" where
  "apply_runtime_message T m now a =
     (let (bell, alerts) = alert_message m now (ts_alerts a); a = a\<lparr>ts_alerts := alerts\<rparr> in
      (bell, case m of
          ClientReady path \<Rightarrow> a\<lparr>ts_status := lit ''State: '' @ path\<rparr>
        | StateMessage s \<Rightarrow> apply_screen_state T s a
        | SyncStatus connected \<Rightarrow> a\<lparr>ts_client := (ts_client a)\<lparr>cs_is_sync_connected := connected\<rparr>\<rparr>
        | AuthRevoked \<Rightarrow> set_screen_error (lit ''This device registration was revoked.'') a
        | ResyncRequired \<Rightarrow> a\<lparr>ts_status := lit ''Reconciling with server'' @ [8230]\<rparr>
        | TransientError e \<Rightarrow> a\<lparr>ts_client := (ts_client a)\<lparr>cs_last_error := Some e\<rparr>\<rparr>
        | NotificationCandidate _ _ \<Rightarrow> a
        | NotificationRemoved _ _ \<Rightarrow> a))"

definition tick_app :: "nat \<Rightarrow> app_screen \<Rightarrow> app_screen" where
  "tick_app now a = a\<lparr>ts_alerts := tick_alerts now (ts_alerts a)\<rparr>"

section \<open>Answering\<close>

definition value_draft_key :: "tui_ext \<Rightarrow> request \<Rightarrow> app_screen \<Rightarrow> rstr" where
  "value_draft_key T q a = tx_debug T (cs_selected_server_id (ts_client a)) @ lit '':'' @ q_id q @ lit '':'' @
     tx_debug T (map_option sc_digest (q_signing q))"

definition answer_value_of :: "tui_ext \<Rightarrow> request \<Rightarrow> app_screen \<Rightarrow> answer_value option" where
  "answer_value_of T q a = (case q_answer_field q of
      None \<Rightarrow> None
    | Some f \<Rightarrow> (case om_get (ts_drafts a) (value_draft_key T q a) of Some v \<Rightarrow> Some v | None \<Rightarrow> Some (default_value f)))"

fun is_choice_field :: "answer_field \<Rightarrow> bool" where
  "is_choice_field (FChoice _ _ _) = True"
| "is_choice_field (FNumber _ _) = False"
| "is_choice_field (FDate _ _) = False"
| "is_choice_field (FDateTime _ _) = False"

definition OPEN_IN_APP_ERROR :: rstr where
  "OPEN_IN_APP_ERROR = lit ''Open in an updated iOS or macOS Nod app to answer this request.''"

definition HANDLED_ERROR :: rstr where
  "HANDLED_ERROR = lit ''This request has already been handled.''"

definition open_editor :: "tui_ext \<Rightarrow> request \<Rightarrow> option_choice \<Rightarrow> rstr \<Rightarrow> app_screen \<Rightarrow> app_screen" where
  \<comment> \<open>the form of a choice, with the drafted answer\<close>
  "open_editor T q c digest a =
     a\<lparr>ts_modal := Some (OptionTextModal ((form_from_choice q c digest)\<lparr>ot_answer := answer_value_of T q a\<rparr>))\<rparr>"

definition command_for_choice :: "tui_ext \<Rightarrow> request \<Rightarrow> option_choice \<Rightarrow> app_screen \<Rightarrow> app_screen \<times> runtime_command list" where
  "command_for_choice T q c a =
     (if (case q_answer_field q of Some f \<Rightarrow> \<not> is_choice_field f | None \<Rightarrow> False) \<or>
         list_ex (\<lambda>p. o_id p = lit ''__nod_value_open'') (q_options q)
      then (set_screen_error OPEN_IN_APP_ERROR a, [])
      else if q_status q \<noteq> Pending then (set_screen_error HANDLED_ERROR a, [])
      else (case asserted_request_digest q of
          None \<Rightarrow> (set_screen_error REQUEST_CHANGED_ERROR a, [])
        | Some digest \<Rightarrow>
            if oc_requires_text c then (open_editor T q c digest a, [])
            else (a, [CmdSubmitOption \<lparr>su_answer = answer_value_of T q a, su_expected = digest, su_request_id = q_id q,
                   su_option_id = oc_id c, su_text = None\<rparr>])))"

definition command_for_option_kind :: "tui_ext \<Rightarrow> option_kind \<Rightarrow> app_screen \<Rightarrow> app_screen \<times> runtime_command list" where
  "command_for_option_kind T k a = (case selected_request a of
      None \<Rightarrow> (set_screen_error (lit ''No request selected.'') a, [])
    | Some q \<Rightarrow> (case option_for_kind q k of
          None \<Rightarrow> (set_screen_error (lit ''Selected request does not offer that option.'') a, [])
        | Some c \<Rightarrow> command_for_choice T q c a))"

definition command_for_text_option :: "tui_ext \<Rightarrow> app_screen \<Rightarrow> app_screen \<times> runtime_command list" where
  "command_for_text_option T a = (case selected_request a of
      None \<Rightarrow> (set_screen_error (lit ''No request selected.'') a, [])
    | Some q \<Rightarrow> (case q_answer_field q of
          Some f \<Rightarrow>
            (if q_status q \<noteq> Pending then set_screen_error HANDLED_ERROR a
             else if \<not> is_choice_field f then set_screen_error OPEN_IN_APP_ERROR a
             else (case asserted_request_digest q of
                 None \<Rightarrow> set_screen_error REQUEST_CHANGED_ERROR a
               | Some digest \<Rightarrow> (case q_options q of
                     p # _ \<Rightarrow> open_editor T q \<lparr>oc_id = o_id p, oc_label = o_label p,
                       oc_placeholder = Some (lit ''Notes (optional)''), oc_requires_text = False\<rparr> digest a
                   | [] \<Rightarrow> a)), [])
        | None \<Rightarrow> (case first_text_option q of
              None \<Rightarrow> set_screen_error (lit ''Selected request has no text option.'') a
            | Some c \<Rightarrow> (case asserted_request_digest q of
                  None \<Rightarrow> set_screen_error REQUEST_CHANGED_ERROR a
                | Some digest \<Rightarrow> a\<lparr>ts_modal := Some (OptionTextModal (form_from_choice q c digest))\<rparr>), [])))"

definition cycle_answer :: "tui_ext \<Rightarrow> int \<Rightarrow> app_screen \<Rightarrow> app_screen" where
  "cycle_answer T delta a = (case selected_request a of
      None \<Rightarrow> a
    | Some q \<Rightarrow>
        if q_status q \<noteq> Pending then a
        else (case q_answer_field q of
            Some (FChoice _ choices _) \<Rightarrow>
              if choices = [] then a
              else
                let current = answer_value_of T q a;
                    at = (case position (\<lambda>c. current = Some (VChoice (choice_key c))) choices of Some n \<Rightarrow> n | None \<Rightarrow> 0);
                    next_at = nat ((int at + delta) mod int (length choices)) in
                a\<lparr>ts_drafts := om_put (value_draft_key T q a) (VChoice (choice_key (choices ! next_at))) (ts_drafts a)\<rparr>
          | _ \<Rightarrow> a))"

definition command_for_clear_channel :: "app_screen \<Rightarrow> app_screen" where
  "command_for_clear_channel a = (case shown_channel (ts_client a) of
      None \<Rightarrow> a
    | Some c \<Rightarrow> a\<lparr>ts_modal := Some (ConfirmModal (ClearAction (cn_id c) (cn_name c)))\<rparr>)"

section \<open>Moving\<close>

definition move_server :: "int \<Rightarrow> app_screen \<Rightarrow> runtime_command list" where
  "move_server delta a =
     (case selected_id_after (map sp_id (cs_servers (ts_client a))) (shown_server_id (ts_client a)) delta of
        None \<Rightarrow> [] | Some i \<Rightarrow> [CmdSelectServer i])"

definition move_channel :: "int \<Rightarrow> app_screen \<Rightarrow> runtime_command list" where
  "move_channel delta a =
     (let current = (case shown_channel (ts_client a) of Some c \<Rightarrow> cn_id c | None \<Rightarrow> []) in
      case selected_id_after ([] # map cn_id (subscribed_channels (ts_client a))) (Some current) delta of
        None \<Rightarrow> []
      | Some i \<Rightarrow> if i = [] then [CmdSelectAllChannels] else [CmdSelectChannel i])"

definition move_request :: "tui_ext \<Rightarrow> int \<Rightarrow> app_screen \<Rightarrow> app_screen \<times> runtime_command list" where
  "move_request T delta a =
     (case selected_id_after (map q_id (screen_requests T a)) (map_option q_id (selected_request a)) delta of
        None \<Rightarrow> (a, [])
      | Some i \<Rightarrow>
          if ts_history_loaded a then (a\<lparr>ts_history_selected := Some i, ts_scroll := 0\<rparr>, [])
          else (a, [CmdSelectRequest i]))"

text \<open>The scroll is a \<open>u16\<close>: the delta is clamped to \<open>i16\<close> and the sum saturates.\<close>

definition scrolled :: "int \<Rightarrow> nat \<Rightarrow> nat" where
  "scrolled delta n = nat (max 0 (min 65535 (int n + max (-32768) (min 32767 delta))))"

definition move_selection :: "tui_ext \<Rightarrow> int \<Rightarrow> app_screen \<Rightarrow> app_screen \<times> runtime_command list" where
  "move_selection T delta a = (case ts_focus a of
      FocusServers \<Rightarrow> (a, move_server delta a)
    | FocusChannels \<Rightarrow> (a, move_channel delta a)
    | FocusRequests \<Rightarrow> move_request T delta a
    | FocusDetail \<Rightarrow> (a\<lparr>ts_scroll := scrolled delta (ts_scroll a)\<rparr>, []))"

section \<open>Keys\<close>

definition handle_main_key :: "tui_ext \<Rightarrow> key_event \<Rightarrow> app_screen \<Rightarrow> app_screen \<times> runtime_command list" where
  "handle_main_key T k a =
     (if is_key k CHR ''q'' then (a\<lparr>ts_quit := True\<rparr>, [])
      else if ke_code k = KTab then (a\<lparr>ts_focus := focus_next (ts_focus a)\<rparr>, [])
      else if is_key k CHR ''s'' then (a\<lparr>ts_focus := FocusServers\<rparr>, [])
      else if is_key k CHR '','' then (a\<lparr>ts_modal := Some (SettingsModal new_settings)\<rparr>, [CmdListDevices])
      else if is_key k CHR ''?'' then (a\<lparr>ts_modal := Some HelpModal\<rparr>, [])
      else if is_key k CHR ''/'' then (a\<lparr>ts_modal := Some (FilterModal (ts_filter a))\<rparr>, [])
      else if is_key k CHR ''R'' then (a, [CmdRefresh])
      else if is_key k CHR ''H'' then (a, [history_command None a])
      else if is_key k CHR '']'' then
        (a, case ts_cursor a of Some cursor \<Rightarrow> [history_command (Some cursor) a] | None \<Rightarrow> [])
      else if is_key k CHR ''0'' then (a, [CmdSelectAllChannels])
      else if is_key k CHR ''e'' then (a\<lparr>ts_modal := Some (EnrollmentModal (new_enrollment T))\<rparr>, [])
      else if is_key k CHR ''o'' then
        (case selected_request a of Some q \<Rightarrow> a\<lparr>ts_modal := Some (ActionsModal q 0)\<rparr> | None \<Rightarrow> a, [])
      else if ke_code k = KPageDown then move_selection T 10 a
      else if ke_code k = KPageUp then move_selection T (-10) a
      else if ke_code k = KHome \<and> ts_focus a = FocusDetail then (a\<lparr>ts_scroll := 0\<rparr>, [])
      else if ke_code k = KEnd \<and> ts_focus a = FocusDetail then (a\<lparr>ts_scroll := 65535\<rparr>, [])
      else if is_key k CHR ''m'' then (a\<lparr>ts_alerts := toggle_mute (ts_alerts a)\<rparr>, [])
      else if is_key k CHR ''a'' then command_for_option_kind T Approve a
      else if is_key k CHR ''r'' then command_for_option_kind T Reject a
      else if is_key k CHR ''d'' then command_for_option_kind T Dismiss a
      else if is_key k CHR ''V'' then (cycle_answer T (-1) a, [])
      else if is_key k CHR ''v'' then (cycle_answer T 1 a, [])
      else if is_key k CHR ''n'' then command_for_text_option T a
      else if is_key k CHR ''c'' then (command_for_clear_channel a, [])
      else if ke_code k = KEnter then (if ts_focus a = FocusRequests then a\<lparr>ts_focus := FocusDetail\<rparr> else a, [])
      else if ke_code k = KUp \<or> is_key k CHR ''k'' then move_selection T (-1) a
      else if ke_code k = KDown \<or> is_key k CHR ''j'' then move_selection T 1 a
      else if ke_code k = KLeft then (a\<lparr>ts_focus := FocusChannels\<rparr>, [])
      else if ke_code k = KRight then (a\<lparr>ts_focus := FocusRequests\<rparr>, [])
      else (a, []))"

definition handle_filter_key :: "rstr \<Rightarrow> key_event \<Rightarrow> app_screen \<Rightarrow> app_screen" where
  "handle_filter_key input k a =
     (if ke_code k = KEsc then a\<lparr>ts_modal := None\<rparr>
      else if ke_code k = KEnter then a\<lparr>ts_filter := trim input, ts_modal := None\<rparr>
      else a\<lparr>ts_modal := Some (FilterModal (input_key input k))\<rparr>)"

text \<open>The modal has been taken; a closed settings modal leaves what the key has put in its place.\<close>

definition handle_settings_key ::
  "settings_state \<Rightarrow> key_event \<Rightarrow> app_screen \<Rightarrow> app_screen \<times> runtime_command list" where
  "handle_settings_key g k a =
     (let s = ts_client a; n = length (ts_devices a); opened = (\<lambda>g a. a\<lparr>ts_modal := Some (SettingsModal g)\<rparr>) in
      if is_close_key k then (a, [])
      else if ke_code k = KTab then (opened (next_tab g s n) a, [])
      else if ke_code k = KBackTab then (opened (previous_tab g s n) a, [])
      else if ke_code k = KUp \<or> is_key k CHR ''k'' then (opened (move_setting (-1) g s n) a, [])
      else if ke_code k = KDown \<or> is_key k CHR ''j'' then (opened (move_setting 1 g s n) a, [])
      else if is_key k CHR ''m'' then (opened g (a\<lparr>ts_alerts := toggle_mute (ts_alerts a)\<rparr>), [])
      else if ke_code k = KEnter \<or> is_key k CHR '' '' then (opened g a, command_for_selected g s)
      else if is_key k CHR ''r'' then
        (case selected_device g (ts_devices a) of
            Some d \<Rightarrow> a\<lparr>ts_modal := Some (RenameModal (rename_form_of d))\<rparr> | None \<Rightarrow> opened g a, [])
      else if is_key k CHR ''x'' then
        (case selected_device g (ts_devices a) of
            Some d \<Rightarrow> a\<lparr>ts_modal := Some (ConfirmModal (RevokeAction (kd_id d) (kd_name d)))\<rparr> | None \<Rightarrow> opened g a, [])
      else if is_key k CHR ''f'' then
        (case find (\<lambda>p. Some (sp_id p) = shown_server_id s) (cs_servers s) of
            Some p \<Rightarrow> a\<lparr>ts_modal := Some (ConfirmModal (ForgetAction (sp_id p) (sp_name p)))\<rparr> | None \<Rightarrow> opened g a, [])
      else (opened g a, []))"

definition handle_actions_key ::
  "tui_ext \<Rightarrow> request \<Rightarrow> nat \<Rightarrow> key_event \<Rightarrow> app_screen \<Rightarrow> app_screen \<times> runtime_command list" where
  "handle_actions_key T q n k a =
     (let offered = submittable_options q; stay = (\<lambda>n. (a\<lparr>ts_modal := Some (ActionsModal q n)\<rparr>, [])) in
      if is_key k CHR ''n'' \<and> (case q_answer_field q of Some f \<Rightarrow> is_choice_field f | None \<Rightarrow> False) \<and> q_status q = Pending
      then (case asserted_request_digest q of
          None \<Rightarrow> (set_screen_error REQUEST_CHANGED_ERROR a, [])
        | Some digest \<Rightarrow> (case list_get offered n of
              Some p \<Rightarrow> (open_editor T q (choice_of p) digest a, [])
            | None \<Rightarrow> (a, [])))
      else if ke_code k = KEsc \<or> is_key k CHR ''q'' then (a, [])
      else if ke_code k = KUp \<or> is_key k CHR ''k'' then stay (n - 1)
      else if ke_code k = KDown \<or> is_key k CHR ''j'' then stay (min (n + 1) (length offered - 1))
      else if ke_code k = KEnter then
        (case list_get offered n of Some p \<Rightarrow> command_for_choice T q (choice_of p) a | None \<Rightarrow> stay n)
      else stay n)"

definition handle_modal_key :: "tui_ext \<Rightarrow> modal \<Rightarrow> key_event \<Rightarrow> app_screen \<Rightarrow> app_screen \<times> runtime_command list" where
  "handle_modal_key T m k a0 =
     (let a = a0\<lparr>ts_modal := None\<rparr> in
      case m of
        EnrollmentModal f \<Rightarrow> let (g, cs) = enrollment_key f k in (a\<lparr>ts_modal := Some (EnrollmentModal g)\<rparr>, cs)
      | OptionTextModal f \<Rightarrow>
          let (g, cs) = option_text_key f k in (a\<lparr>ts_modal := map_option OptionTextModal g\<rparr>, cs)
      | SettingsModal g \<Rightarrow> handle_settings_key g k a
      | RenameModal f \<Rightarrow> let (g, cs) = rename_key f k in (a\<lparr>ts_modal := map_option RenameModal g\<rparr>, cs)
      | FilterModal input \<Rightarrow>
          let a = handle_filter_key input k a in (a, if ke_code k = KEnter then [history_command None a] else [])
      | ActionsModal q n \<Rightarrow> handle_actions_key T q n k a
      | ConfirmModal action \<Rightarrow>
          if ke_code k = KEsc then (a, [])
          else (a\<lparr>ts_modal := Some (ConfirmModal action)\<rparr>, if ke_code k = KEnter then [action_command action] else [])
      | HelpModal \<Rightarrow> (if is_close_key k then a else a\<lparr>ts_modal := Some HelpModal\<rparr>, []))"

definition handle_key :: "tui_ext \<Rightarrow> key_event \<Rightarrow> app_screen \<Rightarrow> app_screen \<times> runtime_command list" where
  "handle_key T k a =
     (if \<not> is_pressed_key k then (a, [])
      else if is_interrupt_key k then (a\<lparr>ts_quit := True, ts_modal := None\<rparr>, [])
      else if ts_running a \<noteq> None \<and> ke_code k = KEnter then (a, [])
      else (case ts_modal a of Some m \<Rightarrow> handle_modal_key T m k a | None \<Rightarrow> handle_main_key T k a))"

section \<open>The loop\<close>

text \<open>
  The screen and the number of commands under way. An iteration applies the messages and results that have come, draws
  (which bounds the scroll), and starts the commands of at most one key; the commands it starts are listed.
\<close>

record tui_loop =
  lp_app :: app_screen
  lp_flight :: nat

definition startup_commands_for :: "app_screen \<Rightarrow> runtime_command list" where
  "startup_commands_for a = (if cs_is_registered (ts_client a) then [CmdRefresh, CmdConnectSync] else [])"

definition start_command :: "runtime_command \<Rightarrow> tui_loop \<Rightarrow> tui_loop" where
  "start_command c l = l\<lparr>lp_app := begin_command c (lp_app l), lp_flight := lp_flight l + 1\<rparr>"

definition start_tui :: "tui_ext \<Rightarrow> client_state \<Rightarrow> tui_loop \<times> runtime_command list" where
  "start_tui T s =
     (let a = new_app T s; cs = startup_commands_for a in (fold start_command cs \<lparr>lp_app = a, lp_flight = 0\<rparr>, cs))"

definition drain_runtime_messages :: "tui_ext \<Rightarrow> nat \<Rightarrow> client_message list \<Rightarrow> app_screen \<Rightarrow> app_screen" where
  "drain_runtime_messages T now ms a = fold (\<lambda>m a. snd (apply_runtime_message T m now a)) ms a"

definition drain_command_results :: "tui_ext \<Rightarrow> (rstr + command_outcome) list \<Rightarrow> app_screen \<Rightarrow> app_screen" where
  "drain_command_results T rs a = fold (\<lambda>r a. case r of
      Inl e \<Rightarrow> set_screen_error e a | Inr outcome \<Rightarrow> apply_runtime_outcome T outcome a) rs a"

fun start_commands :: "runtime_command list \<Rightarrow> tui_loop \<Rightarrow> tui_loop \<times> runtime_command list" where
  "start_commands [] l = (l, [])"
| "start_commands (c # cs) l =
     (if lp_flight l > 0 then (l\<lparr>lp_app := set_busy_notice (lp_app l)\<rparr>, [])
      else let (l', started) = start_commands cs (start_command c l) in (l', c # started))"

record loop_input =
  li_messages :: "client_message list"
  li_results :: "(rstr + command_outcome) list"
  li_now :: nat
  li_scroll :: nat
    \<comment> \<open>the most the drawn detail pane can scroll\<close>
  li_key :: "key_event option"

definition drawn_app :: "tui_ext \<Rightarrow> loop_input \<Rightarrow> tui_loop \<Rightarrow> app_screen" where
  "drawn_app T i l =
     (let a = drain_runtime_messages T (li_now i) (li_messages i) (lp_app l);
          a = drain_command_results T (li_results i) a in
      clamp_detail_scroll (li_scroll i) (tick_app (li_now i) a))"

definition loop_iteration :: "tui_ext \<Rightarrow> loop_input \<Rightarrow> tui_loop \<Rightarrow> tui_loop \<times> runtime_command list" where
  "loop_iteration T i l =
     (let a = drawn_app T i l; l = l\<lparr>lp_app := a, lp_flight := lp_flight l - length (li_results i)\<rparr> in
      case li_key i of
        None \<Rightarrow> (l, [])
      | Some k \<Rightarrow> let (a, cs) = handle_key T k a in start_commands cs (l\<lparr>lp_app := a\<rparr>))"

end
