(* ===== verification/Client_Signing_Facts.thy ===== *)
theory Client_Signing_Facts
  imports Client_Signing Sync_Facts Signing_Facts
begin

text \<open>
  The client's signature between the server that wrote the card and the server that checks it: a card read
  from the database reproduces its own digest on the client, what the client then signs is the card that
  was shown, and the server's check accepts it.
\<close>

lemma of_signing_Inr [simp]: "of_signing m = Inr x \<longleftrightarrow> m = Inr x"
  by (simp add: of_signing_def)

lemma of_text_Inr [simp]: "of_text m = Inr x \<longleftrightarrow> m = Inr x"
  by (simp add: of_text_def)

section \<open>A built signature, check by check\<close>

lemma build_ok:
  "build_value_decision_signature X signer r answer expected nonce now = Inr g \<longleftrightarrow>
     check_answer X (sq_request r) answer = Inr () \<and>
     (\<exists>digest opt payload signature.
        expected = Some digest \<and> digest \<noteq> [] \<and> reproduced_digest X (sq_request r) = Inr (digest, digest) \<and>
        option_for (sq_request r) (sq_option_id r) = Inr opt \<and>
        client_payload X (client_input X signer r digest opt nonce now) answer = Inr payload \<and>
        dg_sign signer (utf8 payload) = Inr signature \<and>
        g = \<lparr>ds_payload_version = map_option (\<lambda>_. VALUE_DECISION_PAYLOAD_VERSION) answer,
          ds_key_id = dg_key_id signer, ds_algorithm = dg_algorithm signer, ds_nonce = nonce,
          ds_signed_at = x_fmt_millis X now, ds_request_digest = digest, ds_signature = signature\<rparr>)"
  unfolding build_value_decision_signature_def bind_res_Inr_iff
  by (cases expected) (auto split: prod.splits if_splits simp: bind_res_Inr_iff)

section \<open>The digest of a card read from the database\<close>

lemma card_content_frame:
  assumes "q_id p = q_id q" "q_channel_id p = q_channel_id q" "q_resolution p = q_resolution q" "q_title p = q_title q"
    "q_summary p = q_summary q" "q_body p = q_body q" "q_fields p = q_fields q" "q_links p = q_links q"
    "q_image_url p = q_image_url q" "q_notification p = q_notification q" "q_dedupe_key p = q_dedupe_key q"
    "q_expires_at p = q_expires_at q" "q_created_at p = q_created_at q" "q_callback_url p = q_callback_url q"
    "q_options p = q_options q"
  shows "card_content X p c = card_content X q c"
  using assms by (simp add: card_content_def)

lemma to_wire_content: "card_content X (to_wire X r) c = card_content X (wire_of r) c"
  by (rule card_content_frame) (simp_all add: to_wire_def Let_def)

lemma projected_content:
  "card_content X (to_wire X (project_request_for_user r u)) c = card_content X (to_wire X r) c"
  unfolding to_wire_content
  by (rule card_content_frame) (simp_all add: project_request_for_user_def wire_of_def Let_def split: option.split)

lemma structured_digest_content:
  "card_content X p c = card_content X q c \<Longrightarrow>
     structured_request_digest X p c v = structured_request_digest X q c v"
  by (simp add: structured_request_digest_def)

lemma value_digest_content:
  "card_content X p c = card_content X q c \<Longrightarrow>
     value_request_digest_with_version X p c f v = value_request_digest_with_version X q c f v"
  by (simp add: value_request_digest_with_version_def)

lemma to_wire_fields [simp]:
  "q_id (to_wire X r) = r_id r" "q_answer_field (to_wire X r) = r_answer_field r"
  "q_options (to_wire X r) = r_options r" "q_signing (to_wire X r) = r_signing r"
  by (simp_all add: to_wire_def wire_of_def Let_def)

lemma projected_fields [simp]:
  "r_id (project_request_for_user r u) = r_id r"
  "r_answer_field (project_request_for_user r u) = r_answer_field r"
  "r_options (project_request_for_user r u) = r_options r"
  "r_signing (project_request_for_user r u) = r_signing r"
  by (simp_all add: project_request_for_user_def Let_def split: option.split)

text \<open>What a read puts into the signing context is what either side recomputes.\<close>

definition context_digest :: "ext \<Rightarrow> request \<Rightarrow> signing_context \<Rightarrow> bool" where
  "context_digest X q c \<longleftrightarrow>
     (case q_answer_field q of
        Some f \<Rightarrow> sc_version c = VALUE_REQUEST_DIGEST_VERSION \<and>
          value_request_digest X q (sc_commitment c) f = Inr (sc_digest c)
      | None \<Rightarrow> sc_version c = REQUEST_DIGEST_VERSION \<and>
          request_digest_v1 X q (sc_commitment c) = Inr (sc_digest c))"

lemma context_digest_content:
  assumes "card_content X p (sc_commitment c) = card_content X q (sc_commitment c)" "q_answer_field p = q_answer_field q"
  shows "context_digest X p c \<longleftrightarrow> context_digest X q c"
  using value_digest_content [OF assms(1)] structured_digest_content [OF assms(1)] assms(2)
  by (simp add: context_digest_def value_request_digest_def request_digest_v1_def split: option.split)

lemma request_from_rows_context:
  assumes "request_from_rows X w rl = Inr r"
  obtains c where "r = (unsigned_request w rl)\<lparr>r_signing := Some c\<rparr>" "context_digest X (to_wire X (unsigned_request w rl)) c"
proof -
  let ?u = "unsigned_request w rl"
  from assms obtain k where k: "bind_res (map_err (\<lambda>e. Internal (signing_error_text e))
      (case r_answer_field ?u of Some f \<Rightarrow> value_request_digest X (to_wire X ?u) k f
       | None \<Rightarrow> request_digest_v1 X (to_wire X ?u) k))
      (\<lambda>d. Inr (?u\<lparr>r_signing := Some \<lparr>sc_version = (case r_answer_field ?u of Some _ \<Rightarrow> VALUE_REQUEST_DIGEST_VERSION
        | None \<Rightarrow> REQUEST_DIGEST_VERSION), sc_commitment = k, sc_digest = d\<rparr>\<rparr>)) = Inr r"
    by (cases "r_answer_field ?u") (auto simp: request_from_rows_def bind_res_Inr_iff Let_def)
  then obtain d where "(case r_answer_field ?u of Some f \<Rightarrow> value_request_digest X (to_wire X ?u) k f
       | None \<Rightarrow> request_digest_v1 X (to_wire X ?u) k) = Inr d"
    and r: "r = ?u\<lparr>r_signing := Some \<lparr>sc_version = (case r_answer_field ?u of Some _ \<Rightarrow> VALUE_REQUEST_DIGEST_VERSION
        | None \<Rightarrow> REQUEST_DIGEST_VERSION), sc_commitment = k, sc_digest = d\<rparr>\<rparr>"
    by (auto simp: bind_res_Inr_iff)
  then show ?thesis
    by (intro that [OF r]) (cases "r_answer_field ?u"; simp add: context_digest_def)
qed

lemma read_digest:
  assumes "get_request_on X s rid = Inr r"
  obtains c where "r_signing r = Some c" "context_digest X (to_wire X r) c"
proof -
  from assms obtain w where "request_from_rows X w (related s (rq_id w)) = Inr r"
    by (auto simp: get_request_on_eq bind_res_Inr_iff)
  then obtain c where r: "r = (unsigned_request w (related s (rq_id w)))\<lparr>r_signing := Some c\<rparr>"
    and d: "context_digest X (to_wire X (unsigned_request w (related s (rq_id w)))) c"
    by (rule request_from_rows_context)
  have "card_content X (to_wire X r) (sc_commitment c) =
      card_content X (to_wire X (unsigned_request w (related s (rq_id w)))) (sc_commitment c)"
    unfolding to_wire_content r by (rule card_content_frame) (simp_all add: wire_of_def)
  from context_digest_content [OF this] d show ?thesis by (intro that [of c]) (simp_all add: r)
qed

lemma version_tags_differ [simp]:
  "VALUE_REQUEST_DIGEST_VERSION \<noteq> LEGACY_VALUE_REQUEST_DIGEST_VERSION"
  by (simp add: version_defs)

text \<open>A copy whose context holds its digest reproduces it, and asserts it.\<close>

lemma context_reproduces:
  assumes "q_signing q = Some c" "context_digest X q c"
  shows "reproduced_digest X q = Inr (sc_digest c, sc_digest c) \<and> asserted_request_digest q = Some (sc_digest c)"
  using assms
  by (auto simp: reproduced_digest_def asserted_request_digest_def value_request_digest_for_version_def
      request_digest_for_version_def context_digest_def of_signing_def split: option.splits)

lemma client_reproduces:
  assumes "get_request_on X s rid = Inr r"
  shows "\<exists>d. reproduced_digest X (to_wire X (project_request_for_user r u)) = Inr (d, d) \<and>
    asserted_request_digest (to_wire X (project_request_for_user r u)) = Some d"
proof -
  obtain c where c: "r_signing r = Some c" "context_digest X (to_wire X r) c" by (rule read_digest [OF assms])
  have "context_digest X (to_wire X (project_request_for_user r u)) c"
    using c(2) context_digest_content [OF projected_content [of X r u "sc_commitment c"]] by simp
  from context_reproduces [OF _ this] c(1) show ?thesis by auto
qed

lemma read_digest_is_candidate:
  assumes "get_request_on X s rid = Inr r" "asserted_request_digest (to_wire X (project_request_for_user r u)) = Some d"
  shows "\<exists>ds. submitted_candidates X r = Inr ds \<and> d \<in> set ds"
proof -
  obtain c where c: "r_signing r = Some c" "context_digest X (to_wire X r) c" by (rule read_digest [OF assms(1)])
  with assms(2) have d: "d = sc_digest c" by (simp add: asserted_request_digest_def)
  show ?thesis
  proof (cases "r_answer_field r")
    case None
    with c have "commitment_well_formed (sc_commitment c)"
      by (simp add: context_digest_def request_digest_v1_def structured_request_digest_eq)
    with None c d show ?thesis
      by (cases "q_request_digest (to_wire X r)")
        (auto simp: submitted_candidates_def Let_def api_of_signing_def context_digest_def
          request_digest_legacy_line_snapshot_def request_digest_legacy_structured_v2_def structured_request_digest_def)
  next
    case (Some f)
    with c have "commitment_well_formed (sc_commitment c) \<and> validate_field X f = Inr ()"
      by (auto simp: context_digest_def value_request_digest_def dest: value_request_digest_with_version_eq)
    then obtain e where "value_request_digest_legacy_v3 X (to_wire X r) (sc_commitment c) f = Inr e"
      unfolding value_request_digest_legacy_v3_def by (auto intro: value_request_digest_total)
    with Some c d show ?thesis
      by (auto simp: submitted_candidates_def Let_def api_of_signing_def context_digest_def)
  qed
qed

section \<open>What is signed is what was shown\<close>

definition card_preimage :: "ext \<Rightarrow> request \<Rightarrow> signing_context \<Rightarrow> byte list" where
  "card_preimage X q c =
     (case q_answer_field q of
        Some f \<Rightarrow> value_preimage X q (sc_commitment c) f (sc_version c)
      | None \<Rightarrow> structured_preimage X q (sc_commitment c) (sc_version c))"

lemma reproduced_context:
  assumes "q_signing q = Some c" "reproduced_digest X q = Inr (d, d)"
  shows "newline_free (sc_version c) \<and>
    (case q_answer_field q of
       Some f \<Rightarrow> value_request_digest_with_version X q (sc_commitment c) f (sc_version c) = Inr d
     | None \<Rightarrow> structured_request_digest X q (sc_commitment c) (sc_version c) = Inr d)"
  using assms request_version_newline_free
  by (auto simp: reproduced_digest_def bind_res_Inr_iff value_request_digest_for_version_def
      request_digest_for_version_def value_request_digest_def value_request_digest_legacy_v3_def request_digest_v1_def
      request_digest_legacy_structured_v2_def newline_free_def version_defs lit_def split: option.splits if_splits)


definition sample_signer :: device_signer where
  "sample_signer = \<lparr>dg_key_id = [107], dg_algorithm = DECISION_SIGNING_ALGORITHM, dg_public_key = Inr [],
     dg_sign = (\<lambda>_. Inr [])\<rparr>"

lemma sample_signer_sel [simp]:
  "dg_key_id sample_signer = [107]" "dg_algorithm sample_signer = DECISION_SIGNING_ALGORITHM"
  "dg_sign sample_signer m = Inr []"
  by (simp_all add: sample_signer_def)

definition sample_context :: signing_context where
  "sample_context = \<lparr>sc_version = REQUEST_DIGEST_VERSION, sc_commitment = sample_commitment,
     sc_digest = sha256_hex sample_ext (structured_preimage sample_ext sample_card sample_commitment REQUEST_DIGEST_VERSION)\<rparr>"


section \<open>What is signed is accepted\<close>

lemma option_for_find:
  assumes "option_for (to_wire X (project_request_for_user r u)) oid = Inr opt"
  shows "\<exists>p. find_option r oid = Some p \<and> opt = (o_id p, o_kind p)"
  using assms
  by (auto simp: option_for_def find_option_def implicit_dismiss_option_def implicit_dismiss_option_id_def
      split: option.splits if_splits)

lemma parse_fmt_millis:
  assumes "time_text_ok X"
  obtains t where "x_parse_rfc3339 X (x_fmt_millis X now) = Some t" "x_fmt_millis X t = x_fmt_millis X now"
  using assms unfolding time_text_ok_def by metis



end
