(* ===== verification/Client_Process_Facts.thy ===== *)
theory Client_Process_Facts
  imports Client_Process Client_Signing_Facts
begin

text \<open>
  What the client process guarantees: it is a refinement of the reducer, an answer is sent once and only as it was
  shown, and a revoked client forgets what it held.
\<close>

section \<open>Refinement of the reducer\<close>

lemma reducer_reachable_steps: "reducer_step\<^sup>*\<^sup>* r r' \<Longrightarrow> reducer_reachable r \<Longrightarrow> reducer_reachable r'"
  by (induction rule: rtranclp_induct) (auto intro: reducer_next)

lemma started_reducer:
  assumes "start_runtime W store fs kr = Inr st"
  shows "reducer_reachable (rn_reducer st)"
proof -
  have r: "reducer_reachable (case w of Some e \<Rightarrow> set_error e (new_reducer ps i sound) | None \<Rightarrow> new_reducer ps i sound)"
    for w ps i sound
    by (auto split: option.split intro: reducer_start reducer_next failed)
  with assms show ?thesis
    by (auto simp: start_runtime_def Let_def bind_res_Inr_iff case_prod_beta split: if_split_asm intro!: r)
qed


section \<open>Answers\<close>

lemma bind_op_Inr:
  "bind_op m f st = (Inr b, st') \<longleftrightarrow> (\<exists>a st1. m st = (Inr a, st1) \<and> f a st1 = (Inr b, st'))"
  by (auto simp: bind_op_def split: prod.splits sum.splits)

lemma lift_op_Inr: "lift_op r st = (Inr b, st') \<longleftrightarrow> r = Inr b \<and> st' = st"
  by (auto simp: lift_op_def)

lemma pure_op_Inr: "pure_op a st = (Inr b, st') \<longleftrightarrow> a = b \<and> st' = st"
  by (auto simp: pure_op_def)

lemma read_op_Inr: "read_op f st = (Inr b, st') \<longleftrightarrow> f st = b \<and> st' = st"
  by (auto simp: read_op_def)

lemmas op_Inr = bind_op_Inr lift_op_Inr pure_op_Inr read_op_Inr

text \<open>A signature that answers \<open>o1\<close>: for the digest the user interface gave, of a copy with that digest.\<close>

definition answers_as_shown :: "ext \<Rightarrow> submit_params \<Rightarrow> submission \<Rightarrow> bool" where
  "answers_as_shown X o1 b \<longleftrightarrow>
     sn_request_id b = su_request_id o1 \<and> sn_option_id b = su_option_id o1 \<and> sn_answer_value b = su_answer o1 \<and>
     sn_text b = trimmed_text (su_text o1) \<and> trim (su_expected o1) \<noteq> [] \<and>
     (\<exists>g q. sn_signature b = Some g \<and> ds_request_digest g = trim (su_expected o1) \<and>
       reproduced_digest X q = Inr (trim (su_expected o1), trim (su_expected o1)))"

lemma signature_for_facts:
  assumes "decision_signature_for W p q o1 st = (Inr sig, st')"
  shows "\<exists>g. sig = Some g \<and> ds_request_digest g = su_expected o1 \<and>
    reproduced_digest (cw_ext W) q = Inr (su_expected o1, su_expected o1)"
  using assms
  by (auto simp: decision_signature_for_def op_Inr map_ok_Inr_iff build_ok ok_or_Inr_iff)

lemma signed_answer_facts:
  assumes "signed_answer W server o1 st = (Inr (p, a, o2, sig), st')"
  shows "o2 = o1\<lparr>su_expected := trim (su_expected o1), su_text := trimmed_text (su_text o1)\<rparr> \<and>
    trim (su_expected o1) \<noteq> [] \<and> (\<exists>g q. sig = Some g \<and> ds_request_digest g = trim (su_expected o1) \<and>
       reproduced_digest (cw_ext W) q = Inr (trim (su_expected o1), trim (su_expected o1)))"
  using assms
  by (auto simp: signed_answer_def op_Inr Let_def split: if_splits dest!: signature_for_facts)

lemma send_call_run:
  "send_call W a c decode st =
     (map_err (api_failure W) (fst (perform (cw_urls W) a c decode (cw_attempt W (rn_tick st)))),
      meanwhile W (rn_tick st) (st\<lparr>rn_tick := rn_tick st + 1,
        rn_log := rn_log st @ [(a, c, snd (perform (cw_urls W) a c decode (cw_attempt W (rn_tick st))))]\<rparr>))"
  by (simp add: send_call_def bind_op_def next_tick_def write_op_def lift_op_def case_prod_beta Let_def)

lemma meanwhile_log [simp]: "rn_log (meanwhile W n st) = rn_log st"
  by (simp add: meanwhile_def Let_def case_prod_beta split: option.split prod.split bool.split)

lemma send_call_log:
  "send_call W a c decode st = (r, st') \<Longrightarrow>
     \<exists>n. rn_log st' = rn_log st @ [(a, c, n)] \<and> (call_method c \<noteq> GET \<longrightarrow> n \<le> 1)"
  using perform_bounds [where V = "cw_urls W" and a = a and c = c and decode = decode and answers = "cw_attempt W (rn_tick st)"]
  by (auto simp: send_call_run case_prod_beta split: if_splits)

abbreviation quiet :: "nod_api \<times> api_call \<times> nat \<Rightarrow> bool" where
  "quiet \<equiv> \<lambda>e. \<not> is_submission e"

lemma quiet_world: "meanwhile_ok W \<Longrightarrow> world_ok quiet W"
  by (simp add: world_ok_def)

lemma quiet_run:
  assumes "keeps (progresses quiet) m" and "m st = (r, st')"
  shows "\<exists>calls. rn_log st' = rn_log st @ calls \<and> filter is_submission calls = []"
  using keepsD [OF assms] by (auto simp: progresses_def list_all_iff filter_empty_conv)

lemma send_answer_calls:
  assumes "meanwhile_ok W" and "send_answer W p a o2 sig st = (r, st')"
  shows "\<exists>b n calls. rn_log st' = rn_log st @ (a, SubmitOption b, n) # calls \<and> filter is_submission calls = [] \<and> n \<le> 1 \<and>
    b = \<lparr>sn_answer_value = su_answer o2, sn_request_id = su_request_id o2, sn_option_id = su_option_id o2,
         sn_text = su_text o2, sn_signature = sig\<rparr>"
proof -
  let ?b = "\<lparr>sn_answer_value = su_answer o2, sn_request_id = su_request_id o2, sn_option_id = su_option_id o2,
         sn_text = su_text o2, sn_signature = sig\<rparr>"
  obtain r1 st1 where s1: "send_call W a (SubmitOption ?b) (dd_request (cw_decode W)) st = (r1, st1)" by fastforce
  from send_call_log [OF this] obtain n where n: "rn_log st1 = rn_log st @ [(a, SubmitOption ?b, n)]" "n \<le> 1"
    by (auto simp: call_method_def)
  define rest :: "(client_error + request) \<Rightarrow> request client_op" where
    "rest = (\<lambda>result. case result of
       Inr q \<Rightarrow> bind_op (apply_targeted_request (sp_id p) q) (\<lambda>_. pure_op q)
     | Inl e \<Rightarrow>
         bind_op (try_op (send_call W a (GetRequest (su_request_id o2)) (dd_request (cw_decode W)))) (\<lambda>current.
         bind_op (case current of Inr q \<Rightarrow> apply_targeted_request (sp_id p) q | Inl _ \<Rightarrow> pure_op ()) (\<lambda>_.
         lift_op (Inl e))))"
  have "keeps (progresses quiet) (rest r1)"
    unfolding rest_def by (intro evo.keeps_rules keeps_ops quiet_world assms(1))
  moreover have "rest r1 st1 = (r, st')"
    using assms(2) s1 by (simp add: send_answer_def rest_def bind_op_def try_op_def)
  ultimately obtain calls where "rn_log st' = rn_log st1 @ calls" "filter is_submission calls = []"
    using quiet_run by blast
  with n show ?thesis by auto
qed

lemma submit_calls:
  assumes ok: "meanwhile_ok W" and run: "submit_request_option W server o1 st = (r, st')"
  shows "\<exists>calls. rn_log st' = rn_log st @ calls \<and>
    (filter is_submission calls = [] \<or>
     (\<exists>a b n. filter is_submission calls = [(a, SubmitOption b, n)] \<and> n \<le> 1 \<and> answers_as_shown (cw_ext W) o1 b))"
proof -
  obtain x st1 where s1: "signed_answer W server o1 st = (x, st1)" by fastforce
  from quiet_run [OF progresses_signed [OF quiet_world [OF ok]] this]
  obtain before where before: "rn_log st1 = rn_log st @ before" "filter is_submission before = []" by blast
  show ?thesis
  proof (cases x)
    case (Inl e)
    with run s1 before show ?thesis by (auto simp: submit_request_option_def bind_op_def)
  next
    case (Inr y)
    then obtain p a o2 sig where y: "x = Inr (p, a, o2, sig)" by (cases y) auto
    with run s1 have "send_answer W p a o2 sig st1 = (r, st')" by (simp add: submit_request_option_def bind_op_def)
    from send_answer_calls [OF ok this] obtain b n calls where c:
      "rn_log st' = rn_log st1 @ (a, SubmitOption b, n) # calls" "filter is_submission calls = []" "n \<le> 1"
      "b = \<lparr>sn_answer_value = su_answer o2, sn_request_id = su_request_id o2, sn_option_id = su_option_id o2,
         sn_text = su_text o2, sn_signature = sig\<rparr>" by blast
    moreover from signed_answer_facts [of W server o1 st p a o2 sig st1] s1 y c(4)
    have "answers_as_shown (cw_ext W) o1 b" by (auto simp: answers_as_shown_def)
    ultimately show ?thesis using before
      by (intro exI [of _ "before @ (a, SubmitOption b, n) # calls"]) (auto simp: is_submission_def)
  qed
qed

lemma handle_rpc_log:
  assumes "handle_rpc W c st = (r, st')" and "handle_method W c st = (r1, st1)"
  shows "rn_log st' = rn_log st1"
  using assms
  by (cases r1) (auto simp: handle_rpc_def bind_op_def try_op_def pure_op_def on_reducer_def write_op_def emit_state_def
      client_state_now_def read_op_def tell_def)

lemma answer_method:
  assumes "is_answer c" and "meanwhile_ok W" and "handle_method W c st = (r, st')"
  shows "\<exists>calls o1. rn_log st' = rn_log st @ calls \<and> (c = RpcSubmitOption o1 \<or> (\<exists>server. c = RpcSubmitRequestOption server o1)) \<and>
    (filter is_submission calls = [] \<or>
     (\<exists>a b n. filter is_submission calls = [(a, SubmitOption b, n)] \<and> n \<le> 1 \<and> answers_as_shown (cw_ext W) o1 b))"
proof -
  have give: "\<exists>r0. m st = (r0, st')" if "give f m st = (r, st')" for f :: "request \<Rightarrow> rpc_value" and m
    using that by (auto simp: give_def bind_op_def pure_op_def split: prod.splits sum.splits)
  from assms(1) consider server o1 where "c = RpcSubmitRequestOption server o1" | o1 where "c = RpcSubmitOption o1"
    by (cases c) (auto simp: is_answer_def)
  then show ?thesis
  proof cases
    case 1
    with assms(3) give obtain r0 where "submit_request_option W server o1 st = (r0, st')"
      by (auto simp: handle_method_def)
    from submit_calls [OF assms(2) this] 1 show ?thesis by blast
  next
    case 2
    with assms(3) give obtain r0 where run: "submit_option W o1 st = (r0, st')"
      by (auto simp: handle_method_def)
    then have "rn_log st' = rn_log st \<or> (\<exists>server. submit_request_option W server o1 st = (r0, st'))"
      by (auto simp: submit_option_def selected_server_profile_def bind_op_def read_op_def lift_op_def split: prod.splits sum.splits)
    with submit_calls [OF assms(2)] 2 show ?thesis by (elim disjE exE) (fastforce, blast)
  qed
qed

text \<open>
  C11 (safety). A decision leaves the client at most once per call, and only as the user asked for it: of the calls one remote
  call adds, at most one is a submission, it is sent at most once whatever the network does, and it carries
  the option, answer and note of the call and a signature whose digest is the one the user interface rendered,
  made for a copy whose content has that digest. No other remote call sends a submission.
\<close>

theorem answer_sent_once_as_shown:
  assumes "meanwhile_ok W" and "handle_rpc W c st = (r, st')"
  shows "\<exists>calls. rn_log st' = rn_log st @ calls \<and>
    (filter is_submission calls = [] \<or>
     (\<exists>a b n o1. filter is_submission calls = [(a, SubmitOption b, n)] \<and> n \<le> 1 \<and> answers_as_shown (cw_ext W) o1 b \<and>
       (c = RpcSubmitOption o1 \<or> (\<exists>server. c = RpcSubmitRequestOption server o1))))"
proof -
  obtain r1 st1 where m: "handle_method W c st = (r1, st1)" by fastforce
  then have log: "rn_log st' = rn_log st1" by (rule handle_rpc_log [OF assms(2)])
  show ?thesis
  proof (cases "is_answer c")
    case True
    from answer_method [OF this assms(1) m] log show ?thesis by auto
  next
    case False
    from quiet_run [OF progresses_method [OF quiet_world [OF assms(1)] this] m] log show ?thesis by auto
  qed
qed

section \<open>Revocation\<close>

definition forgotten :: "reducer \<Rightarrow> bool" where
  "forgotten r \<longleftrightarrow> re_requests r = [] \<and> re_known_pending r = [] \<and> re_request_revisions r = [] \<and>
     cs_requests (re_state r) = [] \<and> cs_pending_counts (re_state r) = [] \<and> cs_current_user (re_state r) = None \<and>
     cs_devices (re_state r) = [] \<and> cs_channels (re_state r) = [] \<and> cs_selected_request_id (re_state r) = None"

lemma for_tell_run: "for_op (tell_removed ctx) is st = (Inr (), st\<lparr>rn_out := rn_out st @ map (NotificationRemoved (sx_server_id ctx)) is\<rparr>)"
  by (induction "is" arbitrary: st) (simp_all add: pure_op_def bind_op_def tell_removed_def tell_def write_op_def)

lemma revoke_run:
  "\<exists>s. revoke_registration ctx st = (Inr (), st\<lparr>
     rn_reducer := set_sync_phase Revoked (set_error revoked_text (clear_loaded_data (rn_reducer st))),
     rn_out := rn_out st @ map (NotificationRemoved (sx_server_id ctx)) (pending_request_ids (rn_reducer st)) @
       [StateMessage s, SyncStatus False,
        StateMessage (re_state (set_sync_phase Revoked (set_error revoked_text (clear_loaded_data (rn_reducer st))))),
        AuthRevoked]\<rparr>)"
  by (intro exI [of _ "re_state (set_error revoked_text (clear_loaded_data (rn_reducer st)))"])
    (simp add: revoke_registration_def bind_op_def read_op_def on_reducer_def write_op_def client_state_now_def
      for_tell_run tell_def set_phase_def set_sync_phase_def)

lemma revoked_fields:
  "forgotten (set_sync_phase Revoked (set_error revoked_text (clear_loaded_data r)))"
  "cs_sync_phase (re_state (set_sync_phase Revoked r)) = Revoked"
  "\<not> cs_is_sync_connected (re_state (set_sync_phase Revoked r))"
  "cs_last_error (re_state (set_sync_phase Revoked (set_error e r))) = Some e"
  by (simp_all add: forgotten_def set_sync_phase_def set_error_def clear_loaded_data_def)

lemma report_run: "fst (report_failure r b st) = Inr ()"
  by (simp add: report_failure_def pure_op_def tell_def write_op_def split: sum.split)

lemma sync_loop_revoked:
  assumes "sync_loop W ctx has f cs st = (Inr (True, delays), st')"
  shows "\<exists>st1 c e st2. st' = snd (revoke_registration ctx st1) \<and> length delays < length cs \<and> c = cs ! length delays \<and>
    run_connection W ctx (ln_handshake c) (ln_events c) st2 = (Inr (Some (Inl e)), st1) \<and> is_unauthorized e \<and>
    (\<forall>more. sync_loop W ctx has f (take (Suc (length delays)) cs @ more) st = (Inr (True, delays), st'))"
  using assms
proof (induction cs arbitrary: has f st delays)
  case (Cons c cs)
  obtain st2 where st2: "set_phase Connecting st = (Inr (), st2)"
    by (simp add: set_phase_def bind_op_def on_reducer_def write_op_def client_state_now_def read_op_def tell_def)
  from Cons.prems st2 obtain result st1 where conn:
    "run_connection W ctx (ln_handshake c) (ln_events c) st2 = (Inr result, st1)"
    by (auto simp: bind_op_Inr)
  from Cons.prems st2 conn obtain r where r: "result = Some r"
    by (cases result) (auto simp: bind_op_Inr pure_op_Inr)
  show ?case
  proof (cases "is_revocation r")
    case True
    then obtain e where e: "r = Inl e" "is_unauthorized e" by (auto simp: is_revocation_def split: sum.splits)
    obtain st3 where st3: "revoke_registration ctx st1 = (Inr (), st3)" using revoke_run by blast
    have "sync_loop W ctx has f (c # more) st = (Inr (True, []), st3)" for more
      using st2 conn r True st3 by (simp add: bind_op_def pure_op_def)
    with Cons.prems have "delays = []" "st' = st3" by (auto simp del: sync_loop.simps)
    moreover have "\<forall>more. sync_loop W ctx has f (take 1 (c # cs) @ more) st = (Inr (True, []), st3)"
      using \<open>\<And>more. sync_loop W ctx has f (c # more) st = _\<close> by (simp del: sync_loop.simps)
    ultimately show ?thesis using conn r e st3
      by (intro exI [of _ st1] exI [of _ c] exI [of _ e] exI [of _ st2]) (simp del: sync_loop.simps)
  next
    case False
    obtain st3 where st3: "report_failure r has st1 = (Inr (), st3)"
      using report_run by (metis prod.collapse)
    let ?has = "has \<or> cs_is_sync_connected (re_state (rn_reducer st3))"
    let ?f = "if heartbeat_interval \<le> ln_elapsed c then 0 else saturating_succ f"
    obtain st4 where st4: "set_phase Offline st3 = (Inr (), st4)"
      by (simp add: set_phase_def bind_op_def on_reducer_def write_op_def client_state_now_def read_op_def tell_def)
    have unfold: "sync_loop W ctx has f (c # more) st =
        bind_op (sync_loop W ctx ?has ?f more)
          (\<lambda>(finished, delays). pure_op (finished, reconnect_delay ?f (ln_random c) # delays)) st4" for more
      using st2 conn r False st3 st4 by (simp add: bind_op_def client_state_now_def read_op_def Let_def)
    from Cons.prems obtain ds where ds: "sync_loop W ctx ?has ?f cs st4 = (Inr (True, ds), st')"
      "delays = reconnect_delay ?f (ln_random c) # ds"
      unfolding unfold by (auto simp: bind_op_Inr pure_op_Inr)
    from Cons.IH [OF ds(1)] obtain st5 c' e st6 where IH: "st' = snd (revoke_registration ctx st5)"
      "length ds < length cs" "c' = cs ! length ds"
      "run_connection W ctx (ln_handshake c') (ln_events c') st6 = (Inr (Some (Inl e)), st5)" "is_unauthorized e"
      "\<forall>more. sync_loop W ctx ?has ?f (take (Suc (length ds)) cs @ more) st4 = (Inr (True, ds), st')" by blast
    have "sync_loop W ctx has f (take (Suc (length delays)) (c # cs) @ more) st = (Inr (True, delays), st')" for more
      using IH(6) by (simp add: ds(2) unfold bind_op_def pure_op_def del: sync_loop.simps)
    with IH ds(2) show ?thesis
      by (intro exI [of _ st5] exI [of _ c'] exI [of _ e] exI [of _ st6]) (simp del: sync_loop.simps)
  qed
qed (simp add: pure_op_def)


section \<open>Reconnecting\<close>

lemma unat_saturating_succ: "unat (saturating_succ n) = min (unat n + 1) (2 ^ 32 - 1)"
proof (cases "n = - 1")
  case True
  then show ?thesis by (simp add: saturating_succ_def unsigned_minus_1_eq_mask mask_eq_exp_minus_1)
next
  case False
  have top: "unat (- 1 :: 32 word) = 2 ^ 32 - 1" by (simp add: unsigned_minus_1_eq_mask mask_eq_exp_minus_1)
  have "unat n \<noteq> 2 ^ 32 - 1"
  proof
    assume "unat n = 2 ^ 32 - 1"
    with top have "unat n = unat (- 1 :: 32 word)" by simp
    then have "n = - 1" by (rule unsigned_word_eqI)
    with False show False ..
  qed
  moreover have "unat n < 2 ^ 32" using unsigned_less [of n] by simp
  ultimately show ?thesis using False by (simp add: saturating_succ_def unat_word_ariths)
qed

lemma unat_reconnect_delay:
  "unat (reconnect_delay failures random) = min (2 ^ min (unat failures) 5 * 1000 + unat random * 4) 30000"
proof -
  let ?k = "min (unat failures) 5"
  have k: "unat (min failures 5) = ?k"
    by (simp add: min_def word_le_nat_alt)
  have random: "unat random < 256" using unsigned_less [of random] by simp
  have sum: "unat (of_nat m * 1000 + ucast random * 4 :: 64 word) = m * 1000 + unat random * 4" if "m \<le> 32" for m
    using that random by (simp add: unat_word_ariths unsigned_of_nat take_bit_nat_eq_self unsigned_ucast_eq)
  have "?k \<in> {0, 1, 2, 3, 4, 5}" by auto
  then have seconds: "push_bit ?k 1 = (of_nat (2 ^ ?k) :: 64 word)"
    by auto
  have pow: "(2 :: nat) ^ ?k \<le> 32" using power_increasing [of ?k 5 "2 :: nat"] by simp
  have cap: "unat (min a 30000) = min (unat a) 30000" for a :: "64 word"
    by (simp add: min_def word_le_nat_alt)
  show ?thesis
    unfolding reconnect_delay_def Let_def k seconds cap sum [OF pow] ..
qed

lemma sync_loop_step:
  assumes "sync_loop W ctx has f (c # cs) st = (Inr (finished, delays), st')"
  defines "f' \<equiv> if heartbeat_interval \<le> ln_elapsed c then 0 else saturating_succ f"
  shows "delays = [] \<or> (\<exists>has' st4 ds. delays = reconnect_delay f' (ln_random c) # ds \<and>
    sync_loop W ctx has' f' cs st4 = (Inr (finished, ds), st'))"
  using assms(1) unfolding f'_def
  by (auto simp: bind_op_Inr pure_op_Inr Let_def split: option.splits if_splits)

definition backoff :: "nat \<Rightarrow> nat" where
  "backoff k = min (2 ^ min k 5 * 1000) 30000"

lemma backoff_mono: "min a 5 \<le> min b 5 \<Longrightarrow> backoff a \<le> backoff b"
  using power_increasing [of "min a 5" "min b 5" "2 :: nat"] unfolding backoff_def by (intro min.mono) simp_all

lemma backoff_delay: "backoff (unat f) \<le> unat (reconnect_delay f j)"
  unfolding backoff_def unat_reconnect_delay by (intro min.mono) simp_all

lemma delay_bounds: "1000 \<le> unat (reconnect_delay f j)" "unat (reconnect_delay f j) \<le> 30000"
proof -
  have "(1 :: nat) \<le> 2 ^ min (unat f) 5" by simp
  then show "1000 \<le> unat (reconnect_delay f j)" unfolding unat_reconnect_delay by linarith
qed (simp add: unat_reconnect_delay)

lemma sync_delays:
  assumes "sync_loop W ctx has f cs st = (Inr (finished, delays), st')"
  shows "length delays \<le> length cs \<and> (\<forall>i < length delays. 1000 \<le> unat (delays ! i) \<and> unat (delays ! i) \<le> 30000 \<and>
    ((\<forall>j \<le> i. ln_elapsed (cs ! j) < heartbeat_interval) \<longrightarrow>
      backoff (unat f + i + 1) \<le> unat (delays ! i)))"
  using assms
proof (induction cs arbitrary: has f st delays)
  case (Cons c cs)
  let ?f = "if heartbeat_interval \<le> ln_elapsed c then 0 else saturating_succ f"
  show ?case
  proof (cases "delays = []")
    case False
    with sync_loop_step [OF Cons.prems] obtain has' st4 ds where ds: "delays = reconnect_delay ?f (ln_random c) # ds"
      "sync_loop W ctx has' ?f cs st4 = (Inr (finished, ds), st')" by auto
    note IH = Cons.IH [OF ds(2)]
    have "1000 \<le> unat (delays ! i) \<and> unat (delays ! i) \<le> 30000 \<and>
      ((\<forall>j \<le> i. ln_elapsed ((c # cs) ! j) < heartbeat_interval) \<longrightarrow>
        backoff (unat f + i + 1) \<le> unat (delays ! i))" if i: "i < length delays" for i
    proof (cases i)
      case 0
      have "backoff (unat f + 1) \<le> backoff (unat ?f)" if "ln_elapsed c < heartbeat_interval"
        using that by (intro backoff_mono) (simp add: unat_saturating_succ)
      then show ?thesis
        using 0 ds(1) delay_bounds [of ?f "ln_random c"] backoff_delay [of ?f "ln_random c"] by auto
    next
      case (Suc k)
      have "backoff (unat f + i + 1) \<le> backoff (unat ?f + k + 1)" if "ln_elapsed c < heartbeat_interval"
        using that Suc by (intro backoff_mono) (simp add: unat_saturating_succ)
      moreover have "ln_elapsed c < heartbeat_interval \<and> (\<forall>j \<le> k. ln_elapsed (cs ! j) < heartbeat_interval)"
        if "\<forall>j \<le> i. ln_elapsed ((c # cs) ! j) < heartbeat_interval"
        using that [THEN spec, of 0] that [THEN spec, of "Suc _"] Suc by auto
      ultimately show ?thesis using IH [THEN conjunct2, THEN spec, of k] i Suc ds(1) by fastforce
    qed
    with IH ds(1) show ?thesis by simp
  qed simp
qed (simp add: pure_op_def)

text \<open>
  C28 (bounds). A client without a connection backs off. The delay before a reconnect, computed with machine integers, is
  exactly the exponential one with its jitter: no step of it wraps. It is never under a second nor over thirty, and in a row of
  connections that each ended within the heartbeat interval the delays grow at least as powers of two up to
  the limit.
\<close>

theorem reconnects_back_off:
  assumes "sync_loop W ctx has 0 cs st = (Inr (finished, delays), st')"
  shows "unat (reconnect_delay f j) = min (2 ^ min (unat f) 5 * 1000 + unat j * 4) 30000 \<and>
    length delays \<le> length cs \<and>
    (\<forall>i < length delays. 1000 \<le> unat (delays ! i) \<and> unat (delays ! i) \<le> 30000) \<and>
    (\<forall>i < length delays. (\<forall>j \<le> i. ln_elapsed (cs ! j) < heartbeat_interval) \<longrightarrow>
      min (2 ^ min (i + 1) 5 * 1000) 30000 \<le> unat (delays ! i))"
  using sync_delays [OF assms] unat_reconnect_delay [of f j] by (simp add: backoff_def)

end
