(* ===== verification/Tui_Facts.thy ===== *)
theory Tui_Facts
  imports Tui Client_Process_Facts
begin

text \<open>
  What the terminal client asks of the client process: runs of its loop, what the screen has shown when a
  command is given, enrollment, one command at a time, and the composition with the client process.
\<close>

section \<open>Runs\<close>

text \<open>For every iteration: the screen drawn, the results applied before it, the commands its key starts.\<close>

type_synonym tui_trace = "(app_screen \<times> (rstr + command_outcome) list \<times> runtime_command list) list"

inductive tui_run :: "tui_ext \<Rightarrow> client_state \<Rightarrow> tui_loop \<Rightarrow> tui_trace \<Rightarrow> bool" for T s where
  tui_started: "start_tui T s = (l, cs) \<Longrightarrow> tui_run T s l [(new_app T s, [], cs)]"
| tui_iterated: "tui_run T s l trace \<Longrightarrow> \<not> ts_quit (lp_app l) \<Longrightarrow> length (li_results i) \<le> lp_flight l \<Longrightarrow>
    loop_iteration T i l = (l', cs) \<Longrightarrow> tui_run T s l' (trace @ [(drawn_app T i l, li_results i, cs)])"

section \<open>What a command rests on\<close>

text \<open>An answer to \<open>q\<close>: with the digest \<open>q\<close> asserts, for an option it offers.\<close>

definition answers_card :: "request \<Rightarrow> rstr \<Rightarrow> rstr \<Rightarrow> rstr \<Rightarrow> answer_value option \<Rightarrow> bool" where
  "answers_card q i digest p v \<longleftrightarrow> q_id q = i \<and> asserted_request_digest q = Some digest \<and>
     p \<in> o_id ` set (submittable_options q) \<and> (v = None \<longleftrightarrow> q_answer_field q = None) \<and>
     (\<forall>f. q_answer_field q = Some f \<longrightarrow> is_choice_field f \<and> q_status q = Pending)"

definition answers_screen :: "app_screen set \<Rightarrow> rstr \<Rightarrow> rstr \<Rightarrow> rstr \<Rightarrow> answer_value option \<Rightarrow> bool" where
  "answers_screen S i digest p v \<longleftrightarrow> (\<exists>b \<in> S. \<exists>q. selected_request b = Some q \<and> answers_card q i digest p v)"

text \<open>The dialogue's target, by the name the dialogue gives it, was on the screen.\<close>

definition action_shown :: "app_screen set \<Rightarrow> destructive_action \<Rightarrow> bool" where
  "action_shown S action \<longleftrightarrow> (\<exists>b \<in> S. case action of
      ClearAction i name \<Rightarrow> \<exists>c \<in> set (cs_channels (ts_client b)). cn_id c = i \<and> cn_name c = name
    | ForgetAction i name \<Rightarrow> \<exists>p \<in> set (cs_servers (ts_client b)). sp_id p = i \<and> sp_name p = name
    | RevokeAction i name \<Rightarrow> \<exists>d \<in> set (ts_devices b). kd_id d = i \<and> kd_name d = name)"

fun modal_ok :: "app_screen set \<Rightarrow> modal \<Rightarrow> bool" where
  "modal_ok S (EnrollmentModal f) = (ef_sound f < length SOUND_OPTIONS)"
| "modal_ok S (OptionTextModal f) = answers_screen S (ot_request_id f) (ot_digest f) (ot_option_id f) (ot_answer f)"
| "modal_ok S (SettingsModal g) = (sg_tab g = TabSound \<longrightarrow> sg_index g < length SOUND_OPTIONS)"
| "modal_ok S (RenameModal f) = True"
| "modal_ok S (FilterModal i) = True"
| "modal_ok S HelpModal = True"
| "modal_ok S (ActionsModal q n) = (\<exists>b \<in> S. selected_request b = Some q)"
| "modal_ok S (ConfirmModal action) = action_shown S action"

definition screen_ok :: "app_screen set \<Rightarrow> app_screen \<Rightarrow> bool" where
  "screen_ok S a \<longleftrightarrow> (\<forall>m. ts_modal a = Some m \<longrightarrow> modal_ok S m)"

definition enrollable :: "enroll_params \<Rightarrow> bool" where
  "enrollable p \<longleftrightarrow> ep_base_url p \<noteq> [] \<and> ep_device_name p \<noteq> [] \<and> 8 \<le> strlen (ep_code p) \<and>
     (\<exists>sound \<in> set SOUND_OPTIONS. ep_sound p = Some sound)"

definition is_destructive :: "runtime_command \<Rightarrow> bool" where
  "is_destructive c \<longleftrightarrow> (\<exists>i. c = CmdClearChannel i \<or> c = CmdForgetServer i \<or> c = CmdRevokeDevice i)"

definition confirmed :: "app_screen set \<Rightarrow> app_screen \<Rightarrow> runtime_command \<Rightarrow> bool" where
  "confirmed S a c \<longleftrightarrow> (\<exists>action. ts_modal a = Some (ConfirmModal action) \<and> action_command action = c \<and> action_shown S action)"

definition command_ok :: "app_screen set \<Rightarrow> app_screen \<Rightarrow> runtime_command \<Rightarrow> bool" where
  "command_ok S a c \<longleftrightarrow> (is_destructive c \<longrightarrow> confirmed S a c) \<and>
     (\<forall>p. c = CmdSubmitOption p \<longrightarrow> answers_screen S (su_request_id p) (su_expected p) (su_option_id p) (su_answer p)) \<and>
     (\<forall>p. c = CmdEnroll p \<longrightarrow> enrollable p) \<and> (\<forall>sound. c = CmdSetSound sound \<longrightarrow> sound \<in> set SOUND_OPTIONS)"

text \<open>A key's effect: it leaves the client state alone, the modal and the commands are well founded.\<close>

definition key_ok :: "app_screen set \<Rightarrow> app_screen \<Rightarrow> app_screen \<times> runtime_command list \<Rightarrow> bool" where
  "key_ok S a r \<longleftrightarrow> ts_client (fst r) = ts_client a \<and> screen_ok S (fst r) \<and> list_all (command_ok S a) (snd r)"

lemma screen_ok_None [simp]: "ts_modal a = None \<Longrightarrow> screen_ok S a"
  by (simp add: screen_ok_def)

lemma screen_ok_same: "ts_modal a' = ts_modal a \<Longrightarrow> screen_ok S a' = screen_ok S a"
  by (simp add: screen_ok_def)

lemma screen_ok_modal [simp]: "screen_ok S (a\<lparr>ts_modal := Some m\<rparr>) = modal_ok S m"
  by (simp add: screen_ok_def)

lemma key_ok_if: "(b \<Longrightarrow> key_ok S a x) \<Longrightarrow> (\<not> b \<Longrightarrow> key_ok S a y) \<Longrightarrow> key_ok S a (if b then x else y)"
  by simp

lemma plain_command [simp]: "command_ok S a CmdRefresh" "command_ok S a CmdConnectSync" "command_ok S a (CmdSelectServer i)"
  "command_ok S a (CmdSelectChannel i)" "command_ok S a CmdSelectAllChannels" "command_ok S a (CmdQueryHistory v h)"
  "command_ok S a (CmdSelectRequest i)" "command_ok S a (CmdSetSubscription i x)" "command_ok S a CmdListDevices"
  "command_ok S a (CmdRenameDevice i name)" "command_ok S a (history_command before b)"
  by (simp_all add: command_ok_def is_destructive_def history_command_def)

lemma answer_value_None: "answer_value_of T q a = None \<longleftrightarrow> q_answer_field q = None"
  by (simp add: answer_value_of_def split: option.split)

lemma option_for_kind_offered:
  assumes "option_for_kind q k = Some c"
  shows "oc_id c \<in> o_id ` set (submittable_options q)"
proof -
  have found: "oc_id (choice_of p) \<in> o_id ` set (submittable_options q)" if "find P (q_options q) = Some p" for P p
    using that by (auto simp: choice_of_def submittable_options_def find_Some_iff)
  show ?thesis
  proof (cases "find (\<lambda>p. o_kind p = k) (q_options q)")
    case (Some p)
    with assms found [OF Some] show ?thesis by (simp add: option_for_kind_def)
  next
    case None
    show ?thesis
    proof (cases "find (\<lambda>p. Some (o_kind p) = with_text_variant k) (q_options q)")
      case (Some p)
      with None assms found [OF Some] show ?thesis by (simp add: option_for_kind_def)
    next
      case 2: None
      with None assms show ?thesis
        by (auto simp: option_for_kind_def default_dismiss_option_def submittable_options_def split: if_splits)
    qed
  qed
qed

lemma list_get_offered: "list_get (submittable_options q) n = Some p \<Longrightarrow> oc_id (choice_of p) \<in> o_id ` set (submittable_options q)"
  by (auto simp: list_get_def choice_of_def split: if_splits)

lemma option_answer_card: "q_answer_field q = Some f \<Longrightarrow> p \<in> set (q_options q) \<Longrightarrow> o_id p \<in> o_id ` set (submittable_options q)"
  by (simp add: submittable_options_def)

text \<open>The modal has been taken when a key reaches it, so the screen of the commands and the one changed differ.\<close>

definition same_screen :: "app_screen \<Rightarrow> app_screen \<Rightarrow> bool" where
  "same_screen a0 a \<longleftrightarrow> ts_client a = ts_client a0 \<and> ts_devices a = ts_devices a0 \<and> ts_history a = ts_history a0 \<and>
     ts_history_selected a = ts_history_selected a0"

lemma selected_same: "same_screen a0 a \<Longrightarrow> selected_request a = selected_request a0"
  by (simp add: same_screen_def selected_request_def cong: option.case_cong)

lemma answers_screenI:
  assumes "b \<in> S" "selected_request b = Some q" "asserted_request_digest q = Some digest"
    "p \<in> o_id ` set (submittable_options q)" "v = None \<longleftrightarrow> q_answer_field q = None"
    "\<And>f. q_answer_field q = Some f \<Longrightarrow> is_choice_field f \<and> q_status q = Pending"
  shows "answers_screen S (q_id q) digest p v"
  unfolding answers_screen_def answers_card_def using assms by (intro bexI [OF _ assms(1)] exI [of _ q]) simp

lemma quiet_key: "screen_ok S a' \<Longrightarrow> ts_client a' = ts_client a0 \<Longrightarrow> key_ok S a0 (a', [])"
  by (simp add: key_ok_def)

lemma error_key: "screen_ok S a \<Longrightarrow> ts_client a = ts_client a0 \<Longrightarrow> key_ok S a0 (set_screen_error e a, [])"
  by (simp add: key_ok_def set_screen_error_def screen_ok_def)

lemma editor_key:
  assumes "b \<in> S" "selected_request b = Some q" "asserted_request_digest q = Some digest"
    "oc_id c \<in> o_id ` set (submittable_options q)" "ts_client a = ts_client a0"
    "\<And>f. q_answer_field q = Some f \<Longrightarrow> is_choice_field f \<and> q_status q = Pending"
  shows "key_ok S a0 (open_editor T q c digest a, [])"
  using answers_screenI [OF assms(1-4) answer_value_None assms(6)] assms(5)
  by (simp add: key_ok_def open_editor_def form_from_choice_def)

lemma submit_key:
  assumes "b \<in> S" "selected_request b = Some q" "asserted_request_digest q = Some digest"
    "p \<in> o_id ` set (submittable_options q)" "screen_ok S a" "ts_client a = ts_client a0"
    "\<And>f. q_answer_field q = Some f \<Longrightarrow> is_choice_field f \<and> q_status q = Pending"
  shows "key_ok S a0 (a, [CmdSubmitOption \<lparr>su_answer = answer_value_of T q a, su_expected = digest, su_request_id = q_id q,
      su_option_id = p, su_text = t\<rparr>])"
  using answers_screenI [OF assms(1-4) answer_value_None assms(7)] assms(5,6)
  by (simp add: key_ok_def command_ok_def is_destructive_def)

lemma choice_key:
  assumes "b \<in> S" "selected_request b = Some q" and "oc_id c \<in> o_id ` set (submittable_options q)"
    and "screen_ok S a" and "ts_client a = ts_client a0"
  shows "key_ok S a0 (command_for_choice T q c a)"
  unfolding command_for_choice_def
proof (intro key_ok_if error_key assms(4,5))
  assume may: "\<not> ((case q_answer_field q of Some f \<Rightarrow> \<not> is_choice_field f | None \<Rightarrow> False) \<or>
      list_ex (\<lambda>p. o_id p = lit ''__nod_value_open'') (q_options q))" and "\<not> q_status q \<noteq> Pending"
  then have field: "is_choice_field f \<and> q_status q = Pending" if "q_answer_field q = Some f" for f
    using that by auto
  show "key_ok S a0 (case asserted_request_digest q of
      None \<Rightarrow> (set_screen_error REQUEST_CHANGED_ERROR a, [])
    | Some digest \<Rightarrow>
        if oc_requires_text c then (open_editor T q c digest a, [])
        else (a, [CmdSubmitOption \<lparr>su_answer = answer_value_of T q a, su_expected = digest, su_request_id = q_id q,
               su_option_id = oc_id c, su_text = None\<rparr>]))"
    using editor_key [OF assms(1,2) _ assms(3,5) field] submit_key [OF assms(1,2) _ assms(3,4,5) field] error_key [OF assms(4,5)]
    by (cases "asserted_request_digest q") simp_all
qed

lemma option_kind_key:
  assumes "b \<in> S" "same_screen b a" "screen_ok S a" "ts_client a = ts_client a0"
  shows "key_ok S a0 (command_for_option_kind T k a)"
  using choice_key [OF assms(1) _ option_for_kind_offered assms(3,4)] error_key [OF assms(3,4)] selected_same [OF assms(2)]
  by (simp add: command_for_option_kind_def split: option.split)

lemma text_option_key:
  assumes "b \<in> S" "same_screen b a" "screen_ok S a" "ts_client a = ts_client a0"
  shows "key_ok S a0 (command_for_text_option T a)"
proof (cases "selected_request a")
  case None
  then show ?thesis using error_key [OF assms(3,4)] by (simp add: command_for_text_option_def)
next
  case (Some q)
  with selected_same [OF assms(2)] have sel: "selected_request b = Some q" by simp
  note errors = error_key [OF assms(3,4)]
  show ?thesis
  proof (cases "q_answer_field q")
    case None
    have "key_ok S a0 (a\<lparr>ts_modal := Some (OptionTextModal (form_from_choice q c digest))\<rparr>, [])"
      if c: "first_text_option q = Some c" and d: "asserted_request_digest q = Some digest" for c digest
    proof -
      have "oc_id c \<in> o_id ` set (submittable_options q)" using c
        by (auto simp: first_text_option_def choice_of_def submittable_options_def find_Some_iff)
      from answers_screenI [OF assms(1) sel d this, of None] None assms(4) show ?thesis
        by (simp add: key_ok_def form_from_choice_def)
    qed
    with Some None errors show ?thesis by (simp add: command_for_text_option_def split: option.split)
  next
    case 2: (Some f)
    show ?thesis
    proof (cases "q_status q = Pending \<and> is_choice_field f")
      case True
      then have field: "is_choice_field g \<and> q_status q = Pending" if "q_answer_field q = Some g" for g using 2 that by simp
      have opened: "key_ok S a0 (open_editor T q \<lparr>oc_id = o_id p, oc_label = o_label p, oc_placeholder = h,
          oc_requires_text = False\<rparr> digest a, [])"
        if "asserted_request_digest q = Some digest" "q_options q = p # ps" for digest p ps h
        by (rule editor_key [OF assms(1) sel that(1) _ assms(4) field]) (simp add: submittable_options_def that(2))
      with Some 2 True errors quiet_key [OF assms(3,4)] show ?thesis
        by (simp add: command_for_text_option_def split: option.split list.split)
    next
      case False
      with Some 2 errors show ?thesis by (auto simp: command_for_text_option_def)
    qed
  qed
qed

lemma actions_key:
  assumes "b \<in> S" "selected_request b = Some q" "screen_ok S a" "ts_client a = ts_client a0"
  shows "key_ok S a0 (handle_actions_key T q n k a)"
proof -
  have stay: "key_ok S a0 (a\<lparr>ts_modal := Some (ActionsModal q m)\<rparr>, [])" for m
    using assms by (intro quiet_key) auto
  have noted: "key_ok S a0 (case asserted_request_digest q of
      None \<Rightarrow> (set_screen_error REQUEST_CHANGED_ERROR a, [])
    | Some digest \<Rightarrow> (case list_get (submittable_options q) n of
          Some p \<Rightarrow> (open_editor T q (choice_of p) digest a, []) | None \<Rightarrow> (a, [])))"
    if "case q_answer_field q of Some f \<Rightarrow> is_choice_field f | None \<Rightarrow> False" "q_status q = Pending"
  proof -
    have field: "is_choice_field f \<and> q_status q = Pending" if "q_answer_field q = Some f" for f
      using that \<open>case q_answer_field q of Some f \<Rightarrow> is_choice_field f | None \<Rightarrow> False\<close> \<open>q_status q = Pending\<close> by simp
    show ?thesis
      using editor_key [OF assms(1,2) _ list_get_offered assms(4) field] error_key [OF assms(3,4)] quiet_key [OF assms(3,4)]
      by (simp split: option.split)
  qed
  have entered: "key_ok S a0 (case list_get (submittable_options q) n of
      Some p \<Rightarrow> command_for_choice T q (choice_of p) a | None \<Rightarrow> (a\<lparr>ts_modal := Some (ActionsModal q n)\<rparr>, []))"
    using choice_key [OF assms(1,2) list_get_offered assms(3,4)] stay by (simp split: option.split)
  show ?thesis
    unfolding handle_actions_key_def Let_def
    by (intro key_ok_if stay entered noted quiet_key assms(3,4); elim conjE)
qed

lemma settings_key:
  assumes "b \<in> S" "same_screen b a" "modal_ok S (SettingsModal g)" "ts_modal a = None" "ts_client a = ts_client a0"
  shows "key_ok S a0 (handle_settings_key g k a)"
proof -
  have moved: "modal_ok S (SettingsModal (next_tab g s n))" "modal_ok S (SettingsModal (previous_tab g s n))"
    "modal_ok S (SettingsModal (move_setting d g s n))" for n d s
    by (auto simp: next_tab_def previous_tab_def move_setting_def clamp_selection_def item_count_def moved_index_def
        SOUND_OPTIONS_def Let_def split: settings_tab.split)
  have shown: "action_shown S (RevokeAction (kd_id d) (kd_name d))" if "selected_device g (ts_devices a) = Some d" for d
    using that assms(1,2) by (auto simp: action_shown_def same_screen_def selected_device_def list_get_def split: if_splits intro!: bexI [of _ b])
  have "action_shown S (ForgetAction (sp_id p) (sp_name p))" if "find P (cs_servers (ts_client a)) = Some p" for P p
    using that assms(1,2) by (auto simp: action_shown_def same_screen_def find_Some_iff intro!: bexI [of _ b])
  moreover have "list_all (command_ok S a0) (command_for_selected g s)" for s
    using assms(3) by (auto simp: command_for_selected_def command_ok_def is_destructive_def split: settings_tab.split option.split)
  ultimately show ?thesis
    using moved shown assms(3-5)
    unfolding handle_settings_key_def Let_def
    by (intro key_ok_if) (auto simp: key_ok_def simp del: modal_ok.simps(3) split: option.split)
qed

lemma moved_key: "screen_ok S a \<Longrightarrow> ts_client a = ts_client a0 \<Longrightarrow> key_ok S a0 (move_selection T delta a)"
  by (auto simp: move_selection_def move_server_def move_channel_def move_request_def key_ok_def screen_ok_def Let_def
      split: focus.split option.split)

lemma shown_channel_listed: "shown_channel s = Some c \<Longrightarrow> c \<in> set (cs_channels s)"
  by (auto simp: shown_channel_def bind_eq_Some_conv find_Some_iff)

lemma main_key:
  assumes "b \<in> S" "same_screen b a" "ts_modal a = None" "ts_client a = ts_client a0"
  shows "key_ok S a0 (handle_main_key T k a)"
proof -
  have calm: "screen_ok S a" using assms(3) by simp
  note rules = option_kind_key [OF assms(1,2) calm assms(4)] text_option_key [OF assms(1,2) calm assms(4)]
    moved_key [OF calm assms(4)]
  have same: "key_ok S a0 (a', cs)" if "ts_client a' = ts_client a" "ts_modal a' = None" "list_all (command_ok S a0) cs" for a' cs
    using that assms(4) by (simp add: key_ok_def)
  have opened: "key_ok S a0 (a\<lparr>ts_modal := Some m\<rparr>, cs)" if "modal_ok S m" "list_all (command_ok S a0) cs" for m cs
    using that assms(4) by (simp add: key_ok_def)
  have actions: "key_ok S a0 (case selected_request a of Some q \<Rightarrow> a\<lparr>ts_modal := Some (ActionsModal q 0)\<rparr> | None \<Rightarrow> a, [])"
    using assms(1,3) selected_same [OF assms(2)] by (auto split: option.split intro!: opened same)
  have channel: "key_ok S a0 (command_for_clear_channel a, [])"
  proof -
    have "action_shown S (ClearAction (cn_id c) (cn_name c))" if "shown_channel (ts_client a) = Some c" for c
      using shown_channel_listed [OF that] assms(1,2) unfolding action_shown_def same_screen_def by auto
    then show ?thesis using assms(3) by (auto simp: command_for_clear_channel_def split: option.split intro!: opened same)
  qed
  have cycled: "key_ok S a0 (cycle_answer T d a, [])" for d
    by (rule same) (auto simp: cycle_answer_def Let_def assms(3) split: option.split answer_field.split)
  have older: "list_all (command_ok S a0) (case ts_cursor a of Some cursor \<Rightarrow> [history_command (Some cursor) a] | None \<Rightarrow> [])"
    by (simp split: option.split)
  show ?thesis
    unfolding handle_main_key_def
    by (intro key_ok_if rules actions channel cycled; (rule opened | rule same))
      (simp_all add: assms(3) new_settings_def new_enrollment_def SOUND_OPTIONS_def older)
qed

lemma enrollment_input:
  assumes "ef_sound f < length SOUND_OPTIONS" "enrollment_key f k = (g, cs)"
  shows "ef_sound g < length SOUND_OPTIONS \<and> (\<forall>c \<in> set cs. \<exists>p. c = CmdEnroll p \<and> enrollable p)"
proof -
  have "sound_key n k < length SOUND_OPTIONS" if "n < length SOUND_OPTIONS" for n
    using that by (auto simp: sound_key_def previous_index_def next_index_def)
  moreover have "enrollable (enroll_params_of f)" if "submit_ready f"
    using that assms(1) by (auto simp: enrollable_def submit_ready_def enroll_params_of_def)
  ultimately show ?thesis
    using assms by (auto simp: enrollment_key_def split: if_splits enrollment_field.splits)
qed

lemma modal_key:
  assumes "b \<in> S" "same_screen b a" "ts_modal a = Some m" "modal_ok S m"
  shows "key_ok S a (handle_modal_key T m k a)"
proof -
  let ?a = "a\<lparr>ts_modal := None\<rparr>"
  have same: "same_screen b ?a" and sel: "selected_request ?a = selected_request b"
    using assms(2) selected_same [of b ?a] by (simp_all add: same_screen_def)
  show ?thesis
  proof (cases m)
    case (EnrollmentModal f)
    obtain g cs where k: "enrollment_key f k = (g, cs)" by fastforce
    with EnrollmentModal assms(4) enrollment_input [of f k g cs] show ?thesis
      by (auto simp: handle_modal_key_def key_ok_def list_all_iff command_ok_def is_destructive_def)
  next
    case (OptionTextModal f)
    with assms(4) show ?thesis
      by (auto simp: handle_modal_key_def option_text_key_def key_ok_def command_ok_def is_destructive_def)
  next
    case (SettingsModal g)
    with settings_key [OF assms(1) same, of g a k] assms(4) show ?thesis by (simp add: handle_modal_key_def)
  next
    case (RenameModal f)
    then show ?thesis by (auto simp: handle_modal_key_def rename_key_def key_ok_def)
  next
    case (FilterModal i)
    then show ?thesis by (auto simp: handle_modal_key_def handle_filter_key_def key_ok_def Let_def)
  next
    case HelpModal
    then show ?thesis by (auto simp: handle_modal_key_def key_ok_def Let_def)
  next
    case (ActionsModal q n)
    with assms(4) obtain b' where "b' \<in> S" "selected_request b' = Some q" by auto
    from actions_key [OF this, of ?a a T n k] ActionsModal show ?thesis by (simp add: handle_modal_key_def)
  next
    case (ConfirmModal action)
    with assms(3,4) show ?thesis
      by (cases action) (auto simp: handle_modal_key_def key_ok_def command_ok_def is_destructive_def confirmed_def
          action_command_def Let_def)
  qed
qed

lemma key_keeps:
  assumes "a \<in> S" "screen_ok S a"
  shows "key_ok S a (handle_key T k a)"
proof -
  have same: "same_screen a a" by (simp add: same_screen_def)
  show ?thesis
    unfolding handle_key_def
  proof (intro key_ok_if)
    show "key_ok S a (case ts_modal a of Some m \<Rightarrow> handle_modal_key T m k a | None \<Rightarrow> handle_main_key T k a)"
      using main_key [OF assms(1) same _ refl] modal_key [OF assms(1) same] assms(2)
      by (cases "ts_modal a") (simp_all add: screen_ok_def)
  qed (use assms(2) in \<open>simp_all add: key_ok_def\<close>)
qed

section \<open>What the client process reports\<close>

text \<open>A message or a result opens nothing but the enrollment, and keeps an unregistered screen in it.\<close>

definition waits_enrolled :: "app_screen \<Rightarrow> bool" where
  "waits_enrolled a \<longleftrightarrow> cs_is_registered (ts_client a) \<or> is_enrollment (ts_modal a)"

definition reported :: "app_screen \<Rightarrow> app_screen \<Rightarrow> bool" where
  "reported a a' \<longleftrightarrow> (ts_modal a' = ts_modal a \<or> ts_modal a' = None \<or>
      (\<exists>f. ts_modal a' = Some (EnrollmentModal f) \<and> ef_sound f < length SOUND_OPTIONS)) \<and>
     (waits_enrolled a \<longrightarrow> waits_enrolled a')"

lemma reported_refl [simp]: "reported a a"
  by (simp add: reported_def)

lemma reported_trans: "reported a b \<Longrightarrow> reported b c \<Longrightarrow> reported a c"
  by (auto simp: reported_def)

lemma reported_frame: "ts_modal a' = ts_modal a \<Longrightarrow> cs_is_registered (ts_client a') = cs_is_registered (ts_client a) \<Longrightarrow> reported a a'"
  by (simp add: reported_def waits_enrolled_def)

lemma reported_state: "reported a (apply_screen_state T s a)"
  by (auto simp: reported_def waits_enrolled_def apply_screen_state_def Let_def new_enrollment_def SOUND_OPTIONS_def
      is_enrollment_def split: option.splits modal.splits)

lemma reported_message: "reported a (snd (apply_runtime_message T m now a))"
proof -
  have "reported a (apply_screen_state T s (a\<lparr>ts_alerts := x\<rparr>))" for s x
    using reported_trans [OF reported_frame [of "a\<lparr>ts_alerts := x\<rparr>" a] reported_state] by simp
  then show ?thesis
    by (auto simp: apply_runtime_message_def Let_def set_screen_error_def intro!: reported_frame split: prod.split client_message.split)
qed

lemma apply_history_frame: "ts_modal (apply_history T server query page a) = ts_modal a \<and>
    ts_client (apply_history T server query page a) = ts_client a"
  by (simp add: apply_history_def Let_def)

lemma apply_request_frame: "ts_modal (apply_request q a) = ts_modal a \<and>
    cs_is_registered (ts_client (apply_request q a)) = cs_is_registered (ts_client a)"
  by (simp add: apply_request_def Let_def split: option.split)

lemma reported_dropped: "reported a b \<Longrightarrow> \<not> is_enrollment (ts_modal b) \<or> cs_is_registered (ts_client b) \<Longrightarrow> reported a (b\<lparr>ts_modal := None\<rparr>)"
  by (auto simp: reported_def waits_enrolled_def)

lemma reported_outcome: "reported a (apply_runtime_outcome T outcome a)"
proof -
  define b where "b = (case outcome of
            OutState s \<Rightarrow>
              let enrolled = ts_running a = Some (lit ''Enrolling'') \<and> cs_is_registered s; a = apply_screen_state T s a in
              if enrolled then a\<lparr>ts_modal := None\<rparr> else a
          | OutRequest q \<Rightarrow>
              let a = apply_request q a in (case ts_modal a of Some (OptionTextModal _) \<Rightarrow> a\<lparr>ts_modal := None\<rparr> | _ \<Rightarrow> a)
          | OutDevice d \<Rightarrow>
              let a = apply_device d a in (case ts_modal a of Some (RenameModal _) \<Rightarrow> a\<lparr>ts_modal := None\<rparr> | _ \<Rightarrow> a)
          | OutDevices ds \<Rightarrow> a\<lparr>ts_devices := ds\<rparr>
          | OutHistory server query page \<Rightarrow> apply_history T server query page a
          | OutNone \<Rightarrow> a)"
  define c where "c = (case ts_modal b of
              Some (ConfirmModal action) \<Rightarrow>
                if ts_running b = Some (command_label (action_command action)) then b\<lparr>ts_modal := None\<rparr> else b
            | _ \<Rightarrow> b)"
  have "cs_is_registered (ts_client (apply_screen_state T s a)) = cs_is_registered s" for s
    by (simp add: apply_screen_state_def Let_def)
  moreover have "reported a (apply_request q a)" "reported a (apply_device d a)" "reported a (apply_history T server query page a)"
    for q d server query page
    using apply_request_frame [of q a] apply_history_frame [of T server query page a]
    by (auto intro!: reported_frame simp: apply_device_def)
  ultimately have "reported a b"
    using reported_state [of a T] reported_frame [of "a\<lparr>ts_devices := ds\<rparr>" a for ds]
    by (auto simp: b_def Let_def is_enrollment_def intro!: reported_dropped split: command_outcome.split option.split modal.split)
  moreover have "reported b c"
    by (auto simp: c_def is_enrollment_def intro!: reported_dropped split: option.split modal.split)
  moreover have "apply_runtime_outcome T outcome a = c\<lparr>ts_running := None, ts_status := lit ''Ready''\<rparr>"
    by (simp only: apply_runtime_outcome_def b_def c_def Let_def)
  ultimately show ?thesis
    using reported_trans [OF reported_trans [of a b c] reported_frame [of "c\<lparr>ts_running := None, ts_status := lit ''Ready''\<rparr>" c]]
    by simp
qed

lemma reported_fold: "(\<And>x a. reported a (f x a)) \<Longrightarrow> reported a (fold f xs a)"
proof (induction xs arbitrary: a)
  case (Cons x xs)
  from reported_trans [OF Cons.prems [of a x] Cons.IH [OF Cons.prems]] show ?case by simp
qed simp

lemma reported_drawn: "reported (lp_app l) (drawn_app T i l)"
proof -
  let ?a = "drain_runtime_messages T (li_now i) (li_messages i) (lp_app l)"
  let ?b = "drain_command_results T (li_results i) ?a"
  have "reported (lp_app l) ?a"
    unfolding drain_runtime_messages_def by (rule reported_fold, rule reported_message)
  moreover have "reported x (case r of Inl e \<Rightarrow> set_screen_error e x | Inr outcome \<Rightarrow> apply_runtime_outcome T outcome x)" for x r
    using reported_outcome by (auto simp: set_screen_error_def intro: reported_frame split: sum.split)
  then have "reported ?a ?b"
    unfolding drain_command_results_def by (rule reported_fold)
  moreover have "reported ?b (drawn_app T i l)"
    by (rule reported_frame) (simp_all add: drawn_app_def clamp_detail_scroll_def tick_app_def Let_def)
  ultimately show ?thesis using reported_trans by blast
qed

section \<open>The loop\<close>

lemma start_commands_facts:
  assumes "start_commands cs l = (l', started)"
  shows "set started \<subseteq> set cs \<and> ts_modal (lp_app l') = ts_modal (lp_app l) \<and> ts_client (lp_app l') = ts_client (lp_app l) \<and>
    ts_quit (lp_app l') = ts_quit (lp_app l) \<and> lp_flight l' = lp_flight l + length started \<and>
    (started = [] \<or> lp_flight l = 0 \<and> (\<exists>c. started = [c]))"
  using assms
proof (induction cs arbitrary: l l' started)
  case (Cons c cs)
  show ?case
  proof (cases "lp_flight l > 0")
    case True
    with Cons.prems show ?thesis by (auto simp: set_busy_notice_def)
  next
    case False
    then obtain rest where r: "start_commands cs (start_command c l) = (l', rest)" "started = c # rest"
      using Cons.prems by (auto split: prod.splits)
    from Cons.IH [OF r(1)] r(2) False show ?thesis by (auto simp: start_command_def begin_command_def)
  qed
qed simp

definition settled :: "app_screen set \<Rightarrow> app_screen \<Rightarrow> bool" where
  "settled S a \<longleftrightarrow> screen_ok S a \<and> (ts_quit a \<or> waits_enrolled a)"

lemma answers_screen_mono: "answers_screen S i d p v \<Longrightarrow> S \<subseteq> S' \<Longrightarrow> answers_screen S' i d p v"
  by (auto simp: answers_screen_def)

lemma action_shown_mono: "action_shown S x \<Longrightarrow> S \<subseteq> S' \<Longrightarrow> action_shown S' x"
  by (auto simp: action_shown_def)

lemma modal_ok_mono: "modal_ok S m \<Longrightarrow> S \<subseteq> S' \<Longrightarrow> modal_ok S' m"
  by (cases m) (auto intro: answers_screen_mono action_shown_mono)

lemma reported_screen_ok: "reported a a' \<Longrightarrow> screen_ok S a \<Longrightarrow> S \<subseteq> S' \<Longrightarrow> screen_ok S' a'"
  by (auto simp: reported_def screen_ok_def intro: modal_ok_mono)

lemma waiting_key:
  assumes "waits_enrolled a" "handle_key T k a = (a', cs)" "ts_client a' = ts_client a"
  shows "ts_quit a' \<or> waits_enrolled a'" and "\<not> cs_is_registered (ts_client a) \<Longrightarrow> c \<in> set cs \<Longrightarrow> \<exists>p. c = CmdEnroll p"
proof -
  have "(ts_quit a' \<or> is_enrollment (ts_modal a')) \<and> (\<forall>c \<in> set cs. \<exists>p. c = CmdEnroll p)" if "\<not> cs_is_registered (ts_client a)"
    using that assms(1,2)
    by (auto simp: waits_enrolled_def is_enrollment_def handle_key_def handle_modal_key_def enrollment_key_def
        split: option.splits modal.splits if_splits)
  with assms(3) show "ts_quit a' \<or> waits_enrolled a'"
    and "\<not> cs_is_registered (ts_client a) \<Longrightarrow> c \<in> set cs \<Longrightarrow> \<exists>p. c = CmdEnroll p"
    by (auto simp: waits_enrolled_def)
qed

lemma iteration_facts:
  assumes "settled S (lp_app l)" "\<not> ts_quit (lp_app l)" "loop_iteration T i l = (l', cs)" "a = drawn_app T i l"
  shows "screen_ok (insert a S) a \<and> waits_enrolled a \<and> settled (insert a S) (lp_app l') \<and> list_all (command_ok (insert a S) a) cs \<and>
    (\<not> cs_is_registered (ts_client a) \<longrightarrow> (\<forall>c \<in> set cs. \<exists>p. c = CmdEnroll p)) \<and>
    lp_flight l' = lp_flight l - length (li_results i) + length cs \<and>
    (cs = [] \<or> lp_flight l - length (li_results i) = 0 \<and> (\<exists>c. cs = [c]))"
proof -
  let ?S = "insert a S"
  from assms(1,2,4) reported_drawn [of l T i] have a: "screen_ok ?S a" "waits_enrolled a"
    by (auto simp: settled_def reported_def intro: reported_screen_ok [OF reported_drawn])
  show ?thesis
  proof (cases "li_key i")
    case None
    with assms(3,4) a show ?thesis by (auto simp: loop_iteration_def settled_def)
  next
    case (Some k)
    obtain b ds where k: "handle_key T k a = (b, ds)" by fastforce
    with assms(3,4) Some have "start_commands ds (l\<lparr>lp_flight := lp_flight l - length (li_results i), lp_app := b\<rparr>) = (l', cs)"
      by (simp add: loop_iteration_def Let_def)
    note started = start_commands_facts [OF this, simplified]
    from key_keeps [OF insertI1 a(1), of T k] k have key: "ts_client b = ts_client a" "screen_ok ?S b" "list_all (command_ok ?S a) ds"
      by (simp_all add: key_ok_def)
    from waiting_key [OF a(2) k key(1)] key started a show ?thesis
      by (auto simp: settled_def waits_enrolled_def screen_ok_def list_all_iff)
  qed
qed

lemma tui_run_settled: "tui_run T s l trace \<Longrightarrow> settled (fst ` set trace) (lp_app l)"
proof (induction rule: tui_run.induct)
  case (tui_started l cs)
  then show ?case
    by (auto simp: start_tui_def startup_commands_for_def new_app_def settled_def screen_ok_def waits_enrolled_def is_enrollment_def
        start_command_def begin_command_def new_enrollment_def SOUND_OPTIONS_def Let_def)
next
  case (tui_iterated l trace i l' cs)
  from iteration_facts [OF tui_iterated.IH tui_iterated.hyps(2,4) refl] show ?case by simp
qed

lemma tui_run_last:
  assumes "tui_run T s l (earlier @ [(a, rs, cs)])"
  shows "(earlier = [] \<and> a = new_app T s \<and> rs = [] \<and> cs = startup_commands_for a \<and> lp_flight l = length cs) \<or>
    (\<exists>l0 i. tui_run T s l0 earlier \<and> \<not> ts_quit (lp_app l0) \<and> length (li_results i) \<le> lp_flight l0 \<and>
       loop_iteration T i l0 = (l, cs) \<and> a = drawn_app T i l0 \<and> rs = li_results i)"
  using assms
proof (cases rule: tui_run.cases)
  case (tui_started cs')
  then show ?thesis
    by (auto simp: start_tui_def startup_commands_for_def new_app_def start_command_def Let_def)
qed auto

lemma last_commands:
  assumes "tui_run T s l (earlier @ [(a, rs, cs)])"
  shows "list_all (command_ok (fst ` set (earlier @ [(a, rs, cs)])) a) cs" and "waits_enrolled a"
    and "\<not> cs_is_registered (ts_client a) \<Longrightarrow> c \<in> set cs \<Longrightarrow> \<exists>p. c = CmdEnroll p"
proof -
  have start: "list_all (command_ok S b) (startup_commands_for b')" for S b b'
    by (simp add: startup_commands_for_def)
  have new: "waits_enrolled (new_app T s)" by (simp add: waits_enrolled_def new_app_def is_enrollment_def)
  have "list_all (command_ok (fst ` set (earlier @ [(a, rs, cs)])) a) cs \<and> waits_enrolled a \<and>
    (\<not> cs_is_registered (ts_client a) \<longrightarrow> (\<forall>c \<in> set cs. \<exists>p. c = CmdEnroll p))"
    using tui_run_last [OF assms]
  proof (elim disjE exE conjE)
    fix l0 i
    assume "tui_run T s l0 earlier" "\<not> ts_quit (lp_app l0)" "loop_iteration T i l0 = (l, cs)" "a = drawn_app T i l0"
    from iteration_facts [OF tui_run_settled [OF this(1)] this(2-4)] show ?thesis by simp
  qed (use start new in \<open>simp_all add: startup_commands_for_def\<close>)
  then show "list_all (command_ok (fst ` set (earlier @ [(a, rs, cs)])) a) cs" and "waits_enrolled a"
    and "\<not> cs_is_registered (ts_client a) \<Longrightarrow> c \<in> set cs \<Longrightarrow> \<exists>p. c = CmdEnroll p" by auto
qed

section \<open>Properties\<close>


text \<open>
  Nothing but enrollment before enrollment. Whatever the client process reports, a screen drawn for a client that is not registered
  is in the enrollment form, and the only command it can start is an enrollment whose server, device name and
  code are filled in, with one of the offered sounds.
\<close>

theorem unregistered_only_enrolls:
  assumes "tui_run T s l (earlier @ [(a, rs, cs)])" and "\<not> cs_is_registered (ts_client a)"
  shows "is_enrollment (ts_modal a) \<and> (\<forall>c \<in> set cs. \<exists>p. c = CmdEnroll p \<and> enrollable p)"
  using last_commands [OF assms(1)] assms(2)
  by (force simp: list_all_iff command_ok_def waits_enrolled_def)

definition commands_started :: "tui_trace \<Rightarrow> nat" where
  "commands_started trace = sum_list (map (\<lambda>(a, rs, cs). length cs) trace)"

definition results_seen :: "tui_trace \<Rightarrow> nat" where
  "results_seen trace = sum_list (map (\<lambda>(a, rs, cs). length rs) trace)"

lemma flight_count: "tui_run T s l trace \<Longrightarrow> lp_flight l + results_seen trace = commands_started trace"
proof (induction rule: tui_run.induct)
  case (tui_started l cs)
  then show ?case
    by (auto simp: start_tui_def startup_commands_for_def start_command_def results_seen_def commands_started_def Let_def)
next
  case (tui_iterated l trace i l' cs)
  from iteration_facts [OF tui_run_settled [OF tui_iterated.hyps(1)] tui_iterated.hyps(2,4) refl] tui_iterated.hyps(3) tui_iterated.IH
  show ?case by (auto simp: results_seen_def commands_started_def)
qed

text \<open>
  One command at a time. After those of the start, a key starts at most one command, and only when every command started before
  has given its result.
\<close>

theorem one_command_at_a_time:
  assumes "tui_run T s l (earlier @ [(a, rs, cs)])" and "earlier \<noteq> []" and "cs \<noteq> []"
  shows "length cs = 1 \<and> commands_started earlier = results_seen (earlier @ [(a, rs, [])])"
proof -
  from tui_run_last [OF assms(1)] assms(2) obtain l0 i where run: "tui_run T s l0 earlier" "\<not> ts_quit (lp_app l0)"
    "length (li_results i) \<le> lp_flight l0" "loop_iteration T i l0 = (l, cs)" "rs = li_results i" by auto
  from iteration_facts [OF tui_run_settled [OF run(1)] run(2,4) refl] assms(3) run(3)
  have "lp_flight l0 = length rs" "length cs = 1" by (auto simp: run(5))
  with flight_count [OF run(1)] show ?thesis by (simp add: results_seen_def)
qed

section \<open>With the client process\<close>

lemma submit_option_calls:
  assumes "meanwhile_ok W" and "submit_option W p st = (r, st')"
  shows "\<exists>calls. rn_log st' = rn_log st @ calls \<and>
    (filter is_submission calls = [] \<or>
     (\<exists>w b n. filter is_submission calls = [(w, SubmitOption b, n)] \<and> n \<le> 1 \<and> answers_as_shown (cw_ext W) p b))"
proof -
  have "rn_log st' = rn_log st \<or> (\<exists>server. submit_request_option W server p st = (r, st'))"
    using assms(2)
    by (auto simp: submit_option_def selected_server_profile_def bind_op_def read_op_def lift_op_def split: prod.splits sum.splits)
  with submit_calls [OF assms(1)] show ?thesis by (elim disjE exE) (fastforce, blast)
qed

lemma other_commands_quiet:
  assumes "world_ok quiet W" and "\<And>p. c \<noteq> CmdSubmitOption p"
  shows "keeps (progresses quiet) (execute_command W c)"
  using assms(2)
  by (cases c) (auto simp: execute_command_def Let_def intro!: evo.keeps_rules keeps_ops assms(1))

text \<open>
  C12 (safety). From the screen to the wire. Every answer the client process sends while it carries out a command of the terminal client is
  sent at most once, and answers a card that was selected on the screen: with an option that card offers, the
  digest that card asserts, which is signed and is the digest of a copy the process holds or fetched, and a value
  exactly when the card asks for one. Only an answer command sends one.
\<close>

theorem answers_come_from_the_screen:
  assumes "meanwhile_ok W" and "tui_run T s l (earlier @ [(a, rs, cs)])" and "c \<in> set cs" and "execute_command W c st = (r, st')"
  shows "\<exists>calls. rn_log st' = rn_log st @ calls \<and> (filter is_submission calls = [] \<or>
    (\<exists>w b n. filter is_submission calls = [(w, SubmitOption b, n)] \<and> n \<le> 1 \<and>
      (\<exists>shown \<in> fst ` set (earlier @ [(a, rs, cs)]). \<exists>q d g copy. selected_request shown = Some q \<and>
        sn_request_id b = q_id q \<and> sn_option_id b \<in> o_id ` set (submittable_options q) \<and>
        (sn_answer_value b = None \<longleftrightarrow> q_answer_field q = None) \<and> asserted_request_digest q = Some d \<and>
        sn_signature b = Some g \<and> ds_request_digest g = trim d \<and> reproduced_digest (cw_ext W) copy = Inr (trim d, trim d))))"
proof (cases "\<exists>p. c = CmdSubmitOption p")
  case True
  then obtain p where p: "c = CmdSubmitOption p" by blast
  with assms(4) obtain r0 where "submit_option W p st = (r0, st')"
    by (auto simp: execute_command_def bind_op_def pure_op_def split: prod.splits sum.splits)
  from submit_option_calls [OF assms(1) this] obtain calls where calls: "rn_log st' = rn_log st @ calls"
    "filter is_submission calls = [] \<or>
     (\<exists>w b n. filter is_submission calls = [(w, SubmitOption b, n)] \<and> n \<le> 1 \<and> answers_as_shown (cw_ext W) p b)" by blast
  from last_commands(1) [OF assms(2)] assms(3) p
  have "answers_screen (fst ` set (earlier @ [(a, rs, cs)])) (su_request_id p) (su_expected p) (su_option_id p) (su_answer p)"
    by (auto simp: list_all_iff command_ok_def)
  then obtain shown q where shown: "shown \<in> fst ` set (earlier @ [(a, rs, cs)])" "selected_request shown = Some q"
    "answers_card q (su_request_id p) (su_expected p) (su_option_id p) (su_answer p)"
    unfolding answers_screen_def by blast
  have found: "\<exists>shown \<in> fst ` set (earlier @ [(a, rs, cs)]). \<exists>q d g copy. selected_request shown = Some q \<and>
        sn_request_id b = q_id q \<and> sn_option_id b \<in> o_id ` set (submittable_options q) \<and>
        (sn_answer_value b = None \<longleftrightarrow> q_answer_field q = None) \<and> asserted_request_digest q = Some d \<and>
        sn_signature b = Some g \<and> ds_request_digest g = trim d \<and> reproduced_digest (cw_ext W) copy = Inr (trim d, trim d)"
    if "answers_as_shown (cw_ext W) p b" for b
    using that shown by (intro bexI [OF _ shown(1)]) (auto simp: answers_as_shown_def answers_card_def)
  show ?thesis
    using calls(2)
  proof (elim disjE exE conjE)
    fix w b n
    assume "filter is_submission calls = [(w, SubmitOption b, n)]" "n \<le> 1" and as_shown: "answers_as_shown (cw_ext W) p b"
    with calls(1) found [OF as_shown] show ?thesis
      by (intro exI [of _ calls] conjI disjI2 exI [of _ w] exI [of _ b] exI [of _ n])
  qed (use calls(1) in blast)
next
  case False
  from quiet_run [OF other_commands_quiet [OF quiet_world [OF assms(1)]] assms(4)] False show ?thesis by blast
qed

section \<open>Two observations\<close>

text \<open>The enrollment form is left by enrolling or by quitting: escape does not close it.\<close>

lemma enrollment_form_stays:
  assumes "ts_modal a = Some (EnrollmentModal f)" and "handle_key T k a = (a', cs)"
  shows "ts_quit a' \<or> is_enrollment (ts_modal a')"
  using assms
  by (auto simp: is_enrollment_def handle_key_def handle_modal_key_def enrollment_key_def
      split: option.splits modal.splits if_splits prod.splits)

text \<open>What a card says does not matter for the digest its answer carries: that is the one the card asserts for itself.\<close>

lemma answer_ignores_card_text:
  "snd (command_for_choice T (q\<lparr>q_title := t, q_summary := v, q_body := w\<rparr>) c a) = snd (command_for_choice T q c a)"
proof -
  have "answer_value_of T (q\<lparr>q_title := t, q_summary := v, q_body := w\<rparr>) a = answer_value_of T q a"
    unfolding answer_value_of_def value_draft_key_def by (simp cong: option.case_cong)
  then show ?thesis
    by (simp add: command_for_choice_def asserted_request_digest_def split: option.split)
qed

end
