(* ===== verification/Client_Store_Facts.thy ===== *)
theory Client_Store_Facts
  imports Client_Store
begin

text \<open>
  The configuration file is safe to share and to interrupt: a merge takes every entry from the side that
  changed it, a save that fails at any step loses nothing, and a damaged file is never taken for an empty one.
\<close>

section \<open>Merging maps\<close>

lemma fold_if_filter:
  "fold (\<lambda>(k, v) d. if P k v then f k v d else d) ps d = fold (\<lambda>(k, v). f k v) (filter (\<lambda>(k, v). P k v) ps) d"
  by (induction ps arbitrary: d) auto

lemma map_of_filter_distinct:
  "distinct (map fst m) \<Longrightarrow> map_of (filter (\<lambda>(k, v). P k v) m) i =
     (case map_of m i of Some v \<Rightarrow> if P i v then Some v else None | None \<Rightarrow> None)"
  by (induction m) (auto split: option.splits simp: map_of_eq_None_iff)

lemma merge_map_get:
  assumes "om_ok ours" "om_ok disk"
  shows "om_get (merge_map base ours disk) k =
    (if om_get ours k = om_get base k then om_get disk k else om_get ours k)"
proof -
  let ?ps = "filter (\<lambda>(k, v). om_get base k \<noteq> Some v) ours" and ?ks = "filter (\<lambda>k. om_get ours k = None) (om_keys base)"
  have d: "distinct (map fst ours)" using assms(1) by (simp add: om_ok_def)
  have "merge_map base ours disk = fold (\<lambda>(k, v). om_put k v) ?ps (fold om_del ?ks disk)"
    by (simp add: merge_map_def Let_def fold_if_filter)
  moreover have "distinct (map fst ?ps)" using d by (simp add: distinct_map_filter)
  ultimately have "om_get (merge_map base ours disk) k = (case map_of ?ps k of Some v \<Rightarrow> Some v
      | None \<Rightarrow> if k \<in> set ?ks then None else om_get disk k)"
    using om.get_patch [OF assms(2), of ?ps ?ks k] by simp
  moreover have "k \<in> set ?ks \<longleftrightarrow> om_get ours k = None \<and> om_get base k \<noteq> None"
    by (auto simp: om_keys_def om_get_def map_of_eq_None_iff)
  ultimately show ?thesis
    by (auto simp: map_of_filter_distinct [OF d] om_get_def split: option.split)
qed

lemma merge_map_ok: "om_ok disk \<Longrightarrow> om_ok (merge_map base ours disk)"
  unfolding merge_map_def Let_def fold_if_filter by (intro om.wf_fold_put om.wf_fold_del)

section \<open>Merging profiles\<close>

lemma find_without [simp]:
  "find_profile (without_profile j ps) i = (if i = j then None else find_profile ps i)"
  by (induction ps) (auto simp: find_profile_def without_profile_def)

lemma find_profile_append:
  "find_profile (ps @ qs) i = (case find_profile ps i of None \<Rightarrow> find_profile qs i | Some p \<Rightarrow> Some p)"
  by (simp add: find_profile_def find_append split: option.split)

lemma find_profile_id: "find_profile ps i = Some p \<Longrightarrow> p \<in> set ps \<and> sp_id p = i"
  by (auto simp: find_profile_def dest: find_SomeD)

lemma find_profile_None: "find_profile ps i = None \<longleftrightarrow> i \<notin> sp_id ` set ps"
  by (auto simp: find_profile_def find_None_iff)

lemma fold_without:
  "find_profile (fold (\<lambda>p. without_profile (sp_id p)) rs d) i = (if i \<in> sp_id ` set rs then None else find_profile d i)"
  by (induction rs arbitrary: d) auto

lemma fold_replace:
  assumes "distinct (map sp_id ours)"
  shows "find_profile (fold (\<lambda>p d. if find_profile base (sp_id p) = Some p then d
        else without_profile (sp_id p) d @ [p]) ours d) i =
    (case find_profile ours i of
       Some p \<Rightarrow> if find_profile base i = Some p then find_profile d i else Some p
     | None \<Rightarrow> find_profile d i)"
  using assms
proof (induction ours arbitrary: d)
  case (Cons p ours)
  have one: "find_profile (without_profile (sp_id p) d @ [p]) j = (if j = sp_id p then Some p else find_profile d j)" for j
    by (simp add: find_profile_append) (simp add: find_profile_def split: option.split)
  have head: "find_profile (p # ours) j = (if j = sp_id p then Some p else find_profile ours j)" for j
    by (auto simp: find_profile_def)
  have new: "find_profile ours (sp_id p) = None" using Cons.prems by (simp add: find_profile_None)
  show ?case
    using Cons.prems new by (auto simp: Cons.IH one head split: option.split)
qed (simp add: find_profile_def)

lemma merge_servers_find:
  assumes "distinct (map sp_id ours)"
  shows "find_profile (merge_servers base ours disk) i =
    (if find_profile ours i = find_profile base i then find_profile disk i else find_profile ours i)"
proof -
  let ?removed = "filter (\<lambda>p. \<not> list_ex (\<lambda>c. sp_id c = sp_id p) ours) base"
  have "i \<in> sp_id ` set ?removed \<longleftrightarrow> find_profile ours i = None \<and> find_profile base i \<noteq> None"
    unfolding find_profile_None by (auto simp: list_ex_iff image_iff, metis)
  then show ?thesis
    unfolding merge_servers_def Let_def fold_replace [OF assms] fold_without by (auto split: option.split)
qed

section \<open>The merge\<close>

definition config_wf :: "client_config \<Rightarrow> bool" where
  "config_wf c \<longleftrightarrow> distinct (map sp_id (cg_servers c)) \<and> om_ok (cg_tokens c) \<and> om_ok (cg_keys c)"

text \<open>Two configurations with the same entries.\<close>

definition same_entries :: "client_config \<Rightarrow> client_config \<Rightarrow> bool" where
  "same_entries c d \<longleftrightarrow>
     (\<forall>i. find_profile (cg_servers c) i = find_profile (cg_servers d) i) \<and> cg_selected c = cg_selected d \<and>
     cg_sound c = cg_sound d \<and> (\<forall>k. om_get (cg_tokens c) k = om_get (cg_tokens d) k) \<and>
     (\<forall>k. om_get (cg_keys c) k = om_get (cg_keys d) k)"

text \<open>The reference: an entry we changed since the base is ours, any other is what is on disk.\<close>

definition picks :: "'a \<Rightarrow> 'a \<Rightarrow> 'a \<Rightarrow> 'a \<Rightarrow> bool" where
  "picks base ours disk v \<longleftrightarrow> v = (if ours = base then disk else ours)"

text \<open>
  The merge of a save is the three-way merge, entry by entry: every server profile, token and
  signing key, the selected server and the sound are this program's where it changed them since it
  last loaded or saved, added and removed ones included, and what another program left on disk everywhere else.
\<close>

theorem merge_is_three_way:
  assumes "config_wf ours" and "config_wf disk"
  shows "picks (find_profile (cg_servers base) i) (find_profile (cg_servers ours) i) (find_profile (cg_servers disk) i)
      (find_profile (cg_servers (merge_config base ours disk)) i) \<and>
    picks (om_get (cg_tokens base) k) (om_get (cg_tokens ours) k) (om_get (cg_tokens disk) k)
      (om_get (cg_tokens (merge_config base ours disk)) k) \<and>
    picks (om_get (cg_keys base) k) (om_get (cg_keys ours) k) (om_get (cg_keys disk) k)
      (om_get (cg_keys (merge_config base ours disk)) k) \<and>
    picks (cg_selected base) (cg_selected ours) (cg_selected disk) (cg_selected (merge_config base ours disk)) \<and>
    picks (cg_sound base) (cg_sound ours) (cg_sound disk) (cg_sound (merge_config base ours disk))"
  using assms
  by (simp add: picks_def merge_config_def config_wf_def merge_servers_find merge_map_get)

lemma merge_own_disk:
  assumes "config_wf ours" "config_wf base"
  shows "same_entries (merge_config base ours base) ours"
  using assms by (auto simp: same_entries_def merge_config_def config_wf_def merge_servers_find merge_map_get)

text \<open>A program removed server \<open>a\<close> and added \<open>c\<close> while another one had added \<open>b\<close>.\<close>

definition plain_profile :: "rstr \<Rightarrow> server_profile" where
  "plain_profile i = \<lparr>sp_id = i, sp_credential_id = None, sp_name = i, sp_base_url = i, sp_device_name = [],
     sp_device_id = None, sp_user_id = None, sp_user_name = None\<rparr>"

abbreviation "config_with is \<equiv> default_config\<lparr>cg_servers := map plain_profile is\<rparr>"

lemma config_with_wf: "distinct is \<Longrightarrow> config_wf (config_with is)"
  by (simp add: config_wf_def default_config_def comp_def plain_profile_def)

theorem merge_is_three_way_witness:
  "find_profile (cg_servers (merge_config (config_with [[97]]) (config_with [[99]]) (config_with [[97], [98]]))) [97] = None \<and>
   find_profile (cg_servers (merge_config (config_with [[97]]) (config_with [[99]]) (config_with [[97], [98]]))) [98] =
     Some (plain_profile [98])"
  using merge_is_three_way [OF config_with_wf [of "[[99]]"] config_with_wf [of "[[97], [98]]"],
      of "config_with [[97]]" "[97]" "[]"]
    merge_is_three_way [OF config_with_wf [of "[[99]]"] config_with_wf [of "[[97], [98]]"],
      of "config_with [[97]]" "[98]" "[]"]
  by (simp add: picks_def find_profile_def plain_profile_def)

section \<open>Loading\<close>

definition readable :: "config_codec \<Rightarrow> file_state \<Rightarrow> client_config option" where
  "readable C f = (case f of Bytes raw \<Rightarrow> co_parse C raw | _ \<Rightarrow> None)"

lemma readable_simps [simp]: "readable C Absent = None" "readable C Unreadable = None"
  by (simp_all add: readable_def)

lemma read_config_cases:
  "read_config C path f = (case readable C f of Some c \<Rightarrow> Inr c
     | None \<Rightarrow> if f = Absent then Inr default_config
        else Inl ((if f = Unreadable then lit ''read '' else lit ''parse '') @ path))"
  by (cases f) (auto simp: read_config_def readable_def split: option.split)

lemma load_never_guesses_aux:
  "(case store_load C fs st of
      (Inr c, st') \<Rightarrow> st_baseline st' = c \<and>
        (readable C (fs_main fs) = Some c \<and> st_recovery_warning st' = st_recovery_warning st \<or>
         fs_main fs = Absent \<and> c = default_config \<and> st_recovery_warning st' = st_recovery_warning st \<or>
         fs_main fs \<noteq> Absent \<and> readable C (fs_main fs) = None \<and> readable C (fs_backup fs) = Some c \<and>
           st_recovery_warning st' \<noteq> None)
    | (Inl _, st') \<Rightarrow> st' = st \<and> fs_main fs \<noteq> Absent \<and> readable C (fs_main fs) = None \<and> readable C (fs_backup fs) = None)"
proof (cases "readable C (fs_main fs)")
  case (Some c)
  then show ?thesis by (simp add: store_load_def read_config_cases)
next
  case None
  then show ?thesis
    by (cases "fs_main fs = Absent"; cases "fs_backup fs = Absent"; cases "readable C (fs_backup fs)")
      (auto simp: store_load_def read_config_cases) 
qed

text \<open>
  C40 (error). A load never takes a damaged configuration for an empty one: it returns the content of the
  file, or the defaults when there is no file, or, with a warning that is kept, the content of the backup
  when the file is damaged; and it fails exactly when the file is damaged and there is no readable
  backup, leaving the store as it was.
\<close>

theorem load_never_guesses:
  "(case store_load C fs st of
      (Inr c, st') \<Rightarrow> st_baseline st' = c \<and>
        (readable C (fs_main fs) = Some c \<and> st_recovery_warning st' = st_recovery_warning st \<or>
         fs_main fs = Absent \<and> c = default_config \<and> st_recovery_warning st' = st_recovery_warning st \<or>
         fs_main fs \<noteq> Absent \<and> readable C (fs_main fs) = None \<and> readable C (fs_backup fs) = Some c \<and>
           st_recovery_warning st' \<noteq> None)
    | (Inl _, st') \<Rightarrow> st' = st \<and> fs_main fs \<noteq> Absent \<and> readable C (fs_main fs) = None \<and> readable C (fs_backup fs) = None)"
  by (rule load_never_guesses_aux)

section \<open>Saving\<close>

lemma readable_print: "codec_ok C \<Longrightarrow> readable C (Bytes (co_print C c)) = Some c"
  by (simp add: readable_def codec_ok_def)

lemma replace_file_cases:
  assumes "replace_file recovered raw fault fs = (ok, fs')"
  shows "(fs_main fs' = fs_main fs \<and> \<not> ok \<or> fs_main fs' = Bytes raw) \<and>
    (recovered \<or> fs_main fs = Absent \<longrightarrow> fs_backup fs' = fs_backup fs) \<and>
    (ok \<longrightarrow> fs_main fs' = Bytes raw)"
  using assms by (auto simp: replace_file_def Let_def split: if_splits save_fault.splits bool.splits)

text \<open>What any program would load.\<close>

definition loaded :: "config_codec \<Rightarrow> config_files \<Rightarrow> client_config option" where
  "loaded C fs =
     (if fs_main fs = Absent then Some default_config
      else case readable C (fs_main fs) of Some c \<Rightarrow> Some c | None \<Rightarrow> readable C (fs_backup fs))"

lemma loaded_load: "fst (store_load C fs st) = Inr c \<longleftrightarrow> loaded C fs = Some c"
  using load_never_guesses_aux [where C = C and fs = fs and st = st]
  by (cases "store_load C fs st"; cases "fst (store_load C fs st)") (auto simp: loaded_def split: option.splits if_splits)

lemma save_locked_cases:
  assumes "save_locked C config fault fs st = (res, fs', st')"
  obtains "res \<noteq> Inr ()" "fs' = fs"
  | disk ok where "read_config C (st_path st) (fs_main fs) = Inr disk \<or>
        st_recovery_warning st \<noteq> None \<and> readable C (fs_main fs) = None \<and> fs_main fs \<noteq> Absent \<and>
        read_config C (st_backup_path st) (fs_backup fs) = Inr disk"
      "replace_file (st_recovery_warning st \<noteq> None) (co_print C (merge_config (st_baseline st) config disk)) fault fs = (ok, fs')"
      "res = Inr () \<longrightarrow> ok"
proof -
  let ?disk = "case read_config C (st_path st) (fs_main fs) of Inr c \<Rightarrow> Inr c
     | Inl error \<Rightarrow> if st_recovery_warning st \<noteq> None then read_config C (st_backup_path st) (fs_backup fs) else Inl error"
  show thesis
  proof (cases "(\<exists>e. fault = DirectoryFails e) \<or> fault = LockFails \<or> (\<exists>e. ?disk = Inl e)")
    case True
    with assms show thesis by (intro that(1)) (auto simp: save_locked_def Let_def split: save_fault.splits)
  next
    case False
    then obtain disk where disk: "?disk = Inr disk" by (cases ?disk) auto
    obtain ok fs2 where r: "replace_file (st_recovery_warning st \<noteq> None)
        (co_print C (merge_config (st_baseline st) config disk)) fault fs = (ok, fs2)" by fastforce
    from False assms disk r have "fs' = fs2 \<and> (res = Inr () \<longrightarrow> ok)"
      by (auto simp: save_locked_def Let_def split: save_fault.splits if_splits)
    moreover from disk have "read_config C (st_path st) (fs_main fs) = Inr disk \<or>
        st_recovery_warning st \<noteq> None \<and> readable C (fs_main fs) = None \<and> fs_main fs \<noteq> Absent \<and>
        read_config C (st_backup_path st) (fs_backup fs) = Inr disk"
      by (auto simp: read_config_cases split: sum.splits option.splits if_splits)
    ultimately show thesis using r that(2) by blast
  qed
qed

lemma save_loses_nothing_aux:
  assumes "codec_ok C" and "fst (store_load C fs st0) = Inr c" and "store_save C config fault fs st = (res, fs', st')"
  shows "\<exists>c'. fst (store_load C fs' st1) = Inr c' \<and>
    (c' = merge_config (st_baseline st) (remove_external_credentials st config) c \<or> c' = c \<and> res \<noteq> Inr ())"
proof -
  from assms(2) have c: "loaded C fs = Some c" by (simp add: loaded_load)
  have "\<exists>c'. loaded C fs' = Some c' \<and>
      (c' = merge_config (st_baseline st) (remove_external_credentials st config) c \<or> c' = c \<and> res \<noteq> Inr ())"
    using assms(3) unfolding store_save_def
  proof (cases rule: save_locked_cases)
    case 1
    with c show ?thesis by blast
  next
    case (2 disk ok)
    from 2(1) c have disk: "disk = c"
      by (auto simp: loaded_def read_config_cases split: option.splits if_splits)
    note f = replace_file_cases [OF 2(2)]
    show ?thesis
    proof (cases "fs_main fs' = Bytes (co_print C (merge_config (st_baseline st) (remove_external_credentials st config) disk))")
      case True
      with disk show ?thesis by (simp add: loaded_def readable_print [OF assms(1)])
    next
      case False
      with f have same: "fs_main fs' = fs_main fs" "\<not> ok" by auto
      have "loaded C fs' = loaded C fs"
      proof (cases "readable C (fs_main fs) = None \<and> fs_main fs \<noteq> Absent")
        case True
        with 2(1) have "st_recovery_warning st \<noteq> None" by (auto simp: read_config_cases)
        with f same show ?thesis by (simp add: loaded_def split: option.split)
      next
        case False
        with same show ?thesis by (auto simp: loaded_def split: option.splits)
      qed
      with c same 2(3) show ?thesis by auto
    qed
  qed
  then show ?thesis by (simp add: loaded_load)
qed

text \<open>
  C39 (safety). A save loses nothing, at whatever step the system fails it: afterwards every program loads either
  the configuration that was there before or the complete merge of it with the changes, and when the
  save reports success, the merge. A backup that is needed is never overwritten.
\<close>

theorem save_loses_nothing:
  assumes "codec_ok C" and "fst (store_load C fs st0) = Inr c" and "store_save C config fault fs st = (res, fs', st')"
  shows "\<exists>c'. fst (store_load C fs' st1) = Inr c' \<and>
    (c' = merge_config (st_baseline st) (remove_external_credentials st config) c \<or> c' = c \<and> res \<noteq> Inr ())"
  by (rule save_loses_nothing_aux [OF assms])

text \<open>
  What a program saved is what is loaded next: every profile, token, key, the selected server and
  the sound come back as they were saved, without the credentials when those live in the key ring.
\<close>

theorem saved_is_loaded:
  assumes "codec_ok C" and "store_load C fs st0 = (Inr c, st)" and "config_wf c" and "config_wf config"
    and "store_save C config fault fs st = (Inr (), fs', st')"
  shows "\<exists>c'. fst (store_load C fs' st1) = Inr c' \<and> same_entries c' (remove_external_credentials st config)"
proof -
  have base: "st_baseline st = c"
    using load_never_guesses_aux [where C = C and fs = fs and st = st0] assms(2) by simp
  have "fst (store_load C fs st0) = Inr c" by (simp add: assms(2))
  from save_loses_nothing_aux [OF assms(1) this assms(5)]
  have "fst (store_load C fs' st1) = Inr (merge_config c (remove_external_credentials st config) c)"
    by (auto simp: base)
  moreover have "config_wf (remove_external_credentials st config)"
    using assms(4) by (simp add: config_wf_def remove_external_credentials_def)
  ultimately show ?thesis using merge_own_disk assms(3) by blast
qed

section \<open>A concrete codec\<close>

text \<open>A prefix code of the configuration, for the witnesses: each part says how long it is.\<close>

type_synonym 'a coder = "('a \<Rightarrow> byte list) \<times> (byte list \<Rightarrow> ('a \<times> byte list) option)"

definition coder_ok :: "'a coder \<Rightarrow> bool" where
  "coder_ok c \<longleftrightarrow> (\<forall>x r. snd c (fst c x @ r) = Some (x, r))"

definition str_coder :: "rstr coder" where
  "str_coder = (\<lambda>s. length s # s, \<lambda>b. case b of n # r \<Rightarrow> Some (take n r, drop n r) | [] \<Rightarrow> None)"

definition opt_coder :: "'a coder \<Rightarrow> 'a option coder" where
  "opt_coder c = (\<lambda>v. case v of None \<Rightarrow> [0] | Some x \<Rightarrow> 1 # fst c x,
     \<lambda>b. case b of n # r \<Rightarrow> if n = 0 then Some (None, r) else map_option (\<lambda>(x, r). (Some x, r)) (snd c r) | [] \<Rightarrow> None)"

definition pair_coder :: "'a coder \<Rightarrow> 'b coder \<Rightarrow> ('a \<times> 'b) coder" where
  "pair_coder c d = (\<lambda>(x, y). fst c x @ fst d y,
     \<lambda>b. Option.bind (snd c b) (\<lambda>(x, r). map_option (\<lambda>(y, r). ((x, y), r)) (snd d r)))"

fun decode_many :: "(byte list \<Rightarrow> ('a \<times> byte list) option) \<Rightarrow> nat \<Rightarrow> byte list \<Rightarrow> ('a list \<times> byte list) option" where
  "decode_many d 0 r = Some ([], r)"
| "decode_many d (Suc n) r =
     Option.bind (d r) (\<lambda>(x, r). map_option (\<lambda>(xs, r). (x # xs, r)) (decode_many d n r))"

definition list_coder :: "'a coder \<Rightarrow> 'a list coder" where
  "list_coder c = (\<lambda>xs. length xs # concat (map (fst c) xs),
     \<lambda>b. case b of n # r \<Rightarrow> decode_many (snd c) n r | [] \<Rightarrow> None)"

definition map_coder :: "('a \<Rightarrow> 'b) \<Rightarrow> ('b \<Rightarrow> 'a) \<Rightarrow> 'b coder \<Rightarrow> 'a coder" where
  "map_coder f g c = (\<lambda>x. fst c (f x), \<lambda>b. map_option (\<lambda>(y, r). (g y, r)) (snd c b))"

named_theorems coder_intros \<open>a coder is built from coders\<close>

lemma str_coder_ok [coder_intros]: "coder_ok str_coder"
  by (simp add: coder_ok_def str_coder_def)

lemma opt_coder_ok [coder_intros]: "coder_ok c \<Longrightarrow> coder_ok (opt_coder c)"
  by (simp add: coder_ok_def opt_coder_def split: option.split)

lemma pair_coder_ok [coder_intros]: "coder_ok c \<Longrightarrow> coder_ok d \<Longrightarrow> coder_ok (pair_coder c d)"
  by (simp add: coder_ok_def pair_coder_def)

lemma decode_many_concat:
  "coder_ok c \<Longrightarrow> decode_many (snd c) (length xs) (concat (map (fst c) xs) @ r) = Some (xs, r)"
  by (induction xs) (auto simp: coder_ok_def)

lemma list_coder_ok [coder_intros]: "coder_ok c \<Longrightarrow> coder_ok (list_coder c)"
  using decode_many_concat [of c] by (simp add: coder_ok_def list_coder_def)

lemma map_coder_ok: "coder_ok c \<Longrightarrow> (\<And>x. g (f x) = x) \<Longrightarrow> coder_ok (map_coder f g c)"
  by (simp add: coder_ok_def map_coder_def)

definition profile_coder :: "server_profile coder" where
  "profile_coder = map_coder
     (\<lambda>p. (sp_id p, sp_credential_id p, sp_name p, sp_base_url p, sp_device_name p, sp_device_id p, sp_user_id p, sp_user_name p))
     (\<lambda>(i, c, n, b, dn, d, u, un). \<lparr>sp_id = i, sp_credential_id = c, sp_name = n, sp_base_url = b, sp_device_name = dn,
        sp_device_id = d, sp_user_id = u, sp_user_name = un\<rparr>)
     (pair_coder str_coder (pair_coder (opt_coder str_coder) (pair_coder str_coder (pair_coder str_coder
       (pair_coder str_coder (pair_coder (opt_coder str_coder) (pair_coder (opt_coder str_coder) (opt_coder str_coder))))))))"

definition key_coder :: "stored_signing_key coder" where
  "key_coder = map_coder (\<lambda>k. (kk_key_id k, kk_private_key k)) (\<lambda>(i, p). \<lparr>kk_key_id = i, kk_private_key = p\<rparr>)
     (pair_coder str_coder str_coder)"

definition config_coder :: "client_config coder" where
  "config_coder = map_coder
     (\<lambda>c. (cg_servers c, cg_selected c, cg_sound c, cg_tokens c, cg_keys c))
     (\<lambda>(s, i, n, t, k). \<lparr>cg_servers = s, cg_selected = i, cg_sound = n, cg_tokens = t, cg_keys = k\<rparr>)
     (pair_coder (list_coder profile_coder) (pair_coder (opt_coder str_coder) (pair_coder str_coder
       (pair_coder (list_coder (pair_coder str_coder str_coder)) (list_coder (pair_coder str_coder key_coder))))))"

lemma config_coder_ok: "coder_ok config_coder"
  unfolding config_coder_def profile_coder_def key_coder_def
  by (intro map_coder_ok coder_intros) simp_all

definition sample_codec :: config_codec where
  "sample_codec = \<lparr>co_parse = (\<lambda>b. map_option fst (snd config_coder b)), co_print = fst config_coder\<rparr>"

lemma sample_codec_ok: "codec_ok sample_codec"
  using config_coder_ok by (simp add: codec_ok_def sample_codec_def coder_ok_def) (metis append_Nil2 fst_conv option.simps(9))

section \<open>Witnesses\<close>

definition sample_store :: store_state where
  "sample_store = new_store (lit ''client-core.json'') (lit ''client-core.json.bak'') True"

definition sample_files :: config_files where
  "sample_files = \<lparr>fs_main = Bytes (co_print sample_codec (config_with [[97]])), fs_backup = Absent\<rparr>"

lemma sample_load:
  "store_load sample_codec sample_files sample_store =
     (Inr (config_with [[97]]), sample_store\<lparr>st_baseline := config_with [[97]]\<rparr>)"
  using sample_codec_ok
  by (simp add: store_load_def sample_files_def read_config_cases readable_print)

text \<open>The rename fails: the file is as it was.\<close>

theorem save_loses_nothing_witness:
  "\<exists>fs' st'. store_save sample_codec (config_with [[97], [98]]) RenameFails sample_files
      (sample_store\<lparr>st_baseline := config_with [[97]]\<rparr>) = (Inl (lit ''write client-core.json''), fs', st') \<and>
    (\<exists>c'. fst (store_load sample_codec fs' sample_store) = Inr c')"
proof -
  let ?st = "sample_store\<lparr>st_baseline := config_with [[97]]\<rparr>"
  obtain fs' st' where s: "store_save sample_codec (config_with [[97], [98]]) RenameFails sample_files ?st =
      (Inl (lit ''write client-core.json''), fs', st')"
    using sample_codec_ok
    by (simp add: store_save_def save_locked_def replace_file_def sample_files_def read_config_cases readable_print Let_def
        sample_store_def new_store_def flip: lit_append)
  have "fst (store_load sample_codec sample_files sample_store) = Inr (config_with [[97]])" by (simp add: sample_load)
  from save_loses_nothing [OF sample_codec_ok this s, of sample_store] s show ?thesis by blast
qed

theorem saved_is_loaded_witness:
  "\<exists>fs' c'. fst (store_load sample_codec fs' sample_store) = Inr c' \<and>
     find_profile (cg_servers c') [98] = Some (plain_profile [98])"
proof -
  let ?st = "sample_store\<lparr>st_baseline := config_with [[97]]\<rparr>"
  obtain fs' st' where s: "store_save sample_codec (config_with [[97], [98]]) NoFault sample_files ?st = (Inr (), fs', st')"
    using sample_codec_ok
    by (simp add: store_save_def save_locked_def replace_file_def sample_files_def read_config_cases readable_print Let_def
        sample_store_def new_store_def)
  from saved_is_loaded [OF sample_codec_ok sample_load config_with_wf config_with_wf s, of sample_store]
  obtain c' where "fst (store_load sample_codec fs' sample_store) = Inr c'"
    "same_entries c' (remove_external_credentials ?st (config_with [[97], [98]]))"
    by auto
  then show ?thesis
    by (intro exI [of _ fs'] exI [of _ c'])
      (simp add: same_entries_def remove_external_credentials_def sample_store_def new_store_def find_profile_def plain_profile_def)
qed

end
