(* ===== verification/Client_Session_Facts.thy ===== *)
theory Client_Session_Facts
  imports Client_Process_Facts Client_Store_Facts
begin

text \<open>
  What a client process shows and keeps: alerts follow the preferences of the device, a forgotten server
  leaves nothing behind, and a start does not lose the credentials of any server.
\<close>

section \<open>Alerts\<close>

lemma emit_candidate_run:
  "emit_candidate W ctx prefs q st = (Inr (),
     if allows_alert prefs (q_channel_id q) (cw_now W (rn_tick st))
     then st\<lparr>rn_tick := rn_tick st + 1, rn_out := rn_out st @
       [NotificationCandidate (sx_server_id ctx) (if dp_hide_content prefs then hidden_content q else q)]\<rparr>
     else st\<lparr>rn_tick := rn_tick st + 1\<rparr>)"
  by (simp add: emit_candidate_def bind_op_def next_tick_def pure_op_def tell_def write_op_def)

fun alerted :: "(nat \<Rightarrow> instant) \<Rightarrow> device_preferences \<Rightarrow> nat \<Rightarrow> request list \<Rightarrow> request list" where
  "alerted clock prefs n [] = []"
| "alerted clock prefs n (q # qs) =
     (if allows_alert prefs (q_channel_id q) (clock n) then [q] else []) @ alerted clock prefs (n + 1) qs"

lemma emit_candidates_run:
  "for_op (emit_candidate W ctx prefs) qs st = (Inr (), st\<lparr>rn_tick := rn_tick st + length qs,
     rn_out := rn_out st @ map (\<lambda>q. NotificationCandidate (sx_server_id ctx)
        (if dp_hide_content prefs then hidden_content q else q)) (alerted (cw_now W) prefs (rn_tick st) qs)\<rparr>)"
proof (induction qs arbitrary: st)
  case (Cons q qs)
  show ?case
    by (cases "allows_alert prefs (q_channel_id q) (cw_now W (rn_tick st))")
      (simp_all add: bind_op_def emit_candidate_run [of W ctx prefs q st] Cons.IH)
qed (simp add: pure_op_def)

lemma hidden_preview:
  "notification_preview_of (hidden_content q) =
     \<lparr>np_title = lit ''Nod'', np_body = open_nod_text, np_allow_image = False\<rparr>"
  by (simp add: notification_preview_of_def hidden_content_def nonblank_def Let_def open_nod_text_def lit_def
      trim_eqI is_whitespace_def)


section \<open>Forgetting a server\<close>

text \<open>Operations that leave the configuration, the key ring and the files alone.\<close>

definition same_config :: "runtime \<Rightarrow> runtime \<Rightarrow> bool" where
  "same_config st st' \<longleftrightarrow> rn_persisted st' = rn_persisted st \<and> rn_keyring st' = rn_keyring st \<and>
     rn_store st' = rn_store st \<and> rn_files st' = rn_files st"

interpretation con: run_relation same_config
  by unfold_locales (auto simp: same_config_def)

named_theorems config_ops

lemma config_primitives [config_ops]:
  "keeps same_config next_tick" "keeps same_config (tell m)" "keeps same_config (on_reducer f)"
  "keeps same_config (write_op (\<lambda>st. st\<lparr>rn_sync := x\<rparr>))" "keeps same_config (credentials_now W g)"
  by (simp_all add: keeps_def same_config_def next_tick_def tell_def on_reducer_def write_op_def credentials_now_def
      bind_op_def read_op_def)

lemma config_disconnect [config_ops]: "keeps same_config disconnect_sync"
  unfolding disconnect_sync_def emit_state_def client_state_now_def by (intro con.keeps_rules config_ops)

lemma config_connect [config_ops]: "keeps same_config (connect_sync W)"
  unfolding connect_sync_def snapshot_context_now_def selected_server_profile_def api_for_profile_def
  by (intro con.keeps_rules config_ops)

lemma config_foreign [config_ops]: "keeps same_config (remove_foreign_key W p)"
  unfolding remove_foreign_key_def by (intro con.keeps_rules config_ops)

lemma config_emit [config_ops]: "keeps same_config emit_state"
  unfolding emit_state_def client_state_now_def by (intro con.keeps_rules config_ops)

lemma remove_credentials_run:
  assumes "remove_credentials W p st = (Inr u, st')" and "\<And>n. cw_refused W n = None"
  shows "load_token (rn_store st') (credential_id p) (rn_persisted st', rn_keyring st') = None"
    and "load_signing_key J (rn_store st') (credential_id p) (rn_persisted st', rn_keyring st') = None"
    and "cg_servers (rn_persisted st') = cg_servers (rn_persisted st)" and "rn_store st' = rn_store st"
    and "rn_files st' = rn_files st"
  using assms(1)
  by (auto simp: remove_credentials_def on_credentials_def bind_op_def next_tick_def delete_token_def
      delete_signing_key_def assms(2) load_token_def load_signing_key_def token_account_def signing_key_account_def lit_def)

lemma save_persisted_run:
  "save_persisted W st = (res, st') \<Longrightarrow> rn_persisted st' = rn_persisted st \<and> rn_keyring st' = rn_keyring st \<and>
     (\<exists>r. store_save (cw_codec W) (rn_persisted st) (cw_fault W (rn_tick st)) (cw_others W (rn_tick st) (rn_files st))
        (rn_store st) = (r, rn_files st', rn_store st') \<and> map_err Failure r = res)"
  by (auto simp: save_persisted_def bind_op_def next_tick_def split: prod.splits)

lemma store_save_mode:
  "store_save C config fault fs st = (r, fs', st') \<Longrightarrow> st_use_config_file st' = st_use_config_file st"
  by (auto simp: store_save_def save_locked_def Let_def split: save_fault.splits sum.splits prod.splits if_splits)

text \<open>Other programs leave a configuration that can be loaded, if they find one.\<close>

definition others_ok :: "client_world \<Rightarrow> bool" where
  "others_ok W \<longleftrightarrow> (\<forall>n fs st0. (\<exists>c. fst (store_load (cw_codec W) fs st0) = Inr c) \<longrightarrow>
     (\<exists>c. fst (store_load (cw_codec W) (cw_others W n fs) st0) = Inr c))"


section \<open>Starting\<close>

lemma migrate_servers_facts:
  assumes "migrate_servers ident ps selected = (changed, ps', selected')"
  shows "map credential_id ps' = map credential_id ps \<and> map sp_base_url ps' = map sp_base_url ps \<and>
    map sp_name ps' = map sp_name ps \<and> (\<forall>p \<in> set ps'. sp_id p = ident (sp_base_url p)) \<and> (changed \<longleftrightarrow> ps' \<noteq> ps)"
  using assms
proof (induction ident ps selected arbitrary: changed ps' selected' rule: migrate_servers.induct)
  case (2 ident p ps selected)
  show ?case
  proof (cases "sp_id p = ident (sp_base_url p)")
    case True
    with "2.prems" obtain qs where "migrate_servers ident ps selected = (changed, qs, selected')" "ps' = p # qs"
      by (auto simp: Let_def split: prod.splits)
    with "2.IH"(1) True show ?thesis by simp
  next
    case False
    let ?sel = "if selected = Some (sp_id p) then Some (ident (sp_base_url p)) else selected"
    obtain ch qs s2 where rest: "migrate_servers ident ps ?sel = (ch, qs, s2)" by (cases "migrate_servers ident ps ?sel") auto
    with "2.prems" False have out: "changed" "ps' = p\<lparr>sp_credential_id := Some (credential_id p), sp_id := ident (sp_base_url p)\<rparr> # qs"
      by (auto simp: Let_def split: prod.splits)
    moreover have "p\<lparr>sp_credential_id := Some (credential_id p), sp_id := ident (sp_base_url p)\<rparr> \<noteq> p"
      using False by (metis server_profile.select_convs(1) server_profile.surjective server_profile.update_convs(1))
    ultimately show ?thesis using "2.IH"(2) [OF refl False refl refl rest] by (simp add: credential_id_def)
  qed
qed simp

text \<open>
  A start keeps every server and its credentials: the profiles of the loaded configuration come back in their
  order, each with the credentials it had, also when its identifier is renewed from its address; the
  process shows exactly those profiles, and selects one of them whenever there is one.
\<close>

theorem start_keeps_credentials:
  assumes "start_runtime W store fs kr = Inr st" and "fst (store_load (cw_codec W) fs store) = Inr c"
  shows "map credential_id (cg_servers (rn_persisted st)) = map credential_id (cg_servers c)"
    and "map sp_base_url (cg_servers (rn_persisted st)) = map sp_base_url (cg_servers c)"
    and "\<forall>p \<in> set (cg_servers (rn_persisted st)). sp_id p = ident_of W (sp_base_url p)"
    and "cs_servers (re_state (rn_reducer st)) = cg_servers (rn_persisted st)"
    and "case cs_selected_server_id (re_state (rn_reducer st)) of
      Some i \<Rightarrow> i \<in> sp_id ` set (cg_servers (rn_persisted st)) | None \<Rightarrow> cg_servers (rn_persisted st) = []"
proof -
  let ?m = "migrate_servers (ident_of W) (cg_servers c) (cg_selected c)"
  have fill: "cg_servers (fill_notification_sound c) = cg_servers c" "cg_selected (fill_notification_sound c) = cg_selected c"
    by (simp_all add: fill_notification_sound_def)
  from assms have st: "cg_servers (rn_persisted st) = fst (snd ?m)" "cs_servers (re_state (rn_reducer st)) = fst (snd ?m)"
    "cs_selected_server_id (re_state (rn_reducer st)) =
       selected_server_id_for (c\<lparr>cg_servers := fst (snd ?m), cg_selected := snd (snd ?m)\<rparr>)"
    by (auto simp: start_runtime_def Let_def bind_res_Inr_iff case_prod_beta migrate_profile_ids_def fill new_reducer_def
        set_error_def selected_server_id_for_def first_server_def split: if_split_asm option.split)
  from migrate_servers_facts [of "ident_of W" "cg_servers c" "cg_selected c" "fst ?m" "fst (snd ?m)" "snd (snd ?m)"] st
  show "map credential_id (cg_servers (rn_persisted st)) = map credential_id (cg_servers c)"
    "map sp_base_url (cg_servers (rn_persisted st)) = map sp_base_url (cg_servers c)"
    "\<forall>p \<in> set (cg_servers (rn_persisted st)). sp_id p = ident_of W (sp_base_url p)"
    "cs_servers (re_state (rn_reducer st)) = cg_servers (rn_persisted st)" by simp_all
  show "case cs_selected_server_id (re_state (rn_reducer st)) of
      Some i \<Rightarrow> i \<in> sp_id ` set (cg_servers (rn_persisted st)) | None \<Rightarrow> cg_servers (rn_persisted st) = []"
    unfolding st by (auto simp: selected_server_id_for_def first_server_def list_ex_iff split: option.split list.split)
qed

end
