(* ===== verification/Client_Example.thy ===== *)
theory Client_Example
  imports Client_Session_Facts
begin

text \<open>
  A concrete client on which the properties of the process are applied: one enrolled server whose
  credentials are in the configuration file, a network that answers every call with the same card, and
  a synchronisation task that does nothing meanwhile.
\<close>

definition client_demo_ext :: ext where
  "client_demo_ext = sample_ext\<lparr>x_hex := \<lambda>_. [97]\<rparr>"

definition client_demo_card :: request where
  "client_demo_card = sample_card\<lparr>q_signing := Some \<lparr>sc_version = REQUEST_DIGEST_VERSION, sc_commitment = sample_commitment,
     sc_digest = [97]\<rparr>\<rparr>"

definition client_demo_url :: url where
  "client_demo_url = \<lparr>ur_scheme = lit ''https'', ur_host = Some [104], ur_username = [], ur_password = None, ur_path = [],
     ur_query = None, ur_fragment = None, ur_origin = []\<rparr>"

definition client_demo_user :: current_user_response where
  "client_demo_user = \<lparr>cu_user = \<lparr>u_id = [117], u_name = [117], u_created_at = 0, u_updated_at = 0\<rparr>,
     cu_current_device = \<lparr>kd_id = [100], kd_user_id = [117], kd_name = [100], kd_platform = Linux, kd_native_app_id = None,
       kd_push_provider = None, kd_has_push_token = False, kd_has_signing_key = True, kd_attestation = None,
       kd_notification_sound = [115], kd_preferences = default_preferences\<lparr>dp_hide_content := True\<rparr>, kd_last_seen_at = 0,
       kd_created_at = 0, kd_is_current = True\<rparr>,
     cu_delivery = DeliverWebsocket\<rparr>"

definition client_demo_decoders :: response_decoders where
  "client_demo_decoders = \<lparr>dd_enroll = (\<lambda>_. None), dd_user = (\<lambda>_. Some client_demo_user), dd_devices = (\<lambda>_. Some []),
     dd_device = (\<lambda>_. None), dd_channels = (\<lambda>_. Some []),
     dd_requests = (\<lambda>_. Some \<lparr>lr_requests = [client_demo_card], lr_next_cursor = None\<rparr>),
     dd_request = (\<lambda>_. Some client_demo_card), dd_value = (\<lambda>_. Some ()), dd_envelope = (\<lambda>_. None)\<rparr>"

definition client_demo_world :: client_world where
  "client_demo_world = \<lparr>cw_ext = client_demo_ext,
     cw_keys = \<lparr>kx_secret_ok = (\<lambda>_. True), kx_public = (\<lambda>s. s), kx_sign = (\<lambda>_ _. [1])\<rparr>,
     cw_urls = \<lparr>ux_segment = (\<lambda>s. s), ux_form = (\<lambda>_. [])\<rparr>, cw_parse_url = (\<lambda>_. Some client_demo_url),
     cw_defragmented = Some, cw_status_text = show_nat, cw_codec = sample_codec,
     cw_key_codec = \<lparr>kc_parse = (\<lambda>_. None), kc_print = (\<lambda>_. [])\<rparr>, cw_decode = client_demo_decoders, cw_backend = Software,
     cw_platform = Linux, cw_upper = (\<lambda>s. s), cw_attempt = (\<lambda>_ _. Response 200 (Some [1])),
     cw_meanwhile = (\<lambda>_ r. (r, [], False)), cw_others = (\<lambda>_ fs. fs), cw_fault = (\<lambda>_. NoFault), cw_refused = (\<lambda>_. None),
     cw_locked = (\<lambda>_. False), cw_now = (\<lambda>_. 0), cw_stamp = (\<lambda>_. []), cw_uuid = (\<lambda>_. [110]), cw_secret = (\<lambda>_. [])\<rparr>"

lemma client_demo_world_sel [simp]:
  "cw_ext client_demo_world = client_demo_ext" "cw_decode client_demo_world = client_demo_decoders" "cw_backend client_demo_world = Software"
  "cw_attempt client_demo_world n k = Response 200 (Some [1])" "cw_meanwhile client_demo_world n r = (r, [], False)"
  "cw_others client_demo_world n = (\<lambda>fs. fs)" "cw_fault client_demo_world n = NoFault" "cw_refused client_demo_world n = None"
  "cw_locked client_demo_world n = False" "cw_now client_demo_world n = 0" "cw_stamp client_demo_world n = []" "cw_uuid client_demo_world n = [110]"
  "cw_parse_url client_demo_world = (\<lambda>_. Some client_demo_url)" "cw_codec client_demo_world = sample_codec"
  "cw_keys client_demo_world = \<lparr>kx_secret_ok = (\<lambda>_. True), kx_public = (\<lambda>s. s), kx_sign = (\<lambda>_ _. [1])\<rparr>"
  by (simp_all add: client_demo_world_def)

lemma client_demo_meanwhile_ok: "meanwhile_ok client_demo_world"
  by (simp add: meanwhile_ok_def)

lemma client_demo_others_ok: "others_ok client_demo_world"
  by (simp add: others_ok_def)

definition client_demo_profile :: server_profile where
  "client_demo_profile = (plain_profile [97])\<lparr>sp_device_id := Some [100], sp_user_id := Some [117]\<rparr>"

definition client_demo_config :: client_config where
  "client_demo_config = \<lparr>cg_servers = [client_demo_profile], cg_selected = Some [97], cg_sound = [115], cg_tokens = [([97], [116])],
     cg_keys = [([97], \<lparr>kk_key_id = [107], kk_private_key = []\<rparr>)]\<rparr>"

definition client_demo_runtime :: runtime where
  "client_demo_runtime = \<lparr>rn_store = sample_store\<lparr>st_baseline := client_demo_config\<rparr>,
     rn_files = \<lparr>fs_main = Bytes (co_print sample_codec client_demo_config), fs_backup = Absent\<rparr>, rn_keyring = Map.empty,
     rn_persisted = client_demo_config, rn_reducer = new_reducer [client_demo_profile] (Some [97]) [115], rn_out = [], rn_sync = None,
     rn_log = [], rn_tick = 0\<rparr>"

lemma client_demo_sel [simp]:
  "sp_id client_demo_profile = [97]" "credential_id client_demo_profile = [97]" "sp_device_id client_demo_profile = Some [100]"
  "sp_user_id client_demo_profile = Some [117]" "cg_servers client_demo_config = [client_demo_profile]"
  "om_get (cg_tokens client_demo_config) [97] = Some [116]"
  "om_get (cg_keys client_demo_config) [97] = Some \<lparr>kk_key_id = [107], kk_private_key = []\<rparr>"
  by (simp_all add: client_demo_profile_def plain_profile_def credential_id_def client_demo_config_def om_get_def)

lemma client_demo_enrolled: "enrolled_profile [97] client_demo_runtime = (Inr client_demo_profile, client_demo_runtime)"
  by (simp add: enrolled_profile_def bind_op_def read_op_def lift_op_def client_demo_runtime_def)

text \<open>An answer from this client: one read, one submission.\<close>

definition client_demo_answer :: submit_params where
  "client_demo_answer = \<lparr>su_answer = None, su_expected = [97], su_request_id = lit ''r1'', su_option_id = lit ''dismiss'', su_text = None\<rparr>"

lemma client_demo_answer_sel: "su_expected client_demo_answer = [97]" "su_request_id client_demo_answer = lit ''r1''" "su_text client_demo_answer = None"
  by (simp_all add: client_demo_answer_def)

lemma client_demo_card_sel [simp]:
  "q_answer_field client_demo_card = None" "q_options client_demo_card = []" "q_status client_demo_card = Pending" "q_id client_demo_card = lit ''r1''"
  "q_channel_id client_demo_card = lit ''ops''"
  "q_signing client_demo_card = Some \<lparr>sc_version = REQUEST_DIGEST_VERSION, sc_commitment = sample_commitment, sc_digest = [97]\<rparr>"
  "asserted_request_digest client_demo_card = Some [97]"
  by (simp_all add: client_demo_card_def sample_card_def asserted_request_digest_def)

lemma client_demo_base64: "x_b64_decode client_demo_ext = Some"
  by (simp add: client_demo_ext_def)

lemma client_demo_digest: "reproduced_digest client_demo_ext client_demo_card = Inr ([97], [97])"
proof -
  have "structured_request_digest client_demo_ext client_demo_card sample_commitment REQUEST_DIGEST_VERSION = Inr [97]"
    by (simp add: structured_request_digest_eq sample_commitment_ok client_demo_ext_def sha256_hex_def)
  then show ?thesis
    by (simp add: reproduced_digest_def request_digest_for_version_def request_digest_v1_def of_signing_def)
qed

lemma client_demo_send:
  "send_call client_demo_world \<lparr>na_base = u, na_token = Some t\<rparr> c decode st =
     (map_err (api_failure client_demo_world) (ok_or (failure (call_method c) (call_path (cw_urls client_demo_world) c) 1 ''invalid JSON response'')
        (decode (Some [1]))),
      meanwhile client_demo_world (rn_tick st) (st\<lparr>rn_tick := rn_tick st + 1,
        rn_log := rn_log st @ [(\<lparr>na_base = u, na_token = Some t\<rparr>, c, 1)]\<rparr>))"
  by (simp add: send_call_run perform_def api_request_def send_loop_unfold retried_def conclusion_def is_success_def)

lemma client_demo_meanwhile [simp]: "rn_sync st = None \<Longrightarrow> meanwhile client_demo_world n st = st"
  by (simp add: meanwhile_def)

lemma client_demo_signed:
  "\<exists>st' g. signed_answer client_demo_world [97] client_demo_answer client_demo_runtime =
     (Inr (client_demo_profile, \<lparr>na_base = client_demo_url, na_token = Some [116]\<rparr>, client_demo_answer, Some g), st') \<and> rn_sync st' = None"
proof -
  have api: "api_for_profile client_demo_world client_demo_profile st =
      (Inr \<lparr>na_base = client_demo_url, na_token = Some [116]\<rparr>, st\<lparr>rn_tick := rn_tick st + 1\<rparr>)"
    if "rn_persisted st = client_demo_config" "st_use_config_file (rn_store st)" for st
    using that by (simp add: api_for_profile_def credentials_now_def bind_op_def next_tick_def read_op_def lift_op_def load_token_def
        with_client_def client_demo_url_def)
  have trim97: "trim [97] = [97]" by (simp add: trim_eqI is_whitespace_def)
  have same: "client_demo_answer\<lparr>su_expected := [97], su_text := trimmed_text None\<rparr> = client_demo_answer"
    by (simp add: client_demo_answer_def trimmed_text_def)
  have sig: "\<exists>g. decision_signature_for client_demo_world client_demo_profile client_demo_card client_demo_answer st = (Inr (Some g), st\<lparr>rn_tick := rn_tick st + 2\<rparr>)"
    if "rn_persisted st = client_demo_config" "st_use_config_file (rn_store st)" for st
  proof -
    have "\<exists>g. build_value_decision_signature client_demo_ext
        (stored_signer (cw_keys client_demo_world) client_demo_ext \<lparr>kk_key_id = [107], kk_private_key = []\<rparr>)
        \<lparr>sq_request = client_demo_card, sq_option_id = lit ''dismiss'', sq_text = None, sq_user_id = [117], sq_device_id = [100]\<rparr>
        None (Some [97]) [110] 0 = Inr g"
      by (simp add: build_ok check_answer_def client_demo_digest option_for_def implicit_dismiss_option_id_def client_payload_def
          stored_signer_def sign_payload_def decode_signing_key_def client_demo_base64)
    then show ?thesis
      using that by (auto simp: decision_signature_for_def device_signer_for_def credentials_now_def bind_op_def next_tick_def
          read_op_def lift_op_def pure_op_def load_signing_key_def client_demo_answer_def)
  qed
  define st2 where "st2 = client_demo_runtime\<lparr>rn_tick := 2, rn_log := [(\<lparr>na_base = client_demo_url, na_token = Some [116]\<rparr>, GetRequest (lit ''r1''), 1)]\<rparr>"
  have keep: "rn_persisted client_demo_runtime = client_demo_config" "st_use_config_file (rn_store client_demo_runtime)" "rn_sync client_demo_runtime = None"
    "rn_log client_demo_runtime = []" "rn_tick client_demo_runtime = 0"
    by (simp_all add: client_demo_runtime_def sample_store_def new_store_def)
  have read: "send_call client_demo_world \<lparr>na_base = client_demo_url, na_token = Some [116]\<rparr> (GetRequest (lit ''r1'')) (dd_request client_demo_decoders)
      (client_demo_runtime\<lparr>rn_tick := Suc 0\<rparr>) = (Inr client_demo_card, st2)"
    by (simp add: client_demo_send keep st2_def client_demo_decoders_def)
  have rendered: "rendered_request st2 [97] (lit ''r1'') = None"
    by (simp add: rendered_request_def st2_def client_demo_runtime_def held_request_def new_reducer_def)
  from sig [of st2] keep obtain g where "decision_signature_for client_demo_world client_demo_profile client_demo_card client_demo_answer st2 =
      (Inr (Some g), st2\<lparr>rn_tick := rn_tick st2 + 2\<rparr>)"
    by (auto simp: st2_def)
  with read rendered keep api [of client_demo_runtime] show ?thesis
    by (intro exI [of _ "st2\<lparr>rn_tick := rn_tick st2 + 2\<rparr>"] exI [of _ g])
      (simp add: signed_answer_def is_whitespace_def bind_op_def client_demo_enrolled read_op_def pure_op_def same trim97 Let_def st2_def
        client_demo_answer_sel)
qed

text \<open>The answer is sent: the witness of \<open>answer_sent_once_as_shown\<close>.\<close>

theorem answer_sent_once_as_shown_witness:
  "\<exists>st' a b n. rn_log client_demo_runtime = [] \<and>
    st' = snd (handle_rpc client_demo_world (RpcSubmitRequestOption [97] client_demo_answer) client_demo_runtime) \<and>
    filter is_submission (rn_log st') = [(a, SubmitOption b, n)] \<and> n \<le> 1 \<and> answers_as_shown client_demo_ext client_demo_answer b"
proof -
  obtain r st' where run: "handle_rpc client_demo_world (RpcSubmitRequestOption [97] client_demo_answer) client_demo_runtime = (r, st')" by fastforce
  note once = answer_sent_once_as_shown [OF client_demo_meanwhile_ok run]
  have log: "rn_log client_demo_runtime = []" by (simp add: client_demo_runtime_def)
  obtain st1 g where signed: "signed_answer client_demo_world [97] client_demo_answer client_demo_runtime =
      (Inr (client_demo_profile, \<lparr>na_base = client_demo_url, na_token = Some [116]\<rparr>, client_demo_answer, Some g), st1)"
    using client_demo_signed by blast
  obtain r2 st2 where sent: "send_answer client_demo_world client_demo_profile
      \<lparr>na_base = client_demo_url, na_token = Some [116]\<rparr> client_demo_answer (Some g) st1 = (r2, st2)" by fastforce
  from send_answer_calls [OF client_demo_meanwhile_ok sent]
  have some: "filter is_submission (rn_log st2) \<noteq> []" by (auto simp: is_submission_def)
  from signed sent have "\<exists>r1. handle_method client_demo_world (RpcSubmitRequestOption [97] client_demo_answer)
      client_demo_runtime = (r1, st2)"
    by (cases r2) (simp_all add: handle_method_def give_def submit_request_option_def bind_op_def pure_op_def)
  with handle_rpc_log [OF run] have "rn_log st' = rn_log st2" by blast
  with once some log run show ?thesis
    by (intro exI [of _ st']) auto
qed

section \<open>The process\<close>


lemma om_put_not_Nil [simp]: "om_put k v m \<noteq> []"
  by (metis om_get_put om_get_def list.simps(8) option.distinct(1) map_of.simps(1))

text \<open>A client that holds a card is told that its token is no longer known.\<close>

definition client_demo_context :: snapshot_context where
  "client_demo_context = \<lparr>sx_api = \<lparr>na_base = client_demo_url, na_token = Some [116]\<rparr>, sx_server_id = [97]\<rparr>"

definition client_demo_holding :: runtime where
  "client_demo_holding = client_demo_runtime\<lparr>rn_reducer := snd (apply_request_update client_demo_card
     (rn_reducer client_demo_runtime))\<rparr>"

definition client_demo_connection :: "handshake \<Rightarrow> connection" where
  "client_demo_connection h = \<lparr>ln_handshake = h, ln_events = [], ln_elapsed = 0, ln_random = 0\<rparr>"

lemma client_demo_connects:
  "run_connection client_demo_world client_demo_context (HandshakeStatus 401) es st =
     (Inr (Some (Inl (ClientFailed (api_failure client_demo_world (http_status GET (lit ''/api/v1/sync'') 401 1))))), st)"
  "run_connection client_demo_world client_demo_context HandshakeFails es st =
     (Inr (Some (Inl (ClientFailed (Failure (lit ''Nod GET /api/v1/sync connection failed; reconnecting.''))))), st)"
  by (simp_all add: run_connection_def websocket_authorization_def client_demo_context_def handshake_error_def pure_op_def)

lemma client_demo_revocation:
  "is_revocation (Inl (ClientFailed (api_failure client_demo_world (http_status m p 401 k))))"
  "\<not> is_revocation (Inl (ClientFailed (Failure t)))"
  by (simp_all add: is_revocation_def is_unauthorized_def api_failure_def http_status_def)

lemma set_phase_run: "\<exists>st'. set_phase ph st = (Inr (), st')"
  by (simp add: set_phase_def bind_op_def on_reducer_def write_op_def client_state_now_def read_op_def tell_def emit_state_def)


theorem reconnects_back_off_witness:
  "\<exists>delays st'. sync_loop client_demo_world client_demo_context False 0
      [client_demo_connection HandshakeFails, client_demo_connection HandshakeFails] client_demo_runtime =
      (Inr (False, delays), st') \<and> length delays = 2 \<and> 4000 \<le> unat (delays ! 1) \<and>
     unat (reconnect_delay 2 0) = 4000"
proof -
  obtain delays st' where run: "sync_loop client_demo_world client_demo_context False 0
      [client_demo_connection HandshakeFails, client_demo_connection HandshakeFails] client_demo_runtime =
      (Inr (False, delays), st')" "length delays = 2"
  proof -
    have step: "\<exists>st1 has1. sync_loop client_demo_world client_demo_context has f (client_demo_connection HandshakeFails # cs) st =
        bind_op (sync_loop client_demo_world client_demo_context has1 (saturating_succ f) cs) (\<lambda>(finished, delays).
          pure_op (finished, reconnect_delay (saturating_succ f) 0 # delays)) st1" for has f cs and st :: runtime
    proof -
      obtain st1 where "set_phase Connecting st = (Inr (), st1)" using set_phase_run by blast
      moreover obtain st2 where "report_failure (Inl (ClientFailed (Failure
          (lit ''Nod GET /api/v1/sync connection failed; reconnecting.'')))) has st1 = (Inr (), st2)"
        using report_run by (metis surj_pair fst_conv)
      moreover obtain st3 where "set_phase Offline st2 = (Inr (), st3)" using set_phase_run by blast
      ultimately show ?thesis
        by (intro exI [of _ st3] exI [of _ "has \<or> cs_is_sync_connected (re_state (rn_reducer st2))"])
          (simp add: client_demo_connection_def bind_op_def client_demo_connects client_demo_revocation client_state_now_def
            read_op_def heartbeat_interval_def Let_def)
    qed
    from step [of False 0 "[client_demo_connection HandshakeFails]" client_demo_runtime] obtain st1 has1 where
      "sync_loop client_demo_world client_demo_context False 0
        [client_demo_connection HandshakeFails, client_demo_connection HandshakeFails] client_demo_runtime =
       bind_op (sync_loop client_demo_world client_demo_context has1 (saturating_succ 0) [client_demo_connection HandshakeFails])
        (\<lambda>(finished, delays). pure_op (finished, reconnect_delay (saturating_succ 0) 0 # delays)) st1" by blast
    moreover from step [of has1 "saturating_succ 0" "[]" st1] obtain st2 has2 where
      "sync_loop client_demo_world client_demo_context has1 (saturating_succ 0) [client_demo_connection HandshakeFails] st1 =
       (Inr (False, [reconnect_delay (saturating_succ (saturating_succ 0)) 0]), st2)"
      by (auto simp: bind_op_def pure_op_def simp del: sync_loop.simps(2))
    ultimately have "sync_loop client_demo_world client_demo_context False 0
        [client_demo_connection HandshakeFails, client_demo_connection HandshakeFails] client_demo_runtime =
      (Inr (False, [reconnect_delay (saturating_succ 0) 0, reconnect_delay (saturating_succ (saturating_succ 0)) 0]), st2)"
      by (simp add: bind_op_def pure_op_def del: sync_loop.simps)
    then show ?thesis by (rule that) simp
  qed
  have "ln_elapsed ([client_demo_connection HandshakeFails, client_demo_connection HandshakeFails] ! j) < heartbeat_interval"
    if "j \<le> 1" for j
    using that by (cases j) (simp_all add: client_demo_connection_def heartbeat_interval_def)
  then have "4000 \<le> unat (delays ! 1)"
    using reconnects_back_off [OF run(1), THEN conjunct2, THEN conjunct2, THEN conjunct2, THEN spec, of 1] run(2) by simp
  moreover have "unat (reconnect_delay 2 0) = 4000" using reconnects_back_off [OF run(1), of 2 0] by simp
  ultimately show ?thesis using run by blast
qed

section \<open>Alerts, forgetting, starting\<close>

definition client_demo_watching :: runtime where
  "client_demo_watching = client_demo_runtime\<lparr>rn_reducer := (rn_reducer client_demo_runtime)\<lparr>re_state :=
     (re_state (rn_reducer client_demo_runtime))\<lparr>cs_devices := [cu_current_device client_demo_user]\<rparr>\<rparr>\<rparr>"


lemma client_demo_removes:
  "\<exists>kr. remove_credentials client_demo_world p st = (Inr (), st\<lparr>rn_tick := rn_tick st + 2, rn_keyring := kr,
     rn_persisted := (rn_persisted st)\<lparr>cg_tokens := om_del (credential_id p) (cg_tokens (rn_persisted st)),
       cg_keys := om_del (credential_id p) (cg_keys (rn_persisted st))\<rparr>\<rparr>)"
  by (cases st) (auto simp: remove_credentials_def on_credentials_def bind_op_def next_tick_def delete_token_def
      delete_signing_key_def)

lemma client_demo_forgets: "\<exists>s st'. forget_server client_demo_world [97] client_demo_runtime = (Inr s, st')"
proof -
  let ?none = "\<lparr>cg_servers = [], cg_selected = None, cg_sound = [115], cg_tokens = [], cg_keys = []\<rparr>"
  have saved: "\<exists>fs store. store_save sample_codec ?none NoFault (rn_files client_demo_runtime) (rn_store client_demo_runtime) =
      (Inr (), fs, store)"
    using sample_codec_ok
    by (simp add: client_demo_runtime_def store_save_def save_locked_def replace_file_def read_config_cases readable_print Let_def
        sample_store_def new_store_def)
  have cs: "cs_selected_server_id (re_state (rn_reducer client_demo_runtime)) = Some [97]"
    "cs_servers (re_state (rn_reducer client_demo_runtime)) = [client_demo_profile]"
    by (simp_all add: client_demo_runtime_def new_reducer_def)
  have gone: "om_del [97] [([97], x)] = []" for x :: 'x by (simp add: om_del_def)
  define st1 where "st1 = snd (disconnect_sync client_demo_runtime)"
  have st1: "disconnect_sync client_demo_runtime = (Inr (), st1)" "rn_persisted st1 = client_demo_config"
    "rn_files st1 = rn_files client_demo_runtime" "rn_store st1 = rn_store client_demo_runtime"
    "cs_servers (re_state (rn_reducer st1)) = [client_demo_profile]"
    by (simp_all add: st1_def disconnect_sync_def bind_op_def write_op_def on_reducer_def tell_def emit_state_def
        client_state_now_def read_op_def mark_sync_connected_def cs Let_def) (simp add: client_demo_runtime_def)
  define st2 where "st2 = st1\<lparr>rn_persisted := forget_profile [97] client_demo_config\<rparr>"
  obtain kr where st3: "remove_credentials client_demo_world client_demo_profile st2 =
      (Inr (), st2\<lparr>rn_tick := rn_tick st2 + 2, rn_keyring := kr,
        rn_persisted := \<lparr>cg_servers = [], cg_selected = Some [97], cg_sound = [115], cg_tokens = [], cg_keys = []\<rparr>\<rparr>)"
    using client_demo_removes [of client_demo_profile st2]
    by (auto simp: st2_def forget_profile_def client_demo_config_def gone without_profile_def)
  define st4 where "st4 = st2\<lparr>rn_tick := Suc (Suc (rn_tick st2)), rn_keyring := kr, rn_persisted := ?none\<rparr>"
  obtain st5 where st5: "save_persisted client_demo_world st4 = (Inr (), st5)" "rn_reducer st5 = rn_reducer st1"
    using saved by (auto simp: save_persisted_def bind_op_def next_tick_def st4_def st2_def st1)
  have "\<not> cs_is_registered (re_state (remove_server [97] (rn_reducer st1)))"
    by (simp add: remove_server_def st1 Let_def)
  with st1 st3 st5 show ?thesis
    by (simp add: forget_server_def client_demo_enrolled bind_op_def read_op_def cs Let_def remove_foreign_key_def pure_op_def
        on_persisted_def write_op_def on_reducer_def client_state_now_def emit_state_def tell_def first_server_def
        flip: st2_def st4_def)
qed


text \<open>A profile named by an older version: its identifier is replaced, its credentials stay under the old name.\<close>

theorem start_keeps_credentials_witness:
  "\<exists>st. start_runtime client_demo_world sample_store sample_files Map.empty = Inr st \<and>
     map credential_id (cg_servers (rn_persisted st)) = [[97]] \<and> map sp_id (cg_servers (rn_persisted st)) \<noteq> [[97]]"
proof -
  let ?i = "ident_of client_demo_world [97]"
  have other: "?i \<noteq> [97]"
    by (auto simp: ident_of_def profile_id_for_def Let_def lit_def)
  let ?p = "(plain_profile [97])\<lparr>sp_credential_id := Some [97], sp_id := ?i\<rparr>"
  let ?c = "default_config\<lparr>cg_servers := [plain_profile [97]]\<rparr>"
  have loaded: "store_load sample_codec sample_files sample_store =
      (Inr ?c, sample_store\<lparr>st_baseline := ?c\<rparr>)"
    using sample_load by simp
  have saved: "\<exists>fs store. store_save sample_codec (default_config\<lparr>cg_servers := [?p], cg_selected := None\<rparr>) NoFault sample_files
      (sample_store\<lparr>st_baseline := ?c\<rparr>) = (Inr (), fs, store)"
    using sample_codec_ok
    by (simp add: store_save_def save_locked_def replace_file_def sample_files_def read_config_cases readable_print Let_def
        sample_store_def new_store_def)
  have filled: "fill_notification_sound ?c = ?c"
    by (simp add: fill_notification_sound_def default_config_def default_notification_sound_def trim_eqI lit_def is_whitespace_def)
  have migrated: "migrate_profile_ids (ident_of client_demo_world) ?c =
      (True, default_config\<lparr>cg_servers := [?p], cg_selected := None\<rparr>)"
    using other by (simp add: migrate_profile_ids_def plain_profile_def credential_id_def default_config_def)
  from saved obtain st where run: "start_runtime client_demo_world sample_store sample_files Map.empty = Inr st"
    by (auto simp: start_runtime_def loaded of_text_def filled migrated Let_def)
  have "fst (store_load (cw_codec client_demo_world) sample_files sample_store) = Inr ?c" by (simp add: loaded)
  note kept = start_keeps_credentials [OF run this]
  from kept(1,2) have "map credential_id (cg_servers (rn_persisted st)) = [[97]]" "map sp_base_url (cg_servers (rn_persisted st)) = [[97]]"
    by (simp_all add: plain_profile_def credential_id_def)
  with kept(3) other run show ?thesis by (auto simp: map_eq_Cons_conv)
qed

text \<open>The demo answer is sent.\<close>

lemma client_demo_submits:
  assumes "submit_option client_demo_world client_demo_answer client_demo_runtime = (r, st')"
  shows "filter is_submission (rn_log st') \<noteq> []"
proof -
  obtain st1 g where signed: "signed_answer client_demo_world [97] client_demo_answer client_demo_runtime =
      (Inr (client_demo_profile, \<lparr>na_base = client_demo_url, na_token = Some [116]\<rparr>, client_demo_answer, Some g), st1)"
    using client_demo_signed by blast
  obtain r2 st2 where sent: "send_answer client_demo_world client_demo_profile
      \<lparr>na_base = client_demo_url, na_token = Some [116]\<rparr> client_demo_answer (Some g) st1 = (r2, st2)" by fastforce
  have selected: "selected_server_profile client_demo_runtime = (Inr client_demo_profile, client_demo_runtime)"
    by (simp add: selected_server_profile_def bind_op_def read_op_def lift_op_def client_demo_runtime_def new_reducer_def selected_server_def)
  from assms signed sent have "st' = st2"
    by (cases r2) (simp_all add: submit_option_def submit_request_option_def bind_op_def pure_op_def selected)
  with send_answer_calls [OF client_demo_meanwhile_ok sent] show ?thesis by (auto simp: is_submission_def)
qed

end
