(* ===== verification/Tui_Example.thy ===== *)
theory Tui_Example
  imports Tui_Facts Client_Example
begin

text \<open>
  Concrete runs of the terminal client on which its properties are applied: a registered client that shows one card and
  one channel, and a client that is not registered.
\<close>

definition tui_demo :: tui_ext where
  "tui_demo = \<lparr>tx_lower = (\<lambda>s. s), tx_debug = (\<lambda>v. case v of Some s \<Rightarrow> s | None \<Rightarrow> []), tx_host = None\<rparr>"

definition tui_demo_key :: "key_code \<Rightarrow> key_event" where
  "tui_demo_key c = \<lparr>ke_code = c, ke_kind = KeyPress, ke_control = False, ke_shift = False, ke_other = False\<rparr>"

definition tui_demo_state :: client_state where
  "tui_demo_state = (re_state (new_reducer [client_demo_profile] (Some [97]) [115]))\<lparr>cs_is_registered := True,
     cs_requests := [client_demo_card], cs_channels := [\<lparr>cn_id = lit ''ops'', cn_name = lit ''Ops'', cn_emoji = [], cn_subscribed = True,
       cn_created_at = 0\<rparr>],
     cs_selected_channel_id := Some (lit ''ops''), cs_selected_request_id := Some (lit ''r1'')\<rparr>"

definition tui_demo_input :: "(rstr + command_outcome) list \<Rightarrow> key_code \<Rightarrow> loop_input" where
  "tui_demo_input rs c = \<lparr>li_messages = [], li_results = rs, li_now = 0, li_scroll = 0, li_key = Some (tui_demo_key c)\<rparr>"

lemma tui_demo_start:
  "\<exists>l. tui_run tui_demo tui_demo_state l [(new_app tui_demo tui_demo_state, [], [CmdRefresh, CmdConnectSync])] \<and> lp_flight l = 2 \<and>
     lp_app l = begin_command CmdConnectSync (begin_command CmdRefresh (new_app tui_demo tui_demo_state))"
proof -
  define a where "a = new_app tui_demo tui_demo_state"
  have "start_tui tui_demo tui_demo_state = (\<lparr>lp_app = begin_command CmdConnectSync (begin_command CmdRefresh a), lp_flight = 2\<rparr>,
      [CmdRefresh, CmdConnectSync])"
    by (simp add: start_tui_def startup_commands_for_def a_def new_app_def tui_demo_state_def start_command_def Let_def)
  from tui_run.tui_started [OF this] show ?thesis by (auto simp: a_def)
qed

text \<open>The start-up commands answer with nothing, and a key comes.\<close>

definition tui_demo_screen :: "app_screen" where
  "tui_demo_screen = (new_app tui_demo tui_demo_state)\<lparr>ts_status := lit ''Ready''\<rparr>"

lemma tui_demo_step:
  assumes "handle_key tui_demo (tui_demo_key c) tui_demo_screen = (a, cs)" "length cs \<le> 1"
  shows "\<exists>l. tui_run tui_demo tui_demo_state l [(new_app tui_demo tui_demo_state, [], [CmdRefresh, CmdConnectSync]),
      (tui_demo_screen, [Inr OutNone, Inr OutNone], cs)] \<and> ts_quit (lp_app l) = ts_quit a \<and> lp_flight l = length cs \<and>
    (cs = [] \<longrightarrow> lp_app l = a)"
proof -
  from tui_demo_start obtain l where l: "tui_run tui_demo tui_demo_state l
      [(new_app tui_demo tui_demo_state, [], [CmdRefresh, CmdConnectSync])]" "lp_flight l = 2"
    "lp_app l = begin_command CmdConnectSync (begin_command CmdRefresh (new_app tui_demo tui_demo_state))" by blast
  let ?i = "tui_demo_input [Inr OutNone, Inr OutNone] c"
  have drawn: "drawn_app tui_demo ?i l = tui_demo_screen"
    by (simp add: drawn_app_def l(3) tui_demo_input_def drain_runtime_messages_def drain_command_results_def apply_runtime_outcome_def
        begin_command_def new_app_def tui_demo_state_def tick_app_def tick_alerts_def new_alerts_def clamp_detail_scroll_def
        tui_demo_screen_def Let_def)
  obtain l' started where s: "start_commands cs (l\<lparr>lp_flight := 0, lp_app := a\<rparr>) = (l', started)" by fastforce
  then have iter: "loop_iteration tui_demo ?i l = (l', started)"
    using assms(1) l(2) drawn by (simp add: loop_iteration_def Let_def tui_demo_input_def numeral_2_eq_2)
  have "\<not> ts_quit (lp_app l)" by (simp add: l(3) begin_command_def new_app_def)
  from tui_run.tui_iterated [OF l(1) this _ iter] l(2) drawn
  have run: "tui_run tui_demo tui_demo_state l' [(new_app tui_demo tui_demo_state, [], [CmdRefresh, CmdConnectSync]),
      (tui_demo_screen, [Inr OutNone, Inr OutNone], started)]" by (simp add: tui_demo_input_def)
  from assms(2) have "started = cs \<and> (cs = [] \<longrightarrow> lp_app l' = a)"
    using s by (cases cs) auto
  with run start_commands_facts [OF s] show ?thesis by (intro exI [of _ l']) auto
qed

lemma tui_demo_selected: "selected_request tui_demo_screen = Some client_demo_card"
  by (simp add: selected_request_def tui_demo_screen_def new_app_def shown_request_def tui_demo_state_def)

lemma tui_demo_dismiss: "handle_key tui_demo (tui_demo_key (KChar (of_char CHR ''d''))) tui_demo_screen =
    (tui_demo_screen, [CmdSubmitOption client_demo_answer])"
proof -
  have "option_for_kind client_demo_card Dismiss = Some \<lparr>oc_id = lit ''dismiss'', oc_label = lit ''Dismiss'', oc_placeholder = None,
      oc_requires_text = False\<rparr>"
    by (simp add: option_for_kind_def default_dismiss_option_def)
  then have "command_for_option_kind tui_demo Dismiss tui_demo_screen = (tui_demo_screen, [CmdSubmitOption client_demo_answer])"
    by (simp add: command_for_option_kind_def tui_demo_selected command_for_choice_def answer_value_of_def client_demo_answer_def)
  then show ?thesis
    by (simp add: handle_key_def is_pressed_key_def is_interrupt_key_def tui_demo_key_def is_key_def handle_main_key_def
        tui_demo_screen_def new_app_def tui_demo_state_def)
qed

theorem one_command_at_a_time_witness:
  "\<exists>l. tui_run tui_demo tui_demo_state l ([(new_app tui_demo tui_demo_state, [], [CmdRefresh, CmdConnectSync])] @
      [(tui_demo_screen, [Inr OutNone, Inr OutNone], [CmdSubmitOption client_demo_answer])]) \<and>
    commands_started [(new_app tui_demo tui_demo_state, [], [CmdRefresh, CmdConnectSync])] = 2"
proof -
  from tui_demo_step [OF tui_demo_dismiss] obtain l where l: "tui_run tui_demo tui_demo_state l
      ([(new_app tui_demo tui_demo_state, [], [CmdRefresh, CmdConnectSync])] @
       [(tui_demo_screen, [Inr OutNone, Inr OutNone], [CmdSubmitOption client_demo_answer])])" by auto
  from one_command_at_a_time [OF this] l show ?thesis by (auto simp: results_seen_def)
qed

theorem answers_come_from_the_screen_witness:
  "\<exists>r st' w b n. execute_command client_demo_world (CmdSubmitOption client_demo_answer) client_demo_runtime = (r, st') \<and>
     filter is_submission (rn_log st') = [(w, SubmitOption b, n)] \<and> n \<le> 1 \<and> sn_request_id b = q_id client_demo_card \<and>
     (\<exists>g. sn_signature b = Some g \<and> ds_request_digest g = [97])"
proof -
  from tui_demo_step [OF tui_demo_dismiss] obtain l where l: "tui_run tui_demo tui_demo_state l
      ([(new_app tui_demo tui_demo_state, [], [CmdRefresh, CmdConnectSync])] @
       [(tui_demo_screen, [Inr OutNone, Inr OutNone], [CmdSubmitOption client_demo_answer])])" by auto
  obtain r st' where run: "execute_command client_demo_world (CmdSubmitOption client_demo_answer) client_demo_runtime = (r, st')"
    by fastforce
  obtain r1 where "submit_option client_demo_world client_demo_answer client_demo_runtime = (r1, st')"
    using run by (auto simp: execute_command_def bind_op_def pure_op_def split: prod.splits sum.splits)
  from client_demo_submits [OF this] have some: "filter is_submission (rn_log st') \<noteq> []" .
  have log: "rn_log client_demo_runtime = []" by (simp add: client_demo_runtime_def)
  have card: "selected_request (new_app tui_demo tui_demo_state) = Some client_demo_card"
    by (simp add: selected_request_def new_app_def shown_request_def tui_demo_state_def)
  have "trim [97] = [97]" by (simp add: trim_eqI is_whitespace_def)
  with answers_come_from_the_screen [OF client_demo_meanwhile_ok l _ run] some log run card tui_demo_selected
  show ?thesis by fastforce
qed


text \<open>A client that is not registered: escape and \<open>q\<close> do not leave the form.\<close>

theorem unregistered_only_enrolls_witness:
  "\<exists>l earlier a. tui_run tui_demo (tui_demo_state\<lparr>cs_is_registered := False\<rparr>) l (earlier @ [(a, [], [])]) \<and> earlier \<noteq> [] \<and>
     is_enrollment (ts_modal a)"
proof -
  let ?s = "tui_demo_state\<lparr>cs_is_registered := False\<rparr>" and ?i = "tui_demo_input [] KEsc"
  let ?l = "\<lparr>lp_app = new_app tui_demo ?s, lp_flight = 0\<rparr>"
  have start: "tui_run tui_demo ?s ?l [(new_app tui_demo ?s, [], [])]"
    by (rule tui_run.tui_started) (simp add: start_tui_def startup_commands_for_def new_app_def Let_def)
  have client: "ts_client (new_app tui_demo ?s) = ?s" by (simp add: new_app_def)
  have drawn: "drawn_app tui_demo ?i ?l = new_app tui_demo ?s"
    by (simp add: drawn_app_def tui_demo_input_def drain_runtime_messages_def drain_command_results_def tick_app_def
        tick_alerts_def clamp_detail_scroll_def new_app_def new_alerts_def)
  have "snd (handle_key tui_demo (tui_demo_key KEsc) (new_app tui_demo ?s)) = []"
    by (simp add: handle_key_def is_pressed_key_def is_interrupt_key_def tui_demo_key_def is_key_def handle_modal_key_def
        enrollment_key_def new_app_def new_enrollment_def)
  then obtain a where "handle_key tui_demo (tui_demo_key KEsc) (new_app tui_demo ?s) = (a, [])" by (metis prod.collapse)
  with drawn have "loop_iteration tui_demo ?i ?l = (\<lparr>lp_app = a, lp_flight = 0\<rparr>, [])"
    by (simp add: loop_iteration_def Let_def tui_demo_input_def)
  from tui_run.tui_iterated [OF start _ _ this] drawn
  have run: "tui_run tui_demo ?s \<lparr>lp_app = a, lp_flight = 0\<rparr> ([(new_app tui_demo ?s, [], [])] @ [(new_app tui_demo ?s, [], [])])"
    by (simp add: tui_demo_input_def new_app_def)
  from unregistered_only_enrolls [OF run] client
  have "is_enrollment (ts_modal (new_app tui_demo ?s))" by simp
  with run show ?thesis by blast
qed

end
