(* ===== verification/Apns.thy ===== *)
theory Apns
  imports Json Workers "HOL-Library.AList"
begin

text \<open>
  The APNs relay (nod-apns-relay): the policy that checks a notification (relay.rs), the payload Apple
  gets (apns/payload.rs), the provider token (apns/auth.rs), the call to Apple (apns/client.rs), the
  errors (error.rs) and the HTTP handler. serde_json, the signing of tokens, the printing of a status and
  Rust's \<open>Debug\<close> text of a string are the fields of \<open>apns_ext\<close>; Apple is a function from calls to
  answers. The seconds since the epoch are a natural number.
\<close>

record apns_ext =
  ax_debug :: "rstr \<Rightarrow> rstr"
  ax_print :: "json \<Rightarrow> byte list"
  ax_parse :: "byte list \<Rightarrow> json option"
    \<comment> \<open>members in order, repeated ones kept\<close>
  ax_status :: "nat \<Rightarrow> rstr"
  ax_sign :: "rstr \<Rightarrow> rstr \<Rightarrow> nat \<Rightarrow> rstr + rstr"
    \<comment> \<open>team, key, issue time\<close>

section \<open>Requests to the relay\<close>

record notification_target =
  nt_platform :: rstr
  nt_native_app_id :: rstr
  nt_token :: rstr

record notification_content =
  nc_title :: rstr
  nc_body :: rstr
  nc_sound :: rstr
  nc_thread_id :: rstr
  nc_category :: rstr

record notification_metadata =
  nm_request_id :: rstr
  nm_channel_id :: rstr
  nm_device_id :: "rstr option"

record apns_relay_request =
  ar_target :: notification_target
  ar_notification :: notification_content
  ar_metadata :: notification_metadata

definition target_fields :: "rstr list" where
  "target_fields = map lit [''platform'', ''native_app_id'', ''token'']"

definition content_fields :: "rstr list" where
  "content_fields = map lit [''title'', ''body'', ''sound'', ''thread_id'', ''category'']"

definition metadata_fields :: "rstr list" where
  "metadata_fields = map lit [''request_id'', ''channel_id'', ''device_id'']"

definition relay_fields :: "rstr list" where
  "relay_fields = map lit [''target'', ''notification'', ''metadata'']"

definition json_target :: "notification_target \<Rightarrow> json" where
  "json_target t = JObj (zip target_fields (map JStr [nt_platform t, nt_native_app_id t, nt_token t]))"

definition json_content :: "notification_content \<Rightarrow> json" where
  "json_content n = JObj (zip content_fields
     (map JStr [nc_title n, nc_body n, nc_sound n, nc_thread_id n, nc_category n]))"

definition json_metadata :: "notification_metadata \<Rightarrow> json" where
  "json_metadata m = JObj ([text_member ''request_id'' (nm_request_id m), text_member ''channel_id'' (nm_channel_id m)] @
     optional_member ''device_id'' (nm_device_id m))"

definition json_relay_request :: "apns_relay_request \<Rightarrow> json" where
  "json_relay_request q = JObj (zip relay_fields
     [json_target (ar_target q), json_content (ar_notification q), json_metadata (ar_metadata q)])"

definition target_of_json :: "json \<Rightarrow> notification_target option" where
  "target_of_json j = (case Option.bind (struct_fields True target_fields j) (\<lambda>vs. those (map json_text vs)) of
      Some [p, n, t] \<Rightarrow> Some \<lparr>nt_platform = p, nt_native_app_id = n, nt_token = t\<rparr> | _ \<Rightarrow> None)"

definition content_of_json :: "json \<Rightarrow> notification_content option" where
  "content_of_json j = (case Option.bind (struct_fields True content_fields j) (\<lambda>vs. those (map json_text vs)) of
      Some [t, b, s, i, c] \<Rightarrow> Some \<lparr>nc_title = t, nc_body = b, nc_sound = s, nc_thread_id = i, nc_category = c\<rparr>
    | _ \<Rightarrow> None)"

definition metadata_of_json :: "json \<Rightarrow> notification_metadata option" where
  "metadata_of_json j = (case struct_fields True metadata_fields j of
      Some [r, c, d] \<Rightarrow> (case (json_text r, json_text c, json_optional_text d) of
          (Some r, Some c, Some d) \<Rightarrow> Some \<lparr>nm_request_id = r, nm_channel_id = c, nm_device_id = d\<rparr>
        | _ \<Rightarrow> None)
    | _ \<Rightarrow> None)"

definition relay_request_of_json :: "json \<Rightarrow> apns_relay_request option" where
  "relay_request_of_json j = (case struct_fields True relay_fields j of
      Some [Some t, Some n, Some m] \<Rightarrow> (case (target_of_json t, content_of_json n, metadata_of_json m) of
          (Some t, Some n, Some m) \<Rightarrow> Some \<lparr>ar_target = t, ar_notification = n, ar_metadata = m\<rparr>
        | _ \<Rightarrow> None)
    | _ \<Rightarrow> None)"

section \<open>Errors\<close>

record delivery_failure =
  df_message :: rstr
  df_retryable :: bool
  df_invalid_token :: bool

datatype relay_error = BadRelayRequest rstr | Upstream rstr | Delivery delivery_failure

definition relay_error_text :: "relay_error \<Rightarrow> rstr" where
  "relay_error_text e = (case e of BadRelayRequest t \<Rightarrow> t | Upstream t \<Rightarrow> t | Delivery f \<Rightarrow> df_message f)"

definition failure_fields :: "rstr list" where
  "failure_fields = map lit [''message'', ''retryable'', ''invalid_token'']"

definition json_failure :: "delivery_failure \<Rightarrow> json" where
  "json_failure f = JObj (zip failure_fields [JStr (df_message f), JBool (df_retryable f), JBool (df_invalid_token f)])"

definition failure_of_json :: "json \<Rightarrow> delivery_failure option" where
  "failure_of_json j = (case struct_fields False failure_fields j of
      Some [Some (JStr m), Some (JBool r), Some (JBool i)] \<Rightarrow>
        Some \<lparr>df_message = m, df_retryable = r, df_invalid_token = i\<rparr>
    | _ \<Rightarrow> None)"

definition error_response :: "relay_error \<Rightarrow> nat \<times> json" where
  "error_response e = (case e of
      BadRelayRequest t \<Rightarrow> (400, JObj [text_member ''error'' (lit ''Bad Request''), text_member ''message'' t])
    | Upstream t \<Rightarrow> (502, JObj [text_member ''error'' (lit ''Bad Gateway''), text_member ''message'' t])
    | Delivery f \<Rightarrow> (if df_retryable f then 502 else 422, json_failure f))"

text \<open>An answer on the network: its status and the chunks of its body, \<open>None\<close> where reading failed.\<close>

record http_reply =
  hy_status :: nat
  hy_chunks :: "byte list option list"

definition MAX_ERROR_BYTES :: nat where "MAX_ERROR_BYTES = 4096"

fun read_error_body :: "byte list \<Rightarrow> byte list option list \<Rightarrow> byte list option" where
  "read_error_body body [] = Some body"
| "read_error_body body (None # _) = None"
| "read_error_body body (Some chunk # chunks) =
     (if length body + length chunk > MAX_ERROR_BYTES then None else read_error_body (body @ chunk) chunks)"

definition bounded_error_json :: "apns_ext \<Rightarrow> (json \<Rightarrow> 'a option) \<Rightarrow> http_reply \<Rightarrow> 'a option" where
  "bounded_error_json A read_value y =
     Option.bind (read_error_body [] (hy_chunks y)) (\<lambda>body. Option.bind (ax_parse A body) read_value)"

section \<open>The policy\<close>

datatype target_platform = TargetIos | TargetWatchOs

record relay_target =
  tg_platform :: target_platform
  tg_native_app_id :: rstr
  tg_token :: rstr

text \<open>The content and metadata of a checked notification have the fields of those of a request.\<close>

record relay_notification =
  rl_target :: relay_target
  rl_notification :: notification_content
  rl_metadata :: notification_metadata

definition relay_required_text :: "string \<Rightarrow> rstr \<Rightarrow> relay_error + rstr" where
  "relay_required_text name value =
     (if trim value = [] then Inl (BadRelayRequest (lit name @ lit '' is required'')) else Inr (trim value))"

definition target_platform_parse :: "apns_ext \<Rightarrow> rstr \<Rightarrow> relay_error + target_platform" where
  "target_platform_parse A value =
     bind_res (relay_required_text ''target.platform'' value) (\<lambda>value.
     if value = lit ''ios'' then Inr TargetIos
     else if value = lit ''watchos'' then Inr TargetWatchOs
     else Inl (BadRelayRequest (lit ''target.platform must be ios or watchos, got '' @ ax_debug A value)))"

definition policy_validate :: "apns_ext \<Rightarrow> rstr \<Rightarrow> apns_relay_request \<Rightarrow> relay_error + relay_notification" where
  "policy_validate A bundle q =
     bind_res (target_platform_parse A (nt_platform (ar_target q))) (\<lambda>platform.
     bind_res (relay_required_text ''target.native_app_id'' (nt_native_app_id (ar_target q))) (\<lambda>native.
     bind_res (relay_required_text ''target.token'' (nt_token (ar_target q))) (\<lambda>token.
     if native \<noteq> bundle
     then Inl (BadRelayRequest (lit ''target.native_app_id '' @ ax_debug A native @
       lit '' does not match configured APNs bundle id '' @ ax_debug A bundle))
     else
       bind_res (relay_required_text ''notification.title'' (nc_title (ar_notification q))) (\<lambda>title.
       bind_res (relay_required_text ''notification.body'' (nc_body (ar_notification q))) (\<lambda>body.
       bind_res (relay_required_text ''notification.thread_id'' (nc_thread_id (ar_notification q))) (\<lambda>thread.
       bind_res (relay_required_text ''notification.category'' (nc_category (ar_notification q))) (\<lambda>category.
       bind_res (relay_required_text ''metadata.request_id'' (nm_request_id (ar_metadata q))) (\<lambda>request.
       bind_res (relay_required_text ''metadata.channel_id'' (nm_channel_id (ar_metadata q))) (\<lambda>channel.
       Inr \<lparr>rl_target = \<lparr>tg_platform = platform, tg_native_app_id = native, tg_token = token\<rparr>,
         rl_notification = \<lparr>nc_title = title, nc_body = body, nc_sound = trim (nc_sound (ar_notification q)),
           nc_thread_id = thread, nc_category = category\<rparr>,
         rl_metadata = \<lparr>nm_request_id = request, nm_channel_id = channel,
           nm_device_id = nm_device_id (ar_metadata q)\<rparr>\<rparr>)))))))))"

text \<open>What \<open>anyhow\<close> carries out of a delivery; a network error says whether it is worth another try.\<close>

datatype delivery_error = Rejected delivery_failure | NetworkError bool rstr | OtherError rstr

definition policy_sanitize :: "apns_ext \<Rightarrow> rstr \<Rightarrow> apns_relay_request \<Rightarrow> delivery_error + relay_notification" where
  "policy_sanitize A bundle q =
     map_err (\<lambda>e. Rejected \<lparr>df_message = relay_error_text e, df_retryable = False, df_invalid_token = False\<rparr>)
       (policy_validate A bundle q)"

section \<open>The payload\<close>

definition apns_sound :: "rstr \<Rightarrow> rstr option" where
  "apns_sound sound =
     (let s = trim sound in
      if s = [] then Some (lit ''default'')
      else if s = lit ''none'' \<or> s = lit ''silent'' then None else Some s)"

definition apns_payload :: "relay_notification \<Rightarrow> json" where
  "apns_payload n =
     (let c = rl_notification n; m = rl_metadata n in
      JObj [
        (lit ''aps'', JObj ([
          (lit ''alert'', JObj [text_member ''title'' (nc_title c), text_member ''body'' (nc_body c)]),
          text_member ''thread-id'' (nc_thread_id c), text_member ''category'' (nc_category c)] @
          optional_member ''sound'' (apns_sound (nc_sound c)))),
        (lit ''nod'', JObj ([text_member ''request_id'' (nm_request_id m), text_member ''channel_id'' (nm_channel_id m)] @
          optional_member ''device_id'' (nm_device_id m)))])"

section \<open>Configuration\<close>

datatype apns_environment = ApnsProduction | ApnsSandbox

definition apns_endpoint :: "apns_environment \<Rightarrow> rstr" where
  "apns_endpoint e = (case e of ApnsProduction \<Rightarrow> lit ''https://api.push.apple.com''
     | ApnsSandbox \<Rightarrow> lit ''https://api.sandbox.push.apple.com'')"

definition apns_environment_parse :: "apns_ext \<Rightarrow> rstr \<Rightarrow> rstr + apns_environment" where
  "apns_environment_parse A value =
     (if trim value = lit ''production'' then Inr ApnsProduction
      else if trim value = lit ''sandbox'' then Inr ApnsSandbox
      else Inl (lit ''NOD_APNS_RELAY_ENVIRONMENT must be production or sandbox, got '' @ ax_debug A (trim value)))"

record apns_config =
  apn_bundle_id :: rstr
  apn_environment :: apns_environment
  apn_team_id :: rstr
  apn_key_id :: rstr
  apn_private_key_path :: rstr

record relay_config =
  rf_bind :: rstr
  rf_server_cert :: rstr
  rf_server_key :: rstr
  rf_client_ca :: rstr
  rf_apns :: apns_config

definition env_text :: "(rstr \<Rightarrow> rstr option) \<Rightarrow> string \<Rightarrow> rstr option" where
  "env_text env name = (case env (lit name) of None \<Rightarrow> None | Some v \<Rightarrow> if trim v = [] then None else Some (trim v))"

definition env_required :: "(rstr \<Rightarrow> rstr option) \<Rightarrow> string \<Rightarrow> rstr + rstr" where
  "env_required env name = ok_or (lit name @ lit '' is required'') (env_text env name)"

text \<open>\<open>address\<close>: \<open>str::parse::<SocketAddr>\<close>, the printed address.\<close>

definition bind_addr :: "(rstr \<Rightarrow> rstr option) \<Rightarrow> (rstr \<Rightarrow> rstr option) \<Rightarrow> rstr + rstr" where
  "bind_addr address env =
     ok_or (lit ''NOD_APNS_RELAY_BIND must be a socket address'')
       (address (case env_text env ''NOD_APNS_RELAY_BIND'' of Some v \<Rightarrow> v | None \<Rightarrow> lit ''127.0.0.1:8768''))"

definition apns_config_from :: "apns_ext \<Rightarrow> (rstr \<Rightarrow> rstr option) \<Rightarrow> rstr + apns_config" where
  "apns_config_from A env =
     bind_res (env_required env ''NOD_APNS_RELAY_BUNDLE_ID'') (\<lambda>bundle.
     bind_res (case env_text env ''NOD_APNS_RELAY_ENVIRONMENT'' of
         None \<Rightarrow> Inr ApnsProduction | Some v \<Rightarrow> apns_environment_parse A v) (\<lambda>environment.
     bind_res (env_required env ''NOD_APNS_RELAY_TEAM_ID'') (\<lambda>team.
     bind_res (env_required env ''NOD_APNS_RELAY_KEY_ID'') (\<lambda>key.
     bind_res (env_required env ''NOD_APNS_RELAY_PRIVATE_KEY_PATH'') (\<lambda>path.
     Inr \<lparr>apn_bundle_id = bundle, apn_environment = environment, apn_team_id = team, apn_key_id = key,
       apn_private_key_path = path\<rparr>)))))"

definition relay_config_from :: "apns_ext \<Rightarrow> (rstr \<Rightarrow> rstr option) \<Rightarrow> (rstr \<Rightarrow> rstr option) \<Rightarrow> rstr + relay_config" where
  "relay_config_from A address env =
     bind_res (bind_addr address env) (\<lambda>bind.
     bind_res (env_required env ''NOD_APNS_RELAY_SERVER_CERT_PATH'') (\<lambda>cert.
     bind_res (env_required env ''NOD_APNS_RELAY_SERVER_KEY_PATH'') (\<lambda>key.
     bind_res (env_required env ''NOD_APNS_RELAY_CLIENT_CA_CERT_PATH'') (\<lambda>ca.
     bind_res (apns_config_from A env) (\<lambda>apns.
     Inr \<lparr>rf_bind = bind, rf_server_cert = cert, rf_server_key = key, rf_client_ca = ca, rf_apns = apns\<rparr>)))))"

section \<open>The provider token\<close>

definition TOKEN_REFRESH_AFTER_SECS :: nat where "TOKEN_REFRESH_AFTER_SECS = 50 * 60"

text \<open>\<open>CachedToken\<close>: the token and when it was issued. Subtraction saturates, as \<open>saturating_sub\<close>.\<close>

type_synonym token_cache = "(rstr \<times> nat) option"

definition provider_jwt :: "apns_ext \<Rightarrow> apns_config \<Rightarrow> nat \<Rightarrow> token_cache \<Rightarrow> (rstr + rstr) \<times> token_cache" where
  "provider_jwt A F now cached =
     (let mint = (case ax_sign A (apn_team_id F) (apn_key_id F) now of
          Inl e \<Rightarrow> (Inl e, cached) | Inr jwt \<Rightarrow> (Inr jwt, Some (jwt, now))) in
      case cached of
        Some (jwt, issued) \<Rightarrow> if now - issued < TOKEN_REFRESH_AFTER_SECS then (Inr jwt, cached) else mint
      | None \<Rightarrow> mint)"

section \<open>The call to Apple\<close>

record apns_call =
  ak_url :: rstr
  ak_bearer :: rstr
  ak_topic :: rstr
  ak_push_type :: rstr
  ak_priority :: rstr
  ak_collapse_id :: rstr
  ak_body :: json

text \<open>\<open>Inl\<close>: no answer, whether it is worth another try, and the error's text.\<close>

type_synonym http_outcome = "(bool \<times> rstr) + http_reply"

definition is_success_status :: "nat \<Rightarrow> bool" where
  "is_success_status s \<longleftrightarrow> 200 \<le> s \<and> s < 300"

definition transient_status :: "nat \<Rightarrow> bool" where
  "transient_status s \<longleftrightarrow> 500 \<le> s \<and> s < 600 \<or> s = 429"

definition rejection_reason :: "json \<Rightarrow> rstr option" where
  \<comment> \<open>as a \<open>serde_json::Value\<close> an object keeps the last of repeated members\<close>
  "rejection_reason body = (case body of
      JObj ms \<Rightarrow> map_option (take 160) (json_text (map_of (rev ms) (lit ''reason'')))
    | _ \<Rightarrow> None)"

definition apns_call_for :: "apns_config \<Rightarrow> rstr \<Rightarrow> relay_notification \<Rightarrow> apns_call" where
  "apns_call_for F jwt n =
     \<lparr>ak_url = apns_endpoint (apn_environment F) @ lit ''/3/device/'' @ tg_token (rl_target n), ak_bearer = jwt,
      ak_topic = apn_bundle_id F, ak_push_type = lit ''alert'', ak_priority = lit ''10'',
      ak_collapse_id = nm_request_id (rl_metadata n), ak_body = apns_payload n\<rparr>"

definition apple_rejection :: "apns_ext \<Rightarrow> http_reply \<Rightarrow> delivery_failure" where
  "apple_rejection A y =
     (let reason = (case bounded_error_json A rejection_reason y of Some r \<Rightarrow> r | None \<Rightarrow> lit ''unknown rejection'') in
      \<lparr>df_message = lit ''Apple APNs rejected push with '' @ ax_status A (hy_status y) @ lit '': '' @ reason,
       df_retryable = transient_status (hy_status y),
       df_invalid_token = reason = lit ''Unregistered'' \<or> reason = lit ''BadDeviceToken''\<rparr>)"

text \<open>The result, the calls made, and the cached token.\<close>

type_synonym 'a apple_result = "(delivery_error + 'a) \<times> apns_call list \<times> token_cache"

definition apple_send ::
  "apns_ext \<Rightarrow> apns_config \<Rightarrow> (apns_call \<Rightarrow> http_outcome) \<Rightarrow> nat \<Rightarrow> relay_notification \<Rightarrow> token_cache \<Rightarrow> unit apple_result" where
  "apple_send A F apple now n cached =
     (if length (ax_print A (apns_payload n)) > 4096
      then (Inl (Rejected \<lparr>df_message = lit ''APNs payload exceeds 4096 bytes'', df_retryable = False,
              df_invalid_token = False\<rparr>), [], cached)
      else case provider_jwt A F now cached of
          (Inl e, cached) \<Rightarrow> (Inl (OtherError e), [], cached)
        | (Inr jwt, cached) \<Rightarrow>
            let c = apns_call_for F jwt n in
            (case apple c of
               Inl (transient, e) \<Rightarrow> Inl (NetworkError transient e)
             | Inr y \<Rightarrow> if is_success_status (hy_status y) then Inr () else Inl (Rejected (apple_rejection A y)),
             [c], cached))"

section \<open>The HTTP handler\<close>

definition handler_error :: "delivery_error \<Rightarrow> relay_error" where
  "handler_error e = (case e of Rejected f \<Rightarrow> Delivery f | _ \<Rightarrow> Upstream (lit ''APNs delivery failed''))"

definition relay_notification_handler ::
  "apns_ext \<Rightarrow> apns_config \<Rightarrow> (apns_call \<Rightarrow> http_outcome) \<Rightarrow> nat \<Rightarrow> apns_relay_request \<Rightarrow> token_cache \<Rightarrow>
    (relay_error + json) \<times> apns_call list \<times> token_cache" where
  "relay_notification_handler A F apple now q cached =
     (case policy_validate A (apn_bundle_id F) q of
        Inl e \<Rightarrow> (Inl e, [], cached)
      | Inr n \<Rightarrow> (case apple_send A F apple now n cached of
            (Inl e, calls, cached) \<Rightarrow> (Inl (handler_error e), calls, cached)
          | (Inr _, calls, cached) \<Rightarrow> (Inr (JObj [(lit ''ok'', JBool True)]), calls, cached)))"

text \<open>\<open>POST /v1/notifications\<close> with axum's \<open>Json\<close>, which answers text that is no JSON with 400, JSON of
  another shape with 422, each with a plain text.\<close>

definition relay_post ::
  "apns_ext \<Rightarrow> (byte list \<Rightarrow> byte list) \<Rightarrow> apns_config \<Rightarrow> (apns_call \<Rightarrow> http_outcome) \<Rightarrow> nat \<Rightarrow> byte list \<Rightarrow> token_cache \<Rightarrow>
    (nat \<times> byte list) \<times> apns_call list \<times> token_cache" where
  "relay_post A rejection F apple now body cached =
     (case ax_parse A body of
        None \<Rightarrow> ((400, rejection body), [], cached)
      | Some j \<Rightarrow> (case relay_request_of_json j of
            None \<Rightarrow> ((422, rejection body), [], cached)
          | Some q \<Rightarrow> (case relay_notification_handler A F apple now q cached of
                (Inl e, rest) \<Rightarrow> (map_prod id (ax_print A) (error_response e), rest)
              | (Inr ok, rest) \<Rightarrow> ((200, ax_print A ok), rest))))"

section \<open>Round trips\<close>

lemma target_roundtrip [simp]: "target_of_json (json_target t) = Some t"
  by (simp add: target_of_json_def json_target_def struct_fields_zip target_fields_def json_text_def del: zip.simps zip_Cons_Cons
      map_of_zip_nth)

lemma content_roundtrip [simp]: "content_of_json (json_content n) = Some n"
  by (simp add: content_of_json_def json_content_def struct_fields_zip content_fields_def json_text_def del: zip.simps zip_Cons_Cons)

lemma metadata_roundtrip [simp]: "metadata_of_json (json_metadata m) = Some m"
  by (cases "nm_device_id m") (simp_all add: metadata_of_json_def json_metadata_def struct_fields_def metadata_fields_def
      optional_member_def text_member_def json_text_def json_optional_text_def)

lemma relay_request_roundtrip: "relay_request_of_json (json_relay_request q) = Some q"
  by (simp add: relay_request_of_json_def json_relay_request_def struct_fields_zip relay_fields_def del: zip.simps zip_Cons_Cons)

lemma failure_roundtrip: "failure_of_json (json_failure f) = Some f"
  by (simp add: failure_of_json_def json_failure_def struct_fields_zip failure_fields_def del: zip.simps zip_Cons_Cons)

section \<open>The providers of the server\<close>

text \<open>
  The push providers of the server (nod-server apns_relay.rs, push.rs): the mapping of a device and a
  request to the relay's contract, the provider that posts it to a standalone relay and the one that
  delivers to Apple in the server's process, their construction from the configuration, and what a push task
  makes of an error (services/push_delivery.rs).
\<close>

section \<open>Construction\<close>

definition relay_text :: "string \<Rightarrow> rstr option \<Rightarrow> rstr config_result" where
  "relay_text missing value = ok_or (lit missing) (normalized_optional_text value)"

text \<open>
  \<open>ApnsRelayProvider\<close>: the URL of the relay and the app. \<open>show_url\<close> is \<open>Url::as_str\<close>; \<open>client\<close> says
  why the mTLS client cannot be built from the certificate files.
\<close>

record relay_provider =
  rp_url :: rstr
  rp_native_app_id :: rstr

definition trim_slashes :: "rstr \<Rightarrow> rstr" where
  "trim_slashes s = rev (dropWhile (\<lambda>c. c = 47) (rev s))"

definition relay_client_paths :: "relay_tls_config \<Rightarrow> (rstr \<times> rstr \<times> rstr) config_result" where
  "relay_client_paths t =
     bind_res (ok_or (lit ''missing APNs relay client certificate path'') (tl_client_cert t)) (\<lambda>cert.
     bind_res (ok_or (lit ''missing APNs relay client key path'') (tl_client_key t)) (\<lambda>key.
     bind_res (ok_or (lit ''missing APNs relay CA certificate path'') (tl_ca_cert t)) (\<lambda>ca. Inr (cert, key, ca))))"

definition relay_provider_new ::
  "url_parser \<Rightarrow> (url \<Rightarrow> rstr) \<Rightarrow> (rstr \<times> rstr \<times> rstr \<Rightarrow> unit config_result) \<Rightarrow> apns_relay_config \<Rightarrow>
    relay_provider config_result" where
  "relay_provider_new U show_url client c =
     bind_res (relay_text ''missing APNs relay URL'' (rc_url c)) (\<lambda>raw.
     bind_res (ok_or (lit ''invalid URL'') (U raw)) (\<lambda>u.
     if ur_scheme u \<noteq> lit ''https'' then bail ''APNs relay URL must use https''
     else
       bind_res (relay_text ''missing APNs relay native app id'' (rc_native_app_id c)) (\<lambda>native.
       bind_res (bind_res (relay_client_paths (rc_tls c)) client) (\<lambda>_.
       Inr \<lparr>rp_url = trim_slashes (show_url u), rp_native_app_id = native\<rparr>))))"

definition direct_field :: "string \<Rightarrow> rstr option \<Rightarrow> rstr config_result" where
  "direct_field name value = ok_or (lit name @ lit '' is required'') (normalized_optional_text value)"

definition direct_apns_config :: "apns_ext \<Rightarrow> apns_direct_config \<Rightarrow> apns_config config_result" where
  "direct_apns_config A c =
     bind_res (direct_field ''notifications.apns_direct.bundle_id'' (dc_bundle_id c)) (\<lambda>bundle.
     bind_res (direct_field ''notifications.apns_direct.team_id'' (dc_team_id c)) (\<lambda>team.
     bind_res (direct_field ''notifications.apns_direct.key_id'' (dc_key_id c)) (\<lambda>key.
     bind_res (if path_configured (dc_private_key_path c) then Inr (the (dc_private_key_path c))
         else bail ''notifications.apns_direct.private_key_path is required'') (\<lambda>path.
     bind_res (case normalized_optional_text (dc_environment c) of
         Some v \<Rightarrow> apns_environment_parse A v | None \<Rightarrow> Inr ApnsProduction) (\<lambda>environment.
     Inr \<lparr>apn_bundle_id = bundle, apn_environment = environment, apn_team_id = team, apn_key_id = key,
       apn_private_key_path = path\<rparr>)))))"

datatype push_provider = RelayProvider relay_provider | DirectProvider apns_config

definition provider_app :: "push_provider \<Rightarrow> rstr" where
  "provider_app p = (case p of RelayProvider r \<Rightarrow> rp_native_app_id r | DirectProvider F \<Rightarrow> apn_bundle_id F)"

definition provider_route :: "push_provider \<Rightarrow> route_key" where
  "provider_route p = push_route_key APPLE_APNS_PROVIDER_ID (Some (provider_app p))"

text \<open>The registry: the last provider of a route wins. \<open>signer\<close> says why the key file is no signing key.\<close>

definition push_registry_new :: "push_provider list \<Rightarrow> (route_key \<times> push_provider) list" where
  "push_registry_new ps = fold (\<lambda>p m. AList.update (provider_route p) p m) ps []"

definition build_push_registry ::
  "apns_ext \<Rightarrow> url_parser \<Rightarrow> (url \<Rightarrow> rstr) \<Rightarrow> (rstr \<times> rstr \<times> rstr \<Rightarrow> unit config_result) \<Rightarrow>
    (apns_config \<Rightarrow> unit config_result) \<Rightarrow> apns_direct_config \<Rightarrow> apns_relay_config \<Rightarrow>
    ((route_key \<times> push_provider) list \<times> push_route option) config_result" where
  "build_push_registry A U show_url client signer direct relay =
     bind_res (configured_push_route direct relay) (\<lambda>route.
     case route of
       Some ApnsRelay \<Rightarrow> bind_res (relay_provider_new U show_url client relay) (\<lambda>r.
         Inr (push_registry_new [RelayProvider r], route))
     | Some ApnsDirect \<Rightarrow> bind_res (direct_apns_config A direct) (\<lambda>F. bind_res (signer F) (\<lambda>_.
         Inr (push_registry_new [DirectProvider F], route)))
     | None \<Rightarrow> Inr ([], route))"

section \<open>The relay's contract\<close>

datatype push_category = CategoryDefault | CategoryApproval | CategoryApprovalText

definition category_for_request :: "decision_request \<Rightarrow> push_category" where
  "category_for_request r = CategoryDefault"

definition push_category_str :: "push_category \<Rightarrow> rstr" where
  "push_category_str c = (case c of CategoryDefault \<Rightarrow> lit ''NOD_DEFAULT'' | CategoryApproval \<Rightarrow> lit ''NOD_APPROVAL''
     | CategoryApprovalText \<Rightarrow> lit ''NOD_APPROVAL_TEXT'')"

definition device_preview :: "ext \<Rightarrow> device_row \<Rightarrow> decision_request \<Rightarrow> notification_preview" where
  "device_preview X d r =
     (let wire = to_wire X r in
      notification_preview_of (if dp_hide_content (dv_preferences d)
        then wire\<lparr>q_notification := \<lparr>n_redact = True, n_title = None, n_body = None\<rparr>\<rparr> else wire))"

definition build_relay_request :: "ext \<Rightarrow> device_row \<Rightarrow> decision_request \<Rightarrow> apns_relay_request option" where
  "build_relay_request X d r =
     (if map_option trim (dv_push_provider d) \<noteq> Some APPLE_APNS_PROVIDER_ID then None
      else case dv_push_token d of
        None \<Rightarrow> None
      | Some token \<Rightarrow>
          if trim token = [] then None
          else case dv_native_app_id d of
            None \<Rightarrow> None
          | Some native \<Rightarrow>
              Some \<lparr>ar_target = \<lparr>nt_platform = device_platform_str (dv_platform d), nt_native_app_id = native,
                       nt_token = trim token\<rparr>,
                ar_notification = \<lparr>nc_title = np_title (device_preview X d r), nc_body = np_body (device_preview X d r),
                       nc_sound = dv_notification_sound d, nc_thread_id = r_channel_id r,
                       nc_category = push_category_str (category_for_request r)\<rparr>,
                ar_metadata = \<lparr>nm_request_id = r_id r, nm_channel_id = r_channel_id r, nm_device_id = Some (dv_id d)\<rparr>\<rparr>)"

section \<open>The providers\<close>

definition in_process_push ::
  "ext \<Rightarrow> apns_ext \<Rightarrow> apns_config \<Rightarrow> (apns_call \<Rightarrow> http_outcome) \<Rightarrow> nat \<Rightarrow> device_row \<Rightarrow> decision_request \<Rightarrow> token_cache \<Rightarrow>
    unit apple_result" where
  "in_process_push X A F apple now d r cached =
     (case build_relay_request X d r of
        None \<Rightarrow> (Inr (), [], cached)
      | Some q \<Rightarrow> (case policy_sanitize A (apn_bundle_id F) q of
            Inl e \<Rightarrow> (Inl e, [], cached)
          | Inr n \<Rightarrow> apple_send A F apple now n cached))"

text \<open>\<open>post\<close>: the body posted to the relay, to what came back; a body the relay bounds.\<close>

definition relay_failure :: "apns_ext \<Rightarrow> http_reply \<Rightarrow> delivery_failure" where
  "relay_failure A y = (case bounded_error_json A failure_of_json y of
      Some f \<Rightarrow> f
    | None \<Rightarrow> \<lparr>df_message = lit ''APNs relay rejected push with '' @ ax_status A (hy_status y),
        df_retryable = transient_status (hy_status y), df_invalid_token = False\<rparr>)"

definition relay_push ::
  "ext \<Rightarrow> apns_ext \<Rightarrow> (byte list \<Rightarrow> http_outcome) \<Rightarrow> device_row \<Rightarrow> decision_request \<Rightarrow> delivery_error + unit" where
  "relay_push X A post d r =
     (case build_relay_request X d r of
        None \<Rightarrow> Inr ()
      | Some q \<Rightarrow> (case post (ax_print A (json_relay_request q)) of
            Inl (transient, e) \<Rightarrow> Inl (NetworkError transient e)
          | Inr y \<Rightarrow> if is_success_status (hy_status y) then Inr () else Inl (Rejected (relay_failure A y))))"

text \<open>How a push task reads a result.\<close>

definition send_outcome_of :: "delivery_error + unit \<Rightarrow> send_outcome" where
  "send_outcome_of result = (case result of
      Inr _ \<Rightarrow> Accepted
    | Inl (Rejected f) \<Rightarrow> SendFailed (df_message f) (df_retryable f) (df_invalid_token f)
    | Inl (NetworkError transient e) \<Rightarrow> SendFailed e transient False
    | Inl (OtherError e) \<Rightarrow> SendFailed e False False)"

text \<open>
  The relay behind a connection that delivers: what it answers reaches the server in chunks, as
  \<open>chunked\<close> says. The result, and the calls and cached token of the relay.
\<close>

definition relayed_push ::
  "ext \<Rightarrow> apns_ext \<Rightarrow> (byte list \<Rightarrow> byte list) \<Rightarrow> (byte list \<Rightarrow> byte list list) \<Rightarrow> apns_config \<Rightarrow> (apns_call \<Rightarrow> http_outcome) \<Rightarrow>
    nat \<Rightarrow> device_row \<Rightarrow> decision_request \<Rightarrow> token_cache \<Rightarrow> unit apple_result" where
  "relayed_push X A rejection chunked F apple now d r cached =
     (case build_relay_request X d r of
        None \<Rightarrow> (Inr (), [], cached)
      | Some q \<Rightarrow>
          let ((status, bytes), rest) = relay_post A rejection F apple now (ax_print A (json_relay_request q)) cached in
          (relay_push X A (\<lambda>_. Inr \<lparr>hy_status = status, hy_chunks = map Some (chunked bytes)\<rparr>) d r, rest))"

end
