(* ===== verification/Apns_Facts.thy ===== *)
theory Apns_Facts
  imports Apns "HOL-Library.Countable"
begin

text \<open>
  The APNs path: the standalone relay and the delivery inside the server are the same to Apple and to the
  push task, a hidden card does not leave the server, a push stays with the configured app, and the
  provider token is renewed as Apple asks.
\<close>

section \<open>Provider tokens\<close>

lemma TOKEN_REFRESH_pos [simp]: "0 < TOKEN_REFRESH_AFTER_SECS"
  by (simp add: TOKEN_REFRESH_AFTER_SECS_def)

lemma token_stale: "\<not> now - issued < TOKEN_REFRESH_AFTER_SECS \<Longrightarrow> issued + TOKEN_REFRESH_AFTER_SECS \<le> now"
  using TOKEN_REFRESH_pos by linarith

lemma provider_jwt_cases:
  assumes "provider_jwt A F now cached = (Inr jwt, cached')"
  obtains issued where "cached' = Some (jwt, issued)" "now - issued < TOKEN_REFRESH_AFTER_SECS" "cached = cached'"
  | "cached' = Some (jwt, now)" "ax_sign A (apn_team_id F) (apn_key_id F) now = Inr jwt"
    "\<And>t issued. cached = Some (t, issued) \<Longrightarrow> issued + TOKEN_REFRESH_AFTER_SECS \<le> now"
  using assms token_stale
  by (auto simp: provider_jwt_def Let_def split: option.splits prod.splits if_splits sum.splits)

lemma provider_jwt_error: "provider_jwt A F now cached = (Inl e, cached') \<Longrightarrow> cached' = cached"
  by (auto simp: provider_jwt_def Let_def split: option.splits prod.splits if_splits sum.splits)

text \<open>A run of the delivery: the clock, what Apple would answer, and the notification of each push.\<close>

fun delivery_run ::
  "apns_ext \<Rightarrow> apns_config \<Rightarrow> (nat \<times> (apns_call \<Rightarrow> http_outcome) \<times> relay_notification) list \<Rightarrow> token_cache \<Rightarrow>
    (nat \<times> apns_call) list" where
  "delivery_run A F [] cached = []"
| "delivery_run A F ((now, apple, n) # ps) cached =
     (case apple_send A F apple now n cached of
        (_, calls, cached) \<Rightarrow> map (Pair now) calls @ delivery_run A F ps cached)"

definition signed_at :: "apns_ext \<Rightarrow> apns_config \<Rightarrow> nat \<times> apns_call \<Rightarrow> nat \<Rightarrow> bool" where
  "signed_at A F e issued \<longleftrightarrow> ax_sign A (apn_team_id F) (apn_key_id F) issued = Inr (ak_bearer (snd e)) \<and>
     fst e < issued + TOKEN_REFRESH_AFTER_SECS"

fun spaced :: "nat list \<Rightarrow> bool" where
  "spaced (a # b # is) \<longleftrightarrow> (b = a \<or> a + TOKEN_REFRESH_AFTER_SECS \<le> b) \<and> spaced (b # is)"
| "spaced _ \<longleftrightarrow> True"

lemma spaced_trans: "spaced (a # is) \<Longrightarrow> b \<in> set is \<Longrightarrow> b = a \<or> a + TOKEN_REFRESH_AFTER_SECS \<le> b"
  by (induction "is" arbitrary: a) fastforce+

definition token_of_cache :: "apns_ext \<Rightarrow> apns_config \<Rightarrow> token_cache \<Rightarrow> bool" where
  "token_of_cache A F cached \<longleftrightarrow>
     (case cached of None \<Rightarrow> True | Some (jwt, issued) \<Rightarrow> ax_sign A (apn_team_id F) (apn_key_id F) issued = Inr jwt)"

lemma apple_send_token:
  assumes "apple_send A F apple now n cached = (r, calls, cached')" and "token_of_cache A F cached"
  shows "token_of_cache A F cached' \<and>
    (calls = [] \<and> (cached' = cached \<or> (\<exists>jwt. cached' = Some (jwt, now))) \<or>
     (\<exists>c jwt issued. calls = [c] \<and> cached' = Some (jwt, issued) \<and> signed_at A F (now, c) issued)) \<and>
    (\<forall>t i t' i'. cached = Some (t, i) \<longrightarrow> cached' = Some (t', i') \<longrightarrow> i' = i \<or> i + TOKEN_REFRESH_AFTER_SECS \<le> i')"
proof (cases "calls = []")
  case True
  with assms show ?thesis
    by (auto simp: apple_send_def Let_def split: if_splits prod.splits sum.splits dest!: provider_jwt_error)
next
  case False
  then obtain jwt where j: "provider_jwt A F now cached = (Inr jwt, cached')" "calls = [apns_call_for F jwt n]"
    using assms(1) by (auto simp: apple_send_def Let_def split: if_splits prod.splits sum.splits)
  from j(1) show ?thesis
  proof (cases rule: provider_jwt_cases)
    case (1 issued)
    with assms(2) j(2) show ?thesis by (auto simp: token_of_cache_def signed_at_def apns_call_for_def)
  next
    case 2
    with j(2) show ?thesis by (auto simp: token_of_cache_def signed_at_def apns_call_for_def)
  qed
qed

lemma delivery_run_tokens:
  assumes "token_of_cache A F cached"
  shows "\<exists>is. list_all2 (signed_at A F) (delivery_run A F ps cached) is \<and>
    spaced (case cached of None \<Rightarrow> is | Some (_, issued) \<Rightarrow> issued # is)"
  using assms
proof (induction ps arbitrary: cached)
  case Nil
  then show ?case by (cases cached) (auto intro!: exI [of _ "[]"])
next
  case (Cons p ps)
  obtain now apple n where p: "p = (now, apple, n)" by (cases p)
  obtain r calls cached' where s: "apple_send A F apple now n cached = (r, calls, cached')" by (metis prod_cases3)
  note step = apple_send_token [OF s Cons.prems]
  from Cons.IH [of cached'] step obtain "is" where "is": "list_all2 (signed_at A F) (delivery_run A F ps cached') is"
    "spaced (case cached' of None \<Rightarrow> is | Some (_, issued) \<Rightarrow> issued # is)" by blast
  show ?case
  proof (cases "calls = []")
    case True
    with step have keep: "cached' = cached \<or> (\<exists>jwt. cached' = Some (jwt, now))" by auto
    have "spaced (case cached of None \<Rightarrow> is | Some (_, issued) \<Rightarrow> issued # is)"
    proof (cases cached)
      case None
      with keep "is"(2) show ?thesis by (cases "is") (auto split: option.splits)
    next
      case (Some c)
      with keep step "is"(2) show ?thesis
        by (cases "is"; cases c) (auto split: option.splits)
    qed
    with True "is"(1) show ?thesis by (auto simp: p s intro!: exI [of _ "is"])
  next
    case False
    with step obtain c jwt issued where c: "calls = [c]" "cached' = Some (jwt, issued)" "signed_at A F (now, c) issued" by auto
    with "is" step have "spaced (case cached of None \<Rightarrow> issued # is | Some (_, i) \<Rightarrow> i # issued # is)"
      by (auto split: option.splits)
    with c "is"(1) show ?thesis
      by (intro exI [of _ "issued # is"]) (auto simp: p s split: option.splits)
  qed
qed

text \<open>
  C38 (invariant). The provider token is renewed as Apple asks. Whatever the clock and Apple do in a run of pushes, each call
  carries a token this provider signed, issued less than fifty minutes before; and of the
  issue times of any two calls, the later equals the earlier or is fifty minutes after it.
\<close>

theorem provider_tokens_renewed:
  "\<exists>is. list_all2 (signed_at A F) (delivery_run A F ps None) is \<and>
    (\<forall>j < length is. \<forall>i \<le> j. is ! j = is ! i \<or> is ! i + 3000 \<le> is ! j)"
proof -
  from delivery_run_tokens [of A F None ps] obtain "is" where "is": "list_all2 (signed_at A F) (delivery_run A F ps None) is"
    "spaced is" by (auto simp: token_of_cache_def)
  have "is ! j = is ! i \<or> is ! i + TOKEN_REFRESH_AFTER_SECS \<le> is ! j" if "spaced is" "j < length is" "i \<le> j" for i j and "is"
    using that
  proof (induction "is" arbitrary: i j)
    case (Cons a "is")
    have tail: "spaced is" using Cons.prems(1) by (cases "is") auto
    show ?case
    proof (cases j)
      case 0
      with Cons.prems show ?thesis by simp
    next
      case (Suc k)
      show ?thesis
      proof (cases i)
        case 0
        with Suc Cons.prems spaced_trans [OF Cons.prems(1), of "is ! k"] show ?thesis by auto
      next
        case (Suc m)
        with \<open>j = Suc k\<close> Cons.IH [OF tail, of k m] Cons.prems show ?thesis by simp
      qed
    qed
  qed simp
  with "is" show ?thesis by (auto simp: TOKEN_REFRESH_AFTER_SECS_def)
qed

section \<open>Policy\<close>

lemma relay_required_text_Inr [simp]: "relay_required_text name v = Inr t \<longleftrightarrow> t = trim v \<and> trim v \<noteq> []"
  by (auto simp: relay_required_text_def)

lemma platform_parse_Inr [simp]: "target_platform_parse A v = Inr p \<longleftrightarrow>
    trim v = lit ''ios'' \<and> p = TargetIos \<or> trim v = lit ''watchos'' \<and> p = TargetWatchOs"
  by (auto simp: target_platform_parse_def bind_res_Inr_iff)

lemma policy_validate_Inr: "policy_validate A bundle q = Inr n \<longleftrightarrow>
   (\<exists>p. target_platform_parse A (nt_platform (ar_target q)) = Inr p \<and>
     trim (nt_native_app_id (ar_target q)) = bundle \<and>
     list_all (\<lambda>t. trim t \<noteq> []) [nt_native_app_id (ar_target q), nt_token (ar_target q), nc_title (ar_notification q),
       nc_body (ar_notification q), nc_thread_id (ar_notification q), nc_category (ar_notification q),
       nm_request_id (ar_metadata q), nm_channel_id (ar_metadata q)] \<and>
     n = \<lparr>rl_target = \<lparr>tg_platform = p, tg_native_app_id = bundle, tg_token = trim (nt_token (ar_target q))\<rparr>,
         rl_notification = \<lparr>nc_title = trim (nc_title (ar_notification q)), nc_body = trim (nc_body (ar_notification q)),
           nc_sound = trim (nc_sound (ar_notification q)),
           nc_thread_id = trim (nc_thread_id (ar_notification q)), nc_category = trim (nc_category (ar_notification q))\<rparr>,
         rl_metadata = \<lparr>nm_request_id = trim (nm_request_id (ar_metadata q)), nm_channel_id = trim (nm_channel_id (ar_metadata q)),
           nm_device_id = nm_device_id (ar_metadata q)\<rparr>\<rparr>)"
  unfolding policy_validate_def
  by (auto simp: bind_res_Inr_iff simp del: platform_parse_Inr)

text \<open>
  C37 (safety). A push stays with the configured app. Whatever the device row and the card hold, a call to Apple
  made for them is for the app this provider serves, which is the device's, on an Apple platform, goes to the
  device's token, is an alert in the default category collapsed by request, and its payload is within
  Apple's limit. There is at most one.
\<close>

theorem push_stays_with_app:
  assumes "in_process_push X A F apple now d r cached = (result, calls, cached')" and "c \<in> set calls"
  shows "calls = [c] \<and>
    ak_topic c = apn_bundle_id F \<and>
    map_option trim (dv_native_app_id d) = Some (apn_bundle_id F) \<and>
    map_option trim (dv_push_provider d) = Some APPLE_APNS_PROVIDER_ID \<and>
    dv_platform d \<in> {Ios, Watchos} \<and>
    (\<exists>token. dv_push_token d = Some token \<and> trim token \<noteq> [] \<and>
      ak_url c = apns_endpoint (apn_environment F) @ lit ''/3/device/'' @ trim token) \<and>
    ak_push_type c = lit ''alert'' \<and>
    ak_collapse_id c = trim (r_id r) \<and>
    length (ax_print A (ak_body c)) \<le> 4096"
proof (intro conjI impI)
  obtain q n where q: "build_relay_request X d r = Some q" "policy_validate A (apn_bundle_id F) q = Inr n"
    "apple_send A F apple now n cached = (result, calls, cached')"
    using assms by (auto simp: in_process_push_def policy_sanitize_def map_err_Inr_iff split: option.splits sum.splits)
  from q(3) assms(2) obtain jwt where c: "calls = [c]" "c = apns_call_for F jwt n" "length (ax_print A (apns_payload n)) \<le> 4096"
    by (auto simp: apple_send_def Let_def split: if_splits prod.splits sum.splits)
  from q(1) obtain token native where d: "dv_push_token d = Some token" "trim token \<noteq> []" "dv_native_app_id d = Some native"
    "map_option trim (dv_push_provider d) = Some APPLE_APNS_PROVIDER_ID"
    "nt_platform (ar_target q) = device_platform_str (dv_platform d)" "nt_native_app_id (ar_target q) = native"
    "nt_token (ar_target q) = trim token" "nm_request_id (ar_metadata q) = r_id r"
    by (auto simp: build_relay_request_def split: if_splits option.splits)
  have platform: "trim (device_platform_str p) = device_platform_str p" for p
    by (cases p) (simp_all add: trim_eqI lit_def is_whitespace_def)
  note n = q(2) [unfolded policy_validate_Inr]
  show "calls = [c]" by (rule c(1))
  show "ak_topic c = apn_bundle_id F" "ak_push_type c = lit ''alert''"
    by (simp_all add: c(2) apns_call_for_def)
  from n d show "map_option trim (dv_native_app_id d) = Some (apn_bundle_id F)" by auto
  show "map_option trim (dv_push_provider d) = Some APPLE_APNS_PROVIDER_ID" by (rule d(4))
  from n d(5) platform [of "dv_platform d"] show "dv_platform d \<in> {Ios, Watchos}"
    by (cases "dv_platform d") auto
  from n d c(2) show "\<exists>token. dv_push_token d = Some token \<and> trim token \<noteq> [] \<and>
      ak_url c = apns_endpoint (apn_environment F) @ lit ''/3/device/'' @ trim token" "ak_collapse_id c = trim (r_id r)"
    by (auto simp: apns_call_for_def)
  from c show "length (ax_print A (ak_body c)) \<le> 4096" by (simp add: apns_call_for_def)
qed

section \<open>Hidden content\<close>

lemma hidden_device_preview:
  "dp_hide_content (dv_preferences d) \<Longrightarrow>
   device_preview X d r = \<lparr>np_title = lit ''Nod'', np_body = open_nod_text, np_allow_image = False\<rparr>"
  by (simp add: device_preview_def Let_def notification_preview_of_def nonblank_def open_nod_text_def lit_def trim_eqI
      is_whitespace_def)

lemma hidden_request:
  assumes "dp_hide_content (dv_preferences d)" and "r_id r1 = r_id r2" and "r_channel_id r1 = r_channel_id r2"
  shows "build_relay_request X d r1 = build_relay_request X d r2"
  using assms by (simp add: build_relay_request_def hidden_device_preview category_for_request_def split: option.split)

text \<open>
  C36 (safety). Hidden content never leaves the server. For a device that hides content, two cards with the same
  identifier and channel give the same push: whatever their content, the same result, the same call to Apple
  and the same body to a relay, whose alert is the fixed text.
\<close>

theorem hidden_content_stays:
  assumes "dp_hide_content (dv_preferences d)" and "r_id r1 = r_id r2" and "r_channel_id r1 = r_channel_id r2"
  shows "in_process_push X A F apple now d r1 cached = in_process_push X A F apple now d r2 cached \<and>
    relay_push X A post d r1 = relay_push X A post d r2 \<and>
    relayed_push X A rejection chunked F apple now d r1 cached = relayed_push X A rejection chunked F apple now d r2 cached \<and>
    (build_relay_request X d r1 = Some q \<longrightarrow>
      nc_title (ar_notification q) = lit ''Nod'' \<and> nc_body (ar_notification q) = open_nod_text)"
  using hidden_request [OF assms] assms(1)
  by (auto simp: in_process_push_def relay_push_def relayed_push_def build_relay_request_def hidden_device_preview
      split: if_splits option.splits)

section \<open>The relay and the delivery in the server\<close>

definition json_codec :: "apns_ext \<Rightarrow> bool" where
  "json_codec A \<longleftrightarrow> (\<forall>v. ax_parse A (ax_print A v) = Some v)"

text \<open>JSON text takes at most six bytes for a character, and the text of a status is short.\<close>

definition short_failures :: "apns_ext \<Rightarrow> bool" where
  "short_failures A \<longleftrightarrow> (\<forall>s. length (ax_status A s) \<le> 100) \<and>
     (\<forall>f. length (df_message f) \<le> 300 \<longrightarrow> length (ax_print A (json_failure f)) \<le> MAX_ERROR_BYTES)"

lemma read_error_body_chunks:
  "read_error_body body (map Some cs) = (if length (body @ concat cs) \<le> MAX_ERROR_BYTES then Some (body @ concat cs)
     else if length body \<le> MAX_ERROR_BYTES \<or> concat cs \<noteq> [] then None else read_error_body body (map Some cs))"
proof (induction cs arbitrary: body)
  case (Cons c cs)
  show ?case using Cons.IH [of "body @ c"] by (auto split: if_splits)
qed auto

lemma read_reply:
  "concat cs = b \<Longrightarrow> read_error_body [] (map Some cs) = (if length b \<le> MAX_ERROR_BYTES then Some b else None)"
  using read_error_body_chunks [of "[]" cs] by (auto simp: MAX_ERROR_BYTES_def)

lemma rejection_reason_short: "rejection_reason v = Some r \<Longrightarrow> length r \<le> 160"
  by (cases v) (auto simp: rejection_reason_def)

lemma apple_rejection_short:
  assumes "short_failures A"
  shows "length (df_message (apple_rejection A y)) \<le> 300"
proof -
  have "length r \<le> 160" if "bounded_error_json A rejection_reason y = Some r" for r
    using that by (auto simp: bounded_error_json_def bind_eq_Some_conv intro: rejection_reason_short)
  moreover have "length (ax_status A (hy_status y)) \<le> 100" using assms by (simp add: short_failures_def)
  ultimately show ?thesis
    by (auto simp: apple_rejection_def Let_def split: option.split)
qed

lemma apple_send_short:
  assumes "short_failures A" and "apple_send A F apple now n cached = (Inl (Rejected f), calls, cached')"
  shows "length (df_message f) \<le> 300"
  using assms(2) apple_rejection_short [OF assms(1)]
  by (auto simp: apple_send_def Let_def split: if_splits prod.splits sum.splits)

lemma error_object_no_failure:
  "failure_of_json (JObj [text_member ''error'' t, text_member ''message'' m]) = None"
  by (simp add: failure_of_json_def struct_fields_def failure_fields_def text_member_def)

lemma relay_failure_plain:
  assumes "json_codec A" "concat cs = ax_print A (JObj [text_member ''error'' t, text_member ''message'' m])"
  shows "relay_failure A \<lparr>hy_status = s, hy_chunks = map Some cs\<rparr> =
    \<lparr>df_message = lit ''APNs relay rejected push with '' @ ax_status A s, df_retryable = transient_status s, df_invalid_token = False\<rparr>"
  using assms
  by (simp add: relay_failure_def bounded_error_json_def read_reply json_codec_def error_object_no_failure)

lemma relay_failure_delivery:
  assumes "json_codec A" "short_failures A" "length (df_message f) \<le> 300" "concat cs = ax_print A (json_failure f)"
  shows "relay_failure A \<lparr>hy_status = s, hy_chunks = map Some cs\<rparr> = f"
  using assms
  by (simp add: relay_failure_def bounded_error_json_def read_reply json_codec_def short_failures_def failure_roundtrip)

lemma relayed_push_run:
  assumes "json_codec A" and "build_relay_request X d r = Some q"
  shows "relayed_push X A rejection chunked F apple now d r cached =
    (case relay_notification_handler A F apple now q cached of
       (Inr _, rest) \<Rightarrow> (Inr (), rest)
     | (Inl e, rest) \<Rightarrow> (Inl (Rejected (relay_failure A \<lparr>hy_status = fst (error_response e),
         hy_chunks = map Some (chunked (ax_print A (snd (error_response e))))\<rparr>)), rest))"
proof -
  have "\<not> is_success_status (fst (error_response e))" for e
    by (auto simp: error_response_def is_success_status_def split: relay_error.split)
  note err = this
  obtain res rest where h: "relay_notification_handler A F apple now q cached = (res, rest)" by (metis surj_pair)
  show ?thesis
  proof (cases res)
    case (Inl e)
    obtain s j where "error_response e = (s, j)" by fastforce
    with Inl h assms err [of e] show ?thesis
      by (simp add: relayed_push_def relay_push_def relay_post_def json_codec_def relay_request_roundtrip)
  next
    case (Inr ok)
    with h assms show ?thesis
      by (simp add: relayed_push_def relay_push_def relay_post_def json_codec_def relay_request_roundtrip is_success_status_def
          split: prod.split)
  qed
qed

text \<open>What a result becomes behind a relay: \<open>accepted\<close> says whether the policy took the notification.\<close>

definition behind_relay :: "apns_ext \<Rightarrow> bool \<Rightarrow> delivery_error + unit \<Rightarrow> delivery_error + unit" where
  "behind_relay A accepted out =
     (let rejected = \<lambda>status retryable. Inl (Rejected \<lparr>df_message = lit ''APNs relay rejected push with '' @ ax_status A status,
          df_retryable = retryable, df_invalid_token = False\<rparr>) in
      case out of
        Inr _ \<Rightarrow> Inr ()
      | Inl (Rejected f) \<Rightarrow> if accepted then out else rejected 400 False
      | Inl _ \<Rightarrow> rejected 502 True)"

lemma policy_refusal: "policy_validate A bundle q = Inl e \<Longrightarrow> \<exists>t. e = BadRelayRequest t"
  by (auto simp: policy_validate_def target_platform_parse_def relay_required_text_def bind_res_def split: if_splits sum.splits)

lemma relay_failure_plain_error:
  assumes "json_codec A" and "\<And>b. concat (chunked b) = b" and "\<And>f. e \<noteq> Delivery f"
  shows "relay_failure A \<lparr>hy_status = fst (error_response e), hy_chunks = map Some (chunked (ax_print A (snd (error_response e))))\<rparr> =
      \<lparr>df_message = lit ''APNs relay rejected push with '' @ ax_status A (fst (error_response e)),
       df_retryable = (\<exists>t. e = Upstream t), df_invalid_token = False\<rparr>"
proof (cases e)
  case (Delivery f)
  with assms(3) show ?thesis by blast
qed (simp_all add: error_response_def transient_status_def relay_failure_plain [OF assms(1,2)])

lemma relayed_push_eq:
  assumes codec: "json_codec A" "short_failures A" and chunks: "\<And>b. concat (chunked b) = b"
    and q: "build_relay_request X d r = Some q"
    and direct: "in_process_push X A F apple now d r cached = (out, rest)"
  shows "relayed_push X A rejection chunked F apple now d r cached =
    (behind_relay A (is_ok (policy_validate A (apn_bundle_id F) q)) out, rest)"
proof (cases "policy_validate A (apn_bundle_id F) q")
  case (Inl e)
  with policy_refusal obtain t where "e = BadRelayRequest t" by blast
  with Inl q direct relay_failure_plain_error [OF codec(1) chunks, of e] show ?thesis
    by (auto simp: relayed_push_run [OF codec(1) q] relay_notification_handler_def in_process_push_def policy_sanitize_def
        behind_relay_def error_response_def is_ok_def)
next
  case (Inr n)
  obtain res calls cached1 where s: "apple_send A F apple now n cached = (res, calls, cached1)" by (metis surj_pair)
  with Inr q direct have out: "out = res" "rest = (calls, cached1)"
    by (simp_all add: in_process_push_def policy_sanitize_def)
  show ?thesis
  proof (cases res)
    case res: (Inl e)
    show ?thesis
    proof (cases e)
      case (Rejected f)
      have "relay_failure A \<lparr>hy_status = fst (error_response (Delivery f)),
          hy_chunks = map Some (chunked (ax_print A (snd (error_response (Delivery f)))))\<rparr> = f"
        using relay_failure_delivery [OF codec apple_send_short [OF codec(2)] chunks] s res Rejected
        by (simp add: error_response_def)
      with Rejected res s Inr out show ?thesis
        by (simp add: relayed_push_run [OF codec(1) q] relay_notification_handler_def handler_error_def behind_relay_def is_ok_def)
    qed (use res s Inr out relay_failure_plain_error [OF codec(1) chunks, of "handler_error e"] in
        \<open>simp_all add: relayed_push_run [OF codec(1) q] relay_notification_handler_def handler_error_def behind_relay_def
          error_response_def\<close>)
  qed (use s Inr out in \<open>simp add: relayed_push_run [OF codec(1) q] relay_notification_handler_def behind_relay_def\<close>)
qed


section \<open>Configured routes\<close>

lemma nonblank_prefix: "trim s \<noteq> [] \<Longrightarrow> 0 < n \<Longrightarrow> trim (take n (trim s)) \<noteq> []"
proof -
  assume s: "trim s \<noteq> []" and n: "0 < n"
  have "\<not> is_whitespace (hd (trim s))" using strip_both_ends(1) s by (simp add: trim_def)
  moreover from s n obtain c t where "take n (trim s) = c # t" "c = hd (trim s)"
    by (cases "trim s"; cases n) auto
  ultimately show ?thesis by (simp add: trim_def strip_both_def)
qed

lemma preview_nonblank:
  assumes "trim (q_title q) \<noteq> []"
  shows "trim (np_title (notification_preview_of q)) \<noteq> []" and "trim (np_body (notification_preview_of q)) \<noteq> []"
proof -
  have nod: "trim (lit ''Nod'') \<noteq> []" by (simp add: trim_eqI lit_def is_whitespace_def)
  have pick: "trim (case nonblank v of Some t \<Rightarrow> t | None \<Rightarrow> e) \<noteq> []" if "trim e \<noteq> []" for v e
    using that by (simp split: option.split)
  show "trim (np_title (notification_preview_of q)) \<noteq> []"
    unfolding notification_preview_of_def Let_def notification_preview.select_convs
    using assms nod by (intro nonblank_prefix pick) simp_all
  show "trim (np_body (notification_preview_of q)) \<noteq> []"
    unfolding notification_preview_of_def Let_def notification_preview.select_convs
    using trim_open_nod_text by (intro nonblank_prefix pick) simp_all
qed

lemma registry_provider:
  assumes "build_push_registry A U show_url client signer direct relay = Inr (reg, route)" and "k \<in> set (map fst reg)"
  shows "\<exists>p. map_of reg k = Some p \<and> k = provider_route p"
proof -
  from assms(1) obtain x where x: "configured_push_route direct relay = Inr x"
    by (auto simp: build_push_registry_def bind_res_Inr_iff)
  then consider "x = None" | "x = Some ApnsRelay" | "x = Some ApnsDirect"
    by (metis option.exhaust push_route.exhaust)
  then show ?thesis
    using assms x by cases (auto simp: build_push_registry_def bind_res_Inr_iff push_registry_new_def)
qed

text \<open>A push for a device that has a route of the configuration is one the provider's policy takes.\<close>

lemma routed_push_is_accepted:
  assumes reg: "build_push_registry A U show_url client signer direct relay = Inr (reg, route)" "ac_routes C = map fst reg"
    and route: "has_route C d" and provider: "dv_push_provider d = Some APPLE_APNS_PROVIDER_ID"
    and token: "dv_push_token d = Some token" "trim token \<noteq> []"
    and card: "trim (r_title r) \<noteq> []" "trim (r_id r) \<noteq> []" "trim (r_channel_id r) \<noteq> []"
    and app: "\<And>p. p \<in> set (map snd reg) \<Longrightarrow> trim (provider_app p) = provider_app p \<and> provider_app p \<noteq> []"
  shows "\<exists>k p q n. device_route_key d = Some k \<and> map_of reg k = Some p \<and> build_relay_request X d r = Some q \<and>
    policy_validate A' (provider_app p) q = Inr n"
proof -
  have apple: "trim APPLE_APNS_PROVIDER_ID = APPLE_APNS_PROVIDER_ID" "APPLE_APNS_PROVIDER_ID \<noteq> []"
    by (simp_all add: APPLE_APNS_PROVIDER_ID_def trim_eqI lit_def is_whitespace_def)
  from route provider apple have k: "device_route_key d = Some (push_route_key APPLE_APNS_PROVIDER_ID (dv_native_app_id d))"
    "push_route_key APPLE_APNS_PROVIDER_ID (dv_native_app_id d) \<in> set (map fst reg)" "dv_platform d \<in> {Ios, Watchos}"
    by (auto simp: has_route_def device_route_key_def normalized_optional_text_def reg(2) split: if_splits)
  from registry_provider [OF reg(1) k(2)] obtain p where p: "map_of reg (push_route_key APPLE_APNS_PROVIDER_ID (dv_native_app_id d)) = Some p"
    "push_route_key APPLE_APNS_PROVIDER_ID (dv_native_app_id d) = provider_route p" by blast
  from p(1) have "p \<in> set (map snd reg)" by (force dest: map_of_SomeD)
  note app = app [OF this]
  from p(2) app obtain native where native: "dv_native_app_id d = Some native" "trim native = provider_app p"
    by (auto simp: provider_route_def push_route_key_def normalized_optional_text_def split: option.splits if_splits)
  have title: "trim (q_title (to_wire X r)) \<noteq> []" using card(1) by (simp add: to_wire_def Let_def wire_of_def)
  have preview: "trim (np_title (device_preview X d r)) \<noteq> [] \<and> trim (np_body (device_preview X d r)) \<noteq> []"
    unfolding device_preview_def Let_def using preview_nonblank title by (auto split: if_split)
  obtain q where q: "build_relay_request X d r = Some q" using provider token native apple by (simp add: build_relay_request_def)
  then have f: "nt_platform (ar_target q) = device_platform_str (dv_platform d)" "nt_native_app_id (ar_target q) = native"
    "nt_token (ar_target q) = trim token" "nc_title (ar_notification q) = np_title (device_preview X d r)"
    "nc_body (ar_notification q) = np_body (device_preview X d r)" "nc_thread_id (ar_notification q) = r_channel_id r"
    "nc_category (ar_notification q) = lit ''NOD_DEFAULT''" "nm_request_id (ar_metadata q) = r_id r"
    "nm_channel_id (ar_metadata q) = r_channel_id r"
    using provider token native apple
    by (auto simp: build_relay_request_def category_for_request_def push_category_str_def)
  have "\<exists>p. target_platform_parse A' (device_platform_str (dv_platform d)) = Inr p"
    using k(3) by (auto simp: trim_eqI lit_def is_whitespace_def)
  moreover have "trim (lit ''NOD_DEFAULT'') \<noteq> []" by (simp add: trim_eqI lit_def is_whitespace_def)
  ultimately have "\<exists>n. policy_validate A' (provider_app p) q = Inr n"
    using f native token preview card app by (simp add: policy_validate_Inr del: platform_parse_Inr)
  with q k(1) p(1) show ?thesis by blast
qed

section \<open>A concrete provider\<close>

text \<open>A provider, device and card on which the properties of the APNs path are applied.\<close>

text \<open>A JSON text for the example: the number of the value.\<close>

instance json :: countable
  by countable_datatype

definition demo_apns :: apns_ext where
  "demo_apns = \<lparr>ax_debug = (\<lambda>s. s), ax_print = (\<lambda>v. [to_nat v]),
     ax_parse = (\<lambda>b. case b of [n] \<Rightarrow> Some (from_nat n) | _ \<Rightarrow> None), ax_status = (\<lambda>_. []), ax_sign = (\<lambda>_ _ now. Inr [now])\<rparr>"

definition demo_apns_config :: apns_config where
  "demo_apns_config = \<lparr>apn_bundle_id = [98], apn_environment = ApnsSandbox, apn_team_id = [116], apn_key_id = [107],
     apn_private_key_path = [112]\<rparr>"

text \<open>Apple no longer knows the token.\<close>

definition demo_apple :: "apns_call \<Rightarrow> http_outcome" where
  "demo_apple c = Inr \<lparr>hy_status = 410, hy_chunks = [Some (ax_print demo_apns (JObj [text_member ''reason'' (lit ''Unregistered'')]))]\<rparr>"

definition demo_phone :: device_row where
  "demo_phone = \<lparr>dv_id = [100], dv_user_id = [117], dv_name = [100], dv_platform = Ios, dv_native_app_id = Some [98],
     dv_token_hash = [], dv_push_provider = Some APPLE_APNS_PROVIDER_ID, dv_push_token = Some [116],
     dv_signing_key_id = None, dv_signing_key_algorithm = None, dv_signing_public_key = None, dv_revoked_at = None,
     dv_notification_sound = [115], dv_preferences = default_preferences\<lparr>dp_hide_content := True\<rparr>, dv_last_seen_at = 0,
     dv_created_at = 0\<rparr>"

definition demo_push_card :: "rstr \<Rightarrow> decision_request" where
  "demo_push_card title = \<lparr>r_answer_field = None, r_id = [114], r_channel_id = [99], r_recipients = [[117]], r_resolution = Shared,
     r_title = title, r_summary = title, r_body = title, r_fields = [], r_links = [], r_image_url = None,
     r_notification = \<lparr>n_redact = False, n_title = None, n_body = None\<rparr>, r_dedupe_key = None, r_expires_at = None,
     r_status = Pending, r_created_at = 0, r_updated_at = 0, r_resolved_at = None, r_decision = None, r_user_decisions = [],
     r_callback_url = None, r_options = [], r_private_recipients = True, r_signing = None\<rparr>"

definition demo_relay_request :: apns_relay_request where
  "demo_relay_request = \<lparr>ar_target = \<lparr>nt_platform = lit ''ios'', nt_native_app_id = [98], nt_token = [116]\<rparr>,
     ar_notification = \<lparr>nc_title = lit ''Nod'', nc_body = open_nod_text, nc_sound = [115], nc_thread_id = [99],
       nc_category = lit ''NOD_DEFAULT''\<rparr>,
     ar_metadata = \<lparr>nm_request_id = [114], nm_channel_id = [99], nm_device_id = Some [100]\<rparr>\<rparr>"

definition demo_notification :: relay_notification where
  "demo_notification = \<lparr>rl_target = \<lparr>tg_platform = TargetIos, tg_native_app_id = [98], tg_token = [116]\<rparr>,
     rl_notification = ar_notification demo_relay_request, rl_metadata = ar_metadata demo_relay_request\<rparr>"

lemma demo_trim: "trim [98] = [98]" "trim [116] = [116]" "trim [115] = [115]" "trim [99] = [99]" "trim [114] = [114]"
  "trim (lit ''ios'') = lit ''ios''" "trim (lit ''Nod'') = lit ''Nod''" "trim (lit ''NOD_DEFAULT'') = lit ''NOD_DEFAULT''"
  "trim open_nod_text = open_nod_text" "trim APPLE_APNS_PROVIDER_ID = APPLE_APNS_PROVIDER_ID"
  by (rule trim_eqI; simp add: lit_def is_whitespace_def open_nod_text_def APPLE_APNS_PROVIDER_ID_def)+

lemma demo_built: "build_relay_request X demo_phone (demo_push_card t) = Some demo_relay_request"
  by (simp add: build_relay_request_def hidden_device_preview demo_phone_def demo_push_card_def demo_relay_request_def demo_trim
      category_for_request_def push_category_str_def)

lemma demo_validated: "\<exists>n. policy_validate demo_apns [98] demo_relay_request = Inr n"
  by (simp add: policy_validate_Inr demo_relay_request_def demo_trim open_nod_text_def [THEN arg_cong [of _ _ "\<lambda>s. s = []"]])

lemma demo_sent:
  "\<exists>c f. in_process_push X demo_apns demo_apns_config demo_apple now demo_phone (demo_push_card t) None =
     (Inl (Rejected f), [c], Some ([now], now)) \<and> df_invalid_token f"
proof -
  obtain n where n: "policy_validate demo_apns [98] demo_relay_request = Inr n" using demo_validated by blast
  have "df_invalid_token (apple_rejection demo_apns
      \<lparr>hy_status = 410, hy_chunks = [Some (ax_print demo_apns (JObj [text_member ''reason'' (lit ''Unregistered'')]))]\<rparr>)"
    by (simp add: apple_rejection_def bounded_error_json_def demo_apns_def MAX_ERROR_BYTES_def rejection_reason_def
        text_member_def json_text_def)
  moreover have "\<not> is_success_status 410" by (simp add: is_success_status_def)
  moreover have "\<not> 4096 < length (ax_print demo_apns v)" for v by (simp add: demo_apns_def)
  moreover have "provider_jwt demo_apns demo_apns_config now None = (Inr [now], Some ([now], now))"
    by (simp add: provider_jwt_def demo_apns_def)
  ultimately show ?thesis
    by (simp add: in_process_push_def demo_built policy_sanitize_def demo_apns_config_def [THEN arg_cong [of _ _ apn_bundle_id]]
        n apple_send_def demo_apple_def)
qed

lemma demo_codec: "json_codec demo_apns" "short_failures demo_apns"
  by (simp_all add: json_codec_def short_failures_def demo_apns_def MAX_ERROR_BYTES_def)

theorem push_stays_with_app_witness:
  "\<exists>c. ak_topic c = [98] \<and> ak_url c = apns_endpoint ApnsSandbox @ lit ''/3/device/'' @ [116] \<and>
     fst (snd (in_process_push sample_ext demo_apns demo_apns_config demo_apple 0 demo_phone (demo_push_card [120]) None)) = [c]"
proof -
  obtain c f where run: "in_process_push sample_ext demo_apns demo_apns_config demo_apple 0 demo_phone (demo_push_card [120]) None =
      (Inl (Rejected f), [c], Some ([0], 0))" using demo_sent by blast
  note facts = push_stays_with_app [OF run, of c]
  then show ?thesis using run by (auto simp: demo_apns_config_def demo_phone_def demo_trim)
qed

theorem hidden_content_stays_witness:
  "in_process_push sample_ext demo_apns demo_apns_config demo_apple 0 demo_phone (demo_push_card [120]) None =
   in_process_push sample_ext demo_apns demo_apns_config demo_apple 0 demo_phone (demo_push_card [121]) None \<and>
   nc_title (ar_notification demo_relay_request) = lit ''Nod'' \<and> demo_push_card [120] \<noteq> demo_push_card [121]"
proof -
  have hide: "dp_hide_content (dv_preferences demo_phone)" by (simp add: demo_phone_def)
  have same: "r_id (demo_push_card [120]) = r_id (demo_push_card [121])"
    "r_channel_id (demo_push_card [120]) = r_channel_id (demo_push_card [121])"
    by (simp_all add: demo_push_card_def)
  from hidden_content_stays [OF hide same, where q = demo_relay_request] demo_built show ?thesis
    by (simp add: demo_push_card_def)
qed


theorem provider_tokens_renewed_witness:
  "\<exists>is. list_all2 (signed_at demo_apns demo_apns_config) (delivery_run demo_apns demo_apns_config
      (map (\<lambda>now. (now, demo_apple, demo_notification)) [0, 10, 4000]) None) is \<and> map (ak_bearer \<circ> snd) (delivery_run demo_apns demo_apns_config
      (map (\<lambda>now. (now, demo_apple, demo_notification)) [0, 10, 4000]) None) = [[0], [0], [4000]]"
proof -
  have send: "\<exists>r. apple_send demo_apns demo_apns_config demo_apple now demo_notification cached =
      (r, [apns_call_for demo_apns_config jwt demo_notification], cached')"
    if "provider_jwt demo_apns demo_apns_config now cached = (Inr jwt, cached')" for now cached jwt cached'
    using that by (simp add: apple_send_def Let_def demo_apns_def)
  have jwt: "provider_jwt demo_apns demo_apns_config 0 None = (Inr [0], Some ([0], 0))"
    "provider_jwt demo_apns demo_apns_config 10 (Some ([0], 0)) = (Inr [0], Some ([0], 0))"
    "provider_jwt demo_apns demo_apns_config 4000 (Some ([0], 0)) = (Inr [4000], Some ([4000], 4000))"
    by (simp_all add: provider_jwt_def demo_apns_def TOKEN_REFRESH_AFTER_SECS_def)
  obtain r1 r2 r3 where
    "apple_send demo_apns demo_apns_config demo_apple 0 demo_notification None = (r1, [apns_call_for demo_apns_config [0] demo_notification], Some ([0], 0))"
    "apple_send demo_apns demo_apns_config demo_apple 10 demo_notification (Some ([0], 0)) =
      (r2, [apns_call_for demo_apns_config [0] demo_notification], Some ([0], 0))"
    "apple_send demo_apns demo_apns_config demo_apple 4000 demo_notification (Some ([0], 0)) =
      (r3, [apns_call_for demo_apns_config [4000] demo_notification], Some ([4000], 4000))"
    using send [OF jwt(1)] send [OF jwt(2)] send [OF jwt(3)] by (elim exE) (rule that)
  then have "map (ak_bearer \<circ> snd) (delivery_run demo_apns demo_apns_config
      (map (\<lambda>now. (now, demo_apple, demo_notification)) [0, 10, 4000]) None) = [[0], [0], [4000]]"
    by (simp add: apns_call_for_def)
  moreover obtain "is" where "list_all2 (signed_at demo_apns demo_apns_config) (delivery_run demo_apns demo_apns_config
      (map (\<lambda>now. (now, demo_apple, demo_notification)) [0, 10, 4000]) None) is"
    using provider_tokens_renewed [of demo_apns demo_apns_config "map (\<lambda>now. (now, demo_apple, demo_notification)) [0, 10, 4000]"]
    by (elim exE conjE)
  ultimately show ?thesis by (intro exI conjI)
qed

end
