(* ===== verification/Desktop.thy ===== *)
theory Desktop
  imports Client_Process
begin

text \<open>
  The desktop client's host process (src/client/nod-desktop/src-tauri/src): its own preferences, the notifications of
  Windows and Linux, links and images of a card, the badge of the task bar, the commands of its window, and how it runs the
  client process with them. What the operating system answers is part of an event; serde_json, the \<open>url\<close> and \<open>image\<close>
  crates are the fields of \<open>desktop_ext\<close>.
\<close>

section \<open>Preferences\<close>

record desktop_preferences =
  pf_hide_content :: bool
  pf_load_images :: bool
  pf_muted :: "rstr list"
  pf_snoozed_until :: "int option"
  pf_quiet_start :: "8 word option"
  pf_quiet_end :: "8 word option"

definition default_desktop_preferences :: desktop_preferences where
  "default_desktop_preferences = \<lparr>pf_hide_content = False, pf_load_images = False, pf_muted = [], pf_snoozed_until = None,
     pf_quiet_start = None, pf_quiet_end = None\<rparr>"

definition notifications_paused :: "desktop_preferences \<Rightarrow> rstr \<Rightarrow> int \<Rightarrow> 8 word \<Rightarrow> bool" where
  "notifications_paused p channel now hour \<longleftrightarrow>
     (if (case pf_snoozed_until p of Some until \<Rightarrow> until > now | None \<Rightarrow> False) \<or> list_ex (\<lambda>c. c = channel) (pf_muted p) then True
      else case (pf_quiet_start p, pf_quiet_end p) of
        (Some s, Some e) \<Rightarrow>
          if s < e then s \<le> hour \<and> hour < e
          else if s > e then hour \<ge> s \<or> hour < e
          else False
      | _ \<Rightarrow> False)"

definition validate_preferences :: "desktop_preferences \<Rightarrow> rstr + unit" where
  "validate_preferences p =
     (let late = (\<lambda>h. case h of Some h \<Rightarrow> h > 23 | None \<Rightarrow> False) in
      if late (pf_quiet_start p) \<or> late (pf_quiet_end p) \<or> (pf_quiet_start p \<noteq> None) \<noteq> (pf_quiet_end p \<noteq> None)
      then Inl (lit ''Choose both quiet-hours endpoints between 0 and 23'')
      else if length (pf_muted p) > 10000 then Inl (lit ''Too many muted channels'')
      else Inr ())"

record preference_codec =
  pc_parse :: "byte list \<Rightarrow> desktop_preferences option"
  pc_print :: "desktop_preferences \<Rightarrow> byte list"

text \<open>The preference file and the temporary file next to it.\<close>

record preference_files =
  pd_main :: file_state
  pd_temporary :: file_state

definition open_preferences ::
  "preference_codec \<Rightarrow> rstr option \<Rightarrow> rstr \<Rightarrow> preference_files \<Rightarrow> rstr + desktop_preferences" where
  \<comment> \<open>why the directory cannot be made, if so, and the text of a read error\<close>
  "open_preferences C directory io_error fs =
     (case directory of
        Some e \<Rightarrow> Inl e
      | None \<Rightarrow>
          case pd_main fs of
            Bytes raw \<Rightarrow> ok_or (lit ''Cannot read desktop preferences'') (pc_parse C raw)
          | Absent \<Rightarrow> Inr default_desktop_preferences
          | Unreadable \<Rightarrow> Inl io_error)"

datatype preference_fault = PreferencesKept | TemporaryRefused rstr | WriteCut rstr "byte list" | SyncRefused rstr | RenameRefused rstr

definition save_preferences :: "preference_codec \<Rightarrow> preference_fault \<Rightarrow> desktop_preferences \<Rightarrow>
    desktop_preferences \<times> preference_files \<Rightarrow> (rstr + desktop_preferences) \<times> desktop_preferences \<times> preference_files" where
  "save_preferences C fault new st =
     (let (old, fs) = st; written = fs\<lparr>pd_temporary := Bytes (pc_print C new)\<rparr> in
      case validate_preferences new of
        Inl e \<Rightarrow> (Inl e, old, fs)
      | Inr _ \<Rightarrow>
          case fault of
            TemporaryRefused e \<Rightarrow> (Inl e, old, fs)
          | WriteCut e left \<Rightarrow> (Inl e, old, fs\<lparr>pd_temporary := Bytes left\<rparr>)
          | SyncRefused e \<Rightarrow> (Inl e, old, written)
          | RenameRefused e \<Rightarrow> (Inl e, old, written)
          | PreferencesKept \<Rightarrow> (Inr new, new, \<lparr>pd_main = Bytes (pc_print C new), pd_temporary = Absent\<rparr>))"

section \<open>Windows toasts\<close>

definition replace_char :: "nat \<Rightarrow> rstr \<Rightarrow> rstr \<Rightarrow> rstr" where
  "replace_char c t s = concat (map (\<lambda>x. if x = c then t else [x]) s)"

definition xml_escape :: "rstr \<Rightarrow> rstr" where
  "xml_escape s = replace_char (of_char CHR ''>'') (lit ''&gt;'') (replace_char (of_char CHR ''<'') (lit ''&lt;'')
     (replace_char (of_char CHR ''\"'') (lit ''&quot;'') (replace_char (of_char CHR ''&'') (lit ''&amp;'') s)))"

definition is_silent :: "rstr \<Rightarrow> bool" where
  "is_silent sound \<longleftrightarrow> sound = lit ''silent'' \<or> sound = lit ''none''"

definition windows_toast_xml :: "request \<Rightarrow> rstr \<Rightarrow> rstr" where
  "windows_toast_xml q sound =
     (let preview = notification_preview_of q in
      lit ''<toast launch=\"open\"><visual><binding template=\"ToastGeneric\"><text>'' @ xml_escape (np_title preview) @
      lit ''</text><text>'' @ xml_escape (np_body preview) @ lit ''</text></binding></visual>'' @
      (if is_silent sound then lit ''<audio silent=\"true\"/>'' else []) @ lit ''</toast>'')"

definition notification_tag :: "ext \<Rightarrow> rstr \<Rightarrow> rstr" where
  "notification_tag X s = take 16 (x_hex X (x_sha256 X (utf8 s)))"

section \<open>The registry of Linux notifications\<close>

record notification_identity =
  ni_id :: "32 word"
  ni_generation :: nat

record notification_registry =
  nr_next :: nat
    \<comment> \<open>a \<open>u64\<close> that counts the notifications shown\<close>
  nr_entries :: "rstr \<rightharpoonup> notification_identity"

definition new_registry :: notification_registry where
  "new_registry = \<lparr>nr_next = 0, nr_entries = Map.empty\<rparr>"

definition registry_replace :: "rstr \<Rightarrow> 32 word \<Rightarrow> notification_registry \<Rightarrow> notification_identity \<times> notification_registry" where
  "registry_replace key i r =
     (let identity = \<lparr>ni_id = i, ni_generation = nr_next r + 1\<rparr> in
      (identity, r\<lparr>nr_next := nr_next r + 1, nr_entries := (nr_entries r)(key \<mapsto> identity)\<rparr>))"

definition remove_if_current :: "rstr \<Rightarrow> notification_identity \<Rightarrow> notification_registry \<Rightarrow> notification_registry" where
  "remove_if_current key identity r =
     (if nr_entries r key = Some identity then r\<lparr>nr_entries := (nr_entries r)(key := None)\<rparr> else r)"

section \<open>Links and images\<close>

definition web_url :: "url_parser \<Rightarrow> rstr \<Rightarrow> rstr + url" where
  "web_url parse value =
     bind_res (ok_or (lit ''The link must be an absolute HTTP or HTTPS URL'') (parse value)) (\<lambda>u.
     if \<not> (ur_scheme u = lit ''http'' \<or> ur_scheme u = lit ''https'') \<or> ur_host u = None
     then Inl (lit ''Only HTTP and HTTPS links can be opened'')
     else if ur_username u \<noteq> [] \<or> ur_password u \<noteq> None then Inl (lit ''Links containing credentials cannot be opened'')
     else Inr u)"

definition open_external_url :: "url_parser \<Rightarrow> (url \<Rightarrow> rstr + unit) \<Rightarrow> rstr \<Rightarrow> (rstr + unit) \<times> url option" where
  \<comment> \<open>the result and the link given to the system's opener\<close>
  "open_external_url parse launch value =
     (case web_url parse value of Inl e \<Rightarrow> (Inl e, None) | Inr u \<Rightarrow> (launch u, Some u))"

definition MAX_IMAGE_BYTES :: nat where
  "MAX_IMAGE_BYTES = 8 * 1024 * 1024"

datatype image_format = PngImage | JpegImage | OtherImage

record image_response =
  ig_status :: nat
  ig_status_error :: rstr
    \<comment> \<open>the text of \<open>error_for_status\<close>\<close>
  ig_length :: "nat option"
  ig_chunks :: "(rstr + byte list) list"

text \<open>The \<open>image\<close> crate: a decoded image, which need not be described further, is ['i].\<close>

record 'i image_ext =
  ix_send :: "url \<Rightarrow> rstr + image_response"
  ix_format :: "byte list \<Rightarrow> rstr + image_format option"
  ix_decode :: "nat \<Rightarrow> nat \<Rightarrow> nat \<Rightarrow> byte list \<Rightarrow> rstr + 'i"
    \<comment> \<open>within a width, a height and an allocation\<close>
  ix_thumbnail :: "nat \<Rightarrow> nat \<Rightarrow> 'i \<Rightarrow> 'i"
  ix_png :: "'i \<Rightarrow> rstr + byte list"

fun read_image :: "byte list \<Rightarrow> (rstr + byte list) list \<Rightarrow> rstr + byte list" where
  "read_image got [] = Inr got"
| "read_image got (Inl e # _) = Inl e"
| "read_image got (Inr chunk # rest) =
     (if min (2 ^ 64 - 1) (length got + length chunk) > MAX_IMAGE_BYTES then Inl (lit ''Image exceeds the 8 MB limit'')
      else read_image (got @ chunk) rest)"

definition image_preview :: "ext \<Rightarrow> 'i image_ext \<Rightarrow> byte list \<Rightarrow> rstr + rstr" where
  "image_preview X I bytes =
     bind_res (ix_format I bytes) (\<lambda>format.
     if \<not> (format = Some PngImage \<or> format = Some JpegImage) then Inl (lit ''Only PNG and JPEG attachments are previewed'')
     else
       bind_res (ix_decode I 4096 4096 (64 * 1024 * 1024) bytes) (\<lambda>image.
       bind_res (ix_png I (ix_thumbnail I 1600 1600 image)) (\<lambda>output.
       if length output > MAX_IMAGE_BYTES then Inl (lit ''Image preview exceeds the 8 MB limit'')
       else Inr (lit ''data:image/png;base64,'' @ x_b64_encode X output))))"

definition fetch_image :: "ext \<Rightarrow> url_parser \<Rightarrow> 'i image_ext \<Rightarrow> nat \<Rightarrow> rstr \<Rightarrow> (rstr + rstr) \<times> url option" where
  \<comment> \<open>\<open>busy\<close>: the image slots taken; the result and the address asked\<close>
  "fetch_image X parse I busy value =
     (if busy \<ge> 4 then (Inl (lit ''Image previews are busy; try again shortly''), None)
      else case web_url parse value of
        Inl e \<Rightarrow> (Inl e, None)
      | Inr u \<Rightarrow>
          (bind_res (ix_send I u) (\<lambda>r.
           if 400 \<le> ig_status r \<and> ig_status r < 600 then Inl (ig_status_error r)
           else if 300 \<le> ig_status r \<and> ig_status r < 400
           then Inl (lit ''Image redirects are not loaded; open the attachment in a browser'')
           else if (case ig_length r of Some n \<Rightarrow> n > MAX_IMAGE_BYTES | None \<Rightarrow> False) then Inl (lit ''Image exceeds the 8 MB limit'')
           else bind_res (read_image [] (ig_chunks r)) (image_preview X I)), Some u))"

definition request_image ::
  "ext \<Rightarrow> url_parser \<Rightarrow> 'i image_ext \<Rightarrow> desktop_preferences \<Rightarrow> nat \<Rightarrow> rstr \<Rightarrow> (rstr + rstr) \<times> url option" where
  "request_image X parse I p busy value =
     (if \<not> pf_load_images p then (Inl (lit ''Remote images are disabled in Settings''), None)
      else fetch_image X parse I busy value)"

section \<open>The badge\<close>

text \<open>An RGBA picture is the list of its bytes. The slice of \<open>put_pixel\<close> panics beyond its end: \<open>None\<close>.\<close>

definition BADGE_SIZE :: nat where
  "BADGE_SIZE = 32"

definition BADGE_COLOR :: "byte list" where
  "BADGE_COLOR = [214, 48, 49, 255]"

definition BADGE_TEXT :: "byte list" where
  "BADGE_TEXT = [255, 255, 255, 255]"

definition label_for :: "nat \<Rightarrow> rstr" where
  "label_for n = (if n > 9 then lit ''9+'' else show_nat n)"

definition put_pixel :: "nat \<Rightarrow> nat \<Rightarrow> byte list \<Rightarrow> byte list \<Rightarrow> byte list option" where
  "put_pixel x y color rgba =
     (let offset = (y * BADGE_SIZE + x) * 4 in
      if offset + 4 \<le> length rgba then Some (take offset rgba @ color @ drop (offset + 4) rgba) else None)"

definition badge_glyph :: "nat \<Rightarrow> nat list" where
  "badge_glyph c =
     (if c = of_char CHR ''0'' then [7, 5, 5, 5, 7]
      else if c = of_char CHR ''1'' then [2, 6, 2, 2, 7]
      else if c = of_char CHR ''2'' then [7, 1, 7, 4, 7]
      else if c = of_char CHR ''3'' then [7, 1, 7, 1, 7]
      else if c = of_char CHR ''4'' then [5, 5, 7, 1, 1]
      else if c = of_char CHR ''5'' then [7, 4, 7, 1, 7]
      else if c = of_char CHR ''6'' then [7, 4, 7, 5, 7]
      else if c = of_char CHR ''7'' then [7, 1, 1, 2, 2]
      else if c = of_char CHR ''8'' then [7, 5, 7, 5, 7]
      else if c = of_char CHR ''9'' then [7, 5, 7, 1, 7]
      else [0, 2, 7, 2, 0])"

text \<open>The pixels the loops of \<open>draw_glyph\<close> and \<open>draw_label\<close> set, in their order.\<close>

definition glyph_pixels :: "nat \<Rightarrow> nat \<Rightarrow> nat \<Rightarrow> nat \<Rightarrow> (nat \<times> nat) list" where
  "glyph_pixels c x0 y0 scale =
     [(x0 + col * scale + dx, y0 + row * scale + dy). (row, bits) \<leftarrow> enumerate 0 (badge_glyph c), col \<leftarrow> [0..<3],
        bits div (4 div 2 ^ col) mod 2 = 1, dy \<leftarrow> [0..<scale], dx \<leftarrow> [0..<scale]]"

fun label_pixels :: "rstr \<Rightarrow> nat \<Rightarrow> nat \<Rightarrow> nat \<Rightarrow> nat \<Rightarrow> (nat \<times> nat) list" where
  "label_pixels [] x0 y0 scale gap = []"
| "label_pixels (c # cs) x0 y0 scale gap = glyph_pixels c x0 y0 scale @ label_pixels cs (x0 + 3 * scale + gap) y0 scale gap"

definition drawn_label :: "rstr \<Rightarrow> (nat \<times> nat) list option" where
  \<comment> \<open>the subtractions of \<open>usize\<close> must not pass zero\<close>
  "drawn_label label =
     (let n = length label; scale = (if n = 1 then 4 else 3); gap = scale in
      if n = 0 then None
      else
        let label_width = n * 3 * scale + (n - 1) * gap in
        if label_width > BADGE_SIZE \<or> 5 * scale > BADGE_SIZE then None
        else Some (label_pixels label ((BADGE_SIZE - label_width) div 2) ((BADGE_SIZE - 5 * scale) div 2) scale gap))"

fun put_pixels :: "(nat \<times> nat) list \<Rightarrow> byte list \<Rightarrow> byte list \<Rightarrow> byte list option" where
  "put_pixels [] color rgba = Some rgba"
| "put_pixels ((x, y) # ps) color rgba = Option.bind (put_pixel x y color rgba) (put_pixels ps color)"

text \<open>The circle, with distances from its centre (15.5, 15.5) doubled; single precision computes them exactly.\<close>

definition in_circle :: "nat \<Rightarrow> nat \<Rightarrow> bool" where
  "in_circle x y \<longleftrightarrow> (2 * int x - 31) * (2 * int x - 31) + (2 * int y - 31) * (2 * int y - 31) \<le> 30 * 30"

definition circle_pixels :: "(nat \<times> nat) list" where
  "circle_pixels = [(x, y). y \<leftarrow> [0..<BADGE_SIZE], x \<leftarrow> [0..<BADGE_SIZE], in_circle x y]"

definition render_badge :: "rstr \<Rightarrow> byte list option" where
  "render_badge label =
     Option.bind (put_pixels circle_pixels BADGE_COLOR (replicate (BADGE_SIZE * BADGE_SIZE * 4) 0)) (\<lambda>rgba.
     Option.bind (drawn_label label) (\<lambda>ps. put_pixels ps BADGE_TEXT rgba))"

definition pending_overlay :: "nat \<Rightarrow> byte list option" where
  "pending_overlay n = render_badge (label_for n)"

section \<open>The host process\<close>

datatype host_platform = WindowsHost | LinuxHost | OtherHost

text \<open>A notification shown: the toast with its tag and group, or the text, the notification it replaces, and silence.\<close>

datatype shown_notification = WindowsToast rstr rstr rstr | LinuxNotification rstr rstr "32 word option" bool

text \<open>
  What waits for a click: a toast's handler stays, without an identity; the task of a Linux notification has one, and keeps
  the click until it ends.
\<close>

record waiter =
  wt_server :: rstr
  wt_request :: rstr
  wt_identity :: "notification_identity option"
  wt_clicked :: bool

datatype app_badge = NoBadge | CountBadge nat | OverlayBadge "byte list option"

record desktop =
  dk_runtime :: runtime
  dk_preferences :: desktop_preferences
  dk_files :: preference_files
  dk_sound :: rstr
  dk_registry :: notification_registry
  dk_waiters :: "waiter list"
  dk_activations :: "(rstr \<times> rstr) list"
  dk_forwarded :: nat
    \<comment> \<open>how many messages of the client process were handled\<close>
  dk_shown :: "shown_notification list"
  dk_window :: "client_message list"
    \<comment> \<open>the events sent to the window\<close>
  dk_badge :: app_badge
  dk_raised :: nat

text \<open>What the operating system answers during an event.\<close>

record host_answer =
  ha_time :: instant
  ha_hour :: "8 word"
  ha_show :: "rstr + 32 word"
  ha_remove :: "rstr option"
  ha_window :: bool
  ha_badge :: "rstr option"
  ha_busy :: nat
  ha_launch :: "url \<Rightarrow> rstr + unit"
  ha_autostart :: "rstr + bool"
  ha_set_autostart :: "bool \<Rightarrow> rstr + unit"
  ha_fault :: preference_fault

record 'i desktop_ext =
  dx_platform :: host_platform
  dx_codec :: preference_codec
  dx_image :: "'i image_ext"

definition start_desktop :: "runtime \<Rightarrow> desktop_preferences \<Rightarrow> preference_files \<Rightarrow> desktop" where
  "start_desktop rt p fs = \<lparr>dk_runtime = rt, dk_preferences = p, dk_files = fs, dk_sound = lit ''default'', dk_registry = new_registry,
     dk_waiters = [], dk_activations = [], dk_forwarded = 0, dk_shown = [], dk_window = [], dk_badge = NoBadge, dk_raised = 0\<rparr>"

definition send_to_window :: "client_message \<Rightarrow> desktop \<Rightarrow> desktop" where
  "send_to_window m d = d\<lparr>dk_window := dk_window d @ [m]\<rparr>"

definition transient_desktop_error :: "rstr \<Rightarrow> rstr \<Rightarrow> client_message" where
  "transient_desktop_error doing e = TransientError (doing @ lit '': '' @ e)"

definition notification_key :: "rstr \<Rightarrow> rstr \<Rightarrow> rstr" where
  "notification_key server i = server @ lit '':'' @ i"

definition show_windows :: "ext \<Rightarrow> host_answer \<Rightarrow> rstr \<Rightarrow> request \<Rightarrow> desktop \<Rightarrow> (rstr + unit) \<times> desktop" where
  "show_windows X h server q d =
     (case ha_show h of
        Inl e \<Rightarrow> (Inl e, d)
      | Inr _ \<Rightarrow>
          (Inr (), d\<lparr>dk_shown := dk_shown d @ [WindowsToast (windows_toast_xml q (dk_sound d)) (notification_tag X (q_id q))
               (notification_tag X server)],
             dk_waiters := dk_waiters d @ [\<lparr>wt_server = server, wt_request = q_id q, wt_identity = None, wt_clicked = False\<rparr>]\<rparr>))"

definition show_linux :: "host_answer \<Rightarrow> rstr \<Rightarrow> request \<Rightarrow> desktop \<Rightarrow> (rstr + unit) \<times> desktop" where
  "show_linux h server q d =
     (let preview = notification_preview_of q; key = notification_key server (q_id q);
          replaced = map_option ni_id (nr_entries (dk_registry d) key) in
      case ha_show h of
        Inl e \<Rightarrow> (Inl e, d)
      | Inr i \<Rightarrow>
          let (identity, registry) = registry_replace key i (dk_registry d) in
          (Inr (), d\<lparr>dk_registry := registry,
             dk_shown := dk_shown d @ [LinuxNotification (np_title preview) (np_body preview) replaced (is_silent (dk_sound d))],
             dk_waiters := dk_waiters d @
               [\<lparr>wt_server = server, wt_request = q_id q, wt_identity = Some identity, wt_clicked = False\<rparr>]\<rparr>))"

definition show_notification :: "ext \<Rightarrow> host_platform \<Rightarrow> host_answer \<Rightarrow> rstr \<Rightarrow> request \<Rightarrow> desktop \<Rightarrow> (rstr + unit) \<times> desktop" where
  "show_notification X platform h server q d = (case platform of
      WindowsHost \<Rightarrow> show_windows X h server q d
    | LinuxHost \<Rightarrow> show_linux h server q d
    | OtherHost \<Rightarrow> (Inl (lit ''desktop notifications are only supported on Windows and Linux''), d))"

definition unix_time :: "host_answer \<Rightarrow> int" where
  "unix_time h = ha_time h div 1000000000"

definition desktop_content :: "desktop_preferences \<Rightarrow> request \<Rightarrow> request" where
  "desktop_content p q = (if pf_hide_content p
     then q\<lparr>q_notification := (q_notification q)\<lparr>n_redact := True, n_title := None, n_body := None\<rparr>\<rparr> else q)"

definition notifier_show :: "ext \<Rightarrow> host_platform \<Rightarrow> host_answer \<Rightarrow> rstr \<Rightarrow> request \<Rightarrow> desktop \<Rightarrow> (rstr + unit) \<times> desktop" where
  "notifier_show X platform h server q d =
     (if notifications_paused (dk_preferences d) (server @ lit '':'' @ q_channel_id q) (unix_time h) (ha_hour h) then (Inr (), d)
      else show_notification X platform h server (desktop_content (dk_preferences d) q) d)"

definition remove_notification :: "host_platform \<Rightarrow> host_answer \<Rightarrow> rstr \<Rightarrow> rstr \<Rightarrow> desktop \<Rightarrow> (rstr + unit) \<times> desktop" where
  "remove_notification platform h server i d =
     (let told = (case ha_remove h of Some e \<Rightarrow> Inl e | None \<Rightarrow> Inr ()) in
      case platform of
        WindowsHost \<Rightarrow> (told, d)
      | LinuxHost \<Rightarrow>
          let key = notification_key server i in
          (case nr_entries (dk_registry d) key of
             None \<Rightarrow> (Inr (), d)
           | Some identity \<Rightarrow>
               (told, if told = Inr () then d\<lparr>dk_registry := remove_if_current key identity (dk_registry d)\<rparr> else d))
      | OtherHost \<Rightarrow> (Inl (lit ''desktop notification removal is only supported on Windows and Linux''), d))"

definition total_pending_count :: "client_state \<Rightarrow> nat" where
  "total_pending_count s = sum_list (map snd (cs_pending_counts s))"

definition set_pending_badge :: "host_platform \<Rightarrow> nat \<Rightarrow> app_badge" where
  "set_pending_badge platform pending =
     (if pending = 0 then NoBadge
      else if platform = WindowsHost then OverlayBadge (pending_overlay pending) else CountBadge pending)"

definition update_badge :: "host_platform \<Rightarrow> host_answer \<Rightarrow> client_state \<Rightarrow> desktop \<Rightarrow> (rstr + unit) \<times> desktop" where
  "update_badge platform h s d =
     (if \<not> ha_window h then (Inr (), d)
      else case ha_badge h of
        Some e \<Rightarrow> (Inl e, d)
      | None \<Rightarrow> (Inr (), d\<lparr>dk_badge := set_pending_badge platform (total_pending_count s)\<rparr>))"

definition reporting :: "string \<Rightarrow> (rstr + 'a) \<times> desktop \<Rightarrow> desktop" where
  \<comment> \<open>an error is sent to the window\<close>
  "reporting doing rd = (case rd of
      (Inl e, d) \<Rightarrow> send_to_window (transient_desktop_error (lit doing) e) d
    | (Inr _, d) \<Rightarrow> d)"

definition side_effects :: "ext \<Rightarrow> host_platform \<Rightarrow> host_answer \<Rightarrow> client_message \<Rightarrow> desktop \<Rightarrow> desktop" where
  "side_effects X platform h m d = (case m of
      NotificationCandidate server q \<Rightarrow> reporting ''show desktop notification'' (notifier_show X platform h server q d)
    | NotificationRemoved server i \<Rightarrow> reporting ''remove desktop notification'' (remove_notification platform h server i d)
    | StateMessage s \<Rightarrow> reporting ''update desktop badge'' (update_badge platform h s (d\<lparr>dk_sound := cs_notification_sound s\<rparr>))
    | _ \<Rightarrow> d)"

definition forward_message :: "ext \<Rightarrow> host_platform \<Rightarrow> host_answer \<Rightarrow> desktop \<Rightarrow> desktop" where
  "forward_message X platform h d =
     (if dk_forwarded d < length (rn_out (dk_runtime d))
      then let m = rn_out (dk_runtime d) ! dk_forwarded d in
        send_to_window m (side_effects X platform h m (d\<lparr>dk_forwarded := dk_forwarded d + 1\<rparr>))
      else d)"

section \<open>The commands of the window\<close>

datatype desktop_command =
    DcState | DcEnroll enroll_params | DcRefresh | DcSelectServer rstr | DcForgetServer rstr | DcSelectChannel rstr
  | DcSelectAllChannels | DcSelectRequest rstr | DcOpenRequest rstr rstr | DcQueryHistory "rstr option" history_query
  | DcSubmitOption submit_params | DcSubmitRequestOption rstr submit_params | DcClearChannel rstr | DcSetSubscription rstr bool
  | DcSetSound rstr | DcListDevices | DcRenameDevice rstr rstr | DcRevokeDevice rstr
  | DcPreferences | DcSetPreferences desktop_preferences | DcAutostartEnabled | DcSetAutostart bool | DcTestNotification
  | DcRequestImage rstr | DcOpenUrl rstr

datatype desktop_value = RuntimeValue rpc_value | PreferencesValue desktop_preferences | FlagValue bool | DoneValue | ImageValue rstr

definition run_client :: "'a client_op \<Rightarrow> desktop \<Rightarrow> (rstr + 'a) \<times> desktop" where
  "run_client m d = (case m (dk_runtime d) of (r, rt) \<Rightarrow> (map_err error_text r, d\<lparr>dk_runtime := rt\<rparr>))"

definition enroll_command :: "client_world \<Rightarrow> enroll_params \<Rightarrow> desktop \<Rightarrow> (rstr + client_state) \<times> desktop" where
  "enroll_command W p d =
     (case run_client (enroll W p) d of
        (Inl e, d) \<Rightarrow> (Inl e, d)
      | (Inr _, d) \<Rightarrow> run_client client_state_now (reporting ''Registered; could not start sync'' (run_client (connect_sync W) d)))"

definition test_request :: "instant \<Rightarrow> request" where
  "test_request now = \<lparr>q_answer_field = None, q_id = lit ''notification-test'', q_request_id = lit ''notification-test'',
     q_channel_id = lit ''notification-test'', q_recipients = [], q_resolution = Shared, q_title = lit ''Nod notifications are on'',
     q_summary = lit ''Your device accepted this test notification.'', q_body = [], q_fields = [], q_links = [], q_image_url = None,
     q_notification = default_notification, q_dedupe_key = None, q_expires_at = None, q_status = Resolved, q_created_at = now,
     q_updated_at = now, q_resolved_at = None, q_decision = None, q_decisions = [], q_callback_url = None, q_options = [],
     q_request_digest = None, q_signing = None\<rparr>"

definition test_notification :: "ext \<Rightarrow> host_platform \<Rightarrow> host_answer \<Rightarrow> desktop \<Rightarrow> (rstr + unit) \<times> desktop" where
  "test_notification X platform h d =
     (let server = (case cs_selected_server_id (re_state (rn_reducer (dk_runtime d))) of Some i \<Rightarrow> i | None \<Rightarrow> lit ''local'') in
      if notifications_paused (dk_preferences d) (server @ lit '':notification-test'') (unix_time h) (ha_hour h)
      then (Inl (lit ''Notifications are paused by snooze or quiet hours. Resume them to test delivery.''), d)
      else notifier_show X platform h server (test_request (ha_time h)) d)"

definition save_command :: "preference_codec \<Rightarrow> host_answer \<Rightarrow> desktop_preferences \<Rightarrow> desktop \<Rightarrow> (rstr + desktop_preferences) \<times> desktop" where
  "save_command C h p d =
     (case save_preferences C (ha_fault h) p (dk_preferences d, dk_files d) of
        (r, value, fs) \<Rightarrow> (r, d\<lparr>dk_preferences := value, dk_files := fs\<rparr>))"

definition given :: "('a \<Rightarrow> 'b) \<Rightarrow> (rstr + 'a) \<times> desktop \<Rightarrow> (rstr + 'b) \<times> desktop" where
  "given f rd = (map_ok f (fst rd), snd rd)"

definition invoke_command ::
  "client_world \<Rightarrow> 'i desktop_ext \<Rightarrow> host_answer \<Rightarrow> desktop_command \<Rightarrow> desktop \<Rightarrow> (rstr + desktop_value) \<times> desktop" where
  "invoke_command W D h c d =
     (let state = given (\<lambda>s. RuntimeValue (StateValue s)); done = given (\<lambda>_. DoneValue) in
      case c of
        DcState \<Rightarrow> state (run_client client_state_now d)
      | DcEnroll p \<Rightarrow> state (enroll_command W p d)
      | DcRefresh \<Rightarrow> state (run_client (refresh W) d)
      | DcSelectServer i \<Rightarrow> state (run_client (select_server W i) d)
      | DcForgetServer i \<Rightarrow> state (run_client (forget_server W i) d)
      | DcSelectChannel i \<Rightarrow> state (run_client (select_channel_op i) d)
      | DcSelectAllChannels \<Rightarrow> state (run_client select_all_channels d)
      | DcSelectRequest i \<Rightarrow> state (run_client (select_request i) d)
      | DcOpenRequest s i \<Rightarrow> state (run_client (open_request W s i) d)
      | DcQueryHistory s q \<Rightarrow> given (\<lambda>p. RuntimeValue (HistoryValue p)) (run_client (query_history W s q) d)
      | DcSubmitOption o1 \<Rightarrow> given (\<lambda>q. RuntimeValue (RequestValue q)) (run_client (submit_option W o1) d)
      | DcSubmitRequestOption s o1 \<Rightarrow> given (\<lambda>q. RuntimeValue (RequestValue q)) (run_client (submit_request_option W s o1) d)
      | DcClearChannel i \<Rightarrow> state (run_client (clear_channel_op W i) d)
      | DcSetSubscription i b \<Rightarrow> state (run_client (set_subscription_op W i b) d)
      | DcSetSound sound \<Rightarrow> state (run_client (set_sound_op W sound) d)
      | DcListDevices \<Rightarrow> given (\<lambda>ds. RuntimeValue (DevicesValue ds)) (run_client (list_devices W) d)
      | DcRenameDevice i name \<Rightarrow> given (\<lambda>v. RuntimeValue (DeviceValue v)) (run_client (rename_device W i name) d)
      | DcRevokeDevice i \<Rightarrow> state (run_client (revoke_device W i) d)
      | DcPreferences \<Rightarrow> (Inr (PreferencesValue (dk_preferences d)), d)
      | DcSetPreferences p \<Rightarrow> given PreferencesValue (save_command (dx_codec D) h p d)
      | DcAutostartEnabled \<Rightarrow> given FlagValue (ha_autostart h, d)
      | DcSetAutostart b \<Rightarrow> done (ha_set_autostart h b, d)
      | DcTestNotification \<Rightarrow> done (test_notification (cw_ext W) (dx_platform D) h d)
      | DcRequestImage u \<Rightarrow>
          given ImageValue (fst (request_image (cw_ext W) (cw_parse_url W) (dx_image D) (dk_preferences d) (ha_busy h) u), d)
      | DcOpenUrl u \<Rightarrow> done (fst (open_external_url (cw_parse_url W) (ha_launch h) u), d))"

section \<open>Clicks, launch and runs\<close>

text \<open>The task of a Linux notification: a click counts while the notification is the one registered for its request.\<close>

definition takes_click :: "waiter \<Rightarrow> desktop \<Rightarrow> bool" where
  "takes_click w d \<longleftrightarrow> (case wt_identity w of
      None \<Rightarrow> True
    | Some i \<Rightarrow> nr_entries (dk_registry d) (notification_key (wt_server w) (wt_request w)) = Some i)"

definition clicked :: "nat \<Rightarrow> desktop \<Rightarrow> desktop" where
  "clicked n d =
     (if n < length (dk_waiters d)
      then let w = dk_waiters d ! n in
        if wt_identity w = None then d\<lparr>dk_activations := dk_activations d @ [(wt_server w, wt_request w)]\<rparr>
        else if takes_click w d then d\<lparr>dk_waiters := (dk_waiters d)[n := w\<lparr>wt_clicked := True\<rparr>]\<rparr>
        else d
      else d)"

definition waiter_ended :: "nat \<Rightarrow> desktop \<Rightarrow> desktop" where
  "waiter_ended n d =
     (if n < length (dk_waiters d)
      then let w = dk_waiters d ! n in
        (case wt_identity w of
           None \<Rightarrow> d
         | Some i \<Rightarrow>
             d\<lparr>dk_registry := remove_if_current (notification_key (wt_server w) (wt_request w)) i (dk_registry d),
               dk_waiters := take n (dk_waiters d) @ drop (Suc n) (dk_waiters d),
               dk_activations := dk_activations d @ (if wt_clicked w then [(wt_server w, wt_request w)] else [])\<rparr>)
      else d)"

definition handle_activation :: "client_world \<Rightarrow> desktop \<Rightarrow> desktop" where
  "handle_activation W d =
     (case dk_activations d of
        [] \<Rightarrow> d
      | (server, i) # rest \<Rightarrow>
          reporting ''open notification'' (run_client (open_request W server i)
            (d\<lparr>dk_activations := rest, dk_raised := dk_raised d + 1\<rparr>)))"

definition launch_task :: "client_world \<Rightarrow> desktop \<Rightarrow> desktop" where
  "launch_task W d =
     (let d = snd (run_client emit_state (snd (run_client emit_ready d))) in
      if cs_is_registered (re_state (rn_reducer (dk_runtime d)))
      then reporting ''connect sync'' (run_client (connect_sync W) (reporting ''refresh on launch'' (run_client (refresh W) d)))
      else d)"

datatype desktop_event =
    Launched | Invoked host_answer desktop_command | Forwarded host_answer | Clicked nat | WaiterEnded nat | ActivationHandled
  | Synchronised "connection list"

definition desktop_step :: "client_world \<Rightarrow> 'i desktop_ext \<Rightarrow> desktop_event \<Rightarrow> desktop \<Rightarrow> desktop" where
  "desktop_step W D e d = (case e of
      Launched \<Rightarrow> launch_task W d
    | Invoked h c \<Rightarrow> snd (invoke_command W D h c d)
    | Forwarded h \<Rightarrow> forward_message (cw_ext W) (dx_platform D) h d
    | Clicked n \<Rightarrow> clicked n d
    | WaiterEnded n \<Rightarrow> waiter_ended n d
    | ActivationHandled \<Rightarrow> handle_activation W d
    | Synchronised cs \<Rightarrow> snd (run_client (run_sync_task W cs) d))"

definition desktop_run :: "client_world \<Rightarrow> 'i desktop_ext \<Rightarrow> desktop_event list \<Rightarrow> desktop \<Rightarrow> desktop" where
  "desktop_run W D es d = fold (desktop_step W D) es d"

end
