(* ===== verification/Desktop_Facts.thy ===== *)
theory Desktop_Facts
  imports Desktop Client_Example
begin

text \<open>
  The desktop client's host: nothing but an answer of the window is sent as one, a toast is plain text, alerts follow the
  desktop's own preferences, only the newest notification of a card opens it, images are bounded, the badge is drawn
  within its disc, and a save of the preferences succeeds or changes nothing.
\<close>

section \<open>Answers come from the window\<close>

definition quietly :: "desktop \<Rightarrow> desktop \<Rightarrow> bool" where
  "quietly d d' \<longleftrightarrow> (\<exists>calls. rn_log (dk_runtime d') = rn_log (dk_runtime d) @ calls \<and> filter is_submission calls = [])"

lemma quietly_refl: "quietly d d"
  by (simp add: quietly_def)

lemma quietly_trans: "quietly a b \<Longrightarrow> quietly b c \<Longrightarrow> quietly a c"
  by (fastforce simp: quietly_def)

lemma quietly_runtime: "dk_runtime d' = dk_runtime d \<Longrightarrow> quietly d d'"
  by (simp add: quietly_def)

lemma quietly_client: "keeps (progresses quiet) m \<Longrightarrow> quietly d (snd (run_client m d))"
  using quiet_run [of m "dk_runtime d"] by (auto simp: quietly_def run_client_def split: prod.split)

lemma dk_runtime_reporting [simp]: "dk_runtime (reporting doing rd) = dk_runtime (snd rd)"
  by (auto simp: reporting_def send_to_window_def split: prod.split sum.split)

lemma quietly_reporting: "quietly d (snd rd) \<Longrightarrow> quietly d (reporting doing rd)"
  by (simp add: quietly_def)

lemma snd_given [simp]: "snd (given f rd) = snd rd"
  by (simp add: given_def)

lemma runtime_show [simp]: "dk_runtime (snd (notifier_show X platform h server q d)) = dk_runtime d"
  by (simp add: notifier_show_def show_notification_def show_windows_def show_linux_def registry_replace_def Let_def
      split: host_platform.split sum.split)

lemma runtime_remove [simp]: "dk_runtime (snd (remove_notification platform h server i d)) = dk_runtime d"
  by (simp add: remove_notification_def Let_def split: host_platform.split option.split)

lemma runtime_badge [simp]: "dk_runtime (snd (update_badge platform h s d)) = dk_runtime d"
  by (simp add: update_badge_def split: option.split)

lemma runtime_forward: "dk_runtime (forward_message X platform h d) = dk_runtime d"
  by (simp add: forward_message_def side_effects_def send_to_window_def Let_def split: client_message.split)

lemma runtime_waits [simp]:
  "dk_runtime (clicked n d) = dk_runtime d" "dk_runtime (waiter_ended n d) = dk_runtime d"
  by (simp_all add: clicked_def waiter_ended_def Let_def split: option.split)

lemma quietly_activation:
  assumes "meanwhile_ok W"
  shows "quietly d (handle_activation W d)"
proof (cases "dk_activations d")
  case (Cons a rest)
  let ?d = "d\<lparr>dk_activations := rest, dk_raised := dk_raised d + 1\<rparr>"
  have "quietly ?d (snd (run_client (open_request W (fst a) (snd a)) ?d))"
    by (intro quietly_client progresses_open_request quiet_world assms)
  then show ?thesis using Cons by (cases a) (simp add: handle_activation_def quietly_def)
qed (simp add: handle_activation_def quietly_refl)

lemma quietly_launch: "meanwhile_ok W \<Longrightarrow> quietly d (launch_task W d)"
  unfolding launch_task_def emit_ready_def Let_def
  by (auto intro!: quietly_reporting quietly_trans [OF _ quietly_client] quietly_refl keeps_ops evo.keeps_rules quiet_world)

lemma quietly_enroll: "meanwhile_ok W \<Longrightarrow> quietly d (snd (enroll_command W p d))"
proof -
  assume ok: "meanwhile_ok W"
  obtain r d1 where e: "run_client (enroll W p) d = (r, d1)" by fastforce
  have 1: "quietly d d1"
    using quietly_client [of "enroll W p" d] e by (simp add: progresses_enroll quiet_world ok)
  have "quietly d1 (snd (run_client client_state_now (reporting ''Registered; could not start sync'' (run_client (connect_sync W) d1))))"
    by (intro quietly_trans [OF quietly_reporting quietly_client] quietly_client keeps_ops quiet_world ok)
  with 1 have "quietly d (snd (run_client client_state_now (reporting ''Registered; could not start sync'' (run_client (connect_sync W) d1))))"
    by (rule quietly_trans)
  with e 1 show ?thesis by (auto simp: enroll_command_def split: sum.split)
qed

definition answers_of :: "desktop_event \<Rightarrow> submit_params list" where
  "answers_of e = (case e of
      Invoked _ (DcSubmitOption o1) \<Rightarrow> [o1]
    | Invoked _ (DcSubmitRequestOption _ o1) \<Rightarrow> [o1]
    | _ \<Rightarrow> [])"

lemma quietly_command:
  assumes ok: "meanwhile_ok W" and other: "answers_of (Invoked h c) = []"
  shows "quietly d (snd (invoke_command W D h c d))"
proof -
  have "quietly d (d\<lparr>dk_preferences := p, dk_files := fs\<rparr>)" "quietly d (snd (notifier_show X platform h s q d))" for p fs X platform s q
    by (simp_all add: quietly_runtime)
  with other show ?thesis
    by (cases c) (simp_all add: invoke_command_def Let_def answers_of_def save_command_def test_notification_def quietly_enroll [OF ok]
        quietly_client keeps_ops quiet_world ok quietly_refl split: prod.split)
qed

lemma answer_command:
  assumes ok: "meanwhile_ok W" and "answers_of (Invoked h c) = [o1]"
  shows "\<exists>calls. rn_log (dk_runtime (snd (invoke_command W D h c d))) = rn_log (dk_runtime d) @ calls \<and>
    (filter is_submission calls = [] \<or>
     (\<exists>a b n. filter is_submission calls = [(a, SubmitOption b, n)] \<and> n \<le> 1 \<and> answers_as_shown (cw_ext W) o1 b))"
proof -
  from assms(2) consider "c = DcSubmitOption o1" | s where "c = DcSubmitRequestOption s o1"
    by (cases c) (auto simp: answers_of_def)
  then show ?thesis
  proof cases
    case 1
    obtain r st' where run: "submit_option W o1 (dk_runtime d) = (r, st')" by fastforce
    then have "rn_log st' = rn_log (dk_runtime d) \<or> (\<exists>server. submit_request_option W server o1 (dk_runtime d) = (r, st'))"
      by (auto simp: submit_option_def selected_server_profile_def bind_op_def read_op_def lift_op_def split: prod.splits sum.splits)
    with submit_calls [OF ok] run 1 show ?thesis by (auto simp: invoke_command_def Let_def run_client_def)
  next
    case 2
    obtain r st' where "submit_request_option W s o1 (dk_runtime d) = (r, st')" by fastforce
    with submit_calls [OF ok this] 2 show ?thesis by (auto simp: invoke_command_def Let_def run_client_def)
  qed
qed

definition answered :: "ext \<Rightarrow> nod_api \<times> api_call \<times> nat \<Rightarrow> submit_params \<Rightarrow> bool" where
  "answered X e o1 \<longleftrightarrow> (\<exists>a b n. e = (a, SubmitOption b, n) \<and> n \<le> 1 \<and> answers_as_shown X o1 b)"

lemma step_answers:
  assumes ok: "meanwhile_ok W"
  shows "\<exists>calls chosen. rn_log (dk_runtime (desktop_step W D e d)) = rn_log (dk_runtime d) @ calls \<and>
    subseq chosen (answers_of e) \<and> list_all2 (answered (cw_ext W)) (filter is_submission calls) chosen"
proof (cases "answers_of e")
  case Nil
  have "quietly d (desktop_step W D e d)"
    using Nil by (cases e) (simp_all add: desktop_step_def quietly_launch quietly_activation runtime_forward ok quietly_command
      quietly_runtime quietly_client progresses_sync_task quiet_world)
  then show ?thesis by (fastforce simp: quietly_def)
next
  case (Cons o1 os)
  then obtain h c where e: "e = Invoked h c" by (cases e) (auto simp: answers_of_def)
  with Cons have "answers_of (Invoked h c) = [o1]" by (auto simp: answers_of_def split: desktop_command.splits)
  from answer_command [OF ok this, of D d] obtain calls where
    calls: "rn_log (dk_runtime (desktop_step W D e d)) = rn_log (dk_runtime d) @ calls"
      "filter is_submission calls = [] \<or>
     (\<exists>a b n. filter is_submission calls = [(a, SubmitOption b, n)] \<and> n \<le> 1 \<and> answers_as_shown (cw_ext W) o1 b)"
    by (auto simp: desktop_step_def e)
  from calls(2) show ?thesis
  proof
    assume "filter is_submission calls = []"
    with calls(1) show ?thesis by fastforce
  next
    assume "\<exists>a b n. filter is_submission calls = [(a, SubmitOption b, n)] \<and> n \<le> 1 \<and> answers_as_shown (cw_ext W) o1 b"
    then have "list_all2 (answered (cw_ext W)) (filter is_submission calls) [o1]" by (auto simp: answered_def)
    with calls(1) Cons show ?thesis by (intro exI [of _ calls] exI [of _ "[o1]"]) auto
  qed
qed

text \<open>
  C13 (safety). Only the window answers. In any run of the desktop host, with launches, messages, clicks on notifications,
  synchronisation and commands in any order, the answers that leave the client process are those of answer commands of the window,
  in their order: each command sends at most one, once, for the card, option, text and value of the command and the digest the window showed.
\<close>

theorem only_the_window_answers:
  assumes "meanwhile_ok W"
  shows "\<exists>calls chosen. rn_log (dk_runtime (desktop_run W D es d)) = rn_log (dk_runtime d) @ calls \<and>
    subseq chosen (concat (map answers_of es)) \<and> list_all2 (answered (cw_ext W)) (filter is_submission calls) chosen"
proof (induction es arbitrary: d)
  case Nil
  show ?case by (auto simp: desktop_run_def)
next
  case (Cons e es)
  let ?d = "desktop_step W D e d"
  from step_answers [OF assms, of D e d] obtain calls chosen where
    1: "rn_log (dk_runtime ?d) = rn_log (dk_runtime d) @ calls" "subseq chosen (answers_of e)"
      "list_all2 (answered (cw_ext W)) (filter is_submission calls) chosen" by blast
  from Cons.IH [of ?d] obtain calls' chosen' where
    2: "rn_log (dk_runtime (desktop_run W D es ?d)) = rn_log (dk_runtime ?d) @ calls'"
      "subseq chosen' (concat (map answers_of es))"
      "list_all2 (answered (cw_ext W)) (filter is_submission calls') chosen'" by blast
  show ?case
    by (intro exI [of _ "calls @ calls'"] exI [of _ "chosen @ chosen'"])
      (use 1 2 in \<open>simp add: desktop_run_def list_emb_append_mono list_all2_appendI\<close>)
qed

section \<open>What a toast says\<close>

definition xml_entity :: "nat \<Rightarrow> rstr" where
  "xml_entity c = (if c = of_char CHR ''&'' then lit ''&amp;'' else if c = of_char CHR ''\"'' then lit ''&quot;''
     else if c = of_char CHR ''<'' then lit ''&lt;'' else if c = of_char CHR ''>'' then lit ''&gt;'' else [c])"

lemma xml_escape_entities: "xml_escape s = concat (map xml_entity s)"
  by (induction s) (auto simp: xml_escape_def xml_entity_def replace_char_def lit_def)

text \<open>How the text of an XML element is read: references, and no markup.\<close>

definition xml_reference :: "rstr \<Rightarrow> (nat \<times> nat) option" where
  "xml_reference s = (if take 4 s = lit ''amp;'' then Some (of_char CHR ''&'', 4)
     else if take 5 s = lit ''quot;'' then Some (of_char CHR ''\"'', 5)
     else if take 3 s = lit ''lt;'' then Some (of_char CHR ''<'', 3)
     else if take 3 s = lit ''gt;'' then Some (of_char CHR ''>'', 3) else None)"

function xml_text :: "rstr \<Rightarrow> rstr option" where
  "xml_text [] = Some []"
| "xml_text (c # s) = (if c = of_char CHR ''<'' then None
     else if c = of_char CHR ''&''
     then (case xml_reference s of None \<Rightarrow> None | Some (x, n) \<Rightarrow> map_option (Cons x) (xml_text (drop n s)))
     else map_option (Cons c) (xml_text s))"
  by pat_completeness auto
termination by (relation "measure length") auto

lemma xml_text_entity: "xml_text (xml_entity c @ s) = map_option (Cons c) (xml_text s)"
  by (auto simp: xml_entity_def lit_def xml_reference_def)

lemma xml_text_escape: "xml_text (xml_escape s) = Some s"
  by (induction s) (simp_all add: xml_escape_entities xml_text_entity)

lemma no_markup: "{of_char CHR ''<'', of_char CHR ''>'', of_char CHR ''\"''} \<inter> set (xml_escape s) = {}"
  by (auto simp: xml_escape_entities xml_entity_def lit_def split: if_splits)

text \<open>
  A toast is plain text. Between the fixed tags of a Windows toast stand exactly the title and the body of the card's preview: they
  hold no markup, and read as XML text they are the preview. A card cannot add an action or a tag.
\<close>

theorem toast_is_plain_text:
  "\<exists>title body. windows_toast_xml q sound = lit ''<toast launch=\"open\"><visual><binding template=\"ToastGeneric\"><text>'' @ title @
      lit ''</text><text>'' @ body @ lit ''</text></binding></visual>'' @ (if is_silent sound then lit ''<audio silent=\"true\"/>'' else []) @
      lit ''</toast>'' \<and>
    {of_char CHR ''<'', of_char CHR ''>'', of_char CHR ''\"''} \<inter> set (title @ body) = {} \<and>
    xml_text title = Some (np_title (notification_preview_of q)) \<and> xml_text body = Some (np_body (notification_preview_of q))"
  using no_markup [of "np_title (notification_preview_of q)"] no_markup [of "np_body (notification_preview_of q)"]
  by (intro exI [of _ "xml_escape (np_title (notification_preview_of q))"] exI [of _ "xml_escape (np_body (notification_preview_of q))"])
    (auto simp: windows_toast_xml_def Let_def xml_text_escape)

section \<open>Preferences\<close>

text \<open>The quiet hours go round the clock: an hour is quiet when it is nearer after the start than the end is.\<close>

lemma word_hour_less [simp]: "unat h < 24 \<longleftrightarrow> \<not> h > (23 :: 8 word)"
  by (simp add: word_less_nat_alt not_less) linarith

theorem quiet_hours_go_round:
  assumes "validate_preferences p = Inr ()" and "pf_quiet_start p = Some s" and "pf_quiet_end p = Some e"
    and "unat hour < 24" and "case pf_snoozed_until p of None \<Rightarrow> True | Some t \<Rightarrow> t \<le> now" and "channel \<notin> set (pf_muted p)"
  shows "notifications_paused p channel now hour \<longleftrightarrow>
    (unat hour + 24 - unat s) mod 24 < (unat e + 24 - unat s) mod 24"
proof -
  have le: "unat s < 24" "unat e < 24"
    using assms(1-3) by (simp_all add: validate_preferences_def Let_def split: if_splits)
  have paused: "notifications_paused p channel now hour \<longleftrightarrow>
      (if unat s < unat e then unat s \<le> unat hour \<and> unat hour < unat e
       else if unat e < unat s then unat s \<le> unat hour \<or> unat hour < unat e else False)"
    using assms(2,3,5,6)
    by (auto simp: notifications_paused_def list_ex_iff word_less_nat_alt word_le_nat_alt not_less split: option.splits)
  define a b h where "a = unat s" "b = unat e" "h = unat hour"
  from le assms(4) have *: "a < 24" "b < 24" "h < 24" by (simp_all add: a_b_h_def del: word_hour_less)
  have m: "(x + 24 - a) mod 24 = (if a \<le> x then x - a else x + 24 - a)" if "x < 24" for x
    using that *(1) by (simp add: mod_if)
  show ?thesis
    unfolding paused a_b_h_def [symmetric] m [OF *(2)] m [OF *(3)] using * by auto
qed

text \<open>
  A save of the preferences succeeds, and the next start reads what was saved, or fails at any step and leaves the
  preferences in force and on disk.
\<close>

theorem preferences_saved_or_kept:
  assumes codec: "\<forall>p. pc_parse C (pc_print C p) = Some p"
    and run: "save_preferences C fault new (old, fs) = (r, value, fs')"
  shows "(r = Inr new \<and> value = new \<and> open_preferences C None io fs' = Inr new \<and> validate_preferences new = Inr ()) \<or>
    (\<exists>e. r = Inl e \<and> value = old \<and> open_preferences C None io fs' = open_preferences C None io fs)"
  using run codec
  by (auto simp: save_preferences_def open_preferences_def Let_def split: sum.splits preference_fault.splits)

section \<open>Images\<close>

lemma read_image_bound: "read_image got chunks = Inr bytes \<Longrightarrow> length got \<le> MAX_IMAGE_BYTES \<Longrightarrow> length bytes \<le> MAX_IMAGE_BYTES"
  by (induction got chunks rule: read_image.induct) (auto simp: MAX_IMAGE_BYTES_def split: if_splits)

lemma web_url_Inr: "web_url parse value = Inr u \<longleftrightarrow> parse value = Some u \<and> (ur_scheme u = lit ''http'' \<or> ur_scheme u = lit ''https'') \<and>
    ur_host u \<noteq> None \<and> ur_username u = [] \<and> ur_password u = None"
  by (auto simp: web_url_def bind_res_Inr_iff ok_or_Inr_iff)

lemma image_preview_Inr:
  assumes "image_preview X I bytes = Inr text"
  shows "\<exists>image png. ix_decode I 4096 4096 67108864 bytes = Inr image \<and>
     ix_png I (ix_thumbnail I 1600 1600 image) = Inr png \<and> length png \<le> MAX_IMAGE_BYTES \<and>
     text = lit ''data:image/png;base64,'' @ x_b64_encode X png"
proof -
  have size: "64 * 1024 * 1024 = (67108864 :: nat)" by simp
  from assms show ?thesis
    unfolding image_preview_def size
    by (cases "ix_format I bytes"; cases "ix_decode I 4096 4096 67108864 bytes")
      (auto simp: bind_res_Inr_iff not_less split: if_splits)
qed

lemma fetched_image:
  assumes "fetch_image X parse I busy value = (r, asked)"
  shows "asked \<noteq> None \<Longrightarrow> busy < 4 \<and> web_url parse value = Inr (the asked)"
    and "r = Inr text \<Longrightarrow> \<exists>u response bytes. asked = Some u \<and> ix_send I u = Inr response \<and>
      \<not> (300 \<le> ig_status response \<and> ig_status response < 600) \<and> length bytes \<le> MAX_IMAGE_BYTES \<and> image_preview X I bytes = Inr text"
proof -
  show "asked \<noteq> None \<Longrightarrow> busy < 4 \<and> web_url parse value = Inr (the asked)"
    using assms by (auto simp: fetch_image_def split: if_splits sum.splits)
  assume r: "r = Inr text"
  from assms r obtain u where u: "web_url parse value = Inr u" "asked = Some u"
    by (auto simp: fetch_image_def split: if_splits sum.splits)
  with assms r obtain response bytes where response: "ix_send I u = Inr response"
    "\<not> (300 \<le> ig_status response \<and> ig_status response < 600)"
    and bytes: "read_image [] (ig_chunks response) = Inr bytes" "image_preview X I bytes = Inr text"
    by (auto simp: fetch_image_def bind_res_Inr_iff split: if_splits)
  from read_image_bound [OF bytes(1)] have "length bytes \<le> MAX_IMAGE_BYTES" by simp
  with u(2) response bytes(2) show "\<exists>u response bytes. asked = Some u \<and> ix_send I u = Inr response \<and>
      \<not> (300 \<le> ig_status response \<and> ig_status response < 600) \<and> length bytes \<le> MAX_IMAGE_BYTES \<and> image_preview X I bytes = Inr text"
    by blast
qed

text \<open>
  Images of a card. A server is asked for an image only when the user allows it, at an HTTP or HTTPS address without credentials and
  with a free slot; what the window gets is the PNG, within the limit, of a picture decoded within its limits from at most 8 MB.
\<close>

theorem images_are_bounded_previews:
  assumes "request_image X parse I p busy value = (r, asked)"
  shows "(asked \<noteq> None \<longrightarrow> pf_load_images p \<and> busy < 4 \<and> (\<exists>u. asked = Some u \<and> parse value = Some u \<and>
      (ur_scheme u = lit ''http'' \<or> ur_scheme u = lit ''https'') \<and> ur_username u = [] \<and> ur_password u = None)) \<and>
    (\<forall>text. r = Inr text \<longrightarrow> (\<exists>u response bytes image png. asked = Some u \<and> ix_send I u = Inr response \<and>
       \<not> (300 \<le> ig_status response \<and> ig_status response < 600) \<and>
       length bytes \<le> MAX_IMAGE_BYTES \<and> ix_decode I 4096 4096 67108864 bytes = Inr image \<and>
       ix_png I (ix_thumbnail I 1600 1600 image) = Inr png \<and> length png \<le> MAX_IMAGE_BYTES \<and>
       text = lit ''data:image/png;base64,'' @ x_b64_encode X png))"
proof (cases "pf_load_images p")
  case True
  then have run: "fetch_image X parse I busy value = (r, asked)" using assms by (simp add: request_image_def)
  have sent: "asked \<noteq> None \<longrightarrow> pf_load_images p \<and> busy < 4 \<and> (\<exists>u. asked = Some u \<and> parse value = Some u \<and>
      (ur_scheme u = lit ''http'' \<or> ur_scheme u = lit ''https'') \<and> ur_username u = [] \<and> ur_password u = None)"
    using fetched_image(1) [OF run] True unfolding web_url_Inr by fastforce
  have "\<exists>u response bytes image png. asked = Some u \<and> ix_send I u = Inr response \<and>
       \<not> (300 \<le> ig_status response \<and> ig_status response < 600) \<and>
       length bytes \<le> MAX_IMAGE_BYTES \<and> ix_decode I 4096 4096 67108864 bytes = Inr image \<and>
       ix_png I (ix_thumbnail I 1600 1600 image) = Inr png \<and> length png \<le> MAX_IMAGE_BYTES \<and>
       t = lit ''data:image/png;base64,'' @ x_b64_encode X png" if r: "r = Inr t" for t
    using fetched_image(2) [OF run r] image_preview_Inr [of X I _ t] by metis
  with sent show ?thesis by blast
qed (use assms in \<open>auto simp: request_image_def\<close>)

section \<open>The badge\<close>

lemma length_put_pixel: "put_pixel x y color rgba = Some rgba' \<Longrightarrow> length color = 4 \<Longrightarrow> length rgba' = length rgba"
  by (auto simp: put_pixel_def Let_def split: if_splits)

lemma put_pixel_ok: "x < 32 \<Longrightarrow> y < 32 \<Longrightarrow> length rgba = 4096 \<Longrightarrow> put_pixel x y color rgba \<noteq> None"
  by (simp add: put_pixel_def Let_def BADGE_SIZE_def)

lemma put_pixels_ok:
  "list_all (\<lambda>(x, y). x < 32 \<and> y < 32) ps \<Longrightarrow> length rgba = 4096 \<Longrightarrow> length color = 4 \<Longrightarrow>
     \<exists>rgba'. put_pixels ps color rgba = Some rgba' \<and> length rgba' = 4096"
proof (induction ps arbitrary: rgba)
  case (Cons p ps)
  obtain x y where p: "p = (x, y)" by fastforce
  with Cons.prems put_pixel_ok obtain rgba1 where "put_pixel x y color rgba = Some rgba1" by fastforce
  with Cons.IH [of rgba1] Cons.prems p length_put_pixel show ?case by fastforce
qed simp

lemma labels: "label_for n \<in> set (lit ''9+'' # map (\<lambda>d. [48 + d]) [0..<10])"
proof (cases "n > 9")
  case False
  then have "n \<in> set [0..<10]" by simp
  then have "[48 + n] \<in> set (map (\<lambda>d. [48 + d]) [0..<10])" unfolding set_map by (rule imageI)
  with False show ?thesis by (simp add: label_for_def show_nat.simps)
qed (simp add: label_for_def)

definition label_fits :: "rstr \<Rightarrow> bool" where
  "label_fits l = (case drawn_label l of None \<Rightarrow> False
    | Some ps \<Rightarrow> list_all (\<lambda>(x, y). x < 32 \<and> y < 32 \<and> in_circle x y) ps)"

lemma labels_fit: "list_all label_fits (lit ''9+'' # map (\<lambda>d. [48 + d]) [0..<10])"
  by code_simp

lemma label_fits: "\<exists>ps. drawn_label (label_for n) = Some ps \<and> list_all (\<lambda>(x, y). x < 32 \<and> y < 32 \<and> in_circle x y) ps"
proof -
  have "label_fits (label_for n)" using labels_fit labels [of n] unfolding list_all_iff by (rule bspec)
  then show ?thesis by (simp add: label_fits_def split: option.splits)
qed

lemma slice_before: "p + 4 \<le> k \<Longrightarrow> k \<le> length r \<Longrightarrow> take 4 (drop p (take k r)) = take 4 (drop p r)"
  by (auto simp: drop_take min_def)

lemma slice_at: "k \<le> length r \<Longrightarrow> length c = 4 \<Longrightarrow> take 4 (drop k (take k r @ c @ z)) = c"
  by simp

lemma slice_after: "k + 4 \<le> p \<Longrightarrow> k + 4 \<le> length r \<Longrightarrow> length c = 4 \<Longrightarrow>
    take 4 (drop p (take k r @ c @ drop (k + 4) r)) = take 4 (drop p r)"
  by simp

text \<open>The picture: the pixels of the label, else the disc, else transparent.\<close>

definition pixel_of :: "byte list \<Rightarrow> nat \<Rightarrow> nat \<Rightarrow> byte list" where
  "pixel_of rgba x y = take 4 (drop ((y * 32 + x) * 4) rgba)"

lemma pixel_put:
  assumes "put_pixel x y color rgba = Some rgba'" "length color = 4" "length rgba = 4096" "x < 32" "x' < 32" "y' < 32"
  shows "pixel_of rgba' x' y' = (if x' = x \<and> y' = y then color else pixel_of rgba x' y')"
proof -
  define k p where "k = (y * 32 + x) * 4" and "p = (y' * 32 + x') * 4"
  from assms have r: "rgba' = take k rgba @ color @ drop (k + 4) rgba" "k + 4 \<le> length rgba"
    by (auto simp: put_pixel_def Let_def BADGE_SIZE_def k_def split: if_splits)
  have "x' = x \<and> y' = y \<and> p = k \<or> \<not> (x' = x \<and> y' = y) \<and> (p + 4 \<le> k \<or> k + 4 \<le> p)" unfolding k_def p_def
    by (cases y y' rule: linorder_cases; cases x x' rule: linorder_cases) (use assms(4,5) in simp_all)
  then show ?thesis
    unfolding pixel_of_def k_def [symmetric] p_def [symmetric] r(1)
    by (elim disjE conjE) (use r(2) assms(2) in \<open>auto simp: slice_before slice_at slice_after\<close>)
qed

lemma pixels_put:
  "put_pixels ps color rgba = Some rgba' \<Longrightarrow> length color = 4 \<Longrightarrow> length rgba = 4096 \<Longrightarrow>
     list_all (\<lambda>(x, y). x < 32 \<and> y < 32) ps \<Longrightarrow> x' < 32 \<Longrightarrow> y' < 32 \<Longrightarrow>
     pixel_of rgba' x' y' = (if (x', y') \<in> set ps then color else pixel_of rgba x' y')"
proof (induction ps arbitrary: rgba)
  case (Cons p ps)
  obtain x y where p: "p = (x, y)" by fastforce
  with Cons.prems obtain rgba1 where 1: "put_pixel x y color rgba = Some rgba1" "put_pixels ps color rgba1 = Some rgba'"
    by (auto simp: bind_eq_Some_conv)
  from Cons.IH [OF 1(2)] length_put_pixel [OF 1(1)] pixel_put [OF 1(1)] Cons.prems p show ?case by auto
qed simp

text \<open>
  The badge is drawn for every count without a panic: the pixels of the label are white and within the disc, the rest of the disc is red,
  and what is outside is transparent.
\<close>

theorem badge_shows_the_count:
  "\<exists>rgba ps. pending_overlay n = Some rgba \<and> length rgba = 4096 \<and> drawn_label (label_for n) = Some ps \<and>
    (\<forall>x < 32. \<forall>y < 32. pixel_of rgba x y =
      (if (x, y) \<in> set ps then BADGE_TEXT else if in_circle x y then BADGE_COLOR else [0, 0, 0, 0])) \<and>
    (\<forall>(x, y) \<in> set ps. in_circle x y)"
proof -
  from label_fits [of n] obtain ps where ps: "drawn_label (label_for n) = Some ps"
    "list_all (\<lambda>(x, y). x < 32 \<and> y < 32 \<and> in_circle x y) ps" by blast
  let ?blank = "replicate 4096 0 :: nat list"
  have circle: "list_all (\<lambda>(x, y). x < 32 \<and> y < 32) circle_pixels"
    by (auto simp: circle_pixels_def list_all_iff BADGE_SIZE_def)
  have in_circle: "(x, y) \<in> set circle_pixels \<longleftrightarrow> in_circle x y" if "x < 32" "y < 32" for x y
    using that by (auto simp: circle_pixels_def BADGE_SIZE_def)
  from put_pixels_ok [OF circle, of ?blank BADGE_COLOR] obtain disc where
    disc: "put_pixels circle_pixels BADGE_COLOR ?blank = Some disc" "length disc = 4096" by (auto simp: BADGE_COLOR_def)
  from ps(2) have inside: "list_all (\<lambda>(x, y). x < 32 \<and> y < 32) ps" by (auto simp: list_all_iff)
  from put_pixels_ok [OF inside disc(2), of BADGE_TEXT] obtain rgba where
    rgba: "put_pixels ps BADGE_TEXT disc = Some rgba" "length rgba = 4096" by (auto simp: BADGE_TEXT_def)
  have drawn: "pending_overlay n = Some rgba"
    using disc(1) rgba(1) ps(1) by (simp add: pending_overlay_def render_badge_def BADGE_SIZE_def)
  have "pixel_of rgba x y = (if (x, y) \<in> set ps then BADGE_TEXT else if in_circle x y then BADGE_COLOR else [0, 0, 0, 0])"
    if "x < 32" "y < 32" for x y
  proof -
    have "pixel_of ?blank x y = [0, 0, 0, 0]"
    proof -
      have "pixel_of ?blank x y = replicate 4 0"
        using that by (simp add: pixel_of_def min_def)
      then show ?thesis by (simp add: numeral_eq_Suc)
    qed
    with pixels_put [OF rgba(1) _ disc(2) inside that] pixels_put [OF disc(1) _ _ circle that] in_circle [OF that]
    show ?thesis by (simp add: BADGE_TEXT_def BADGE_COLOR_def)
  qed
  with drawn rgba(2) ps show ?thesis by (auto simp: list_all_iff)
qed

section \<open>Notifications\<close>

definition shows_card :: "ext \<Rightarrow> rstr \<Rightarrow> rstr \<Rightarrow> request \<Rightarrow> shown_notification \<Rightarrow> bool" where
  "shows_card X sound server q n \<longleftrightarrow> (case n of
      WindowsToast xml tag toasts \<Rightarrow>
        xml = windows_toast_xml q sound \<and> tag = notification_tag X (q_id q) \<and> toasts = notification_tag X server
    | LinuxNotification title body replaced silent \<Rightarrow>
        title = np_title (notification_preview_of q) \<and> body = np_body (notification_preview_of q) \<and> silent = is_silent sound)"

text \<open>Only these two events show a card: a candidate of the client process, and the window's test.\<close>

definition card_to_show :: "desktop_event \<Rightarrow> desktop \<Rightarrow> (host_answer \<times> rstr \<times> request) option" where
  "card_to_show e d = (case e of
      Forwarded h \<Rightarrow>
        if dk_forwarded d < length (rn_out (dk_runtime d))
        then (case rn_out (dk_runtime d) ! dk_forwarded d of NotificationCandidate server q \<Rightarrow> Some (h, server, q) | _ \<Rightarrow> None)
        else None
    | Invoked h DcTestNotification \<Rightarrow>
        Some (h, case cs_selected_server_id (re_state (rn_reducer (dk_runtime d))) of Some i \<Rightarrow> i | None \<Rightarrow> lit ''local'',
          test_request (ha_time h))
    | _ \<Rightarrow> None)"

definition shown_properly :: "ext \<Rightarrow> desktop \<Rightarrow> host_answer \<Rightarrow> rstr \<Rightarrow> request \<Rightarrow> shown_notification \<Rightarrow> bool" where
  "shown_properly X d h server q n \<longleftrightarrow>
     \<not> notifications_paused (dk_preferences d) (server @ lit '':'' @ q_channel_id q) (unix_time h) (ha_hour h) \<and>
     (if pf_hide_content (dk_preferences d)
      then \<exists>q'. q_id q' = q_id q \<and> shows_card X (dk_sound d) server q' n \<and>
        notification_preview_of q' = \<lparr>np_title = lit ''Nod'', np_body = open_nod_text, np_allow_image = False\<rparr>
      else shows_card X (dk_sound d) server q n)"

lemma hidden_desktop_preview:
  "pf_hide_content p \<Longrightarrow> notification_preview_of (desktop_content p q) =
     \<lparr>np_title = lit ''Nod'', np_body = open_nod_text, np_allow_image = False\<rparr>"
  by (simp add: notification_preview_of_def desktop_content_def nonblank_def Let_def open_nod_text_def lit_def
      trim_eqI is_whitespace_def)

lemma shown_by_notifier:
  "\<exists>shown. dk_shown (snd (notifier_show X platform h server q d)) = dk_shown d @ shown \<and>
     (\<forall>n \<in> set shown. shown_properly X d h server q n)"
proof (cases "notifications_paused (dk_preferences d) (server @ lit '':'' @ q_channel_id q) (unix_time h) (ha_hour h)")
  case True
  then show ?thesis by (simp add: notifier_show_def)
next
  case False
  let ?q = "desktop_content (dk_preferences d) q"
  have "\<exists>shown. dk_shown (snd (notifier_show X platform h server q d)) = dk_shown d @ shown \<and>
      (\<forall>n \<in> set shown. shows_card X (dk_sound d) server ?q n)"
    using False by (auto simp: notifier_show_def show_notification_def show_windows_def show_linux_def registry_replace_def
        shows_card_def Let_def split: host_platform.split sum.split)
  moreover have "shown_properly X d h server q n" if "shows_card X (dk_sound d) server ?q n" for n
  proof (cases "pf_hide_content (dk_preferences d)")
    case True
    have "q_id ?q = q_id q" by (simp add: desktop_content_def)
    with that hidden_desktop_preview [OF True, of q] True False show ?thesis unfolding shown_properly_def by auto
  next
    case hides: False
    with that False show ?thesis by (simp add: shown_properly_def desktop_content_def)
  qed
  ultimately show ?thesis by blast
qed

text \<open>What the client process does changes neither the notifications nor what waits for their clicks.\<close>

definition notices :: "desktop \<Rightarrow> shown_notification list \<times> waiter list \<times> notification_registry" where
  "notices d = (dk_shown d, dk_waiters d, dk_registry d)"

named_theorems notices_simps

lemma notices_run_client [notices_simps]: "notices (snd (run_client m d)) = notices d"
  by (simp add: run_client_def notices_def split: prod.split)

lemma notices_reporting [notices_simps]: "notices (reporting doing rd) = notices (snd rd)"
  by (auto simp: reporting_def send_to_window_def notices_def split: prod.split sum.split)

lemma notices_frame [notices_simps]:
  "notices (snd (update_badge platform h s d)) = notices d"
  "notices (send_to_window m d) = notices d"
  "notices (snd (save_command C h new d)) = notices d"
  "notices (d\<lparr>dk_sound := s\<^sub>1\<rparr>) = notices d" "notices (d\<lparr>dk_forwarded := n\<rparr>) = notices d"
  by (simp_all add: update_badge_def send_to_window_def save_command_def notices_def split: option.split prod.split)

lemma notices_activation [notices_simps]: "notices (handle_activation W d) = notices d"
  by (auto simp: handle_activation_def notices_simps notices_def [of "dk_raised_update f (dk_activations_update g d)" for f g]
      notices_def [of d] split: list.split)

lemma notices_launch [notices_simps]: "notices (launch_task W d) = notices d"
  by (simp add: launch_task_def Let_def notices_simps)

lemma notices_enroll [notices_simps]: "notices (snd (enroll_command W p d)) = notices d"
proof -
  obtain r d1 where e: "run_client (enroll W p) d = (r, d1)" by fastforce
  from notices_run_client [of "enroll W p" d] e show ?thesis by (cases r) (simp_all add: enroll_command_def notices_simps)
qed

lemma notices_command [notices_simps]: "c \<noteq> DcTestNotification \<Longrightarrow> notices (snd (invoke_command W D h c d)) = notices d"
  by (cases c) (simp_all add: invoke_command_def Let_def notices_simps)

lemma dk_shown_notices: "dk_shown d = fst (notices d)"
  by (simp add: notices_def)

lemma dk_shown_removed [simp]: "dk_shown (snd (remove_notification platform h server i d)) = dk_shown d"
  by (simp add: remove_notification_def Let_def split: host_platform.split option.split)

lemma dk_shown_waits [simp]: "dk_shown (clicked n d) = dk_shown d" "dk_shown (waiter_ended n d) = dk_shown d"
  by (simp_all add: clicked_def waiter_ended_def Let_def split: option.split)

lemma dk_shown_frame [simp]:
  "dk_shown (reporting doing rd) = dk_shown (snd rd)" "dk_shown (send_to_window m d) = dk_shown d"
  "dk_shown (snd (update_badge platform h s d)) = dk_shown d" "dk_shown (snd (run_client r d)) = dk_shown d"
  "dk_shown (handle_activation W d) = dk_shown d" "dk_shown (launch_task W d) = dk_shown d"
  by (simp_all add: dk_shown_notices notices_simps)

text \<open>
  Alerts of the desktop. A step shows a notification only of a candidate of the client process or of the window's test, when the channel
  is not muted, snoozed or in its quiet hours, and with hidden content nothing of the card but its identifier.
\<close>

theorem notifications_keep_quiet:
  "\<exists>shown. dk_shown (desktop_step W D e d) = dk_shown d @ shown \<and>
     (\<forall>n \<in> set shown. \<exists>h server q. card_to_show e d = Some (h, server, q) \<and> shown_properly (cw_ext W) d h server q n)"
proof (cases "card_to_show e d")
  case None
  have "dk_shown (snd (invoke_command W D h c d)) = dk_shown d" if "c \<noteq> DcTestNotification" for h c
    by (simp add: dk_shown_notices notices_command that)
  with None have "dk_shown (desktop_step W D e d) = dk_shown d"
    by (cases e) (auto simp: desktop_step_def card_to_show_def forward_message_def side_effects_def Let_def
        split: if_splits client_message.splits desktop_command.splits)
  then show ?thesis by simp
next
  case (Some a)
  obtain h server q where a: "a = (h, server, q)" by (cases a)
  from Some a consider
      "e = Forwarded h" "dk_forwarded d < length (rn_out (dk_runtime d))"
        "rn_out (dk_runtime d) ! dk_forwarded d = NotificationCandidate server q"
    | "e = Invoked h DcTestNotification"
        "server = (case cs_selected_server_id (re_state (rn_reducer (dk_runtime d))) of Some i \<Rightarrow> i | None \<Rightarrow> lit ''local'')"
        "q = test_request (ha_time h)"
    by (cases e) (auto simp: card_to_show_def split: if_splits client_message.splits desktop_command.splits)
  then show ?thesis
  proof cases
    case 1
    let ?d = "d\<lparr>dk_forwarded := dk_forwarded d + 1\<rparr>"
    from shown_by_notifier [of "cw_ext W" "dx_platform D" h server q ?d] 1 Some a show ?thesis
      by (auto simp: desktop_step_def forward_message_def side_effects_def shown_properly_def Let_def)
  next
    case 2
    with shown_by_notifier [of "cw_ext W" "dx_platform D" h server q d] Some a show ?thesis
      by (auto simp: desktop_step_def invoke_command_def test_notification_def Let_def)
  qed
qed

section \<open>Clicks on replaced notifications\<close>

text \<open>The tasks of Linux notifications have different identities, none newer than the registry's counter.\<close>

definition identities :: "waiter list \<Rightarrow> notification_identity list" where
  "identities ws = concat (map (\<lambda>x. case x of None \<Rightarrow> [] | Some i \<Rightarrow> [i]) (map wt_identity ws))"

definition waiters_ok :: "desktop \<Rightarrow> bool" where
  "waiters_ok d \<longleftrightarrow> distinct (identities (dk_waiters d)) \<and>
     (\<forall>i \<in> set (identities (dk_waiters d)). ni_generation i \<le> nr_next (dk_registry d))"

lemma identities_append [simp]: "identities (ws @ vs) = identities ws @ identities vs"
  by (simp add: identities_def)

lemma identities_one [simp]: "identities [w] = (case wt_identity w of None \<Rightarrow> [] | Some i \<Rightarrow> [i])" "identities [] = []"
  by (simp_all add: identities_def)

lemma identities_clicked: "n < length ws \<Longrightarrow> identities (ws[n := (ws ! n)\<lparr>wt_clicked := b\<rparr>]) = identities ws"
proof -
  assume n: "n < length ws"
  then have "map wt_identity (ws[n := (ws ! n)\<lparr>wt_clicked := b\<rparr>]) = map wt_identity ws"
    by (simp add: map_update list_update_same_conv)
  then show ?thesis by (simp only: identities_def)
qed

lemma waiters_ok_notices: "notices d' = notices d \<Longrightarrow> waiters_ok d \<Longrightarrow> waiters_ok d'"
  by (simp add: waiters_ok_def notices_def)

lemma waiters_ok_shown: "waiters_ok d \<Longrightarrow> waiters_ok (snd (notifier_show X platform h server q d))"
  by (fastforce simp: waiters_ok_def notifier_show_def show_notification_def show_windows_def show_linux_def registry_replace_def Let_def
      split: host_platform.split sum.split)

lemma waiters_ok_removed: "waiters_ok d \<Longrightarrow> waiters_ok (snd (remove_notification platform h server i d))"
  by (simp add: waiters_ok_def remove_notification_def remove_if_current_def Let_def split: host_platform.split option.split)

lemma waiters_ok_clicked: "waiters_ok d \<Longrightarrow> waiters_ok (clicked n d)"
  by (simp add: waiters_ok_def clicked_def identities_clicked Let_def)

lemma waiters_ok_ended: "waiters_ok d \<Longrightarrow> waiters_ok (waiter_ended n d)"
proof (cases "n < length (dk_waiters d)")
  case True
  assume ok: "waiters_ok d"
  from True have "dk_waiters d = take n (dk_waiters d) @ [dk_waiters d ! n] @ drop (Suc n) (dk_waiters d)"
    by (simp add: id_take_nth_drop)
  then have "identities (dk_waiters d) = identities (take n (dk_waiters d)) @ identities [dk_waiters d ! n] @
      identities (drop (Suc n) (dk_waiters d))" by (metis identities_append)
  with ok True show ?thesis
    by (auto simp: waiters_ok_def waiter_ended_def remove_if_current_def Let_def split: option.split)
qed (simp add: waiter_ended_def)

lemma waiters_ok_step:
  assumes "waiters_ok d"
  shows "waiters_ok (desktop_step W D e d)"
proof (cases e)
  case (Invoked h c)
  show ?thesis
  proof (cases "c = DcTestNotification")
    case True
    with assms Invoked show ?thesis
      by (auto simp: desktop_step_def invoke_command_def test_notification_def Let_def waiters_ok_shown)
  next
    case False
    from waiters_ok_notices [OF notices_command [OF False] assms] Invoked show ?thesis by (simp add: desktop_step_def)
  qed
next
  case (Forwarded h)
  let ?d = "d\<lparr>dk_forwarded := dk_forwarded d + 1\<rparr>"
  have report: "waiters_ok (send_to_window m (reporting doing rd)) \<longleftrightarrow> waiters_ok (snd rd)" for m doing and rd :: "(rstr + unit) \<times> desktop"
    using notices_reporting [of doing rd] by (auto simp: notices_simps intro: waiters_ok_notices [rotated] waiters_ok_notices [OF sym, rotated])
  have "waiters_ok ?d" by (rule waiters_ok_notices [OF _ assms]) (simp add: notices_def)
  moreover have "waiters_ok (snd (update_badge platform h s (?d\<lparr>dk_sound := s\<^sub>1\<rparr>)))" for platform s s\<^sub>1
    by (rule waiters_ok_notices [OF _ assms]) (simp only: notices_simps)
  moreover have "waiters_ok (send_to_window m ?d)" for m
    by (rule waiters_ok_notices [OF _ assms]) (simp only: notices_simps)
  ultimately show ?thesis using assms Forwarded
    by (auto simp: desktop_step_def forward_message_def side_effects_def Let_def report waiters_ok_shown waiters_ok_removed
        split: client_message.split)
qed (use assms in \<open>auto simp: desktop_step_def notices_simps waiters_ok_clicked waiters_ok_ended intro: waiters_ok_notices [rotated]\<close>)

lemma identities_unique:
  assumes "distinct (identities ws)" and "i < length ws" "j < length ws"
    and "wt_identity (ws ! i) = Some k" "wt_identity (ws ! j) = Some k"
  shows "i = j"
  using assms
proof (induction ws arbitrary: i j)
  case (Cons w ws)
  have mem: "k \<in> set (identities ws)" if "n < length ws" "wt_identity (ws ! n) = Some k" for n
    using that by (force simp: identities_def in_set_conv_nth)
  have split: "identities (w # ws) = (case wt_identity w of None \<Rightarrow> [] | Some i \<Rightarrow> [i]) @ identities ws"
    by (simp add: identities_def)
  with Cons.prems(1) have distinct: "distinct (identities ws)" by (auto split: option.splits)
  from Cons.prems split mem Cons.IH [OF distinct] show ?case
    by (cases i; cases j) (auto split: option.splits)
qed simp

text \<open>
  Of the Linux notifications shown for a card in a run, only one takes a click, also when the desktop reuses its number.
\<close>

theorem only_the_newest_opens:
  assumes "i < length (dk_waiters d)" "j < length (dk_waiters d)"
    and "d = desktop_run W D es (start_desktop rt p fs)"
    and "takes_click (dk_waiters d ! i) d" "takes_click (dk_waiters d ! j) d"
    and "wt_identity (dk_waiters d ! i) \<noteq> None" "wt_identity (dk_waiters d ! j) \<noteq> None"
    and "wt_server (dk_waiters d ! i) = wt_server (dk_waiters d ! j)" "wt_request (dk_waiters d ! i) = wt_request (dk_waiters d ! j)"
  shows "i = j"
proof -
  have "waiters_ok (start_desktop rt p fs)" by (simp add: waiters_ok_def start_desktop_def)
  then have "waiters_ok (desktop_run W D es (start_desktop rt p fs))"
    unfolding desktop_run_def by (rule fold_invariant [where Q = "\<lambda>_. True", rotated]) (simp_all add: waiters_ok_step)
  then have "distinct (identities (dk_waiters d))" by (simp add: waiters_ok_def assms(3))
  from identities_unique [OF this assms(1,2)] assms(4-9) show ?thesis by (auto simp: takes_click_def)
qed

section \<open>A concrete host\<close>

definition desktop_demo_ext :: "unit desktop_ext" where
  "desktop_demo_ext = \<lparr>dx_platform = LinuxHost,
     dx_codec = \<lparr>pc_parse = (\<lambda>_. None), pc_print = (\<lambda>_. [])\<rparr>,
     dx_image = \<lparr>ix_send = (\<lambda>_. Inl []), ix_format = (\<lambda>_. Inl []), ix_decode = (\<lambda>_ _ _ _. Inl []), ix_thumbnail = (\<lambda>_ _ i. i),
       ix_png = (\<lambda>_. Inl [])\<rparr>\<rparr>"

definition desktop_demo_answer :: "host_answer" where
  "desktop_demo_answer = \<lparr>ha_time = 0, ha_hour = 0, ha_show = Inr 1, ha_remove = None, ha_window = True, ha_badge = None, ha_busy = 0,
     ha_launch = (\<lambda>_. Inr ()), ha_autostart = Inr False, ha_set_autostart = (\<lambda>_. Inr ()), ha_fault = PreferencesKept\<rparr>"

definition desktop_demo :: desktop where
  "desktop_demo = start_desktop client_demo_runtime default_desktop_preferences \<lparr>pd_main = Absent, pd_temporary = Absent\<rparr>"

text \<open>The test notification is clicked; then the user answers in the window, and that is all that is sent.\<close>

definition desktop_demo_events :: "desktop_event list" where
  "desktop_demo_events = [Invoked desktop_demo_answer DcTestNotification, Clicked 0,
     Invoked desktop_demo_answer (DcSubmitOption client_demo_answer)]"

theorem only_the_window_answers_witness:
  "\<exists>c. filter is_submission (rn_log (dk_runtime (desktop_run client_demo_world desktop_demo_ext desktop_demo_events desktop_demo))) = [c] \<and>
     answered (cw_ext client_demo_world) c client_demo_answer"
proof -
  let ?d = "desktop_run client_demo_world desktop_demo_ext desktop_demo_events desktop_demo"
  let ?d1 = "desktop_step client_demo_world desktop_demo_ext (Clicked 0)
    (desktop_step client_demo_world desktop_demo_ext (Invoked desktop_demo_answer DcTestNotification) desktop_demo)"
  have "dk_runtime ?d1 = client_demo_runtime"
    by (simp add: desktop_step_def invoke_command_def test_notification_def desktop_demo_def start_desktop_def Let_def)
  moreover obtain r st' where run: "submit_option client_demo_world client_demo_answer client_demo_runtime = (r, st')" by fastforce
  ultimately have log: "rn_log (dk_runtime ?d) = rn_log st'"
    by (simp add: desktop_run_def desktop_demo_events_def desktop_step_def [of _ _ "Invoked _ (DcSubmitOption _)"] invoke_command_def
        run_client_def Let_def)
  have start: "rn_log (dk_runtime desktop_demo) = []" by (simp add: desktop_demo_def start_desktop_def client_demo_runtime_def)
  from only_the_window_answers [OF client_demo_meanwhile_ok, of desktop_demo_ext desktop_demo_events desktop_demo] obtain chosen where
    chosen: "subseq chosen [client_demo_answer]"
      "list_all2 (answered (cw_ext client_demo_world)) (filter is_submission (rn_log (dk_runtime ?d))) chosen"
    by (auto simp: start desktop_demo_events_def answers_of_def)
  from client_demo_submits [OF run] log chosen(2) have "chosen \<noteq> []" by auto
  with chosen(1) have "chosen = [client_demo_answer]" by (cases chosen) (auto split: if_splits)
  with chosen(2) show ?thesis by (auto simp: list_all2_Cons2)
qed

end
