(* ===== verification/End_To_End.thy ===== *)
theory End_To_End
  imports Client_Signing_Facts Receipt_Facts Request_Facts
begin

text \<open>
  From the server's record to the issuer's proof: a decision the server accepted from a device verifies
  offline as a receipt. Together with \<open>client_signature_accepted\<close> (what a client signs is accepted) and
  \<open>receipt_unforgeable\<close> (what verifies was signed by the device) this closes the path of a decision.
\<close>

section \<open>The digests agree\<close>

lemma to_wire_line_snapshot: "line_snapshot X (to_wire X r) = line_snapshot X (wire_of r)"
  by (simp add: line_snapshot_def to_wire_def Let_def)

lemma read_version_known:
  assumes "get_request_on X s rid = Inr r"
  shows "\<exists>c. r_signing r = Some c \<and> sc_version c \<in> set known_versions"
proof -
  obtain c where "r_signing r = Some c" "context_digest X (to_wire X r) c" by (rule read_digest [OF assms])
  then show ?thesis by (auto simp: context_digest_def known_versions_def split: option.splits)
qed

lemma candidates_agree:
  assumes "get_request_on X s rid = Inr r" "submitted_candidates X r = Inr ds"
  shows "\<exists>cs. digest_candidates X (to_wire X r) = Inr cs \<and> set ds \<subseteq> fst ` set cs"
proof -
  from read_version_known [OF assms(1)] obtain c where c: "r_signing r = Some c" by blast
  from get_request_on_columns [OF assms(1)] have open_: "\<not> r_private_recipients r" by blast
  show ?thesis
  proof (cases "r_answer_field r")
    case None
    then have "q_request_digest (to_wire X r) = Some (sha256_hex X (utf8 (line_snapshot X (to_wire X r))))"
      using open_ unfolding to_wire_line_snapshot
      by (simp add: to_wire_def Let_def request_digest_legacy_line_snapshot_def res_ok_def)
    with assms(2) c None show ?thesis
      by (auto simp: submitted_candidates_def digest_candidates_def Let_def bind_res_Inr_iff
          request_digest_legacy_line_snapshot_def)
  next
    case (Some f)
    with assms(2) c show ?thesis
      by (auto simp: submitted_candidates_def digest_candidates_def Let_def bind_res_Inr_iff)
  qed
qed

lemma find_first: "h \<in> fst ` set cs \<Longrightarrow> \<exists>e. List.find (\<lambda>(d, _). d = h) cs = Some (h, e)"
  by (induction cs) auto

lemma accepted_digest_matches:
  assumes "get_request_on X s rid = Inr r" "submitted_candidates X r = Inr ds" "h \<in> set ds"
  shows "\<exists>e. match_request_digest X (to_wire X r) h = Inr (h, e)"
proof -
  obtain c where c: "r_signing r = Some c" "sc_version c \<in> set known_versions"
    using read_version_known [OF assms(1)] by blast
  obtain cs where cs: "digest_candidates X (to_wire X r) = Inr cs" "set ds \<subseteq> fst ` set cs"
    using candidates_agree [OF assms(1,2)] by blast
  with assms(3) obtain e where "List.find (\<lambda>(d, _). d = h) cs = Some (h, e)" using find_first [of h cs] by blast
  with c cs show ?thesis by (intro exI [of _ e]) (simp add: match_request_digest_def)
qed

lemma option_resolves:
  "find_option r oid = Some opt \<Longrightarrow> resolve_option (to_wire X r) oid = Inr opt \<and> o_id opt = oid"
  by (auto simp: find_option_def implicit_dismiss_option_def resolve_option_def dismiss_option_def
      dest!: find_SomeD split: option.splits if_splits)

lemma lenient_time: "\<exists>ws. time_check (ri\<lparr>ri_strict_time := False\<rparr>) t = Inr ws"
  by (simp add: time_check_def Let_def)

section \<open>The decision is stored\<close>

lemma stored_decision:
  assumes "get_request_on X s rid = Inr r" "r_status r = Pending"
    and "t_requests s1 = t_requests s"
    and "(\<exists>user. r_resolution r = PerUser \<and> u = Some user \<and> record_user_decision s1 rid user d t = Inr s2) \<or>
      r_resolution r = Shared \<and> record_shared_decision s1 rid d t = Inr s2"
    and "get_request_on X s2 rid = Inr resolved"
  shows "r_decision resolved = Some d \<or>
    (\<exists>user. u = Some user \<and> \<lparr>ud_user_id = user, ud_decision = d\<rparr> \<in> set (r_user_decisions resolved))"
proof -
  obtain w where w: "find_request s rid = Some w" "rq_status w = Pending"
    using get_request_on_columns [OF assms(1)] assms(2) by auto
  obtain v where v: "find_request s2 rid = Some v" "r_decision resolved = rq_decision v"
    "r_user_decisions resolved = decisions_of s2 rid"
    using get_request_on_columns [OF assms(5)] by auto
  from assms(4) show ?thesis
  proof
    assume "\<exists>user. r_resolution r = PerUser \<and> u = Some user \<and> record_user_decision s1 rid user d t = Inr s2"
    then obtain user where u: "u = Some user" "record_user_decision s1 rid user d t = Inr s2" by blast
    then have "\<lparr>rd_request_id = rid, rd_user_id = user, rd_decision = d, rd_resolved_at = t\<rparr> \<in> set (t_decisions s2)"
      by (auto simp: record_user_decision_def Let_def set_request_def split: if_splits)
    then have "\<lparr>ud_user_id = user, ud_decision = d\<rparr> \<in> set (decisions_of s2 rid)"
      by (force simp: decisions_of_def)
    with u v show ?thesis by auto
  next
    assume "r_resolution r = Shared \<and> record_shared_decision s1 rid d t = Inr s2"
    then have s2: "t_requests s2 = sql_update (pending_row rid) (\<lambda>w. w\<lparr>rq_status := Resolved, rq_decision := Some d,
        rq_resolved_at := Some t, rq_updated_at := t\<rparr>) (t_requests s1)"
      by (auto simp: record_shared_decision_def set_request_def split: if_splits)
    have "pending_row rid w" using find_request_id [OF w(1)] w(2) by (simp add: pending_row_def)
    with w(1) have "find_request s2 rid = Some (w\<lparr>rq_status := Resolved, rq_decision := Some d,
        rq_resolved_at := Some t, rq_updated_at := t\<rparr>)"
      unfolding find_request_def s2 assms(3) by (simp add: find_sql_update_key)
    with v show ?thesis by auto
  qed
qed

section \<open>An accepted decision is a receipt\<close>

lemma verified_signature_is_receipt:
  assumes "get_request_on X s rid = Inr r" and "find_option r (sub_option_id sub) = Some opt"
    and "check_value_submission X r sub = Inr ()" and "sub_request_id sub = rid"
    and "sub_device sub = Some dev" and "sub_user_id sub = Some (dv_user_id dev)"
    and "verified_decision_signature X s r opt (sub_device sub) (trimmed_text (sd_text (sub_decision sub)))
       (sd_signature (sub_decision sub)) (sd_answer_value (sub_decision sub)) = Inr (sg, s1)"
    and "dv_signing_key_id dev = Some kid"
    and "find_pinned_key keys (dv_user_id dev) (dv_id dev) kid = Inr pin"
    and "dv_signing_public_key dev = Some (pk_public_key pin)"
  shows "\<exists>v. verify_decision_receipt X \<lparr>ri_request = to_wire X r, ri_decision = new_decision sub opt sg at,
      ri_pinned_keys = keys, ri_now = now, ri_max_clock_skew = skew, ri_strict_time = False\<rparr> = Inr v \<and>
    vr_user_id v = dv_user_id dev \<and> vr_device_id v = dv_id dev \<and> vr_option_id v = sub_option_id sub"
proof -
  let ?d = "new_decision sub opt sg at"
  let ?ri = "\<lparr>ri_request = to_wire X r, ri_decision = ?d, ri_pinned_keys = keys, ri_now = now, ri_max_clock_skew = skew,
      ri_strict_time = False\<rparr>"
  let ?answer = "sd_answer_value (sub_decision sub)" and ?txt = "trimmed_text (sd_text (sub_decision sub))"
  from assms(5,7) obtain g digest payload where g: "sd_signature (sub_decision sub) = Some g"
    "verify_value_decision_signature X r opt dev ?txt g ?answer = Inr (digest, payload)"
    "sg = Some \<lparr>sr_payload_version = ds_payload_version g, sr_key_id = ds_key_id g,
             sr_algorithm = ds_algorithm g, sr_nonce = ds_nonce g, sr_signed_at = ds_signed_at g,
             sr_request_digest = digest, sr_signing_payload = payload, sr_signature = ds_signature g,
             sr_verified = True, sr_public_key = dv_signing_public_key dev\<rparr>"
    by (auto simp: verified_decision_signature_def res_simps ok_or_Inr_iff split: if_splits)
  from g(2) assms(8,10) obtain ds t where vs: "digest = ds_request_digest g" "ds_key_id g = kid"
    "ds_algorithm g = DECISION_SIGNING_ALGORITHM" "submitted_candidates X r = Inr ds" "digest \<in> set ds"
    "x_parse_rfc3339 X (ds_signed_at g) = Some t"
    "submitted_payload X r (decision_input X r opt dev ?txt g t) g ?answer = Inr payload"
    "verify_payload X (pk_public_key pin) (utf8 payload) (ds_signature g) = Inr ()"
    by (auto simp: verify_value_decision_signature_ok)
  obtain e where e: "match_request_digest X (to_wire X r) digest = Inr (digest, e)"
    using accepted_digest_matches [OF assms(1) vs(4,5)] by blast
  obtain ws where ws: "time_check ?ri t = Inr ws"
    using lenient_time [of ?ri t] by auto
  have rid: "r_id r = rid" using get_request_on_columns [OF assms(1)] by blast
  note opt = option_resolves [OF assms(2)]
  let ?sig = "the sg"
  have sig: "sg = Some ?sig" by (simp add: g(3))
  have input: "receipt_payload_input X ?d ?sig digest (dv_user_id dev) (dv_id dev) t = decision_input X r opt dev ?txt g t"
    by (simp add: receipt_payload_input_def new_decision_def decision_input_def g(3) vs(1) rid assms(4) opt)
  have "rebuilt_payload X (to_wire X r) ?d ?sig (decision_input X r opt dev ?txt g t) = Inr payload"
    using vs(7) by (auto simp: rebuilt_payload_def submitted_payload_def new_decision_def g(3) bind_res_Inr_iff
        split: option.splits if_splits)
  then have "receipt_facts X ?ri ?sig pin \<lparr>vr_request_id = rid, vr_user_id = dv_user_id dev, vr_device_id = dv_id dev,
      vr_key_id = kid, vr_option_id = sub_option_id sub, vr_option_kind = o_kind opt, vr_request_digest = digest,
      vr_digest_encoder = e, vr_signed_at = t, vr_warnings = ws\<rparr>"
    unfolding receipt_facts_def Let_def
    using e ws opt assms(4-6,9) vs rid input
    by (simp add: new_decision_def g(3)) (simp add: to_wire_def wire_of_def Let_def)
  then show ?thesis unfolding verify_decision_receipt_iff by fastforce
qed

text \<open>
  C14 (functional). Every decision the server accepts from a device is a receipt: the decision it stores for
  the request verifies offline against the card as the issuer reads it and any set of pinned keys that holds the
  device's registered key, and the verdict names the user, the device and the option submitted.
\<close>

theorem accepted_decision_verifies_offline:
  assumes "record_decision X s sub E = Inr (resolved, s')"
    and "sub_device sub = Some dev" and "sub_user_id sub = Some (dv_user_id dev)"
    and "dv_signing_key_id dev = Some kid" and "dv_signing_public_key dev = Some (pk_public_key pin)"
    and "find_pinned_key keys (dv_user_id dev) (dv_id dev) kid = Inr pin"
  shows "\<exists>r d v. get_request_on X s (sub_request_id sub) = Inr r \<and>
    (r_decision resolved = Some d \<or> \<lparr>ud_user_id = dv_user_id dev, ud_decision = d\<rparr> \<in> set (r_user_decisions resolved)) \<and>
    verify_decision_receipt X \<lparr>ri_request = to_wire X r, ri_decision = d, ri_pinned_keys = keys, ri_now = now,
      ri_max_clock_skew = skew, ri_strict_time = False\<rparr> = Inr v \<and>
    vr_user_id v = dv_user_id dev \<and> vr_device_id v = dv_id dev \<and> vr_option_id v = sub_option_id sub"
proof -
  obtain r opt sg s1 s2 where st: "get_request_on X s (sub_request_id sub) = Inr r" "check_value_submission X r sub = Inr ()"
    "find_option r (sub_option_id sub) = Some opt" "r_status r = Pending"
    "verified_decision_signature X s r opt (sub_device sub) (trimmed_text (sd_text (sub_decision sub)))
       (sd_signature (sub_decision sub)) (sd_answer_value (sub_decision sub)) = Inr (sg, s1)"
    "(\<exists>user. r_resolution r = PerUser \<and> sub_user_id sub = Some user \<and>
        record_user_decision s1 (sub_request_id sub) user (new_decision sub opt sg (e_now E 1)) (millis (e_now E 1)) = Inr s2) \<or>
     r_resolution r = Shared \<and>
        record_shared_decision s1 (sub_request_id sub) (new_decision sub opt sg (e_now E 1)) (millis (e_now E 1)) = Inr s2"
    "get_request_on X s2 (sub_request_id sub) = Inr resolved"
    by (rule record_decision_ok [OF assms(1)]) (rule that)
  have "t_requests s1 = t_requests s" using st(5) by (cases rule: nonce_step) simp_all
  from stored_decision [OF st(1,4) this st(6,7)] assms(3)
  have "r_decision resolved = Some (new_decision sub opt sg (e_now E 1)) \<or>
      \<lparr>ud_user_id = dv_user_id dev, ud_decision = new_decision sub opt sg (e_now E 1)\<rparr> \<in> set (r_user_decisions resolved)"
    by simp
  with st(1) verified_signature_is_receipt [OF st(1,3,2) refl assms(2,3) st(5) assms(4,6,5), where at = "e_now E 1"]
  show ?thesis by blast
qed

theorem accepted_decision_verifies_offline_witness:
  "\<exists>v. verify_decision_receipt demo_ext \<lparr>ri_request = to_wire demo_ext (demo_read demo_row), ri_decision = demo_decision,
      ri_pinned_keys = [\<lparr>pk_user_id = owner, pk_device_id = None, pk_key_id = [107], pk_public_key = demo_point\<rparr>],
      ri_now = 0, ri_max_clock_skew = None, ri_strict_time = False\<rparr> = Inr v \<and> vr_user_id v = owner"
proof -
  have pin: "find_pinned_key [\<lparr>pk_user_id = owner, pk_device_id = None, pk_key_id = [107], pk_public_key = demo_point\<rparr>]
      (dv_user_id demo_device) (dv_id demo_device) [107] =
      Inr \<lparr>pk_user_id = owner, pk_device_id = None, pk_key_id = [107], pk_public_key = demo_point\<rparr>"
    by (simp add: find_pinned_key_def)
  have dec: "r_decision (demo_read demo_resolved) = Some demo_decision" "r_user_decisions (demo_read demo_resolved) = []"
    by (simp_all add: demo_read_def demo_resolved_def unsigned_request_def)
  have get: "get_request_on demo_ext run3 [100, 97] = Inr (demo_read demo_row)" by (simp add: demo_get3)
  from accepted_decision_verifies_offline [OF run4_step _ _ _ _ pin, where now = 0 and skew = None] dec get
  show ?thesis by auto
qed

end
