(* ===== verification/Spec2Isabelle.thy ===== *)
theory Spec2Isabelle
  imports Verify Create_Facts Inbox_Facts Account_Facts Queue_Facts Auth_Facts Sync_Facts Integration_Facts
    Api_Facts Config Client_Views Tui_Example Apns_Facts Desktop_Facts End_To_End
begin

text \<open>
  A model of nod, a self-hosted service through which programs ask people to decide: an issuer creates a
  request, the devices of its recipients show it and submit a signed decision, and the issuer learns
  the outcome by polling, by a callback, from the journal, or from a receipt it can verify offline.

  \<^bold>\<open>Parts and theories.\<close>

  \<^item> The shared contract (src/nod-proto): \<open>Answer\<close> (answer.rs), \<open>Wire\<close> (request.rs, decision.rs, notification.rs,
    preferences.rs, preview.rs, attestation.rs), \<open>Signing\<close> (signing.rs, value_signing.rs) and \<open>Receipt\<close>
    (receipt.rs). \<open>Json\<close> is the JSON value type with the canonical text of value_signing.rs. \<open>Signing_Facts\<close> shows
    that every signed text and digest determines what it covers; \<open>Receipt_Facts\<close> that a receipt which
    verifies was signed by a pinned device for this card and this decision. \<open>Verify\<close> is the command line around it
    (src/tools/nod-verify), whose exit code 0 means the same of the files it was given.
  \<^item> The database of the server (src/server/nod-server/crates/nod-server/src/db, models, views.rs,
    signing.rs): \<open>Store\<close> has one record per table of schema.sql and the joined read of a request; \<open>Validation\<close>,
    \<open>Create\<close>, \<open>Decide\<close>, \<open>Maintain\<close>, \<open>Read\<close>, \<open>Lifecycle\<close>, \<open>Callback_Queue\<close>, \<open>Push_Queue\<close>, \<open>Accounts\<close> and \<open>Devices\<close> have
    one definition per function of the file of that name; \<open>Validation\<close> also has error.rs and \<open>Decide\<close> the acceptance of a
    signature (signing.rs).
  \<^item> The handlers and services above it: \<open>Auth\<close> (auth.rs), \<open>Integration\<close> (api/integration_events.rs), \<open>App\<close>
    (state.rs, sync.rs, push.rs), \<open>Api_Requests\<close>, \<open>Api_Devices\<close>, \<open>Api_Admin\<close> (api, services, admin.rs), \<open>Sync_Socket\<close>
    (api/sync_socket.rs), \<open>Workers\<close> (the delivery tasks and the maintenance sweep), \<open>Attestation\<close>
    (device_attestation.rs), \<open>Config\<close> (config.rs, config/).
  \<^item> Push notifications: \<open>Apns\<close> is the relay to Apple (src/server/nod-apns-relay: the policy, the payload, the provider
    token, the call and its answers) and the providers of the server (apns_relay.rs, push.rs) that post to
    it or deliver in their own process; \<open>Apns_Facts\<close> shows that the two are the same to Apple and to a push task.
  \<^item> The client core (src/client/nod-client-core): \<open>Client_State\<close> (models.rs, state.rs) is the reducer that holds what a
    client shows, on the ordered maps of \<open>Ordered_Map\<close>; \<open>Client_Api\<close> (api.rs), \<open>Client_Signing\<close> (signing.rs) and
    \<open>Client_Store\<close> (store.rs) are the HTTP interface, the signature of a decision and the configuration file;
    \<open>Client_Runtime\<close> (runtime.rs, runtime/session.rs, runtime/snapshot.rs), \<open>Client_Workflows\<close> (runtime/workflows.rs,
    runtime/rpc.rs) and \<open>Client_Sync\<close> (runtime/sync.rs) the process around them.
  \<^item> The terminal client (src/client/nod-tui): \<open>Tui_Forms\<close> (domain.rs, alerts.rs, app/, runtime_bridge/) has its lists,
    forms and commands, \<open>Tui\<close> (app.rs, main.rs) the screen, the keys and the loop, \<open>Tui_Facts\<close> what a command
    it gives to the client process rests on.
  \<^item> The desktop client (src/client/nod-desktop/src-tauri): \<open>Desktop\<close> has its preferences, notifications, links, images, badge
    and window commands (preferences.rs, notifier, external_url.rs, media.rs, badge.rs, commands.rs) and the host
    process that runs the client process with them (lib.rs, runtime_messages.rs); \<open>Desktop_Facts\<close> shows what the
    host adds to it: nothing but the window answers, and what notifications, toasts, images and the badge can hold.
  \<^item> The state machines: \<open>Server.server_step\<close> has one rule per operation of the database layer that changes
    state, in any order and with any clock; \<open>Api_Run.api_step\<close> one rule per HTTP handler and worker
    action. \<open>Api_Facts\<close> shows that the second refines the first. \<open>Client_State.reducer_step\<close> and
    \<open>Client_Process.client_reachable\<close> are those of the client; \<open>Client_Process_Facts\<close> shows that its process refines
    the reducer. \<open>Tui_Facts.tui_run\<close> is a run of the terminal client's loop, whose properties hold for every
    sequence of keys, messages and results; \<open>Desktop.desktop_run\<close> is one of the desktop host. \<open>End_To_End\<close> joins server and receipt: an accepted decision verifies offline.

  \<^bold>\<open>State.\<close> The record \<open>db\<close> holds each table as a list of rows in insertion order, \<open>app\<close> adds the audit log and
  the messages sent to clients. An operation that runs in one transaction returns \<open>error + result\<close> and
  leaves no trace when it fails; one made of several statements without a transaction returns the new
  state beside its result. Clocks, fresh identifiers and random choices come from a record \<open>env\<close>, in the
  order in which the code asks for them; \<open>E :: nat \<Rightarrow> env\<close> gives one to each call a handler makes.

  \<^bold>\<open>Third-party code.\<close> The record \<open>ext\<close> (theory \<open>Externals\<close>) stands for SHA-256, hex, base64, the P-256
  primitives, RFC 3339 times, the JSON writer and URL parsing; \<open>attest_ext\<close> for CBOR and Apple's certificate
  check, \<open>tui_ext\<close> for lower case and the debug text of a string, \<open>desktop_ext\<close> for the image decoder and the preference reader, \<open>apns_ext\<close> for serde_json and the provider token's signature. What a theorem relies on is a hypothesis of it: the JSON writer is injective on values whose
  numbers it can write, hex digits are hex digits, and two texts given to the hash do not collide
  (\<open>no_collision\<close>, of named texts, so it can hold). \<open>sample_ext\<close> satisfies them all.

  \<^bold>\<open>Lemma groups.\<close> \<open>Requests_Inv\<close>, \<open>Requests_Ops\<close> and \<open>Transitions\<close> give the invariant of the request tables and the
  journal, one lemma per operation, each an instance of the transition lemma over \<open>advances\<close>. \<open>Accounts_Inv\<close>
  and \<open>Devices_Inv\<close> do the same for accounts. \<open>Lease_Queue\<close> is the contract of the three delivery queues, a
  locale with what a lease guarantees; the journal publisher, the callbacks and the pushes each
  interpret it. \<open>Callback_Order\<close> has the order of callbacks. \<open>Persistence\<close> and \<open>Account_Persistence\<close> say what no
  step ever takes back. \<open>Request_Frames\<close> has what an operation leaves alone. The \<open>_Facts\<close> theories hold the
  properties and, on the concrete run of \<open>Example_Run\<close>, their witnesses.

  \<^bold>\<open>Bounds and loops.\<close> Every definition is total. Loops over tables and lists are structural recursion. A
  wait and a push task, which the code ends by a timeout or by its own conditions, take the moments at
  which they look at the database as a list; that a push task ends by itself after ten of them is a
  theorem. Times are integers of nanoseconds, stored columns of milliseconds; revisions and counters
  are unbounded integers, as they never come near the limits of an \<open>i64\<close>.

  \<^bold>\<open>Not modelled.\<close> Routing tables, HTTP parsing and status mapping of the web framework, TLS, the SQL text and
  its migrations, file and network calls and log lines; the activity page and the settings page of the
  administrator; the drawing of the terminal client (ui/, terminal.rs); the windows, tray and plug-ins of the desktop client; the
  foreign-function bindings.
\<close>

end
